(* ===== verification/Py_Prelude.thy ===== *)
theory Py_Prelude
  imports Complex_Main
begin

text \<open>
  What every component shares: the host's error value, the short vocabulary for a Python
  call that may raise, and the generic facts on lists that the component proofs use.

  A Python call that returns or raises is a value of a sum type, \<open>Inl\<close> for the exception.
  The host's own exception is \<open>ApiError\<close> (m8flow_backend/errors.py): an error code, a
  message and an HTTP status. The optional fields of the class that the modelled code sets
  (the flags of a failed automatic step) are fields of the record too.
\<close>

named_theorems py_eval \<comment> \<open>definitions that witnesses unfold to evaluate a concrete call\<close>
named_theorems table_simps \<comment> \<open>facts about conditional updates of a table\<close>

record api_error =
  error_code :: string
  err_message :: string
  err_status :: int
  err_task_submitted :: "bool option"
  err_step_message :: "string option"
  err_instance :: "int option"

definition ApiError :: "string \<Rightarrow> string \<Rightarrow> int \<Rightarrow> api_error" where
  "ApiError code msg st =
     \<lparr>error_code = code, err_message = msg, err_status = st,
      err_task_submitted = None, err_step_message = None, err_instance = None\<rparr>"

lemma ApiError_sel [simp]:
  "error_code (ApiError c m s) = c"
  "err_message (ApiError c m s) = m"
  "err_status (ApiError c m s) = s"
  "err_task_submitted (ApiError c m s) = None"
  "err_step_message (ApiError c m s) = None"
  "err_instance (ApiError c m s) = None"
  by (simp_all add: ApiError_def)

lemma ApiError_eq [simp]:
  "ApiError c m s = ApiError c' m' s' \<longleftrightarrow> c = c' \<and> m = m' \<and> s = s'"
  by (simp add: ApiError_def)

subsection \<open>Optional values and truthiness\<close>

text \<open>\<open>x or y\<close> on an optional value whose only falsy value is \<open>None\<close>, and the truthiness of
  an optional string (\<open>None\<close> and the empty string are false).\<close>

definition or_else :: "'a option \<Rightarrow> 'a option \<Rightarrow> 'a option" where
  "or_else x y = (case x of None \<Rightarrow> y | Some v \<Rightarrow> Some v)"

definition or_default :: "'a option \<Rightarrow> 'a \<Rightarrow> 'a" where
  "or_default x d = (case x of None \<Rightarrow> d | Some v \<Rightarrow> v)"

definition truthy_str :: "string option \<Rightarrow> bool" where
  "truthy_str x = (case x of None \<Rightarrow> False | Some s \<Rightarrow> s \<noteq> [])"

definition or_str :: "string option \<Rightarrow> string option \<Rightarrow> string option" where
  "or_str x y = (if truthy_str x then x else y)"

lemmas optional_defs [py_eval] = or_else_def or_default_def truthy_str_def or_str_def

lemma truthy_str_simps [simp]:
  "\<not> truthy_str None"
  "truthy_str (Some s) \<longleftrightarrow> s \<noteq> []"
  by (simp_all add: truthy_str_def)

lemma or_default_simps [simp]:
  "or_default None d = d" "or_default (Some v) d = v"
  by (simp_all add: or_default_def)

lemma or_else_simps [simp]:
  "or_else None y = y" "or_else (Some v) y = Some v"
  by (simp_all add: or_else_def)

subsection \<open>Lists\<close>

text \<open>Appending what has not been seen, in order: the code's \<open>seen\<close>-set idiom.\<close>

fun dedup_into :: "'a list \<Rightarrow> 'a list \<Rightarrow> 'a list" where
  "dedup_into acc [] = acc"
| "dedup_into acc (x # xs) = dedup_into (if x \<in> set acc then acc else acc @ [x]) xs"

lemma set_dedup_into [simp]: "set (dedup_into acc xs) = set acc \<union> set xs"
  by (induction acc xs rule: dedup_into.induct) auto

lemma distinct_dedup_into: "distinct acc \<Longrightarrow> distinct (dedup_into acc xs)"
  by (induction acc xs rule: dedup_into.induct) auto

lemma dedup_into_prefix: "\<exists>ys. dedup_into acc xs = acc @ ys"
proof (induction acc xs rule: dedup_into.induct)
  case (2 acc x xs)
  then show ?case by (cases "x \<in> set acc") auto
qed simp

lemma find_Some_iff_props:
  "find P xs = Some x \<Longrightarrow> x \<in> set xs \<and> P x"
  by (metis find_Some_iff nth_mem)

lemma find_map_same:
  assumes "\<And>x. x \<in> set xs \<Longrightarrow> P (f x) = P x"
  shows "find P (map f xs) = map_option f (find P xs)"
  using assms by (induction xs) auto

lemma find_cong_on:
  "(\<And>x. x \<in> set xs \<Longrightarrow> P x = Q x) \<Longrightarrow> find P xs = find Q xs"
  by (induction xs) auto

lemma find_None_conv: "find P xs = None \<longleftrightarrow> (\<forall>x \<in> set xs. \<not> P x)"
  by (auto simp: find_None_iff)

lemma find_append: "find P (xs @ ys) = or_else (find P xs) (find P ys)"
  by (induction xs) auto

lemma find_the_only:
  assumes "x \<in> set xs" "P x" "\<And>y. y \<in> set xs \<Longrightarrow> P y \<Longrightarrow> y = x"
  shows "find P xs = Some x"
proof (cases "find P xs")
  case None
  with assms(1,2) show ?thesis by (simp add: find_None_conv)
next
  case (Some y)
  with assms(3) show ?thesis by (simp add: find_Some_iff_props)
qed

text \<open>Consecutive slices of a list: the pages of a listing.\<close>

lemma concat_slices:
  assumes "0 < n"
  shows "concat (map (\<lambda>i. take n (drop (i * n) xs)) [0..<k]) = take (k * n) xs"
proof (induction k)
  case (Suc k)
  have "take (Suc k * n) xs = take (k * n) xs @ take n (drop (k * n) xs)"
    by (metis add.commute mult_Suc take_add)
  with Suc show ?case by simp
qed simp

lemma map_sum_Inr: "map_sum id f x = Inr y \<longleftrightarrow> (\<exists>z. x = Inr z \<and> y = f z)"
  by (cases x) auto

end
