(* ===== verification/Py_Text.thy ===== *)
theory Py_Text
  imports Py_Prelude
begin

text \<open>
  Python's string operations on \<open>string\<close>, a list of characters read as the code points
  below 256. \<open>str.strip\<close> removes the white space of that range; \<open>upper\<close> and \<open>lower\<close> change
  the ASCII letters (the code only compares their results with ASCII words).
\<close>

definition py_space :: "char \<Rightarrow> bool" where
  "py_space c \<longleftrightarrow> c \<in> set [CHR '' '', CHR 0x09, CHR 0x0A, CHR 0x0B, CHR 0x0C, CHR 0x0D,
                          CHR 0x1C, CHR 0x1D, CHR 0x1E, CHR 0x1F, CHR 0x85, CHR 0xA0]"

definition lstrip_if :: "(char \<Rightarrow> bool) \<Rightarrow> string \<Rightarrow> string" where
  "lstrip_if p s = dropWhile p s"

definition rstrip_if :: "(char \<Rightarrow> bool) \<Rightarrow> string \<Rightarrow> string" where
  "rstrip_if p s = rev (dropWhile p (rev s))"

definition strip_if :: "(char \<Rightarrow> bool) \<Rightarrow> string \<Rightarrow> string" where
  "strip_if p s = rstrip_if p (lstrip_if p s)"

definition strip :: "string \<Rightarrow> string" where
  "strip s = strip_if py_space s"

definition startswith :: "string \<Rightarrow> string \<Rightarrow> bool" where
  "startswith s p \<longleftrightarrow> take (length p) s = p"

definition endswith :: "string \<Rightarrow> string \<Rightarrow> bool" where
  "endswith s p \<longleftrightarrow> startswith (rev s) (rev p)"

fun substr_in :: "string \<Rightarrow> string \<Rightarrow> bool" where
  "substr_in p [] = (p = [])"
| "substr_in p (c # s) = (startswith (c # s) p \<or> substr_in p s)"

text \<open>\<open>s.split(c)\<close> for a one-character separator: never empty.\<close>

fun split_on :: "char \<Rightarrow> string \<Rightarrow> string list" where
  "split_on c [] = [[]]"
| "split_on c (x # xs) =
     (if x = c then [] # split_on c xs
      else (case split_on c xs of [] \<Rightarrow> [[x]] | w # ws \<Rightarrow> (x # w) # ws))"

text \<open>\<open>s.partition(c)\<close>: what precedes the first separator, whether there is one, what follows.\<close>

fun partition_at :: "char \<Rightarrow> string \<Rightarrow> string \<times> bool \<times> string" where
  "partition_at c [] = ([], False, [])"
| "partition_at c (x # xs) =
     (if x = c then ([], True, xs)
      else (case partition_at c xs of (h, b, t) \<Rightarrow> (x # h, b, t)))"

text \<open>\<open>s.rsplit(c, 1)\<close>: the two sides of the last separator, or the whole string.\<close>

definition rsplit_head :: "char \<Rightarrow> string \<Rightarrow> string" where
  "rsplit_head c s =
     (case partition_at c (rev s) of (t, found, h) \<Rightarrow> if found then rev h else s)"

definition rsplit_last :: "char \<Rightarrow> string \<Rightarrow> string" where
  "rsplit_last c s = rev (fst (partition_at c (rev s)))"

definition ascii_upper :: "char \<Rightarrow> char" where
  "ascii_upper c = (let n = of_char c :: nat in if 97 \<le> n \<and> n \<le> 122 then char_of (n - 32) else c)"

definition ascii_lower :: "char \<Rightarrow> char" where
  "ascii_lower c = (let n = of_char c :: nat in if 65 \<le> n \<and> n \<le> 90 then char_of (n + 32) else c)"

definition upper :: "string \<Rightarrow> string" where "upper s = map ascii_upper s"
definition lower :: "string \<Rightarrow> string" where "lower s = map ascii_lower s"

text \<open>\<open>str.lower\<close> where its exact result matters.\<close>

definition code_point :: "char \<Rightarrow> nat" where
  "code_point c = of_char c"

definition lower_char :: "char \<Rightarrow> char" where
  "lower_char c =
     (let n = code_point c in
      if (65 \<le> n \<and> n \<le> 90) \<or> (192 \<le> n \<and> n \<le> 222 \<and> n \<noteq> 215) then char_of (n + 32) else c)"

definition py_lower :: "string \<Rightarrow> string" where
  "py_lower s = map lower_char s"

fun join :: "string \<Rightarrow> string list \<Rightarrow> string" where
  "join sep [] = []"
| "join sep [x] = x"
| "join sep (x # y # ys) = x @ sep @ join sep (y # ys)"

fun replace_char :: "char \<Rightarrow> string \<Rightarrow> string \<Rightarrow> string" where
  "replace_char c r [] = []"
| "replace_char c r (x # xs) = (if x = c then r else [x]) @ replace_char c r xs"

text \<open>\<open>str(n)\<close> of an integer.\<close>

definition digit_char :: "nat \<Rightarrow> char" where
  "digit_char d = char_of (48 + d)"

fun nat_str :: "nat \<Rightarrow> string" where
  "nat_str n = (if n < 10 then [digit_char n] else nat_str (n div 10) @ [digit_char (n mod 10)])"

declare nat_str.simps [simp del]

definition int_str :: "int \<Rightarrow> string" where
  "int_str n = (if n < 0 then ''-'' @ nat_str (nat (- n)) else nat_str (nat n))"

text \<open>\<open>int(text)\<close>: digits with single underscores between them, after an optional sign.\<close>

definition is_digit :: "char \<Rightarrow> bool" where
  "is_digit c = (let n = of_char c :: nat in 48 \<le> n \<and> n \<le> 57)"

fun digits_value :: "nat \<Rightarrow> bool \<Rightarrow> string \<Rightarrow> nat option" where
  "digits_value acc after_digit [] = (if after_digit then Some acc else None)"
| "digits_value acc after_digit (c # cs) =
     (if is_digit c then digits_value (10 * acc + (of_char c - 48)) True cs
      else if c = CHR ''_'' \<and> after_digit then digits_value acc False cs else None)"

definition py_int :: "string \<Rightarrow> int option" where
  "py_int text =
     (case strip text of
        [] \<Rightarrow> None
      | c # cs \<Rightarrow>
          (if c = CHR ''-'' then map_option (\<lambda>n. - int n) (digits_value 0 False cs)
           else if c = CHR ''+'' then map_option int (digits_value 0 False cs)
           else map_option int (digits_value 0 False (c # cs))))"

definition is_alpha :: "char \<Rightarrow> bool" where
  "is_alpha c = (let n = of_char c :: nat in (65 \<le> n \<and> n \<le> 90) \<or> (97 \<le> n \<and> n \<le> 122))"

lemmas text_defs [py_eval] = py_space_def lstrip_if_def rstrip_if_def strip_if_def strip_def
  startswith_def endswith_def rsplit_head_def rsplit_last_def is_digit_def py_int_def is_alpha_def

subsection \<open>Stripping\<close>

lemma rstrip_if_Nil [simp]: "rstrip_if p [] = []"
  by (simp add: rstrip_if_def)

lemma strip_Nil [simp]: "strip [] = []"
  by (simp add: strip_def strip_if_def lstrip_if_def)

lemma strip_if_last:
  "strip_if p s \<noteq> [] \<Longrightarrow> \<not> p (last (strip_if p s))"
  unfolding strip_if_def rstrip_if_def
  by (metis hd_dropWhile last_rev rev.simps(1))

lemma rstrip_if_hd: "rstrip_if p s \<noteq> [] \<Longrightarrow> hd (rstrip_if p s) = hd s"
proof -
  assume "rstrip_if p s \<noteq> []"
  moreover have "s = rstrip_if p s @ rev (takeWhile p (rev s))"
    unfolding rstrip_if_def
    by (metis rev_append rev_rev_ident takeWhile_dropWhile_id)
  ultimately show ?thesis by (metis hd_append2)
qed

lemma strip_if_hd:
  assumes "strip_if p s \<noteq> []"
  shows "\<not> p (hd (strip_if p s))"
proof -
  from assms have ne: "rstrip_if p (dropWhile p s) \<noteq> []"
    by (simp add: strip_if_def lstrip_if_def)
  then have "dropWhile p s \<noteq> []" by (metis rstrip_if_Nil)
  then have "\<not> p (hd (dropWhile p s))" by (rule hd_dropWhile)
  with rstrip_if_hd [OF ne] show ?thesis
    by (simp add: strip_if_def lstrip_if_def)
qed

lemma dropWhile_hd_id: "s \<noteq> [] \<Longrightarrow> \<not> p (hd s) \<Longrightarrow> dropWhile p s = s"
  by (cases s) auto

lemma rstrip_if_id: "s \<noteq> [] \<Longrightarrow> \<not> p (last s) \<Longrightarrow> rstrip_if p s = s"
  by (simp add: rstrip_if_def dropWhile_hd_id hd_rev)

lemma strip_if_id: "s = [] \<or> (\<not> p (hd s) \<and> \<not> p (last s)) \<Longrightarrow> strip_if p s = s"
  by (cases "s = []") (auto simp: strip_if_def lstrip_if_def dropWhile_hd_id rstrip_if_id)

lemma strip_if_set: "set (strip_if p s) \<subseteq> set s"
  unfolding strip_if_def rstrip_if_def lstrip_if_def by (auto dest!: set_dropWhileD)

lemma strip_if_idem [simp]: "strip_if p (strip_if p s) = strip_if p s"
  by (rule strip_if_id) (auto simp: strip_if_hd strip_if_last)

lemma strip_idem [simp]: "strip (strip s) = strip s"
  by (simp add: strip_def)

subsection \<open>Prefixes\<close>

lemma startswith_iff: "startswith s p \<longleftrightarrow> (\<exists>t. s = p @ t)"
  unfolding startswith_def by (metis append_eq_conv_conj)

lemma startswith_append [simp]: "startswith (p @ t) p"
  by (simp add: startswith_def)

lemma startswith_refl [simp]: "startswith s s"
  by (simp add: startswith_def)

lemma startswith_Nil [simp]: "startswith s []"
  by (simp add: startswith_def)

lemma endswith_iff: "endswith s p \<longleftrightarrow> (\<exists>t. s = t @ p)"
  unfolding endswith_def startswith_iff by (metis rev_append rev_rev_ident)

subsection \<open>Splitting and joining\<close>

lemma split_on_nonempty [simp]: "split_on c s \<noteq> []"
  by (induction s) (auto split: list.splits)

lemma split_on_no_sep: "w \<in> set (split_on c s) \<Longrightarrow> c \<notin> set w"
  by (induction s arbitrary: w) (auto split: list.splits if_splits)

lemma split_on_id: "c \<notin> set s \<Longrightarrow> split_on c s = [s]"
  by (induction s) auto

lemma join_split_on: "join [c] (split_on c s) = s"
proof (induction s)
  case (Cons x xs)
  obtain w ws where s: "split_on c xs = w # ws"
    by (cases "split_on c xs") auto
  with Cons show ?case by (cases ws) auto
qed simp

lemma split_on_sep: "c \<notin> set w \<Longrightarrow> split_on c (w @ c # s) = w # split_on c s"
  by (induction w) auto

lemma split_on_join:
  "ws \<noteq> [] \<Longrightarrow> \<forall>w \<in> set ws. c \<notin> set w \<Longrightarrow> split_on c (join [c] ws) = ws"
  by (induction "[c]" ws rule: join.induct) (auto simp: split_on_id split_on_sep)

lemma partition_at_sep: "c \<notin> set h \<Longrightarrow> partition_at c (h @ c # t) = (h, True, t)"
  by (induction h) auto

lemma partition_at_found:
  "partition_at c s = (h, True, t) \<Longrightarrow> s = h @ c # t \<and> c \<notin> set h"
  by (induction s arbitrary: h) (auto split: if_splits prod.splits)

lemma partition_at_not_found:
  "partition_at c s = (h, False, t) \<Longrightarrow> s = h \<and> t = [] \<and> c \<notin> set h"
  by (induction s arbitrary: h) (auto split: if_splits prod.splits)

lemma partition_at_absent: "c \<notin> set s \<Longrightarrow> partition_at c s = (s, False, [])"
  by (induction s) auto

subsection \<open>Lengths\<close>

lemma length_upper [simp]: "length (upper s) = length s"
  and length_lower [simp]: "length (lower s) = length s"
  by (simp_all add: upper_def lower_def)

lemma set_strip: "c \<in> set (strip s) \<Longrightarrow> c \<in> set s"
  unfolding strip_def strip_if_def rstrip_if_def lstrip_if_def
  by (metis set_dropWhileD set_rev)

subsection \<open>Lower case\<close>

lemma code_point_eq: "c = d \<longleftrightarrow> code_point c = code_point d"
  by (simp add: code_point_def)

lemma py_lower_simps [simp]:
  "py_lower [] = []" "py_lower (c # s) = lower_char c # py_lower s" "py_lower (s @ t) = py_lower s @ py_lower t"
  "length (py_lower s) = length s" "(py_lower s = []) = (s = [])"
  by (simp_all add: py_lower_def)

lemma lower_code:
  "code_point (lower_char c) = (if (65 \<le> code_point c \<and> code_point c \<le> 90) \<or>
     (192 \<le> code_point c \<and> code_point c \<le> 222 \<and> code_point c \<noteq> 215) then code_point c + 32 else code_point c)"
  by (simp add: lower_char_def Let_def code_point_def)

lemma lower_char_idem [simp]: "lower_char (lower_char c) = lower_char c"
  unfolding code_point_eq [of "lower_char (lower_char c)"] lower_code [of "lower_char c"]
  by (simp add: lower_code [of c])

lemma py_lower_idem [simp]: "py_lower (py_lower s) = py_lower s"
  by (simp add: py_lower_def)

end
