(* ===== verification/Row_Table.thy ===== *)
theory Row_Table
  imports Py_Prelude
begin

text \<open>
  A database table is the list of its rows in primary-key order, an
  \<open>UPDATE ... WHERE guard SET ...\<close> statement a map over it, and \<open>rowcount\<close> the number of
  rows the guard selects. A session keeps the durable state and the working one: \<open>commit\<close>
  makes the working state durable, \<open>rollback\<close> returns to the durable one
  (m8flow_backend/db.py: \<open>sessionmaker(autoflush=False, expire_on_commit=False)\<close>).
\<close>

definition update_where :: "('r \<Rightarrow> bool) \<Rightarrow> ('r \<Rightarrow> 'r) \<Rightarrow> 'r list \<Rightarrow> 'r list" where
  "update_where P f rows = map (\<lambda>r. if P r then f r else r) rows"

definition rowcount :: "('r \<Rightarrow> bool) \<Rightarrow> 'r list \<Rightarrow> nat" where
  "rowcount P rows = length (filter P rows)"

record 'w session =
  durable :: 'w
  working :: 'w

definition commit :: "'w session \<Rightarrow> 'w session" where
  "commit s = s\<lparr>durable := working s\<rparr>"

definition rollback :: "'w session \<Rightarrow> 'w session" where
  "rollback s = s\<lparr>working := durable s\<rparr>"

definition modify :: "('w \<Rightarrow> 'w) \<Rightarrow> 'w session \<Rightarrow> 'w session" where
  "modify f s = s\<lparr>working := f (working s)\<rparr>"

lemmas session_defs [py_eval] = commit_def rollback_def modify_def
lemmas table_defs [py_eval] = update_where_def rowcount_def

lemma session_sel [simp]:
  "durable (commit s) = working s" "working (commit s) = working s"
  "durable (rollback s) = durable s" "working (rollback s) = durable s"
  "durable (modify f s) = durable s" "working (modify f s) = f (working s)"
  by (simp_all add: session_defs)

definition clean :: "'w session \<Rightarrow> bool" where
  "clean s \<longleftrightarrow> working s = durable s"

lemma clean_commit [simp]: "clean (commit s)" and clean_rollback [simp]: "clean (rollback s)"
  by (simp_all add: clean_def)

lemma update_where_id [table_simps]: "\<forall>r \<in> set rows. \<not> P r \<Longrightarrow> update_where P f rows = rows"
  by (auto simp: update_where_def map_idI)

lemma update_where_Cons: "update_where P f (x # xs) = (if P x then f x else x) # update_where P f xs"
  by (simp add: update_where_def)

lemma set_update_where: "set (update_where P f rows) = (\<lambda>r. if P r then f r else r) ` set rows"
  by (simp add: update_where_def)

lemma length_update_where [simp]: "length (update_where P f rows) = length rows"
  by (simp add: update_where_def)

lemma in_update_where:
  "r' \<in> set (update_where P f rows) \<longleftrightarrow> (\<exists>r \<in> set rows. r' = (if P r then f r else r))"
  by (auto simp: update_where_def)

lemma update_where_hit: "r \<in> set rows \<Longrightarrow> P r \<Longrightarrow> f r \<in> set (update_where P f rows)"
  and update_where_miss: "r \<in> set rows \<Longrightarrow> \<not> P r \<Longrightarrow> r \<in> set (update_where P f rows)"
  by (auto simp: update_where_def image_iff)

lemma map_key_update_where:
  "(\<And>r. key (f r) = key r) \<Longrightarrow> map key (update_where P f rows) = map key rows"
  by (simp add: update_where_def)

lemma update_where_keys_all:
  assumes "\<And>r. key (f r) = key r"
  shows "(\<forall>r \<in> set (update_where P f rows). Q (key r)) \<longleftrightarrow> (\<forall>r \<in> set rows. Q (key r))"
proof -
  have "(\<forall>r \<in> set xs. Q (key r)) \<longleftrightarrow> list_all Q (map key xs)" for xs
    by (simp add: list_all_iff)
  then show ?thesis by (simp only: map_key_update_where assms)
qed

lemma find_update_where:
  assumes "\<And>r. key (f r) = key r"
  shows "find (\<lambda>r. key r = k) (update_where P f rows)
       = map_option (\<lambda>r. if P r then f r else r) (find (\<lambda>r. key r = k) rows)"
  unfolding update_where_def by (rule find_map_same) (simp add: assms)

lemma rowcount_0_iff [table_simps]: "rowcount P rows = 0 \<longleftrightarrow> (\<forall>r \<in> set rows. \<not> P r)"
  by (simp add: rowcount_def filter_empty_conv)

lemma rowcount_Suc_0: "rowcount P rows = 1 \<Longrightarrow> \<exists>r \<in> set rows. P r"
  by (metis One_nat_def rowcount_0_iff zero_neq_one)

lemma rowcount_key_le_1:
  "distinct (map key rows) \<Longrightarrow> rowcount (\<lambda>r. key r = k \<and> P r) rows \<le> 1"
proof (induction rows)
  case (Cons r rows)
  show ?case
  proof (cases "key r = k")
    case True
    with Cons.prems have "\<forall>x \<in> set rows. key x \<noteq> k"
      using image_eqI [of k key _ "set rows"] by (metis distinct.simps(2) list.simps(9) list.set_map)
    then have "filter (\<lambda>x. key x = k \<and> P x) rows = []" by (auto simp: filter_empty_conv)
    then show ?thesis by (simp add: rowcount_def)
  qed (use Cons in \<open>simp add: rowcount_def\<close>)
qed (simp add: rowcount_def)

lemma rowcount_key_1_iff:
  assumes "distinct (map key rows)"
  shows "rowcount (\<lambda>r. key r = k \<and> P r) rows = 1 \<longleftrightarrow> (\<exists>r \<in> set rows. key r = k \<and> P r)"
proof -
  have "rowcount (\<lambda>r. key r = k \<and> P r) rows = 1 \<longleftrightarrow> rowcount (\<lambda>r. key r = k \<and> P r) rows \<noteq> 0"
    using rowcount_key_le_1 [OF assms, of k P] by linarith
  then show ?thesis by (simp add: rowcount_0_iff)
qed

lemma find_key_unique:
  assumes "distinct (map key rows)" "r \<in> set rows" "key r = k"
  shows "find (\<lambda>x. key x = k) rows = Some r"
  using assms
proof (induction rows)
  case (Cons x rows)
  show ?case
  proof (cases "r = x")
    case False
    with Cons.prems have "k \<in> key ` set rows" by (intro image_eqI [of _ _ r]) auto
    with Cons.prems have "key x \<noteq> k" by auto
    with Cons False show ?thesis by simp
  next
    case True
    with Cons.prems(3) have "key x = k" by simp
    with True show ?thesis by simp
  qed
qed simp

lemma same_key_same_row:
  "distinct (map key rows) \<Longrightarrow> r \<in> set rows \<Longrightarrow> x \<in> set rows \<Longrightarrow> key r = key x \<Longrightarrow> r = x"
  by (auto simp: distinct_map inj_on_def)

lemma find_key_exists:
  "r \<in> set rows \<Longrightarrow> key r = k \<Longrightarrow> \<exists>r'. find (\<lambda>x. key x = k) rows = Some r'"
  by (cases "find (\<lambda>x. key x = k) rows") (auto simp: find_None_conv)

subsection \<open>Compare and set\<close>

text \<open>
  The statement several services build their atomicity on: an update whose guard is false of
  every row it has written, and that never touches the key. Whoever finds \<open>rowcount\<close> 1 owns
  the row, and running the statement again selects nothing.
\<close>

locale compare_and_set =
  fixes key :: "'r \<Rightarrow> 'k"
    and guard :: "'r \<Rightarrow> bool"
    and act :: "'r \<Rightarrow> 'r"
  assumes key_kept: "key (act r) = key r"
    and disables: "guard r \<Longrightarrow> \<not> guard (act r)"
begin

lemma keys_kept: "map key (update_where (\<lambda>r. P r \<and> guard r) act rows) = map key rows"
  by (rule map_key_update_where) (rule key_kept)

lemma again_selects_none:
  "rowcount (\<lambda>r. key r = k \<and> guard r) (update_where (\<lambda>r. key r = k \<and> guard r) act rows) = 0"
proof -
  have "\<not> (key r' = k \<and> guard r')"
    if "r \<in> set rows" "r' = (if key r = k \<and> guard r then act r else r)" for r r'
    using that disables [of r] by (cases "key r = k \<and> guard r") auto
  then show ?thesis
    unfolding rowcount_0_iff Ball_def in_update_where by blast
qed

lemma again_is_noop:
  "update_where (\<lambda>r. key r = k \<and> guard r) act (update_where (\<lambda>r. key r = k \<and> guard r) act rows)
   = update_where (\<lambda>r. key r = k \<and> guard r) act rows"
proof (rule update_where_id)
  show "\<forall>r \<in> set (update_where (\<lambda>r. key r = k \<and> guard r) act rows). \<not> (key r = k \<and> guard r)"
    using again_selects_none by (simp only: rowcount_0_iff)
qed

lemma others_kept:
  "r \<in> set rows \<Longrightarrow> key r \<noteq> k \<Longrightarrow> r \<in> set (update_where (\<lambda>r. key r = k \<and> guard r) act rows)"
  unfolding in_update_where by metis

lemma row_after:
  "find (\<lambda>r. key r = k) (update_where (\<lambda>r. key r = k \<and> guard r) act rows)
   = map_option (\<lambda>r. if guard r then act r else r) (find (\<lambda>r. key r = k) rows)"
proof -
  have "find (\<lambda>r. key r = k) (update_where (\<lambda>r. key r = k \<and> guard r) act rows)
      = map_option (\<lambda>r. if key r = k \<and> guard r then act r else r) (find (\<lambda>r. key r = k) rows)"
    by (rule find_update_where) (rule key_kept)
  then show ?thesis by (cases "find (\<lambda>r. key r = k) rows") (auto dest: find_Some_iff_props)
qed

end

subsection \<open>Row lifecycles\<close>

text \<open>
  The other shared contract: a family of operations that move one row only along a
  preorder (for example: a final status is never left). It then holds of any sequence.
\<close>

locale row_lifecycle =
  fixes op :: "'o \<Rightarrow> 'r \<Rightarrow> 'r"
    and allowed :: "'r \<Rightarrow> 'r \<Rightarrow> bool"
  assumes allowed_refl: "allowed r r"
    and allowed_trans: "allowed r s \<Longrightarrow> allowed s t \<Longrightarrow> allowed r t"
    and op_allowed: "allowed r (op a r)"
begin

lemma run_allowed: "allowed r (fold op as r)"
proof (induction as arbitrary: r)
  case Nil
  show ?case by (simp add: allowed_refl)
next
  case (Cons a as)
  have "allowed (op a r) (fold op as (op a r))" by (rule Cons.IH)
  then show ?case using op_allowed [of r a] by (auto intro: allowed_trans)
qed

end

subsection \<open>Histories of steps\<close>

text \<open>
  The contract of a component whose operations are the steps of a relation: an invariant that every
  step keeps and a preorder on the states that no step leaves. It extends to every history.
\<close>

locale step_system =
  fixes step :: "'s \<Rightarrow> 's \<Rightarrow> bool"
    and inv :: "'s \<Rightarrow> bool"
    and evolves :: "'s \<Rightarrow> 's \<Rightarrow> bool"
  assumes step_inv: "inv s \<Longrightarrow> step s t \<Longrightarrow> inv t"
    and step_evolves: "inv s \<Longrightarrow> step s t \<Longrightarrow> evolves s t"
    and evolves_refl: "evolves s s"
    and evolves_trans: "evolves s t \<Longrightarrow> evolves t u \<Longrightarrow> evolves s u"
begin

lemma history: "step\<^sup>*\<^sup>* s t \<Longrightarrow> inv s \<Longrightarrow> inv t \<and> evolves s t"
proof (induction rule: rtranclp_induct)
  case base
  then show ?case by (simp add: evolves_refl)
next
  case (step t u)
  then have "inv t" "evolves s t" by auto
  with step.hyps(2) show ?case using step_inv [of t u] step_evolves [of t u] evolves_trans by blast
qed

end

end
