(* ===== verification/World.thy ===== *)
theory World
  imports Py_Value Row_Table
begin

text \<open>
  The tracking row of an external-form link (models/external_form_request.py): its statuses,
  the two status sets every service tests, the bounded \<open>last_error\<close> and the two dictionaries
  that leave the backend. A clock reading is whole seconds; \<open>created_at\<close> is only compared
  with whole seconds, for which rounding down changes nothing.
\<close>

datatype form_status =
    Pending | Sending | Notified | Submitted | Completed | Failed | Expired
  | Superseded | Smtp_unconfigured | Cancelled

primrec status_str :: "form_status \<Rightarrow> string" where
  "status_str Pending = ''pending''"
| "status_str Sending = ''sending''"
| "status_str Notified = ''notified''"
| "status_str Submitted = ''submitted''"
| "status_str Completed = ''completed''"
| "status_str Failed = ''failed''"
| "status_str Expired = ''expired''"
| "status_str Superseded = ''superseded''"
| "status_str Smtp_unconfigured = ''smtp_unconfigured''"
| "status_str Cancelled = ''cancelled''"

definition ACTIONABLE_STATUSES :: "form_status list" where
  "ACTIONABLE_STATUSES = [Pending, Sending, Notified, Failed]"

definition OPEN_STATUSES :: "form_status list" where
  "OPEN_STATUSES = ACTIONABLE_STATUSES @ [Smtp_unconfigured]"

definition LAST_ERROR_MAX_LENGTH :: nat where
  "LAST_ERROR_MAX_LENGTH = 500"

definition truncate_last_error :: "string option \<Rightarrow> string option" where
  "truncate_last_error message =
     (let text = strip (or_default message [])
      in if text = [] then None else Some (take LAST_ERROR_MAX_LENGTH text))"

record form_request =
  fr_id :: int
  fr_tenant_id :: string
  fr_reference_id :: string
  fr_process_instance_id :: int
  fr_task_guid :: string
  fr_recipient_user_id :: int
  fr_email :: string
  fr_user_details :: "(string \<times> pyval) list option"
  fr_external_form_url :: string
  fr_status :: form_status
  fr_form_submission_data :: "(string \<times> pyval) list option"
  fr_expires_at :: "int option"
  fr_attempts :: int
  fr_notified_at :: "int option"
  fr_last_error :: "string option"
  fr_created_at :: int
  fr_updated_at :: int

definition is_actionable :: "form_request \<Rightarrow> bool" where
  "is_actionable row \<longleftrightarrow> fr_status row \<in> set ACTIONABLE_STATUSES"

definition is_open :: "form_request \<Rightarrow> bool" where
  "is_open row \<longleftrightarrow> fr_status row \<in> set OPEN_STATUSES"

definition to_public_dict :: "form_request \<Rightarrow> (string \<times> pyval) list" where
  "to_public_dict row =
     [(''reference_id'', PStr (fr_reference_id row)),
      (''status'', PStr (status_str (fr_status row))),
      (''external_form_url'', PStr (fr_external_form_url row)),
      (''process_instance_id'', PInt (fr_process_instance_id row))]"

definition opt_int :: "int option \<Rightarrow> pyval" where
  "opt_int x = (case x of None \<Rightarrow> PNone | Some n \<Rightarrow> PInt n)"

definition opt_str :: "string option \<Rightarrow> pyval" where
  "opt_str x = (case x of None \<Rightarrow> PNone | Some s \<Rightarrow> PStr s)"

text \<open>\<open>isoformat\<close> is the rendering of a time stamp (standard library, a parameter).\<close>

definition to_admin_dict :: "(int \<Rightarrow> string) \<Rightarrow> form_request \<Rightarrow> (string \<times> pyval) list" where
  "to_admin_dict isoformat row =
     [(''id'', PInt (fr_id row)),
      (''process_instance_id'', PInt (fr_process_instance_id row)),
      (''task_guid'', PStr (fr_task_guid row)),
      (''email'', PStr (fr_email row)),
      (''status'', PStr (status_str (fr_status row))),
      (''attempts'', PInt (fr_attempts row)),
      (''last_error'', opt_str (fr_last_error row)),
      (''created_at'', PStr (isoformat (fr_created_at row))),
      (''updated_at'', PStr (isoformat (fr_updated_at row))),
      (''notified_at_in_seconds'', opt_int (fr_notified_at row)),
      (''expires_at_in_seconds'', opt_int (fr_expires_at row))]"

lemmas status_sets = ACTIONABLE_STATUSES_def OPEN_STATUSES_def
lemmas form_request_defs [py_eval] = status_sets is_actionable_def is_open_def
  truncate_last_error_def LAST_ERROR_MAX_LENGTH_def

lemma actionable_is_open: "is_actionable row \<Longrightarrow> is_open row"
  by (simp add: is_actionable_def is_open_def OPEN_STATUSES_def)

lemma open_iff: "is_open row \<longleftrightarrow> is_actionable row \<or> fr_status row = Smtp_unconfigured"
  by (auto simp: is_actionable_def is_open_def OPEN_STATUSES_def)

text \<open>What \<open>truncate_last_error\<close> stores always fits its column, and is never blank.\<close>

lemma truncate_last_error_bound:
  "truncate_last_error m = Some e \<Longrightarrow> length e \<le> LAST_ERROR_MAX_LENGTH \<and> e \<noteq> []"
  by (auto simp: truncate_last_error_def Let_def LAST_ERROR_MAX_LENGTH_def split: if_splits)

text \<open>The final statuses: no operation of any service leaves them.\<close>

definition final_statuses :: "form_status list" where
  "final_statuses = [Completed, Superseded, Cancelled]"

definition fits_last_error :: "form_request \<Rightarrow> bool" where
  "fits_last_error row \<longleftrightarrow>
     (case fr_last_error row of None \<Rightarrow> True | Some e \<Rightarrow> length e \<le> LAST_ERROR_MAX_LENGTH)"

lemma fits_truncated: "fits_last_error (row\<lparr>fr_last_error := truncate_last_error m\<rparr>)"
  by (auto simp: fits_last_error_def dest: truncate_last_error_bound split: option.splits)

text \<open>
  The database the workflow side of the host works on: the host's own link table and the
  columns the host code reads of the engine's tables (m8flow_core's models are a separate
  package; a record here holds exactly the attributes the host accesses). \<open>form_seq\<close> is the
  last primary key handed out for the link table.
\<close>

record task_definition =
  td_tenant_id :: string
  td_process_definition_id :: int
  bpmn_identifier :: string
  td_typename :: string
  bpmn_name :: "string option"
  properties_json :: pyval

record app_user =
  user_id :: int
  username :: string
  user_email :: "string option"

record work_item =
  wi_id :: int
  wi_tenant_id :: string
  wi_process_instance_id :: int
  wi_task_guid :: string              \<comment> \<open>empty for a missing guid: the host only tests its truth\<close>
  wi_completed :: bool
  wi_task_name :: "string option"
  wi_task_title :: "string option"
  wi_model_display_name :: "string option"
  bpmn_process_identifier :: string
  json_metadata :: pyval
  wi_task_model :: bool               \<comment> \<open>\<open>work_item.task_model is not None\<close>\<close>
  wi_task_definition :: "task_definition option"
  potential_owners :: "app_user list"

record process_instance =
  pi_id :: int
  pi_tenant_id :: string
  pi_status :: string
  pi_definition_id :: "int option"
  pi_model_identifier :: string
  pi_data_hash :: "string option"     \<comment> \<open>\<open>instance.bpmn_process.json_data_hash\<close>\<close>

record instance_event =
  ev_tenant_id :: string
  ev_process_instance_id :: int
  ev_type :: string
  ev_task_guid :: string
  ev_user_id :: int

record instance_error =
  ie_tenant_id :: string
  ie_process_instance_id :: int
  ie_task_guid :: "string option"
  ie_message :: string
  ie_created_at :: int

record task_row =
  tr_guid :: string
  tr_tenant_id :: string
  tr_data_hash :: "string option"

record tenant_row =
  tenant_id :: string
  tenant_slug :: string

record world =
  forms :: "form_request list"
  form_seq :: int
  items :: "work_item list"
  task_definitions :: "task_definition list"
  instances :: "process_instance list"
  events :: "instance_event list"
  instance_errors :: "instance_error list"
  task_rows :: "task_row list"
  json_data :: "((string \<times> string) \<times> pyval) list"
  users :: "app_user list"
  tenants :: "tenant_row list"

type_synonym db = "world session"

definition work_item_by_id :: "world \<Rightarrow> int \<Rightarrow> work_item option" where
  "work_item_by_id w i = find (\<lambda>t. wi_id t = i) (items w)"

definition instance_by_id :: "world \<Rightarrow> int \<Rightarrow> process_instance option" where
  "instance_by_id w i = find (\<lambda>p. pi_id p = i) (instances w)"

definition user_by_id :: "world \<Rightarrow> int \<Rightarrow> app_user option" where
  "user_by_id w i = find (\<lambda>u. user_id u = i) (users w)"

definition form_by_id :: "world \<Rightarrow> int \<Rightarrow> form_request option" where
  "form_by_id w i = find (\<lambda>r. fr_id r = i) (forms w)"

definition form_by_reference :: "world \<Rightarrow> string \<Rightarrow> form_request option" where
  "form_by_reference w ref = find (\<lambda>r. fr_reference_id r = ref) (forms w)"

lemmas lookup_defs [py_eval] = work_item_by_id_def instance_by_id_def user_by_id_def
  form_by_id_def form_by_reference_def

text \<open>One row of the link table rewritten, every other row kept.\<close>

definition set_form :: "int \<Rightarrow> (form_request \<Rightarrow> form_request) \<Rightarrow> world \<Rightarrow> world" where
  "set_form i f w = w\<lparr>forms := update_where (\<lambda>r. fr_id r = i) f (forms w)\<rparr>"

lemmas set_form_unfold [py_eval] = set_form_def

lemma set_form_frame [simp]:
  "items (set_form i f w) = items w" "instances (set_form i f w) = instances w"
  "users (set_form i f w) = users w" "tenants (set_form i f w) = tenants w"
  "form_seq (set_form i f w) = form_seq w" "events (set_form i f w) = events w"
  "instance_errors (set_form i f w) = instance_errors w"
  by (simp_all add: set_form_def)

lemma form_by_id_set_form:
  assumes "\<And>r. fr_id (f r) = fr_id r"
  shows "form_by_id (set_form i f w) j
       = map_option (\<lambda>r. if j = i then f r else r) (form_by_id w j)"
proof -
  have "form_by_id (set_form i f w) j
      = map_option (\<lambda>r. if fr_id r = i then f r else r) (form_by_id w j)"
    unfolding form_by_id_def set_form_def by (simp add: find_update_where assms)
  then show ?thesis
    by (cases "form_by_id w j") (auto simp: form_by_id_def dest: find_Some_iff_props)
qed

text \<open>Primary keys are unique, and at most the last key handed out.\<close>

definition forms_keyed :: "world \<Rightarrow> bool" where
  "forms_keyed w \<longleftrightarrow>
     distinct (map fr_id (forms w)) \<and> (\<forall>r \<in> set (forms w). fr_id r \<le> form_seq w)"

lemma forms_keyed_update:
  "(\<And>r. fr_id (f r) = fr_id r) \<Longrightarrow> forms_keyed w \<Longrightarrow>
   forms_keyed (w\<lparr>forms := update_where P f (forms w)\<rparr>)"
  by (auto simp: forms_keyed_def map_key_update_where in_update_where)

lemma form_by_id_in: "form_by_id w i = Some r \<Longrightarrow> r \<in> set (forms w) \<and> fr_id r = i"
  unfolding form_by_id_def by (rule find_Some_iff_props)

lemma form_by_id_unique:
  "forms_keyed w \<Longrightarrow> r \<in> set (forms w) \<Longrightarrow> form_by_id w (fr_id r) = Some r"
  by (auto simp: forms_keyed_def form_by_id_def intro: find_key_unique)

end
