(* ===== verification/Form_Producer.thy ===== *)
theory Form_Producer
  imports World
begin

text \<open>
  The producer side of external forms (services/external_form_service.py): which tasks carry
  an \<open>externalFormUrl\<close>, who receives a link, the tracking rows and the broker event, and the
  bulk retirement of an instance's links. Token draws, the clock and the outcome of a commit
  or a publish are arguments.
\<close>

definition EXTERNAL_FORM_URL_PROPERTY :: string where
  "EXTERNAL_FORM_URL_PROPERTY = ''externalFormUrl''"

definition TASK_CLOSED_REASON :: string where
  "TASK_CLOSED_REASON = ''The task this link was issued for is no longer open.''"

definition SEND_LEASE_SECONDS :: int where
  "SEND_LEASE_SECONDS = 120"

definition external_form_url_for_task :: "work_item \<Rightarrow> string option" where
  "external_form_url_for_task work_item =
     (let properties = (if wi_task_model work_item
                        then case wi_task_definition work_item of
                               None \<Rightarrow> PNone | Some d \<Rightarrow> properties_json d
                        else PNone);
          extensions = dget (dict_items properties) ''extensions'';
          properties' = dget (dict_items extensions) ''properties'';
          url = dget (dict_items properties') EXTERNAL_FORM_URL_PROPERTY
      in case url of
           PStr u \<Rightarrow> (if strip u \<noteq> [] then Some (strip u) else None)
         | _ \<Rightarrow> None)"

record recipient =
  rcp_user_id :: int
  rcp_email :: string
  rcp_user_details :: "(string \<times> pyval) list option"

fun recipients_for_owners :: "app_user list \<Rightarrow> recipient list \<times> string list" where
  "recipients_for_owners [] = ([], [])"
| "recipients_for_owners (owner # owners) =
     (let (recipients, skipped) = recipients_for_owners owners;
          email = strip (or_default (user_email owner) [])
      in if email = [] then (recipients, username owner # skipped)
         else (\<lparr>rcp_user_id = user_id owner, rcp_email = email,
                rcp_user_details = Some [(''username'', PStr (username owner))]\<rparr> # recipients,
               skipped))"

definition recipients_for_task :: "work_item \<Rightarrow> recipient list \<times> string list" where
  "recipients_for_task human_task = recipients_for_owners (potential_owners human_task)"

text \<open>The rows of one \<open>create_requests_for_task\<close> call: \<open>ref i\<close> is the token drawn for the
  \<open>i\<close>-th recipient, \<open>next_id\<close> the next primary key.\<close>

fun create_rows :: "string \<Rightarrow> int \<Rightarrow> string \<Rightarrow> string \<Rightarrow> int \<Rightarrow> int \<Rightarrow> int set \<Rightarrow>
    (nat \<Rightarrow> string) \<Rightarrow> nat \<Rightarrow> int \<Rightarrow> recipient list \<Rightarrow> form_request list" where
  "create_rows tid pid guid url expires now existing ref i next_id [] = []"
| "create_rows tid pid guid url expires now existing ref i next_id (r # rs) =
     (if rcp_user_id r \<in> existing
      then create_rows tid pid guid url expires now existing ref (Suc i) next_id rs
      else \<lparr>fr_id = next_id, fr_tenant_id = tid, fr_reference_id = ref i,
            fr_process_instance_id = pid, fr_task_guid = guid,
            fr_recipient_user_id = rcp_user_id r, fr_email = rcp_email r,
            fr_user_details = rcp_user_details r, fr_external_form_url = url,
            fr_status = Pending, fr_form_submission_data = None,
            fr_expires_at = Some expires, fr_attempts = 0, fr_notified_at = None,
            fr_last_error = None, fr_created_at = now, fr_updated_at = now\<rparr>
           # create_rows tid pid guid url expires now existing ref (Suc i) (next_id + 1) rs)"

definition existing_user_ids :: "world \<Rightarrow> int \<Rightarrow> string \<Rightarrow> int set" where
  "existing_user_ids w pid guid =
     set (map fr_recipient_user_id
       (filter (\<lambda>r. fr_process_instance_id r = pid \<and> fr_task_guid r = guid \<and> is_open r)
          (forms w)))"

definition create_requests_for_task ::
  "int \<Rightarrow> int \<Rightarrow> (nat \<Rightarrow> string) \<Rightarrow> string option \<Rightarrow> db \<Rightarrow> string \<Rightarrow> int \<Rightarrow> string \<Rightarrow> string \<Rightarrow>
   recipient list \<Rightarrow> int option \<Rightarrow> (api_error + form_request list) \<times> db" where
  "create_requests_for_task now ttl ref commit_failure s tid pid guid url recipients expires_at =
     (let expires = or_default expires_at (now + ttl);
          w = working s;
          created = create_rows tid pid guid url expires now (existing_user_ids w pid guid)
                      ref 0 (form_seq w + 1) recipients;
          s' = modify (\<lambda>w. w\<lparr>forms := forms w @ created,
                            form_seq := form_seq w + int (length created)\<rparr>) s
      in case commit_failure of
           None \<Rightarrow> (Inr created, commit s')
         | Some e \<Rightarrow> (Inl (ApiError ''database_error''
                          (''Error saving external form requests: '' @ e) 500), rollback s'))"

record notification_event =
  ne_subject_slug :: string
  ne_tenant_id :: string
  ne_process_instance_id :: int
  ne_task_guid :: string
  ne_request_ids :: "int list"

text \<open>\<open>_publish_requests_created\<close>: the event handed to the broker, if any. The event names
  rows by primary key.\<close>

definition publish_requests_created ::
  "bool \<Rightarrow> world \<Rightarrow> string \<Rightarrow> int \<Rightarrow> string \<Rightarrow> form_request list \<Rightarrow> notification_event option" where
  "publish_requests_created nats_enabled w tid pid guid created =
     (if \<not> nats_enabled then None
      else case find (\<lambda>t. tenant_id t = tid) (tenants w) of
             None \<Rightarrow> None
           | Some t \<Rightarrow>
               (if tenant_slug t = [] then None
                else Some \<lparr>ne_subject_slug = tenant_slug t, ne_tenant_id = tid,
                           ne_process_instance_id = pid, ne_task_guid = guid,
                           ne_request_ids = map fr_id created\<rparr>))"

text \<open>The loop of \<open>emit_requests_for_ready_tasks\<close> over the ready tasks: the events handed to the
  broker, and the error that left the loop, if any. Only \<open>create_requests_for_task\<close> can raise
  (a publish cannot: its exceptions are caught, the sweep delivers). \<open>ref\<close> draws one token per
  task position and recipient, and \<open>cf\<close> says, per task position, whether the commit of its
  rows raises.\<close>

fun emit_for_tasks ::
  "int \<Rightarrow> int \<Rightarrow> bool \<Rightarrow> (nat \<Rightarrow> nat \<Rightarrow> string) \<Rightarrow> (nat \<Rightarrow> string option) \<Rightarrow> string \<Rightarrow> int \<Rightarrow> nat \<Rightarrow>
   work_item list \<Rightarrow> db \<Rightarrow> api_error option \<times> notification_event list \<times> db" where
  "emit_for_tasks now ttl nats ref cf tid pid n [] s = (None, [], s)"
| "emit_for_tasks now ttl nats ref cf tid pid n (t # ts) s =
     (case external_form_url_for_task t of
        None \<Rightarrow> emit_for_tasks now ttl nats ref cf tid pid (Suc n) ts s
      | Some url \<Rightarrow>
          (if fst (recipients_for_task t) = []
           then emit_for_tasks now ttl nats ref cf tid pid (Suc n) ts s
           else case create_requests_for_task now ttl (ref n) (cf n) s tid pid
                       (wi_task_guid t) url (fst (recipients_for_task t)) None of
                  (Inl e, s') \<Rightarrow> (Some e, [], s')
                | (Inr created, s') \<Rightarrow>
                    (case emit_for_tasks now ttl nats ref cf tid pid (Suc n) ts s' of
                       (err, evs, s'') \<Rightarrow>
                         (if created = [] then (err, evs, s'')
                          else case publish_requests_created nats (working s') tid pid
                                      (wi_task_guid t) created of
                                 None \<Rightarrow> (err, evs, s'')
                               | Some ev \<Rightarrow> (err, ev # evs, s'')))))"

definition ready_tasks :: "world \<Rightarrow> string \<Rightarrow> int \<Rightarrow> work_item list" where
  "ready_tasks w tid pid =
     filter (\<lambda>t. wi_process_instance_id t = pid \<and> wi_tenant_id t = tid \<and> \<not> wi_completed t) (items w)"

definition emit_requests_for_ready_tasks ::
  "int \<Rightarrow> int \<Rightarrow> bool \<Rightarrow> (nat \<Rightarrow> nat \<Rightarrow> string) \<Rightarrow> (nat \<Rightarrow> string option) \<Rightarrow> db \<Rightarrow> string \<Rightarrow> int \<Rightarrow>
   api_error option \<times> notification_event list \<times> db" where
  "emit_requests_for_ready_tasks now ttl nats ref cf s tid pid =
     emit_for_tasks now ttl nats ref cf tid pid 0 (ready_tasks (working s) tid pid) s"

text \<open>\<open>cancel_open_requests\<close>: one UPDATE joined to the caller's transaction; the row count.\<close>

definition retire :: "int \<Rightarrow> form_request \<Rightarrow> form_request" where
  "retire now row = row\<lparr>fr_status := Cancelled, fr_last_error := Some TASK_CLOSED_REASON,
                        fr_updated_at := now\<rparr>"

definition cancel_open_requests :: "int \<Rightarrow> db \<Rightarrow> string \<Rightarrow> int \<Rightarrow> nat \<times> db" where
  "cancel_open_requests now s tid pid =
     (let sel = (\<lambda>r. fr_tenant_id r = tid \<and> fr_process_instance_id r = pid \<and> is_open r)
      in (rowcount sel (forms (working s)),
          modify (\<lambda>w. w\<lparr>forms := update_where sel (retire now) (forms w)\<rparr>) s))"

lemmas producer_defs [py_eval] = EXTERNAL_FORM_URL_PROPERTY_def external_form_url_for_task_def
  recipients_for_task_def existing_user_ids_def create_requests_for_task_def
  publish_requests_created_def ready_tasks_def emit_requests_for_ready_tasks_def
  retire_def cancel_open_requests_def

subsection \<open>The rows one call creates\<close>

lemma create_rows_props:
  "r \<in> set (create_rows tid pid guid url expires now existing ref i k rs) \<Longrightarrow>
     fr_tenant_id r = tid \<and> fr_process_instance_id r = pid \<and> fr_task_guid r = guid \<and>
     fr_status r = Pending \<and> fr_notified_at r = None \<and> fr_attempts r = 0 \<and>
     fr_last_error r = None \<and> fr_expires_at r = Some expires \<and>
     fr_recipient_user_id r \<notin> existing \<and> fr_form_submission_data r = None \<and>
     fr_recipient_user_id r \<in> rcp_user_id ` set rs \<and> fr_external_form_url r = url \<and> k \<le> fr_id r \<and>
     (\<exists>j \<ge> i. j < i + length rs \<and> fr_reference_id r = ref j)"
proof (induction rs arbitrary: i k)
  case (Cons x rs)
  show ?case
  proof (cases "rcp_user_id x \<in> existing")
    case True
    with Cons.prems Cons.IH [of "Suc i" k] show ?thesis by (auto simp: Suc_le_eq) (metis less_imp_le)
  next
    case False
    with Cons.prems consider "r = hd (create_rows tid pid guid url expires now existing ref i k (x # rs))"
      | "r \<in> set (create_rows tid pid guid url expires now existing ref (Suc i) (k + 1) rs)"
      by auto
    then show ?thesis
    proof cases
      case 1
      with False show ?thesis by auto
    next
      case 2
      from Cons.IH [OF 2] show ?thesis by (auto intro: Suc_leD)
    qed
  qed
qed simp

lemma create_rows_ids:
  "map fr_id (create_rows tid pid guid url expires now existing ref i k rs)
   = map (\<lambda>n. k + int n) [0..<length (create_rows tid pid guid url expires now existing ref i k rs)]"
proof (induction rs arbitrary: i k)
  case (Cons x rs)
  have shift: "map (\<lambda>n. k + 1 + int n) [0..<m] = map (\<lambda>n. k + int n) [1..<Suc m]" for m k
    by (simp add: map_Suc_upt [symmetric] del: upt_Suc)
  show ?case
  proof (cases "rcp_user_id x \<in> existing")
    case False
    then show ?thesis
      by (simp add: Cons.IH shift upt_conv_Cons del: upt_Suc)
  qed (simp add: Cons.IH)
qed simp

end
