(* ===== verification/Workflow.thy ===== *)
theory Workflow
  imports Form_Producer
begin

text \<open>
  The task commands of the host (workflow/__init__.py) and their error mapping (errors.py).
  The engine (m8flow_core, a separate package) is the argument \<open>core\<close>: a command run on the
  working state returns or raises, and leaves a working state either way. What the host does
  around it is modelled whole: its guards before the call, the nesting of a payload under the
  task's variable, and the three ways a failed call is handled.
\<close>

datatype bpmn_kind =
  AuthorizationE | NotFoundE | InvalidStateE | ValidationE | ServiceTaskE | OtherCoreE

record spiff_task =
  st_id :: string
  st_spec :: "(string option \<times> string option) option"  \<comment> \<open>\<open>bpmn_name\<close>, \<open>name\<close> of \<open>task_spec\<close>\<close>

datatype core_exn =
    CoreError bpmn_kind string
  | Integrity string
  | WorkflowTask "spiff_task option" string
  | SpiffError string        \<comment> \<open>an exception of SpiffWorkflow other than the wrapper of a failed task\<close>
  | OtherExn string

datatype host_exn = ApiExn api_error | CoreExn core_exn

datatype core_command =
    ClaimTask string int int
  | CompleteTask string int int "(string \<times> string) list option"
  | ErrorInstance string int int
  | RecordEvent string int string string int
  | TerminateInstance string int int
  | SuspendInstance string int int
  | ResumeInstance string int int
  | StartInstance string int int "string option" "(string \<times> string) list option"

type_synonym core = "core_command \<Rightarrow> world \<Rightarrow> (core_exn + int) \<times> world"

text \<open>What a call reads from its surroundings: the clock, the link lifetime, whether the broker
  is on, the token draws and commit failures of the emission hook, whether a flush raises, the declared
  width of the metadata column, the redaction of failure details, and the request flag of the external-form path.\<close>

record env =
  env_now :: int
  env_ttl :: int
  env_nats :: bool
  env_ref :: "nat \<Rightarrow> nat \<Rightarrow> string"
  env_commit_failure :: "nat \<Rightarrow> string option"
  env_flush_ok :: bool
  env_width :: "nat option"
  env_redact :: "string \<Rightarrow> string"
  env_external :: bool

fun exn_str :: "core_exn \<Rightarrow> string" where
  "exn_str (CoreError k m) = m"
| "exn_str (Integrity m) = m"
| "exn_str (WorkflowTask t m) = m"
| "exn_str (SpiffError m) = m"
| "exn_str (OtherExn m) = m"

fun map_bpmn_error :: "bpmn_kind \<Rightarrow> string \<Rightarrow> api_error" where
  "map_bpmn_error AuthorizationE m = ApiError ''permission_denied'' m 403"
| "map_bpmn_error NotFoundE m = ApiError ''not_found'' m 404"
| "map_bpmn_error InvalidStateE m = ApiError ''invalid_state'' m 409"
| "map_bpmn_error ValidationE m = ApiError ''validation_error'' m 400"
| "map_bpmn_error ServiceTaskE m = ApiError ''service_task_error'' m 500"
| "map_bpmn_error OtherCoreE m = ApiError ''bpmn_core_error'' m 500"

text \<open>\<open>except BpmnCoreError as exc: raise map_bpmn_error(exc)\<close>; anything else propagates.\<close>

fun mapped :: "core_exn \<Rightarrow> host_exn" where
  "mapped (CoreError k m) = ApiExn (map_bpmn_error k m)"
| "mapped e = CoreExn e"

definition workflow_task_exception_context ::
  "core_exn \<Rightarrow> (string \<times> string option \<times> string option) option" where
  "workflow_task_exception_context exc =
     (case exc of
        WorkflowTask (Some t) _ \<Rightarrow>
          (case st_spec t of
             None \<Rightarrow> None
           | Some (bpmn, name) \<Rightarrow>
               (if st_id t = [] then None
                else if truthy_str bpmn \<or> truthy_str name then Some (st_id t, bpmn, name)
                else None))
      | _ \<Rightarrow> None)"

subsection \<open>Guards\<close>

definition reject_task_write_if_instance_suspended ::
  "world \<Rightarrow> string \<Rightarrow> int \<Rightarrow> string \<Rightarrow> core_exn option" where
  "reject_task_write_if_instance_suspended w tid work_item_id action =
     (case work_item_by_id w work_item_id of
        None \<Rightarrow> None
      | Some t \<Rightarrow>
          (if wi_tenant_id t \<noteq> tid then None
           else case instance_by_id w (wi_process_instance_id t) of
                  None \<Rightarrow> None
                | Some p \<Rightarrow>
                    (if pi_status p = ''suspended''
                     then Some (CoreError InvalidStateE
                            (''Cannot '' @ action @ '' a task on a suspended process instance''))
                     else None)))"

text \<open>The condition of the guard's query: an open link of this task that has not run out.\<close>

definition link_open :: "world \<Rightarrow> int \<Rightarrow> string \<Rightarrow> work_item \<Rightarrow> bool" where
  "link_open w now tid task \<longleftrightarrow>
     (\<exists>r \<in> set (forms w). fr_tenant_id r = tid \<and>
        fr_process_instance_id r = wi_process_instance_id task \<and>
        fr_task_guid r = wi_task_guid task \<and> is_open r \<and>
        (case fr_expires_at r of None \<Rightarrow> True | Some e \<Rightarrow> e > now))"

definition reject_in_app_completion_of_external_form_task ::
  "env \<Rightarrow> world \<Rightarrow> string \<Rightarrow> int \<Rightarrow> api_error option" where
  "reject_in_app_completion_of_external_form_task env w tid work_item_id =
     (if env_external env then None
      else case work_item_by_id w work_item_id of
        None \<Rightarrow> None
      | Some task \<Rightarrow>
          (if wi_tenant_id task \<noteq> tid then None
           else if external_form_url_for_task task = None then None
           else if \<not> link_open w (env_now env) tid task then None
           else Some (ApiError ''external_form_task_not_completable_in_app''
             (''This task is completed through its external form and cannot be completed here.'' @
              '' It stays open until the recipient submits the secure link.'') 409)))"

subsection \<open>Task data\<close>

definition task_data :: "world \<Rightarrow> string \<Rightarrow> string \<Rightarrow> (string \<times> pyval) list" where
  "task_data w tid guid =
     (if guid = [] then []
      else case find (\<lambda>t. tr_guid t = guid \<and> tr_tenant_id t = tid) (task_rows w) of
        None \<Rightarrow> []
      | Some t \<Rightarrow>
          (case tr_data_hash t of
             None \<Rightarrow> []
           | Some h \<Rightarrow>
               (if h = [] then []
                else case map_of (json_data w) (tid, h) of
                       None \<Rightarrow> []
                     | Some v \<Rightarrow> dict_items v)))"

definition ENGINE_DATA_KEYS :: "string list" where
  "ENGINE_DATA_KEYS = [''data_objects'']"

definition process_data :: "world \<Rightarrow> string \<Rightarrow> int \<Rightarrow> (string \<times> pyval) list" where
  "process_data w tid pid =
     (case instance_by_id w pid of
        None \<Rightarrow> []
      | Some p \<Rightarrow>
          (if pi_tenant_id p \<noteq> tid then []
           else case pi_data_hash p of
             None \<Rightarrow> []
           | Some h \<Rightarrow>
               (if h = [] then []
                else case map_of (json_data w) (tid, h) of
                       None \<Rightarrow> []
                     | Some v \<Rightarrow>
                         filter (\<lambda>(k, x). \<not> startswith k ''__m8f'' \<and> k \<notin> set ENGINE_DATA_KEYS)
                           (dict_items v))))"

definition user_task_form_variable :: "work_item \<Rightarrow> string option" where
  "user_task_form_variable task =
     (case dget (dict_items (json_metadata task)) ''task_definition_properties'' of
        PDict props \<Rightarrow>
          (case dget props ''variable'' of
             PStr v \<Rightarrow> (if strip v \<noteq> [] then Some (strip v) else None)
           | _ \<Rightarrow> None)
      | _ \<Rightarrow> None)"

definition nest_payload_under_task_variable ::
  "world \<Rightarrow> string \<Rightarrow> int \<Rightarrow> (string \<times> pyval) list \<Rightarrow> (string \<times> pyval) list" where
  "nest_payload_under_task_variable w tid work_item_id task_payload =
     (case work_item_by_id w work_item_id of
        None \<Rightarrow> task_payload
      | Some task \<Rightarrow>
          (if wi_tenant_id task \<noteq> tid then task_payload
           else case user_task_form_variable task of
             None \<Rightarrow> task_payload
           | Some variable \<Rightarrow>
               (let nested = filter (\<lambda>(k, v). k \<noteq> ''outcome'') task_payload;
                    base = dict_items (dget (task_data w tid (wi_task_guid task)) variable);
                    payload = [(variable, PDict (dmerge base nested))]
                in case map_of task_payload ''outcome'' of
                     None \<Rightarrow> payload
                   | Some v \<Rightarrow> dset payload ''outcome'' v)))"

text \<open>The width of the engine's metadata column as its model declares it (an argument), or 255.\<close>

definition METADATA_VALUE_MAX_LENGTH :: "nat option \<Rightarrow> nat" where
  "METADATA_VALUE_MAX_LENGTH declared =
     (case declared of None \<Rightarrow> 255 | Some n \<Rightarrow> if n = 0 then 255 else n)"

definition stringify_metadata_value :: "nat option \<Rightarrow> pyval \<Rightarrow> string" where
  "stringify_metadata_value declared value =
     take (METADATA_VALUE_MAX_LENGTH declared)
       (case value of
          PStr s \<Rightarrow> s
        | PDict _ \<Rightarrow> py_repr value
        | PList _ \<Rightarrow> py_repr value
        | PNone \<Rightarrow> ''null''
        | PBool b \<Rightarrow> (if b then ''true'' else ''false'')
        | PInt n \<Rightarrow> int_str n
        | PFloat r \<Rightarrow> json_float r)"

definition completion_payload ::
  "nat option \<Rightarrow> world \<Rightarrow> string \<Rightarrow> int \<Rightarrow> (string \<times> pyval) list option \<Rightarrow> (string \<times> string) list option" where
  "completion_payload declared w tid work_item_id task_payload =
     map_option (\<lambda>p. map (\<lambda>(k, v). (k, stringify_metadata_value declared v))
        (nest_payload_under_task_variable w tid work_item_id
           (filter (\<lambda>(k, v). k \<notin> set ENGINE_DATA_KEYS) p))) task_payload"

subsection \<open>The emission hook\<close>

text \<open>\<open>_emit_external_form_requests\<close>: every exception of the producer is swallowed.\<close>

definition emit_external_form_requests ::
  "env \<Rightarrow> db \<Rightarrow> string \<Rightarrow> int \<Rightarrow> notification_event list \<times> db" where
  "emit_external_form_requests env s tid pid =
     (case emit_requests_for_ready_tasks (env_now env) (env_ttl env) (env_nats env)
             (env_ref env) (env_commit_failure env) s tid pid of
        (err, evs, s') \<Rightarrow> (evs, s'))"

subsection \<open>Claiming\<close>

text \<open>Running one engine command on the working state.\<close>

definition execute_command :: "core \<Rightarrow> core_command \<Rightarrow> db \<Rightarrow> (core_exn + int) \<times> db" where
  "execute_command core c s =
     (case core c (working s) of (r, w) \<Rightarrow> (r, s\<lparr>working := w\<rparr>))"

definition claim :: "core \<Rightarrow> db \<Rightarrow> string \<Rightarrow> int \<Rightarrow> int \<Rightarrow> (host_exn + int) \<times> db" where
  "claim core s tid work_item_id uid =
     (case reject_task_write_if_instance_suspended (working s) tid work_item_id ''claim'' of
        Some e \<Rightarrow> (Inl (mapped e), s)
      | None \<Rightarrow>
          (case execute_command core (ClaimTask tid work_item_id uid) s of
             (Inl e, s') \<Rightarrow> (Inl (mapped e), s')
           | (Inr i, s') \<Rightarrow> (Inr i, s')))"

subsection \<open>Completing\<close>

definition event_recorded :: "world \<Rightarrow> string \<Rightarrow> int \<Rightarrow> string \<Rightarrow> bool" where
  "event_recorded w tid pid guid \<longleftrightarrow>
     (\<exists>e \<in> set (events w). ev_tenant_id e = tid \<and> ev_process_instance_id e = pid \<and>
        ev_task_guid e = guid \<and> ev_type e = ''task_completed'')"

text \<open>\<open>_record_task_completed_event_if_missing\<close>: an insert that loses the race to another
  writer leaves the state after the savepoint's rollback, where the other event is visible.\<close>

definition record_task_completed_event_if_missing ::
  "core \<Rightarrow> db \<Rightarrow> string \<Rightarrow> int \<Rightarrow> string \<Rightarrow> int \<Rightarrow> (core_exn + bool) \<times> db" where
  "record_task_completed_event_if_missing core s tid pid guid uid =
     (if event_recorded (working s) tid pid guid then (Inr False, s)
      else case execute_command core (RecordEvent tid pid ''task_completed'' guid uid) s of
             (Inr _, s') \<Rightarrow> (Inr True, s')
           | (Inl (Integrity m), s') \<Rightarrow>
               (if event_recorded (working s') tid pid guid then (Inr False, s')
                else (Inl (Integrity m), s'))
           | (Inl e, s') \<Rightarrow> (Inl e, s'))"

definition task_completion_is_established ::
  "env \<Rightarrow> world \<Rightarrow> work_item option \<Rightarrow> string \<Rightarrow> int option \<Rightarrow> bool" where
  "task_completion_is_established env w work_item tid pid =
     (case (work_item, pid) of
        (Some t, Some p) \<Rightarrow>
          wi_tenant_id t = tid \<and> wi_process_instance_id t = p \<and> env_flush_ok env \<and>
          (case find (\<lambda>x. wi_id x = wi_id t \<and> wi_tenant_id x = tid \<and>
                          wi_process_instance_id x = p) (items w) of
             None \<Rightarrow> False
           | Some x \<Rightarrow> wi_completed x)
      | _ \<Rightarrow> False)"

definition ERROR_MESSAGE_MAX_LENGTH :: nat where
  "ERROR_MESSAGE_MAX_LENGTH = 4000"

definition automatic_step_failure_api_error :: "env \<Rightarrow> int option \<Rightarrow> string \<Rightarrow> api_error" where
  "automatic_step_failure_api_error env pid detail =
     (let detail' = env_redact env detail;
          message = ''The task was submitted, but the next automatic step failed: '' @ detail' @
            (case pid of None \<Rightarrow> []
             | Some p \<Rightarrow> '' Process instance '' @ int_str p @ '' is now in Error.'')
      in \<lparr>error_code = ''automatic_step_failed'',
          err_message = take ERROR_MESSAGE_MAX_LENGTH message, err_status = 500,
          err_task_submitted = Some True,
          err_step_message = Some (take ERROR_MESSAGE_MAX_LENGTH detail'),
          err_instance = pid\<rparr>)"

definition record_process_instance_error ::
  "int \<Rightarrow> string \<Rightarrow> int \<Rightarrow> string option \<Rightarrow> string \<Rightarrow> world \<Rightarrow> world" where
  "record_process_instance_error now tid pid guid detail w =
     w\<lparr>instance_errors := instance_errors w @
         [\<lparr>ie_tenant_id = tid, ie_process_instance_id = pid, ie_task_guid = guid,
           ie_message = take ERROR_MESSAGE_MAX_LENGTH detail, ie_created_at = now\<rparr>]\<rparr>"

text \<open>The handler of a service task that failed after the user task completed.\<close>

definition service_task_failed ::
  "core \<Rightarrow> env \<Rightarrow> db \<Rightarrow> string \<Rightarrow> work_item option \<Rightarrow> int option \<Rightarrow> int \<Rightarrow> string \<Rightarrow> host_exn \<times> db" where
  "service_task_failed core env s tid work_item pid uid msg =
     (if \<not> task_completion_is_established env (working s) work_item tid pid
      then (CoreExn (CoreError ServiceTaskE msg), s)
      else case (work_item, pid) of
        (Some t, Some p) \<Rightarrow>
          (case (if wi_task_guid t = [] then (Inr False, s)
                 else record_task_completed_event_if_missing core s tid p (wi_task_guid t) uid) of
             (Inl e, s') \<Rightarrow> (CoreExn e, s')
           | (Inr _, s') \<Rightarrow>
               (ApiExn (automatic_step_failure_api_error env pid msg), commit s'))
      | _ \<Rightarrow> (CoreExn (CoreError ServiceTaskE msg), s))"

text \<open>The handler of a script task that failed: the engine did not move the instance to Error,
  so the host does, records both events and the reason, and commits.\<close>

definition script_task_failed ::
  "core \<Rightarrow> env \<Rightarrow> db \<Rightarrow> string \<Rightarrow> work_item option \<Rightarrow> int option \<Rightarrow> int \<Rightarrow> core_exn \<Rightarrow> host_exn \<times> db" where
  "script_task_failed core env s tid work_item pid uid exc =
     (case workflow_task_exception_context exc of
        None \<Rightarrow> (CoreExn exc, s)
      | Some (failed_guid, bpmn, name) \<Rightarrow>
          (let failed_name = (if truthy_str bpmn then or_default bpmn [] else or_default name []);
               detail = env_redact env (failed_name @ '': '' @ exn_str exc)
           in if \<not> task_completion_is_established env (working s) work_item tid pid
              then (CoreExn exc, s)
              else case (work_item, pid) of
                (Some t, Some p) \<Rightarrow>
                  (case (if wi_task_guid t = [] then (Inr False, s)
                         else record_task_completed_event_if_missing core s tid p (wi_task_guid t) uid) of
                     (Inl e, s') \<Rightarrow> (CoreExn e, s')
                   | (Inr _, s') \<Rightarrow>
                       (case execute_command core (ErrorInstance tid p uid) s' of
                          (Inl e, s2) \<Rightarrow> (CoreExn e, s2)
                        | (Inr _, s2) \<Rightarrow>
                            (case execute_command core
                                    (RecordEvent tid p ''task_failed'' failed_guid uid) s2 of
                               (Inl e, s3) \<Rightarrow> (CoreExn e, s3)
                             | (Inr _, s3) \<Rightarrow>
                                 (ApiExn (automatic_step_failure_api_error env pid detail),
                                  commit (modify (record_process_instance_error (env_now env)
                                    tid p (Some failed_guid) detail) s3)))))
              | _ \<Rightarrow> (CoreExn exc, s)))"

definition complete ::
  "core \<Rightarrow> env \<Rightarrow> db \<Rightarrow> string \<Rightarrow> int \<Rightarrow> int \<Rightarrow> (string \<times> pyval) list option \<Rightarrow>
   (host_exn + int) \<times> notification_event list \<times> db" where
  "complete core env s tid work_item_id uid task_payload =
     (let w = working s;
          item = work_item_by_id w work_item_id;
          pid = (case item of None \<Rightarrow> None
                 | Some t \<Rightarrow> if wi_tenant_id t = tid then Some (wi_process_instance_id t) else None);
          payload = completion_payload (env_width env) w tid work_item_id task_payload
      in case reject_task_write_if_instance_suspended w tid work_item_id ''complete'' of
           Some e \<Rightarrow> (Inl (mapped e), [], s)
         | None \<Rightarrow>
             (case reject_in_app_completion_of_external_form_task env w tid work_item_id of
                Some e \<Rightarrow> (Inl (ApiExn e), [], s)
              | None \<Rightarrow>
                  (case execute_command core (CompleteTask tid work_item_id uid payload) s of
                     (Inl (CoreError ServiceTaskE m), s') \<Rightarrow>
                       (let (e, s2) = service_task_failed core env s' tid item pid uid m
                        in (Inl e, [], s2))
                   | (Inl (CoreError k m), s') \<Rightarrow> (Inl (ApiExn (map_bpmn_error k m)), [], s')
                   | (Inl exc, s') \<Rightarrow>
                       (let (e, s2) = script_task_failed core env s' tid item pid uid exc
                        in (Inl e, [], s2))
                   | (Inr i, s') \<Rightarrow>
                       (let (evs, s2) = emit_external_form_requests env s' tid i
                        in (Inr i, evs, s2)))))"

text \<open>Terminating an instance retires its open links in a savepoint of the same transaction;
  \<open>savepoint_ok\<close> is whether that update succeeds. The membership grant around the command
  belongs to the identity module and is not part of this definition.\<close>

definition terminate_instance ::
  "core \<Rightarrow> env \<Rightarrow> bool \<Rightarrow> db \<Rightarrow> string \<Rightarrow> int \<Rightarrow> int \<Rightarrow> (host_exn + int) \<times> db" where
  "terminate_instance core env savepoint_ok s tid pid uid =
     (case execute_command core (TerminateInstance tid pid uid) s of
        (Inl e, s') \<Rightarrow> (Inl (mapped e), s')
      | (Inr i, s') \<Rightarrow>
          (Inr i, if savepoint_ok then snd (cancel_open_requests (env_now env) s' tid i) else s'))"

text \<open>Suspending and resuming are the engine's commands.\<close>

definition suspend_instance :: "core \<Rightarrow> db \<Rightarrow> string \<Rightarrow> int \<Rightarrow> int \<Rightarrow> (host_exn + int) \<times> db" where
  "suspend_instance core s tid pid uid =
     (case execute_command core (SuspendInstance tid pid uid) s of
        (Inl e, s') \<Rightarrow> (Inl (mapped e), s')
      | (Inr i, s') \<Rightarrow> (Inr i, s'))"

definition resume_instance :: "core \<Rightarrow> db \<Rightarrow> string \<Rightarrow> int \<Rightarrow> int \<Rightarrow> (host_exn + int) \<times> db" where
  "resume_instance core s tid pid uid =
     (case execute_command core (ResumeInstance tid pid uid) s of
        (Inl e, s') \<Rightarrow> (Inl (mapped e), s')
      | (Inr i, s') \<Rightarrow> (Inr i, s'))"

lemmas workflow_defs [py_eval] = workflow_task_exception_context_def
  reject_task_write_if_instance_suspended_def link_open_def
  reject_in_app_completion_of_external_form_task_def task_data_def ENGINE_DATA_KEYS_def
  process_data_def user_task_form_variable_def nest_payload_under_task_variable_def
  METADATA_VALUE_MAX_LENGTH_def stringify_metadata_value_def completion_payload_def
  emit_external_form_requests_def execute_command_def claim_def event_recorded_def
  record_task_completed_event_if_missing_def task_completion_is_established_def
  ERROR_MESSAGE_MAX_LENGTH_def automatic_step_failure_api_error_def
  record_process_instance_error_def service_task_failed_def script_task_failed_def
  complete_def terminate_instance_def

end
