(* ===== verification/Human_Task.thy ===== *)
theory Human_Task
  imports Workflow
begin

text \<open>
  Human tasks (human_task/__init__.py): where a task's form comes from, its required fields,
  the outcome buttons derived from the gateway that follows it, and the claim-then-complete
  sequence the external-form endpoint uses. The template engine, the XML parser, the JSON
  parser and the catalog's file reader are arguments that may fail (\<open>None\<close>).
\<close>

definition EMPTY_SCHEMA :: "(string \<times> pyval) list" where
  "EMPTY_SCHEMA = [(''type'', PStr ''object''), (''properties'', PDict [])]"

definition SCHEMA_FILENAME_KEYS :: "string list" where
  "SCHEMA_FILENAME_KEYS = [''formJsonSchemaFilename'']"

definition UI_SCHEMA_FILENAME_KEYS :: "string list" where
  "UI_SCHEMA_FILENAME_KEYS = [''formUiSchemaFilename'']"

definition GATEWAY_TYPENAMES :: "string list" where
  "GATEWAY_TYPENAMES = [''ExclusiveGateway'', ''InclusiveGateway'']"

subsection \<open>Form files\<close>

definition task_definition_properties :: "work_item \<Rightarrow> (string \<times> pyval) list" where
  "task_definition_properties work_item =
     (if \<not> wi_task_model work_item then []
      else case wi_task_definition work_item of
        None \<Rightarrow> []
      | Some d \<Rightarrow> dict_items (properties_json d))"

definition form_extensions :: "work_item \<Rightarrow> (string \<times> pyval) list" where
  "form_extensions work_item = dict_items (dget (task_definition_properties work_item) ''extensions'')"

fun first_key_value :: "(string \<times> pyval) list \<Rightarrow> string list \<Rightarrow> string option" where
  "first_key_value scope [] = None"
| "first_key_value scope (k # ks) =
     (case dget scope k of
        PStr v \<Rightarrow> (if strip v \<noteq> [] then Some (strip v) else first_key_value scope ks)
      | _ \<Rightarrow> first_key_value scope ks)"

fun first_suffix_value :: "string \<Rightarrow> (string \<times> pyval) list \<Rightarrow> string option" where
  "first_suffix_value suffix [] = None"
| "first_suffix_value suffix ((k, v) # kvs) =
     (case v of
        PStr s \<Rightarrow> (if endswith s suffix then Some s else first_suffix_value suffix kvs)
      | _ \<Rightarrow> first_suffix_value suffix kvs)"

fun first_of :: "('a \<Rightarrow> 'b option) \<Rightarrow> 'a list \<Rightarrow> 'b option" where
  "first_of f [] = None"
| "first_of f (x # xs) = (case f x of Some y \<Rightarrow> Some y | None \<Rightarrow> first_of f xs)"

definition extension_filename ::
  "(string \<times> pyval) list \<Rightarrow> string list \<Rightarrow> string \<Rightarrow> string option" where
  "extension_filename extensions keys suffix =
     (let scopes = (case dget extensions ''properties'' of
                      PDict props \<Rightarrow> [extensions, props]
                    | _ \<Rightarrow> [extensions])
      in or_else (first_of (\<lambda>scope. first_key_value scope keys) scopes)
                 (first_of (first_suffix_value suffix) scopes))"

type_synonym reader = "string \<Rightarrow> string \<Rightarrow> string \<Rightarrow> string option"  \<comment> \<open>tenant, model, file\<close>

definition load_json_supporting_file ::
  "reader \<Rightarrow> (string \<Rightarrow> pyval option) \<Rightarrow> string \<Rightarrow> string \<Rightarrow> string option \<Rightarrow>
   (string \<times> pyval) list option" where
  "load_json_supporting_file read_model_file json_loads tid model file_name =
     (if \<not> truthy_str file_name then None
      else case read_model_file tid model (or_default file_name []) of
        None \<Rightarrow> None
      | Some raw \<Rightarrow>
          (case json_loads raw of
             Some (PDict d) \<Rightarrow> Some d
           | _ \<Rightarrow> None))"

definition load_form_files ::
  "reader \<Rightarrow> (string \<Rightarrow> pyval option) \<Rightarrow> string \<Rightarrow> work_item \<Rightarrow>
   (string \<times> pyval) list \<times> (string \<times> pyval) list option" where
  "load_form_files read_model_file json_loads tid work_item =
     (let extensions = form_extensions work_item;
          model_id = bpmn_process_identifier work_item;
          schema_name = extension_filename extensions SCHEMA_FILENAME_KEYS ''-schema.json'';
          ui_name = extension_filename extensions UI_SCHEMA_FILENAME_KEYS ''-uischema.json'';
          schema = load_json_supporting_file read_model_file json_loads tid model_id schema_name;
          ui_schema = load_json_supporting_file read_model_file json_loads tid model_id ui_name
      in (or_default schema EMPTY_SCHEMA, ui_schema))"

definition prior_submission_values :: "world \<Rightarrow> string \<Rightarrow> work_item \<Rightarrow> (string \<times> pyval) list" where
  "prior_submission_values w tid work_item =
     (if wi_task_guid work_item = [] then []
      else let data = task_data w tid (wi_task_guid work_item)
           in if data \<noteq> [] then data
              else process_data w tid (wi_process_instance_id work_item))"

definition form_schema_for_task ::
  "reader \<Rightarrow> (string \<Rightarrow> pyval option) \<Rightarrow> world \<Rightarrow> string \<Rightarrow> work_item \<Rightarrow> (string \<times> pyval) list" where
  "form_schema_for_task read_model_file json_loads w tid work_item =
     (let (schema, ui_schema) = load_form_files read_model_file json_loads tid work_item
      in [(''schema'', PDict schema),
          (''ui_schema'', case ui_schema of None \<Rightarrow> PNone | Some u \<Rightarrow> PDict u),
          (''values'', PDict (prior_submission_values w tid work_item))])"

text \<open>\<open>render\<close> is the sandboxed template engine; a template that fails renders as its text.\<close>

definition instructions_for_task ::
  "(string \<Rightarrow> (string \<times> pyval) list \<Rightarrow> string option) \<Rightarrow> world \<Rightarrow> string \<Rightarrow> work_item \<Rightarrow> string option" where
  "instructions_for_task render w tid work_item =
     (case dget (form_extensions work_item) ''instructionsForEndUser'' of
        PStr value \<Rightarrow>
          (let text = strip value
           in if text = [] then None
              else case render text (prior_submission_values w tid work_item) of
                     Some r \<Rightarrow> (if strip r = [] then None else Some (strip r))
                   | None \<Rightarrow> Some text)
      | _ \<Rightarrow> None)"

text \<open>A required key counts only if it is a property of the schema; missing means absent,
  \<open>None\<close> or the empty string.\<close>

definition missing_in :: "(string \<times> pyval) list \<Rightarrow> (string \<times> pyval) list \<Rightarrow> string list" where
  "missing_in schema payload =
     (let props = dict_items (dget schema ''properties'')
      in filter (\<lambda>k. map_of props k \<noteq> None \<and> dget payload k \<in> {PNone, PStr []})
           (List.map_filter str_of (list_items (dget schema ''required''))))"

definition missing_required_fields ::
  "reader \<Rightarrow> (string \<Rightarrow> pyval option) \<Rightarrow> string \<Rightarrow> work_item \<Rightarrow> (string \<times> pyval) list \<Rightarrow> string list" where
  "missing_required_fields read_model_file json_loads tid work_item payload =
     missing_in (fst (load_form_files read_model_file json_loads tid work_item)) payload"

subsection \<open>Outcome literals\<close>

text \<open>
  \<open>_OUTCOME_CONDITION_RE\<close>. The closing quote must be followed by white space up to the end
  (first alternative) or by the comparison with \<open>outcome\<close> (second), so the value is all that
  lies between the first quote and that last one; the dot excludes only the line feed.
\<close>

definition is_quote :: "char \<Rightarrow> bool" where
  "is_quote c \<longleftrightarrow> c = CHR 0x27 \<or> c = CHR 0x22"

definition lstrip :: "string \<Rightarrow> string" where "lstrip s = lstrip_if py_space s"
definition rstrip :: "string \<Rightarrow> string" where "rstrip s = rstrip_if py_space s"

text \<open>The value inside a string that is a quote, the value and the same quote.\<close>

fun quoted_value :: "string \<Rightarrow> string option" where
  "quoted_value [] = None"
| "quoted_value (q # rest) =
     (if is_quote q \<and> rest \<noteq> [] \<and> last rest = q \<and> CHR 0x0A \<notin> set (butlast rest)
      then Some (butlast rest) else None)"

text \<open>The part of \<open>s\<close> before a final \<open>suffix\<close>.\<close>

definition without_suffix :: "string \<Rightarrow> string \<Rightarrow> string option" where
  "without_suffix s suffix =
     (if endswith s suffix then Some (take (length s - length suffix) s) else None)"

definition parse_outcome_string :: "string \<Rightarrow> string option" where
  "parse_outcome_string condition =
     (let t = strip condition
      in if startswith t ''outcome''
         then (let r = lstrip (drop 7 t)
               in if startswith r ''=='' then quoted_value (lstrip (drop 2 r)) else None)
         else case without_suffix t ''outcome'' of
                None \<Rightarrow> None
              | Some a \<Rightarrow>
                  (case without_suffix (rstrip a) ''=='' of
                     None \<Rightarrow> None
                   | Some b \<Rightarrow> quoted_value (rstrip b)))"

definition parse_outcome_literal :: "pyval \<Rightarrow> string option" where
  "parse_outcome_literal condition =
     (case condition of PStr s \<Rightarrow> parse_outcome_string s | _ \<Rightarrow> None)"

subsection \<open>Outcome buttons\<close>

record xml_element =
  xe_tag :: string
  xe_attrs :: "(string \<times> string) list"

definition localname :: "string \<Rightarrow> string" where
  "localname tag = (if CHR ''}'' \<in> set tag then rsplit_last CHR ''}'' tag else tag)"

record sequence_flow =
  flow_id :: "string option"
  flow_name :: "string option"
  flow_target :: "string option"

definition gateway_sequence_flows ::
  "(string \<Rightarrow> xml_element list option) \<Rightarrow> string option \<Rightarrow> pyval \<Rightarrow> sequence_flow list" where
  "gateway_sequence_flows parse_xml source_xml gateway_bpmn_id =
     (if \<not> truthy_str source_xml \<or> \<not> truthy gateway_bpmn_id then []
      else case parse_xml (or_default source_xml []) of
        None \<Rightarrow> []
      | Some elements \<Rightarrow>
          List.map_filter (\<lambda>e.
            if localname (xe_tag e) \<noteq> ''sequenceFlow'' then None
            else if opt_str (map_of (xe_attrs e) ''sourceRef'') \<noteq> gateway_bpmn_id then None
            else let name = strip (or_default (map_of (xe_attrs e) ''name'') [])
                 in Some \<lparr>flow_id = map_of (xe_attrs e) ''id'',
                          flow_name = (if name = [] then None else Some name),
                          flow_target = map_of (xe_attrs e) ''targetRef''\<rparr>) elements)"

definition flow_label ::
  "sequence_flow option \<Rightarrow> pyval \<Rightarrow> (string \<times> string) list \<Rightarrow> string option" where
  "flow_label flow task_spec task_names =
     (case flow of
        Some f \<Rightarrow> (if truthy_str (flow_name f) then flow_name f
                   else case task_spec of
                     PStr s \<Rightarrow> (if truthy_str (map_of task_names s) then map_of task_names s else None)
                   | _ \<Rightarrow> None)
      | None \<Rightarrow> (case task_spec of
                   PStr s \<Rightarrow> (if truthy_str (map_of task_names s) then map_of task_names s else None)
                 | _ \<Rightarrow> None))"

definition default_flow_value :: "sequence_flow option \<Rightarrow> pyval \<Rightarrow> string" where
  "default_flow_value flow task_spec =
     (case flow of
        Some f \<Rightarrow> (if truthy_str (flow_name f) then or_default (flow_name f) []
                   else if truthy_str (flow_id f) then or_default (flow_id f) []
                   else py_str task_spec)
      | None \<Rightarrow> py_str task_spec)"

record outcome =
  out_value :: string
  out_label :: string

definition outcome_for ::
  "sequence_flow option \<Rightarrow> pyval \<Rightarrow> (string \<times> string) list \<Rightarrow> string \<Rightarrow> outcome" where
  "outcome_for flow task_spec task_names value =
     \<lparr>out_value = value,
      out_label = or_default (or_str (flow_label flow task_spec task_names) (Some value)) value\<rparr>"

text \<open>The loop over \<open>cond_task_specs\<close>: the buttons so far, the task specs they lead to, and
  whether a condition was not a literal comparison.\<close>

record outcome_scan =
  scan_outcomes :: "outcome list"
  scan_emitted :: "string list"
  scan_unsupported :: bool

definition scan_entry ::
  "(string \<Rightarrow> sequence_flow option) \<Rightarrow> (string \<times> string) list \<Rightarrow> pyval \<Rightarrow> pyval \<Rightarrow>
   outcome_scan \<Rightarrow> outcome_scan" where
  "scan_entry flow_by_target task_names default_spec entry acc =
     (case entry of
        PDict d \<Rightarrow>
          (case dget d ''task_spec'' of
             PStr task_spec \<Rightarrow>
               (if task_spec \<in> set (scan_emitted acc) then acc
                else let flow = flow_by_target task_spec;
                         emit = (\<lambda>value. acc\<lparr>
                           scan_outcomes := scan_outcomes acc @
                             [outcome_for flow (PStr task_spec) task_names value],
                           scan_emitted := scan_emitted acc @ [task_spec]\<rparr>)
                     in case dget d ''condition'' of
                          PNone \<Rightarrow>
                            (if default_spec = PStr task_spec then acc
                             else emit (default_flow_value flow (PStr task_spec)))
                        | condition \<Rightarrow>
                            (case parse_outcome_literal condition of
                               None \<Rightarrow> acc\<lparr>scan_unsupported := True\<rparr>
                             | Some value \<Rightarrow> emit value))
           | _ \<Rightarrow> acc)
      | _ \<Rightarrow> acc)"

definition scan_entries ::
  "(string \<Rightarrow> sequence_flow option) \<Rightarrow> (string \<times> string) list \<Rightarrow> pyval \<Rightarrow> pyval list \<Rightarrow> outcome_scan" where
  "scan_entries flow_by_target task_names default_spec entries =
     fold (scan_entry flow_by_target task_names default_spec) entries
       \<lparr>scan_outcomes = [], scan_emitted = [], scan_unsupported = False\<rparr>"

definition in_emitted :: "pyval \<Rightarrow> string list \<Rightarrow> bool" where
  "in_emitted v emitted = (case v of PStr s \<Rightarrow> s \<in> set emitted | _ \<Rightarrow> False)"

definition gateway_outcomes ::
  "sequence_flow list \<Rightarrow> (string \<times> string) list \<Rightarrow> (string \<times> pyval) list \<Rightarrow> outcome list" where
  "gateway_outcomes flows task_names gw_props =
     (if length flows \<le> 1 then []
      else let targets = List.map_filter (\<lambda>f. if truthy_str (flow_target f)
                           then Some (or_default (flow_target f) [], f) else None) flows;
               flow_by_target = map_of (rev targets);
               default_spec = dget gw_props ''default_task_spec'';
               acc = scan_entries flow_by_target task_names default_spec
                       (list_items (dget gw_props ''cond_task_specs''))
           in if truthy default_spec \<and> scan_unsupported acc then scan_outcomes acc
              else if truthy default_spec \<and> \<not> in_emitted default_spec (scan_emitted acc)
              then let flow = (case default_spec of PStr s \<Rightarrow> flow_by_target s | _ \<Rightarrow> None)
                   in scan_outcomes acc @
                      [outcome_for flow default_spec task_names (default_flow_value flow default_spec)]
              else scan_outcomes acc)"

definition task_name_map :: "world \<Rightarrow> string \<Rightarrow> int \<Rightarrow> (string \<times> string) list" where
  "task_name_map w tid definition_id =
     rev (List.map_filter (\<lambda>d.
       if td_tenant_id d = tid \<and> td_process_definition_id d = definition_id \<and> truthy_str (bpmn_name d)
       then Some (bpmn_identifier d, or_default (bpmn_name d) []) else None) (task_definitions w))"

text \<open>\<open>outcomes_for_task\<close>. \<open>source_bpmn_xml\<close> looks up the definition's XML in the tenant (the
  definition table belongs to the engine).\<close>

definition outcomes_for_task ::
  "(string \<Rightarrow> xml_element list option) \<Rightarrow> (string \<Rightarrow> int \<Rightarrow> string option) \<Rightarrow> world \<Rightarrow> string \<Rightarrow> int \<Rightarrow>
   outcome list" where
  "outcomes_for_task parse_xml source_bpmn_xml w tid work_item_id =
     (case work_item_by_id w work_item_id of
        None \<Rightarrow> []
      | Some work_item \<Rightarrow>
          (if wi_tenant_id work_item \<noteq> tid then []
           else let outputs = map py_str
                      (list_items (dget (task_definition_properties work_item) ''outputs''))
             in if outputs = [] then []
                else case instance_by_id w (wi_process_instance_id work_item) of
                  None \<Rightarrow> []
                | Some p \<Rightarrow>
                    (if pi_tenant_id p \<noteq> tid then []
                     else case pi_definition_id p of
                       None \<Rightarrow> []
                     | Some definition_id \<Rightarrow>
                         (case find (\<lambda>d. td_tenant_id d = tid \<and>
                                 td_process_definition_id d = definition_id \<and>
                                 bpmn_identifier d \<in> set outputs \<and>
                                 td_typename d \<in> set GATEWAY_TYPENAMES) (task_definitions w) of
                            None \<Rightarrow> []
                          | Some gateway \<Rightarrow>
                              (let gw_props = dict_items (properties_json gateway);
                                   gateway_bpmn_id = py_or (dget gw_props ''bpmn_id'')
                                                           (PStr (bpmn_identifier gateway));
                                   flows = gateway_sequence_flows parse_xml
                                             (source_bpmn_xml tid definition_id) gateway_bpmn_id
                               in gateway_outcomes flows (task_name_map w tid definition_id)
                                    gw_props)))))"

subsection \<open>Submitting a form\<close>

definition submit_external_form ::
  "core \<Rightarrow> env \<Rightarrow> reader \<Rightarrow> (string \<Rightarrow> pyval option) \<Rightarrow> bool \<Rightarrow> db \<Rightarrow> string \<Rightarrow> int \<Rightarrow> int \<Rightarrow>
   (string \<times> pyval) list option \<Rightarrow> (host_exn + int) \<times> notification_event list \<times> db" where
  "submit_external_form core env read_model_file json_loads require_fields s tid work_item_id uid task_payload =
     (case claim core s tid work_item_id uid of
        (Inl e, s') \<Rightarrow> (Inl e, [], s')
      | (Inr i, s') \<Rightarrow>
          (let missing = (if \<not> require_fields then []
                          else case work_item_by_id (working s') i of
                            None \<Rightarrow> []
                          | Some item \<Rightarrow> missing_required_fields read_model_file json_loads tid item
                                           (or_default task_payload []))
           in if missing \<noteq> []
              then (Inl (ApiExn (ApiError ''missing_required_fields''
                      (''Missing required form fields: '' @ join '', '' missing) 400)), [], s')
              else complete core env s' tid work_item_id uid task_payload))"

lemmas human_task_defs [py_eval] = EMPTY_SCHEMA_def SCHEMA_FILENAME_KEYS_def
  UI_SCHEMA_FILENAME_KEYS_def GATEWAY_TYPENAMES_def task_definition_properties_def
  form_extensions_def extension_filename_def load_json_supporting_file_def load_form_files_def
  prior_submission_values_def form_schema_for_task_def instructions_for_task_def missing_in_def
  missing_required_fields_def is_quote_def lstrip_def rstrip_def without_suffix_def
  parse_outcome_string_def parse_outcome_literal_def localname_def gateway_sequence_flows_def
  flow_label_def default_flow_value_def outcome_for_def scan_entry_def scan_entries_def
  in_emitted_def gateway_outcomes_def task_name_map_def outcomes_for_task_def
  submit_external_form_def

end
