(* ===== verification/Engine_Frame.thy ===== *)
theory Engine_Frame
  imports Human_Task
begin

text \<open>
  What running the engine can do to the host's link table. The engine is a separate package
  that knows nothing of that table, so a command leaves it alone (\<open>core_keeps_forms\<close>, the one
  hypothesis on the engine); what the host itself adds around a command is the emission of new
  links. \<open>preserved\<close> is the induction principle of the task commands: a property of the link
  table kept by new links holds of the durable and of the working state afterwards.
\<close>

definition core_keeps_forms :: "core \<Rightarrow> bool" where
  "core_keeps_forms core \<longleftrightarrow>
     (\<forall>c w. forms (snd (core c w)) = forms w \<and> form_seq (snd (core c w)) = form_seq w)"

definition fresh_row :: "form_request \<Rightarrow> bool" where
  "fresh_row r \<longleftrightarrow> fr_status r = Pending \<and> fr_notified_at r = None \<and> fr_attempts r = 0 \<and>
     fr_last_error r = None"

text \<open>The link table grown by rows that are fresh and carry the next primary keys.\<close>

definition grown :: "world \<Rightarrow> world \<Rightarrow> bool" where
  "grown w w' \<longleftrightarrow> (\<exists>new. forms w' = forms w @ new \<and> form_seq w' = form_seq w + int (length new) \<and>
     map fr_id new = map (\<lambda>n. form_seq w + 1 + int n) [0..<length new] \<and> (\<forall>r \<in> set new. fresh_row r))"

lemma grown_refl: "forms w' = forms w \<Longrightarrow> form_seq w' = form_seq w \<Longrightarrow> grown w w'"
  by (auto simp: grown_def)

lemma grown_trans:
  assumes "grown u v" "grown v w"
  shows "grown u w"
proof -
  from assms obtain xs ys where xs: "forms v = forms u @ xs" "form_seq v = form_seq u + int (length xs)"
      "map fr_id xs = map (\<lambda>n. form_seq u + 1 + int n) [0..<length xs]" "\<forall>r \<in> set xs. fresh_row r"
    and ys: "forms w = forms v @ ys" "form_seq w = form_seq v + int (length ys)"
      "map fr_id ys = map (\<lambda>n. form_seq v + 1 + int n) [0..<length ys]" "\<forall>r \<in> set ys. fresh_row r"
    unfolding grown_def by blast
  have "map (\<lambda>n. form_seq v + 1 + int n) [0..<length ys]
      = map (\<lambda>n. form_seq u + 1 + int n) [length xs..<length xs + length ys]"
    by (rule nth_equalityI) (auto simp: xs(2))
  then have "map fr_id (xs @ ys) = map (\<lambda>n. form_seq u + 1 + int n) [0..<length (xs @ ys)]"
    using xs(3) ys(3) upt_add_eq_append [of 0 "length xs" "length ys"] by (simp add: map_append)
  then show ?thesis
    unfolding grown_def using xs ys by (intro exI [of _ "xs @ ys"]) auto
qed

subsection \<open>Creating links\<close>

lemma create_requests_cases:
  assumes "create_requests_for_task now ttl ref cf s tid pid guid url rs expiry = (r, s')"
  shows "(\<exists>e. r = Inl e \<and> s' = rollback s) \<or>
         (\<exists>new. r = Inr new \<and> grown (working s) (working s') \<and> durable s' = working s')"
proof (cases cf)
  case None
  let ?new = "create_rows tid pid guid url (or_default expiry (now + ttl)) now
                (existing_user_ids (working s) pid guid) ref 0 (form_seq (working s) + 1) rs"
  from assms None have s': "r = Inr ?new"
      "s' = commit (modify (\<lambda>w. w\<lparr>forms := forms w @ ?new,
                             form_seq := form_seq w + int (length ?new)\<rparr>) s)"
    by (auto simp: create_requests_for_task_def Let_def)
  have "grown (working s) (working s')"
    unfolding grown_def s'
    by (rule exI [of _ ?new]) (auto simp: create_rows_ids fresh_row_def dest: create_rows_props)
  with s' show ?thesis by simp
next
  case (Some e)
  with assms show ?thesis
    by (auto simp: create_requests_for_task_def Let_def rollback_def modify_def)
qed

lemma emit_for_tasks_cases:
  assumes "emit_for_tasks now ttl nats ref cf tid pid n ts s = (err, evs, s')"
  shows "s' = s \<or> s' = rollback s \<or> (grown (working s) (working s') \<and> durable s' = working s')"
  using assms
proof (induction ts arbitrary: n s err evs s')
  case (Cons t ts)
  note IH = Cons.IH [of "Suc n"]
  show ?case
  proof (cases "external_form_url_for_task t")
    case None
    with Cons.prems IH show ?thesis by simp
  next
    case (Some url)
    show ?thesis
    proof (cases "fst (recipients_for_task t) = []")
      case True
      with Cons.prems IH Some show ?thesis by simp
    next
      case False
      obtain r s1 where c: "create_requests_for_task now ttl (ref n) (cf n) s tid pid
          (wi_task_guid t) url (fst (recipients_for_task t)) None = (r, s1)" by fastforce
      show ?thesis
      proof (cases r)
        case (Inl e)
        with Cons.prems Some False c create_requests_cases [OF c] show ?thesis by auto
      next
        case (Inr created)
        obtain err2 evs2 s2 where e:
          "emit_for_tasks now ttl nats ref cf tid pid (Suc n) ts s1 = (err2, evs2, s2)"
          by (metis prod_cases3)
        from Cons.prems Some False c Inr e have s': "s' = s2"
          by (auto split: if_splits option.splits)
        from create_requests_cases [OF c] Inr
        have g: "grown (working s) (working s1)" "durable s1 = working s1" by auto
        from IH [OF e] consider "s2 = s1" | "s2 = rollback s1"
          | "grown (working s1) (working s2)" "durable s2 = working s2" by auto
        then show ?thesis
        proof cases
          case 3
          with g s' show ?thesis by (auto intro: grown_trans)
        qed (use g s' in \<open>auto simp: rollback_def\<close>)
      qed
    qed
  qed
qed simp

subsection \<open>The task commands\<close>

lemma execute_command_sel:
  assumes "execute_command core c s = (r, s')"
  shows "durable s' = durable s" "working s' = snd (core c (working s))"
  using assms by (auto simp: execute_command_def split: prod.splits)

text \<open>A property of the world that reads only the link table and survives new links.\<close>

definition link_property :: "(world \<Rightarrow> bool) \<Rightarrow> bool" where
  "link_property G \<longleftrightarrow> (\<forall>w w'. G w \<longrightarrow> grown w w' \<longrightarrow> G w')"

definition holds_in :: "(world \<Rightarrow> bool) \<Rightarrow> db \<Rightarrow> bool" where
  "holds_in G s \<longleftrightarrow> G (durable s) \<and> G (working s)"

lemma link_property_same:
  "link_property G \<Longrightarrow> G w \<Longrightarrow> forms w' = forms w \<Longrightarrow> form_seq w' = form_seq w \<Longrightarrow> G w'"
  unfolding link_property_def using grown_refl by blast

lemma holds_commit: "holds_in G s \<Longrightarrow> holds_in G (commit s)"
  and holds_rollback: "holds_in G s \<Longrightarrow> holds_in G (rollback s)"
  by (simp_all add: holds_in_def)

lemma holds_execute:
  assumes "core_keeps_forms core" "link_property G" "execute_command core c s = (r, s')" "holds_in G s"
  shows "holds_in G s'"
  using assms execute_command_sel [OF assms(3)]
  by (auto simp: holds_in_def core_keeps_forms_def intro: link_property_same)

lemma holds_record_event:
  assumes "core_keeps_forms core" "link_property G" "holds_in G s"
    and "record_task_completed_event_if_missing core s tid pid guid uid = (r, s')"
  shows "holds_in G s'"
proof (cases "event_recorded (working s) tid pid guid")
  case True
  with assms show ?thesis by (simp add: record_task_completed_event_if_missing_def)
next
  case False
  obtain r1 s1 where e: "execute_command core (RecordEvent tid pid ''task_completed'' guid uid) s = (r1, s1)"
    by fastforce
  with False assms(4) have "s' = s1"
    by (auto simp: record_task_completed_event_if_missing_def
        split: sum.splits core_exn.splits if_splits)
  with holds_execute [OF assms(1,2) e assms(3)] show ?thesis by simp
qed

lemma holds_service_failed:
  assumes "core_keeps_forms core" "link_property G" "holds_in G s"
    and "service_task_failed core env s tid item pid uid msg = (e, s')"
  shows "holds_in G s'"
  using assms
  by (auto simp: service_task_failed_def intro!: holds_commit
      dest: holds_record_event [OF assms(1-3)] split: if_splits option.splits prod.splits sum.splits)

lemma holds_record_error:
  assumes "link_property G" "holds_in G s"
  shows "holds_in G (modify (record_process_instance_error now tid pid guid detail) s)"
  using assms
  by (auto simp: holds_in_def record_process_instance_error_def
      intro: link_property_same [OF assms(1)])

lemma holds_script_failed:
  assumes "core_keeps_forms core" "link_property G" "holds_in G s"
    and "script_task_failed core env s tid item pid uid exc = (e, s')"
  shows "holds_in G s'"
proof -
  note ex = holds_execute [OF assms(1,2)]
  show ?thesis
    using assms(3,4)
    by (auto simp: script_task_failed_def Let_def
        intro!: holds_commit holds_record_error assms(2)
        dest: holds_record_event [OF assms(1-3)] dest: ex
        intro: holds_record_event [OF assms(1-3)]
        split: if_splits option.splits prod.splits sum.splits)
qed

lemma holds_emit:
  assumes "link_property G" "holds_in G s" "emit_external_form_requests env s tid pid = (evs, s')"
  shows "holds_in G s'"
proof -
  obtain err evs' s2 where e: "emit_for_tasks (env_now env) (env_ttl env) (env_nats env) (env_ref env)
      (env_commit_failure env) tid pid 0 (ready_tasks (working s) tid pid) s = (err, evs', s2)"
    by (metis prod_cases3)
  with assms(3) have "s' = s2"
    by (simp add: emit_external_form_requests_def emit_requests_for_ready_tasks_def)
  with emit_for_tasks_cases [OF e] assms(1,2) show ?thesis
    by (auto simp: holds_in_def link_property_def)
qed

lemma holds_claim:
  assumes "core_keeps_forms core" "link_property G" "holds_in G s"
    and "claim core s tid item_id uid = (r, s')"
  shows "holds_in G s'"
  using assms(3,4) holds_execute [OF assms(1,2) _ assms(3)]
  by (auto simp: claim_def split: option.splits prod.splits sum.splits)

lemma holds_complete:
  assumes core: "core_keeps_forms core" and G: "link_property G" and s: "holds_in G s"
    and c: "complete core env s tid item_id uid payload = (r, evs, s')"
  shows "holds_in G s'"
proof -
  let ?cmd = "CompleteTask tid item_id uid (completion_payload (env_width env) (working s) tid item_id payload)"
  obtain r1 s1 where e: "execute_command core ?cmd s = (r1, s1)" by fastforce
  have s1: "holds_in G s1" by (rule holds_execute [OF core G e s])
  show ?thesis
    using c e s s1
    by (auto simp: complete_def Let_def
        dest: holds_service_failed [OF core G s1] holds_script_failed [OF core G s1]
          holds_emit [OF G s1]
        split: option.splits prod.splits sum.splits core_exn.splits bpmn_kind.splits)
qed

lemma holds_submit_external_form:
  assumes "core_keeps_forms core" "link_property G" "holds_in G s"
    and "submit_external_form core env rd loads req s tid item_id uid payload = (r, evs, s')"
  shows "holds_in G s'"
proof -
  obtain r1 s1 where e: "claim core s tid item_id uid = (r1, s1)" by fastforce
  have s1: "holds_in G s1" by (rule holds_claim [OF assms(1-3) e])
  show ?thesis
    using assms(4) e s1
    by (auto simp: submit_external_form_def Let_def
        dest: holds_complete [OF assms(1,2) s1] split: sum.splits if_splits)
qed

lemma holds_terminate:
  assumes "core_keeps_forms core" "link_property G" "holds_in G s"
    and "terminate_instance core env False s tid pid uid = (r, s')"
  shows "holds_in G s'"
  using assms(4) holds_execute [OF assms(1,2) _ assms(3)]
  by (auto simp: terminate_instance_def split: prod.splits sum.splits)

end
