(* ===== verification/Form_Service.thy ===== *)
theory Form_Service
  imports Human_Task
begin

text \<open>
  The link endpoints (services/external_form_service.py): lazy expiry, retirement of a link
  whose task closed, the admin's re-issue, the recipient's read and the submission that
  resumes the workflow. An operation takes the session and returns its result with the
  session it leaves; a row the code holds is threaded next to it. \<open>db.session.commit()\<close>
  succeeds except where the code handles its failure (\<open>commit_ok\<close>). Every ORM write also
  moves \<open>updated_at\<close> (models/host_base.py, the \<open>before_update\<close> listener).
\<close>

definition find_request_or_raise :: "world \<Rightarrow> string \<Rightarrow> api_error + form_request" where
  "find_request_or_raise w reference_id =
     (case form_by_reference w reference_id of
        None \<Rightarrow> Inl (ApiError ''invalid_reference_id''
                       ''No external form request was found for this link.'' 404)
      | Some row \<Rightarrow> Inr row)"

text \<open>A write to the row the code holds: the held object and the table change together.\<close>

definition write_row :: "(form_request \<Rightarrow> form_request) \<Rightarrow> form_request \<Rightarrow> db \<Rightarrow> form_request \<times> db" where
  "write_row f row s = (f row, modify (set_form (fr_id row) f) s)"

definition expire :: "int \<Rightarrow> form_request \<Rightarrow> form_request" where
  "expire now row = row\<lparr>fr_status := Expired, fr_updated_at := now\<rparr>"

definition run_out :: "int \<Rightarrow> form_request \<Rightarrow> bool" where
  "run_out now row \<longleftrightarrow>
     is_open row \<and> (case fr_expires_at row of None \<Rightarrow> False | Some e \<Rightarrow> e < now)"

definition expire_if_needed :: "int \<Rightarrow> form_request \<Rightarrow> db \<Rightarrow> form_request \<times> db" where
  "expire_if_needed now row s =
     (if run_out now row
      then (let (row', s') = write_row (expire now) row s in (row', commit s'))
      else (row, s))"

definition human_task_for :: "world \<Rightarrow> form_request \<Rightarrow> work_item option" where
  "human_task_for w row =
     find (\<lambda>t. wi_process_instance_id t = fr_process_instance_id row \<and>
               wi_task_guid t = fr_task_guid row) (items w)"

text \<open>Only a task row that says completed is evidence that the task closed.\<close>

definition task_closed :: "work_item option \<Rightarrow> bool" where
  "task_closed work_item = (case work_item of None \<Rightarrow> False | Some t \<Rightarrow> wi_completed t)"

definition cancel_if_task_closed ::
  "int \<Rightarrow> form_request \<Rightarrow> work_item option \<Rightarrow> db \<Rightarrow> bool \<times> form_request \<times> db" where
  "cancel_if_task_closed now row work_item s =
     (let (row', s') =
        (if is_open row \<and> task_closed work_item
         then (let (r, s1) = write_row (retire now) row s in (r, commit s1))
         else (row, s))
      in (fr_status row' = Cancelled, row', s'))"

subsection \<open>Re-issue\<close>

definition NOT_REISSUABLE :: "form_status \<Rightarrow> string option" where
  "NOT_REISSUABLE st =
     (case st of
        Submitted \<Rightarrow> Some ''The recipient already submitted this form.''
      | Completed \<Rightarrow> Some ''The recipient already submitted this form.''
      | Superseded \<Rightarrow> Some ''Another recipient already completed this task.''
      | Cancelled \<Rightarrow> Some (''Its task is no longer open: the process instance was terminated or '' @
                          ''the task was closed.'')
      | _ \<Rightarrow> None)"

text \<open>An email is in flight: claimed, and the claim still within the lease.\<close>

definition in_flight :: "int \<Rightarrow> form_request \<Rightarrow> bool" where
  "in_flight now row \<longleftrightarrow>
     fr_status row = Sending \<and> or_default (fr_notified_at row) 0 \<ge> now - SEND_LEASE_SECONDS"

definition renew :: "int \<Rightarrow> int \<Rightarrow> string \<Rightarrow> form_request \<Rightarrow> form_request" where
  "renew now ttl token row =
     row\<lparr>fr_reference_id := token, fr_status := Pending, fr_expires_at := Some (now + ttl),
         fr_notified_at := None, fr_attempts := 0, fr_last_error := None, fr_updated_at := now\<rparr>"

definition reissue ::
  "int \<Rightarrow> int \<Rightarrow> string \<Rightarrow> db \<Rightarrow> int \<Rightarrow> string \<Rightarrow> (api_error + form_request) \<times> db" where
  "reissue now ttl token s request_id tid =
     (case find (\<lambda>r. fr_id r = request_id \<and> fr_tenant_id r = tid) (forms (working s)) of
        None \<Rightarrow> (Inl (ApiError ''external_form_request_not_found''
                  ''No external form notification exists with that id for this tenant.'' 404), s)
      | Some row0 \<Rightarrow>
          (let (closed, row, s1) = cancel_if_task_closed now row0 (human_task_for (working s) row0) s;
               reason = (case NOT_REISSUABLE (fr_status row) of
                           Some m \<Rightarrow> Some m
                         | None \<Rightarrow>
                             (if in_flight now row
                              then Some (''An email for this request is being sent right now. '' @
                                         ''Try again in a few minutes.'')
                              else None))
           in case reason of
                Some m \<Rightarrow> (Inl (ApiError ''external_form_request_not_resendable''
                          (''A notification in status '' @ [CHR 0x27] @ status_str (fr_status row) @
                           [CHR 0x27] @ '' cannot be resent. '' @ m) 409), s1)
              | None \<Rightarrow>
                  (let (row', s2) = write_row (renew now ttl token) row s1
                   in (Inr row', commit s2))))"

subsection \<open>Reading a link\<close>

text \<open>\<open>task_readable\<close>: whether the lookup of the task raised.\<close>

definition get_form_context ::
  "int \<Rightarrow> bool \<Rightarrow> db \<Rightarrow> string \<Rightarrow> (api_error + (string \<times> pyval) list) \<times> db" where
  "get_form_context now task_readable s reference_id =
     (case find_request_or_raise (working s) reference_id of
        Inl e \<Rightarrow> (Inl e, s)
      | Inr row0 \<Rightarrow>
          (let (row1, s1) = expire_if_needed now row0 s;
               work_item = (if task_readable then human_task_for (working s1) row1 else None);
               (closed, row, s2) = cancel_if_task_closed now row1 work_item s1;
               context = to_public_dict row @
                 [(''actionable'', PBool (is_actionable row)),
                  (''expires_at_in_seconds'', opt_int (fr_expires_at row))] @
                 (case work_item of
                    None \<Rightarrow> []
                  | Some t \<Rightarrow> [(''task_name'', opt_str (wi_task_name t)),
                               (''task_title'', opt_str (wi_task_title t)),
                               (''process_model_display_name'', opt_str (wi_model_display_name t))])
           in (Inr context, s2)))"

subsection \<open>Submitting\<close>

definition raise_for_unusable_status :: "form_status \<Rightarrow> api_error option" where
  "raise_for_unusable_status st =
     (if st = Submitted \<or> st = Completed
      then Some (ApiError ''already_submitted'' ''This form has already been submitted.'' 409)
      else if st = Superseded
      then Some (ApiError ''reference_superseded''
             ''This task was already completed through another recipient's link.'' 410)
      else if st = Expired
      then Some (ApiError ''reference_expired'' ''This link has expired.'' 410)
      else if st = Cancelled
      then Some (ApiError ''reference_cancelled''
             (''This form is no longer needed: the workflow task it belonged to was closed.'') 410)
      else if st = Smtp_unconfigured
      then Some (ApiError ''reference_not_active'' ''This link is not active.'' 409)
      else None)"

definition fail_row :: "int \<Rightarrow> string \<Rightarrow> form_request \<Rightarrow> form_request" where
  "fail_row now msg row =
     row\<lparr>fr_status := Failed, fr_attempts := fr_attempts row + 1,
         fr_last_error := truncate_last_error (Some msg), fr_updated_at := now\<rparr>"

definition record_failure :: "int \<Rightarrow> bool \<Rightarrow> int \<Rightarrow> string \<Rightarrow> db \<Rightarrow> db" where
  "record_failure now commit_ok row_id msg s =
     (let s' = modify (set_form row_id (fail_row now msg)) (rollback s)
      in if commit_ok then commit s' else rollback s')"

definition is_sibling :: "form_request \<Rightarrow> form_request \<Rightarrow> bool" where
  "is_sibling row r \<longleftrightarrow>
     fr_process_instance_id r = fr_process_instance_id row \<and> fr_task_guid r = fr_task_guid row \<and>
     fr_id r \<noteq> fr_id row \<and> is_open r"

definition supersede :: "int \<Rightarrow> form_request \<Rightarrow> form_request" where
  "supersede now row = row\<lparr>fr_status := Superseded, fr_updated_at := now\<rparr>"

definition supersede_siblings :: "int \<Rightarrow> form_request \<Rightarrow> world \<Rightarrow> world" where
  "supersede_siblings now row w =
     w\<lparr>forms := update_where (is_sibling row) (supersede now) (forms w)\<rparr>"

definition mark_submitted ::
  "int \<Rightarrow> form_status \<Rightarrow> (string \<times> pyval) list \<Rightarrow> form_request \<Rightarrow> form_request" where
  "mark_submitted now st form_data row =
     row\<lparr>fr_status := st, fr_form_submission_data := Some form_data, fr_updated_at := now\<rparr>"

definition mark_completed :: "int \<Rightarrow> form_request \<Rightarrow> form_request" where
  "mark_completed now row = row\<lparr>fr_status := Completed, fr_updated_at := now\<rparr>"

definition API_MESSAGE_SEPARATOR :: string where
  "API_MESSAGE_SEPARATOR = '': ''"

text \<open>The part of \<open>submit\<close> after the link was accepted: \<open>row\<close> is open, its task is not closed
  and the state already holds the submission. A raised engine error that is not an
  \<open>ApiError\<close> reaches the generic handler.\<close>

definition resume_workflow ::
  "core \<Rightarrow> env \<Rightarrow> reader \<Rightarrow> (string \<Rightarrow> pyval option) \<Rightarrow> db \<Rightarrow> form_request \<Rightarrow> work_item option \<Rightarrow> int \<Rightarrow>
   (string \<times> pyval) list \<Rightarrow> (host_exn + int) \<times> notification_event list \<times> db" where
  "resume_workflow core env read loads s row work_item uid form_data =
     (case work_item of
        None \<Rightarrow> (Inl (ApiExn (ApiError ''not_found'' ''Work item not found for this form'' 404)), [], s)
      | Some t \<Rightarrow>
          submit_external_form core (env\<lparr>env_external := True\<rparr>) read loads False s
            (fr_tenant_id row) (wi_id t) uid (Some form_data))"

definition finish_submit ::
  "int \<Rightarrow> bool \<Rightarrow> form_request \<Rightarrow> (string \<times> pyval) list \<Rightarrow> (host_exn + int) \<Rightarrow> db \<Rightarrow>
   (api_error + (string \<times> pyval) list) \<times> db" where
  "finish_submit now commit_ok row form_data r s =
     (case r of
        Inl (ApiExn e) \<Rightarrow>
          (if error_code e = ''invalid_state''
           then (Inl (ApiError ''already_submitted'' ''This task has already been completed.'' 409),
                 commit (modify (set_form (fr_id row) (mark_submitted now Completed form_data))
                           (rollback s)))
           else (Inl e, record_failure now commit_ok (fr_id row)
                          (error_code e @ API_MESSAGE_SEPARATOR @ err_message e) s))
      | Inl (CoreExn e) \<Rightarrow>
          (Inl (ApiError ''workflow_resume_failed''
             (''The form was received but the workflow could not be resumed: '' @ exn_str e) 500),
           record_failure now commit_ok (fr_id row) (exn_str e) s)
      | Inr i \<Rightarrow>
          (Inr [(''reference_id'', PStr (fr_reference_id row)), (''status'', PStr ''completed''),
                (''process_instance_id'', PInt (fr_process_instance_id row))],
           commit (modify (supersede_siblings now row)
                     (modify (set_form (fr_id row) (mark_completed now)) s))))"

text \<open>\<open>submit\<close> from the point where the link is accepted: the row takes the submission, the
  recipient is looked up, the workflow is resumed and the outcome recorded.\<close>

definition accept_submission ::
  "core \<Rightarrow> env \<Rightarrow> reader \<Rightarrow> (string \<Rightarrow> pyval option) \<Rightarrow> bool \<Rightarrow> db \<Rightarrow> form_request \<Rightarrow> work_item option \<Rightarrow>
   (string \<times> pyval) list \<Rightarrow>
   (api_error + (string \<times> pyval) list) \<times> notification_event list \<times> db" where
  "accept_submission core env read loads commit_ok s row0 work_item form_data =
     (let now = env_now env;
          (row, s1) = write_row (mark_submitted now Submitted form_data) row0 s in
      case user_by_id (working s1) (fr_recipient_user_id row) of
        None \<Rightarrow>
          (Inl (ApiError ''recipient_not_found''
             ''The recipient for this link could not be resolved.'' 410), [],
           record_failure now commit_ok (fr_id row) ''Recipient user no longer exists.'' s1)
      | Some recipient \<Rightarrow>
          (case resume_workflow core env read loads s1 row work_item (user_id recipient) form_data of
             (r, evs, s2) \<Rightarrow>
               (case finish_submit now commit_ok row form_data r s2 of
                  (res, s3) \<Rightarrow> (res, evs, s3))))"

definition submit ::
  "core \<Rightarrow> env \<Rightarrow> reader \<Rightarrow> (string \<Rightarrow> pyval option) \<Rightarrow> bool \<Rightarrow> db \<Rightarrow> string \<Rightarrow> (string \<times> pyval) list \<Rightarrow>
   (api_error + (string \<times> pyval) list) \<times> notification_event list \<times> db" where
  "submit core env read loads commit_ok s reference_id form_data =
     (let now = env_now env in
      case find_request_or_raise (working s) reference_id of
        Inl e \<Rightarrow> (Inl e, [], s)
      | Inr row0 \<Rightarrow>
          (case raise_for_unusable_status (fr_status row0) of
             Some e \<Rightarrow> (Inl e, [], s)
           | None \<Rightarrow>
               (let (row1, s1) = expire_if_needed now row0 s in
                case (if fr_status row1 = Expired then raise_for_unusable_status (fr_status row1)
                      else None) of
                  Some e \<Rightarrow> (Inl e, [], s1)
                | None \<Rightarrow>
                    (let work_item = human_task_for (working s1) row1;
                         (closed, row2, s2) = cancel_if_task_closed now row1 work_item s1 in
                     case (if closed then raise_for_unusable_status (fr_status row2) else None) of
                       Some e \<Rightarrow> (Inl e, [], s2)
                     | None \<Rightarrow>
                         accept_submission core env read loads commit_ok s2 row2 work_item
                           form_data))))"

lemmas service_defs [py_eval] = find_request_or_raise_def write_row_def expire_def run_out_def
  expire_if_needed_def human_task_for_def task_closed_def cancel_if_task_closed_def
  NOT_REISSUABLE_def in_flight_def SEND_LEASE_SECONDS_def renew_def reissue_def
  get_form_context_def raise_for_unusable_status_def fail_row_def record_failure_def
  is_sibling_def supersede_def supersede_siblings_def mark_submitted_def mark_completed_def
  API_MESSAGE_SEPARATOR_def resume_workflow_def finish_submit_def accept_submission_def
  submit_def TASK_CLOSED_REASON_def

end
