(* ===== verification/Form_Delivery.thy ===== *)
theory Form_Delivery
  imports Form_Service
begin

text \<open>
  E-mail delivery of links (services/external_form_notification_service.py). The statements
  on the link table are \<open>UPDATE ... WHERE\<close> with a guard: a claim, the record of a send, the
  release of a failed one, parking and reviving. A tenant's secrets are the rows of its
  store, each with the value it decrypts to (\<open>None\<close> when it cannot be read); the mail server
  and the work of other sessions while an e-mail is in flight are arguments.
\<close>

definition CLAIMABLE_STATUSES :: "form_status list" where
  "CLAIMABLE_STATUSES = [Pending, Failed]"

definition MARK_SENT_ATTEMPTS :: nat where
  "MARK_SENT_ATTEMPTS = 3"

text \<open>\<open>notified_at < now - lease\<close> is false for SQL's \<open>NULL\<close>.\<close>

definition claimable :: "int \<Rightarrow> form_request \<Rightarrow> bool" where
  "claimable now row \<longleftrightarrow>
     (fr_notified_at row = None \<and> fr_status row \<in> set CLAIMABLE_STATUSES) \<or>
     (fr_status row = Sending \<and>
      (case fr_notified_at row of None \<Rightarrow> False | Some n \<Rightarrow> n < now - SEND_LEASE_SECONDS))"

subsection \<open>The statements\<close>

text \<open>Every statement is committed at once, so it acts on the whole session.\<close>

definition exec_update ::
  "(form_request \<Rightarrow> bool) \<Rightarrow> (form_request \<Rightarrow> form_request) \<Rightarrow> db \<Rightarrow> nat \<times> db" where
  "exec_update P f s =
     (rowcount P (forms (working s)),
      commit (modify (\<lambda>w. w\<lparr>forms := update_where P f (forms w)\<rparr>) s))"

definition claim_row :: "int \<Rightarrow> int \<Rightarrow> form_request \<Rightarrow> form_request" where
  "claim_row now ttl row =
     row\<lparr>fr_status := Sending, fr_notified_at := Some now, fr_expires_at := Some (now + ttl),
         fr_attempts := fr_attempts row + 1, fr_updated_at := now, fr_last_error := None\<rparr>"

definition claim_request :: "int \<Rightarrow> int \<Rightarrow> int \<Rightarrow> db \<Rightarrow> bool \<times> db" where
  "claim_request now ttl request_id s =
     (let (n, s') = exec_update (\<lambda>r. fr_id r = request_id \<and> claimable now r) (claim_row now ttl) s
      in (n = 1, s'))"

definition is_sending :: "form_request \<Rightarrow> bool" where
  "is_sending row \<longleftrightarrow> fr_status row = Sending"

definition sent_row :: "int \<Rightarrow> form_request \<Rightarrow> form_request" where
  "sent_row now row = row\<lparr>fr_status := Notified, fr_updated_at := now\<rparr>"

definition mark_sent :: "int \<Rightarrow> int \<Rightarrow> db \<Rightarrow> db" where
  "mark_sent now request_id s =
     snd (exec_update (\<lambda>r. fr_id r = request_id \<and> is_sending r) (sent_row now) s)"

text \<open>\<open>_record_sent\<close>: \<open>ok i\<close> is whether attempt \<open>i\<close> reaches the database.\<close>

fun record_sent_from :: "nat \<Rightarrow> nat \<Rightarrow> (nat \<Rightarrow> bool) \<Rightarrow> int \<Rightarrow> int \<Rightarrow> db \<Rightarrow> bool \<times> db" where
  "record_sent_from 0 attempt ok now request_id s = (False, s)"
| "record_sent_from (Suc k) attempt ok now request_id s =
     (if ok attempt then (True, mark_sent now request_id s)
      else record_sent_from k (Suc attempt) ok now request_id (rollback s))"

definition record_sent :: "(nat \<Rightarrow> bool) \<Rightarrow> int \<Rightarrow> int \<Rightarrow> db \<Rightarrow> bool \<times> db" where
  "record_sent ok now request_id s = record_sent_from MARK_SENT_ATTEMPTS 1 ok now request_id s"

definition release_row :: "int \<Rightarrow> string \<Rightarrow> form_request \<Rightarrow> form_request" where
  "release_row now msg row =
     row\<lparr>fr_status := Failed, fr_notified_at := None, fr_updated_at := now,
         fr_last_error := truncate_last_error (Some msg)\<rparr>"

definition release_failed :: "int \<Rightarrow> int \<Rightarrow> string \<Rightarrow> db \<Rightarrow> db" where
  "release_failed now request_id msg s =
     snd (exec_update (\<lambda>r. fr_id r = request_id \<and> is_sending r) (release_row now msg) s)"

definition park_row :: "int \<Rightarrow> string \<Rightarrow> form_request \<Rightarrow> form_request" where
  "park_row now reason row =
     row\<lparr>fr_status := Smtp_unconfigured, fr_notified_at := None, fr_updated_at := now,
         fr_last_error := truncate_last_error (Some reason)\<rparr>"

definition mark_smtp_unconfigured :: "int \<Rightarrow> int list \<Rightarrow> string \<Rightarrow> db \<Rightarrow> nat \<times> db" where
  "mark_smtp_unconfigured now request_ids reason s =
     (if request_ids = [] then (0, s)
      else exec_update (\<lambda>r. fr_id r \<in> set request_ids \<and> claimable now r) (park_row now reason) s)"

definition is_parked :: "form_request \<Rightarrow> bool" where
  "is_parked row \<longleftrightarrow> fr_status row = Smtp_unconfigured"

definition revive_row :: "int \<Rightarrow> form_request \<Rightarrow> form_request" where
  "revive_row now row =
     row\<lparr>fr_status := Pending, fr_notified_at := None, fr_attempts := 0, fr_updated_at := now,
         fr_last_error := None\<rparr>"

definition revive_smtp_unconfigured :: "int \<Rightarrow> string \<Rightarrow> db \<Rightarrow> nat \<times> db" where
  "revive_smtp_unconfigured now tid s =
     exec_update (\<lambda>r. fr_tenant_id r = tid \<and> is_parked r) (revive_row now) s"

definition tenants_with_parked_requests :: "world \<Rightarrow> string list" where
  "tenants_with_parked_requests w = dedup_into [] (map fr_tenant_id (filter is_parked (forms w)))"

definition sweep_candidates :: "int \<Rightarrow> int \<Rightarrow> int \<Rightarrow> world \<Rightarrow> (int \<times> string) list" where
  "sweep_candidates now grace max_attempts w =
     map (\<lambda>r. (fr_id r, fr_tenant_id r))
       (sort_key fr_created_at
         (filter (\<lambda>r. claimable now r \<and> fr_attempts r < max_attempts \<and> fr_created_at r < now - grace)
            (forms w)))"

subsection \<open>SMTP configuration\<close>

type_synonym secret_store = "string \<Rightarrow> (string \<times> string option) list"

definition SMTP_HOST :: string where "SMTP_HOST = ''NATS_SMTP_HOST''"
definition SMTP_PORT :: string where "SMTP_PORT = ''NATS_SMTP_PORT''"
definition SMTP_USERNAME :: string where "SMTP_USERNAME = ''NATS_SMTP_USERNAME''"
definition SMTP_PASSWORD :: string where "SMTP_PASSWORD = ''NATS_SMTP_PASSWORD''"
definition SMTP_FROM_EMAIL :: string where "SMTP_FROM_EMAIL = ''NATS_SMTP_FROM_EMAIL''"
definition SMTP_STARTTLS :: string where "SMTP_STARTTLS = ''NATS_SMTP_STARTTLS''"
definition SMTP_SSL :: string where "SMTP_SSL = ''NATS_SMTP_SSL''"

definition SMTP_SECRET_KEYS :: "string list" where
  "SMTP_SECRET_KEYS = [SMTP_HOST, SMTP_PORT, SMTP_USERNAME, SMTP_PASSWORD, SMTP_FROM_EMAIL,
                       SMTP_STARTTLS, SMTP_SSL]"

definition REQUIRED_SMTP_SECRET_KEYS :: "string list" where
  "REQUIRED_SMTP_SECRET_KEYS = [SMTP_HOST, SMTP_FROM_EMAIL]"

definition OPTIONAL_SMTP_SECRET_KEYS :: "string list" where
  "OPTIONAL_SMTP_SECRET_KEYS = filter (\<lambda>k. k \<notin> set REQUIRED_SMTP_SECRET_KEYS) SMTP_SECRET_KEYS"

definition is_truthy :: "string option \<Rightarrow> bool" where
  "is_truthy value \<longleftrightarrow>
     lower (strip (or_default value [])) \<in> {''1'', ''true'', ''yes'', ''on''}"

text \<open>\<open>None\<close> for a key that is absent, unreadable or blank.\<close>

definition read_tenant_secret :: "secret_store \<Rightarrow> string \<Rightarrow> string \<Rightarrow> string option" where
  "read_tenant_secret secrets key tid =
     (case map_of (secrets tid) key of
        Some (Some v) \<Rightarrow> (if strip v = [] then None else Some (strip v))
      | _ \<Rightarrow> None)"

record smtp_settings =
  smtp_host :: string
  smtp_port :: int
  smtp_username :: "string option"
  smtp_password :: "string option"
  smtp_from_email :: string
  smtp_starttls :: bool
  smtp_ssl :: bool

definition resolve_smtp_settings :: "secret_store \<Rightarrow> string \<Rightarrow> smtp_settings option" where
  "resolve_smtp_settings secrets tid =
     (let read = (\<lambda>key. read_tenant_secret secrets key tid)
      in case (read SMTP_HOST, read SMTP_FROM_EMAIL) of
           (Some h, Some f) \<Rightarrow>
             Some \<lparr>smtp_host = h,
                   smtp_port = (case read SMTP_PORT of
                                  None \<Rightarrow> 587
                                | Some p \<Rightarrow> or_default (py_int p) 587),
                   smtp_username = read SMTP_USERNAME, smtp_password = read SMTP_PASSWORD,
                   smtp_from_email = f,
                   smtp_starttls = is_truthy (read SMTP_STARTTLS),
                   smtp_ssl = is_truthy (read SMTP_SSL)\<rparr>
         | _ \<Rightarrow> None)"

definition present_smtp_secret_keys :: "secret_store \<Rightarrow> string \<Rightarrow> string set" where
  "present_smtp_secret_keys secrets tid = set (map fst (secrets tid)) \<inter> set SMTP_SECRET_KEYS"

record smtp_readiness =
  rd_missing :: "string list"
  rd_unreadable :: "string list"
  rd_reason :: "string option"

definition rd_ok :: "smtp_readiness \<Rightarrow> bool" where
  "rd_ok r \<longleftrightarrow> rd_reason r = None"

definition smtp_readiness :: "secret_store \<Rightarrow> string \<Rightarrow> smtp_readiness" where
  "smtp_readiness secrets tid =
     (let present = present_smtp_secret_keys secrets tid;
          unusable = filter (\<lambda>k. read_tenant_secret secrets k tid = None) REQUIRED_SMTP_SECRET_KEYS;
          unreadable = filter (\<lambda>k. k \<in> present) unusable;
          missing = filter (\<lambda>k. k \<notin> present) unusable
      in \<lparr>rd_missing = missing, rd_unreadable = unreadable,
          rd_reason =
            (if unreadable \<noteq> []
             then Some (''SMTP secrets exist but could not be read (blank value, or the backend'' @
                        '' encryption key changed): '' @ join '', '' unreadable)
             else if missing \<noteq> []
             then Some (''SMTP is not configured for this tenant. Missing required secrets: '' @
                        join '', '' missing)
             else None)\<rparr>)"

subsection \<open>Notifying\<close>

text \<open>
  The scheme of the link: what precedes the first colon when it is a letter followed by
  letters, digits, \<open>+\<close>, \<open>-\<close> or \<open>.\<close>, in lower case, after the characters \<open>urlsplit\<close> drops.
  \<open>build_secure_link\<close> adds a query parameter and keeps the scheme.
\<close>

definition scheme_char :: "char \<Rightarrow> bool" where
  "scheme_char c \<longleftrightarrow> is_alpha c \<or> is_digit c \<or> c \<in> {CHR ''+'', CHR ''-'', CHR ''.''}"

definition url_scheme :: "string \<Rightarrow> string" where
  "url_scheme url =
     (let u = filter (\<lambda>c. c \<notin> {CHR 0x09, CHR 0x0A, CHR 0x0D})
                (dropWhile (\<lambda>c. (of_char c :: nat) \<le> 32) url)
      in case partition_at (CHR 0x3A) u of
           (h, found, t) \<Rightarrow>
             (if found \<and> h \<noteq> [] \<and> is_alpha (hd h) \<and> list_all scheme_char h then lower h else []))"

datatype notify_result =
    Sent | Sent_unrecorded | Send_failed string
  | Skipped_unknown_request | Skipped_task_closed | Skipped_smtp_unconfigured
  | Skipped_unsafe_url | Skipped_not_claimable

primrec notify_result_str :: "notify_result \<Rightarrow> string" where
  "notify_result_str Sent = ''sent''"
| "notify_result_str Sent_unrecorded = ''sent:unrecorded''"
| "notify_result_str (Send_failed e) = ''failed:'' @ e"
| "notify_result_str Skipped_unknown_request = ''skipped:unknown_request''"
| "notify_result_str Skipped_task_closed = ''skipped:task_closed''"
| "notify_result_str Skipped_smtp_unconfigured = ''skipped:smtp_unconfigured''"
| "notify_result_str Skipped_unsafe_url = ''skipped:unsafe_url''"
| "notify_result_str Skipped_not_claimable = ''skipped:not_claimable''"

record email =
  em_to :: string
  em_link_reference :: string
  em_settings :: smtp_settings

text \<open>
  What a call of \<open>notify\<close> meets: the clock before and after the send, the link lifetime, the
  secrets, whether the task can be read, the mail server (\<open>None\<close> accepts, \<open>Some\<close> the error),
  which attempts to record reach the database, and what other sessions do meanwhile.
\<close>

record post =
  post_now :: int
  post_later :: int
  post_ttl :: int
  post_secrets :: secret_store
  post_task_readable :: bool
  post_smtp :: "email \<Rightarrow> string option"
  post_recorded :: "nat \<Rightarrow> bool"
  post_meanwhile :: "db \<Rightarrow> db"

definition notify :: "post \<Rightarrow> int \<Rightarrow> db \<Rightarrow> notify_result \<times> email list \<times> db" where
  "notify p request_id s =
     (case form_by_id (working s) request_id of
        None \<Rightarrow> (Skipped_unknown_request, [], s)
      | Some row0 \<Rightarrow>
          (let task = (if post_task_readable p then human_task_for (working s) row0 else None);
               (closed, row, s1) = cancel_if_task_closed (post_now p) row0 task s
           in if closed then (Skipped_task_closed, [], s1)
              else case resolve_smtp_settings (post_secrets p) (fr_tenant_id row) of
                None \<Rightarrow>
                  (let reason = or_default (or_str (rd_reason (smtp_readiness (post_secrets p)
                                                                 (fr_tenant_id row))) None)
                                  ''SMTP configuration could not be resolved for this tenant.''
                   in (Skipped_smtp_unconfigured, [],
                       snd (mark_smtp_unconfigured (post_now p) [fr_id row] reason s1)))
              | Some settings \<Rightarrow>
                  (let scheme = url_scheme (fr_external_form_url row);
                       (mine, s2) = claim_request (post_now p) (post_ttl p) (fr_id row) s1
                   in if scheme \<notin> {''http'', ''https''}
                      then (Skipped_unsafe_url, [],
                            if mine
                            then release_failed (post_now p) (fr_id row)
                                   (''external form link scheme '' @ [CHR 0x27] @ scheme @ [CHR 0x27] @
                                    '' is not http/https'') s2
                            else s2)
                      else if \<not> mine then (Skipped_not_claimable, [], s2)
                      else case form_by_id (working s2) (fr_id row) of
                        None \<Rightarrow> (Skipped_unknown_request, [], s2)
                      | Some fresh \<Rightarrow>
                          (let mail = \<lparr>em_to = fr_email fresh,
                                       em_link_reference = fr_reference_id fresh,
                                       em_settings = settings\<rparr>
                           in case post_smtp p mail of
                                Some e \<Rightarrow>
                                  (Send_failed e, [],
                                   release_failed (post_later p) (fr_id row) e
                                     (post_meanwhile p (rollback s2)))
                              | None \<Rightarrow>
                                  (let (ok, s3) = record_sent (post_recorded p) (post_later p)
                                                    (fr_id row) (post_meanwhile p s2)
                                   in (if ok then Sent else Sent_unrecorded, [mail], s3))))))"

lemmas delivery_defs [py_eval] = CLAIMABLE_STATUSES_def MARK_SENT_ATTEMPTS_def claimable_def
  exec_update_def claim_row_def claim_request_def is_sending_def sent_row_def mark_sent_def
  record_sent_def release_row_def release_failed_def park_row_def mark_smtp_unconfigured_def
  is_parked_def revive_row_def revive_smtp_unconfigured_def tenants_with_parked_requests_def
  sweep_candidates_def is_truthy_def read_tenant_secret_def resolve_smtp_settings_def
  present_smtp_secret_keys_def rd_ok_def smtp_readiness_def url_scheme_def notify_def

lemmas smtp_keys [py_eval] = SMTP_HOST_def SMTP_PORT_def SMTP_USERNAME_def SMTP_PASSWORD_def
  SMTP_FROM_EMAIL_def SMTP_STARTTLS_def SMTP_SSL_def SMTP_SECRET_KEYS_def
  REQUIRED_SMTP_SECRET_KEYS_def OPTIONAL_SMTP_SECRET_KEYS_def


subsection \<open>The statements are compare-and-set\<close>

lemma lease_positive: "0 < SEND_LEASE_SECONDS"
  by (simp add: SEND_LEASE_SECONDS_def)

interpretation claim_cas: compare_and_set fr_id "claimable now" "claim_row now ttl" for now ttl
  using lease_positive
  by unfold_locales (auto simp: claim_row_def claimable_def CLAIMABLE_STATUSES_def)

interpretation sent_cas: compare_and_set fr_id is_sending "sent_row now" for now
  by unfold_locales (auto simp: sent_row_def is_sending_def)

interpretation release_cas: compare_and_set fr_id is_sending "release_row now msg" for now msg
  by unfold_locales (auto simp: release_row_def is_sending_def)

interpretation park_cas: compare_and_set fr_id "claimable now" "park_row now reason" for now reason
  by unfold_locales (auto simp: park_row_def claimable_def CLAIMABLE_STATUSES_def)

interpretation revive_cas: compare_and_set fr_tenant_id is_parked "revive_row now" for now
  by unfold_locales (auto simp: revive_row_def is_parked_def)

end
