(* ===== verification/Form_Laws.thy ===== *)
theory Form_Laws
  imports Engine_Frame Form_Delivery
begin

text \<open>
  The life of a link row under every operation of both services: keys stay unique, the columns
  that say what the row is never change, a final row never changes at all, and the claim
  stamp and the error text stay consistent with the status.
\<close>

subsection \<open>What may become of a row\<close>

definition form_ok :: "form_request \<Rightarrow> bool" where
  "form_ok r \<longleftrightarrow>
     (fr_status r \<in> {Sending, Notified} \<longrightarrow> fr_notified_at r \<noteq> None) \<and>
     (fr_status r \<in> {Pending, Smtp_unconfigured} \<longrightarrow> fr_notified_at r = None) \<and>
     fits_last_error r \<and> 0 \<le> fr_attempts r"

definition is_final :: "form_request \<Rightarrow> bool" where
  "is_final r \<longleftrightarrow> fr_status r \<in> set final_statuses"

definition link_kept :: "form_request \<Rightarrow> form_request \<Rightarrow> bool" where
  "link_kept r r' \<longleftrightarrow>
     fr_id r' = fr_id r \<and> fr_tenant_id r' = fr_tenant_id r \<and>
     fr_process_instance_id r' = fr_process_instance_id r \<and> fr_task_guid r' = fr_task_guid r \<and>
     fr_recipient_user_id r' = fr_recipient_user_id r \<and> fr_email r' = fr_email r \<and>
     fr_external_form_url r' = fr_external_form_url r \<and> fr_created_at r' = fr_created_at r \<and>
     (is_final r \<longrightarrow> r' = r) \<and> (form_ok r \<longrightarrow> form_ok r')"

definition world_ok :: "world \<Rightarrow> bool" where
  "world_ok w \<longleftrightarrow> forms_keyed w \<and> (\<forall>r \<in> set (forms w). form_ok r)"

definition links_kept :: "world \<Rightarrow> world \<Rightarrow> bool" where
  "links_kept w w' \<longleftrightarrow> (world_ok w \<longrightarrow> world_ok w' \<and> form_seq w \<le> form_seq w' \<and>
     (\<forall>r \<in> set (forms w). \<exists>r' \<in> set (forms w'). link_kept r r'))"

lemma link_kept_refl [simp]: "link_kept r r"
  by (simp add: link_kept_def)

lemma link_kept_trans: "link_kept r s \<Longrightarrow> link_kept s t \<Longrightarrow> link_kept r t"
  by (auto simp: link_kept_def)

lemma links_kept_refl: "links_kept w w"
  by (auto simp: links_kept_def intro: link_kept_refl)

lemma links_kept_trans: "links_kept u v \<Longrightarrow> links_kept v w \<Longrightarrow> links_kept u w"
  unfolding links_kept_def by (meson link_kept_trans order_trans)

lemma world_ok_find: "world_ok w \<Longrightarrow> form_by_id w i = Some r \<Longrightarrow> r \<in> set (forms w) \<and> fr_id r = i \<and> form_ok r"
  by (auto simp: world_ok_def dest: form_by_id_in)

lemma links_kept_update:
  assumes key: "\<And>r. fr_id (f r) = fr_id r"
    and kept: "\<And>r. r \<in> set (forms w) \<Longrightarrow> P r \<Longrightarrow> link_kept r (f r)"
  shows "links_kept w (w\<lparr>forms := update_where P f (forms w)\<rparr>)"
proof -
  have "form_ok r'" if "world_ok w" "r' \<in> set (update_where P f (forms w))" for r'
    using that kept by (auto simp: world_ok_def in_update_where link_kept_def split: if_splits)
  then have "world_ok w \<Longrightarrow> world_ok (w\<lparr>forms := update_where P f (forms w)\<rparr>)"
    by (auto simp: world_ok_def intro: forms_keyed_update [OF key])
  moreover have "\<exists>r' \<in> set (update_where P f (forms w)). link_kept r r'" if "r \<in> set (forms w)" for r
    using that kept [of r]
    by (cases "P r") (auto intro: update_where_hit update_where_miss bexI [of _ r] bexI [of _ "f r"])
  ultimately show ?thesis by (auto simp: links_kept_def)
qed

lemma links_kept_set_form:
  assumes "\<And>r. fr_id (f r) = fr_id r"
    and "\<And>r. r \<in> set (forms w) \<Longrightarrow> fr_id r = i \<Longrightarrow> link_kept r (f r)"
  shows "links_kept w (set_form i f w)"
  unfolding set_form_def by (rule links_kept_update) (use assms in auto)

lemma fresh_row_ok: "fresh_row r \<Longrightarrow> form_ok r"
  by (simp add: fresh_row_def form_ok_def fits_last_error_def)

lemma links_kept_grown:
  assumes "grown w w'"
  shows "links_kept w w'"
proof -
  from assms obtain new where new: "forms w' = forms w @ new" "form_seq w' = form_seq w + int (length new)"
      "map fr_id new = map (\<lambda>n. form_seq w + 1 + int n) [0..<length new]" "\<forall>r \<in> set new. fresh_row r"
    unfolding grown_def by blast
  have ids: "fr_id ` set new = (\<lambda>n. form_seq w + 1 + int n) ` {0..<length new}"
    by (metis new(3) set_map set_upt)
  have "distinct (map fr_id new)"
    unfolding new(3) by (simp add: distinct_map inj_on_def)
  moreover have "form_seq w < fr_id r \<and> fr_id r \<le> form_seq w'" if "r \<in> set new" for r
  proof -
    from that have "fr_id r \<in> fr_id ` set new" by simp
    then obtain n where "n < length new" "fr_id r = form_seq w + 1 + int n"
      unfolding ids by auto
    with new(2) show ?thesis by simp
  qed
  ultimately have "forms_keyed w \<Longrightarrow> forms_keyed w'"
    by (fastforce simp: forms_keyed_def new)
  then show ?thesis
    unfolding links_kept_def world_ok_def using new fresh_row_ok
    by (auto intro: link_kept_refl)
qed


subsection \<open>The statements\<close>

lemma open_not_final: "is_open r \<Longrightarrow> \<not> is_final r"
  by (auto simp: is_open_def is_final_def status_sets final_statuses_def)

lemma claimable_not_final: "claimable now r \<Longrightarrow> \<not> is_final r"
  by (auto simp: claimable_def CLAIMABLE_STATUSES_def is_final_def final_statuses_def)

lemma fits_last_error_simps:
  "fr_last_error r = None \<Longrightarrow> fits_last_error r"
  "fr_last_error r = Some TASK_CLOSED_REASON \<Longrightarrow> fits_last_error r"
  "fr_last_error r = truncate_last_error m \<Longrightarrow> fits_last_error r"
  by (auto simp: fits_last_error_def TASK_CLOSED_REASON_def LAST_ERROR_MAX_LENGTH_def
      dest: truncate_last_error_bound split: option.splits)

lemma fits_last_error_same:
  "fr_last_error r = fr_last_error r' \<Longrightarrow> fits_last_error r' \<Longrightarrow> fits_last_error r"
  by (simp add: fits_last_error_def)

lemmas row_actions = claim_row_def sent_row_def release_row_def park_row_def revive_row_def
  expire_def retire_def renew_def fail_row_def supersede_def mark_submitted_def mark_completed_def

lemma row_actions_id [simp]:
  "fr_id (claim_row now ttl r) = fr_id r" "fr_id (sent_row now r) = fr_id r"
  "fr_id (release_row now m r) = fr_id r" "fr_id (park_row now m r) = fr_id r"
  "fr_id (revive_row now r) = fr_id r" "fr_id (expire now r) = fr_id r"
  "fr_id (retire now r) = fr_id r" "fr_id (renew now ttl tok r) = fr_id r"
  "fr_id (fail_row now m r) = fr_id r" "fr_id (supersede now r) = fr_id r"
  "fr_id (mark_submitted now st d r) = fr_id r" "fr_id (mark_completed now r) = fr_id r"
  by (simp_all add: row_actions)

text \<open>Each row action keeps what must be kept of a row its statement's guard selects.\<close>

lemma row_actions_kept:
  "claimable now r \<Longrightarrow> link_kept r (claim_row now ttl r)"
  "is_sending r \<Longrightarrow> link_kept r (sent_row now' r)"
  "is_sending r \<Longrightarrow> link_kept r (release_row now' m r)"
  "claimable now r \<Longrightarrow> link_kept r (park_row now' m r)"
  "is_parked r \<Longrightarrow> link_kept r (revive_row now' r)"
  "\<not> is_final r \<Longrightarrow> link_kept r (expire now' r)"
  "\<not> is_final r \<Longrightarrow> link_kept r (retire now' r)"
  "\<not> is_final r \<Longrightarrow> link_kept r (renew now' ttl tok r)"
  "\<not> is_final r \<Longrightarrow> link_kept r (fail_row now' m r)"
  "\<not> is_final r \<Longrightarrow> link_kept r (supersede now' r)"
  "\<not> is_final r \<Longrightarrow> st \<in> {Submitted, Completed} \<Longrightarrow> link_kept r (mark_submitted now' st d r)"
  "\<not> is_final r \<Longrightarrow> link_kept r (mark_completed now' r)"
  by (auto simp: link_kept_def form_ok_def row_actions is_sending_def is_parked_def
      is_final_def final_statuses_def
      intro: fits_last_error_simps fits_last_error_same [of _ r]
      dest: claimable_not_final)

definition evolves :: "core \<Rightarrow> db \<Rightarrow> db \<Rightarrow> bool" where
  "evolves core s t \<longleftrightarrow> (core_keeps_forms core \<longrightarrow> clean s \<longrightarrow> world_ok (working s) \<longrightarrow>
     clean t \<and> world_ok (working t) \<and> links_kept (working s) (working t))"

lemma evolves_refl: "evolves core s s"
  by (simp add: evolves_def links_kept_refl)

lemma evolves_trans: "evolves core s t \<Longrightarrow> evolves core t u \<Longrightarrow> evolves core s u"
  unfolding evolves_def by (meson links_kept_trans)

lemma evolves_commit:
  "links_kept (working s) (working t) \<Longrightarrow> evolves core s (commit t)"
  by (simp add: evolves_def links_kept_def)

lemma evolves_rollback: "durable t = durable s \<Longrightarrow> evolves core s (rollback t)"
  by (auto simp: evolves_def clean_def links_kept_refl)

lemma evolves_exec_update:
  assumes "\<And>r. fr_id (f r) = fr_id r" "\<And>r. P r \<Longrightarrow> link_kept r (f r)"
  shows "evolves core s (snd (exec_update P f s))"
  unfolding exec_update_def snd_conv
  by (rule evolves_commit) (use links_kept_update [of f "working s" P] assms in simp)

lemma evolves_claim: "evolves core s (snd (claim_request now ttl i s))"
  by (auto simp: claim_request_def case_prod_unfold Let_def row_actions_kept
      intro!: evolves_exec_update)

lemma evolves_sent: "evolves core s (mark_sent now i s)"
  by (auto simp: mark_sent_def row_actions_kept intro!: evolves_exec_update)

lemma evolves_release: "evolves core s (release_failed now i m s)"
  by (auto simp: release_failed_def row_actions_kept intro!: evolves_exec_update)

lemma evolves_park: "evolves core s (snd (mark_smtp_unconfigured now is m s))"
  by (auto simp: mark_smtp_unconfigured_def row_actions_kept evolves_refl
      intro!: evolves_exec_update)

lemma evolves_revive: "evolves core s (snd (revive_smtp_unconfigured now tid s))"
  by (auto simp: revive_smtp_unconfigured_def row_actions_kept intro!: evolves_exec_update)


subsection \<open>The link endpoints\<close>

lemma links_kept_write:
  assumes "r0 \<in> set (forms w)" "\<And>r. fr_id (f r) = fr_id r" "link_kept r0 (f r0)"
  shows "links_kept w (set_form (fr_id r0) f w)"
proof (cases "world_ok w")
  case True
  then have "r = r0" if "r \<in> set (forms w)" "fr_id r = fr_id r0" for r
    using that assms(1) by (auto simp: world_ok_def forms_keyed_def dest: same_key_same_row)
  with assms show ?thesis by (auto intro!: links_kept_set_form)
qed (simp add: links_kept_def)

lemma evolves_write:
  assumes "r0 \<in> set (forms (working s))" "\<And>r. fr_id (f r) = fr_id r" "link_kept r0 (f r0)"
  shows "evolves core s (commit (snd (write_row f r0 s)))"
  by (rule evolves_commit) (use links_kept_write [OF assms] in \<open>simp add: write_row_def\<close>)

lemma run_out_open: "run_out now r \<Longrightarrow> \<not> is_final r"
  by (simp add: run_out_def open_not_final)

lemma expire_if_needed_cases:
  "(run_out now r \<and> expire_if_needed now r s = (expire now r, commit (snd (write_row (expire now) r s))))
   \<or> (\<not> run_out now r \<and> expire_if_needed now r s = (r, s))"
  by (simp add: expire_if_needed_def write_row_def)

lemma cancel_if_task_closed_cases:
  "(is_open r \<and> task_closed t \<and> cancel_if_task_closed now r t s
      = (True, retire now r, commit (snd (write_row (retire now) r s))))
   \<or> (\<not> (is_open r \<and> task_closed t) \<and>
      cancel_if_task_closed now r t s = (fr_status r = Cancelled, r, s))"
  by (simp add: cancel_if_task_closed_def write_row_def retire_def)

lemma evolves_expire:
  assumes "r \<in> set (forms (working s))"
  shows "evolves core s (snd (expire_if_needed now r s))"
  using expire_if_needed_cases [of now r s] assms
  by (auto simp: evolves_refl intro!: evolves_write row_actions_kept run_out_open)

lemma evolves_cancel:
  assumes "r \<in> set (forms (working s))"
  shows "evolves core s (snd (snd (cancel_if_task_closed now r t s)))"
  using cancel_if_task_closed_cases [of r t now s] assms
  by (auto simp: evolves_refl intro!: evolves_write row_actions_kept open_not_final)

lemma written_row_in:
  "r \<in> set (forms (working s)) \<Longrightarrow> f r \<in> set (forms (working (commit (snd (write_row f r s)))))"
  by (auto simp: write_row_def set_form_def intro!: update_where_hit)

lemma held_row_after_expire:
  "r \<in> set (forms (working s)) \<Longrightarrow>
   fst (expire_if_needed now r s) \<in> set (forms (working (snd (expire_if_needed now r s))))"
  using expire_if_needed_cases [of now r s] by (auto simp del: session_sel intro!: written_row_in)

lemma held_row_after_cancel:
  "r \<in> set (forms (working s)) \<Longrightarrow>
   fst (snd (cancel_if_task_closed now r t s))
     \<in> set (forms (working (snd (snd (cancel_if_task_closed now r t s)))))"
  using cancel_if_task_closed_cases [of r t now s] by (auto simp del: session_sel intro!: written_row_in)

lemma not_reissuable_final: "NOT_REISSUABLE (fr_status r) = None \<Longrightarrow> \<not> is_final r"
  by (auto simp: NOT_REISSUABLE_def is_final_def final_statuses_def)

lemma reissue_cases:
  assumes "reissue now ttl token s i tid = (r, s')"
  shows "(\<exists>e. r = Inl e \<and> evolves core s s') \<or>
    (\<exists>row0 row s1. find (\<lambda>r. fr_id r = i \<and> fr_tenant_id r = tid) (forms (working s)) = Some row0 \<and>
       cancel_if_task_closed now row0 (human_task_for (working s) row0) s = (fr_status row = Cancelled, row, s1) \<and>
       row \<in> set (forms (working s1)) \<and> evolves core s s1 \<and> \<not> is_final row \<and> \<not> in_flight now row \<and>
       NOT_REISSUABLE (fr_status row) = None \<and>
       r = Inr (renew now ttl token row) \<and> s' = commit (snd (write_row (renew now ttl token) row s1)))"
proof (cases "find (\<lambda>r. fr_id r = i \<and> fr_tenant_id r = tid) (forms (working s))")
  case None
  with assms show ?thesis by (auto simp: reissue_def evolves_refl)
next
  case (Some row0)
  then have in0: "row0 \<in> set (forms (working s))" by (auto dest: find_Some_iff_props)
  obtain c row s1 where
    k: "cancel_if_task_closed now row0 (human_task_for (working s) row0) s = (c, row, s1)"
    by (metis prod_cases3)
  have c: "c = (fr_status row = Cancelled)"
    using k cancel_if_task_closed_cases [of row0 "human_task_for (working s) row0" now s]
    by (auto simp: retire_def)
  have e: "evolves core s s1"
    using evolves_cancel [OF in0, of core now "human_task_for (working s) row0"] k by simp
  have in1: "row \<in> set (forms (working s1))"
    using held_row_after_cancel [OF in0, of now "human_task_for (working s) row0"] k by simp
  show ?thesis
    using assms Some k c e in1 not_reissuable_final [of row]
    by (auto simp: reissue_def Let_def write_row_def split: option.splits if_splits)
qed

lemma evolves_reissue: "evolves core s (snd (reissue now ttl token s i tid))"
proof -
  obtain r s' where r: "reissue now ttl token s i tid = (r, s')" by fastforce
  from reissue_cases [OF r, of core] show ?thesis
  proof (elim disjE exE conjE)
    fix row0 row s1
    assume "row \<in> set (forms (working s1))" "evolves core s s1" "\<not> is_final row"
      and s': "s' = commit (snd (write_row (renew now ttl token) row s1))"
    then have "evolves core s1 s'"
      unfolding s' by (intro evolves_write row_actions_kept) simp_all
    with \<open>evolves core s s1\<close> r show ?thesis by (auto intro: evolves_trans)
  qed (use r in simp)
qed

lemma form_by_reference_in:
  "form_by_reference w ref = Some r \<Longrightarrow> r \<in> set (forms w) \<and> fr_reference_id r = ref"
  by (auto simp: form_by_reference_def dest: find_Some_iff_props)

lemma evolves_read: "evolves core s (snd (get_form_context now readable s ref))"
proof (cases "form_by_reference (working s) ref")
  case None
  then show ?thesis by (simp add: get_form_context_def find_request_or_raise_def evolves_refl)
next
  case (Some r)
  then have "r \<in> set (forms (working s))" by (auto dest: form_by_reference_in)
  note e = evolves_expire [OF this, of core now] and h = held_row_after_expire [OF this, of now]
  show ?thesis
    using Some evolves_trans [OF e evolves_cancel [OF h, of core now]]
    by (simp add: get_form_context_def find_request_or_raise_def Let_def case_prod_unfold)
qed


subsection \<open>Submitting\<close>

lemma usable_iff_actionable: "raise_for_unusable_status (fr_status r) = None \<longleftrightarrow> is_actionable r"
  by (cases "fr_status r") (simp_all add: raise_for_unusable_status_def is_actionable_def status_sets)

lemma link_property_kept:
  "link_property (\<lambda>w. links_kept D w \<and> (\<forall>r \<in> set (forms w). fr_id r = i \<longrightarrow> \<not> is_final r))"
  unfolding link_property_def
proof (intro allI impI conjI)
  fix w w' assume G: "links_kept D w \<and> (\<forall>r \<in> set (forms w). fr_id r = i \<longrightarrow> \<not> is_final r)"
    and g: "grown w w'"
  then show "links_kept D w'" by (blast intro: links_kept_trans links_kept_grown)
  have "\<not> is_final r" if "fresh_row r" for r
    using that by (simp add: fresh_row_def is_final_def final_statuses_def)
  with G g show "\<forall>r \<in> set (forms w'). fr_id r = i \<longrightarrow> \<not> is_final r"
    by (auto simp: grown_def)
qed

lemma kept_final_write:
  assumes "links_kept D w" "\<forall>r \<in> set (forms w). fr_id r = i \<longrightarrow> \<not> is_final r"
    and "\<And>r. fr_id (f r) = fr_id r" "\<And>r. \<not> is_final r \<Longrightarrow> link_kept r (f r)"
  shows "links_kept D (set_form i f w)"
  using assms(1) links_kept_set_form [of f w i] assms(2-4) by (blast intro: links_kept_trans)

lemma links_kept_supersede: "links_kept w (supersede_siblings now row w)"
  unfolding supersede_siblings_def
  by (rule links_kept_update) (auto simp: is_sibling_def intro!: row_actions_kept open_not_final)

lemma record_failure_kept:
  assumes "links_kept D (durable s)" "\<forall>r \<in> set (forms (durable s)). fr_id r = i \<longrightarrow> \<not> is_final r"
  shows "links_kept D (working (record_failure now ok i msg s)) \<and> clean (record_failure now ok i msg s)"
  using kept_final_write [OF assms, of "fail_row now msg"] assms(1)
  by (simp add: record_failure_def Let_def row_actions_kept)

lemma finish_submit_kept:
  assumes "holds_in (\<lambda>w. links_kept D w \<and> (\<forall>r \<in> set (forms w). fr_id r = fr_id row \<longrightarrow> \<not> is_final r)) s"
    and "finish_submit now ok row d r s = (res, s')"
  shows "links_kept D (working s') \<and> clean s'"
proof -
  from assms(1) have dur: "links_kept D (durable s)"
      "\<forall>r \<in> set (forms (durable s)). fr_id r = fr_id row \<longrightarrow> \<not> is_final r"
    and wrk: "links_kept D (working s)"
      "\<forall>r \<in> set (forms (working s)). fr_id r = fr_id row \<longrightarrow> \<not> is_final r"
    by (simp_all add: holds_in_def)
  note fail = record_failure_kept [OF dur]
  have compl: "links_kept D (set_form (fr_id row) (mark_submitted now Completed d) (durable s))"
    by (rule kept_final_write [OF dur]) (simp_all add: row_actions_kept)
  have "links_kept D (set_form (fr_id row) (mark_completed now) (working s))"
    by (rule kept_final_write [OF wrk]) (simp_all add: row_actions_kept)
  then have "links_kept D (supersede_siblings now row
      (set_form (fr_id row) (mark_completed now) (working s)))"
    by (rule links_kept_trans) (rule links_kept_supersede)
  with assms(2) fail compl show ?thesis
    by (auto simp: finish_submit_def split: sum.splits host_exn.splits if_splits)
qed

lemma status_after [simp]:
  "fr_status (mark_submitted now st d r) = st" "fr_status (mark_completed now r) = Completed"
  "fr_status (fail_row now m r) = Failed" "fr_status (supersede now r) = Superseded"
  "fr_status (expire now r) = Expired" "fr_status (retire now r) = Cancelled"
  by (simp_all add: row_actions)

lemma set_form_rows:
  "r \<in> set (forms (set_form i f w)) \<Longrightarrow> (\<exists>x \<in> set (forms w). fr_id x = i \<and> r = f x) \<or>
     (r \<in> set (forms w) \<and> fr_id r \<noteq> i)"
  by (simp add: set_form_def in_update_where) (metis (full_types))

lemma evolves_accept:
  assumes row0: "row0 \<in> set (forms (working s))" "is_actionable row0"
  shows "evolves core s (snd (snd (accept_submission core env rd loads ok s row0 item d)))"
  unfolding evolves_def
proof (intro impI)
  assume core: "core_keeps_forms core" and cl: "clean s" and wok: "world_ok (working s)"
  let ?D = "working s" and ?i = "fr_id row0" and ?now = "env_now env"
  let ?G = "\<lambda>w. links_kept ?D w \<and> (\<forall>r \<in> set (forms w). fr_id r = ?i \<longrightarrow> \<not> is_final r)"
  let ?row = "mark_submitted ?now Submitted d row0"
  let ?s1 = "snd (write_row (mark_submitted ?now Submitted d) row0 s)"
  have nf: "\<not> is_final row0" using row0(2) by (simp add: actionable_is_open open_not_final)
  have "r = row0" if "r \<in> set (forms ?D)" "fr_id r = ?i" for r
    using that row0(1) wok by (auto simp: world_ok_def forms_keyed_def dest: same_key_same_row)
  with nf have GD: "?G ?D" by (auto simp: links_kept_refl)
  have "links_kept ?D (working ?s1)"
    using links_kept_write [OF row0(1), of "mark_submitted ?now Submitted d"] nf
    by (simp add: write_row_def row_actions_kept)
  moreover have "\<forall>r \<in> set (forms (working ?s1)). fr_id r = ?i \<longrightarrow> \<not> is_final r"
    by (auto simp: write_row_def is_final_def final_statuses_def dest!: set_form_rows)
  ultimately have G1: "holds_in ?G ?s1"
    using GD cl by (simp add: holds_in_def write_row_def clean_def)
  have fin: "clean s' \<and> world_ok (working s') \<and> links_kept ?D (working s')"
    if "links_kept ?D (working s') \<and> clean s'" for s' :: db
    using that wok by (simp add: links_kept_def)
  show "clean (snd (snd (accept_submission core env rd loads ok s row0 item d))) \<and>
        world_ok (working (snd (snd (accept_submission core env rd loads ok s row0 item d)))) \<and>
        links_kept ?D (working (snd (snd (accept_submission core env rd loads ok s row0 item d))))"
  proof (cases "user_by_id (working ?s1) (fr_recipient_user_id ?row)")
    case None
    then have "snd (snd (accept_submission core env rd loads ok s row0 item d))
        = record_failure ?now ok ?i ''Recipient user no longer exists.'' ?s1"
      by (simp add: accept_submission_def write_row_def Let_def)
    with G1 fin record_failure_kept [of ?D ?s1 ?i] show ?thesis by (simp add: holds_in_def)
  next
    case (Some u)
    obtain r evs s2 where e: "resume_workflow core env rd loads ?s1 ?row item (user_id u) d = (r, evs, s2)"
      by (metis prod_cases3)
    have G2: "holds_in ?G s2"
      using e G1 holds_submit_external_form [OF core link_property_kept G1]
      by (auto simp: resume_workflow_def split: option.splits)
    obtain res s3 where f: "finish_submit ?now ok ?row d r s2 = (res, s3)" by fastforce
    have "snd (snd (accept_submission core env rd loads ok s row0 item d)) = s3"
      using Some e f by (simp add: accept_submission_def write_row_def Let_def)
    moreover have "links_kept ?D (working s3) \<and> clean s3"
      by (rule finish_submit_kept [OF _ f]) (use G2 in simp)
    ultimately show ?thesis using fin by simp
  qed
qed

text \<open>Every way a submission can end before the workflow is touched.\<close>

lemma submit_cases:
  obtains (unknown) "form_by_reference (working s) ref = None"
      "submit core env rd loads ok s ref d
        = (Inl (ApiError ''invalid_reference_id''
             ''No external form request was found for this link.'' 404), [], s)"
  | (unusable) row e where "form_by_reference (working s) ref = Some row" "\<not> is_actionable row"
      "raise_for_unusable_status (fr_status row) = Some e"
      "submit core env rd loads ok s ref d = (Inl e, [], s)"
  | (expired) row where "form_by_reference (working s) ref = Some row" "is_actionable row"
      "run_out (env_now env) row"
      "submit core env rd loads ok s ref d
        = (Inl (ApiError ''reference_expired'' ''This link has expired.'' 410), [],
           commit (snd (write_row (expire (env_now env)) row s)))"
  | (closed) row e where "form_by_reference (working s) ref = Some row" "is_actionable row"
      "\<not> run_out (env_now env) row" "task_closed (human_task_for (working s) row)"
      "raise_for_unusable_status Cancelled = Some e"
      "submit core env rd loads ok s ref d
        = (Inl e, [], commit (snd (write_row (retire (env_now env)) row s)))"
  | (accepted) row where "form_by_reference (working s) ref = Some row" "is_actionable row"
      "\<not> run_out (env_now env) row" "\<not> task_closed (human_task_for (working s) row)"
      "submit core env rd loads ok s ref d
        = accept_submission core env rd loads ok s row (human_task_for (working s) row) d"
proof (cases "form_by_reference (working s) ref")
  case None
  then show ?thesis
    using unknown by (simp add: submit_def find_request_or_raise_def)
next
  case (Some row)
  show ?thesis
  proof (cases "raise_for_unusable_status (fr_status row)")
    case (Some e)
    with \<open>form_by_reference (working s) ref = Some row\<close> show ?thesis
      using unusable [of row e] usable_iff_actionable [of row]
      by (simp add: submit_def find_request_or_raise_def)
  next
    case None
    then have act: "is_actionable row" by (simp add: usable_iff_actionable)
    then have op: "is_open row" by (rule actionable_is_open)
    have st: "fr_status row \<noteq> Expired" "fr_status row \<noteq> Cancelled"
      using act by (auto simp: is_actionable_def status_sets)
    have fc: "find_request_or_raise (working s) ref = Inr row"
      using Some by (simp add: find_request_or_raise_def)
    show ?thesis
    proof (cases "run_out (env_now env) row")
      case True
      have "raise_for_unusable_status Expired
          = Some (ApiError ''reference_expired'' ''This link has expired.'' 410)"
        by (simp add: raise_for_unusable_status_def)
      with True have "submit core env rd loads ok s ref d
          = (Inl (ApiError ''reference_expired'' ''This link has expired.'' 410), [],
             commit (snd (write_row (expire (env_now env)) row s)))"
        by (simp add: submit_def fc None expire_if_needed_def write_row_def expire_def)
      with expired [OF Some act True] show ?thesis by simp
    next
      case nro: False
      then have ex: "expire_if_needed (env_now env) row s = (row, s)"
        by (simp add: expire_if_needed_def)
      show ?thesis
      proof (cases "task_closed (human_task_for (working s) row)")
        case True
        obtain e where e: "raise_for_unusable_status Cancelled = Some e"
          by (simp add: raise_for_unusable_status_def)
        have "submit core env rd loads ok s ref d
          = (Inl e, [], commit (snd (write_row (retire (env_now env)) row s)))"
          using True op e st
          by (simp add: submit_def fc None ex cancel_if_task_closed_def write_row_def retire_def)
        with closed [OF Some act nro True e] show ?thesis by simp
      next
        case False
        have "submit core env rd loads ok s ref d
          = accept_submission core env rd loads ok s row (human_task_for (working s) row) d"
          using False st by (simp add: submit_def fc None ex cancel_if_task_closed_def)
        with accepted [OF Some act nro False] show ?thesis by simp
      qed
    qed
  qed
qed

lemma evolves_submit: "evolves core s (snd (snd (submit core env rd loads ok s ref d)))"
proof (cases rule: submit_cases [of s ref core env rd loads ok d])
  case (expired row)
  then show ?thesis
    by (auto dest!: form_by_reference_in intro!: evolves_write row_actions_kept run_out_open)
next
  case (closed row e)
  then show ?thesis
    by (auto dest!: form_by_reference_in
        intro!: evolves_write row_actions_kept open_not_final actionable_is_open)
next
  case (accepted row)
  then show ?thesis by (auto dest!: form_by_reference_in intro!: evolves_accept)
qed (simp_all add: evolves_refl)


subsection \<open>The producer and the workflow\<close>

lemma evolves_grown:
  assumes "s' = s \<or> s' = rollback s \<or> (grown (working s) (working s') \<and> durable s' = working s')"
  shows "evolves core s s'"
  using assms
proof (elim disjE conjE)
  assume "grown (working s) (working s')" "durable s' = working s'"
  then have "links_kept (working s) (working s')" "clean s'"
    by (simp_all add: links_kept_grown clean_def)
  then show ?thesis by (simp add: evolves_def links_kept_def)
qed (auto simp: evolves_refl evolves_rollback)

lemma evolves_create:
  "evolves core s (snd (create_requests_for_task now ttl ref cf s tid pid guid url rs expiry))"
proof -
  obtain r s' where "create_requests_for_task now ttl ref cf s tid pid guid url rs expiry = (r, s')"
    by fastforce
  from this create_requests_cases [OF this] show ?thesis
    by (auto intro!: evolves_grown)
qed

text \<open>A request ends by committing or rolling back what its command left.\<close>

definition end_request :: "bool \<Rightarrow> db \<Rightarrow> db" where
  "end_request ok s = (if ok then commit s else rollback s)"

lemma link_property_links_kept: "link_property (links_kept D)"
  unfolding link_property_def by (blast intro: links_kept_trans links_kept_grown)

lemma evolves_holds:
  assumes "core_keeps_forms core \<Longrightarrow> holds_in (links_kept (working s)) s \<Longrightarrow> holds_in (links_kept (working s)) t"
  shows "evolves core s (end_request ok t)"
  using assms by (auto simp: evolves_def end_request_def holds_in_def links_kept_def clean_def
      dest: links_kept_refl [THEN meta_mp] simp: links_kept_refl [unfolded links_kept_def])

lemma evolves_task:
  "evolves core s (end_request ok (snd (snd (complete core env s tid i uid payload))))"
proof (rule evolves_holds)
  assume a: "core_keeps_forms core" "holds_in (links_kept (working s)) s"
  obtain r evs s' where "complete core env s tid i uid payload = (r, evs, s')" by (metis prod_cases3)
  with holds_complete [OF a(1) link_property_links_kept a(2) this] show
    "holds_in (links_kept (working s)) (snd (snd (complete core env s tid i uid payload)))" by simp
qed

lemma links_kept_cancel:
  "links_kept (working s) (working (snd (cancel_open_requests now s tid pid)))"
  by (simp add: cancel_open_requests_def Let_def)
    (rule links_kept_update; auto intro!: row_actions_kept open_not_final)

lemma evolves_terminate:
  "evolves core s (end_request ok (snd (terminate_instance core env sp s tid pid uid)))"
proof (rule evolves_holds)
  assume a: "core_keeps_forms core" "holds_in (links_kept (working s)) s"
  obtain r s' where e: "execute_command core (TerminateInstance tid pid uid) s = (r, s')" by fastforce
  have s': "holds_in (links_kept (working s)) s'"
    by (rule holds_execute [OF a(1) link_property_links_kept e a(2)])
  moreover have "durable (snd (cancel_open_requests now s' tid n)) = durable s'" for now n
    by (simp add: cancel_open_requests_def Let_def)
  ultimately show "holds_in (links_kept (working s)) (snd (terminate_instance core env sp s tid pid uid))"
    using links_kept_cancel links_kept_trans
    by (simp add: terminate_instance_def e holds_in_def split: sum.split) blast
qed

subsection \<open>Every operation\<close>

datatype form_op =
    CreateOp int int "nat \<Rightarrow> string" "string option" string int string string "recipient list" "int option"
  | ClaimOp int int int
  | SentOp int int
  | ReleaseOp int int string
  | ParkOp int "int list" string
  | ReviveOp int string
  | ReissueOp int int string int string
  | ReadOp int bool string
  | SubmitOp env reader "string \<Rightarrow> pyval option" bool string "(string \<times> pyval) list"
  | TaskOp env bool string int int "(string \<times> pyval) list option"
  | TerminateOp env bool bool string int int

primrec run_form_op :: "core \<Rightarrow> form_op \<Rightarrow> db \<Rightarrow> db" where
  "run_form_op core (CreateOp now ttl ref cf t p g url rs e) s =
     snd (create_requests_for_task now ttl ref cf s t p g url rs e)"
| "run_form_op core (ClaimOp now ttl i) s = snd (claim_request now ttl i s)"
| "run_form_op core (SentOp now i) s = mark_sent now i s"
| "run_form_op core (ReleaseOp now i m) s = release_failed now i m s"
| "run_form_op core (ParkOp now is m) s = snd (mark_smtp_unconfigured now is m s)"
| "run_form_op core (ReviveOp now t) s = snd (revive_smtp_unconfigured now t s)"
| "run_form_op core (ReissueOp now ttl tok i t) s = snd (reissue now ttl tok s i t)"
| "run_form_op core (ReadOp now readable ref) s = snd (get_form_context now readable s ref)"
| "run_form_op core (SubmitOp env rd loads ok ref d) s = snd (snd (submit core env rd loads ok s ref d))"
| "run_form_op core (TaskOp env ok t i u p) s =
     end_request ok (snd (snd (complete core env s t i u p)))"
| "run_form_op core (TerminateOp env sp ok t p u) s =
     end_request ok (snd (terminate_instance core env sp s t p u))"

lemma run_form_op_evolves: "evolves core s (run_form_op core a s)"
  by (cases a) (simp_all add: evolves_create evolves_claim evolves_sent evolves_release evolves_park
      evolves_revive evolves_reissue evolves_read evolves_submit evolves_task evolves_terminate)

interpretation link_table: row_lifecycle "run_form_op core" "evolves core" for core
  by unfold_locales (auto intro: evolves_refl evolves_trans run_form_op_evolves)


text \<open>C1. Every history of the link table is safe: from a well-formed table, after any sequence of
  creations, claims, records, releases, parkings, revivals, re-issues, reads, submissions, task
  completions and terminations, the table is well-formed (unique keys; a sent or sending row has
  its claim stamp, a pending or parked row has none; the error text fits its column), every row
  is still there with its tenant, task, recipient, address and URL, and a row that was
  completed, superseded or cancelled is exactly as it was.\<close>

theorem every_history_of_links_is_safe:
  assumes "core_keeps_forms core" "clean s" "world_ok (working s)"
    and "t = fold (run_form_op core) ops s"
  shows "world_ok (working t) \<and>
    (\<forall>r \<in> set (forms (working s)). \<exists>r' \<in> set (forms (working t)). link_kept r r')"
  using link_table.run_allowed [of core s ops] assms
  by (simp add: evolves_def links_kept_def)

end
