(* ===== verification/Form_Properties.thy ===== *)
theory Form_Properties
  imports Form_Laws
begin

text \<open>
  The promises of the link services: submission, re-issue, reading, delivery and parking.
\<close>

subsection \<open>Claiming\<close>

lemma claim_row_now [simp]: "\<not> claimable now' (claim_row now ttl r)" if "now' \<le> now + SEND_LEASE_SECONDS" for now'
  using that by (simp add: claim_row_def claimable_def CLAIMABLE_STATUSES_def)

lemma claim_request_iff:
  assumes "distinct (map fr_id (forms (working s)))"
  shows "fst (claim_request now ttl i s) \<longleftrightarrow> (\<exists>r. form_by_id (working s) i = Some r \<and> claimable now r)"
proof -
  let ?P = "\<lambda>r. fr_id r = i \<and> claimable now r"
  have "fst (claim_request now ttl i s) \<longleftrightarrow> rowcount ?P (forms (working s)) = 1"
    by (simp add: claim_request_def exec_update_def)
  also have "\<dots> \<longleftrightarrow> (\<exists>r \<in> set (forms (working s)). fr_id r = i \<and> claimable now r)"
    using assms by (rule rowcount_key_1_iff)
  also have "\<dots> \<longleftrightarrow> (\<exists>r. form_by_id (working s) i = Some r \<and> claimable now r)"
    using assms by (auto simp: form_by_id_def dest: find_Some_iff_props intro: find_key_unique)
  finally show ?thesis .
qed

lemma claim_request_state:
  "working (snd (claim_request now ttl i s))
     = (working s)\<lparr>forms := update_where (\<lambda>r. fr_id r = i \<and> claimable now r) (claim_row now ttl)
         (forms (working s))\<rparr>"
  by (simp add: claim_request_def exec_update_def)

lemma form_by_id_claimed:
  "form_by_id (working (snd (claim_request now ttl i s))) i
     = map_option (\<lambda>r. if claimable now r then claim_row now ttl r else r) (form_by_id (working s) i)"
  by (simp add: claim_request_state form_by_id_def claim_cas.row_after)

text \<open>Delivery attempts on one request by any number of workers, in the order the database
  serves them: a claim at a clock reading, or the record of a completed send.\<close>

datatype attempt = Claim int | Record int

fun attempts :: "int \<Rightarrow> int \<Rightarrow> attempt list \<Rightarrow> db \<Rightarrow> bool list" where
  "attempts ttl i [] s = []"
| "attempts ttl i (Claim now # as) s =
     fst (claim_request now ttl i s) # attempts ttl i as (snd (claim_request now ttl i s))"
| "attempts ttl i (Record now # as) s = attempts ttl i as (mark_sent now i s)"

definition unclaimable_until :: "int \<Rightarrow> form_request \<Rightarrow> bool" where
  "unclaimable_until T r \<longleftrightarrow> (\<forall>now \<le> T. \<not> claimable now r) \<and> fr_notified_at r \<noteq> None"

lemma unclaimable_sent: "unclaimable_until T r \<Longrightarrow> unclaimable_until T (sent_row now r)"
  by (auto simp: unclaimable_until_def sent_row_def claimable_def CLAIMABLE_STATUSES_def)

lemma unclaimable_claimed: "T \<le> now + SEND_LEASE_SECONDS \<Longrightarrow> unclaimable_until T (claim_row now ttl r)"
  by (simp add: unclaimable_until_def) (simp add: claim_row_def)

lemma distinct_ids_claim:
  "distinct (map fr_id (forms (working s))) \<Longrightarrow>
   distinct (map fr_id (forms (working (snd (claim_request now ttl i s)))))"
  by (simp add: claim_request_state claim_cas.keys_kept)

lemma distinct_ids_sent:
  "distinct (map fr_id (forms (working s))) \<Longrightarrow>
   distinct (map fr_id (forms (working (mark_sent now i s))))"
  by (simp add: mark_sent_def exec_update_def sent_cas.keys_kept)

lemma form_by_id_sent:
  "form_by_id (working (mark_sent now i s)) i
     = map_option (\<lambda>r. if is_sending r then sent_row now r else r) (form_by_id (working s) i)"
  by (simp add: mark_sent_def exec_update_def form_by_id_def sent_cas.row_after)

lemma no_more_claims:
  assumes "distinct (map fr_id (forms (working s)))"
    and "\<forall>r. form_by_id (working s) i = Some r \<longrightarrow> unclaimable_until T r"
    and "\<forall>now. Claim now \<in> set as \<longrightarrow> now \<le> T"
  shows "\<not> True \<in> set (attempts ttl i as s)"
  using assms
proof (induction as arbitrary: s)
  case (Cons a as)
  show ?case
  proof (cases a)
    case (Claim now)
    with Cons.prems have le: "now \<le> T" by simp
    have "\<not> fst (claim_request now ttl i s)"
      using Cons.prems(2) le by (auto simp: claim_request_iff [OF Cons.prems(1)] unclaimable_until_def)
    moreover have "\<not> True \<in> set (attempts ttl i as (snd (claim_request now ttl i s)))"
      using Cons.prems le
      by (intro Cons.IH distinct_ids_claim) (auto simp: form_by_id_claimed unclaimable_until_def)
    ultimately show ?thesis by (simp add: Claim)
  next
    case (Record now)
    have "\<not> True \<in> set (attempts ttl i as (mark_sent now i s))"
      using Cons.prems
      by (intro Cons.IH distinct_ids_sent) (auto simp: form_by_id_sent Record intro: unclaimable_sent)
    then show ?thesis by (simp add: Record)
  qed
qed simp

text \<open>C5. No request is e-mailed twice within a lease: among all claims on one request whose
  clock readings lie within one send lease of each other, by any number of workers and with
  completed sends recorded in between, at most one succeeds.\<close>

theorem one_claim_per_lease:
  assumes "distinct (map fr_id (forms (working s)))"
    and "\<forall>t t'. Claim t \<in> set as \<longrightarrow> Claim t' \<in> set as \<longrightarrow> t' \<le> t + SEND_LEASE_SECONDS"
  shows "length (filter (\<lambda>won. won) (attempts ttl i as s)) \<le> 1"
  using assms
proof (induction as arbitrary: s)
  case (Cons a as)
  show ?case
  proof (cases a)
    case (Record now)
    with Cons.IH [OF distinct_ids_sent [OF Cons.prems(1)]] Cons.prems(2) show ?thesis by simp
  next
    case (Claim now)
    let ?s' = "snd (claim_request now ttl i s)"
    show ?thesis
    proof (cases "fst (claim_request now ttl i s)")
      case False
      with Cons.IH [OF distinct_ids_claim [OF Cons.prems(1)]] Cons.prems(2) show ?thesis
        by (simp add: Claim)
    next
      case True
      then obtain r where "form_by_id (working s) i = Some r" "claimable now r"
        by (auto simp: claim_request_iff [OF Cons.prems(1)])
      then have "\<not> True \<in> set (attempts ttl i as ?s')"
        using Cons.prems Claim
        by (intro no_more_claims [where T = "now + SEND_LEASE_SECONDS"] distinct_ids_claim)
          (auto simp: form_by_id_claimed unclaimable_claimed)
      then have "filter (\<lambda>won. won) (attempts ttl i as ?s') = []"
        by (auto simp: filter_empty_conv)
      then show ?thesis by (simp add: Claim)
    qed
  qed
qed simp


subsection \<open>Submitting\<close>

lemma accept_submission_success:
  assumes "accept_submission core env rd loads ok s row0 item d = (Inr res, evs, s')"
  obtains u :: app_user and i s2 where
    "resume_workflow core env rd loads
       (snd (write_row (mark_submitted (env_now env) Submitted d) row0 s))
       (mark_submitted (env_now env) Submitted d row0) item (user_id u) d = (Inr i, evs, s2)"
    "s' = commit (modify (supersede_siblings (env_now env) (mark_submitted (env_now env) Submitted d row0))
             (modify (set_form (fr_id row0) (mark_completed (env_now env))) s2))"
proof -
  let ?row = "mark_submitted (env_now env) Submitted d row0"
  let ?s1 = "snd (write_row (mark_submitted (env_now env) Submitted d) row0 s)"
  from assms obtain u where u: "user_by_id (working ?s1) (fr_recipient_user_id ?row) = Some u"
    by (auto simp: accept_submission_def write_row_def Let_def split: option.splits)
  obtain r evs2 s2 where r: "resume_workflow core env rd loads ?s1 ?row item (user_id u) d = (r, evs2, s2)"
    by (metis prod_cases3)
  with assms u have f: "finish_submit (env_now env) ok ?row d r s2 = (Inr res, s')" "evs2 = evs"
    by (auto simp: accept_submission_def write_row_def Let_def split: prod.splits)
  from f(1) obtain i where i: "r = Inr i"
    by (auto simp: finish_submit_def split: sum.splits host_exn.splits if_splits)
  have "resume_workflow core env rd loads ?s1 ?row item (user_id u) d = (Inr i, evs, s2)"
    using r i f(2) by simp
  moreover have "s' = commit (modify (supersede_siblings (env_now env) ?row)
             (modify (set_form (fr_id row0) (mark_completed (env_now env))) s2))"
    using f(1) i by (simp add: finish_submit_def)
  ultimately show ?thesis by (rule that)
qed

lemma no_open_link_left:
  assumes "r \<in> set (forms (supersede_siblings now row (set_form (fr_id row) (mark_completed now) w)))"
    and "fr_process_instance_id r = fr_process_instance_id row" "fr_task_guid r = fr_task_guid row"
  shows "\<not> is_open r"
proof -
  from assms(1) obtain x where x: "x \<in> set (forms (set_form (fr_id row) (mark_completed now) w))"
      "r = (if is_sibling row x then supersede now x else x)"
    by (auto simp: supersede_siblings_def in_update_where)
  have closed: "\<not> is_open (supersede now x)" "\<not> is_open (mark_completed now y)" for y
    by (simp_all add: is_open_def status_sets)
  show ?thesis
  proof (cases "is_sibling row x")
    case False
    with x assms(2,3) have "fr_id x = fr_id row \<or> \<not> is_open r"
      by (auto simp: is_sibling_def)
    with x False closed show ?thesis by (auto dest!: set_form_rows)
  qed (use x closed in simp)
qed

lemma reference_kept_by_actions:
  assumes "form_by_reference w ref = Some r" "\<And>r. fr_reference_id (f r) = fr_reference_id r"
  shows "form_by_reference (w\<lparr>forms := update_where P f (forms w)\<rparr>) ref = Some (if P r then f r else r)"
  using assms by (simp add: form_by_reference_def find_update_where)

lemma link_property_reference:
  "link_property (\<lambda>w. \<exists>r. form_by_reference w ref = Some r \<and> fr_id r = i)"
  by (auto simp: link_property_def grown_def form_by_reference_def find_append)

lemma already_submitted_refused:
  assumes "form_by_reference (working s) ref = Some r" "fr_status r = Completed"
  shows "submit core env rd loads ok s ref d
     = (Inl (ApiError ''already_submitted'' ''This form has already been submitted.'' 409), [], s)"
  using assms by (simp add: submit_def find_request_or_raise_def raise_for_unusable_status_def)

lemma submitted_link_is_completed:
  assumes core: "core_keeps_forms core" and cl: "clean s"
    and row: "form_by_reference (working s) ref = Some row0"
    and acc: "accept_submission core env rd loads ok s row0 item d = (Inr res, evs, s')"
  shows "\<exists>r. form_by_reference (working s') ref = Some r \<and> fr_status r = Completed"
proof -
  let ?now = "env_now env" and ?s1 = "snd (write_row (mark_submitted (env_now env) Submitted d) row0 s)"
  let ?row = "mark_submitted ?now Submitted d row0"
  let ?G = "\<lambda>w. \<exists>r. form_by_reference w ref = Some r \<and> fr_id r = fr_id row0"
  from accept_submission_success [OF acc] obtain u :: app_user and i s2 where
    r: "resume_workflow core env rd loads ?s1 ?row item (user_id u) d = (Inr i, evs, s2)"
    and s': "s' = commit (modify (supersede_siblings ?now ?row)
               (modify (set_form (fr_id row0) (mark_completed ?now)) s2))" .
  have "?G (working ?s1)"
    using reference_kept_by_actions [OF row, of "mark_submitted ?now Submitted d" "\<lambda>r. fr_id r = fr_id row0"]
    by (simp add: write_row_def set_form_def mark_submitted_def)
  moreover have "?G (durable ?s1)" using row cl by (simp add: write_row_def clean_def)
  ultimately have "holds_in ?G ?s1" by (simp add: holds_in_def)
  with r holds_submit_external_form [OF core link_property_reference this] have "?G (working s2)"
    by (auto simp: resume_workflow_def holds_in_def split: option.splits)
  then obtain x where x: "form_by_reference (working s2) ref = Some x" "fr_id x = fr_id row0" by auto
  have "form_by_reference (set_form (fr_id row0) (mark_completed ?now) (working s2)) ref
      = Some (mark_completed ?now x)"
    using reference_kept_by_actions [OF x(1), of "mark_completed ?now" "\<lambda>r. fr_id r = fr_id row0"] x(2)
    by (simp add: set_form_def mark_completed_def)
  from reference_kept_by_actions [OF this, of "supersede ?now" "is_sibling ?row"] x(2)
  show ?thesis
    by (simp add: s' supersede_siblings_def supersede_def is_sibling_def)
qed

text \<open>C3. First submission wins. A submission succeeds only through a link that is actionable,
  has not run out and whose task is still open; when it does, no link of that task is open any
  more (the siblings are superseded), and any further submission through the same link is
  refused as already submitted, without touching anything.\<close>

theorem first_submission_wins:
  assumes core: "core_keeps_forms core" and cl: "clean s"
    and sub: "submit core env rd loads ok s ref d = (Inr res, evs, s')"
  shows "(\<exists>row. form_by_reference (working s) ref = Some row \<and> is_actionable row \<and>
           \<not> run_out (env_now env) row \<and> \<not> task_closed (human_task_for (working s) row) \<and>
           \<not> (\<exists>r \<in> set (forms (durable s')). fr_process_instance_id r = fr_process_instance_id row \<and>
                fr_task_guid r = fr_task_guid row \<and> is_open r)) \<and>
         submit core2 env2 rd2 loads2 ok2 s' ref d2
           = (Inl (ApiError ''already_submitted'' ''This form has already been submitted.'' 409), [], s')"
proof (intro conjI)
  from sub obtain row where row: "form_by_reference (working s) ref = Some row" "is_actionable row"
      "\<not> run_out (env_now env) row" "\<not> task_closed (human_task_for (working s) row)"
    and acc: "accept_submission core env rd loads ok s row (human_task_for (working s) row) d = (Inr res, evs, s')"
    by (cases rule: submit_cases [of s ref core env rd loads ok d]) auto
  let ?row = "mark_submitted (env_now env) Submitted d row"
  from accept_submission_success [OF acc] obtain s2 where
    s': "s' = commit (modify (supersede_siblings (env_now env) ?row)
               (modify (set_form (fr_id row) (mark_completed (env_now env))) s2))" .
  have same: "fr_process_instance_id ?row = fr_process_instance_id row"
      "fr_task_guid ?row = fr_task_guid row" "fr_id ?row = fr_id row"
    by (simp_all add: mark_submitted_def)
  have "\<not> is_open r" if "r \<in> set (forms (durable s'))"
      "fr_process_instance_id r = fr_process_instance_id row" "fr_task_guid r = fr_task_guid row" for r
    using that no_open_link_left [of r "env_now env" ?row "working s2"] by (simp add: s' same)
  with row show "\<exists>row. form_by_reference (working s) ref = Some row \<and> is_actionable row \<and>
           \<not> run_out (env_now env) row \<and> \<not> task_closed (human_task_for (working s) row) \<and>
           \<not> (\<exists>r \<in> set (forms (durable s')). fr_process_instance_id r = fr_process_instance_id row \<and>
                fr_task_guid r = fr_task_guid row \<and> is_open r)" by blast
  from submitted_link_is_completed [OF core cl row(1) acc] show
    "submit core2 env2 rd2 loads2 ok2 s' ref d2
       = (Inl (ApiError ''already_submitted'' ''This form has already been submitted.'' 409), [], s')"
    by (auto intro: already_submitted_refused)
qed


subsection \<open>Reading a link\<close>

definition PUBLIC_CONTEXT_KEYS :: "string list" where
  "PUBLIC_CONTEXT_KEYS = [''reference_id'', ''status'', ''external_form_url'', ''process_instance_id'',
     ''actionable'', ''expires_at_in_seconds'', ''task_name'', ''task_title'',
     ''process_model_display_name'']"

text \<open>The row a read reports: expired, retired, or as it is.\<close>

definition read_row :: "int \<Rightarrow> work_item option \<Rightarrow> form_request \<Rightarrow> form_request" where
  "read_row now item r =
     (if run_out now r then expire now r else if is_open r \<and> task_closed item then retire now r else r)"

lemma items_written: "items (working (commit (snd (write_row f r s)))) = items (working s)"
  by (simp add: write_row_def)

lemma human_task_for_expired:
  "human_task_for w (fst (expire_if_needed now r s)) = human_task_for w r"
  by (simp add: expire_if_needed_def write_row_def expire_def human_task_for_def)

lemma get_form_context_row:
  assumes "form_by_reference (working s) ref = Some r"
  shows "\<exists>s'. get_form_context now True s ref =
    (let row = read_row now (human_task_for (working s) r) r in
     (Inr (to_public_dict row @
         [(''actionable'', PBool (is_actionable row)),
          (''expires_at_in_seconds'', opt_int (fr_expires_at row))] @
         (case human_task_for (working s) r of None \<Rightarrow> []
          | Some t \<Rightarrow> [(''task_name'', opt_str (wi_task_name t)),
                       (''task_title'', opt_str (wi_task_title t)),
                       (''process_model_display_name'', opt_str (wi_model_display_name t))])), s'))"
proof -
  have closed: "\<not> is_open (expire now r)" by (simp add: is_open_def status_sets)
  let ?item = "human_task_for (working s) r"
  have "human_task_for (working (snd (expire_if_needed now r s))) (fst (expire_if_needed now r s)) = ?item"
    unfolding human_task_for_expired
    by (simp add: expire_if_needed_def write_row_def human_task_for_def)
  moreover have "fst (snd (cancel_if_task_closed now (fst (expire_if_needed now r s)) ?item
      (snd (expire_if_needed now r s)))) = read_row now ?item r"
    using expire_if_needed_cases [of now r s] closed
    by (auto simp: read_row_def cancel_if_task_closed_def write_row_def)
  ultimately show ?thesis
    by (simp add: get_form_context_def find_request_or_raise_def assms Let_def case_prod_unfold)
qed

lemma link_refusals:
  "raise_for_unusable_status st = Some e \<Longrightarrow> err_status e \<in> {409, 410}"
  by (auto simp: raise_for_unusable_status_def split: if_splits)


subsection \<open>Re-issue\<close>

lemma reissue_success:
  assumes "reissue now ttl token s i tid = (Inr row', s')"
  obtains row where "row \<in> set (forms (working s))" "fr_id row = i" "fr_tenant_id row = tid"
    "\<not> in_flight now row" "row' = renew now ttl token row"
    "s' = commit (snd (write_row (renew now ttl token) row s))"
proof -
  from reissue_cases [OF assms, of undefined] obtain row0 row s1 where
    f: "find (\<lambda>r. fr_id r = i \<and> fr_tenant_id r = tid) (forms (working s)) = Some row0"
    and c: "cancel_if_task_closed now row0 (human_task_for (working s) row0) s
              = (fr_status row = Cancelled, row, s1)"
    and n: "NOT_REISSUABLE (fr_status row) = None" and fl: "\<not> in_flight now row"
    and r: "row' = renew now ttl token row" "s' = commit (snd (write_row (renew now ttl token) row s1))"
    by auto
  from cancel_if_task_closed_cases [of row0 "human_task_for (working s) row0" now s] c n
  have "row = row0" "s1 = s" by (auto simp: NOT_REISSUABLE_def)
  with f fl r show ?thesis by (auto intro!: that dest: find_Some_iff_props)
qed

text \<open>A re-issue kills the old credential: for a row of the caller's tenant only, the old
  reference finds nothing any more (a submission through it is a 404 that changes nothing),
  the new reference finds the row, and the row is queued for delivery with a fresh lifetime.\<close>

theorem reissue_rotates_the_credential:
  assumes "reissue now ttl token s i tid = (Inr row', s')"
    and "distinct (map fr_reference_id (forms (working s)))"
    and "token \<notin> fr_reference_id ` set (forms (working s))"
    and "distinct (map fr_id (forms (working s)))"
  shows "\<exists>row. form_by_id (working s) i = Some row \<and> fr_tenant_id row = tid \<and>
           form_by_reference (working s') token = Some row' \<and>
           claimable now row' \<and> fr_expires_at row' = Some (now + ttl) \<and>
           submit core env rd loads ok s' (fr_reference_id row) d
             = (Inl (ApiError ''invalid_reference_id''
                  ''No external form request was found for this link.'' 404), [], s')"
proof -
  from reissue_success [OF assms(1)] obtain row where
    row: "row \<in> set (forms (working s))" "fr_id row = i" "fr_tenant_id row = tid"
    and r: "row' = renew now ttl token row" "s' = commit (snd (write_row (renew now ttl token) row s))"
    by metis
  have w: "working s' = set_form i (renew now ttl token) (working s)"
    using r row by (simp add: write_row_def)
  have one: "x = row" if "x \<in> set (forms (working s))" "fr_id x = i \<or> fr_reference_id x = fr_reference_id row" for x
    using that row assms(2,4) by (auto dest: same_key_same_row)
  have "form_by_id (working s) i = Some row"
    using row assms(4) by (auto simp: form_by_id_def intro: find_key_unique)
  moreover have "form_by_reference (working s') token = Some row'"
    unfolding form_by_reference_def
  proof (rule find_the_only)
    show "row' \<in> set (forms (working s'))"
      using row r(1) by (auto simp: w set_form_def intro!: update_where_hit)
    fix y assume y: "y \<in> set (forms (working s'))" "fr_reference_id y = token"
    from set_form_rows [OF y(1) [unfolded w]] y(2) assms(3) one r(1) show "y = row'" by auto
  qed (simp add: r(1) renew_def)
  moreover have "form_by_reference (working s') (fr_reference_id row) = None"
  proof -
    have "token \<noteq> fr_reference_id row" using assms(3) row(1) by auto
    then have "fr_reference_id y \<noteq> fr_reference_id row" if "y \<in> set (forms (working s'))" for y
      using set_form_rows [OF that [unfolded w]] one row(2) by (auto simp: renew_def)
    then show ?thesis by (simp add: form_by_reference_def find_None_conv)
  qed
  moreover have "claimable now row'" "fr_expires_at row' = Some (now + ttl)"
    by (simp_all add: r(1) renew_def claimable_def CLAIMABLE_STATUSES_def)
  ultimately show ?thesis using row(3) by (auto simp: submit_def find_request_or_raise_def)
qed


lemma claimed_row:
  assumes "distinct (map fr_id (forms (working s)))" "fst (claim_request now ttl i s)"
  shows "\<exists>r. form_by_id (working s) i = Some r \<and> claimable now r \<and>
    form_by_id (working (snd (claim_request now ttl i s))) i = Some (claim_row now ttl r)"
  using assms by (auto simp: claim_request_iff form_by_id_claimed)

text \<open>While an e-mail is being sent its link cannot be rotated: within the lease of a
  successful claim a re-issue of the request changes nothing, and is refused with 409 (404 for
  another tenant), as long as the task is open.\<close>

theorem no_reissue_while_sending:
  assumes "distinct (map fr_id (forms (working s)))" "fst (claim_request sent_at ttl i s)"
    and "s1 = snd (claim_request sent_at ttl i s)" "now \<le> sent_at + SEND_LEASE_SECONDS"
    and "\<forall>r. form_by_id (working s1) i = Some r \<longrightarrow> \<not> task_closed (human_task_for (working s1) r)"
  shows "\<exists>e. reissue now ttl2 token s1 i tid = (Inl e, s1) \<and> err_status e \<in> {404, 409}"
proof -
  from claimed_row [OF assms(1,2)] assms(3) obtain r where
    r: "form_by_id (working s1) i = Some (claim_row sent_at ttl r)" by auto
  let ?r = "claim_row sent_at ttl r"
  have ids: "distinct (map fr_id (forms (working s1)))"
    unfolding assms(3) by (rule distinct_ids_claim [OF assms(1)])
  show ?thesis
  proof (cases "find (\<lambda>r. fr_id r = i \<and> fr_tenant_id r = tid) (forms (working s1))")
    case None
    then show ?thesis by (simp add: reissue_def)
  next
    case (Some x)
    then have "x \<in> set (forms (working s1))" "fr_id x = i" by (auto dest: find_Some_iff_props)
    then have x: "x = ?r"
      using r ids by (auto dest!: form_by_id_in intro: same_key_same_row [where key = fr_id])
    have "\<not> task_closed (human_task_for (working s1) ?r)" using assms(5) r by simp
    then have c: "cancel_if_task_closed now ?r (human_task_for (working s1) ?r) s1 = (False, ?r, s1)"
      by (simp add: cancel_if_task_closed_def claim_row_def)
    have "in_flight now ?r" using assms(4) by (simp add: in_flight_def claim_row_def)
    then show ?thesis
      using Some c by (simp add: reissue_def x Let_def NOT_REISSUABLE_def claim_row_def)
  qed
qed

subsection \<open>The sweep and parking\<close>

lemma sweep_iff:
  "(i, tid) \<in> set (sweep_candidates now grace max_attempts w) \<longleftrightarrow>
     (\<exists>r \<in> set (forms w). fr_id r = i \<and> fr_tenant_id r = tid \<and> claimable now r \<and>
        fr_attempts r < max_attempts \<and> fr_created_at r < now - grace)"
  by (auto simp: sweep_candidates_def)

text \<open>The sweep and the claim agree: whatever the sweep lists can be claimed at that moment,
  and what has been claimed is not listed again within the lease.\<close>

theorem sweep_lists_what_can_be_claimed:
  assumes "distinct (map fr_id (forms (working s)))"
    and "(i, tid) \<in> set (sweep_candidates now grace max_attempts (working s))"
  shows "fst (claim_request now ttl i s) \<and>
    (i, tid2) \<notin> set (sweep_candidates (now + SEND_LEASE_SECONDS) grace2 max2
                      (working (snd (claim_request now ttl i s))))"
proof -
  from assms(2) obtain r where r: "r \<in> set (forms (working s))" "fr_id r = i" "claimable now r"
    by (auto simp: sweep_iff)
  then have f: "form_by_id (working s) i = Some r"
    using assms(1) by (auto simp: form_by_id_def intro: find_key_unique)
  have "\<not> claimable (now + SEND_LEASE_SECONDS) x"
    if x: "x \<in> set (forms (working (snd (claim_request now ttl i s))))" "fr_id x = i" for x
  proof -
    have "form_by_id (working (snd (claim_request now ttl i s))) i = Some x"
      using x distinct_ids_claim [OF assms(1)] by (auto simp: form_by_id_def intro: find_key_unique)
    with f r(3) show ?thesis by (auto simp: form_by_id_claimed)
  qed
  then show ?thesis using f r(3) by (auto simp: claim_request_iff [OF assms(1)] sweep_iff)
qed

lemma parked_never_claimable: "fr_status r = Smtp_unconfigured \<Longrightarrow> \<not> claimable now r"
  by (simp add: claimable_def CLAIMABLE_STATUSES_def)

text \<open>Parking ends the retry loop and reviving reopens it: after the sweep parks a tenant's
  candidates none of them is a candidate at any later time, whatever the limits; and once the
  tenant's mail is configured, reviving makes each of them claimable again with no attempt
  counted.\<close>

theorem parking_ends_retries_until_revived:
  assumes ids: "ids = map fst (filter (\<lambda>(i, t). t = tid) (sweep_candidates now grace max_attempts (working s)))"
    and dist: "distinct (map fr_id (forms (working s)))"
    and s1: "s1 = snd (mark_smtp_unconfigured now ids reason s)"
    and s2: "s2 = snd (revive_smtp_unconfigured later tid s1)" and i: "i \<in> set ids"
  shows "(i, t2) \<notin> set (sweep_candidates later grace2 max2 (working s1)) \<and>
    (\<exists>r. form_by_id (working s2) i = Some r \<and> claimable later r \<and> fr_attempts r = 0 \<and> fr_tenant_id r = tid)"
proof -
  from i ids obtain r where r: "r \<in> set (forms (working s))" "fr_id r = i" "fr_tenant_id r = tid"
      "claimable now r" by (auto simp: sweep_iff)
  let ?P = "\<lambda>r. fr_id r \<in> set ids \<and> claimable now r" and ?f = "park_row now reason"
  have w1: "working s1 = (working s)\<lparr>forms := update_where ?P ?f (forms (working s))\<rparr>"
    using i by (auto simp: s1 mark_smtp_unconfigured_def exec_update_def)
  have w2: "working s2 = (working s1)\<lparr>forms := update_where (\<lambda>r. fr_tenant_id r = tid \<and> is_parked r)
      (revive_row later) (forms (working s1))\<rparr>"
    by (simp add: s2 revive_smtp_unconfigured_def exec_update_def)
  have d1: "distinct (map fr_id (forms (working s1)))"
    using dist by (simp add: w1 map_key_update_where)
  have "form_by_id (working s) i = Some r"
    using r dist by (auto simp: form_by_id_def intro: find_key_unique)
  then have f1: "form_by_id (working s1) i = Some (?f r)"
    using r i by (simp add: w1 form_by_id_def find_update_where)
  have "\<not> claimable later x" if "x \<in> set (forms (working s1))" "fr_id x = i" for x
  proof -
    have "form_by_id (working s1) i = Some x"
      using that d1 by (auto simp: form_by_id_def intro: find_key_unique)
    with f1 show ?thesis by (auto simp: park_row_def intro!: parked_never_claimable)
  qed
  moreover have "form_by_id (working s2) i = Some (revive_row later (?f r))"
    using f1 r(3) by (simp add: w2 form_by_id_def find_update_where)
      (simp add: park_row_def is_parked_def)
  moreover have "claimable later (revive_row later (?f r))"
    by (simp add: revive_row_def claimable_def CLAIMABLE_STATUSES_def)
  ultimately show ?thesis
    using r(3) by (auto simp: sweep_iff) (simp_all add: revive_row_def park_row_def)
qed


subsection \<open>Creating links\<close>

definition live_links :: "int \<Rightarrow> string \<Rightarrow> int \<Rightarrow> world \<Rightarrow> form_request list" where
  "live_links pid guid u w = filter (\<lambda>r. fr_process_instance_id r = pid \<and> fr_task_guid r = guid \<and>
     fr_recipient_user_id r = u \<and> is_open r) (forms w)"

lemma existing_iff: "u \<in> existing_user_ids w pid guid \<longleftrightarrow> live_links pid guid u w \<noteq> []"
  by (auto simp: existing_user_ids_def live_links_def filter_empty_conv)

lemma create_rows_covers:
  "rcp_user_id ` set rs \<subseteq> existing \<union>
     fr_recipient_user_id ` set (create_rows tid pid guid url expires now existing ref i k rs)"
  by (induction rs arbitrary: i k) auto

lemma create_rows_none:
  "rcp_user_id ` set rs \<subseteq> existing \<Longrightarrow> create_rows tid pid guid url expires now existing ref i k rs = []"
  by (induction rs arbitrary: i k) auto

lemma create_rows_users:
  "map fr_recipient_user_id (create_rows tid pid guid url expires now existing ref i k rs)
     = filter (\<lambda>u. u \<notin> existing) (map rcp_user_id rs)"
  by (induction rs arbitrary: i k) auto

lemma created_rows_open:
  "r \<in> set (create_rows tid pid guid url expires now existing ref i k rs) \<Longrightarrow>
   fr_process_instance_id r = pid \<and> fr_task_guid r = guid \<and> is_open r"
  by (auto simp: is_open_def status_sets dest: create_rows_props)

lemma create_state:
  assumes "create_requests_for_task now ttl ref cf s tid pid guid url rs expiry = (Inr new, s')"
  shows "new = create_rows tid pid guid url (or_default expiry (now + ttl)) now
             (existing_user_ids (working s) pid guid) ref 0 (form_seq (working s) + 1) rs"
    and "working s' = (working s)\<lparr>forms := forms (working s) @ new,
             form_seq := form_seq (working s) + int (length new)\<rparr>"
  using assms by (auto simp: create_requests_for_task_def Let_def split: option.splits)

lemma created_live_links:
  assumes "create_requests_for_task now ttl ref cf s tid pid guid url rs expiry = (Inr new, s')"
  shows "live_links pid guid u (working s')
     = live_links pid guid u (working s) @ filter (\<lambda>r. fr_recipient_user_id r = u) new"
proof -
  have "filter (\<lambda>r. fr_process_instance_id r = pid \<and> fr_task_guid r = guid \<and>
          fr_recipient_user_id r = u \<and> is_open r) new = filter (\<lambda>r. fr_recipient_user_id r = u) new"
    unfolding create_state(1) [OF assms] by (rule filter_cong) (auto dest: created_rows_open)
  then show ?thesis by (simp add: live_links_def create_state(2) [OF assms])
qed

text \<open>Creating links is idempotent and never duplicates a recipient: after a call for some
  recipients a repeated call for any of them, whatever the clock and the tokens, creates no row
  and leaves the table alone; and if every user had at most one live link for the task before a
  call with distinct recipients, every user has at most one afterwards.\<close>

theorem creation_never_duplicates:
  assumes c: "create_requests_for_task now ttl ref cf s tid pid guid url rs expiry = (Inr new, s')"
  shows "(set rs2 \<subseteq> set rs \<longrightarrow>
       fst (create_requests_for_task now2 ttl2 ref2 None s' tid2 pid guid url2 rs2 expiry2) = Inr [] \<and>
       working (snd (create_requests_for_task now2 ttl2 ref2 None s' tid2 pid guid url2 rs2 expiry2)) = working s') \<and>
    (distinct (map rcp_user_id rs) \<longrightarrow> (\<forall>u. length (live_links pid guid u (working s)) \<le> 1) \<longrightarrow>
       (\<forall>u. length (live_links pid guid u (working s')) \<le> 1))"
proof (intro conjI impI allI)
  assume sub: "set rs2 \<subseteq> set rs"
  let ?ex = "existing_user_ids (working s) pid guid" and ?ex' = "existing_user_ids (working s') pid guid"
  have "rcp_user_id ` set rs \<subseteq> ?ex'"
  proof
    fix u assume "u \<in> rcp_user_id ` set rs"
    then have "u \<in> ?ex \<or> u \<in> fr_recipient_user_id ` set new"
      using create_rows_covers [of rs ?ex] unfolding create_state(1) [OF c] by blast
    then show "u \<in> ?ex'" by (auto simp: existing_iff created_live_links [OF c] filter_empty_conv)
  qed
  with sub have none: "create_rows tid2 pid guid url2 e2 now2 ?ex' ref2 0 k rs2 = []" for e2 k
    by (intro create_rows_none) auto
  show "fst (create_requests_for_task now2 ttl2 ref2 None s' tid2 pid guid url2 rs2 expiry2) = Inr []"
    and "working (snd (create_requests_for_task now2 ttl2 ref2 None s' tid2 pid guid url2 rs2 expiry2)) = working s'"
    by (simp_all add: create_requests_for_task_def Let_def none)
next
  fix u assume d: "distinct (map rcp_user_id rs)"
    and le: "\<forall>u. length (live_links pid guid u (working s)) \<le> 1"
  have "distinct (map fr_recipient_user_id new)"
    using d unfolding create_state(1) [OF c] create_rows_users by (rule distinct_filter)
  then have one: "length (filter (\<lambda>r. fr_recipient_user_id r = u) new) \<le> 1"
    using rowcount_key_le_1 [of fr_recipient_user_id new u "\<lambda>_. True"] by (simp add: rowcount_def)
  show "length (live_links pid guid u (working s')) \<le> 1"
  proof (cases "live_links pid guid u (working s) = []")
    case True
    with one show ?thesis by (simp add: created_live_links [OF c])
  next
    case False
    then have "u \<notin> fr_recipient_user_id ` set new"
      unfolding create_state(1) [OF c] by (auto simp: existing_iff dest: create_rows_props)
    then have "filter (\<lambda>r. fr_recipient_user_id r = u) new = []" by (auto simp: filter_empty_conv)
    with le show ?thesis by (simp add: created_live_links [OF c])
  qed
qed

subsection \<open>Sending\<close>

text \<open>An e-mail leaves only for a live request: one call sends at most one message, to the
  row's own address, carrying the reference the row has at that moment over http or https, only
  after this call won the claim, for a task not known to be closed, with the SMTP settings of
  the row's tenant; and the result says so exactly when a message was sent.\<close>

theorem notify_sends_only_live_links:
  assumes "notify p i s = (res, mails, s')"
  shows "(mails \<noteq> [] \<longleftrightarrow> res \<in> {Sent, Sent_unrecorded}) \<and>
    (mails \<noteq> [] \<longrightarrow> (\<exists>row settings. form_by_id (working s) i = Some row \<and>
       resolve_smtp_settings (post_secrets p) (fr_tenant_id row) = Some settings \<and>
       url_scheme (fr_external_form_url row) \<in> {''http'', ''https''} \<and>
       (post_task_readable p \<longrightarrow> \<not> (is_open row \<and> task_closed (human_task_for (working s) row))) \<and>
       fst (claim_request (post_now p) (post_ttl p) i s) \<and>
       (\<exists>x. form_by_id (working (snd (claim_request (post_now p) (post_ttl p) i s))) i = Some x \<and>
         mails = [\<lparr>em_to = fr_email x, em_link_reference = fr_reference_id x, em_settings = settings\<rparr>])))"
proof (cases "form_by_id (working s) i")
  case None
  with assms show ?thesis by (auto simp: notify_def)
next
  case (Some row)
  then have i: "fr_id row = i" by (auto dest: form_by_id_in)
  let ?task = "if post_task_readable p then human_task_for (working s) row else None"
  show ?thesis
  proof (cases "is_open row \<and> task_closed ?task")
    case True
    then have c: "cancel_if_task_closed (post_now p) row ?task s
        = (True, retire (post_now p) row, commit (snd (write_row (retire (post_now p)) row s)))"
      by (simp add: cancel_if_task_closed_def write_row_def retire_def)
    with assms Some show ?thesis by (auto simp: notify_def)
  next
    case False
    then have c: "cancel_if_task_closed (post_now p) row ?task s = (fr_status row = Cancelled, row, s)"
      using cancel_if_task_closed_cases [of row ?task "post_now p" s] by blast
    from False have t: "post_task_readable p \<longrightarrow> \<not> (is_open row \<and> task_closed (human_task_for (working s) row))"
      by auto
    obtain won s2 where cl: "claim_request (post_now p) (post_ttl p) i s = (won, s2)" by fastforce
    show ?thesis
      using assms Some c t
      by (auto simp: notify_def Let_def i cl split: option.splits if_splits prod.splits)
  qed
qed

text \<open>Readiness, settings and the admin's status never disagree: a tenant is reported ready
  exactly when its settings resolve, that is when host and sender address are readable and not
  blank; and a reason is given exactly when it is not.\<close>

theorem readiness_is_resolvability:
  "rd_ok (smtp_readiness secrets tid) \<longleftrightarrow> resolve_smtp_settings secrets tid \<noteq> None"
  by (auto simp: rd_ok_def smtp_readiness_def resolve_smtp_settings_def Let_def
      REQUIRED_SMTP_SECRET_KEYS_def split: option.splits)

end
