(* ===== verification/Workflow_Properties.thy ===== *)
theory Workflow_Properties
  imports Form_Properties
begin

text \<open>
  The promises of the task commands and of the human-task module around the engine.
\<close>

subsection \<open>Suspension\<close>

definition task_of_suspended_instance :: "world \<Rightarrow> string \<Rightarrow> int \<Rightarrow> bool" where
  "task_of_suspended_instance w tid i \<longleftrightarrow>
     (\<exists>t p. work_item_by_id w i = Some t \<and> wi_tenant_id t = tid \<and>
        instance_by_id w (wi_process_instance_id t) = Some p \<and> pi_status p = ''suspended'')"

lemma suspended_rejected:
  "task_of_suspended_instance w tid i \<Longrightarrow>
   reject_task_write_if_instance_suspended w tid i action
     = Some (CoreError InvalidStateE (''Cannot '' @ action @ '' a task on a suspended process instance''))"
  by (auto simp: task_of_suspended_instance_def reject_task_write_if_instance_suspended_def)

text \<open>C17. A suspended instance takes no task write: whatever the engine is, claiming, completing
  and submitting a task of it are refused as a conflict, publish nothing and leave the state as
  it was, so the engine never ran.\<close>

theorem suspended_instance_takes_no_task_write:
  assumes "task_of_suspended_instance (working s) tid i"
  shows "(\<exists>m. claim core s tid i uid = (Inl (ApiExn (ApiError ''invalid_state'' m 409)), s)) \<and>
         (\<exists>m. complete core env s tid i uid payload = (Inl (ApiExn (ApiError ''invalid_state'' m 409)), [], s)) \<and>
         (\<exists>m. submit_external_form core env rd loads req s tid i uid payload
                = (Inl (ApiExn (ApiError ''invalid_state'' m 409)), [], s))"
  using suspended_rejected [OF assms]
  by (simp add: claim_def complete_def submit_external_form_def)

text \<open>A link submitted while its instance is suspended is consumed although its task stays
  open: the recipient is told that the task has already been completed, the row becomes
  \<open>completed\<close> for good, and neither the work items nor the instances change.\<close>

theorem suspended_submission_consumes_the_link:
  assumes row: "form_by_reference (working s) ref = Some row" "is_actionable row"
      "\<not> run_out (env_now env) row"
    and task: "human_task_for (working s) row = Some t" "\<not> wi_completed t"
    and susp: "task_of_suspended_instance (working s) (fr_tenant_id row) (wi_id t)"
    and user: "user_by_id (working s) (fr_recipient_user_id row) = Some u"
    and cl: "clean s"
  shows "\<exists>s' r. submit core env rd loads ok s ref d
           = (Inl (ApiError ''already_submitted'' ''This task has already been completed.'' 409), [], s') \<and>
         form_by_reference (durable s') ref = Some r \<and> fr_status r = Completed \<and>
         items (durable s') = items (working s) \<and> instances (durable s') = instances (working s)"
proof -
  let ?f = "mark_submitted (env_now env) Submitted d"
  let ?s1 = "snd (write_row ?f row s)"
  have acc: "submit core env rd loads ok s ref d
      = accept_submission core env rd loads ok s row (human_task_for (working s) row) d"
    using row task by (cases rule: submit_cases [of s ref core env rd loads ok d])
      (auto simp: usable_iff_actionable [symmetric] task_closed_def)
  have susp1: "task_of_suspended_instance (working ?s1) (fr_tenant_id (?f row)) (wi_id t)"
    using susp
    by (simp add: task_of_suspended_instance_def work_item_by_id_def instance_by_id_def
        write_row_def mark_submitted_def)
  obtain m where sub: "submit_external_form core (env\<lparr>env_external := True\<rparr>) rd loads False ?s1
      (fr_tenant_id (?f row)) (wi_id t) (user_id u) (Some d)
      = (Inl (ApiExn (ApiError ''invalid_state'' m 409)), [], ?s1)"
    using suspended_instance_takes_no_task_write [OF susp1] by blast
  have u1: "user_by_id (working ?s1) (fr_recipient_user_id (?f row)) = Some u"
    using user by (simp add: user_by_id_def write_row_def mark_submitted_def)
  let ?w = "set_form (fr_id row) (mark_submitted (env_now env) Completed d) (working s)"
  have "accept_submission core env rd loads ok s row (Some t) d
      = (Inl (ApiError ''already_submitted'' ''This task has already been completed.'' 409), [],
         commit (modify (set_form (fr_id row) (mark_submitted (env_now env) Completed d)) (rollback ?s1)))"
    using u1 sub
    by (simp add: accept_submission_def Let_def resume_workflow_def finish_submit_def write_row_def)
  moreover have "working (rollback ?s1) = working s" using cl by (simp add: write_row_def clean_def)
  moreover have "form_by_reference ?w ref = Some (mark_submitted (env_now env) Completed d row)"
    using reference_kept_by_actions [OF row(1), of "mark_submitted (env_now env) Completed d"
        "\<lambda>r. fr_id r = fr_id row"]
    by (simp add: set_form_def mark_submitted_def)
  ultimately show ?thesis using acc task(1) by auto
qed

subsection \<open>In-app completion\<close>

text \<open>A task whose external form is still out cannot be completed in the app: while an open,
  unexpired link exists, completing it outside the external path is refused with 409 for any
  engine, and nothing changes.\<close>

theorem no_in_app_completion_while_a_link_is_open:
  assumes "work_item_by_id (working s) i = Some t" "wi_tenant_id t = tid"
    and "external_form_url_for_task t \<noteq> None" "link_open (working s) (env_now env) tid t"
    and "\<not> env_external env"
  shows "\<exists>e. complete core env s tid i uid payload = (Inl (ApiExn e), [], s) \<and> err_status e = 409"
proof -
  have "\<exists>e. reject_in_app_completion_of_external_form_task env (working s) tid i = Some e \<and> err_status e = 409"
    using assms by (simp add: reject_in_app_completion_of_external_form_task_def)
  moreover have "reject_task_write_if_instance_suspended (working s) tid i ''complete'' = None \<or>
    (\<exists>m. reject_task_write_if_instance_suspended (working s) tid i ''complete''
           = Some (CoreError InvalidStateE m))"
    using assms(1,2)
    by (auto simp: reject_task_write_if_instance_suspended_def split: option.splits)
  ultimately show ?thesis by (auto simp: complete_def)
qed

subsection \<open>A failing emission hook\<close>

text \<open>C14. The emission hook after a completion can undo the completion: when the engine has
  completed the task (uncommitted) and the commit of the next task's new links fails, the
  hook's rollback discards the engine's work, and \<open>complete\<close> still reports success.\<close>

theorem failed_emission_discards_a_reported_completion:
  assumes guards: "reject_task_write_if_instance_suspended (working s) tid i ''complete'' = None"
      "reject_in_app_completion_of_external_form_task env (working s) tid i = None"
    and engine: "core (CompleteTask tid i uid (completion_payload (env_width env) (working s) tid i payload))
        (working s) = (Inr pid, w')"
    and next_task: "ready_tasks w' tid pid = t # ts" "external_form_url_for_task t = Some url"
      "fst (recipients_for_task t) \<noteq> []"
    and failure: "env_commit_failure env 0 = Some e"
  shows "\<exists>s'. complete core env s tid i uid payload = (Inr pid, [], s') \<and> working s' = durable s"
proof -
  let ?s1 = "s\<lparr>working := w'\<rparr>"
  have "execute_command core (CompleteTask tid i uid
      (completion_payload (env_width env) (working s) tid i payload)) s = (Inr pid, ?s1)"
    by (simp add: execute_command_def engine)
  moreover have "\<exists>err. emit_requests_for_ready_tasks (env_now env) (env_ttl env) (env_nats env)
      (env_ref env) (env_commit_failure env) ?s1 tid pid = (Some err, [], rollback ?s1)"
    using next_task failure
    by (simp add: emit_requests_for_ready_tasks_def create_requests_for_task_def Let_def
        rollback_def modify_def)
  ultimately show ?thesis
    using guards by (auto simp: complete_def Let_def emit_external_form_requests_def)
qed

subsection \<open>A failed automatic step\<close>

definition core_keeps_items_on_records :: "core \<Rightarrow> bool" where
  "core_keeps_items_on_records core \<longleftrightarrow>
     (\<forall>tid pid k g u w. items (snd (core (RecordEvent tid pid k g u) w)) = items w) \<and>
     (\<forall>tid pid u w. items (snd (core (ErrorInstance tid pid u) w)) = items w)"

lemma established_item:
  assumes "task_completion_is_established env w (Some t) tid (Some p)"
  shows "\<exists>x \<in> set (items w). wi_id x = wi_id t \<and> wi_tenant_id x = tid \<and>
           wi_process_instance_id x = p \<and> wi_completed x"
  using assms
  by (auto simp: task_completion_is_established_def dest!: find_Some_iff_props split: option.splits)

lemma execute_items:
  assumes "execute_command core c s = (r, s')" "\<And>w. items (snd (core c w)) = items w"
  shows "items (working s') = items (working s)"
  using assms by (auto simp: execute_command_def split: prod.splits) (metis snd_conv)

lemma record_event_items:
  assumes "core_keeps_items_on_records core"
    and "record_task_completed_event_if_missing core s tid pid g uid = (r, s')"
  shows "items (working s') = items (working s)"
proof (cases "event_recorded (working s) tid pid g")
  case False
  obtain r1 s1 where e: "execute_command core (RecordEvent tid pid ''task_completed'' g uid) s = (r1, s1)"
    by fastforce
  with False assms(2) have "s' = s1"
    by (auto simp: record_task_completed_event_if_missing_def
        split: sum.splits core_exn.splits if_splits)
  with execute_items [OF e] assms(1) show ?thesis by (simp add: core_keeps_items_on_records_def)
qed (use assms in \<open>simp add: record_task_completed_event_if_missing_def\<close>)

lemma map_bpmn_error_code: "error_code (map_bpmn_error k m) \<noteq> ''automatic_step_failed''"
  by (cases k) simp_all

lemma service_task_failed_durable:
  assumes core: "core_keeps_items_on_records core"
    and e: "service_task_failed core env s tid item pid uid msg = (ApiExn e, s')"
  shows "\<exists>t p. item = Some t \<and> pid = Some p \<and>
    task_completion_is_established env (working s) item tid pid \<and>
    items (durable s') = items (working s) \<and> err_task_submitted e = Some True"
proof -
  from e obtain t p where est: "item = Some t" "pid = Some p"
      "task_completion_is_established env (working s) item tid pid"
    by (auto simp: service_task_failed_def split: if_splits option.splits)
  obtain r1 s1 where rec: "(if wi_task_guid t = [] then (Inr False, s)
      else record_task_completed_event_if_missing core s tid p (wi_task_guid t) uid) = (r1, s1)"
    by fastforce
  then have "items (working s1) = items (working s)"
    using record_event_items [OF core] by (auto split: if_splits)
  then show ?thesis
    using e est rec
    by (auto simp: service_task_failed_def automatic_step_failure_api_error_def Let_def
        split: sum.splits)
qed


lemma script_task_failed_durable:
  assumes core: "core_keeps_items_on_records core"
    and e: "script_task_failed core env s tid item pid uid exc = (ApiExn e, s')"
  shows "\<exists>t p. item = Some t \<and> pid = Some p \<and>
    task_completion_is_established env (working s) item tid pid \<and>
    items (durable s') = items (working s) \<and> err_task_submitted e = Some True"
proof -
  from e obtain g b n where ctx: "workflow_task_exception_context exc = Some (g, b, n)"
    by (auto simp: script_task_failed_def split: option.splits)
  from e ctx obtain t p where est: "item = Some t" "pid = Some p"
      "task_completion_is_established env (working s) item tid pid"
    by (auto simp: script_task_failed_def Let_def split: if_splits option.splits)
  obtain r1 s1 where rec: "(if wi_task_guid t = [] then (Inr False, s)
      else record_task_completed_event_if_missing core s tid p (wi_task_guid t) uid) = (r1, s1)"
    by fastforce
  then have i1: "items (working s1) = items (working s)"
    using record_event_items [OF core] by (auto split: if_splits)
  obtain r2 s2 where c2: "execute_command core (ErrorInstance tid p uid) s1 = (r2, s2)" by fastforce
  with core have i2: "items (working s2) = items (working s1)"
    by (auto simp: core_keeps_items_on_records_def dest: execute_items)
  obtain r3 s3 where c3: "execute_command core (RecordEvent tid p ''task_failed'' g uid) s2 = (r3, s3)"
    by fastforce
  with core have i3: "items (working s3) = items (working s2)"
    by (auto simp: core_keeps_items_on_records_def dest: execute_items)
  show ?thesis
    using e ctx est rec c2 c3 i1 i2 i3
    by (auto simp: script_task_failed_def automatic_step_failure_api_error_def Let_def
        record_process_instance_error_def split: sum.splits if_splits)
qed

lemma execute_state: "execute_command core c s = (r, s') \<Longrightarrow> working s' = snd (core c (working s))"
  by (auto simp: execute_command_def split: prod.splits)

text \<open>The error \<open>automatic_step_failed\<close> keeps its promise that the task was submitted: when
  a completion ends with it, the user's task is completed in the durable state.\<close>

theorem automatic_step_failure_means_task_completed:
  assumes core: "core_keeps_items_on_records core"
    and c: "complete core env s tid i uid payload = (Inl (ApiExn e), evs, s')"
    and code: "error_code e = ''automatic_step_failed''"
  shows "err_task_submitted e = Some True \<and>
    (\<exists>t. work_item_by_id (working s) i = Some t \<and>
      (\<exists>x \<in> set (items (durable s')). wi_id x = wi_id t \<and> wi_tenant_id x = tid \<and> wi_completed x))"
proof -
  let ?item = "work_item_by_id (working s) i"
  let ?pid = "case ?item of None \<Rightarrow> None
     | Some t \<Rightarrow> if wi_tenant_id t = tid then Some (wi_process_instance_id t) else None"
  obtain r1 s1 where x: "execute_command core (CompleteTask tid i uid
      (completion_payload (env_width env) (working s) tid i payload)) s = (r1, s1)" by fastforce
  have "reject_task_write_if_instance_suspended (working s) tid i ''complete'' = None"
  proof (cases "reject_task_write_if_instance_suspended (working s) tid i ''complete''")
    case (Some m)
    with c have "ApiExn e = mapped m" by (simp add: complete_def)
    with Some code show ?thesis
      by (auto simp: reject_task_write_if_instance_suspended_def split: option.splits if_splits)
  qed
  moreover have "reject_in_app_completion_of_external_form_task env (working s) tid i = None"
  proof (cases "reject_in_app_completion_of_external_form_task env (working s) tid i")
    case (Some a)
    with c calculation have "e = a" by (simp add: complete_def)
    with Some code show ?thesis
      by (auto simp: reject_in_app_completion_of_external_form_task_def split: option.splits if_splits)
  qed
  ultimately have run: "(case r1 of
       Inl (CoreError ServiceTaskE m) \<Rightarrow>
         (let (e, s2) = service_task_failed core env s1 tid ?item ?pid uid m in (Inl e, [], s2))
     | Inl (CoreError k m) \<Rightarrow> (Inl (ApiExn (map_bpmn_error k m)), [], s1)
     | Inl exc \<Rightarrow> (let (e, s2) = script_task_failed core env s1 tid ?item ?pid uid exc in (Inl e, [], s2))
     | Inr j \<Rightarrow> (let (evs, s2) = emit_external_form_requests env s1 tid j in (Inr j, evs, s2)))
     = (Inl (ApiExn e), evs, s')"
    using c x by (simp add: complete_def Let_def)
  have "(\<exists>m. service_task_failed core env s1 tid ?item ?pid uid m = (ApiExn e, s')) \<or>
        (\<exists>exc. script_task_failed core env s1 tid ?item ?pid uid exc = (ApiExn e, s'))"
  proof (cases r1)
    case (Inl exc)
    show ?thesis
    proof (cases exc)
      case (CoreError k m)
      with run Inl code map_bpmn_error_code [of k m] show ?thesis
        by (cases k) (auto split: prod.splits)
    qed (use run Inl in \<open>auto split: prod.splits\<close>)
  qed (use run in \<open>auto split: prod.splits\<close>)
  then have "\<exists>t p. ?item = Some t \<and> ?pid = Some p \<and>
    task_completion_is_established env (working s1) ?item tid ?pid \<and>
    items (durable s') = items (working s1) \<and> err_task_submitted e = Some True"
    by (elim disjE exE) (erule service_task_failed_durable [OF core] script_task_failed_durable [OF core])+
  then obtain t p where d: "?item = Some t" "?pid = Some p"
      "task_completion_is_established env (working s1) ?item tid ?pid"
      "items (durable s') = items (working s1)" "err_task_submitted e = Some True"
    by (elim exE conjE)
  from d(3) have "task_completion_is_established env (working s1) (Some t) tid (Some p)"
    by (simp only: d(2)) (simp only: d(1))
  from established_item [OF this] d show ?thesis by auto
qed


subsection \<open>Task data\<close>

lemma dget_nested:
  assumes "work_item_by_id w i = Some t" "wi_tenant_id t = tid"
    and "user_task_form_variable t = Some v" "v \<noteq> ''outcome''"
  shows "nest_payload_under_task_variable w tid i payload
    = (v, PDict (dmerge (dict_items (dget (task_data w tid (wi_task_guid t)) v))
                 (filter (\<lambda>(k, x). k \<noteq> ''outcome'') payload)))
      # (case map_of payload ''outcome'' of None \<Rightarrow> [] | Some x \<Rightarrow> [(''outcome'', x)])"
  using assms by (simp add: nest_payload_under_task_variable_def Let_def split: option.split)

lemma map_of_filter_key: "map_of (filter (\<lambda>(k, x). P k) d) k = (if P k then map_of d k else None)"
  by (induction d) auto

text \<open>A submission is merged into the variable its task names: the payload handed to the
  engine has that variable (and \<open>outcome\<close>, when submitted, at the top level) and nothing else;
  inside the variable a submitted field has its submitted value and every other field the value
  it already had in the task's data.\<close>

theorem submission_is_merged_into_the_task_variable:
  assumes "work_item_by_id w i = Some t" "wi_tenant_id t = tid"
    and "user_task_form_variable t = Some v" "v \<noteq> ''outcome''" "distinct (map fst payload)"
  defines "nested \<equiv> nest_payload_under_task_variable w tid i payload"
  shows "set (map fst nested) \<subseteq> {v, ''outcome''} \<and>
    map_of nested ''outcome'' = map_of payload ''outcome'' \<and>
    (\<exists>fields. map_of nested v = Some (PDict fields) \<and>
      (\<forall>k. dget fields k =
        (case map_of payload k of
           Some x \<Rightarrow> if k = ''outcome'' then dget (dict_items (dget (task_data w tid (wi_task_guid t)) v)) k else x
         | None \<Rightarrow> dget (dict_items (dget (task_data w tid (wi_task_guid t)) v)) k)))"
proof -
  let ?base = "dict_items (dget (task_data w tid (wi_task_guid t)) v)"
  let ?new = "filter (\<lambda>(k, x). k \<noteq> ''outcome'') payload"
  have n: "nested = (v, PDict (dmerge ?base ?new))
      # (case map_of payload ''outcome'' of None \<Rightarrow> [] | Some x \<Rightarrow> [(''outcome'', x)])"
    unfolding nested_def by (rule dget_nested [OF assms(1-4)])
  have "distinct (map fst ?new)" using assms(5) by (rule distinct_map_filter)
  then have "dget (dmerge ?base ?new) k
      = (case map_of payload k of
           Some x \<Rightarrow> if k = ''outcome'' then dget ?base k else x | None \<Rightarrow> dget ?base k)" for k
    by (simp add: dget_dmerge map_of_filter_key split: option.split)
  then show ?thesis using assms(4) by (auto simp: n split: option.splits)
qed

text \<open>Whatever a form submits, what reaches the engine fits: every value of the completion
  payload is text of at most the column's width, and a task without a form variable never
  passes a key the engine owns.\<close>

theorem completion_payload_fits_the_engine:
  assumes "completion_payload declared w tid i payload = Some p" "(k, v) \<in> set p"
  shows "length v \<le> METADATA_VALUE_MAX_LENGTH declared \<and>
    ((\<forall>t. work_item_by_id w i = Some t \<longrightarrow> user_task_form_variable t = None) \<longrightarrow>
       k \<notin> set ENGINE_DATA_KEYS)"
proof -
  from assms obtain z x where z: "v = stringify_metadata_value declared x"
      "(k, x) \<in> set (nest_payload_under_task_variable w tid i (filter (\<lambda>(k, v). k \<notin> set ENGINE_DATA_KEYS) z))"
    by (auto simp: completion_payload_def)
  have "length v \<le> METADATA_VALUE_MAX_LENGTH declared"
    unfolding z(1) by (simp add: stringify_metadata_value_def)
  moreover have "k \<notin> set ENGINE_DATA_KEYS"
    if "\<forall>t. work_item_by_id w i = Some t \<longrightarrow> user_task_form_variable t = None"
    using z(2) that by (auto simp: nest_payload_under_task_variable_def split: option.splits if_splits)
  ultimately show ?thesis by blast
qed

subsection \<open>Required fields\<close>

lemma missing_in_iff:
  "missing_in schema payload = [] \<longleftrightarrow>
     (\<forall>k. PStr k \<in> set (list_items (dget schema ''required'')) \<longrightarrow>
        k \<in> fst ` set (dict_items (dget schema ''properties'')) \<longrightarrow> dget payload k \<notin> {PNone, PStr []})"
proof -
  have "k \<in> set (List.map_filter str_of xs) \<longleftrightarrow> PStr k \<in> set xs" for k xs
  proof (induction xs)
    case (Cons x xs)
    then show ?case by (cases x) auto
  qed simp
  then show ?thesis
    by (auto simp: missing_in_def Let_def filter_empty_conv map_of_eq_None_iff)
qed

text \<open>With required fields enforced a task completes only with a complete form: a
  submission that succeeds holds, for every required property of the form's schema, a value
  that is neither null nor the empty string.\<close>

theorem completed_form_has_its_required_fields:
  assumes "submit_external_form core env rd loads True s tid i uid (Some payload) = (Inr j, evs, s')"
    and "claim core s tid i uid = (Inr item_id, s1)" "work_item_by_id (working s1) item_id = Some item"
    and "schema = fst (load_form_files rd loads tid item)"
    and "PStr k \<in> set (list_items (dget schema ''required''))"
    and "k \<in> fst ` set (dict_items (dget schema ''properties''))"
  shows "dget payload k \<noteq> PNone \<and> dget payload k \<noteq> PStr []"
proof -
  have "missing_required_fields rd loads tid item payload = []"
    using assms(1-3)
    by (auto simp: submit_external_form_def Let_def split: if_splits)
  then show ?thesis
    using assms(4-6) by (auto simp: missing_required_fields_def missing_in_iff)
qed

subsection \<open>Terminating\<close>

text \<open>Terminating an instance retires its links: afterwards no link of that tenant and
  instance is open in the session, and every row of another instance or tenant is as it was.\<close>

theorem terminate_retires_every_open_link:
  assumes core: "core_keeps_forms core"
    and t: "terminate_instance core env True s tid pid uid = (Inr i, s')"
  shows "\<not> (\<exists>r \<in> set (forms (working s')). fr_tenant_id r = tid \<and> fr_process_instance_id r = i \<and> is_open r) \<and>
    (\<forall>r \<in> set (forms (working s)). fr_tenant_id r \<noteq> tid \<or> fr_process_instance_id r \<noteq> i \<or> \<not> is_open r \<longrightarrow>
       r \<in> set (forms (working s')))"
proof -
  obtain s1 where x: "execute_command core (TerminateInstance tid pid uid) s = (Inr i, s1)"
      "s' = snd (cancel_open_requests (env_now env) s1 tid i)"
    using t by (auto simp: terminate_instance_def split: prod.splits sum.splits)
  have f: "forms (working s1) = forms (working s)"
    using core execute_state [OF x(1)] by (simp add: core_keeps_forms_def)
  let ?P = "\<lambda>r. fr_tenant_id r = tid \<and> fr_process_instance_id r = i \<and> is_open r"
  have s': "forms (working s') = update_where ?P (retire (env_now env)) (forms (working s))"
    by (simp add: x(2) cancel_open_requests_def Let_def f)
  have "\<not> is_open (retire now r)" for now r by (simp add: is_open_def status_sets)
  then have "\<not> ?P r" if "r \<in> set (forms (working s'))" for r
    using that unfolding s' in_update_where by (metis (full_types))
  then show ?thesis by (auto simp: s' intro: update_where_miss)
qed

end
