(* ===== verification/Outcome_Properties.thy ===== *)
theory Outcome_Properties
  imports Human_Task
begin

text \<open>
  The outcome buttons of a human task: the literals read from gateway conditions, and what each
  button stands for.
\<close>

subsection \<open>Outcome literals\<close>

lemma quoted_value_quoted:
  "is_quote q \<Longrightarrow> CHR 0x0A \<notin> set v \<Longrightarrow> quoted_value (q # v @ [q]) = Some v"
  by simp

lemma not_space_quote: "is_quote q \<Longrightarrow> \<not> py_space q"
  by (auto simp: is_quote_def py_space_def)

lemma lstrip_here: "\<not> py_space c \<Longrightarrow> lstrip (c # s) = c # s"
  by (simp add: lstrip_def lstrip_if_def)

lemma lstrip_space: "lstrip (CHR '' '' # s) = lstrip s"
  by (simp add: lstrip_def lstrip_if_def py_space_def)

lemma rstrip_here: "\<not> py_space c \<Longrightarrow> rstrip (s @ [c]) = s @ [c]"
  by (simp add: rstrip_def rstrip_if_def)

lemma rstrip_space: "rstrip (s @ [CHR '' '']) = rstrip s"
  by (simp add: rstrip_def rstrip_if_def py_space_def)

lemma strip_here: "s \<noteq> [] \<Longrightarrow> \<not> py_space (hd s) \<Longrightarrow> \<not> py_space (last s) \<Longrightarrow> strip s = s"
  unfolding strip_def by (rule strip_if_id) simp

lemma outcome_before_value:
  assumes "is_quote q" "CHR 0x0A \<notin> set v"
  shows "parse_outcome_string (''outcome == '' @ q # v @ [q]) = Some v"
proof -
  let ?t = "''outcome == '' @ q # v @ [q]"
  have t: "strip ?t = ?t"
    using assms(1) by (intro strip_here) (auto simp: py_space_def is_quote_def)
  have "lstrip (drop 7 ?t) = ''== '' @ q # v @ [q]"
    by (simp add: lstrip_space lstrip_here py_space_def)
  moreover have "lstrip (drop 2 (''== '' @ q # v @ [q])) = q # v @ [q]"
    using assms(1) by (simp add: lstrip_space lstrip_here not_space_quote)
  ultimately show ?thesis
    using assms t by (simp add: parse_outcome_string_def Let_def startswith_def quoted_value_quoted)
qed

lemma without_suffix_append: "without_suffix (s @ p) p = Some s"
  by (simp add: without_suffix_def endswith_iff)

lemma value_before_outcome:
  assumes "is_quote q" "CHR 0x0A \<notin> set v"
  shows "parse_outcome_string (q # v @ [q] @ '' == outcome'') = Some v"
proof -
  let ?t = "q # v @ [q] @ '' == outcome''"
  have t: "strip ?t = ?t"
    using assms(1) by (intro strip_here) (auto simp: py_space_def is_quote_def)
  have ns: "\<not> startswith ?t ''outcome''"
    using assms(1) by (auto simp: startswith_def is_quote_def)
  have "without_suffix ((q # v @ [q] @ '' == '') @ ''outcome'') ''outcome'' = Some (q # v @ [q] @ '' == '')"
    by (rule without_suffix_append)
  then have s1: "without_suffix ?t ''outcome'' = Some (q # v @ [q] @ '' == '')" by simp
  have "rstrip (((q # v @ [q]) @ '' =='') @ [CHR '' '']) = (q # v @ [q]) @ '' ==''"
    using rstrip_here [of "CHR ''=''" "(q # v @ [q]) @ '' =''"]
    by (simp only: rstrip_space) (simp add: py_space_def)
  then have s2: "rstrip (q # v @ [q] @ '' == '') = ((q # v @ [q]) @ '' '') @ ''==''" by simp
  have s3: "without_suffix (rstrip (q # v @ [q] @ '' == '')) ''=='' = Some ((q # v @ [q]) @ '' '')"
    unfolding s2 by (rule without_suffix_append)
  have s4: "rstrip ((q # v @ [q]) @ '' '') = q # v @ [q]"
    using rstrip_here [of q "q # v"] assms(1) by (simp only: rstrip_space) (simp add: not_space_quote)
  show ?thesis
    unfolding parse_outcome_string_def Let_def t
    by (simp only: ns s1 s3 s4 if_False option.case quoted_value_quoted [OF assms])
qed

text \<open>Round trip of outcome literals: a condition written as a comparison of \<open>outcome\<close> with
  a quoted value, in either order and with either quote, is read back as exactly that value,
  for every value without a line break.\<close>

theorem outcome_literal_roundtrip:
  assumes "q = CHR 0x27 \<or> q = CHR 0x22" "CHR 0x0A \<notin> set v"
  shows "parse_outcome_literal (PStr (''outcome == '' @ q # v @ [q])) = Some v \<and>
         parse_outcome_literal (PStr (q # v @ [q] @ '' == outcome'')) = Some v"
  using outcome_before_value [OF _ assms(2), of q] value_before_outcome [OF _ assms(2), of q] assms(1)
  by (simp add: parse_outcome_literal_def is_quote_def)

text \<open>A condition that is no simple equality is not always skipped: a disjunction of two
  comparisons is read as one literal, the text between the outermost quotes.\<close>

theorem disjunction_is_read_as_a_literal:
  "parse_outcome_literal (PStr (''outcome == '' @ [CHR 0x27] @ ''a'' @ [CHR 0x27] @ '' or outcome == '' @
      [CHR 0x27] @ ''b'' @ [CHR 0x27]))
   = Some (''a'' @ [CHR 0x27] @ '' or outcome == '' @ [CHR 0x27] @ ''b'')"
  using outcome_before_value [of "CHR 0x27" "''a'' @ [CHR 0x27] @ '' or outcome == '' @ [CHR 0x27] @ ''b''"]
  by (simp add: parse_outcome_literal_def is_quote_def)

subsection \<open>Buttons\<close>

definition entry_offers :: "pyval \<Rightarrow> pyval \<Rightarrow> string \<Rightarrow> bool" where
  "entry_offers default_spec entry value \<longleftrightarrow>
     (\<exists>d ts. entry = PDict d \<and> dget d ''task_spec'' = PStr ts \<and>
        (parse_outcome_literal (dget d ''condition'') = Some value \<or>
         (dget d ''condition'' = PNone \<and> default_spec \<noteq> PStr ts)))"

lemma scan_entry_offers:
  assumes "o1 \<in> set (scan_outcomes (scan_entry fbt names dflt entry acc))"
  shows "o1 \<in> set (scan_outcomes acc) \<or> entry_offers dflt entry (out_value o1)"
proof (cases entry)
  case (PDict d)
  show ?thesis
  proof (cases "dget d ''task_spec''")
    case (PStr ts)
    show ?thesis
    proof (cases "parse_outcome_literal (dget d ''condition'')")
      case None
      with assms PDict PStr show ?thesis
        by (auto simp: scan_entry_def entry_offers_def Let_def outcome_for_def
            split: if_splits pyval.splits)
    next
      case (Some v)
      with assms PDict PStr show ?thesis
        by (auto simp: scan_entry_def entry_offers_def Let_def outcome_for_def
            split: if_splits pyval.splits)
    qed
  qed (use assms PDict in \<open>simp_all add: scan_entry_def\<close>)
qed (use assms in \<open>simp_all add: scan_entry_def\<close>)

lemma scan_fold_offers:
  "o1 \<in> set (scan_outcomes (fold (scan_entry fbt names dflt) entries acc)) \<Longrightarrow>
   o1 \<in> set (scan_outcomes acc) \<or> (\<exists>e \<in> set entries. entry_offers dflt e (out_value o1))"
proof (induction entries arbitrary: acc)
  case (Cons e es)
  from Cons.IH [of "scan_entry fbt names dflt e acc"] Cons.prems show ?case
    by (auto dest: scan_entry_offers)
qed simp

lemma scan_entry_emitted:
  "distinct (scan_emitted acc) \<Longrightarrow> length (scan_outcomes acc) = length (scan_emitted acc) \<Longrightarrow>
   distinct (scan_emitted (scan_entry fbt names dflt e acc)) \<and>
   length (scan_outcomes (scan_entry fbt names dflt e acc)) = length (scan_emitted (scan_entry fbt names dflt e acc))"
  by (auto simp: scan_entry_def Let_def split: pyval.splits option.splits)

lemma scan_fold_emitted:
  "distinct (scan_emitted acc) \<Longrightarrow> length (scan_outcomes acc) = length (scan_emitted acc) \<Longrightarrow>
   distinct (scan_emitted (fold (scan_entry fbt names dflt) es acc)) \<and>
   length (scan_outcomes (fold (scan_entry fbt names dflt) es acc))
     = length (scan_emitted (fold (scan_entry fbt names dflt) es acc))"
  by (induction es arbitrary: acc) (auto simp: scan_entry_emitted)

text \<open>Buttons are honest: a gateway with at most one flow shows none; otherwise every button
  carries the value some condition compares \<open>outcome\<close> with, or stands for an unconditional
  flow, or for the default flow; and the default flow is shown only when every condition could
  be read, so a choice that needs form data is never offered as a plain button.\<close>

theorem outcome_buttons_are_honest:
  assumes "o1 \<in> set (gateway_outcomes flows names gw_props)"
  shows "length flows > 1 \<and>
    ((\<exists>e \<in> set (list_items (dget gw_props ''cond_task_specs'')).
        entry_offers (dget gw_props ''default_task_spec'') e (out_value o1)) \<or>
     (truthy (dget gw_props ''default_task_spec'') \<and>
      (\<forall>fbt. \<not> scan_unsupported (scan_entries fbt names (dget gw_props ''default_task_spec'')
          (list_items (dget gw_props ''cond_task_specs''))))))"
proof -
  let ?dflt = "dget gw_props ''default_task_spec''"
  let ?entries = "list_items (dget gw_props ''cond_task_specs'')"
  have indep: "scan_unsupported (fold (scan_entry f names ?dflt) es acc)
        = scan_unsupported (fold (scan_entry g names ?dflt) es acc2)"
    if "scan_emitted acc = scan_emitted acc2" "scan_unsupported acc = scan_unsupported acc2"
    for f g es acc acc2
    using that
  proof (induction es arbitrary: acc acc2)
    case (Cons e es)
    have "scan_emitted (scan_entry f names ?dflt e acc) = scan_emitted (scan_entry g names ?dflt e acc2)"
      "scan_unsupported (scan_entry f names ?dflt e acc) = scan_unsupported (scan_entry g names ?dflt e acc2)"
      using Cons.prems by (auto simp: scan_entry_def Let_def split: pyval.splits option.splits)
    with Cons.IH show ?case by simp
  qed simp
  have len: "length flows > 1" using assms by (auto simp: gateway_outcomes_def split: if_splits)
  have scan: "\<exists>e \<in> set ?entries. entry_offers ?dflt e (out_value o1)"
    if "o1 \<in> set (scan_outcomes (scan_entries fbt names ?dflt ?entries))" for fbt
    using scan_fold_offers [OF that [unfolded scan_entries_def]] by simp
  show ?thesis
  proof (cases "\<exists>fbt. o1 \<in> set (scan_outcomes (scan_entries fbt names ?dflt ?entries))")
    case True
    with scan len show ?thesis by blast
  next
    case False
    with assms len obtain fbt where "truthy ?dflt" "\<not> scan_unsupported (scan_entries fbt names ?dflt ?entries)"
      by (auto simp: gateway_outcomes_def Let_def split: if_splits)
    then show ?thesis using len indep unfolding scan_entries_def by blast
  qed
qed

end
