(* ===== verification/Api_Keys.thy ===== *)
theory Api_Keys
  imports Py_Value Row_Table
begin

text \<open>
  Broker API keys and trigger signatures (services/nats_token_service.py, the salts and the
  replay window of config.py, the key row of models/native.py). The keyed hash of a secret
  and of a trigger body (HMAC-SHA256 over the JSON text of the signed fields) are arguments;
  everything the code decides with them is modelled.
\<close>

definition KEY_PREFIX :: string where "KEY_PREFIX = ''m8f_''"
definition KEY_DELIMITER :: char where "KEY_DELIMITER = CHR ''.''"

definition LAST_USED_STAMP_THROTTLE_SECONDS :: int where
  "LAST_USED_STAMP_THROTTLE_SECONDS = 60"

record api_key =
  ak_id :: string
  ak_tenant_id :: string
  ak_label :: string
  ak_token_hash :: string
  ak_scope :: "string option"
  ak_expires_at :: "int option"
  ak_last_used_at :: "int option"
  ak_revoked_at :: "int option"
  ak_created_by :: string
  ak_modified_by :: string
  ak_created_at :: int

type_synonym key_db = "api_key list session"

record authenticated_key =
  auth_tenant_id :: string
  auth_key_id :: string
  auth_created_by :: string
  auth_scope :: "string option"

subsection \<open>Configuration\<close>

text \<open>\<open>_get(key)\<close> on the value the environment has for the key.\<close>

definition config_get :: "string option \<Rightarrow> string option" where
  "config_get value = (if truthy_str value then map_option strip value else None)"

definition nats_token_salt :: "string option \<Rightarrow> string" where
  "nats_token_salt env_salt = or_default (or_str (config_get env_salt) (Some ''m8flow_default_salt'')) []"

definition PUBLIC_NATS_SALTS :: "string list" where
  "PUBLIC_NATS_SALTS = [''m8flow_default_salt'', ''changeme_nats_salt'', ''my-random-salt-string'']"

definition MIN_NATS_SIGNING_SALT_LENGTH :: nat where
  "MIN_NATS_SIGNING_SALT_LENGTH = 32"

definition nats_trigger_signing_salt :: "string option \<Rightarrow> string option" where
  "nats_trigger_signing_salt env_salt =
     (case config_get env_salt of
        None \<Rightarrow> None
      | Some salt \<Rightarrow>
          (if salt \<in> set PUBLIC_NATS_SALTS \<or> length salt < MIN_NATS_SIGNING_SALT_LENGTH then None
           else Some salt))"

text \<open>\<open>None\<close> is the \<open>ValueError\<close> on anything but a positive whole number.\<close>

definition nats_trigger_max_age_seconds :: "string option \<Rightarrow> int option" where
  "nats_trigger_max_age_seconds env_value =
     (let raw = or_default (or_str (config_get env_value) (Some ''300'')) []
      in if raw \<noteq> [] \<and> list_all is_digit raw
         then (case py_int raw of
                 None \<Rightarrow> None
               | Some n \<Rightarrow> if n \<le> 0 then None else Some n)
         else None)"

subsection \<open>The key table\<close>

text \<open>\<open>hash_token secret salt\<close>; \<open>key_id\<close> and \<open>secret\<close> are the random draws.\<close>

definition normalize_scope :: "string option \<Rightarrow> string option" where
  "normalize_scope scope =
     (case map_option strip scope of
        None \<Rightarrow> None
      | Some s \<Rightarrow> if s = [] \<or> s = ''*'' then None else Some s)"

definition create_named_key ::
  "(string \<Rightarrow> string \<Rightarrow> string) \<Rightarrow> string \<Rightarrow> int \<Rightarrow> bool \<Rightarrow> string \<Rightarrow> string \<Rightarrow> key_db \<Rightarrow>
   string \<Rightarrow> string \<Rightarrow> string \<Rightarrow> int option \<Rightarrow> string option \<Rightarrow>
   (api_error + api_key \<times> string) \<times> key_db" where
  "create_named_key hash_token salt now commit_ok key_id secret s tid uid label expires_in scope =
     (let raw_key = KEY_PREFIX @ key_id @ [KEY_DELIMITER] @ secret;
          key = \<lparr>ak_id = key_id, ak_tenant_id = tid, ak_label = label,
                 ak_token_hash = hash_token secret salt, ak_scope = normalize_scope scope,
                 ak_expires_at = map_option (\<lambda>n. now + n) expires_in, ak_last_used_at = None,
                 ak_revoked_at = None, ak_created_by = uid, ak_modified_by = uid,
                 ak_created_at = now\<rparr>;
          unique = list_all (\<lambda>k. ak_id k \<noteq> key_id \<and> ak_token_hash k \<noteq> ak_token_hash key)
                     (working s)
      in if commit_ok \<and> unique
         then (Inr (key, raw_key), commit (modify (\<lambda>ks. ks @ [key]) s))
         else (Inl (ApiError ''database_error'' ''Could not save the NATS API key.'' 500),
               rollback s))"

definition list_keys :: "api_key list \<Rightarrow> string \<Rightarrow> api_key list" where
  "list_keys ks tid = sort_key (\<lambda>k. - ak_created_at k) (filter (\<lambda>k. ak_tenant_id k = tid) ks)"

definition key_by_id :: "api_key list \<Rightarrow> string \<Rightarrow> api_key option" where
  "key_by_id ks i = find (\<lambda>k. ak_id k = i) ks"

definition write_key :: "string \<Rightarrow> (api_key \<Rightarrow> api_key) \<Rightarrow> key_db \<Rightarrow> key_db" where
  "write_key i f s = modify (update_where (\<lambda>k. ak_id k = i) f) s"

definition revoke_key ::
  "int \<Rightarrow> bool \<Rightarrow> key_db \<Rightarrow> string \<Rightarrow> string \<Rightarrow> string \<Rightarrow> (api_error + bool) \<times> key_db" where
  "revoke_key now commit_ok s tid key_id uid =
     (case find (\<lambda>k. ak_id k = key_id \<and> ak_tenant_id k = tid) (working s) of
        None \<Rightarrow> (Inl (ApiError ''nats_api_key_not_found''
                  ''No NATS API key with that id exists for this tenant.'' 404), s)
      | Some k \<Rightarrow>
          (if ak_revoked_at k \<noteq> None then (Inr False, s)
           else let s' = write_key key_id (\<lambda>k. k\<lparr>ak_revoked_at := Some now, ak_modified_by := uid\<rparr>) s
                in if commit_ok then (Inr True, commit s')
                   else (Inl (ApiError ''database_error'' ''Could not revoke the NATS API key.'' 500),
                         rollback s')))"

text \<open>\<open>_if_active\<close>, with the throttled, best-effort last-used stamp.\<close>

definition key_expired :: "int \<Rightarrow> api_key \<Rightarrow> bool" where
  "key_expired now k = (case ak_expires_at k of None \<Rightarrow> False | Some e \<Rightarrow> now > e)"

definition stamp_due :: "int \<Rightarrow> api_key \<Rightarrow> bool" where
  "stamp_due now k =
     (case ak_last_used_at k of None \<Rightarrow> True | Some u \<Rightarrow> now - u \<ge> LAST_USED_STAMP_THROTTLE_SECONDS)"

definition identity_of :: "api_key \<Rightarrow> authenticated_key" where
  "identity_of k = \<lparr>auth_tenant_id = ak_tenant_id k, auth_key_id = ak_id k,
                    auth_created_by = ak_created_by k, auth_scope = ak_scope k\<rparr>"

definition if_active :: "int \<Rightarrow> bool \<Rightarrow> api_key \<Rightarrow> key_db \<Rightarrow> authenticated_key option \<times> key_db" where
  "if_active now commit_ok k s =
     (if ak_revoked_at k \<noteq> None then (None, s)
      else if key_expired now k then (None, s)
      else (Some (identity_of k),
            if stamp_due now k
            then (let s' = write_key (ak_id k) (\<lambda>k. k\<lparr>ak_last_used_at := Some now\<rparr>) s
                  in if commit_ok then commit s' else rollback s')
            else s))"

definition authenticate_key ::
  "(string \<Rightarrow> string \<Rightarrow> string) \<Rightarrow> string \<Rightarrow> int \<Rightarrow> bool \<Rightarrow> key_db \<Rightarrow> string \<Rightarrow>
   authenticated_key option \<times> key_db" where
  "authenticate_key hash_token salt now commit_ok s raw_key =
     (if \<not> startswith raw_key KEY_PREFIX then (None, s)
      else case partition_at KEY_DELIMITER (drop (length KEY_PREFIX) raw_key) of
        (key_id, delimiter, secret) \<Rightarrow>
          (if \<not> delimiter \<or> key_id = [] \<or> secret = [] then (None, s)
           else case key_by_id (working s) key_id of
             None \<Rightarrow> (None, s)
           | Some k \<Rightarrow>
               (if ak_token_hash k \<noteq> hash_token secret salt then (None, s)
                else if_active now commit_ok k s)))"

definition resolve_key_id ::
  "int \<Rightarrow> bool \<Rightarrow> key_db \<Rightarrow> pyval \<Rightarrow> authenticated_key option \<times> key_db" where
  "resolve_key_id now commit_ok s key_id =
     (case key_id of
        PStr i \<Rightarrow>
          (if i = [] then (None, s)
           else case key_by_id (working s) i of
             None \<Rightarrow> (None, s)
           | Some k \<Rightarrow> if_active now commit_ok k s)
      | _ \<Rightarrow> (None, s))"

subsection \<open>Signed triggers\<close>

definition SIGNED_TRIGGER_FIELDS :: "string list" where
  "SIGNED_TRIGGER_FIELDS = [''id'', ''tenant_id'', ''tenant_slug'', ''process_identifier'',
     ''api_key_id'', ''payload'', ''reply_to'', ''issued_at'']"

text \<open>What is signed: the eight fields, a missing one as null. \<open>mac salt fields\<close> is the HMAC of
  their JSON text under the key derived from the salt.\<close>

definition signed_fields :: "(string \<times> pyval) list \<Rightarrow> (string \<times> pyval) list" where
  "signed_fields event = map (\<lambda>f. (f, dget event f)) SIGNED_TRIGGER_FIELDS"

type_synonym mac = "string \<Rightarrow> (string \<times> pyval) list \<Rightarrow> string"

definition sign_trigger :: "mac \<Rightarrow> string option \<Rightarrow> (string \<times> pyval) list \<Rightarrow> api_error + string" where
  "sign_trigger mac env_salt event =
     (case nats_trigger_signing_salt env_salt of
        None \<Rightarrow> Inl (ApiError ''nats_signing_not_configured''
          (''NATS triggers are disabled until M8FLOW_NATS_TOKEN_SALT is set to a private value '' @
           ''of at least 32 characters.'') 503)
      | Some salt \<Rightarrow> Inr (mac salt (signed_fields event)))"

definition verify_trigger :: "mac \<Rightarrow> string option \<Rightarrow> (string \<times> pyval) list \<Rightarrow> bool" where
  "verify_trigger mac env_salt event =
     (case nats_trigger_signing_salt env_salt of
        None \<Rightarrow> False
      | Some salt \<Rightarrow>
          (case dget event ''signature'' of
             PStr sig \<Rightarrow> mac salt (signed_fields event) = sig
           | _ \<Rightarrow> False))"

definition trigger_is_fresh :: "int \<Rightarrow> int \<Rightarrow> (string \<times> pyval) list \<Rightarrow> bool" where
  "trigger_is_fresh now max_age event =
     (case dget event ''issued_at'' of
        PInt issued_at \<Rightarrow> \<bar>now - issued_at\<bar> \<le> max_age
      | _ \<Rightarrow> False)"

definition scope_entries :: "string \<Rightarrow> string list" where
  "scope_entries scope = filter (\<lambda>e. e \<noteq> []) (map strip (split_on (CHR '','') scope))"

definition scope_open :: "string option \<Rightarrow> bool" where
  "scope_open scope \<longleftrightarrow>
     (case scope of
        None \<Rightarrow> True
      | Some s \<Rightarrow> scope_entries s = [] \<or> ''*'' \<in> set (scope_entries s))"

definition scope_allows :: "string option \<Rightarrow> string \<Rightarrow> bool" where
  "scope_allows scope process_identifier \<longleftrightarrow>
     scope_open scope \<or>
     (case scope of None \<Rightarrow> False | Some s \<Rightarrow> process_identifier \<in> set (scope_entries s))"

lemmas api_key_defs [py_eval] = KEY_PREFIX_def KEY_DELIMITER_def LAST_USED_STAMP_THROTTLE_SECONDS_def
  config_get_def nats_token_salt_def PUBLIC_NATS_SALTS_def MIN_NATS_SIGNING_SALT_LENGTH_def
  nats_trigger_signing_salt_def nats_trigger_max_age_seconds_def normalize_scope_def
  create_named_key_def list_keys_def key_by_id_def write_key_def revoke_key_def key_expired_def
  stamp_due_def identity_of_def if_active_def authenticate_key_def resolve_key_id_def
  SIGNED_TRIGGER_FIELDS_def signed_fields_def sign_trigger_def verify_trigger_def
  trigger_is_fresh_def scope_entries_def scope_open_def scope_allows_def

text \<open>
  What the API keys promise: exactly the live keys authenticate, a key just created does, a
  revoked key never does again, a signed trigger verifies, and a scope admits exactly the
  processes it lists.
\<close>

subsection \<open>Authentication\<close>

definition key_live :: "int \<Rightarrow> api_key \<Rightarrow> bool" where
  "key_live now k \<longleftrightarrow> ak_revoked_at k = None \<and> \<not> key_expired now k"

lemma if_active_fst:
  "fst (if_active now ok k s) = (if key_live now k then Some (identity_of k) else None)"
  by (simp add: if_active_def key_live_def)

lemma key_by_id_props: "key_by_id ks i = Some k \<Longrightarrow> k \<in> set ks \<and> ak_id k = i"
  by (auto simp: key_by_id_def dest: find_Some_iff_props)

definition raw_key_for :: "string \<Rightarrow> string \<Rightarrow> string" where
  "raw_key_for key_id secret = KEY_PREFIX @ key_id @ [KEY_DELIMITER] @ secret"

lemma raw_key_parts:
  assumes "startswith raw KEY_PREFIX"
    and "partition_at KEY_DELIMITER (drop (length KEY_PREFIX) raw) = (i, True, secret)"
  shows "raw = raw_key_for i secret \<and> KEY_DELIMITER \<notin> set i"
proof -
  from assms(1) obtain t where "raw = KEY_PREFIX @ t" by (auto simp: startswith_iff)
  with partition_at_found [OF assms(2)] show ?thesis by (simp add: raw_key_for_def)
qed

lemma partition_raw_key:
  "KEY_DELIMITER \<notin> set i \<Longrightarrow>
   partition_at KEY_DELIMITER (drop (length KEY_PREFIX) (raw_key_for i secret)) = (i, True, secret)"
  by (simp add: raw_key_for_def partition_at_sep)

text \<open>C4. A raw key authenticates exactly when it names a stored key by its id, carries a
  secret with that key's hash, and the key is neither revoked nor expired; the identity is then
  that key's tenant, owner and scope.\<close>

theorem authenticate_exactly_live_keys:
  "fst (authenticate_key hash_token salt now ok s raw) = Some a \<longleftrightarrow>
     (\<exists>k secret. key_by_id (working s) (ak_id k) = Some k \<and> raw = raw_key_for (ak_id k) secret \<and>
        KEY_DELIMITER \<notin> set (ak_id k) \<and> ak_id k \<noteq> [] \<and> secret \<noteq> [] \<and>
        ak_token_hash k = hash_token secret salt \<and> ak_revoked_at k = None \<and>
        \<not> key_expired now k \<and> a = identity_of k)"  (is "?l \<longleftrightarrow> ?r")
proof
  assume l: ?l
  then have pre: "startswith raw KEY_PREFIX" by (auto simp: authenticate_key_def split: if_splits)
  obtain i d secret where
    p: "partition_at KEY_DELIMITER (drop (length KEY_PREFIX) raw) = (i, d, secret)"
    by (cases "partition_at KEY_DELIMITER (drop (length KEY_PREFIX) raw)")
  from l pre p obtain k where k: "d" "i \<noteq> []" "secret \<noteq> []" "key_by_id (working s) i = Some k"
      "ak_token_hash k = hash_token secret salt" "fst (if_active now ok k s) = Some a"
    by (auto simp: authenticate_key_def split: if_splits option.splits)
  from k p raw_key_parts [OF pre] have "raw = raw_key_for i secret \<and> KEY_DELIMITER \<notin> set i" by simp
  with k show ?r
    by (auto simp: if_active_fst key_live_def dest: key_by_id_props split: if_splits)
next
  assume ?r
  then show ?l
    by (auto simp: authenticate_key_def partition_raw_key if_active_fst key_live_def)
      (simp add: raw_key_for_def)
qed

text \<open>The raw key handed out when a key is created authenticates, until the key expires, as
  the tenant and the user it was created for.\<close>

theorem created_key_authenticates:
  assumes "create_named_key hash_token salt now ok key_id secret s tid uid label expires scope
             = (Inr (k, raw), s')"
    and "key_id \<noteq> []" "KEY_DELIMITER \<notin> set key_id" "secret \<noteq> []"
    and "\<forall>n. expires = Some n \<longrightarrow> later \<le> now + n"
  shows "fst (authenticate_key hash_token salt later ok' s' raw) = Some (identity_of k) \<and>
         auth_tenant_id (identity_of k) = tid \<and> auth_created_by (identity_of k) = uid"
proof -
  from assms(1) have k: "ak_id k = key_id" "ak_token_hash k = hash_token secret salt"
      "ak_revoked_at k = None" "ak_expires_at k = map_option (\<lambda>n. now + n) expires"
      "ak_tenant_id k = tid" "ak_created_by k = uid" "raw = raw_key_for key_id secret"
    and fresh: "\<forall>x \<in> set (working s). ak_id x \<noteq> key_id" and w: "working s' = working s @ [k]"
    by (auto simp: create_named_key_def Let_def raw_key_for_def list_all_iff split: if_splits)
  have "find (\<lambda>x. ak_id x = key_id) (working s) = None"
    using fresh by (simp add: find_None_conv)
  with k w have "key_by_id (working s') (ak_id k) = Some k"
    by (simp add: key_by_id_def find_append)
  moreover have "\<not> key_expired later k"
    using assms(5) k(4) by (auto simp: key_expired_def split: option.splits)
  ultimately have "fst (authenticate_key hash_token salt later ok' s' raw) = Some (identity_of k)"
    unfolding authenticate_exactly_live_keys using k assms(2-4) by auto
  with k show ?thesis by (simp add: identity_of_def)
qed


subsection \<open>Revocation\<close>

datatype key_op =
    CreateKey int bool string string string string string "int option" "string option"
  | RevokeKey int bool string string string
  | AuthenticateKey int bool string
  | ResolveKey int bool pyval

primrec run_key_op :: "(string \<Rightarrow> string \<Rightarrow> string) \<times> string \<Rightarrow> key_op \<Rightarrow> key_db \<Rightarrow> key_db" where
  "run_key_op cfg (CreateKey now ok i sec t u l e sc) s =
     snd (create_named_key (fst cfg) (snd cfg) now ok i sec s t u l e sc)"
| "run_key_op cfg (RevokeKey now ok t i u) s = snd (revoke_key now ok s t i u)"
| "run_key_op cfg (AuthenticateKey now ok raw) s =
     snd (authenticate_key (fst cfg) (snd cfg) now ok s raw)"
| "run_key_op cfg (ResolveKey now ok i) s = snd (resolve_key_id now ok s i)"

text \<open>Between requests nothing is pending and key ids are unique; a key keeps its id, tenant,
  owner, hash and scope, and a revocation stays.\<close>

definition keys_ok :: "key_db \<Rightarrow> bool" where
  "keys_ok s \<longleftrightarrow> clean s \<and> distinct (map ak_id (working s))"

definition key_kept :: "api_key \<Rightarrow> api_key \<Rightarrow> bool" where
  "key_kept k k' \<longleftrightarrow>
     ak_id k' = ak_id k \<and> ak_tenant_id k' = ak_tenant_id k \<and> ak_created_by k' = ak_created_by k \<and>
     ak_token_hash k' = ak_token_hash k \<and> ak_scope k' = ak_scope k \<and>
     ak_expires_at k' = ak_expires_at k \<and>
     (ak_revoked_at k \<noteq> None \<longrightarrow> ak_revoked_at k' = ak_revoked_at k)"

definition keys_kept :: "key_db \<Rightarrow> key_db \<Rightarrow> bool" where
  "keys_kept s t \<longleftrightarrow> (keys_ok s \<longrightarrow> keys_ok t \<and>
     (\<forall>k \<in> set (working s). \<exists>k' \<in> set (working t). key_kept k k'))"

lemma key_kept_refl [simp]: "key_kept k k"
  by (simp add: key_kept_def)

lemma key_kept_trans: "key_kept k l \<Longrightarrow> key_kept l m \<Longrightarrow> key_kept k m"
  by (auto simp: key_kept_def)

lemma keys_kept_refl: "keys_kept s s"
  by (auto simp: keys_kept_def intro: key_kept_refl)

lemma keys_kept_trans: "keys_kept s t \<Longrightarrow> keys_kept t u \<Longrightarrow> keys_kept s u"
  unfolding keys_kept_def by (meson key_kept_trans)

lemma keys_kept_rollback: "keys_kept s (rollback s)"
  by (auto simp: keys_kept_def keys_ok_def clean_def intro: key_kept_refl)

lemma keys_kept_rollback_modify: "keys_kept s (rollback (modify f s))"
  by (auto simp: keys_kept_def keys_ok_def clean_def intro: key_kept_refl)

lemma rollback_write_key: "keys_kept s (rollback (write_key i f s))"
  by (simp add: write_key_def keys_kept_rollback_modify)

lemma keys_kept_write:
  assumes "k \<in> set (working s)" "\<And>x. ak_id (f x) = ak_id x" "key_kept k (f k)"
  shows "keys_kept s (commit (write_key (ak_id k) f s))"
proof -
  have "keys_ok s \<Longrightarrow> keys_ok (commit (write_key (ak_id k) f s))"
    by (simp add: keys_ok_def write_key_def map_key_update_where assms(2))
  moreover have "\<exists>x' \<in> set (working (commit (write_key (ak_id k) f s))). key_kept x x'"
    if "keys_ok s" "x \<in> set (working s)" for x
  proof (cases "ak_id x = ak_id k")
    case True
    with that assms(1) have "x = k" by (auto simp: keys_ok_def dest: same_key_same_row)
    with assms show ?thesis
      by (auto simp: write_key_def intro!: bexI [of _ "f k"] update_where_hit)
  next
    case False
    with that show ?thesis
      by (auto simp: write_key_def intro!: bexI [of _ x] update_where_miss)
  qed
  ultimately show ?thesis by (simp add: keys_kept_def)
qed

lemma if_active_kept:
  assumes "k \<in> set (working s)"
  shows "keys_kept s (snd (if_active now ok k s))"
proof -
  have "keys_kept s (commit (write_key (ak_id k) (\<lambda>k. k\<lparr>ak_last_used_at := Some now\<rparr>) s))"
    by (rule keys_kept_write [OF assms]) (simp_all add: key_kept_def)
  then show ?thesis by (simp add: if_active_def keys_kept_refl Let_def rollback_write_key)
qed

lemma create_kept: "keys_kept s (snd (create_named_key h salt now ok i sec s t u l e sc))"
proof -
  have "keys_kept s (commit (modify (\<lambda>ks. ks @ [k]) s))"
    if "list_all (\<lambda>x. ak_id x \<noteq> ak_id k) (working s)" for k
    using that by (auto simp: keys_kept_def keys_ok_def list_all_iff intro: key_kept_refl)
  then show ?thesis
    by (auto simp: create_named_key_def Let_def keys_kept_rollback list_all_iff)
qed

lemma revoke_kept: "keys_kept s (snd (revoke_key now ok s t i u))"
proof (cases "find (\<lambda>k. ak_id k = i \<and> ak_tenant_id k = t) (working s)")
  case (Some k)
  then have k: "k \<in> set (working s)" "ak_id k = i" by (auto dest: find_Some_iff_props)
  show ?thesis
  proof (cases "ak_revoked_at k")
    case None
    with keys_kept_write [OF k(1), of "\<lambda>k. k\<lparr>ak_revoked_at := Some now, ak_modified_by := u\<rparr>"] k(2)
    have "keys_kept s (commit (write_key i (\<lambda>k. k\<lparr>ak_revoked_at := Some now, ak_modified_by := u\<rparr>) s))"
      by (simp add: key_kept_def)
    with Some None show ?thesis by (simp add: revoke_key_def Let_def rollback_write_key)
  qed (simp add: revoke_key_def Some keys_kept_refl)
qed (simp add: revoke_key_def keys_kept_refl)

lemma authenticate_kept: "keys_kept s (snd (authenticate_key h salt now ok s raw))"
  by (auto simp: authenticate_key_def keys_kept_refl intro!: if_active_kept
      dest: key_by_id_props split: prod.split option.split)

lemma resolve_kept: "keys_kept s (snd (resolve_key_id now ok s i))"
  by (auto simp: resolve_key_id_def keys_kept_refl intro!: if_active_kept
      dest: key_by_id_props split: pyval.split option.split)

lemma run_key_op_kept: "keys_kept s (run_key_op cfg a s)"
  by (cases a) (simp_all add: create_kept revoke_kept authenticate_kept resolve_kept)

interpretation key_table: row_lifecycle "run_key_op cfg" keys_kept for cfg
  by unfold_locales (auto intro: keys_kept_refl keys_kept_trans run_key_op_kept)

lemma revoked_after_revoke:
  assumes "keys_ok s" "revoke_key now True s tid i uid = (Inr b, s')"
  shows "keys_ok s' \<and> (\<exists>k \<in> set (working s'). ak_id k = i \<and> ak_revoked_at k \<noteq> None)"
proof -
  from assms(2) obtain k where
    f: "find (\<lambda>k. ak_id k = i \<and> ak_tenant_id k = tid) (working s) = Some k"
    by (auto simp: revoke_key_def split: option.splits)
  then have k: "k \<in> set (working s)" "ak_id k = i" by (auto dest: find_Some_iff_props)
  have ok: "keys_ok s'"
    using revoke_kept [of s now True tid i uid] assms by (simp add: keys_kept_def)
  show ?thesis
  proof (cases "ak_revoked_at k")
    case None
    let ?f = "\<lambda>k. k\<lparr>ak_revoked_at := Some now, ak_modified_by := uid\<rparr>"
    from assms(2) f None have "s' = commit (write_key i ?f s)"
      by (auto simp: revoke_key_def Let_def)
    with k have "?f k \<in> set (working s')" by (auto simp: write_key_def intro!: update_where_hit)
    with ok k(2) show ?thesis by (auto intro!: bexI [of _ "?f k"])
  next
    case (Some a)
    with assms(2) f have "s' = s" by (auto simp: revoke_key_def)
    with ok k Some show ?thesis by auto
  qed
qed

text \<open>Revocation is final: after a key is revoked, and after any sequence of further key
  operations by anyone, no raw key naming it authenticates and a trigger event naming it
  resolves to nobody.\<close>

theorem revoked_key_is_dead:
  assumes "keys_ok s" "revoke_key now True s tid i uid = (Inr b, s')"
    and "t = fold (run_key_op (hash_token, salt)) ops s'"
    and "KEY_DELIMITER \<notin> set i"
  shows "fst (authenticate_key hash_token salt later ok t (raw_key_for i secret)) = None \<and>
         fst (resolve_key_id later ok t (PStr i)) = None"
proof -
  from revoked_after_revoke [OF assms(1,2)] obtain k where
    k: "keys_ok s'" "k \<in> set (working s')" "ak_id k = i" "ak_revoked_at k \<noteq> None" by auto
  have "keys_kept s' t" using key_table.run_allowed [of s' "(hash_token, salt)" ops] assms(3) by simp
  with k(1,2) obtain k' where kept: "keys_ok t" "k' \<in> set (working t)" "key_kept k k'"
    unfolding keys_kept_def by blast
  with k(3,4) have k': "keys_ok t" "k' \<in> set (working t)" "ak_id k' = i" "ak_revoked_at k' \<noteq> None"
    by (simp_all add: key_kept_def)
  then have found: "key_by_id (working t) i = Some k'"
    by (auto simp: keys_ok_def key_by_id_def intro: find_key_unique)
  have "fst (authenticate_key hash_token salt later ok t (raw_key_for i secret)) \<noteq> Some a" for a
  proof
    assume "fst (authenticate_key hash_token salt later ok t (raw_key_for i secret)) = Some a"
    then obtain x sec where x: "key_by_id (working t) (ak_id x) = Some x" "ak_revoked_at x = None"
        "raw_key_for i secret = raw_key_for (ak_id x) sec" "KEY_DELIMITER \<notin> set (ak_id x)"
      unfolding authenticate_exactly_live_keys by blast
    from partition_raw_key [OF assms(4), of secret] partition_raw_key [OF x(4), of sec]
    have "(i, True, secret) = (ak_id x, True, sec)" unfolding x(3) by (rule trans [OF sym])
    then have "ak_id x = i" by simp
    with x(1,2) found k'(4) show False by simp
  qed
  moreover have "fst (resolve_key_id later ok t (PStr i)) = None"
    using found k'(4) by (auto simp: resolve_key_id_def if_active_fst key_live_def)
  ultimately show ?thesis by (metis not_Some_eq)
qed


subsection \<open>Triggers and scopes\<close>

lemma signed_fields_of_signature:
  "signed_fields (dset event ''signature'' v) = signed_fields event"
  by (simp add: signed_fields_def SIGNED_TRIGGER_FIELDS_def)

text \<open>A signed trigger verifies at the consumer with the same configuration; a trigger is
  signed only, and verifies only, under a private salt of at least 32 characters; and any
  event with the same eight signed fields carries the same signature, whatever else it holds.\<close>

theorem signed_trigger_verifies:
  "(\<forall>sig. sign_trigger mac env_salt event = Inr sig \<longrightarrow>
       verify_trigger mac env_salt (dset event ''signature'' (PStr sig))) \<and>
   (verify_trigger mac env_salt event \<longrightarrow>
      (\<exists>salt. config_get env_salt = Some salt \<and> salt \<notin> set PUBLIC_NATS_SALTS \<and>
         MIN_NATS_SIGNING_SALT_LENGTH \<le> length salt \<and>
         sign_trigger mac env_salt event = Inr (mac salt (signed_fields event)) \<and>
         dget event ''signature'' = PStr (mac salt (signed_fields event))))"
  by (auto simp: sign_trigger_def verify_trigger_def signed_fields_of_signature
      nats_trigger_signing_salt_def split: option.splits if_splits pyval.splits)

lemma scope_entries_join:
  assumes "ps \<noteq> []" "\<forall>p \<in> set ps. CHR '','' \<notin> set p \<and> p \<noteq> [] \<and> strip p = p"
  shows "scope_entries (join [CHR '',''] ps) = ps"
proof -
  have "split_on (CHR '','') (join [CHR '',''] ps) = ps"
    using assms by (intro split_on_join) auto
  moreover have "map strip ps = ps" using assms(2) by (intro map_idI) auto
  moreover have "filter (\<lambda>e. e \<noteq> []) ps = ps" using assms(2) by (simp add: filter_id_conv)
  ultimately show ?thesis by (simp add: scope_entries_def)
qed

lemma strip_fixed_iff:
  "strip s = s \<longleftrightarrow> s = [] \<or> (\<not> py_space (hd s) \<and> \<not> py_space (last s))"
  by (metis strip_def strip_if_hd strip_if_id strip_if_last)

lemma join_ends:
  "ps \<noteq> [] \<Longrightarrow> \<forall>p \<in> set ps. p \<noteq> [] \<Longrightarrow>
   join sep ps \<noteq> [] \<and> hd (join sep ps) = hd (hd ps) \<and> last (join sep ps) = last (last ps)"
  by (induction sep ps rule: join.induct) auto

lemma strip_join:
  assumes "ps \<noteq> []" "\<forall>p \<in> set ps. p \<noteq> [] \<and> strip p = p"
  shows "strip (join sep ps) = join sep ps"
proof -
  from assms have "\<not> py_space (hd (hd ps))" "\<not> py_space (last (last ps))"
    by (auto simp: strip_fixed_iff)
  then show ?thesis using assms join_ends [of ps sep] by (simp add: strip_fixed_iff)
qed

text \<open>A scope saved with a key admits exactly what it lists: for a comma-separated list of
  process identifiers, precisely these (or everything, when an entry is a star).\<close>

theorem scope_admits_exactly_its_list:
  assumes "ps \<noteq> []" "\<forall>p \<in> set ps. CHR '','' \<notin> set p \<and> p \<noteq> [] \<and> strip p = p"
  shows "scope_allows (normalize_scope (Some (join [CHR '',''] ps))) process
           \<longleftrightarrow> ''*'' \<in> set ps \<or> process \<in> set ps"
proof (cases "join [CHR '',''] ps = ''*''")
  case True
  have "split_on (CHR '','') (join [CHR '',''] ps) = ps" using assms by (intro split_on_join) auto
  with True have "ps = [''*'']" by simp
  with True show ?thesis by (simp add: normalize_scope_def scope_allows_def scope_open_def text_defs)
next
  case False
  with assms show ?thesis
    using strip_join [of ps "[CHR '','']"] join_ends [of ps "[CHR '','']"]
    by (auto simp: normalize_scope_def scope_allows_def scope_open_def scope_entries_join Let_def)
qed

end
