(* ===== verification/Event_Audit.thy ===== *)
theory Event_Audit
  imports Py_Value Row_Table "HOL-Library.List_Lexorder" "HOL-Library.Char_ord"
begin

text \<open>
  The audit trail of broker messages (models/nats_event_audit.py and
  services/nats_event_audit_service.py): one row per message and worker, and the two rules the
  service states for itself: an audit write never changes message handling (every exception is
  swallowed, so an operation here is total on the table), and a recorded success is final.
  A unique constraint on (tenant, event, worker) refuses a second row; SQL's \<open>NULL\<close> never
  conflicts.
\<close>

datatype event_outcome =
    Queued | Instantiated | Duplicate | Invalid_payload | Rejected_auth | Rejected_stale
  | Rejected_scope | Tenant_mismatch | User_not_found | Model_not_found | Transient_error

datatype event_worker = Consumer | Notification_worker | Manual

definition PENDING_OUTCOMES :: "event_outcome list" where
  "PENDING_OUTCOMES = [Queued]"

definition FAILURE_OUTCOMES :: "event_outcome list" where
  "FAILURE_OUTCOMES = [Invalid_payload, Rejected_auth, Rejected_stale, Rejected_scope,
     Tenant_mismatch, User_not_found, Model_not_found, Transient_error]"

definition UNATTRIBUTED_TENANT_ID :: string where
  "UNATTRIBUTED_TENANT_ID = ''__unattributed__''"

definition MAX_ERROR_MESSAGE_LENGTH :: nat where
  "MAX_ERROR_MESSAGE_LENGTH = 2000"

record audit_row =
  au_id :: int
  au_tenant_id :: "string option"
  au_event_id :: "string option"
  au_worker :: event_worker
  au_stream_seq :: "int option"
  au_process_identifier :: "string option"
  au_username :: "string option"
  au_outcome :: event_outcome
  au_duplicate_count :: int
  au_error_message :: "string option"
  au_process_instance_id :: "int option"
  au_completed_at :: "int option"
  au_created_at :: int
  au_updated_at :: int

definition is_pending :: "audit_row \<Rightarrow> bool" where
  "is_pending r \<longleftrightarrow> au_outcome r \<in> set PENDING_OUTCOMES"

definition is_failure :: "audit_row \<Rightarrow> bool" where
  "is_failure r \<longleftrightarrow> au_outcome r \<in> set FAILURE_OUTCOMES"

record audit =
  audit_rows :: "audit_row list"
  audit_seq :: int

definition truncate_message :: "string option \<Rightarrow> string option" where
  "truncate_message message =
     (case message of
        None \<Rightarrow> None
      | Some text \<Rightarrow>
          (if length text \<le> MAX_ERROR_MESSAGE_LENGTH then Some text
           else Some (take (MAX_ERROR_MESSAGE_LENGTH - 3) text @ ''...'')))"

definition may_overwrite :: "event_outcome \<Rightarrow> event_outcome \<Rightarrow> bool" where
  "may_overwrite current incoming =
     (if current = incoming then True
      else if current = Instantiated then False
      else incoming \<noteq> Queued)"

definition attributed :: "string option \<Rightarrow> string" where
  "attributed tid = (if truthy_str tid then or_default tid [] else UNATTRIBUTED_TENANT_ID)"

definition same_event :: "string \<Rightarrow> string \<Rightarrow> event_worker \<Rightarrow> audit_row \<Rightarrow> bool" where
  "same_event tid event_id worker r \<longleftrightarrow>
     au_tenant_id r = Some tid \<and> au_event_id r = Some event_id \<and> au_worker r = worker"

text \<open>The newest row of the event; none without an event id.\<close>

definition find_event :: "audit_row list \<Rightarrow> string \<Rightarrow> string option \<Rightarrow> event_worker \<Rightarrow> audit_row option" where
  "find_event rows tid event_id worker =
     (if \<not> truthy_str event_id then None
      else find (same_event tid (or_default event_id []) worker) (rev rows))"

definition new_row :: "int \<Rightarrow> string \<Rightarrow> string option \<Rightarrow> event_worker \<Rightarrow> event_outcome \<Rightarrow> audit_row" where
  "new_row now tid event_id worker outc =
     \<lparr>au_id = 0, au_tenant_id = Some tid, au_event_id = event_id, au_worker = worker,
      au_stream_seq = None, au_process_identifier = None, au_username = None, au_outcome = outc,
      au_duplicate_count = 0, au_error_message = None, au_process_instance_id = None,
      au_completed_at = None, au_created_at = now, au_updated_at = now\<rparr>"

text \<open>An insert draws the next key; \<open>None\<close> is the \<open>IntegrityError\<close> of the constraint.\<close>

definition conflicts :: "audit_row \<Rightarrow> audit_row \<Rightarrow> bool" where
  "conflicts r x \<longleftrightarrow> au_tenant_id r \<noteq> None \<and> au_event_id r \<noteq> None \<and>
     au_tenant_id x = au_tenant_id r \<and> au_event_id x = au_event_id r \<and> au_worker x = au_worker r"

definition insert_row :: "audit_row \<Rightarrow> audit \<Rightarrow> audit option" where
  "insert_row r a =
     (if list_ex (conflicts r) (audit_rows a) then None
      else Some (a\<lparr>audit_rows := audit_rows a @ [r\<lparr>au_id := audit_seq a + 1\<rparr>],
                   audit_seq := audit_seq a + 1\<rparr>))"

definition update_row :: "int \<Rightarrow> (audit_row \<Rightarrow> audit_row) \<Rightarrow> audit \<Rightarrow> audit" where
  "update_row i f a = a\<lparr>audit_rows := update_where (\<lambda>r. au_id r = i) f (audit_rows a)\<rparr>"

definition swallow :: "audit \<Rightarrow> audit option \<Rightarrow> audit" where
  "swallow a r = or_default r a"

subsection \<open>The operations\<close>

definition record_queued ::
  "int \<Rightarrow> string option \<Rightarrow> string \<Rightarrow> event_worker \<Rightarrow> string option \<Rightarrow> string option \<Rightarrow> audit \<Rightarrow> audit" where
  "record_queued now tid event_id worker process user a =
     (let t = attributed tid in
      case find_event (audit_rows a) t (Some event_id) worker of
        Some r \<Rightarrow> a
      | None \<Rightarrow> swallow a (insert_row ((new_row now t (Some event_id) worker Queued)
                   \<lparr>au_process_identifier := process, au_username := user\<rparr>) a))"

record outcome_write =
  ow_tenant_id :: "string option"
  ow_event_id :: "string option"
  ow_outcome :: event_outcome
  ow_worker :: event_worker
  ow_error_message :: "string option"
  ow_process_instance_id :: "int option"
  ow_stream_seq :: "int option"
  ow_process_identifier :: "string option"
  ow_username :: "string option"
  ow_completed_at :: "int option"
  ow_insert_only :: bool

definition fill_row :: "int \<Rightarrow> outcome_write \<Rightarrow> audit_row \<Rightarrow> audit_row" where
  "fill_row now x r =
     r\<lparr>au_outcome := ow_outcome x,
       au_error_message := truncate_message (ow_error_message x),
       au_process_instance_id := or_else (ow_process_instance_id x) (au_process_instance_id r),
       au_stream_seq := or_else (ow_stream_seq x) (au_stream_seq r),
       au_process_identifier := or_else (ow_process_identifier x) (au_process_identifier r),
       au_username := or_else (ow_username x) (au_username r),
       au_completed_at := Some (case ow_completed_at x of
          None \<Rightarrow> now | Some c \<Rightarrow> if c = 0 then now else c),
       au_updated_at := now\<rparr>"

definition apply_outcome :: "int \<Rightarrow> outcome_write \<Rightarrow> audit \<Rightarrow> audit option" where
  "apply_outcome now x a =
     (let t = attributed (ow_tenant_id x) in
      case (if ow_insert_only x then None
            else find_event (audit_rows a) t (ow_event_id x) (ow_worker x)) of
        None \<Rightarrow> insert_row (fill_row now x
                  (new_row now t (ow_event_id x) (ow_worker x) (ow_outcome x))) a
      | Some r \<Rightarrow>
          (if \<not> may_overwrite (au_outcome r) (ow_outcome x) then Some a
           else Some (update_row (au_id r) (fill_row now x) a)))"

text \<open>In its own transaction or in a savepoint of the caller's: a refused write leaves the
  table as it was, in either case.\<close>

definition record_outcome :: "int \<Rightarrow> outcome_write \<Rightarrow> audit \<Rightarrow> audit" where
  "record_outcome now x a = swallow a (apply_outcome now x a)"

definition record_duplicate ::
  "int \<Rightarrow> string option \<Rightarrow> string option \<Rightarrow> event_worker \<Rightarrow> int option \<Rightarrow> string option \<Rightarrow>
   string option \<Rightarrow> audit \<Rightarrow> audit" where
  "record_duplicate now tid event_id worker stream_seq process user a =
     (let t = attributed tid in
      case find_event (audit_rows a) t event_id worker of
        None \<Rightarrow> swallow a (insert_row ((new_row now t event_id worker Duplicate)
                  \<lparr>au_duplicate_count := 1, au_stream_seq := stream_seq,
                   au_process_identifier := process, au_username := user,
                   au_completed_at := Some now\<rparr>) a)
      | Some r \<Rightarrow> update_row (au_id r)
                   (\<lambda>x. x\<lparr>au_duplicate_count := au_duplicate_count x + 1, au_updated_at := now\<rparr>) a)"

subsection \<open>Retention\<close>

text \<open>\<open>visible\<close>: the rows a session without a tenant can read (all of them without row-level
  security). One DELETE per tenant, in sorted order.\<close>

definition expired_row :: "int \<Rightarrow> audit_row \<Rightarrow> bool" where
  "expired_row cutoff r = (case au_completed_at r of None \<Rightarrow> False | Some c \<Rightarrow> c < cutoff)"

definition owned_by :: "string \<Rightarrow> audit_row \<Rightarrow> bool" where
  "owned_by tid r \<longleftrightarrow>
     au_tenant_id r = Some tid \<or> (tid = UNATTRIBUTED_TENANT_ID \<and> au_tenant_id r = None)"

definition prune_tenant :: "int \<Rightarrow> string \<Rightarrow> nat \<times> audit \<Rightarrow> nat \<times> audit" where
  "prune_tenant cutoff tid = (\<lambda>(deleted, a).
     (let gone = filter (\<lambda>r. owned_by tid r \<and> expired_row cutoff r) (audit_rows a)
      in (deleted + length gone,
          a\<lparr>audit_rows := filter (\<lambda>r. \<not> (owned_by tid r \<and> expired_row cutoff r)) (audit_rows a)\<rparr>)))"

definition prune_tenant_ids :: "string list \<Rightarrow> (audit_row \<Rightarrow> bool) \<Rightarrow> audit \<Rightarrow> string list" where
  "prune_tenant_ids known visible a =
     sort (dedup_into [] (known @ List.map_filter au_tenant_id (filter visible (audit_rows a)) @
                          [UNATTRIBUTED_TENANT_ID]))"

definition prune :: "int \<Rightarrow> string list \<Rightarrow> (audit_row \<Rightarrow> bool) \<Rightarrow> int \<Rightarrow> audit \<Rightarrow> nat \<times> audit" where
  "prune now known visible retention_days a =
     (if retention_days \<le> 0 then (0, a)
      else fold (prune_tenant (now - retention_days * 24 * 60 * 60))
             (prune_tenant_ids known visible a) (0, a))"

lemmas audit_defs [py_eval] = PENDING_OUTCOMES_def FAILURE_OUTCOMES_def UNATTRIBUTED_TENANT_ID_def
  MAX_ERROR_MESSAGE_LENGTH_def truncate_message_def may_overwrite_def attributed_def
  same_event_def find_event_def new_row_def conflicts_def insert_row_def update_row_def swallow_def
  record_queued_def fill_row_def apply_outcome_def record_outcome_def record_duplicate_def
  expired_row_def owned_by_def prune_tenant_def prune_tenant_ids_def prune_def

text \<open>
  What the audit trail promises: keys and events stay unique, a recorded success is final,
  nothing returns to \<open>queued\<close>, an unverified write touches no existing row, and retention
  removes exactly the old terminal rows.
\<close>

datatype audit_op =
    RecordQueued int "string option" string event_worker "string option" "string option"
  | RecordOutcome int outcome_write
  | RecordDuplicate int "string option" "string option" event_worker "int option"
      "string option" "string option"

primrec run_audit_op :: "audit_op \<Rightarrow> audit \<Rightarrow> audit" where
  "run_audit_op (RecordQueued now t e w p u) a = record_queued now t e w p u a"
| "run_audit_op (RecordOutcome now x) a = record_outcome now x a"
| "run_audit_op (RecordDuplicate now t e w q p u) a = record_duplicate now t e w q p u a"

definition audit_ok :: "audit \<Rightarrow> bool" where
  "audit_ok a \<longleftrightarrow> distinct (map au_id (audit_rows a)) \<and> (\<forall>r \<in> set (audit_rows a). au_id r \<le> audit_seq a)"

text \<open>What may become of a row: its identity stays, a success stays, \<open>queued\<close> never comes back,
  and suppressed deliveries are only counted up.\<close>

definition row_kept :: "audit_row \<Rightarrow> audit_row \<Rightarrow> bool" where
  "row_kept r r' \<longleftrightarrow>
     au_id r' = au_id r \<and> au_tenant_id r' = au_tenant_id r \<and> au_event_id r' = au_event_id r \<and>
     au_worker r' = au_worker r \<and> au_created_at r' = au_created_at r \<and>
     (au_outcome r = Instantiated \<longrightarrow> au_outcome r' = Instantiated) \<and>
     (au_outcome r \<noteq> Queued \<longrightarrow> au_outcome r' \<noteq> Queued) \<and>
     au_duplicate_count r \<le> au_duplicate_count r'"

definition trail_kept :: "audit \<Rightarrow> audit \<Rightarrow> bool" where
  "trail_kept a b \<longleftrightarrow> (audit_ok a \<longrightarrow> audit_ok b \<and>
     (\<forall>r \<in> set (audit_rows a). \<exists>r' \<in> set (audit_rows b). row_kept r r'))"

lemma row_kept_refl [simp]: "row_kept r r"
  by (simp add: row_kept_def)

lemma row_kept_trans: "row_kept r s \<Longrightarrow> row_kept s t \<Longrightarrow> row_kept r t"
  by (auto simp: row_kept_def)

lemma trail_kept_refl: "trail_kept a a"
  by (auto simp: trail_kept_def intro: row_kept_refl)

lemma trail_kept_trans: "trail_kept a b \<Longrightarrow> trail_kept b c \<Longrightarrow> trail_kept a c"
  unfolding trail_kept_def by (meson row_kept_trans)

lemma trail_kept_insert:
  assumes "insert_row r a = Some b"
  shows "trail_kept a b"
proof -
  from assms have b: "b = a\<lparr>audit_rows := audit_rows a @ [r\<lparr>au_id := audit_seq a + 1\<rparr>],
                           audit_seq := audit_seq a + 1\<rparr>"
    by (simp add: insert_row_def split: if_splits)
  have "audit_ok a \<Longrightarrow> audit_ok b"
    by (force simp: audit_ok_def b)
  then show ?thesis by (auto simp: trail_kept_def b intro: row_kept_refl)
qed

lemma trail_kept_swallow:
  "(\<And>b. x = Some b \<Longrightarrow> trail_kept a b) \<Longrightarrow> trail_kept a (swallow a x)"
  by (cases x) (auto simp: swallow_def trail_kept_refl)

lemma trail_kept_update:
  assumes found: "r \<in> set (audit_rows a)"
    and key: "\<And>x. au_id (f x) = au_id x"
    and kept: "row_kept r (f r)"
  shows "trail_kept a (update_row (au_id r) f a)"
proof -
  have ok: "audit_ok a \<Longrightarrow> audit_ok (update_row (au_id r) f a)"
    by (simp add: audit_ok_def update_row_def map_key_update_where key
        update_where_keys_all [where key = au_id and Q = "\<lambda>i. i \<le> audit_seq a", OF key])
  have "\<exists>x' \<in> set (audit_rows (update_row (au_id r) f a)). row_kept x x'"
    if "audit_ok a" "x \<in> set (audit_rows a)" for x
  proof (cases "au_id x = au_id r")
    case True
    with that found have "x = r"
      by (auto simp: audit_ok_def dest: same_key_same_row [where key = au_id])
    with found kept show ?thesis
      by (auto simp: update_row_def intro!: bexI [of _ "f r"] update_where_hit)
  next
    case False
    with that show ?thesis
      by (auto simp: update_row_def intro!: bexI [of _ x] update_where_miss)
  qed
  with ok show ?thesis by (auto simp: trail_kept_def)
qed

lemma find_event_in: "find_event rows t e w = Some r \<Longrightarrow> r \<in> set rows"
  by (auto simp: find_event_def dest!: find_Some_iff_props split: if_splits)

lemma fill_row_kept:
  "may_overwrite (au_outcome r) (ow_outcome x) \<Longrightarrow> row_kept r (fill_row now x r)"
  by (auto simp: row_kept_def fill_row_def may_overwrite_def split: if_splits)

lemma fill_row_id [simp]: "au_id (fill_row now x r) = au_id r"
  by (simp add: fill_row_def)

lemma record_queued_kept: "trail_kept a (record_queued now t e w p u a)"
  by (simp add: record_queued_def Let_def trail_kept_refl trail_kept_swallow trail_kept_insert
      split: option.split)

lemma apply_outcome_kept:
  assumes "apply_outcome now x a = Some b"
  shows "trail_kept a b"
proof (cases "if ow_insert_only x then None
              else find_event (audit_rows a) (attributed (ow_tenant_id x)) (ow_event_id x) (ow_worker x)")
  case None
  with assms show ?thesis by (simp add: apply_outcome_def Let_def trail_kept_insert)
next
  case (Some r)
  then have "r \<in> set (audit_rows a)" by (auto dest: find_event_in split: if_splits)
  with assms Some show ?thesis
    by (cases "may_overwrite (au_outcome r) (ow_outcome x)")
      (auto simp: apply_outcome_def Let_def trail_kept_refl intro: trail_kept_update fill_row_kept)
qed

lemma record_outcome_kept: "trail_kept a (record_outcome now x a)"
  by (simp add: record_outcome_def trail_kept_swallow apply_outcome_kept)

lemma record_duplicate_kept: "trail_kept a (record_duplicate now t e w q p u a)"
proof (cases "find_event (audit_rows a) (attributed t) e w")
  case None
  then show ?thesis
    by (simp add: record_duplicate_def Let_def trail_kept_swallow trail_kept_insert)
next
  case (Some r)
  then have "r \<in> set (audit_rows a)" by (rule find_event_in)
  moreover have "row_kept r (r\<lparr>au_duplicate_count := au_duplicate_count r + 1, au_updated_at := now\<rparr>)"
    by (simp add: row_kept_def)
  ultimately show ?thesis
    using Some by (simp add: record_duplicate_def Let_def trail_kept_update)
qed

lemma run_audit_op_kept: "trail_kept a (run_audit_op opn a)"
  by (cases opn) (simp_all add: record_queued_kept record_outcome_kept record_duplicate_kept)

interpretation trail: row_lifecycle run_audit_op trail_kept
  by unfold_locales (auto intro: trail_kept_refl trail_kept_trans run_audit_op_kept)

text \<open>Whatever sequence of audit writes follows, every row is still there under its key,
  tenant, event and worker; an outcome \<open>instantiated\<close> is never overwritten, and no row returns
  to \<open>queued\<close>.\<close>

theorem audit_history_is_kept:
  assumes "audit_ok a" "r \<in> set (audit_rows a)"
  shows "\<exists>r' \<in> set (audit_rows (fold run_audit_op ops a)). row_kept r r'"
  using trail.run_allowed [of a ops] assms unfolding trail_kept_def by blast


text \<open>A write on behalf of an unverified sender (\<open>insert_only\<close>) changes no existing row: the
  table is the old one, or the old one with one new row.\<close>

theorem insert_only_touches_no_row:
  assumes "ow_insert_only x"
  shows "audit_rows (record_outcome now x a) = audit_rows a \<or>
         (\<exists>r. audit_rows (record_outcome now x a) = audit_rows a @ [r] \<and>
              au_tenant_id r = Some (attributed (ow_tenant_id x)) \<and> au_event_id r = ow_event_id x)"
  using assms
  by (auto simp: record_outcome_def apply_outcome_def swallow_def insert_row_def Let_def
      fill_row_def new_row_def)

subsection \<open>Retention\<close>

lemma prune_tenant_rows:
  "audit_rows (snd (prune_tenant cutoff tid (n, a)))
     = filter (\<lambda>r. \<not> (owned_by tid r \<and> expired_row cutoff r)) (audit_rows a)"
  by (simp add: prune_tenant_def Let_def)

lemma prune_tenant_count:
  "fst (prune_tenant cutoff tid (n, a)) + length (audit_rows (snd (prune_tenant cutoff tid (n, a))))
     = n + length (audit_rows a)"
  using sum_length_filter_compl [of "\<lambda>r. owned_by tid r \<and> expired_row cutoff r" "audit_rows a"]
  by (simp add: prune_tenant_def Let_def)

lemma prune_fold_rows:
  "audit_rows (snd (fold (prune_tenant cutoff) tids (n, a)))
     = filter (\<lambda>r. \<not> ((\<exists>tid \<in> set tids. owned_by tid r) \<and> expired_row cutoff r)) (audit_rows a)"
proof (induction tids arbitrary: n a)
  case (Cons tid tids)
  obtain n' a' where p: "prune_tenant cutoff tid (n, a) = (n', a')" by fastforce
  then have "audit_rows a' = filter (\<lambda>r. \<not> (owned_by tid r \<and> expired_row cutoff r)) (audit_rows a)"
    using prune_tenant_rows [of cutoff tid n a] by simp
  then show ?case by (simp add: p Cons.IH) (rule filter_cong; auto)
qed simp

lemma prune_fold_count:
  "fst (fold (prune_tenant cutoff) tids (n, a))
     + length (audit_rows (snd (fold (prune_tenant cutoff) tids (n, a)))) = n + length (audit_rows a)"
proof (induction tids arbitrary: n a)
  case (Cons tid tids)
  obtain n' a' where p: "prune_tenant cutoff tid (n, a) = (n', a')" by fastforce
  then show ?case using Cons.IH [of n' a'] prune_tenant_count [of cutoff tid n a] by simp
qed simp

lemma owned_by_pruned:
  assumes "visible r \<or> au_tenant_id r = None \<or> (\<exists>t \<in> set known. au_tenant_id r = Some t)"
    and "r \<in> set (audit_rows a)"
  shows "\<exists>tid \<in> set (prune_tenant_ids known visible a). owned_by tid r"
  using assms
  by (cases "au_tenant_id r")
    (auto simp: prune_tenant_ids_def owned_by_def List.map_filter_def image_iff)

text \<open>The per-tenant loop of the retention job amounts to one deletion: with a positive
  window it removes exactly the terminal rows older than the window (of every tenant that is
  known, or whose rows the job can see), keeps the others in order, and reports how many it
  removed.\<close>

theorem prune_is_one_deletion:
  assumes "retention_days > 0"
    and "\<forall>r \<in> set (audit_rows a). visible r \<or> au_tenant_id r = None \<or>
           (\<exists>t \<in> set known. au_tenant_id r = Some t)"
  shows "audit_rows (snd (prune now known visible retention_days a))
           = filter (\<lambda>r. \<not> expired_row (now - retention_days * 86400) r) (audit_rows a) \<and>
         fst (prune now known visible retention_days a)
           = length (filter (expired_row (now - retention_days * 86400)) (audit_rows a))"
proof -
  let ?c = "now - retention_days * 86400"
  let ?ids = "prune_tenant_ids known visible a"
  have p: "prune now known visible retention_days a = fold (prune_tenant ?c) ?ids (0, a)"
    using assms(1) by (simp add: prune_def mult.commute)
  have rows: "audit_rows (snd (prune now known visible retention_days a))
      = filter (\<lambda>r. \<not> expired_row ?c r) (audit_rows a)"
    unfolding p prune_fold_rows
    by (rule filter_cong) (use assms(2) owned_by_pruned in \<open>auto\<close>)
  have "fst (prune now known visible retention_days a)
      + length (filter (\<lambda>r. \<not> expired_row ?c r) (audit_rows a)) = length (audit_rows a)"
    using prune_fold_count [of ?c ?ids 0 a] by (simp add: p [symmetric] rows)
  with rows sum_length_filter_compl [of "expired_row ?c" "audit_rows a"] show ?thesis by simp
qed

end
