(* ===== verification/Claims.thy ===== *)
theory Claims
  imports Py_Value "HOL-Library.List_Lexorder" "HOL-Library.Char_ord"
begin

text \<open>The role vocabulary of a tenant (integrations/auth/base/roles.py).\<close>

definition SUPER_ADMIN_ROLE :: string where
  "SUPER_ADMIN_ROLE = ''super-admin''"

definition VALID_TENANT_ROLE_NAMES :: "string list" where
  "VALID_TENANT_ROLE_NAMES = [''tenant-admin'', ''editor'', ''integrator'', ''reviewer'', ''submitter'', ''viewer'']"

definition normalize_tenant_role_name :: "pyval \<Rightarrow> string" where
  "normalize_tenant_role_name role_name =
     (let normalized = strip (if truthy role_name then py_str role_name else []) in
      if normalized \<in> set VALID_TENANT_ROLE_NAMES then normalized else [])"

definition normalize_tenant_role_names :: "pyval list \<Rightarrow> string list" where
  "normalize_tenant_role_names role_names =
     sort (dedup_into [] (filter (\<lambda>n. n \<noteq> []) (map normalize_tenant_role_name role_names)))"

text \<open>
  Realm names read from an issuer URL or a user's \<open>service\<close> column (auth/claims.py and
  integrations/auth/keycloak/claims.py), with the two string operations they need:
  \<open>split\<close> and \<open>replace\<close> on a separator of several characters.
\<close>

text \<open>The first occurrence of \<open>sep\<close>: what precedes it and what follows.\<close>

fun cut_at :: "string \<Rightarrow> string \<Rightarrow> (string \<times> string) option" where
  "cut_at sep [] = (if sep = [] then Some ([], []) else None)"
| "cut_at sep (c # cs) =
     (if startswith (c # cs) sep then Some ([], drop (length sep) (c # cs))
      else map_option (\<lambda>(a, b). (c # a, b)) (cut_at sep cs))"

lemma cut_at_Some: "cut_at sep s = Some (a, b) \<Longrightarrow> s = a @ sep @ b"
proof (induction sep s arbitrary: a rule: cut_at.induct)
  case (2 sep c cs)
  then show ?case
    by (cases "startswith (c # cs) sep") (auto simp: startswith_iff)
qed (auto split: if_splits)

lemma cut_at_None_iff: "cut_at sep s = None \<longleftrightarrow> \<not> substr_in sep s"
  by (induction sep s rule: cut_at.induct) auto

lemma cut_at_shorter: "sep \<noteq> [] \<Longrightarrow> cut_at sep s = Some (a, b) \<Longrightarrow> length b < length s"
  by (auto dest: cut_at_Some)

text \<open>\<open>s.split(sep)[-1]\<close> and \<open>s.replace(sep, r)\<close>, from left to right.\<close>

function last_part :: "string \<Rightarrow> string \<Rightarrow> string" where
  "last_part sep s =
     (if sep = [] then s
      else case cut_at sep s of None \<Rightarrow> s | Some (a, b) \<Rightarrow> last_part sep b)"
  by pat_completeness auto
termination by (relation "measure (\<lambda>(sep, s). length s)") (auto dest: cut_at_shorter)

function replace_text :: "string \<Rightarrow> string \<Rightarrow> string \<Rightarrow> string" where
  "replace_text sep r s =
     (if sep = [] then s
      else case cut_at sep s of None \<Rightarrow> s | Some (a, b) \<Rightarrow> a @ r @ replace_text sep r b)"
  by pat_completeness auto
termination by (relation "measure (\<lambda>(sep, r, s). length s)") (auto dest: cut_at_shorter)

declare last_part.simps [simp del] replace_text.simps [simp del]

lemma last_part_after: "sep \<noteq> [] \<Longrightarrow> \<not> substr_in sep b \<Longrightarrow> cut_at sep s = Some (a, b) \<Longrightarrow> last_part sep s = b"
  by (simp add: last_part.simps [of sep s] last_part.simps [of sep b] cut_at_None_iff [symmetric])

definition extract_realm_from_issuer :: "string option \<Rightarrow> string option" where
  "extract_realm_from_issuer iss =
     (case iss of
        None \<Rightarrow> None
      | Some s \<Rightarrow>
          (if substr_in ''/realms/'' s
           then Some (hd (split_on (CHR ''/'') (last_part ''/realms/'' s))) else None))"

definition last_chars :: "nat \<Rightarrow> string \<Rightarrow> string" where
  "last_chars n s = drop (length s - n) s"

definition realm_from_service :: "string option \<Rightarrow> string" where
  "realm_from_service service =
     (let realm = extract_realm_from_issuer service
      in if truthy_str realm then or_default realm []
         else if \<not> truthy_str service then ''unknown''
         else let normalized = rstrip_if (\<lambda>c. c = CHR ''/'') (or_default service []);
                  text = last_chars 32 (replace_char (CHR ''/'') ''_''
                           (replace_text (CHR 0x3A # ''//'') ''_'' normalized))
              in if text = [] then ''unknown'' else text)"

lemmas claims_defs [py_eval] = extract_realm_from_issuer_def last_chars_def realm_from_service_def

lemma realm_from_service_nonempty: "realm_from_service service \<noteq> []"
  by (auto simp: realm_from_service_def Let_def truthy_str_def split: option.splits)

end
