(* ===== verification/Trigger_Consumer.thy ===== *)
theory Trigger_Consumer
  imports Api_Keys Event_Audit Claims World
begin

text \<open>
  The trigger consumer (m8flow-nats-consumer/trigger_event_consumer.py): one broker message
  vetted, deduplicated, turned into a process instance and recorded. The dedup bucket, the
  JSON parser, the user lookup, the model catalog and \<open>workflow.start\<close> are arguments; the
  state is the key table, the audit table, the bucket and the host the instances live in.
  Starting commits in the engine's own session (the contract of \<open>workflow.start\<close>), so the host
  state a start leaves is kept whatever happens after it.
\<close>

subsection \<open>The initiator\<close>

record tenant_user =
  tu_id :: int
  tu_username :: string
  tu_service :: "string option"
  tu_service_id :: string
  tu_updated_at :: "int option"

definition DATETIME_MIN :: int where "DATETIME_MIN = - 62135596800"

definition more_recent :: "tenant_user \<Rightarrow> tenant_user \<Rightarrow> bool" where
  "more_recent a b =
     (let ta = or_default (tu_updated_at a) DATETIME_MIN; tb = or_default (tu_updated_at b) DATETIME_MIN
      in tb < ta \<or> (tb = ta \<and> tu_id b < tu_id a))"

definition latest :: "tenant_user \<Rightarrow> tenant_user list \<Rightarrow> tenant_user" where
  "latest u us = fold (\<lambda>x best. if more_recent x best then x else best) us u"

definition person_of :: "tenant_user \<Rightarrow> string \<times> string" where
  "person_of u = (realm_from_service (tu_service u), tu_service_id u)"

text \<open>\<open>Inl\<close> is the ambiguity error, \<open>Inr None\<close> no match. The candidates are the users the
  identity module finds for this name in this tenant.\<close>

definition resolve_tenant_initiator ::
  "string \<Rightarrow> string \<Rightarrow> tenant_user list \<Rightarrow> string \<Rightarrow> string + tenant_user option" where
  "resolve_tenant_initiator backend_issuer login_issuer tenant_matches user_name =
     (let exact = filter (\<lambda>u. tu_username u = user_name) tenant_matches in
      case exact of
        [] \<Rightarrow> Inr None
      | [u] \<Rightarrow> Inr (Some u)
      | first # _ \<Rightarrow>
          (let issuer = strip backend_issuer;
               real = filter (\<lambda>u. strip (or_default (tu_service u) []) \<noteq> issuer) exact in
           case real of
             [] \<Rightarrow> Inr (Some first)
           | [u] \<Rightarrow> Inr (Some u)
           | u # us \<Rightarrow>
               (if length (dedup_into [] (map person_of real)) = 1
                then Inr (Some (or_default (find (\<lambda>u. tu_service u = Some login_issuer) real)
                                  (latest u us)))
                else Inl (''Username '' @ [CHR 0x27] @ user_name @ [CHR 0x27] @ '' matches '' @
                          nat_str (length real) @ '' different users; the initiator is ambiguous.''))))"

subsection \<open>Subjects and deduplication\<close>

definition extract_tenant_from_subject :: "string \<Rightarrow> string option" where
  "extract_tenant_from_subject subject =
     (case split_on (CHR ''.'') subject of
        [a, b, slug, d] \<Rightarrow>
          (if a = ''m8flow'' \<and> b = ''events'' \<and> d = ''trigger'' then
             (if slug = [] then None else Some slug) else None)
      | _ \<Rightarrow> None)"

datatype kv_result = Kv_created | Kv_exists | Kv_error

type_synonym 'k kv_create = "string \<Rightarrow> 'k \<Rightarrow> kv_result \<times> 'k"

definition dedup_key_of :: "pyval \<Rightarrow> pyval \<Rightarrow> string" where
  "dedup_key_of tid event_id = py_str tid @ ''-'' @ py_str event_id"

text \<open>\<open>None\<close> for a confirmed duplicate; without a bucket, or when it errs, the event passes.\<close>

definition check_idempotency ::
  "'k kv_create option \<Rightarrow> pyval \<Rightarrow> pyval \<Rightarrow> 'k \<Rightarrow> string option \<times> 'k" where
  "check_idempotency kv tid event_id st =
     (let key = dedup_key_of tid event_id in
      case kv of
        None \<Rightarrow> (Some key, st)
      | Some create \<Rightarrow>
          (case create key st of
             (Kv_exists, st') \<Rightarrow> (None, st')
           | (_, st') \<Rightarrow> (Some key, st')))"

subsection \<open>State and surroundings\<close>

record ('k, 'h) consumer =
  cs_keys :: key_db
  cs_audit :: audit
  cs_kv :: 'k
  cs_host :: 'h

record ('k, 'h) consumer_env =
  ce_now :: int
  ce_stamp_ok :: bool
  ce_salt :: "string option"
  ce_max_age :: int
  ce_mac :: mac
  ce_parse :: "string \<Rightarrow> pyval option"
  ce_kv_create :: "'k kv_create option"
  ce_kv_delete :: "string \<Rightarrow> 'k \<Rightarrow> 'k"
  ce_tenants :: "tenant_row list"
  ce_candidates :: "string \<Rightarrow> string \<Rightarrow> tenant_user list"
  ce_backend_issuer :: string
  ce_login_issuer :: string
  ce_model_exists :: "string \<Rightarrow> pyval \<Rightarrow> string + bool"
  ce_start :: "string \<Rightarrow> int \<Rightarrow> pyval \<Rightarrow> (string \<times> pyval) list \<Rightarrow> 'h \<Rightarrow> (string + int) \<times> 'h"
  ce_commit_ok :: bool
  ce_ack_ok :: bool

record message =
  ms_subject :: string
  ms_data :: string
  ms_stream_seq :: "int option"

definition tenant_id_from_subject :: "tenant_row list \<Rightarrow> string \<Rightarrow> string option" where
  "tenant_id_from_subject ts subject =
     (case extract_tenant_from_subject subject of
        None \<Rightarrow> None
      | Some slug \<Rightarrow>
          (case filter (\<lambda>t. tenant_slug t = slug) ts of
             [t] \<Rightarrow> Some (tenant_id t)
           | _ \<Rightarrow> None))"

subsection \<open>Vetting\<close>

record failure =
  fl_outcome :: event_outcome
  fl_message :: string
  fl_tenant :: "string option"          \<comment> \<open>the verified tenant, once the sender is\<close>
  fl_process :: "string option"
  fl_username :: "string option"

record vetted =
  vt_tenant :: string
  vt_process :: pyval
  vt_key :: authenticated_key

text \<open>A JSON value bound to a text column.\<close>

definition column_text :: "pyval \<Rightarrow> string option" where
  "column_text v = (case v of PNone \<Rightarrow> None | _ \<Rightarrow> Some (py_str v))"

definition refuse :: "event_outcome \<Rightarrow> string \<Rightarrow> pyval \<Rightarrow> failure" where
  "refuse outc msg process =
     \<lparr>fl_outcome = outc, fl_message = msg, fl_tenant = None, fl_process = column_text process,
      fl_username = None\<rparr>"

text \<open>
  The scope check on whatever JSON value the message names: an open scope admits anything; a
  list of names admits its members, no other hashable value, and raises on an unhashable one
  (\<open>None\<close>).
\<close>

fun unhashable :: "pyval \<Rightarrow> bool" where
  "unhashable (PDict _) = True"
| "unhashable (PList _) = True"
| "unhashable _ = False"

definition scope_verdict :: "string option \<Rightarrow> pyval \<Rightarrow> bool option" where
  "scope_verdict scope process =
     (case process of
        PStr p \<Rightarrow> Some (scope_allows scope p)
      | _ \<Rightarrow>
          (if scope_open scope then Some True
           else if unhashable process then None else Some False))"

text \<open>Everything \<open>process_message\<close> checks before the dedup guard, in its order.\<close>

definition vet_event ::
  "('k, 'h) consumer_env \<Rightarrow> string \<Rightarrow> (string \<times> pyval) list \<Rightarrow> key_db \<Rightarrow> (failure + vetted) \<times> key_db" where
  "vet_event env subject event ks =
     (let tid = dget event ''tenant_id''; slug = dget event ''tenant_slug'';
          process = dget event ''process_identifier''; key_id = dget event ''api_key_id'' in
      case extract_tenant_from_subject subject of
        None \<Rightarrow> (Inl (refuse Invalid_payload
                  (''Event subject has unexpected format - cannot determine tenant: '' @ subject) PNone), ks)
      | Some subject_slug \<Rightarrow>
          (if \<not> truthy tid
           then (Inl (refuse Invalid_payload (''Event payload missing '' @ [CHR 0x27] @ ''tenant_id'' @ [CHR 0x27] @ '' (UUID).'') PNone), ks)
           else if truthy slug \<and> slug \<noteq> PStr subject_slug
           then (Inl (refuse Tenant_mismatch (''Tenant slug mismatch: subject slug '' @ [CHR 0x27] @ subject_slug @
                        [CHR 0x27] @ '' != payload slug '' @ [CHR 0x27] @ py_str slug @ [CHR 0x27]) PNone), ks)
           else if \<not> truthy process
           then (Inl (refuse Invalid_payload
                       ''Message missing required field process_identifier.'' process), ks)
           else if \<not> truthy key_id \<or> \<not> verify_trigger (ce_mac env) (ce_salt env) event
           then (Inl (refuse Rejected_auth (''Rejecting event: unsigned or altered trigger for tenant '' @
                        py_str tid @ ''; triggers must go through POST /v1.0/m8flow/events/m8flow-trigger'') process), ks)
           else if \<not> trigger_is_fresh (ce_now env) (ce_max_age env) event
           then (Inl (refuse Rejected_stale (''Rejecting event: issued_at '' @
                        py_str (dget event ''issued_at'') @ '' is outside the '' @ int_str (ce_max_age env) @
                        ''s window; refusing a possible replay'') process), ks)
           else case resolve_key_id (ce_now env) (ce_stamp_ok env) ks key_id of
             (None, ks') \<Rightarrow>
               (Inl (refuse Rejected_auth (''Rejecting event: api key '' @ py_str key_id @
                        '' is unknown, revoked or expired'') process), ks')
           | (Some auth, ks') \<Rightarrow>
               (if PStr (auth_tenant_id auth) \<noteq> tid
                then (Inl (refuse Tenant_mismatch (''Rejecting event: api_key tenant '' @
                        auth_tenant_id auth @ '' does not match event tenant '' @ py_str tid) process), ks')
                else case scope_verdict (auth_scope auth) process of
                 Some True \<Rightarrow>
                   (Inr \<lparr>vt_tenant = auth_tenant_id auth, vt_process = process, vt_key = auth\<rparr>, ks')
               | Some False \<Rightarrow>
                   (Inl \<lparr>fl_outcome = Rejected_scope,
                         fl_message = ''Rejecting event: api_key not scoped for process '' @ py_str process,
                         fl_tenant = Some (auth_tenant_id auth), fl_process = column_text process,
                         fl_username = Some (auth_created_by auth)\<rparr>, ks')
               | None \<Rightarrow>
                   (Inl \<lparr>fl_outcome = Transient_error, fl_message = ''unhashable type'',
                         fl_tenant = Some (auth_tenant_id auth), fl_process = column_text process,
                         fl_username = Some (auth_created_by auth)\<rparr>, ks'))))"

subsection \<open>Starting the process\<close>

datatype start_error = InitiatorNotFound string | ProcessModelNotFound string | StartFailed string

definition instantiate_process ::
  "('k, 'h) consumer_env \<Rightarrow> string \<Rightarrow> pyval \<Rightarrow> string \<Rightarrow> pyval \<Rightarrow> string option \<Rightarrow> int option \<Rightarrow>
   audit \<times> 'h \<Rightarrow> (start_error + int) \<times> audit \<times> 'h" where
  "instantiate_process env tid process user payload event_id stream_seq st =
     (case st of (a, h) \<Rightarrow>
      (case resolve_tenant_initiator (ce_backend_issuer env) (ce_login_issuer env)
              (ce_candidates env user tid) user of
         Inl e \<Rightarrow> (Inl (InitiatorNotFound e), a, h)
       | Inr None \<Rightarrow>
           (Inl (InitiatorNotFound (''User '' @ [CHR 0x27] @ user @ [CHR 0x27] @ '' not found in the database for tenant '' @ [CHR 0x27] @ tid @ [CHR 0x27] @ ''.'')), a, h)
       | Inr (Some u) \<Rightarrow>
           (case ce_model_exists env tid process of
              Inl e \<Rightarrow> (Inl (StartFailed e), a, h)
            | Inr False \<Rightarrow>
                (Inl (ProcessModelNotFound (''Process model '' @ [CHR 0x27] @ py_str process @ [CHR 0x27] @
                        '' not found: process_model_not_found'')), a, h)
            | Inr True \<Rightarrow>
                (let metadata = dset (dict_items payload) ''_nats_initiator_username'' (PStr user) in
                 case ce_start env tid (tu_id u) process metadata h of
                   (Inl e, h') \<Rightarrow> (Inl (StartFailed e), a, h')
                 | (Inr pid, h') \<Rightarrow>
                     (let a' = record_outcome (ce_now env)
                            \<lparr>ow_tenant_id = Some tid, ow_event_id = event_id, ow_outcome = Instantiated,
                             ow_worker = Consumer, ow_error_message = None,
                             ow_process_instance_id = Some pid, ow_stream_seq = stream_seq,
                             ow_process_identifier = column_text process, ow_username = Some user,
                             ow_completed_at = None, ow_insert_only = False\<rparr> a
                      in if ce_commit_ok env then (Inr pid, a', h')
                         else (Inl (StartFailed ''commit failed''), a, h'))))))"

definition start_failure :: "start_error \<Rightarrow> event_outcome \<times> string" where
  "start_failure e =
     (case e of InitiatorNotFound m \<Rightarrow> (User_not_found, m)
              | ProcessModelNotFound m \<Rightarrow> (Model_not_found, m)
              | StartFailed m \<Rightarrow> (Transient_error, m))"

subsection \<open>One message\<close>

datatype reply = ReplyInstance int | ReplyError string

record handled =
  hd_acked :: bool
  hd_started :: "int option"
  hd_reply :: "reply option"

text \<open>The exception handler: the audit row, the release of the dedup key, the reply, the ack.
  An unverified sender's row is insert-only, under the tenant its subject names.\<close>

definition on_failure ::
  "('k, 'h) consumer_env \<Rightarrow> message \<Rightarrow> (string \<times> pyval) list \<Rightarrow> string option \<Rightarrow> failure \<Rightarrow> int option \<Rightarrow>
   ('k, 'h) consumer \<Rightarrow> handled \<times> ('k, 'h) consumer" where
  "on_failure env msg event dedup_key f started s =
     (let tid = (case fl_tenant f of
                   Some t \<Rightarrow> Some t
                 | None \<Rightarrow> tenant_id_from_subject (ce_tenants env) (ms_subject msg));
          a = record_outcome (ce_now env)
                \<lparr>ow_tenant_id = tid, ow_event_id = column_text (dget event ''id''),
                 ow_outcome = fl_outcome f, ow_worker = Consumer,
                 ow_error_message = Some (fl_message f), ow_process_instance_id = None,
                 ow_stream_seq = ms_stream_seq msg, ow_process_identifier = fl_process f,
                 ow_username = fl_username f, ow_completed_at = None,
                 ow_insert_only = (fl_tenant f = None)\<rparr> (cs_audit s);
          k = (case dedup_key of
                 None \<Rightarrow> cs_kv s
               | Some key \<Rightarrow> if Option.is_none (ce_kv_create env) then cs_kv s
                             else ce_kv_delete env key (cs_kv s))
      in (\<lparr>hd_acked = ce_ack_ok env, hd_started = started,
           hd_reply = (if truthy (dget event ''reply_to'') then Some (ReplyError (fl_message f))
                       else None)\<rparr>,
          s\<lparr>cs_audit := a, cs_kv := k\<rparr>))"

definition verified_failure :: "vetted \<Rightarrow> event_outcome \<Rightarrow> string \<Rightarrow> failure" where
  "verified_failure v outc msg =
     \<lparr>fl_outcome = outc, fl_message = msg, fl_tenant = Some (vt_tenant v),
      fl_process = column_text (vt_process v), fl_username = Some (auth_created_by (vt_key v))\<rparr>"

text \<open>An \<open>ack\<close> that raises inside the \<open>try\<close> reaches the handler, like any other exception.\<close>

definition run_event ::
  "('k, 'h) consumer_env \<Rightarrow> message \<Rightarrow> (string \<times> pyval) list \<Rightarrow> vetted \<Rightarrow> string option \<Rightarrow>
   ('k, 'h) consumer \<Rightarrow> handled \<times> ('k, 'h) consumer" where
  "run_event env msg event v dedup_key s =
     (case instantiate_process env (vt_tenant v) (vt_process v) (auth_created_by (vt_key v))
             (py_or (dget event ''payload'') (PDict [])) (column_text (dget event ''id''))
             (ms_stream_seq msg) (cs_audit s, cs_host s) of
        (Inl e, a, h) \<Rightarrow>
          (case start_failure e of (outc, m) \<Rightarrow>
             on_failure env msg event dedup_key (verified_failure v outc m) None
               (s\<lparr>cs_audit := a, cs_host := h\<rparr>))
      | (Inr pid, a, h) \<Rightarrow>
          (let s' = s\<lparr>cs_audit := a, cs_host := h\<rparr> in
           if ce_ack_ok env
           then (\<lparr>hd_acked = True, hd_started = Some pid,
                  hd_reply = (if truthy (dget event ''reply_to'') then Some (ReplyInstance pid)
                              else None)\<rparr>, s')
           else on_failure env msg event dedup_key
                  (verified_failure v Transient_error ''ack failed'') (Some pid) s'))"

definition process_event ::
  "('k, 'h) consumer_env \<Rightarrow> message \<Rightarrow> (string \<times> pyval) list \<Rightarrow> ('k, 'h) consumer \<Rightarrow>
   handled \<times> ('k, 'h) consumer" where
  "process_event env msg event s =
     (case vet_event env (ms_subject msg) event (cs_keys s) of
        (Inl f, ks) \<Rightarrow> on_failure env msg event None f None (s\<lparr>cs_keys := ks\<rparr>)
      | (Inr v, ks) \<Rightarrow>
          (let s1 = s\<lparr>cs_keys := ks\<rparr>; event_id = dget event ''id'' in
           if \<not> truthy event_id then run_event env msg event v None s1
           else case check_idempotency (ce_kv_create env) (dget event ''tenant_id'') event_id (cs_kv s1) of
             (None, k) \<Rightarrow>
               (let s2 = s1\<lparr>cs_kv := k,
                      cs_audit := record_duplicate (ce_now env) (Some (vt_tenant v))
                        (column_text event_id) Consumer (ms_stream_seq msg)
                        (column_text (vt_process v)) (Some (auth_created_by (vt_key v))) (cs_audit s1)\<rparr>
                in if ce_ack_ok env
                   then (\<lparr>hd_acked = True, hd_started = None, hd_reply = None\<rparr>, s2)
                   else on_failure env msg event None
                          (verified_failure v Transient_error ''ack failed'') None s2)
           | (Some key, k) \<Rightarrow> run_event env msg event v (Some key) (s1\<lparr>cs_kv := k\<rparr>)))"

definition process_trigger ::
  "('k, 'h) consumer_env \<Rightarrow> message \<Rightarrow> ('k, 'h) consumer \<Rightarrow> handled \<times> ('k, 'h) consumer" where
  "process_trigger env msg s =
     (case ce_parse env (ms_data msg) of
        Some (PDict event) \<Rightarrow> process_event env msg event s
      | _ \<Rightarrow>
          (let s' = s\<lparr>cs_audit := record_outcome (ce_now env)
                 \<lparr>ow_tenant_id = tenant_id_from_subject (ce_tenants env) (ms_subject msg),
                  ow_event_id = None, ow_outcome = Invalid_payload, ow_worker = Consumer,
                  ow_error_message = Some ''could not parse message body'',
                  ow_process_instance_id = None, ow_stream_seq = ms_stream_seq msg,
                  ow_process_identifier = None, ow_username = None, ow_completed_at = None,
                  ow_insert_only = False\<rparr> (cs_audit s)\<rparr>
           in if ce_ack_ok env
              then (\<lparr>hd_acked = True, hd_started = None, hd_reply = None\<rparr>, s')
              else on_failure env msg [] None (refuse Transient_error ''ack failed'' PNone) None s'))"

text \<open>\<open>require_trigger_config\<close>: whether the consumer may start at all.\<close>

definition require_trigger_config :: "string option \<Rightarrow> string option \<Rightarrow> bool" where
  "require_trigger_config env_salt env_max_age \<longleftrightarrow>
     nats_trigger_max_age_seconds env_max_age \<noteq> None \<and> nats_trigger_signing_salt env_salt \<noteq> None"

lemmas consumer_defs [py_eval] = DATETIME_MIN_def more_recent_def latest_def person_of_def
  resolve_tenant_initiator_def extract_tenant_from_subject_def dedup_key_of_def
  check_idempotency_def tenant_id_from_subject_def column_text_def refuse_def scope_verdict_def vet_event_def
  instantiate_process_def start_failure_def on_failure_def verified_failure_def run_event_def
  process_event_def process_trigger_def require_trigger_config_def

end
