(* ===== verification/Consumer_Properties.thy ===== *)
theory Consumer_Properties
  imports Trigger_Consumer Api_Keys Event_Audit
begin

text \<open>
  The promises of the trigger consumer: nothing starts without a verified, fresh event of a
  live key in scope; a forged message leaves only a new audit row; a redelivered event starts
  nothing; and the initiator is the key's owner.
\<close>

subsection \<open>Vetting\<close>

lemma resolve_key_id_Some:
  assumes "resolve_key_id now ok s i = (Some a, s')"
  shows "\<exists>k. i = PStr (ak_id k) \<and> key_by_id (working s) (ak_id k) = Some k \<and> key_live now k \<and>
    a = identity_of k"
proof -
  from assms obtain j k where k: "i = PStr j" "key_by_id (working s) j = Some k"
      "if_active now ok k s = (Some a, s')"
    by (auto simp: resolve_key_id_def split: pyval.splits if_splits option.splits)
  have "(if key_live now k then Some (identity_of k) else None) = Some a"
    using if_active_fst [of now ok k s] k(3) by simp
  with k show ?thesis by (auto dest: key_by_id_props split: if_splits)
qed

definition authorised ::
  "('k, 'h) consumer_env \<Rightarrow> string \<Rightarrow> (string \<times> pyval) list \<Rightarrow> api_key list \<Rightarrow> api_key \<Rightarrow> pyval \<Rightarrow> bool" where
  "authorised env subject event ks k p \<longleftrightarrow>
     (\<exists>slug. extract_tenant_from_subject subject = Some slug \<and>
        (truthy (dget event ''tenant_slug'') \<longrightarrow> dget event ''tenant_slug'' = PStr slug)) \<and>
     verify_trigger (ce_mac env) (ce_salt env) event \<and>
     trigger_is_fresh (ce_now env) (ce_max_age env) event \<and>
     dget event ''api_key_id'' = PStr (ak_id k) \<and> key_by_id ks (ak_id k) = Some k \<and>
     ak_revoked_at k = None \<and> \<not> key_expired (ce_now env) k \<and>
     dget event ''tenant_id'' = PStr (ak_tenant_id k) \<and>
     dget event ''process_identifier'' = p \<and> scope_verdict (ak_scope k) p = Some True"

lemma vet_event_ok:
  assumes "vet_event env subject event ks = (Inr v, ks')"
  shows "\<exists>k p. authorised env subject event (working ks) k p \<and>
    v = \<lparr>vt_tenant = ak_tenant_id k, vt_process = p, vt_key = identity_of k\<rparr>"
proof -
  from assms obtain slug a where 1: "extract_tenant_from_subject subject = Some slug"
      "truthy (dget event ''tenant_slug'') \<longrightarrow> dget event ''tenant_slug'' = PStr slug"
      "verify_trigger (ce_mac env) (ce_salt env) event"
      "trigger_is_fresh (ce_now env) (ce_max_age env) event"
      "resolve_key_id (ce_now env) (ce_stamp_ok env) ks (dget event ''api_key_id'') = (Some a, ks')"
      "PStr (auth_tenant_id a) = dget event ''tenant_id''"
    by (auto simp: vet_event_def Let_def split: option.splits if_splits prod.splits bool.splits)
  from resolve_key_id_Some [OF 1(5)] obtain k where k: "dget event ''api_key_id'' = PStr (ak_id k)"
      "key_by_id (working ks) (ak_id k) = Some k" "key_live (ce_now env) k" "a = identity_of k" by auto
  from assms 1 obtain p where "dget event ''process_identifier'' = p" "scope_verdict (auth_scope a) p = Some True"
      "v = \<lparr>vt_tenant = auth_tenant_id a, vt_process = p, vt_key = a\<rparr>"
    by (auto simp: vet_event_def Let_def split: option.splits if_splits bool.splits)
  with 1 k show ?thesis
    by (auto simp: authorised_def identity_of_def key_live_def intro!: exI [of _ k])
qed

lemma vet_event_unverified:
  assumes "vet_event env subject event ks = (Inl f, ks')"
    and "\<not> verify_trigger (ce_mac env) (ce_salt env) event"
  shows "fl_tenant f = None \<and> ks' = ks"
  using assms
  by (auto simp: vet_event_def refuse_def Let_def split: option.splits if_splits)

lemma on_failure_sel:
  assumes "on_failure env msg event key f started s = (h, s')"
  shows "cs_host s' = cs_host s" "hd_started h = started" "hd_acked h = ce_ack_ok env"
    "cs_keys s' = cs_keys s" "key = None \<longrightarrow> cs_kv s' = cs_kv s"
  using assms by (auto simp: on_failure_def Let_def)

lemma on_failure_inert:
  "on_failure env msg event key f started s = (h, s') \<Longrightarrow> cs_host s' = cs_host s \<and> hd_started h = started"
  by (simp add: on_failure_sel)

subsection \<open>Starting\<close>

lemma instantiate_initiator:
  assumes "instantiate_process env tid process user payload ev sq (a, h) = (r, a', h')"
  shows "h' = h \<or> (\<exists>u md res. resolve_tenant_initiator (ce_backend_issuer env) (ce_login_issuer env)
      (ce_candidates env user tid) user = Inr (Some u) \<and>
      ce_start env tid (tu_id u) process md h = (res, h'))"
    and "r = Inr pid \<Longrightarrow> \<exists>u md. resolve_tenant_initiator (ce_backend_issuer env) (ce_login_issuer env)
      (ce_candidates env user tid) user = Inr (Some u) \<and>
      ce_start env tid (tu_id u) process md h = (Inr pid, h')"
  using assms
  by (auto simp: instantiate_process_def Let_def split: sum.splits option.splits if_splits prod.splits bool.splits)

lemma run_event_host:
  assumes "run_event env msg event v key s = (h, s')" "hd_started h \<noteq> None \<or> cs_host s' \<noteq> cs_host s"
  shows "\<exists>u md res. resolve_tenant_initiator (ce_backend_issuer env) (ce_login_issuer env)
      (ce_candidates env (auth_created_by (vt_key v)) (vt_tenant v)) (auth_created_by (vt_key v)) = Inr (Some u) \<and>
      ce_start env (vt_tenant v) (tu_id u) (vt_process v) md (cs_host s) = (res, cs_host s')"
proof -
  obtain r a h1 where i: "instantiate_process env (vt_tenant v) (vt_process v)
      (auth_created_by (vt_key v)) (py_or (dget event ''payload'') (PDict [])) (column_text (dget event ''id''))
      (ms_stream_seq msg) (cs_audit s, cs_host s) = (r, a, h1)"
    by (metis prod_cases3)
  have host: "cs_host s' = h1"
    using assms(1) i
    by (auto simp: run_event_def Let_def dest!: on_failure_sel(1) split: sum.splits prod.splits if_splits)
  show ?thesis
  proof (cases r)
    case (Inl e)
    then have "hd_started h = None"
      using assms(1) i by (auto simp: run_event_def dest!: on_failure_sel(2) split: prod.splits)
    with assms(2) host instantiate_initiator(1) [OF i] show ?thesis by auto
  next
    case (Inr pid)
    with instantiate_initiator(2) [OF i] host show ?thesis by auto
  qed
qed

lemma initiator_matches:
  assumes "resolve_tenant_initiator be li us name = Inr (Some u)"
  shows "u \<in> set us \<and> tu_username u = name"
proof -
  let ?exact = "filter (\<lambda>u. tu_username u = name) us"
  let ?real = "filter (\<lambda>u. strip (or_default (tu_service u) []) \<noteq> strip be) ?exact"
  have latest: "latest x xs \<in> set (x # xs)" for x xs
    unfolding latest_def
  proof (induction xs arbitrary: x)
    case (Cons y ys)
    then show ?case by (cases "more_recent y x") (auto dest: meta_spec [of _ y] meta_spec [of _ x])
  qed simp
  have "u \<in> set ?exact"
  proof (cases ?exact)
    case Nil
    with assms show ?thesis by (simp add: resolve_tenant_initiator_def)
  next
    case (Cons a as)
    show ?thesis
    proof (cases as)
      case Nil
      with assms Cons show ?thesis by (simp add: resolve_tenant_initiator_def)
    next
      case Cons2: (Cons b bs)
      show ?thesis
      proof (cases ?real)
        case Nil
        with assms Cons Cons2 show ?thesis by (simp add: resolve_tenant_initiator_def Let_def)
      next
        case Cons3: (Cons x xs)
        have sub: "set (x # xs) \<subseteq> set ?exact" unfolding Cons3 [symmetric] by auto
        have "u \<in> set (x # xs)"
        proof (cases xs)
          case Nil
          with assms Cons Cons2 Cons3 show ?thesis
            by (simp add: resolve_tenant_initiator_def Let_def)
        next
          case Cons4: (Cons y ys)
          with assms Cons Cons2 Cons3 have
            "u = or_default (find (\<lambda>u. tu_service u = Some li) (x # xs)) (latest x xs)"
            by (auto simp: resolve_tenant_initiator_def Let_def split: if_splits)
          then show ?thesis
            using latest [of x xs]
            by (cases "find (\<lambda>u. tu_service u = Some li) (x # xs)") (auto dest!: find_Some_iff_props split: if_splits)
        qed
        with sub show ?thesis by blast
      qed
    qed
  qed
  then show ?thesis by simp
qed



subsection \<open>Forged messages\<close>

lemma insert_only_outcome:
  assumes "ow_insert_only x"
  shows "audit_rows (record_outcome now x a) = audit_rows a \<or>
         (\<exists>r. audit_rows (record_outcome now x a) = audit_rows a @ [r])"
  using assms
  by (auto simp: record_outcome_def apply_outcome_def swallow_def insert_row_def Let_def)

text \<open>A forged event leaves nothing but a new audit row: when the signature does not verify,
  no process starts, the host, the keys and the dedup bucket are untouched, and no row of the
  audit trail is changed, whatever tenant and event id the message claims.\<close>

theorem forged_event_leaves_only_a_new_row:
  assumes "process_trigger env msg s = (h, s')" "ce_parse env (ms_data msg) = Some (PDict event)"
    and "\<not> verify_trigger (ce_mac env) (ce_salt env) event"
  shows "hd_started h = None \<and> cs_host s' = cs_host s \<and> cs_keys s' = cs_keys s \<and> cs_kv s' = cs_kv s \<and>
    (audit_rows (cs_audit s') = audit_rows (cs_audit s) \<or>
     (\<exists>r. audit_rows (cs_audit s') = audit_rows (cs_audit s) @ [r]))"
proof -
  obtain r ks where v: "vet_event env (ms_subject msg) event (cs_keys s) = (r, ks)" by fastforce
  show ?thesis
  proof (cases r)
    case (Inr x)
    with vet_event_ok v assms(3) show ?thesis by (fastforce simp: authorised_def)
  next
    case (Inl f)
    with v have f: "fl_tenant f = None" "ks = cs_keys s"
      using vet_event_unverified assms(3) by blast+
    have run: "on_failure env msg event None f None (s\<lparr>cs_keys := ks\<rparr>) = (h, s')"
      using assms(1,2) v Inl by (simp add: process_trigger_def process_event_def)
    note sel = on_failure_sel [OF run]
    have "\<exists>x. ow_insert_only x \<and> cs_audit s' = record_outcome (ce_now env) x (cs_audit s)"
      using run f(1)
      by (clarsimp simp: on_failure_def Let_def) (rule exI, rule conjI [rotated], rule refl, simp)
    then obtain x where "ow_insert_only x" "cs_audit s' = record_outcome (ce_now env) x (cs_audit s)"
      by blast
    with insert_only_outcome [of x] show ?thesis using sel f(2) by simp
  qed
qed

subsection \<open>Redelivery\<close>

text \<open>What the broker documents of a bucket's \<open>create\<close>: it succeeds once per key and then
  reports that the key exists, changing nothing.\<close>

definition bucket_ok :: "'k kv_create \<Rightarrow> bool" where
  "bucket_ok create \<longleftrightarrow>
     (\<forall>k st. fst (create k st) \<noteq> Kv_error) \<and>
     (\<forall>k st st'. create k st = (Kv_created, st') \<longrightarrow> create k st' = (Kv_exists, st'))"

lemma run_event_kv:
  assumes "run_event env msg event v key s = (h, s')" "hd_started h = Some pid"
  shows "if ce_ack_ok env then cs_kv s' = cs_kv s \<and> hd_acked h
         else \<not> hd_acked h \<and> (\<forall>k. key = Some k \<longrightarrow> ce_kv_create env \<noteq> None \<longrightarrow>
                cs_kv s' = ce_kv_delete env k (cs_kv s))"
proof -
  obtain r a h1 where i: "instantiate_process env (vt_tenant v) (vt_process v)
      (auth_created_by (vt_key v)) (py_or (dget event ''payload'') (PDict [])) (column_text (dget event ''id''))
      (ms_stream_seq msg) (cs_audit s, cs_host s) = (r, a, h1)"
    by (metis prod_cases3)
  show ?thesis
  proof (cases r)
    case (Inl e)
    with assms i show ?thesis by (auto simp: run_event_def dest!: on_failure_inert split: prod.splits)
  next
    case (Inr p)
    with assms i show ?thesis
      by (auto simp: run_event_def Let_def on_failure_def Option.is_none_def split: if_splits)
  qed
qed

lemma started_event:
  assumes "process_trigger env msg s = (h, s')" "ce_parse env (ms_data msg) = Some (PDict event)"
    and "hd_started h = Some pid" "truthy (dget event ''id'')" "ce_kv_create env = Some create"
    and "bucket_ok create"
  shows "\<exists>st. create (dedup_key_of (dget event ''tenant_id'') (dget event ''id'')) (cs_kv s) = (Kv_created, st) \<and>
    (if ce_ack_ok env then cs_kv s' = st \<and> hd_acked h
     else \<not> hd_acked h \<and>
       cs_kv s' = ce_kv_delete env (dedup_key_of (dget event ''tenant_id'') (dget event ''id'')) st)"
proof -
  let ?key = "dedup_key_of (dget event ''tenant_id'') (dget event ''id'')"
  obtain r ks where v: "vet_event env (ms_subject msg) event (cs_keys s) = (r, ks)" by fastforce
  have p: "process_event env msg event s = (h, s')" using assms(1,2) by (simp add: process_trigger_def)
  obtain x where x: "r = Inr x"
    using p v assms(3) by (cases r) (auto simp: process_event_def dest!: on_failure_inert)
  obtain kr st where c: "create ?key (cs_kv s) = (kr, st)" by fastforce
  have "fst (create ?key (cs_kv s)) \<noteq> Kv_error" using assms(6) by (simp add: bucket_ok_def)
  with c have ne: "kr \<noteq> Kv_error" by simp
  have "kr \<noteq> Kv_exists"
    using p v x c assms(3-5)
    by (auto simp: process_event_def check_idempotency_def Let_def dest!: on_failure_inert split: if_splits)
  with ne have kr: "kr = Kv_created" by (cases kr) auto
  then have "run_event env msg event x (Some ?key) (s\<lparr>cs_keys := ks, cs_kv := st\<rparr>) = (h, s')"
    using p v x c assms(4,5) by (simp add: process_event_def check_idempotency_def Let_def)
  from run_event_kv [OF this assms(3)] show ?thesis
    using c kr assms(5) by (auto split: if_splits)
qed


text \<open>A lost acknowledgement releases the guard of a process that runs: when the start has
  committed and the \<open>ack\<close> then fails, the handler deletes the event's dedup key although the
  instance exists and the broker will deliver the message again.\<close>

theorem lost_ack_releases_the_guard:
  assumes "process_trigger env msg s = (h, s')" "ce_parse env (ms_data msg) = Some (PDict event)"
    and "hd_started h = Some pid" "truthy (dget event ''id'')" "ce_kv_create env = Some create"
    and "bucket_ok create" "\<not> ce_ack_ok env"
  shows "\<not> hd_acked h \<and>
    (\<exists>st. create (dedup_key_of (dget event ''tenant_id'') (dget event ''id'')) (cs_kv s) = (Kv_created, st) \<and>
       cs_kv s' = ce_kv_delete env (dedup_key_of (dget event ''tenant_id'') (dget event ''id'')) st)"
  using started_event [OF assms(1-6)] assms(7) by auto

subsection \<open>The initiator\<close>

lemma dedup_single: "length (dedup_into [] xs) = 1 \<longleftrightarrow> xs \<noteq> [] \<and> (\<forall>x \<in> set xs. \<forall>y \<in> set xs. x = y)"
proof -
  have "length (dedup_into [] xs) = card (set xs)"
    using distinct_card [OF distinct_dedup_into [of "[]" xs]] by simp
  moreover have "card (set xs) = 1 \<longleftrightarrow> (\<exists>x. set xs = {x})" by (simp add: card_1_singleton_iff)
  moreover have "(\<exists>x. set xs = {x}) \<longleftrightarrow> xs \<noteq> [] \<and> (\<forall>x \<in> set xs. \<forall>y \<in> set xs. x = y)"
  proof
    assume r: "xs \<noteq> [] \<and> (\<forall>x \<in> set xs. \<forall>y \<in> set xs. x = y)"
    then obtain a where "a \<in> set xs" by (cases xs) auto
    with r have "set xs = {a}" by blast
    then show "\<exists>x. set xs = {x}" by blast
  qed auto
  ultimately show ?thesis by simp
qed

lemma two_members: "u \<in> set xs \<Longrightarrow> v \<in> set xs \<Longrightarrow> u \<noteq> v \<Longrightarrow> \<exists>x y zs. xs = x # y # zs"
  by (cases xs rule: remdups_adj.cases) auto

text \<open>An ambiguous initiator fails closed, and only an ambiguous one: resolution raises
  exactly when two users of the tenant carry the name, are no mirrors of the backend's own
  sessions, and are different people (another realm or another subject).\<close>

theorem initiator_fails_closed_exactly_when_ambiguous:
  "(\<exists>e. resolve_tenant_initiator be li us name = Inl e) \<longleftrightarrow>
     (\<exists>u \<in> set us. \<exists>v \<in> set us. tu_username u = name \<and> tu_username v = name \<and>
        strip (or_default (tu_service u) []) \<noteq> strip be \<and>
        strip (or_default (tu_service v) []) \<noteq> strip be \<and> person_of u \<noteq> person_of v)"
proof -
  let ?exact = "filter (\<lambda>u. tu_username u = name) us"
  let ?real = "filter (\<lambda>u. strip (or_default (tu_service u) []) \<noteq> strip be) ?exact"
  have r: "(\<exists>u \<in> set us. \<exists>v \<in> set us. tu_username u = name \<and> tu_username v = name \<and>
        strip (or_default (tu_service u) []) \<noteq> strip be \<and>
        strip (or_default (tu_service v) []) \<noteq> strip be \<and> person_of u \<noteq> person_of v)
      \<longleftrightarrow> (\<exists>u \<in> set ?real. \<exists>v \<in> set ?real. person_of u \<noteq> person_of v)" by auto
  have one: "length (dedup_into [] (map person_of ?real)) = 1 \<longleftrightarrow>
      ?real \<noteq> [] \<and> (\<forall>u \<in> set ?real. \<forall>v \<in> set ?real. person_of u = person_of v)"
    unfolding dedup_single by auto
  show ?thesis
  proof (cases "\<exists>a b cs. ?exact = a # b # cs \<and> (\<exists>x y zs. ?real = x # y # zs)")
    case True
    then obtain a b cs x y zs where e: "?exact = a # b # cs" and q: "?real = x # y # zs" by blast
    have "(\<exists>e. resolve_tenant_initiator be li us name = Inl e)
        \<longleftrightarrow> length (dedup_into [] (map person_of ?real)) \<noteq> 1"
      unfolding resolve_tenant_initiator_def Let_def e using q [unfolded e] by simp
    also have "\<dots> \<longleftrightarrow> (\<exists>u \<in> set ?real. \<exists>v \<in> set ?real. person_of u \<noteq> person_of v)"
      unfolding one using q by auto
    finally show ?thesis unfolding r .
  next
    case False
    have "resolve_tenant_initiator be li us name \<noteq> Inl e" for e
    proof (cases ?exact rule: remdups_adj.cases)
      case e: (3 a b cs)
      show ?thesis
      proof (cases ?real rule: remdups_adj.cases)
        case q: 1
        show ?thesis
          unfolding resolve_tenant_initiator_def Let_def e using q [unfolded e] by simp
      next
        case q: (2 x)
        show ?thesis
          unfolding resolve_tenant_initiator_def Let_def e using q [unfolded e] by simp
      qed (use e False in blast)
    qed (simp_all add: resolve_tenant_initiator_def)
    moreover have "\<not> (\<exists>u \<in> set ?real. \<exists>v \<in> set ?real. person_of u \<noteq> person_of v)"
    proof
      assume "\<exists>u \<in> set ?real. \<exists>v \<in> set ?real. person_of u \<noteq> person_of v"
      then obtain u v where uv: "u \<in> set ?real" "v \<in> set ?real" "u \<noteq> v" by auto
      from two_members [OF uv] obtain x y zs where q: "?real = x # y # zs" by blast
      from uv have "u \<in> set ?exact" "v \<in> set ?exact" by simp_all
      from two_members [OF this uv(3)] obtain a b cs where "?exact = a # b # cs" by blast
      with q False show False by blast
    qed
    ultimately show ?thesis unfolding r by blast
  qed
qed

end
