(* ===== verification/Demo.thy ===== *)
theory Demo
  imports Workflow_Properties Outcome_Properties Consumer_Properties
begin

text \<open>
  A small concrete deployment on which the witnesses run the definitions: one tenant, one
  instance with one open form task and two recipients, an engine that completes what it is
  told to, and a broker event signed for a live key.
\<close>

subsection \<open>An engine\<close>

fun demo_core :: core where
  "demo_core (ClaimTask tid i u) w = (Inr i, w)"
| "demo_core (CompleteTask tid i u p) w =
     (Inr 7, w\<lparr>items := update_where (\<lambda>t. wi_id t = i) (\<lambda>t. t\<lparr>wi_completed := True\<rparr>) (items w)\<rparr>)"
| "demo_core (ErrorInstance tid p u) w = (Inr p, w)"
| "demo_core (RecordEvent tid p k g u) w =
     (Inr 0, w\<lparr>events := events w @ [\<lparr>ev_tenant_id = tid, ev_process_instance_id = p, ev_type = k,
                                       ev_task_guid = g, ev_user_id = u\<rparr>]\<rparr>)"
| "demo_core (TerminateInstance tid p u) w = (Inr p, w)"
| "demo_core (SuspendInstance tid p u) w =
     (Inr p, w\<lparr>instances := update_where (\<lambda>x. pi_id x = p) (\<lambda>x. x\<lparr>pi_status := ''suspended''\<rparr>) (instances w)\<rparr>)"
| "demo_core (ResumeInstance tid p u) w =
     (Inr p, w\<lparr>instances := update_where (\<lambda>x. pi_id x = p) (\<lambda>x. x\<lparr>pi_status := ''user_input_required''\<rparr>) (instances w)\<rparr>)"
| "demo_core (StartInstance tid definition_id u summary metadata) w = (Inr 8, w)"

lemma demo_core_keeps_forms: "core_keeps_forms demo_core"
  unfolding core_keeps_forms_def
proof (intro allI)
  fix c w
  show "forms (snd (demo_core c w)) = forms w \<and> form_seq (snd (demo_core c w)) = form_seq w"
    by (cases c) simp_all
qed

lemma demo_core_records: "core_keeps_items_on_records demo_core"
  by (simp add: core_keeps_items_on_records_def)

text \<open>The same engine, whose service task fails after the user's task completed.\<close>

fun failing_core :: core where
  "failing_core (CompleteTask tid i u p) w =
     (Inl (CoreError ServiceTaskE ''mail server refused''), snd (demo_core (CompleteTask tid i u p) w))"
| "failing_core c w = demo_core c w"

lemma failing_core_records: "core_keeps_items_on_records failing_core"
  by (simp add: core_keeps_items_on_records_def)

subsection \<open>A database\<close>

definition demo_user :: "int \<Rightarrow> app_user" where
  "demo_user i = \<lparr>user_id = i, username = ''u'' @ int_str i, user_email = Some ''u@example.org''\<rparr>"

definition demo_extensions :: pyval where
  "demo_extensions = PDict [(''extensions'', PDict [(''properties'',
     PDict [(''externalFormUrl'', PStr ''https://forms.example.org''),
            (''formJsonSchemaFilename'', PStr ''review-schema.json'')])])]"

definition demo_item :: work_item where
  "demo_item = \<lparr>wi_id = 1, wi_tenant_id = ''t1'', wi_process_instance_id = 7, wi_task_guid = ''g1'',
     wi_completed = False, wi_task_name = Some ''review'', wi_task_title = Some ''Review'',
     wi_model_display_name = None, bpmn_process_identifier = ''models/review'',
     json_metadata = PDict [(''task_definition_properties'', PDict [(''variable'', PStr ''form'')])],
     wi_task_model = True,
     wi_task_definition = Some \<lparr>td_tenant_id = ''t1'', td_process_definition_id = 3,
        bpmn_identifier = ''review'', td_typename = ''UserTask'', bpmn_name = None,
        properties_json = demo_extensions\<rparr>,
     potential_owners = [demo_user 5, demo_user 6]\<rparr>"

definition demo_form :: "int \<Rightarrow> string \<Rightarrow> form_status \<Rightarrow> int option \<Rightarrow> form_request" where
  "demo_form i ref st notified =
     \<lparr>fr_id = i, fr_tenant_id = ''t1'', fr_reference_id = ref, fr_process_instance_id = 7,
      fr_task_guid = ''g1'', fr_recipient_user_id = 4 + i, fr_email = ''u@example.org'',
      fr_user_details = None, fr_external_form_url = ''https://forms.example.org'', fr_status = st,
      fr_form_submission_data = None, fr_expires_at = Some 1000, fr_attempts = 1,
      fr_notified_at = notified, fr_last_error = None, fr_created_at = 10, fr_updated_at = 10\<rparr>"

definition demo_instance :: "string \<Rightarrow> process_instance" where
  "demo_instance st = \<lparr>pi_id = 7, pi_tenant_id = ''t1'', pi_status = st, pi_definition_id = Some 3,
     pi_model_identifier = ''models/review'', pi_data_hash = None\<rparr>"

definition demo_world :: "string \<Rightarrow> form_request list \<Rightarrow> world" where
  "demo_world st fs = \<lparr>forms = fs, form_seq = 2, items = [demo_item], task_definitions = [],
     instances = [demo_instance st], events = [], instance_errors = [], task_rows = [],
     json_data = [], users = [demo_user 5, demo_user 6],
     tenants = [\<lparr>tenant_id = ''t1'', tenant_slug = ''acme''\<rparr>]\<rparr>"

definition fresh_session :: "'w \<Rightarrow> 'w session" where
  "fresh_session w = \<lparr>durable = w, working = w\<rparr>"

lemma fresh_session_sel [simp]:
  "durable (fresh_session w) = w" "working (fresh_session w) = w" "clean (fresh_session w)"
  by (simp_all add: fresh_session_def clean_def)

text \<open>Two recipients were e-mailed; and a database where both links wait for their e-mail.\<close>

definition sent_db :: db where
  "sent_db = fresh_session (demo_world ''waiting''
     [demo_form 1 ''r1'' Notified (Some 20), demo_form 2 ''r2'' Notified (Some 20)])"

definition pending_db :: db where
  "pending_db = fresh_session (demo_world ''waiting''
     [demo_form 1 ''r1'' Pending None, demo_form 2 ''r2'' Pending None])"

definition suspended_db :: db where
  "suspended_db = fresh_session (demo_world ''suspended'' [demo_form 1 ''r1'' Notified (Some 20)])"

text \<open>The same task with no link at all.\<close>

definition empty_db :: db where
  "empty_db = fresh_session (demo_world ''waiting'' [])"

definition demo_env :: env where
  "demo_env = \<lparr>env_now = 100, env_ttl = 86400, env_nats = False, env_ref = (\<lambda>n k. nat_str n @ ''-'' @ nat_str k),
     env_commit_failure = (\<lambda>n. None), env_flush_ok = True, env_width = None,
     env_redact = (\<lambda>m. m), env_external = False\<rparr>"

definition no_file :: reader where
  "no_file = (\<lambda>t m f. None)"

definition no_json :: "string \<Rightarrow> pyval option" where
  "no_json = (\<lambda>s. None)"

definition demo_data :: "(string \<times> pyval) list" where
  "demo_data = [(''outcome'', PStr ''approve''), (''note'', PStr ''fine'')]"

lemmas demo_defs = demo_user_def demo_extensions_def demo_item_def demo_form_def demo_instance_def
  demo_world_def fresh_session_def sent_db_def pending_db_def suspended_db_def demo_env_def
  no_file_def no_json_def demo_data_def

lemma fst_pair: "fst x = a \<Longrightarrow> x = (a, snd x)"
  by (cases x) simp

lemma fst_triple: "fst x = a \<Longrightarrow> x = (a, fst (snd x), snd (snd x))"
  by (cases x) simp

lemma result_pair: "isl (fst x) = False \<Longrightarrow> x = (Inr (projr (fst x)), snd x)"
  by (cases x) (auto simp: sum.expand isl_def)

subsection \<open>A broker event\<close>

definition demo_key :: api_key where
  "demo_key = \<lparr>ak_id = ''k1'', ak_tenant_id = ''t1'', ak_label = ''ci'', ak_token_hash = ''h'',
     ak_scope = Some ''review'', ak_expires_at = None, ak_last_used_at = None, ak_revoked_at = None,
     ak_created_by = ''alice'', ak_modified_by = ''alice'', ak_created_at = 5\<rparr>"

definition demo_event :: "string \<Rightarrow> (string \<times> pyval) list" where
  "demo_event sig = [(''id'', PStr ''e1''), (''tenant_id'', PStr ''t1''), (''tenant_slug'', PStr ''acme''),
     (''process_identifier'', PStr ''review''), (''api_key_id'', PStr ''k1''), (''payload'', PDict []),
     (''issued_at'', PInt 100), (''signature'', PStr sig)]"

definition demo_salt :: string where
  "demo_salt = ''0123456789abcdef0123456789abcdef''"

fun demo_create :: "string list kv_create" where
  "demo_create k ks = (if k \<in> set ks then (Kv_exists, ks) else (Kv_created, k # ks))"

lemma demo_bucket_ok: "bucket_ok demo_create"
  by (auto simp: bucket_ok_def)

definition alice :: tenant_user where
  "alice = \<lparr>tu_id = 9, tu_username = ''alice'', tu_service = Some ''https://idp/realms/m8'',
     tu_service_id = ''s-9'', tu_updated_at = None\<rparr>"

text \<open>The host is the list of started instances; the MAC is a fixed word, so that the signature
  of an event is either that word or wrong.\<close>

definition demo_consumer_env :: "string \<Rightarrow> bool \<Rightarrow> (string list, int list) consumer_env" where
  "demo_consumer_env sig acks =
     \<lparr>ce_now = 110, ce_stamp_ok = True, ce_salt = Some demo_salt, ce_max_age = 300,
      ce_mac = (\<lambda>salt fields. ''good''), ce_parse = (\<lambda>raw. Some (PDict (demo_event sig))),
      ce_kv_create = Some demo_create, ce_kv_delete = (\<lambda>k ks. filter (\<lambda>x. x \<noteq> k) ks),
      ce_tenants = [\<lparr>tenant_id = ''t1'', tenant_slug = ''acme''\<rparr>],
      ce_candidates = (\<lambda>name tid. [alice]), ce_backend_issuer = ''https://m8'',
      ce_login_issuer = ''https://idp/realms/m8'', ce_model_exists = (\<lambda>tid p. Inr True),
      ce_start = (\<lambda>tid u p md h. (Inr (int (length h) + 1), (int (length h) + 1) # h)),
      ce_commit_ok = True, ce_ack_ok = acks\<rparr>"

definition demo_message :: message where
  "demo_message = \<lparr>ms_subject = ''m8flow.events.acme.trigger'', ms_data = ''{}'', ms_stream_seq = Some 1\<rparr>"

definition demo_consumer :: "(string list, int list) consumer" where
  "demo_consumer = \<lparr>cs_keys = fresh_session [demo_key],
     cs_audit = \<lparr>audit_rows = [], audit_seq = 0\<rparr>, cs_kv = [], cs_host = []\<rparr>"

lemmas broker_defs = demo_key_def demo_event_def demo_salt_def alice_def demo_consumer_env_def
  demo_message_def demo_consumer_def

end
