(* ===== verification/Form_Worker.thy ===== *)
theory Form_Worker
  imports Form_Delivery Event_Audit
begin

text \<open>
  The notification worker (m8flow-nats-consumer/notification_worker.py): the sweep over the requests
  still owed an e-mail, and the handling of one broker message. The worker's state is the database
  session, the audit table, the e-mails sent and the number of \<open>notify\<close> calls so far. What each call
  meets (clock, mail server, other sessions) and whether it raises are fields of the environment.
\<close>

subsection \<open>State and environment\<close>

record worker =
  wk_db :: db
  wk_audit :: audit
  wk_mails :: "email list"
  wk_calls :: nat

text \<open>\<open>we_broken k\<close>: the \<open>k\<close>-th call of \<open>notify\<close> raises, after having sent and committed something or
  nothing. \<open>we_column\<close> is what the integer column of the audit table makes of a JSON value
  (\<open>None\<close> when the database refuses it).\<close>

record worker_env =
  we_now :: int
  we_grace :: int
  we_max_attempts :: int
  we_secrets :: secret_store
  we_post :: "nat \<Rightarrow> int \<Rightarrow> post"
  we_broken :: "nat \<Rightarrow> (string \<times> (db \<Rightarrow> email list \<times> db)) option"
  we_revive_fails :: "string \<Rightarrow> bool"
  we_readiness_fails :: "string \<Rightarrow> bool"
  we_park_fails :: "string \<Rightarrow> bool"
  we_column :: "pyval \<Rightarrow> int option option"
  we_retention_days :: int
  we_known_tenants :: "string list"
  we_visible :: "audit_row \<Rightarrow> bool"

definition UNDELIVERED_RESULTS :: "string list" where
  "UNDELIVERED_RESULTS = [''failed'' @ [CHR 0x3A], ''skipped'' @ CHR 0x3A # ''smtp_unconfigured'',
     ''skipped'' @ CHR 0x3A # ''unsafe_url'']"

definition notify_one :: "worker_env \<Rightarrow> string \<Rightarrow> int \<Rightarrow> worker \<Rightarrow> (string + notify_result) \<times> worker" where
  "notify_one env tid request_id w =
     (let k = wk_calls w; w1 = w\<lparr>wk_calls := Suc k\<rparr> in
      case we_broken env k of
        Some (e, part) \<Rightarrow>
          (case part (wk_db w) of
             (mails, s) \<Rightarrow> (Inl e, w1\<lparr>wk_db := rollback s, wk_mails := wk_mails w @ mails\<rparr>))
      | None \<Rightarrow>
          (case notify (we_post env k request_id) request_id (wk_db w) of
             (r, mails, s) \<Rightarrow> (Inr r, w1\<lparr>wk_db := commit s, wk_mails := wk_mails w @ mails\<rparr>)))"

subsection \<open>The sweep\<close>

definition revive_tenant :: "worker_env \<Rightarrow> string \<Rightarrow> worker \<Rightarrow> worker" where
  "revive_tenant env tid w =
     (if we_revive_fails env tid then w\<lparr>wk_db := rollback (wk_db w)\<rparr>
      else if \<not> rd_ok (smtp_readiness (we_secrets env) tid) then w
      else w\<lparr>wk_db := snd (revive_smtp_unconfigured (we_now env) tid (wk_db w))\<rparr>)"

definition revive_reconfigured_tenants :: "worker_env \<Rightarrow> worker \<Rightarrow> worker" where
  "revive_reconfigured_tenants env w =
     fold (revive_tenant env) (tenants_with_parked_requests (working (wk_db w))) w"

text \<open>\<open>by_tenant.setdefault(tenant_id, []).append(request_id)\<close>.\<close>

fun add_candidate :: "int \<times> string \<Rightarrow> (string \<times> int list) list \<Rightarrow> (string \<times> int list) list" where
  "add_candidate (i, t) [] = [(t, [i])]"
| "add_candidate (i, t) ((t', ids) # groups) =
     (if t' = t then (t, ids @ [i]) # groups else (t', ids) # add_candidate (i, t) groups)"

definition group_by_tenant :: "(int \<times> string) list \<Rightarrow> (string \<times> int list) list" where
  "group_by_tenant candidates = fold add_candidate candidates []"

definition notify_each :: "worker_env \<Rightarrow> string \<Rightarrow> int list \<Rightarrow> worker \<Rightarrow> worker" where
  "notify_each env tid request_ids w =
     fold (\<lambda>i w. snd (notify_one env tid i w)) request_ids w"

definition sweep_tenant :: "worker_env \<Rightarrow> string \<times> int list \<Rightarrow> worker \<Rightarrow> worker" where
  "sweep_tenant env pair w =
     (case pair of
        (tid, request_ids) \<Rightarrow>
          (if we_readiness_fails env tid then w\<lparr>wk_db := rollback (wk_db w)\<rparr>
           else case rd_reason (smtp_readiness (we_secrets env) tid) of
             Some reason \<Rightarrow>
               (if we_park_fails env tid then w\<lparr>wk_db := rollback (wk_db w)\<rparr>
                else w\<lparr>wk_db := snd (mark_smtp_unconfigured (we_now env) request_ids reason (wk_db w))\<rparr>)
           | None \<Rightarrow> notify_each env tid request_ids w))"

definition owed :: "worker_env \<Rightarrow> worker \<Rightarrow> (int \<times> string) list" where
  "owed env w = sweep_candidates (we_now env) (we_grace env) (we_max_attempts env) (working (wk_db w))"

definition run_sweep :: "worker_env \<Rightarrow> worker \<Rightarrow> worker" where
  "run_sweep env w =
     (let w1 = revive_reconfigured_tenants env w in
      fold (sweep_tenant env) (group_by_tenant (owed env w1)) w1)"

definition prune_audit :: "worker_env \<Rightarrow> worker \<Rightarrow> worker" where
  "prune_audit env w =
     w\<lparr>wk_audit := snd (prune (we_now env) (we_known_tenants env) (we_visible env)
                       (we_retention_days env) (wk_audit w))\<rparr>"

text \<open>One round of \<open>sweep_loop\<close>.\<close>

definition sweep_round :: "worker_env \<Rightarrow> worker \<Rightarrow> worker" where
  "sweep_round env w = prune_audit env (run_sweep env w)"

subsection \<open>Messages\<close>

definition extract_tenant_slug_from_subject :: "string \<Rightarrow> string option" where
  "extract_tenant_slug_from_subject subject =
     (case split_on (CHR ''.'') subject of
        [a, b, slug, d] \<Rightarrow>
          (if a = ''m8flow'' \<and> b = ''notifications'' \<and> d = ''external-form'' \<and> slug \<noteq> [] then Some slug else None)
      | _ \<Rightarrow> None)"

text \<open>A message: its subject, its body (\<open>None\<close> when it is no JSON) and its position in the stream.\<close>

record broker_message =
  wm_subject :: string
  wm_body :: "string + pyval"
  wm_stream_seq :: "int option"

definition event_id_of :: "(string \<times> pyval) list \<Rightarrow> string option" where
  "event_id_of data =
     (if truthy (dget data ''process_instance_id'')
      then Some (''extform-'' @ py_str (dget data ''process_instance_id'') @ ''-'' @ py_str (dget data ''task_guid''))
      else None)"

text \<open>A tenant or an instance id that its column refuses makes the write fail, and a failed audit
  write is swallowed.\<close>

definition record_audit :: "worker_env \<Rightarrow> pyval \<Rightarrow> string option \<Rightarrow> event_outcome \<Rightarrow> string option \<Rightarrow>
    int option \<Rightarrow> pyval \<Rightarrow> bool \<Rightarrow> worker \<Rightarrow> worker" where
  "record_audit env tenant event_id outc error_message stream_seq instance_id insert_only w =
     (case (if truthy tenant then str_of tenant else Some [], we_column env instance_id) of
        (Some own, Some pid) \<Rightarrow>
          w\<lparr>wk_audit := record_outcome (we_now env)
             \<lparr>ow_tenant_id = Some own, ow_event_id = event_id, ow_outcome = outc,
              ow_worker = Notification_worker, ow_error_message = error_message,
              ow_process_instance_id = pid, ow_stream_seq = stream_seq,
              ow_process_identifier = None, ow_username = None, ow_completed_at = None,
              ow_insert_only = insert_only\<rparr> (wk_audit w)\<rparr>
      | _ \<Rightarrow> w)"

definition is_int :: "pyval \<Rightarrow> bool" where
  "is_int v \<longleftrightarrow> (case v of PInt _ \<Rightarrow> True | _ \<Rightarrow> False)"

definition int_of :: "pyval \<Rightarrow> int" where
  "int_of v = (case v of PInt n \<Rightarrow> n | _ \<Rightarrow> 0)"

definition request_ids_ok :: "pyval \<Rightarrow> bool" where
  "request_ids_ok v \<longleftrightarrow> (case v of PList xs \<Rightarrow> xs \<noteq> [] \<and> list_all is_int xs | _ \<Rightarrow> False)"

fun notify_all :: "worker_env \<Rightarrow> string \<Rightarrow> int list \<Rightarrow> worker \<Rightarrow> string list \<times> worker" where
  "notify_all env tid [] w = ([], w)"
| "notify_all env tid (i # ids) w =
     (case notify_one env tid i w of
        (result, w1) \<Rightarrow>
          (let failure = (case result of
                 Inl e \<Rightarrow> [int_str i @ CHR 0x3A # CHR '' '' # e]
               | Inr r \<Rightarrow> (if list_ex (startswith (notify_result_str r)) UNDELIVERED_RESULTS
                          then [int_str i @ CHR 0x3A # CHR '' '' # notify_result_str r] else []))
           in case notify_all env tid ids w1 of
                (failures, w2) \<Rightarrow> (failure @ failures, w2)))"

definition quoted :: "string \<Rightarrow> string" where
  "quoted s = [CHR 0x27] @ s @ [CHR 0x27]"

text \<open>The handler; the first component is the exception it lets out. Every message is acknowledged.\<close>

definition process_message :: "worker_env \<Rightarrow> broker_message \<Rightarrow> worker \<Rightarrow> string option \<times> worker" where
  "process_message env msg w =
     (let seq = wm_stream_seq msg in
      case wm_body msg of
        Inl e \<Rightarrow> (None, record_audit env PNone None Invalid_payload
                     (Some (''could not parse message body: '' @ e)) seq PNone False w)
      | Inr body \<Rightarrow>
          (if \<not> is_dict body then (Some ''AttributeError'', w)
           else let data = dict_items body;
                    event_id = event_id_of data;
                    tenant = dget data ''tenant_id'';
                    slug = dget data ''tenant_slug'';
                    ids = dget data ''request_ids'';
                    reject = (\<lambda>outc reason. (None, record_audit env tenant event_id outc (Some reason) seq PNone True w))
                in case extract_tenant_slug_from_subject (wm_subject msg) of
                     None \<Rightarrow> reject Invalid_payload (''unexpected subject format: '' @ wm_subject msg)
                   | Some subject_slug \<Rightarrow>
                       (if truthy slug \<and> slug \<noteq> PStr subject_slug
                        then reject Tenant_mismatch (''subject slug '' @ quoted subject_slug @
                               '' != payload slug '' @ quoted (py_str slug))
                        else if \<not> truthy tenant \<or> \<not> request_ids_ok ids
                        then reject Invalid_payload ''event missing tenant_id or integer request_ids''
                        else case notify_all env (py_str tenant) (map int_of (list_items ids)) w of
                          (failures, w1) \<Rightarrow>
                            (None, record_audit env tenant event_id
                               (if failures = [] then Instantiated else Transient_error)
                               (if failures = [] then None else Some (join ''; '' failures)) seq
                               (dget data ''process_instance_id'') False w1))))"

end
