(* ===== verification/Worker_Laws.thy ===== *)
theory Worker_Laws
  imports Form_Worker Form_Laws
begin

text \<open>
  What a sweep promises: it is safe for the link table whatever goes wrong, and with a working mail
  server every request it owes an e-mail is delivered. And what a broker message can do to the audit
  table.
\<close>

subsection \<open>Rows a step does not concern\<close>

definition world_of :: "worker \<Rightarrow> world" where
  "world_of w = working (wk_db w)"

definition untouched_db :: "int \<Rightarrow> db \<Rightarrow> db \<Rightarrow> bool" where
  "untouched_db i s t \<longleftrightarrow>
     form_by_id (working t) i = form_by_id (working s) i \<and> items (working t) = items (working s) \<and>
     map fr_id (forms (working t)) = map fr_id (forms (working s)) \<and> (clean s \<longrightarrow> clean t)"

lemma untouched_db_refl [simp]: "untouched_db i s s"
  by (simp add: untouched_db_def)

lemma untouched_db_trans: "untouched_db i s t \<Longrightarrow> untouched_db i t u \<Longrightarrow> untouched_db i s u"
  by (simp add: untouched_db_def)

lemma untouched_db_rollback: "clean s \<Longrightarrow> untouched_db i s (rollback s)"
  by (simp add: untouched_db_def clean_def)

lemma untouched_db_commit: "untouched_db i s (commit s)"
  by (simp add: untouched_db_def)

lemma form_by_id_update:
  assumes "\<And>r. fr_id (f r) = fr_id r"
  shows "form_by_id (w\<lparr>forms := update_where P f (forms w)\<rparr>) i
    = map_option (\<lambda>r. if P r then f r else r) (form_by_id w i)"
  unfolding form_by_id_def using find_update_where [of fr_id f i P "forms w"] assms by simp

lemma untouched_db_exec:
  assumes "\<And>r. fr_id (f r) = fr_id r" "\<And>r. P r \<Longrightarrow> fr_id r \<noteq> i"
  shows "untouched_db i s (snd (exec_update P f s))"
proof -
  have same: "map_option (\<lambda>r. if P r then f r else r) (form_by_id (working s) i) = form_by_id (working s) i"
  proof (cases "form_by_id (working s) i")
    case (Some r)
    then have "fr_id r = i" unfolding form_by_id_def by (blast dest: find_Some_iff_props)
    with assms(2) [of r] Some show ?thesis by auto
  qed simp
  have w: "working (snd (exec_update P f s)) = (working s)\<lparr>forms := update_where P f (forms (working s))\<rparr>"
      "clean (snd (exec_update P f s))"
    by (simp_all add: exec_update_def)
  show ?thesis
    unfolding untouched_db_def w(1) form_by_id_update [OF assms(1)] same
    using w(2) map_key_update_where [of fr_id f P] assms(1) by simp
qed

lemma untouched_statements:
  "j \<noteq> i \<Longrightarrow> untouched_db i s (snd (claim_request now ttl j s))"
  "j \<noteq> i \<Longrightarrow> untouched_db i s (mark_sent now j s)"
  "j \<noteq> i \<Longrightarrow> untouched_db i s (release_failed now j m s)"
  "i \<notin> set ids \<Longrightarrow> untouched_db i s (snd (mark_smtp_unconfigured now ids m s))"
  by (auto simp: claim_request_def mark_sent_def release_failed_def mark_smtp_unconfigured_def
      case_prod_unfold Let_def intro!: untouched_db_exec)

lemma untouched_cancel:
  assumes "fr_id r \<noteq> i"
  shows "untouched_db i s (snd (snd (cancel_if_task_closed now r t s)))"
proof -
  have "untouched_db i s (commit (snd (write_row (retire now) r s)))"
  proof -
    have "set_form (fr_id r) (retire now)
        = (\<lambda>w. w\<lparr>forms := update_where (\<lambda>x. fr_id x = fr_id r) (retire now) (forms w)\<rparr>)"
      by (rule ext) (simp add: set_form_def)
    then have "commit (snd (write_row (retire now) r s))
        = snd (exec_update (\<lambda>x. fr_id x = fr_id r) (retire now) s)"
      by (simp add: write_row_def exec_update_def)
    moreover have "untouched_db i s (snd (exec_update (\<lambda>x. fr_id x = fr_id r) (retire now) s))"
      by (rule untouched_db_exec) (use assms in \<open>auto simp: retire_def\<close>)
    ultimately show ?thesis by simp
  qed
  then show ?thesis using cancel_if_task_closed_cases [of r t now s] by auto
qed

lemma untouched_record_sent:
  assumes "clean s" "j \<noteq> i"
  shows "untouched_db i s (snd (record_sent_from n a ok now j s))"
  using assms
proof (induction n arbitrary: a s)
  case (Suc n)
  have "rollback s = s" using Suc.prems(1) by (simp add: rollback_def clean_def)
  with Suc show ?case by (simp add: untouched_statements)
qed simp

lemma untouched_clean: "untouched_db i s t \<Longrightarrow> clean s \<Longrightarrow> clean t"
  by (simp add: untouched_db_def)

lemma rollback_clean: "clean s \<Longrightarrow> rollback s = s"
  by (simp add: rollback_def clean_def)

lemma cancel_keeps_id:
  "fr_id (fst (snd (cancel_if_task_closed now r t s))) = fr_id r"
  using cancel_if_task_closed_cases [of r t now s] by (auto simp: retire_def)

lemma untouched_notify:
  assumes "clean s" "j \<noteq> i" "post_meanwhile p = id"
  shows "untouched_db i s (snd (snd (notify p j s)))"
proof (cases "form_by_id (working s) j")
  case None
  then show ?thesis by (simp add: notify_def)
next
  case (Some row0)
  then have j: "fr_id row0 = j" by (auto simp: form_by_id_def dest: find_Some_iff_props)
  obtain closed row s1 where c: "cancel_if_task_closed (post_now p) row0
      (if post_task_readable p then human_task_for (working s) row0 else None) s = (closed, row, s1)"
    by (metis prod_cases3)
  have row: "fr_id row = j" using cancel_keeps_id [of "post_now p" row0] c j by (metis fst_conv snd_conv)
  have s1: "untouched_db i s s1" using untouched_cancel [of row0 i s "post_now p"] c j assms(2) by (metis snd_conv)
  obtain mine s2 where m: "claim_request (post_now p) (post_ttl p) j s1 = (mine, s2)" by fastforce
  have s2: "untouched_db i s s2"
    using untouched_db_trans [OF s1 untouched_statements(1) [OF assms(2)]] m by (metis snd_conv)
  have cl: "clean s2" using untouched_clean [OF s2] assms(1) by simp
  have park: "untouched_db i s (snd (mark_smtp_unconfigured (post_now p) [j] reason s1))" for reason
    using untouched_db_trans [OF s1 untouched_statements(4)] assms(2) by simp
  have rel: "untouched_db i s (release_failed now j e s2)" for now e
    using untouched_db_trans [OF s2 untouched_statements(3) [OF assms(2)]] .
  have rec: "untouched_db i s (snd (record_sent ok now j s2))" for ok now
    unfolding record_sent_def using untouched_db_trans [OF s2 untouched_record_sent [OF cl assms(2)]] .
  show ?thesis
    unfolding notify_def Some option.case Let_def c prod.case row m assms(3) id_apply rollback_clean [OF cl]
    using s1 s2 park rel rec by (auto split: option.splits prod.splits) (metis snd_conv)+
qed

definition untouched :: "int \<Rightarrow> worker \<Rightarrow> worker \<Rightarrow> bool" where
  "untouched i w w' \<longleftrightarrow> untouched_db i (wk_db w) (wk_db w') \<and> (\<exists>ms. wk_mails w' = wk_mails w @ ms)"

lemma untouched_refl [simp]: "untouched i w w"
  by (simp add: untouched_def)

lemma untouched_trans: "untouched i u v \<Longrightarrow> untouched i v w \<Longrightarrow> untouched i u w"
  unfolding untouched_def by (metis append_assoc untouched_db_trans)

text \<open>A worker no call of which raises and that no other session disturbs.\<close>

definition undisturbed :: "worker_env \<Rightarrow> bool" where
  "undisturbed env \<longleftrightarrow> (\<forall>k. we_broken env k = None) \<and> (\<forall>k i. post_meanwhile (we_post env k i) = id)"

lemma untouched_notify_one:
  assumes "undisturbed env" "clean (wk_db w)" "j \<noteq> i"
  shows "untouched i w (snd (notify_one env tid j w))"
proof -
  obtain r mails s where n: "notify (we_post env (wk_calls w) j) j (wk_db w) = (r, mails, s)"
    by (metis prod_cases3)
  have "untouched_db i (wk_db w) s"
    using untouched_notify [OF assms(2,3), of "we_post env (wk_calls w) j"] assms(1) n
    by (simp add: undisturbed_def)
  then have "untouched_db i (wk_db w) (commit s)" by (rule untouched_db_trans) (rule untouched_db_commit)
  with assms(1) show ?thesis by (simp add: notify_one_def Let_def n untouched_def undisturbed_def)
qed

lemma untouched_clean_w: "untouched i w w' \<Longrightarrow> clean (wk_db w) \<Longrightarrow> clean (wk_db w')"
  by (auto simp: untouched_def dest: untouched_clean)

lemma untouched_notify_each:
  assumes "undisturbed env" "clean (wk_db w)" "i \<notin> set ids"
  shows "untouched i w (notify_each env tid ids w)"
  using assms(2,3)
proof (induction ids arbitrary: w)
  case (Cons j ids)
  have u: "untouched i w (snd (notify_one env tid j w))"
    using untouched_notify_one [OF assms(1) Cons.prems(1)] Cons.prems(2) by simp
  with Cons have "untouched i (snd (notify_one env tid j w)) (notify_each env tid ids (snd (notify_one env tid j w)))"
    by (intro Cons.IH) (auto dest: untouched_clean_w)
  with u show ?case unfolding notify_each_def by (auto dest: untouched_trans)
qed (simp add: notify_each_def)

lemma untouched_sweep_tenant:
  assumes "undisturbed env" "clean (wk_db w)" "i \<notin> set (snd pair)"
  shows "untouched i w (sweep_tenant env pair w)"
proof -
  obtain t ids where p: "pair = (t, ids)" by fastforce
  have "untouched i w (w\<lparr>wk_db := rollback (wk_db w)\<rparr>)"
    using untouched_db_rollback [OF assms(2)] by (simp add: untouched_def)
  moreover have "untouched i w (w\<lparr>wk_db := snd (mark_smtp_unconfigured now ids reason (wk_db w))\<rparr>)" for now reason
    using untouched_statements(4) assms(3) p by (simp add: untouched_def)
  ultimately show ?thesis
    using untouched_notify_each [OF assms(1,2), of i ids t] assms(3) p
    by (simp add: sweep_tenant_def split: option.splits)
qed

lemma untouched_sweep_groups:
  assumes "undisturbed env" "clean (wk_db w)" "\<forall>pair \<in> set groups. i \<notin> set (snd pair)"
  shows "untouched i w (fold (sweep_tenant env) groups w)"
  using assms(2,3)
proof (induction groups arbitrary: w)
  case (Cons pair groups)
  have u: "untouched i w (sweep_tenant env pair w)"
    using untouched_sweep_tenant [OF assms(1) Cons.prems(1)] Cons.prems(2) by simp
  with Cons have "untouched i (sweep_tenant env pair w) (fold (sweep_tenant env) groups (sweep_tenant env pair w))"
    by (intro Cons.IH) (auto dest: untouched_clean_w)
  with u show ?case by (auto dest: untouched_trans)
qed simp

subsection \<open>One delivery\<close>

lemma claimable_later: "claimable now r \<Longrightarrow> now \<le> now' \<Longrightarrow> claimable now' r"
  by (auto simp: claimable_def split: option.splits)

lemma claimable_not_cancelled: "claimable now r \<Longrightarrow> fr_status r \<noteq> Cancelled"
  by (auto simp: claimable_def CLAIMABLE_STATUSES_def)

lemma claim_wins:
  assumes "distinct (map fr_id (forms (working s)))" "form_by_id (working s) i = Some r" "claimable now r"
  shows "fst (claim_request now ttl i s) \<and>
    form_by_id (working (snd (claim_request now ttl i s))) i = Some (claim_row now ttl r)"
proof -
  have r: "r \<in> set (forms (working s))" "fr_id r = i"
    using assms(2) by (auto simp: form_by_id_def dest: find_Some_iff_props)
  have "rowcount (\<lambda>x. fr_id x = i \<and> claimable now x) (forms (working s)) = 1"
    using rowcount_key_1_iff [OF assms(1), of i "claimable now"] r assms(3) by blast
  then have won: "fst (claim_request now ttl i s)"
    by (simp add: claim_request_def exec_update_def Let_def)
  have "working (snd (claim_request now ttl i s)) = (working s)\<lparr>forms :=
      update_where (\<lambda>x. fr_id x = i \<and> claimable now x) (claim_row now ttl) (forms (working s))\<rparr>"
    by (simp add: claim_request_def exec_update_def Let_def)
  moreover have "form_by_id ((working s)\<lparr>forms :=
      update_where (\<lambda>x. fr_id x = i \<and> claimable now x) (claim_row now ttl) (forms (working s))\<rparr>) i
      = Some (claim_row now ttl r)"
    using form_by_id_update [of "claim_row now ttl" "\<lambda>x. fr_id x = i \<and> claimable now x" "working s" i]
      assms(2,3) r(2) by simp
  ultimately show ?thesis using won by simp
qed

lemma mark_sent_row:
  assumes "form_by_id (working s) i = Some r" "is_sending r"
  shows "form_by_id (working (mark_sent now i s)) i = Some (sent_row now r)"
proof -
  have "fr_id r = i" using assms(1) by (auto simp: form_by_id_def dest: find_Some_iff_props)
  with assms form_by_id_update [of "sent_row now" "\<lambda>x. fr_id x = i \<and> is_sending x" "working s" i]
  show ?thesis by (simp add: mark_sent_def exec_update_def)
qed

text \<open>What a call of \<open>notify\<close> needs to deliver: an answering mail server, readable settings, a database
  that takes the record at the first attempt, and no other session in between.\<close>

definition delivers :: "post \<Rightarrow> bool" where
  "delivers p \<longleftrightarrow> (\<forall>m. post_smtp p m = None) \<and> post_recorded p 1 \<and> post_meanwhile p = id"

lemma notify_delivers:
  assumes "distinct (map fr_id (forms (working s)))" "form_by_id (working s) i = Some r"
    and "claimable now r" "now \<le> post_now p" "\<not> task_closed (human_task_for (working s) r)"
    and "resolve_smtp_settings (post_secrets p) (fr_tenant_id r) = Some st"
    and "url_scheme (fr_external_form_url r) \<in> {''http'', ''https''}" "delivers p"
  shows "\<exists>s'. notify p i s = (Sent, [\<lparr>em_to = fr_email r, em_link_reference = fr_reference_id r, em_settings = st\<rparr>], s')
    \<and> form_by_id (working s') i = Some (sent_row (post_later p) (claim_row (post_now p) (post_ttl p) r))"
proof -
  have id: "fr_id r = i" using assms(2) by (auto simp: form_by_id_def dest: find_Some_iff_props)
  let ?task = "if post_task_readable p then human_task_for (working s) r else None"
  have "\<not> (is_open r \<and> task_closed ?task)" using assms(5) by (auto simp: task_closed_def)
  then have c: "cancel_if_task_closed (post_now p) r ?task s = (False, r, s)"
    using cancel_if_task_closed_cases [of r ?task "post_now p" s] claimable_not_cancelled [OF assms(3)] by auto
  obtain mine s2 where m: "claim_request (post_now p) (post_ttl p) i s = (mine, s2)" by fastforce
  have w: "mine" "form_by_id (working s2) i = Some (claim_row (post_now p) (post_ttl p) r)"
    using claim_wins [OF assms(1,2) claimable_later [OF assms(3,4)], of "post_ttl p"] m by simp_all
  have rec: "record_sent (post_recorded p) (post_later p) i s2 = (True, mark_sent (post_later p) i s2)"
    using assms(8) by (simp add: record_sent_def MARK_SENT_ATTEMPTS_def delivers_def numeral_3_eq_3)
  have fin: "form_by_id (working (mark_sent (post_later p) i s2)) i
      = Some (sent_row (post_later p) (claim_row (post_now p) (post_ttl p) r))"
    by (rule mark_sent_row [OF w(2)]) (simp add: is_sending_def claim_row_def)
  have n: "notify p i s = (Sent, [\<lparr>em_to = fr_email (claim_row (post_now p) (post_ttl p) r),
      em_link_reference = fr_reference_id (claim_row (post_now p) (post_ttl p) r), em_settings = st\<rparr>],
      mark_sent (post_later p) i s2)"
    unfolding notify_def assms(2) option.case Let_def c prod.case assms(6) id m
    using assms(7,8) w rec by (simp add: delivers_def)
  show ?thesis using n fin by (simp add: claim_row_def)
qed

subsection \<open>The groups of a sweep\<close>

definition pairs_of :: "(string \<times> int list) list \<Rightarrow> (int \<times> string) set" where
  "pairs_of groups = {(i, t). \<exists>ids. (t, ids) \<in> set groups \<and> i \<in> set ids}"

definition flat_ids :: "(string \<times> int list) list \<Rightarrow> int list" where
  "flat_ids groups = concat (map snd groups)"

lemma add_candidate_pairs: "pairs_of (add_candidate c groups) = insert c (pairs_of groups)"
  by (induction c groups rule: add_candidate.induct) (auto simp: pairs_of_def)

lemma add_candidate_flat:
  "distinct (flat_ids groups) \<Longrightarrow> fst c \<notin> set (flat_ids groups) \<Longrightarrow>
   distinct (flat_ids (add_candidate c groups)) \<and> set (flat_ids (add_candidate c groups)) = insert (fst c) (set (flat_ids groups))"
  by (induction c groups rule: add_candidate.induct) (auto simp: flat_ids_def)

lemma group_fold:
  "distinct (flat_ids groups @ map fst cs) \<Longrightarrow>
   pairs_of (fold add_candidate cs groups) = set cs \<union> pairs_of groups \<and>
   distinct (flat_ids (fold add_candidate cs groups))"
proof (induction cs arbitrary: groups)
  case (Cons c cs)
  have "distinct (flat_ids (add_candidate c groups) @ map fst cs)"
    using Cons.prems add_candidate_flat [of groups c] by auto
  with Cons.IH [of "add_candidate c groups"] show ?case by (auto simp: add_candidate_pairs)
qed simp

lemma group_by_tenant_spec:
  "distinct (map fst cs) \<Longrightarrow>
   pairs_of (group_by_tenant cs) = set cs \<and> distinct (flat_ids (group_by_tenant cs))"
  using group_fold [of "[]" cs] by (simp add: group_by_tenant_def flat_ids_def pairs_of_def)

lemma split_once: "distinct xs \<Longrightarrow> x \<in> set xs \<Longrightarrow> \<exists>ys zs. xs = ys @ x # zs \<and> x \<notin> set ys \<and> x \<notin> set zs"
  by (metis split_list distinct.simps(2) distinct_append not_distinct_conv_prefix)

subsection \<open>The sweep is live\<close>

lemma split_groups:
  assumes "distinct (flat_ids groups)" "(t, ids) \<in> set groups" "i \<in> set ids"
  shows "\<exists>pre post a b. groups = pre @ (t, ids) # post \<and> ids = a @ i # b \<and> i \<notin> set a \<and> i \<notin> set b \<and>
    (\<forall>pair \<in> set pre. i \<notin> set (snd pair)) \<and> (\<forall>pair \<in> set post. i \<notin> set (snd pair))"
proof -
  obtain pre post where g: "groups = pre @ (t, ids) # post" using assms(2) by (metis split_list)
  have d: "distinct (flat_ids pre @ ids @ flat_ids post)" using assms(1) g by (simp add: flat_ids_def)
  then obtain a b where ab: "ids = a @ i # b" "i \<notin> set a" "i \<notin> set b"
    using split_once [of ids i] assms(3) by auto
  have "i \<notin> set (flat_ids pre)" "i \<notin> set (flat_ids post)" using d assms(3) by auto
  then show ?thesis using g ab by (auto simp: flat_ids_def)
qed

lemma distinct_owed: "distinct (map fr_id (forms (world_of w))) \<Longrightarrow> distinct (map fst (owed env w))"
proof -
  assume d: "distinct (map fr_id (forms (world_of w)))"
  let ?sel = "filter (\<lambda>r. claimable (we_now env) r \<and> fr_attempts r < we_max_attempts env \<and>
      fr_created_at r < we_now env - we_grace env) (forms (world_of w))"
  have "distinct (map fr_id ?sel)" using d by (simp add: distinct_map_filter)
  then have "distinct (map fr_id (sort_key fr_created_at ?sel))" by (simp add: distinct_map)
  then show ?thesis by (simp add: owed_def sweep_candidates_def world_of_def comp_def)
qed

lemma owed_row:
  assumes "(i, t) \<in> set (owed env w)" "distinct (map fr_id (forms (world_of w)))"
  shows "\<exists>r. form_by_id (world_of w) i = Some r \<and> claimable (we_now env) r \<and> fr_tenant_id r = t"
proof -
  obtain r where "r \<in> set (forms (world_of w))" "claimable (we_now env) r" "fr_id r = i" "fr_tenant_id r = t"
    using assms(1) by (auto simp: owed_def sweep_candidates_def world_of_def)
  then show ?thesis using find_key_unique [OF assms(2)] by (auto simp: form_by_id_def)
qed

lemma revive_tenant_keeps:
  "clean (wk_db w) \<Longrightarrow> clean (wk_db (revive_tenant env t w)) \<and> wk_mails (revive_tenant env t w) = wk_mails w \<and>
    map fr_id (forms (world_of (revive_tenant env t w))) = map fr_id (forms (world_of w))"
  by (simp add: revive_tenant_def rollback_clean world_of_def revive_smtp_unconfigured_def exec_update_def
      map_key_update_where revive_row_def)

lemma revive_keeps:
  "clean (wk_db w) \<Longrightarrow> clean (wk_db (fold (revive_tenant env) ts w)) \<and>
    map fr_id (forms (world_of (fold (revive_tenant env) ts w))) = map fr_id (forms (world_of w))"
  by (induction ts arbitrary: w) (auto simp: revive_tenant_keeps)

text \<open>C8. A sweep delivers what it owes. Take any request the sweep finds to be owed an e-mail, in a
  tenant whose SMTP secrets resolve, with a web link and a task that is not closed. If no call
  raises, no other session interferes and the mail server accepts this request's e-mail, then after
  the pass the request is recorded as sent and an e-mail with its reference went to its recipient,
  whatever the other tenants' configuration and the other requests' mail servers do.\<close>

theorem sweep_delivers_what_it_owes:
  assumes "clean (wk_db w)" "distinct (map fr_id (forms (world_of w)))" "undisturbed env"
    and "w1 = revive_reconfigured_tenants env w" "(i, t) \<in> set (owed env w1)"
    and "form_by_id (world_of w1) i = Some r" "\<not> task_closed (human_task_for (world_of w1) r)"
    and "url_scheme (fr_external_form_url r) \<in> {''http'', ''https''}"
    and "\<not> we_readiness_fails env t" "rd_ok (smtp_readiness (we_secrets env) t)"
    and "\<forall>k. delivers (we_post env k i) \<and> we_now env \<le> post_now (we_post env k i) \<and>
      resolve_smtp_settings (post_secrets (we_post env k i)) t = Some st"
  shows "(\<exists>r'. form_by_id (world_of (run_sweep env w)) i = Some r' \<and> fr_status r' = Notified \<and>
      fr_email r' = fr_email r \<and> fr_reference_id r' = fr_reference_id r) \<and>
    \<lparr>em_to = fr_email r, em_link_reference = fr_reference_id r, em_settings = st\<rparr> \<in> set (wk_mails (run_sweep env w))"
proof -
  have c1: "clean (wk_db w1)" and d1: "distinct (map fr_id (forms (world_of w1)))"
    using revive_keeps [OF assms(1)] assms(2,4) by (auto simp: revive_reconfigured_tenants_def)
  have spec: "pairs_of (group_by_tenant (owed env w1)) = set (owed env w1)"
      "distinct (flat_ids (group_by_tenant (owed env w1)))"
    using group_by_tenant_spec [OF distinct_owed [OF d1]] by auto
  have "(i, t) \<in> pairs_of (group_by_tenant (owed env w1))" using assms(5) spec(1) by simp
  then obtain ids where ids: "(t, ids) \<in> set (group_by_tenant (owed env w1))" "i \<in> set ids"
    by (auto simp: pairs_of_def)
  from split_groups [OF spec(2) ids] obtain pre later a b where g: "group_by_tenant (owed env w1) = pre @ (t, ids) # later"
      "ids = a @ i # b" "i \<notin> set a" "i \<notin> set b" "\<forall>pair \<in> set pre. i \<notin> set (snd pair)"
      "\<forall>pair \<in> set later. i \<notin> set (snd pair)" by blast
  define w2 where "w2 = fold (sweep_tenant env) pre w1"
  define w3 where "w3 = notify_each env t a w2"
  define w4 where "w4 = snd (notify_one env t i w3)"
  define w5 where "w5 = notify_each env t b w4"
  have u2: "untouched i w1 w2" unfolding w2_def by (rule untouched_sweep_groups [OF assms(3) c1 g(5)])
  have u3: "untouched i w2 w3" unfolding w3_def
    by (rule untouched_notify_each [OF assms(3) untouched_clean_w [OF u2 c1] g(3)])
  have u13: "untouched i w1 w3" using untouched_trans [OF u2 u3] .
  have c3: "clean (wk_db w3)" using untouched_clean_w [OF u13 c1] .
  have row3: "form_by_id (working (wk_db w3)) i = Some r" "items (working (wk_db w3)) = items (world_of w1)"
      "distinct (map fr_id (forms (working (wk_db w3))))"
    using u13 assms(6) d1 by (auto simp: untouched_def untouched_db_def world_of_def)
  have r: "claimable (we_now env) r" "fr_tenant_id r = t"
    using owed_row [OF assms(5) d1] assms(6) by auto
  have open3: "\<not> task_closed (human_task_for (working (wk_db w3)) r)"
    using assms(7) row3(2) by (simp add: human_task_for_def)
  let ?p = "we_post env (wk_calls w3) i"
  have "\<exists>s'. notify ?p i (wk_db w3) = (Sent, [\<lparr>em_to = fr_email r, em_link_reference = fr_reference_id r, em_settings = st\<rparr>], s')
      \<and> form_by_id (working s') i = Some (sent_row (post_later ?p) (claim_row (post_now ?p) (post_ttl ?p) r))"
    using assms(11) r(2) by (intro notify_delivers [OF row3(3,1) r(1) _ open3 _ assms(8)]) auto
  then obtain s' where n: "notify ?p i (wk_db w3) = (Sent, [\<lparr>em_to = fr_email r, em_link_reference = fr_reference_id r, em_settings = st\<rparr>], s')"
      "form_by_id (working s') i = Some (sent_row (post_later ?p) (claim_row (post_now ?p) (post_ttl ?p) r))" by blast
  have none: "we_broken env k = None" for k using assms(3) by (simp add: undisturbed_def)
  have w4: "wk_db w4 = commit s'"
      "wk_mails w4 = wk_mails w3 @ [\<lparr>em_to = fr_email r, em_link_reference = fr_reference_id r, em_settings = st\<rparr>]"
    by (simp_all add: w4_def notify_one_def Let_def n(1) none)
  have u5: "untouched i w4 w5" unfolding w5_def
    by (rule untouched_notify_each [OF assms(3) _ g(4)]) (simp add: w4)
  have group: "sweep_tenant env (t, ids) w2 = w5"
    using assms(9,10) by (simp add: sweep_tenant_def rd_ok_def g(2) notify_each_def w3_def w4_def w5_def)
  have end_eq: "run_sweep env w = fold (sweep_tenant env) later w5"
    using group by (simp add: run_sweep_def Let_def assms(4) [symmetric] g(1) w2_def)
  have u6: "untouched i w5 (run_sweep env w)" unfolding end_eq
    by (rule untouched_sweep_groups [OF assms(3) untouched_clean_w [OF u5] g(6)]) (simp add: w4)
  have u: "untouched i w4 (run_sweep env w)" using untouched_trans [OF u5 u6] .
  have "form_by_id (world_of (run_sweep env w)) i = Some (sent_row (post_later ?p) (claim_row (post_now ?p) (post_ttl ?p) r))"
    using u n(2) w4(1) by (simp add: untouched_def untouched_db_def world_of_def)
  moreover have "\<lparr>em_to = fr_email r, em_link_reference = fr_reference_id r, em_settings = st\<rparr>
      \<in> set (wk_mails (run_sweep env w))"
    using u w4(2) by (auto simp: untouched_def)
  ultimately show ?thesis by (simp add: sent_row_def claim_row_def)
qed

subsection \<open>The sweep and the messages are safe\<close>

lemma evolves_same: "durable t = durable s \<Longrightarrow> working t = working s \<Longrightarrow> evolves core s t"
  by (simp add: evolves_def clean_def links_kept_refl)

lemma evolves_record_sent: "evolves core s (snd (record_sent_from n a ok now j s))"
proof (induction n arbitrary: a s)
  case (Suc n)
  show ?case
  proof (cases "ok a")
    case False
    have "evolves core s (rollback s)" by (rule evolves_rollback) simp
    from evolves_trans [OF this Suc.IH] False show ?thesis by simp
  qed (simp add: evolves_sent)
qed (simp add: evolves_refl)

lemma evolves_notify:
  assumes "\<And>s. evolves core s (post_meanwhile p s)"
  shows "evolves core s (snd (snd (notify p j s)))"
proof (cases "form_by_id (working s) j")
  case None
  then show ?thesis by (simp add: notify_def evolves_refl)
next
  case (Some row0)
  then have j: "row0 \<in> set (forms (working s))" "fr_id row0 = j"
    by (auto simp: form_by_id_def dest: find_Some_iff_props)
  obtain closed row s1 where c: "cancel_if_task_closed (post_now p) row0
      (if post_task_readable p then human_task_for (working s) row0 else None) s = (closed, row, s1)"
    by (metis prod_cases3)
  have row: "fr_id row = j" using cancel_keeps_id [of "post_now p" row0] c j(2) by (metis fst_conv snd_conv)
  have s1: "evolves core s s1" using evolves_cancel [OF j(1)] c by (metis snd_conv)
  obtain mine s2 where m: "claim_request (post_now p) (post_ttl p) j s1 = (mine, s2)" by fastforce
  have s2: "evolves core s s2" using evolves_trans [OF s1 evolves_claim] m by (metis snd_conv)
  have park: "evolves core s (snd (mark_smtp_unconfigured (post_now p) [j] reason s1))" for reason
    using evolves_trans [OF s1 evolves_park] .
  have rel: "evolves core s (release_failed now j e s2)" for now e
    using evolves_trans [OF s2 evolves_release] .
  have undone: "evolves core s (release_failed now j e (post_meanwhile p (rollback s2)))" for now e
  proof -
    have "evolves core s2 (rollback s2)" by (rule evolves_rollback) simp
    then show ?thesis using s2 assms evolves_release evolves_trans by metis
  qed
  have rec: "evolves core s (snd (record_sent ok now j (post_meanwhile p s2)))" for ok now
    unfolding record_sent_def using s2 assms evolves_record_sent evolves_trans by metis
  show ?thesis
    unfolding notify_def Some option.case Let_def c prod.case row m
    using s1 s2 park rel undone rec by (auto split: option.splits prod.splits) (metis snd_conv)+
qed

text \<open>Whatever interrupts a call or runs beside it keeps the link table's promises itself.\<close>

definition well_behaved :: "core \<Rightarrow> worker_env \<Rightarrow> bool" where
  "well_behaved core env \<longleftrightarrow>
     (\<forall>k i s. evolves core s (post_meanwhile (we_post env k i) s)) \<and>
     (\<forall>k e part s. we_broken env k = Some (e, part) \<longrightarrow> evolves core s (rollback (snd (part s))))"

lemma evolves_notify_one:
  assumes "well_behaved core env"
  shows "evolves core (wk_db w) (wk_db (snd (notify_one env tid j w)))"
proof (cases "we_broken env (wk_calls w)")
  case None
  obtain r mails s where n: "notify (we_post env (wk_calls w) j) j (wk_db w) = (r, mails, s)"
    by (metis prod_cases3)
  have "evolves core (wk_db w) s"
    using evolves_notify [of core "we_post env (wk_calls w) j" "wk_db w" j] assms n
    by (simp add: well_behaved_def)
  moreover have "evolves core s (commit s)" by (rule evolves_commit) (rule links_kept_refl)
  ultimately have "evolves core (wk_db w) (commit s)" by (rule evolves_trans)
  with None n show ?thesis by (simp add: notify_one_def Let_def)
next
  case (Some b)
  obtain e part where b: "b = (e, part)" by fastforce
  obtain mails s where "part (wk_db w) = (mails, s)" by fastforce
  moreover have "evolves core (wk_db w) (rollback (snd (part (wk_db w))))"
    using assms Some b by (auto simp: well_behaved_def)
  ultimately show ?thesis using Some b by (simp add: notify_one_def Let_def)
qed

lemma evolves_fold:
  "(\<And>x w. evolves core (wk_db w) (wk_db (f x w))) \<Longrightarrow> evolves core (wk_db w) (wk_db (fold f xs w))"
  by (induction xs arbitrary: w) (auto simp: evolves_refl intro: evolves_trans)

lemma evolves_sweep_tenant:
  assumes "well_behaved core env"
  shows "evolves core (wk_db w) (wk_db (sweep_tenant env pair w))"
proof -
  obtain t ids where p: "pair = (t, ids)" by fastforce
  have each: "evolves core (wk_db w) (wk_db (notify_each env t ids w))" for w
    unfolding notify_each_def by (rule evolves_fold) (rule evolves_notify_one [OF assms])
  have undone: "evolves core (wk_db w) (rollback (wk_db w))" by (rule evolves_rollback) simp
  show ?thesis using each [of w] undone evolves_park [of core "wk_db w"]
    by (simp add: sweep_tenant_def p split: option.splits)
qed

lemma evolves_revive_tenant: "evolves core (wk_db w) (wk_db (revive_tenant env t w))"
proof -
  have "evolves core (wk_db w) (rollback (wk_db w))" by (rule evolves_rollback) simp
  then show ?thesis by (simp add: revive_tenant_def evolves_refl evolves_revive)
qed

lemma evolves_run_sweep:
  assumes "well_behaved core env"
  shows "evolves core (wk_db w) (wk_db (run_sweep env w))"
proof -
  have r: "evolves core (wk_db w) (wk_db (revive_reconfigured_tenants env w))"
    unfolding revive_reconfigured_tenants_def by (rule evolves_fold) (rule evolves_revive_tenant)
  have "evolves core (wk_db w1) (wk_db (fold (sweep_tenant env) groups w1))" for w1 groups
    by (rule evolves_fold) (rule evolves_sweep_tenant [OF assms])
  with r show ?thesis unfolding run_sweep_def Let_def by (rule evolves_trans)
qed

lemma record_audit_db [simp]: "wk_db (record_audit env t e outc m q p b w) = wk_db w"
  by (simp add: record_audit_def split: option.splits)

lemma evolves_notify_all:
  assumes "well_behaved core env"
  shows "evolves core (wk_db w) (wk_db (snd (notify_all env tid ids w)))"
proof (induction ids arbitrary: w)
  case (Cons i ids)
  obtain r w1 where n: "notify_one env tid i w = (r, w1)" by fastforce
  have "evolves core (wk_db w) (wk_db w1)" using evolves_notify_one [OF assms, of w tid i] n by simp
  then have "evolves core (wk_db w) (wk_db (snd (notify_all env tid ids w1)))" using Cons.IH evolves_trans by blast
  with n show ?case by (simp add: Let_def split: prod.splits) (metis snd_conv)
qed (simp add: evolves_refl)

lemma evolves_process_message:
  assumes "well_behaved core env"
  shows "evolves core (wk_db w) (wk_db (snd (process_message env msg w)))"
  using evolves_notify_all [OF assms, of w]
  by (auto simp: process_message_def Let_def evolves_refl split: sum.splits option.splits prod.splits)
    (metis snd_conv)+

text \<open>The worker as a step system: a sweep round, or one message.\<close>

inductive worker_step :: "core \<Rightarrow> worker \<Rightarrow> worker \<Rightarrow> bool" for core where
  sweeping: "well_behaved core env \<Longrightarrow> worker_step core w (sweep_round env w)"
| receiving: "well_behaved core env \<Longrightarrow> worker_step core w (snd (process_message env msg w))"

inductive_cases worker_stepE: "worker_step core w w'"

lemma worker_step_evolves: "worker_step core w w' \<Longrightarrow> evolves core (wk_db w) (wk_db w')"
  by (erule worker_stepE) (simp_all add: sweep_round_def prune_audit_def evolves_run_sweep evolves_process_message)

interpretation notification_worker: step_system "worker_step core" "\<lambda>_. True"
    "\<lambda>w w'. evolves core (wk_db w) (wk_db w')" for core
  by unfold_locales (auto simp: evolves_refl intro: evolves_trans worker_step_evolves)

text \<open>The worker never damages a link: after any history of sweep rounds and broker messages,
  forged or not, with calls that raise at any point and with other sessions running meanwhile, the
  link table is well-formed, every row is there with its tenant, task, recipient and URL, and what
  was completed, superseded or cancelled is unchanged.\<close>

theorem worker_histories_keep_links_safe:
  assumes "(worker_step core)\<^sup>*\<^sup>* w w'" "core_keeps_forms core" "clean (wk_db w)" "world_ok (world_of w)"
  shows "world_ok (world_of w') \<and> (\<forall>r \<in> set (forms (world_of w)). \<exists>r' \<in> set (forms (world_of w')). link_kept r r')"
  using notification_worker.history [OF assms(1)] assms(2-4)
  by (simp add: evolves_def links_kept_def world_of_def)

subsection \<open>What a forged message can do\<close>

lemma notify_unknown:
  "form_by_id (world_of w) i = None \<Longrightarrow> we_broken env (wk_calls w) = None \<Longrightarrow>
   notify_one env tid i w = (Inr Skipped_unknown_request, w\<lparr>wk_db := commit (wk_db w), wk_calls := Suc (wk_calls w)\<rparr>)"
  by (simp add: notify_one_def Let_def notify_def world_of_def)

lemma notify_all_unknown:
  assumes "\<forall>i \<in> set ids. form_by_id (world_of w) i = None" "\<forall>k. we_broken env k = None"
  shows "fst (notify_all env tid ids w) = [] \<and> wk_audit (snd (notify_all env tid ids w)) = wk_audit w \<and>
    wk_mails (snd (notify_all env tid ids w)) = wk_mails w"
  using assms(1)
proof (induction ids arbitrary: w)
  case (Cons i ids)
  let ?w = "w\<lparr>wk_db := commit (wk_db w), wk_calls := Suc (wk_calls w)\<rparr>"
  have n: "notify_one env tid i w = (Inr Skipped_unknown_request, ?w)"
    using Cons.prems assms(2) by (intro notify_unknown) auto
  have none: "\<not> list_ex (startswith (notify_result_str Skipped_unknown_request)) UNDELIVERED_RESULTS"
    by code_simp
  have "\<forall>j \<in> set ids. form_by_id (world_of ?w) j = None" using Cons.prems by (simp add: world_of_def)
  from Cons.IH [OF this] none show ?case by (simp add: n Let_def split: prod.splits)
qed simp

text \<open>A well-formed message of which nothing is true clears a failure from the audit trail: a body
  that names a tenant and a task it knows of and request ids that exist nowhere sends no e-mail and
  is recorded as a success, in place of the failure recorded for that tenant's event.\<close>

theorem unknown_requests_overwrite_a_failure:
  assumes "wm_body msg = Inr (PDict data)" "extract_tenant_slug_from_subject (wm_subject msg) = Some slug"
    and "\<not> truthy (dget data ''tenant_slug'') \<or> dget data ''tenant_slug'' = PStr slug"
    and "dget data ''tenant_id'' = PStr victim" "victim \<noteq> []"
    and "dget data ''request_ids'' = PList (map PInt ids)" "ids \<noteq> []"
    and "\<forall>i \<in> set ids. form_by_id (world_of w) i = None" "\<forall>k. we_broken env k = None"
    and "find_event (audit_rows (wk_audit w)) victim (event_id_of data) Notification_worker = Some r"
    and "au_outcome r = Transient_error" "we_column env (dget data ''process_instance_id'') = Some pid"
  shows "\<exists>r'. r' \<in> set (audit_rows (wk_audit (snd (process_message env msg w)))) \<and> au_id r' = au_id r \<and>
    au_outcome r' = Instantiated \<and> wk_mails (snd (process_message env msg w)) = wk_mails w"
proof -
  have ok: "request_ids_ok (PList (map PInt ids))"
    using assms(7) by (simp add: request_ids_ok_def is_int_def list_all_iff)
  have ids: "map int_of (list_items (PList (map PInt ids))) = ids" by (simp add: int_of_def comp_def)
  obtain failures w1 where n: "notify_all env victim ids w = (failures, w1)" by fastforce
  then have f: "failures = []" "wk_audit w1 = wk_audit w" "wk_mails w1 = wk_mails w"
    using notify_all_unknown [OF assms(8,9), of victim] by simp_all
  have slug: "\<not> (truthy (dget data ''tenant_slug'') \<and> dget data ''tenant_slug'' \<noteq> PStr slug)" using assms(3) by blast
  have m: "snd (process_message env msg w) = record_audit env (PStr victim) (event_id_of data) Instantiated None
      (wm_stream_seq msg) (dget data ''process_instance_id'') False w1"
    unfolding process_message_def Let_def assms(1,2,4,6) sum.case option.case dict_items.simps if_not_P [OF slug]
    using ok assms(5) n f(1) unfolding ids by (simp add: py_str_def)
  have found: "find_event (audit_rows (wk_audit w1)) (attributed (Some victim)) (event_id_of data) Notification_worker = Some r"
    using assms(5,10) by (simp add: f(2) attributed_def)
  then have mem: "r \<in> set (audit_rows (wk_audit w1))"
    unfolding find_event_def by (auto split: if_splits dest!: find_Some_iff_props)
  have ow: "may_overwrite (au_outcome r) Instantiated" by (simp add: assms(11) may_overwrite_def)
  show ?thesis
    using update_where_hit [OF mem, of "\<lambda>x. au_id x = au_id r"] found ow assms(5,12)
    by (auto simp: m record_audit_def f(3) record_outcome_def apply_outcome_def swallow_def update_row_def
        in_update_where fill_row_def intro!: bexI [OF _ mem])
qed

end
