(* ===== verification/Link_Witnesses.thy ===== *)
theory Link_Witnesses
  imports Demo Worker_Laws
begin

text \<open>
  Each property applied to the demo deployment: its hypotheses hold there, and the definitions
  compute what it says.
\<close>

subsection \<open>Links\<close>

lemma sent_world_ok: "world_ok (working sent_db)"
  by code_simp

lemma pending_world_ok: "world_ok (working pending_db)"
  by code_simp

definition demo_ops :: "form_op list" where
  "demo_ops = [ClaimOp 100 86400 1, SentOp 101 1, SubmitOp demo_env no_file no_json True ''r1'' demo_data,
     ReissueOp 120 86400 ''r9'' 2 ''t1'', ReadOp 130 True ''r2'']"

theorem every_history_of_links_is_safe_witness:
  "world_ok (working (fold (run_form_op demo_core) demo_ops pending_db)) \<and>
   (\<exists>r' \<in> set (forms (working (fold (run_form_op demo_core) demo_ops pending_db))).
      link_kept (demo_form 1 ''r1'' Pending None) r')"
proof -
  have "demo_form 1 ''r1'' Pending None \<in> set (forms (working pending_db))"
    by (simp add: pending_db_def demo_world_def)
  then show ?thesis
    using every_history_of_links_is_safe [OF demo_core_keeps_forms _ pending_world_ok refl, of demo_ops]
    by (simp add: pending_db_def)
qed

theorem one_claim_per_lease_witness:
  "length (filter (\<lambda>won. won) (attempts 60 1 [Claim 100, Claim 101, Record 102, Claim 220] pending_db)) \<le> 1 \<and>
   attempts 60 1 [Claim 100, Claim 101, Record 102, Claim 220] pending_db = [True, False, False]"
proof (intro conjI)
  show "length (filter (\<lambda>won. won) (attempts 60 1 [Claim 100, Claim 101, Record 102, Claim 220] pending_db)) \<le> 1"
    by (rule one_claim_per_lease)
      (simp_all add: pending_db_def demo_world_def demo_form_def SEND_LEASE_SECONDS_def)
  show "attempts 60 1 [Claim 100, Claim 101, Record 102, Claim 220] pending_db = [True, False, False]"
    by code_simp
qed

theorem first_submission_wins_witness:
  "fst (submit demo_core demo_env no_file no_json True
     (snd (snd (submit demo_core demo_env no_file no_json True sent_db ''r1'' demo_data))) ''r1'' [])
   = Inl (ApiError ''already_submitted'' ''This form has already been submitted.'' 409)"
proof -
  have "fst (submit demo_core demo_env no_file no_json True sent_db ''r1'' demo_data)
    = Inr [(''reference_id'', PStr ''r1''), (''status'', PStr ''completed''), (''process_instance_id'', PInt 7)]"
    by code_simp
  from first_submission_wins [OF demo_core_keeps_forms _ fst_triple [OF this]] show ?thesis
    by (simp add: sent_db_def)
qed


lemma sent_keys:
  "distinct (map fr_id (forms (working sent_db)))"
  "distinct (map fr_reference_id (forms (working sent_db)))"
  "''r9'' \<notin> fr_reference_id ` set (forms (working sent_db))"
  by code_simp+

lemma pending_keys: "distinct (map fr_id (forms (working pending_db)))"
  by code_simp

theorem reissue_rotates_the_credential_witness:
  "\<exists>row'. claimable 100 row' \<and> fr_expires_at row' = Some 160 \<and>
     form_by_reference (working (snd (reissue 100 60 ''r9'' sent_db 1 ''t1''))) ''r9'' = Some row' \<and>
     submit demo_core demo_env no_file no_json True (snd (reissue 100 60 ''r9'' sent_db 1 ''t1'')) ''r1'' demo_data
       = (Inl (ApiError ''invalid_reference_id''
            ''No external form request was found for this link.'' 404), [],
          snd (reissue 100 60 ''r9'' sent_db 1 ''t1''))"
proof -
  have "isl (fst (reissue 100 60 ''r9'' sent_db 1 ''t1'')) = False" by code_simp
  note r = reissue_rotates_the_credential [OF result_pair [OF this] sent_keys(2,3,1),
      where core = demo_core and env = demo_env and rd = no_file and loads = no_json and ok = True
        and d = demo_data]
  then obtain row where row: "form_by_id (working sent_db) 1 = Some row" by blast
  moreover have "map_option fr_reference_id (form_by_id (working sent_db) 1) = Some ''r1''" by code_simp
  ultimately have "fr_reference_id row = ''r1''" by simp
  with r row show ?thesis by auto
qed

theorem no_reissue_while_sending_witness:
  "\<exists>e. reissue 120 60 ''r9'' (snd (claim_request 100 86400 1 pending_db)) 1 ''t1''
       = (Inl e, snd (claim_request 100 86400 1 pending_db)) \<and> err_status e \<in> {404, 409}"
proof -
  let ?s = "snd (claim_request 100 86400 1 pending_db)"
  have won: "fst (claim_request 100 86400 1 pending_db)" by code_simp
  have lease: "(120::int) \<le> 100 + SEND_LEASE_SECONDS" by (simp add: SEND_LEASE_SECONDS_def)
  have "map_option (\<lambda>r. task_closed (human_task_for (working ?s) r)) (form_by_id (working ?s) 1) = Some False"
    by code_simp
  then have "\<forall>r. form_by_id (working ?s) 1 = Some r \<longrightarrow> \<not> task_closed (human_task_for (working ?s) r)"
    by auto
  from no_reissue_while_sending [OF pending_keys won refl lease this] show ?thesis by blast
qed

theorem sweep_lists_what_can_be_claimed_witness:
  "fst (claim_request 100 60 1 pending_db) \<and>
   (1, ''t1'') \<notin> set (sweep_candidates (100 + SEND_LEASE_SECONDS) 30 5
      (working (snd (claim_request 100 60 1 pending_db))))"
proof -
  have "(1, ''t1'') \<in> set (sweep_candidates 100 30 5 (working pending_db))" by code_simp
  from sweep_lists_what_can_be_claimed [OF pending_keys this] show ?thesis by blast
qed

theorem parking_ends_retries_until_revived_witness:
  "(1, ''t1'') \<notin> set (sweep_candidates 900 30 5
      (working (snd (mark_smtp_unconfigured 100 [1, 2] ''no host'' pending_db)))) \<and>
   (\<exists>r. form_by_id (working (snd (revive_smtp_unconfigured 900 ''t1''
          (snd (mark_smtp_unconfigured 100 [1, 2] ''no host'' pending_db))))) 1 = Some r \<and>
        claimable 900 r \<and> fr_attempts r = 0 \<and> fr_tenant_id r = ''t1'')"
proof -
  have "map fst (filter (\<lambda>(i, t). t = ''t1'') (sweep_candidates 100 30 5 (working pending_db))) = [1, 2]"
    by code_simp
  from parking_ends_retries_until_revived [OF this [symmetric] pending_keys refl refl, of 1] show ?thesis
    by simp
qed

definition demo_recipient :: "int \<Rightarrow> recipient" where
  "demo_recipient u = \<lparr>rcp_user_id = u, rcp_email = ''u@example.org'', rcp_user_details = None\<rparr>"

theorem creation_never_duplicates_witness:
  "(\<lambda>(res, s'). fst (create_requests_for_task 200 60 (\<lambda>k. ''x'') None s' ''t1'' 7 ''g1'' ''https://f''
       [demo_recipient 6] None) = Inr [] \<and>
     \<not> isl res \<and> length (projr res) = 2 \<and>
     length (live_links 7 ''g1'' 5 (working s')) \<le> 1)
   (create_requests_for_task 100 60 (\<lambda>k. nat_str k) None empty_db ''t1'' 7 ''g1'' ''https://f''
      [demo_recipient 5, demo_recipient 6] None)"
proof -
  let ?c = "create_requests_for_task 100 60 (\<lambda>k. nat_str k) None empty_db ''t1'' 7 ''g1'' ''https://f''
      [demo_recipient 5, demo_recipient 6] None"
  have "isl (fst ?c) = False" by code_simp
  note c = creation_never_duplicates [OF result_pair [OF this], where ?rs2.0 = "[demo_recipient 6]"]
  have "length (projr (fst ?c)) = 2" by code_simp
  moreover have "distinct (map rcp_user_id [demo_recipient 5, demo_recipient 6])" by code_simp
  moreover have "\<forall>u. length (live_links 7 ''g1'' u (working empty_db)) \<le> 1"
    by (simp add: live_links_def empty_db_def demo_world_def)
  ultimately show ?thesis
    using c \<open>isl (fst ?c) = False\<close> by (simp add: split_def)
qed

definition demo_secrets :: secret_store where
  "demo_secrets tid = [(SMTP_HOST, Some ''mail''), (SMTP_FROM_EMAIL, Some ''m8@example.org'')]"

definition demo_post :: post where
  "demo_post = \<lparr>post_now = 100, post_later = 101, post_ttl = 86400, post_secrets = demo_secrets,
     post_task_readable = True, post_smtp = (\<lambda>m. None), post_recorded = (\<lambda>k. True),
     post_meanwhile = (\<lambda>s. s)\<rparr>"

theorem notify_sends_only_live_links_witness:
  "length (fst (snd (notify demo_post 1 pending_db))) = 1 \<and>
   fst (notify demo_post 1 pending_db) \<in> {Sent, Sent_unrecorded} \<and>
   fst (claim_request 100 86400 1 pending_db)"
proof -
  have "length (fst (snd (notify demo_post 1 pending_db))) = 1" by code_simp
  with notify_sends_only_live_links [of demo_post 1 pending_db "fst (notify demo_post 1 pending_db)"
      "fst (snd (notify demo_post 1 pending_db))" "snd (snd (notify demo_post 1 pending_db))"]
  show ?thesis by (auto simp: demo_post_def)
qed

text \<open>
  The worker properties on the demo deployment: two links wait for their e-mail, the tenant's SMTP
  secrets resolve, and the audit table holds one failure of the notification worker.
\<close>

definition demo_worker_env :: worker_env where
  "demo_worker_env = \<lparr>we_now = 100, we_grace = 30, we_max_attempts = 5, we_secrets = demo_secrets,
     we_post = (\<lambda>k i. demo_post), we_broken = (\<lambda>k. None), we_revive_fails = (\<lambda>t. False),
     we_readiness_fails = (\<lambda>t. False), we_park_fails = (\<lambda>t. False), we_column = (\<lambda>v. Some None),
     we_retention_days = 30, we_known_tenants = [''t1''], we_visible = (\<lambda>r. True)\<rparr>"

text \<open>The message is for task \<open>g1\<close> of instance 7; its request ids are of no row.\<close>

definition demo_forged :: "(string \<times> pyval) list" where
  "demo_forged = [(''tenant_id'', PStr ''t1''), (''process_instance_id'', PInt 7), (''task_guid'', PStr ''g1''),
     (''request_ids'', PList [PInt 998, PInt 999])]"

definition demo_notification :: broker_message where
  "demo_notification = \<lparr>wm_subject = ''m8flow.notifications.acme.external-form'',
     wm_body = Inr (PDict demo_forged), wm_stream_seq = Some 3\<rparr>"

definition demo_failure :: audit_row where
  "demo_failure = \<lparr>au_id = 1, au_tenant_id = Some ''t1'', au_event_id = Some ''extform-7-g1'',
     au_worker = Notification_worker, au_stream_seq = Some 2, au_process_identifier = None,
     au_username = None, au_outcome = Transient_error, au_duplicate_count = 0,
     au_error_message = Some ''1: failed: mail server refused'', au_process_instance_id = None,
     au_completed_at = None, au_created_at = 90, au_updated_at = 90\<rparr>"

definition demo_worker :: worker where
  "demo_worker = \<lparr>wk_db = pending_db, wk_audit = \<lparr>audit_rows = [demo_failure], audit_seq = 1\<rparr>,
     wk_mails = [], wk_calls = 0\<rparr>"

lemma demo_quiet:
  "we_broken demo_worker_env k = None" "post_meanwhile (we_post demo_worker_env k i) = id"
  by (auto simp: demo_worker_env_def demo_post_def id_def)

lemma demo_well_behaved: "well_behaved core demo_worker_env"
  by (simp add: well_behaved_def demo_quiet evolves_refl)

lemma demo_worker_clean: "clean (wk_db demo_worker)"
  by (simp add: demo_worker_def pending_db_def)

theorem sweep_delivers_what_it_owes_witness:
  "\<exists>r'. form_by_id (world_of (run_sweep demo_worker_env demo_worker)) 2 = Some r' \<and> fr_status r' = Notified"
proof -
  have w1: "revive_reconfigured_tenants demo_worker_env demo_worker = demo_worker"
  proof -
    have "tenants_with_parked_requests (working (wk_db demo_worker)) = []" by code_simp
    then show ?thesis by (simp add: revive_reconfigured_tenants_def)
  qed
  have d: "distinct (map fr_id (forms (world_of demo_worker)))"
      "(2, ''t1'') \<in> set (owed demo_worker_env demo_worker)"
      "form_by_id (world_of demo_worker) 2 = Some (demo_form 2 ''r2'' Pending None)"
      "\<not> task_closed (human_task_for (world_of demo_worker) (demo_form 2 ''r2'' Pending None))"
      "url_scheme (fr_external_form_url (demo_form 2 ''r2'' Pending None)) \<in> {''http'', ''https''}"
      "\<not> we_readiness_fails demo_worker_env ''t1''" "rd_ok (smtp_readiness (we_secrets demo_worker_env) ''t1'')"
    by code_simp+
  obtain st where st: "resolve_smtp_settings demo_secrets ''t1'' = Some st"
  proof (cases "resolve_smtp_settings demo_secrets ''t1''")
    case None
    moreover have "resolve_smtp_settings demo_secrets ''t1'' \<noteq> None" by code_simp
    ultimately show ?thesis by blast
  qed
  have u: "undisturbed demo_worker_env" by (simp add: undisturbed_def demo_quiet)
  have p: "\<forall>k. delivers (we_post demo_worker_env k 2) \<and> we_now demo_worker_env \<le> post_now (we_post demo_worker_env k 2) \<and>
      resolve_smtp_settings (post_secrets (we_post demo_worker_env k 2)) ''t1'' = Some st"
    using st by (simp add: demo_worker_env_def demo_post_def delivers_def id_def)
  from sweep_delivers_what_it_owes [OF demo_worker_clean d(1) u w1 [symmetric] d(2-7) p]
  show ?thesis by blast
qed

theorem worker_histories_keep_links_safe_witness:
  "world_ok (world_of (snd (process_message demo_worker_env demo_notification
     (sweep_round demo_worker_env demo_worker))))"
proof -
  let ?w1 = "sweep_round demo_worker_env demo_worker"
  have "worker_step demo_core demo_worker ?w1" by (rule sweeping [OF demo_well_behaved])
  moreover have "worker_step demo_core ?w1 (snd (process_message demo_worker_env demo_notification ?w1))"
    by (rule receiving [OF demo_well_behaved])
  ultimately have steps: "(worker_step demo_core)\<^sup>*\<^sup>* demo_worker
      (snd (process_message demo_worker_env demo_notification ?w1))" by simp
  have "world_ok (world_of demo_worker)" using pending_world_ok by (simp add: world_of_def demo_worker_def)
  from worker_histories_keep_links_safe [OF steps demo_core_keeps_forms demo_worker_clean this]
  show ?thesis by blast
qed

theorem unknown_requests_overwrite_a_failure_witness:
  "\<exists>r'. r' \<in> set (audit_rows (wk_audit (snd (process_message demo_worker_env demo_notification demo_worker)))) \<and>
     au_id r' = 1 \<and> au_outcome r' = Instantiated"
proof -
  have h: "wm_body demo_notification = Inr (PDict demo_forged)"
      "extract_tenant_slug_from_subject (wm_subject demo_notification) = Some ''acme''"
      "\<not> truthy (dget demo_forged ''tenant_slug'') \<or> dget demo_forged ''tenant_slug'' = PStr ''acme''"
      "dget demo_forged ''tenant_id'' = PStr ''t1''" "''t1'' \<noteq> []"
      "dget demo_forged ''request_ids'' = PList (map PInt [998, 999])" "[998, 999] \<noteq> ([] :: int list)"
      "\<forall>i \<in> set [998, 999]. form_by_id (world_of demo_worker) i = None"
    by code_simp+
  have q: "\<forall>k. we_broken demo_worker_env k = None" by (simp add: demo_quiet)
  have f: "find_event (audit_rows (wk_audit demo_worker)) ''t1'' (event_id_of demo_forged) Notification_worker = Some demo_failure"
      "au_outcome demo_failure = Transient_error"
      "we_column demo_worker_env (dget demo_forged ''process_instance_id'') = Some None" "au_id demo_failure = 1"
    by code_simp+
  from unknown_requests_overwrite_a_failure [OF h q f(1-3)] f(4) show ?thesis by metis
qed

end
