(* ===== verification/Task_Witnesses.thy ===== *)
theory Task_Witnesses
  imports Demo
begin

text \<open>
  The properties of task commands, form submissions and outcome buttons, applied to the demo
  deployment.
\<close>

subsection \<open>Commands on tasks\<close>

theorem suspended_instance_takes_no_task_write_witness:
  "(\<exists>m. claim demo_core suspended_db ''t1'' 1 5
          = (Inl (ApiExn (ApiError ''invalid_state'' m 409)), suspended_db)) \<and>
   (\<exists>m. complete demo_core demo_env suspended_db ''t1'' 1 5 None
          = (Inl (ApiExn (ApiError ''invalid_state'' m 409)), [], suspended_db))"
proof -
  have "task_of_suspended_instance (working suspended_db) ''t1'' 1"
    by (simp add: task_of_suspended_instance_def lookup_defs demo_defs)
  from suspended_instance_takes_no_task_write [OF this] show ?thesis by blast
qed

lemma suspended_lookups:
  "form_by_reference (working suspended_db) ''r1'' = Some (demo_form 1 ''r1'' Notified (Some 20))"
  "is_actionable (demo_form 1 ''r1'' Notified (Some 20))"
  "\<not> run_out (env_now demo_env) (demo_form 1 ''r1'' Notified (Some 20))"
  "human_task_for (working suspended_db) (demo_form 1 ''r1'' Notified (Some 20)) = Some demo_item"
  "\<not> wi_completed demo_item"
  "user_by_id (working suspended_db) (fr_recipient_user_id (demo_form 1 ''r1'' Notified (Some 20)))
     = Some (demo_user 5)"
  by code_simp+

lemma suspended_task:
  "task_of_suspended_instance (working suspended_db) (fr_tenant_id (demo_form 1 ''r1'' Notified (Some 20)))
     (wi_id demo_item)"
  by (simp add: task_of_suspended_instance_def lookup_defs demo_defs)

theorem suspended_submission_consumes_the_link_witness:
  "\<exists>s' r. submit demo_core demo_env no_file no_json True suspended_db ''r1'' demo_data
     = (Inl (ApiError ''already_submitted'' ''This task has already been completed.'' 409), [], s') \<and>
   form_by_reference (durable s') ''r1'' = Some r \<and> fr_status r = Completed \<and>
   items (durable s') = items (working suspended_db)"
proof -
  have cl: "clean suspended_db" by (simp add: suspended_db_def)
  show ?thesis
    using suspended_submission_consumes_the_link [OF suspended_lookups(1-5) suspended_task
      suspended_lookups(6) cl, of demo_core no_file no_json True demo_data]
    by blast
qed

lemma sent_item: "work_item_by_id (working sent_db) 1 = Some demo_item"
  by (simp add: lookup_defs demo_defs)

theorem no_in_app_completion_while_a_link_is_open_witness:
  "\<exists>e. complete demo_core demo_env sent_db ''t1'' 1 5 None = (Inl (ApiExn e), [], sent_db) \<and>
       err_status e = 409"
proof -
  have 1: "wi_tenant_id demo_item = ''t1''" by code_simp
  have 2: "external_form_url_for_task demo_item \<noteq> None" by code_simp
  have 3: "link_open (working sent_db) (env_now demo_env) ''t1'' demo_item" by code_simp
  have 4: "\<not> env_external demo_env" by code_simp
  show ?thesis by (rule no_in_app_completion_while_a_link_is_open [OF sent_item 1 2 3 4])
qed

text \<open>An instance with a second form task behind the first.\<close>

definition second_item :: work_item where
  "second_item = demo_item\<lparr>wi_id := 2, wi_task_guid := ''g2''\<rparr>"

definition two_task_db :: db where
  "two_task_db = fresh_session ((demo_world ''waiting'' [])\<lparr>items := [demo_item, second_item]\<rparr>)"

definition deadlock_env :: env where
  "deadlock_env = demo_env\<lparr>env_commit_failure := (\<lambda>n. Some ''deadlock'')\<rparr>"

theorem failed_emission_discards_a_reported_completion_witness:
  "\<exists>s'. complete demo_core deadlock_env two_task_db ''t1'' 1 5 None = (Inr 7, [], s') \<and>
        working s' = durable two_task_db"
proof -
  let ?w = "snd (demo_core (CompleteTask ''t1'' 1 5 None) (working two_task_db))"
  have 1: "reject_task_write_if_instance_suspended (working two_task_db) ''t1'' 1 ''complete'' = None"
    by code_simp
  have 2: "reject_in_app_completion_of_external_form_task deadlock_env (working two_task_db) ''t1'' 1 = None"
    by code_simp
  have 3: "demo_core (CompleteTask ''t1'' 1 5
      (completion_payload (env_width deadlock_env) (working two_task_db) ''t1'' 1 None)) (working two_task_db)
      = (Inr 7, ?w)"
    by (simp add: completion_payload_def)
  have 4: "ready_tasks ?w ''t1'' 7 = second_item # []"
    by (simp add: ready_tasks_def two_task_db_def second_item_def update_where_def demo_defs)
  have 5: "external_form_url_for_task second_item = Some ''https://forms.example.org''" by code_simp
  have 6: "fst (recipients_for_task second_item) \<noteq> []" by code_simp
  have 7: "env_commit_failure deadlock_env 0 = Some ''deadlock''" by (simp add: deadlock_env_def)
  show ?thesis
    by (rule failed_emission_discards_a_reported_completion
      [where s = two_task_db and payload = None and core = demo_core, OF 1 2 3 4 5 6 7])
qed

theorem automatic_step_failure_means_task_completed_witness:
  "\<exists>e s'. complete failing_core demo_env empty_db ''t1'' 1 5 None = (Inl (ApiExn e), [], s') \<and>
     err_task_submitted e = Some True \<and>
     (\<exists>x \<in> set (items (durable s')). wi_id x = 1 \<and> wi_completed x)"
proof -
  let ?e = "automatic_step_failure_api_error demo_env (Some 7) ''mail server refused''"
  have "fst (complete failing_core demo_env empty_db ''t1'' 1 5 None) = Inl (ApiExn ?e) \<and>
      fst (snd (complete failing_core demo_env empty_db ''t1'' 1 5 None)) = []"
    by code_simp
  then have c: "complete failing_core demo_env empty_db ''t1'' 1 5 None
      = (Inl (ApiExn ?e), [], snd (snd (complete failing_core demo_env empty_db ''t1'' 1 5 None)))"
    by (metis fst_triple)
  have "error_code ?e = ''automatic_step_failed''" by (simp add: automatic_step_failure_api_error_def Let_def)
  note f = automatic_step_failure_means_task_completed [OF failing_core_records c this]
  have "map_option wi_id (work_item_by_id (working empty_db) 1) = Some 1" by code_simp
  then have "\<exists>x \<in> set (items (durable (snd (snd (complete failing_core demo_env empty_db ''t1'' 1 5 None))))).
      wi_id x = 1 \<and> wi_completed x"
    using f by auto
  then show ?thesis using f c by blast
qed

theorem submission_is_merged_into_the_task_variable_witness:
  "map_of (nest_payload_under_task_variable (working sent_db) ''t1'' 1 demo_data) ''outcome''
     = Some (PStr ''approve'') \<and>
   (\<exists>fields. map_of (nest_payload_under_task_variable (working sent_db) ''t1'' 1 demo_data) ''form''
       = Some (PDict fields) \<and> dget fields ''note'' = PStr ''fine'')"
proof -
  have 1: "wi_tenant_id demo_item = ''t1''" by code_simp
  have 2: "user_task_form_variable demo_item = Some ''form''" by code_simp
  have 3: "''form'' \<noteq> ''outcome''" by simp
  have 4: "distinct (map fst demo_data)" by code_simp
  have 5: "map_of demo_data ''outcome'' = Some (PStr ''approve'')"
    "map_of demo_data ''note'' = Some (PStr ''fine'')" by (simp_all add: demo_data_def)
  obtain fields where "map_of (nest_payload_under_task_variable (working sent_db) ''t1'' 1 demo_data) ''form''
       = Some (PDict fields)" "dget fields ''note'' = PStr ''fine''"
    using submission_is_merged_into_the_task_variable [OF sent_item 1 2 3 4] 5(2) by auto
  then show ?thesis
    using submission_is_merged_into_the_task_variable [OF sent_item 1 2 3 4] 5(1) by simp
qed

theorem completion_payload_fits_the_engine_witness:
  "\<exists>p. completion_payload (Some 20) (working sent_db) ''t1'' 1 (Some demo_data) = Some p \<and>
     (\<exists>(k, v) \<in> set p. k = ''form'' \<and> length v \<le> 20)"
proof -
  have "(case completion_payload (Some 20) (working sent_db) ''t1'' 1 (Some demo_data) of
      None \<Rightarrow> False | Some p \<Rightarrow> ''form'' \<in> fst ` set p)"
    by code_simp
  then obtain p v where p: "completion_payload (Some 20) (working sent_db) ''t1'' 1 (Some demo_data) = Some p"
      "(''form'', v) \<in> set p" by (auto split: option.splits)
  from completion_payload_fits_the_engine [OF p] have "length v \<le> 20"
    by (simp add: METADATA_VALUE_MAX_LENGTH_def)
  with p show ?thesis by auto
qed

subsection \<open>Forms\<close>

definition schema_file :: reader where
  "schema_file = (\<lambda>t m f. if f = ''review-schema.json'' then Some ''{}'' else None)"

definition demo_schema :: "(string \<times> pyval) list" where
  "demo_schema = [(''required'', PList [PStr ''note'']), (''properties'', PDict [(''note'', PDict [])])]"

definition schema_json :: "string \<Rightarrow> pyval option" where
  "schema_json = (\<lambda>s. Some (PDict demo_schema))"

theorem completed_form_has_its_required_fields_witness:
  "\<not> isl (fst (submit_external_form demo_core demo_env schema_file schema_json True empty_db ''t1'' 1 5
       (Some demo_data))) \<and>
   dget demo_data ''note'' \<noteq> PNone \<and> dget demo_data ''note'' \<noteq> PStr []"
proof -
  let ?r = "submit_external_form demo_core demo_env schema_file schema_json True empty_db ''t1'' 1 5
      (Some demo_data)"
  have run: "fst ?r = Inr 7" by code_simp
  have claimed: "fst (claim demo_core empty_db ''t1'' 1 5) = Inr 1" by code_simp
  have found: "work_item_by_id (working (snd (claim demo_core empty_db ''t1'' 1 5))) 1 = Some demo_item"
    by (simp add: claim_def execute_command_def reject_task_write_if_instance_suspended_def lookup_defs
        empty_db_def demo_defs)
  have files: "demo_schema = fst (load_form_files schema_file schema_json ''t1'' demo_item)" by code_simp
  have req: "PStr ''note'' \<in> set (list_items (dget demo_schema ''required''))" by code_simp
  have field: "''note'' \<in> fst ` set (dict_items (dget demo_schema ''properties''))" by code_simp
  show ?thesis
    using completed_form_has_its_required_fields
      [OF fst_triple [OF run] fst_pair [OF claimed] found files req field] run
    by simp
qed

theorem terminate_retires_every_open_link_witness:
  "fst (terminate_instance demo_core demo_env True sent_db ''t1'' 7 5) = Inr 7 \<and>
   \<not> (\<exists>r \<in> set (forms (working (snd (terminate_instance demo_core demo_env True sent_db ''t1'' 7 5)))).
        fr_tenant_id r = ''t1'' \<and> fr_process_instance_id r = 7 \<and> is_open r)"
proof -
  have t: "fst (terminate_instance demo_core demo_env True sent_db ''t1'' 7 5) = Inr 7" by code_simp
  show ?thesis
    using terminate_retires_every_open_link [OF demo_core_keeps_forms fst_pair [OF t]] t by blast
qed

subsection \<open>Outcomes\<close>

theorem outcome_literal_roundtrip_witness:
  "parse_outcome_literal (PStr (''outcome == '' @ CHR 0x27 # ''approve'' @ [CHR 0x27])) = Some ''approve''"
  using outcome_literal_roundtrip [of "CHR 0x27" "''approve''"] by simp

definition demo_flows :: "sequence_flow list" where
  "demo_flows = [\<lparr>flow_id = Some ''f1'', flow_name = Some ''Approve'', flow_target = Some ''pay''\<rparr>,
                 \<lparr>flow_id = Some ''f2'', flow_name = Some ''Reject'', flow_target = Some ''stop''\<rparr>]"

definition demo_gateway :: "(string \<times> pyval) list" where
  "demo_gateway = [(''default_task_spec'', PStr ''stop''),
     (''cond_task_specs'', PList [PDict [(''condition'', PStr (''outcome == '' @ CHR 0x27 # ''ok'' @ [CHR 0x27])),
        (''task_spec'', PStr ''pay'')]])]"

theorem outcome_buttons_are_honest_witness:
  "map out_value (gateway_outcomes demo_flows [] demo_gateway) = [''ok'', ''Reject''] \<and>
   length demo_flows > 1"
proof -
  have v: "map out_value (gateway_outcomes demo_flows [] demo_gateway) = [''ok'', ''Reject'']" by code_simp
  then have "hd (gateway_outcomes demo_flows [] demo_gateway) \<in> set (gateway_outcomes demo_flows [] demo_gateway)"
    by (cases "gateway_outcomes demo_flows [] demo_gateway") auto
  from outcome_buttons_are_honest [OF this] v show ?thesis by blast
qed

text \<open>
  The properties of the event trail, the API keys and the trigger consumer, applied to the demo
  broker.
\<close>

subsection \<open>The event trail\<close>

definition demo_write :: "string \<Rightarrow> event_outcome \<Rightarrow> bool \<Rightarrow> outcome_write" where
  "demo_write e out only = \<lparr>ow_tenant_id = Some ''t1'', ow_event_id = Some e, ow_outcome = out,
     ow_worker = Consumer, ow_error_message = None, ow_process_instance_id = None,
     ow_stream_seq = Some 3, ow_process_identifier = None, ow_username = None,
     ow_completed_at = None, ow_insert_only = only\<rparr>"

definition demo_trail :: audit where
  "demo_trail = record_outcome 10 (demo_write ''e1'' Instantiated False) \<lparr>audit_rows = [], audit_seq = 0\<rparr>"

lemma demo_trail_rows: "length (audit_rows demo_trail) = 1" "audit_ok demo_trail"
  by code_simp+

theorem audit_history_is_kept_witness:
  "\<exists>r' \<in> set (audit_rows (fold run_audit_op [RecordOutcome 20 (demo_write ''e1'' Transient_error False)] demo_trail)).
     row_kept (hd (audit_rows demo_trail)) r'"
proof -
  have "hd (audit_rows demo_trail) \<in> set (audit_rows demo_trail)"
    using demo_trail_rows(1) by (cases "audit_rows demo_trail") auto
  from audit_history_is_kept [OF demo_trail_rows(2) this] show ?thesis by blast
qed

theorem insert_only_touches_no_row_witness:
  "take 1 (audit_rows (record_outcome 20 (demo_write ''e2'' Rejected_auth True) demo_trail))
     = audit_rows demo_trail"
proof -
  have "ow_insert_only (demo_write ''e2'' Rejected_auth True)" by code_simp
  from insert_only_touches_no_row [OF this, of 20 demo_trail] demo_trail_rows(1) show ?thesis by auto
qed

theorem prune_is_one_deletion_witness:
  "fst (prune 5000000 [''t1''] (\<lambda>r. False) 30 demo_trail) = 1 \<and>
   audit_rows (snd (prune 5000000 [''t1''] (\<lambda>r. False) 30 demo_trail)) = []"
proof -
  have 1: "(30 :: int) > 0" by simp
  have "list_all (\<lambda>r. au_tenant_id r = Some ''t1'') (audit_rows demo_trail)" by code_simp
  then have 2: "\<forall>r \<in> set (audit_rows demo_trail). False \<or> au_tenant_id r = None \<or>
      (\<exists>t \<in> set [''t1'']. au_tenant_id r = Some t)"
    by (auto simp: list_all_iff)
  have 3: "length (filter (expired_row (5000000 - 30 * 86400)) (audit_rows demo_trail)) = 1" by code_simp
  have 4: "filter (\<lambda>r. \<not> expired_row (5000000 - 30 * 86400) r) (audit_rows demo_trail) = []" by code_simp
  show ?thesis using prune_is_one_deletion [OF 1 2, of 5000000] 3 4 by simp
qed

subsection \<open>Keys\<close>

definition demo_hash :: "string \<Rightarrow> string \<Rightarrow> string" where
  "demo_hash secret salt = salt @ secret"

definition no_keys :: key_db where
  "no_keys = fresh_session []"

definition made :: "(api_error + api_key \<times> string) \<times> key_db" where
  "made = create_named_key demo_hash ''salt'' 5 True ''k2'' ''top'' no_keys ''t1'' ''alice'' ''ci''
     (Some 60) (Some ''review'')"

theorem created_key_authenticates_witness:
  "fst (authenticate_key demo_hash ''salt'' 30 True (snd made) (snd (projr (fst made))))
     = Some (identity_of (fst (projr (fst made))))"
proof -
  have "isl (fst made) = False" by code_simp
  then have m: "create_named_key demo_hash ''salt'' 5 True ''k2'' ''top'' no_keys ''t1'' ''alice'' ''ci''
     (Some 60) (Some ''review'') = (Inr (fst (projr (fst made)), snd (projr (fst made))), snd made)"
    using result_pair [of made] by (simp add: made_def)
  have 1: "''k2'' \<noteq> []" "KEY_DELIMITER \<notin> set ''k2''" "''top'' \<noteq> []" by code_simp+
  have 2: "\<forall>n. Some (60 :: int) = Some n \<longrightarrow> 30 \<le> 5 + n" by simp
  show ?thesis using created_key_authenticates [OF m 1 2] by blast
qed

theorem revoked_key_is_dead_witness:
  "fst (revoke_key 50 True (snd made) ''t1'' ''k2'' ''bob'') = Inr True \<and>
   fst (authenticate_key demo_hash ''salt'' 60 True (snd (revoke_key 50 True (snd made) ''t1'' ''k2'' ''bob''))
     (raw_key_for ''k2'' ''top'')) = None"
proof -
  have 1: "keys_ok (snd made)" by code_simp
  have r: "fst (revoke_key 50 True (snd made) ''t1'' ''k2'' ''bob'') = Inr True" by code_simp
  have d: "KEY_DELIMITER \<notin> set ''k2''" by code_simp
  have "snd (revoke_key 50 True (snd made) ''t1'' ''k2'' ''bob'')
      = fold (run_key_op (demo_hash, ''salt'')) [] (snd (revoke_key 50 True (snd made) ''t1'' ''k2'' ''bob''))"
    by simp
  from revoked_key_is_dead [OF 1 fst_pair [OF r] this d] r show ?thesis by blast
qed

theorem signed_trigger_verifies_witness:
  "verify_trigger (\<lambda>salt fields. ''good'') (Some demo_salt)
     (dset (demo_event ''old'') ''signature'' (PStr ''good''))"
proof -
  have "sign_trigger (\<lambda>salt fields. ''good'') (Some demo_salt) (demo_event ''old'') = Inr ''good''"
    by code_simp
  then show ?thesis using signed_trigger_verifies by blast
qed

theorem scope_admits_exactly_its_list_witness:
  "scope_allows (normalize_scope (Some (join [CHR '',''] [''review'', ''pay'']))) ''pay'' \<and>
   \<not> scope_allows (normalize_scope (Some (join [CHR '',''] [''review'', ''pay'']))) ''refund''"
proof -
  have "\<forall>p \<in> set [''review'', ''pay'']. CHR '','' \<notin> set p \<and> p \<noteq> [] \<and> strip p = p" by code_simp
  note s = scope_admits_exactly_its_list [OF _ this]
  show ?thesis using s [of "''pay''"] s [of "''refund''"] by simp
qed

subsection \<open>The trigger consumer\<close>

definition good_run :: "bool \<Rightarrow> handled \<times> (string list, int list) consumer" where
  "good_run acks = process_trigger (demo_consumer_env ''good'' acks) demo_message demo_consumer"

lemma good_run_pair:
  "process_trigger (demo_consumer_env ''good'' acks) demo_message demo_consumer
   = (fst (good_run acks), snd (good_run acks))"
  by (simp add: good_run_def)

lemma demo_parse:
  "ce_parse (demo_consumer_env sig acks) (ms_data demo_message) = Some (PDict (demo_event sig))"
  "ce_kv_create (demo_consumer_env sig acks) = Some demo_create"
  by (simp_all add: demo_consumer_env_def)

lemma started: "hd_started (fst (good_run True)) = Some 1" "hd_started (fst (good_run False)) = Some 1"
  by code_simp+

lemma demo_event_id: "truthy (dget (demo_event sig) ''id'')"
  by (simp add: demo_event_def dget_def)


theorem forged_event_leaves_only_a_new_row_witness:
  "hd_started (fst (process_trigger (demo_consumer_env ''bad'' True) demo_message demo_consumer)) = None \<and>
   cs_host (snd (process_trigger (demo_consumer_env ''bad'' True) demo_message demo_consumer))
     = cs_host demo_consumer"
proof -
  let ?r = "process_trigger (demo_consumer_env ''bad'' True) demo_message demo_consumer"
  have "\<not> verify_trigger (ce_mac (demo_consumer_env ''bad'' True)) (ce_salt (demo_consumer_env ''bad'' True))
      (demo_event ''bad'')"
    by code_simp
  from forged_event_leaves_only_a_new_row [OF prod.collapse [of ?r, symmetric] demo_parse(1) this]
  show ?thesis by blast
qed


theorem lost_ack_releases_the_guard_witness:
  "hd_started (fst (good_run False)) = Some 1 \<and> \<not> hd_acked (fst (good_run False)) \<and>
   cs_kv (snd (good_run False)) = []"
proof -
  have ack: "\<not> ce_ack_ok (demo_consumer_env ''good'' False)" by (simp add: demo_consumer_env_def)
  have "cs_kv (snd (good_run False)) = []" by code_simp
  then show ?thesis
    using lost_ack_releases_the_guard [OF good_run_pair demo_parse(1) started(2) demo_event_id demo_parse(2)
        demo_bucket_ok ack] started(2)
    by blast
qed

end
