(* ===== verification/Authorization.thy ===== *)
theory Authorization
  imports Claims
begin

text \<open>
  Host authorization (authorization/__init__.py, auth/canonicalize.py): which permission
  targets match a request path, what the materialized grants of a user allow, the request-level
  decision \<open>allow_uri\<close> and the policy the engine asks before a command. The identifiers of the
  active tenant and the verified token claims of the request are fields of a context record; the
  engine's own database policy is an argument.
\<close>

subsection \<open>Actions\<close>

definition HTTP_METHOD_ACTIONS :: "(string \<times> string) list" where
  "HTTP_METHOD_ACTIONS = [(''GET'', ''read''), (''HEAD'', ''read''), (''OPTIONS'', ''read''),
     (''POST'', ''create''), (''PUT'', ''update''), (''PATCH'', ''update''), (''DELETE'', ''delete'')]"

definition ACTION_NAMES :: "string list" where
  "ACTION_NAMES = [''read'', ''create'', ''update'', ''delete'', ''start'', ''execute'']"

definition UNKNOWN_ACTION :: string where
  "UNKNOWN_ACTION = ''unknown''"

definition method_to_action :: "string \<Rightarrow> string" where
  "method_to_action verb =
     (let text = strip verb in
      case map_of HTTP_METHOD_ACTIONS (upper text) of
        Some action \<Rightarrow> action
      | None \<Rightarrow> if lower text \<in> set ACTION_NAMES then lower text else UNKNOWN_ACTION)"

subsection \<open>Paths\<close>

definition slash :: "char \<Rightarrow> bool" where
  "slash c \<longleftrightarrow> c = CHR ''/''"

definition API_PATH_PREFIX :: string where
  "API_PATH_PREFIX = ''/v1.0''"

definition without_api_path_prefix :: "string \<Rightarrow> string" where
  "without_api_path_prefix path =
     (let cleaned = (if startswith path ''/'' then path else ''/'' @ path) in
      if startswith cleaned API_PATH_PREFIX
      then (let rest = drop (length API_PATH_PREFIX) cleaned in if rest = [] then ''/'' else rest)
      else path)"

definition normalize_route_resource_id :: "string \<Rightarrow> string option \<Rightarrow> string" where
  "normalize_route_resource_id resource_id path_prefix =
     (let translated = strip resource_id in
      case path_prefix of
        None \<Rightarrow> translated
      | Some prefix \<Rightarrow>
          (let p1 = (if startswith prefix ''/'' then prefix else ''/'' @ prefix);
               p2 = (if endswith p1 ''/'' then p1 else p1 @ ''/'');
               t1 = without_api_path_prefix translated;
               t2 = (if startswith t1 (lstrip_if slash p2) then ''/'' @ t1 else t1)
           in if startswith t2 p2 then t2 else p2 @ lstrip_if slash t2))"

definition normalize_authorization_path :: "string \<Rightarrow> string" where
  "normalize_authorization_path path =
     (let p = without_api_path_prefix path;
          public_prefix = ''/m8flow/task-review'';
          target_prefix = ''/m8flow/task-review-access'';
          trimmed = rstrip_if slash p;
          n0 = (if trimmed = [] then ''/'' else trimmed);
          n = (if startswith n0 ''/'' then n0 else ''/'' @ n0)
      in if n = public_prefix \<or> startswith n (public_prefix @ ''/'')
         then target_prefix @ drop (length public_prefix) n
         else n)"

text \<open>The route pattern of the lifecycle commands: an optional version segment, an instance and
  one of the three verbs, with an optional final slash; the value is the instance's path.\<close>

definition is_version_segment :: "string \<Rightarrow> bool" where
  "is_version_segment s =
     (case s of
        c # rest \<Rightarrow> c = CHR ''v'' \<and>
          (let parts = split_on (CHR ''.'') rest in
           length parts \<le> 2 \<and> list_all (\<lambda>p. p \<noteq> [] \<and> list_all is_digit p) parts)
      | [] \<Rightarrow> False)"

definition lifecycle_route :: "string \<Rightarrow> string option" where
  "lifecycle_route path =
     (let segments = split_on (CHR ''/'') path;
          segments1 = (if 1 < length segments \<and> last segments = [] then butlast segments else segments);
          segments2 = (case segments1 of
                         [] # v # rest \<Rightarrow> if is_version_segment v then [] # rest else segments1
                       | _ \<Rightarrow> segments1)
      in case segments2 of
           [r, collection, instance_id, verb] \<Rightarrow>
             (if r = [] \<and> collection = ''process-instances'' \<and> instance_id \<noteq> [] \<and>
                 verb \<in> {''suspend'', ''resume'', ''terminate''}
              then Some (''/process-instances/'' @ instance_id) else None)
         | _ \<Rightarrow> None)"

subsection \<open>Matching a target\<close>

text \<open>
  A permission target with a wildcard (\<open>%\<close> or \<open>*\<close>), with brace placeholders, or with neither.
  The regular expression \<open>_path_matches\<close> builds has three kinds of parts; its dot excludes the
  line feed.
\<close>

datatype part = Lit char | Anything | One_segment

function parts_of :: "string \<Rightarrow> part list" where
  "parts_of [] = []"
| "parts_of (c # cs) =
     (if c = CHR ''%'' \<or> c = CHR ''*'' then Anything # parts_of cs
      else if c = CHR 0x7B \<and> CHR 0x7D \<in> set cs
      then One_segment # parts_of (tl (dropWhile (\<lambda>x. x \<noteq> CHR 0x7D) cs))
      else Lit c # parts_of cs)"
  by pat_completeness auto
termination
proof (relation "measure length")
  fix c :: char and cs :: string
  have "length (dropWhile P cs) \<le> length cs" for P by (rule length_dropWhile_le)
  then have "length (tl (dropWhile P cs)) < length (c # cs)" for P
    by (metis length_Cons length_tl less_Suc_eq_le diff_le_self order_trans)
  then show "(tl (dropWhile (\<lambda>x. x \<noteq> CHR 0x7D) cs), c # cs) \<in> measure length" by simp
qed auto

fun matches_parts :: "part list \<Rightarrow> string \<Rightarrow> bool" where
  "matches_parts [] s \<longleftrightarrow> s = []"
| "matches_parts (Lit c # ps) [] \<longleftrightarrow> False"
| "matches_parts (Lit c # ps) (x # xs) \<longleftrightarrow> x = c \<and> matches_parts ps xs"
| "matches_parts (Anything # ps) [] \<longleftrightarrow> matches_parts ps []"
| "matches_parts (Anything # ps) (x # xs) \<longleftrightarrow>
     matches_parts ps (x # xs) \<or> (x \<noteq> CHR 0x0A \<and> matches_parts (Anything # ps) xs)"
| "matches_parts (One_segment # ps) [] \<longleftrightarrow> False"
| "matches_parts (One_segment # ps) (x # xs) \<longleftrightarrow>
     \<not> slash x \<and> (matches_parts ps xs \<or> matches_parts (One_segment # ps) xs)"

definition has_pattern :: "string \<Rightarrow> bool" where
  "has_pattern uri_pattern \<longleftrightarrow>
     CHR ''%'' \<in> set uri_pattern \<or> CHR ''*'' \<in> set uri_pattern \<or> CHR 0x7B \<in> set uri_pattern"

definition path_matches :: "string \<Rightarrow> string \<Rightarrow> bool \<Rightarrow> bool" where
  "path_matches path uri_pattern legacy_prefix \<longleftrightarrow>
     (if \<not> has_pattern uri_pattern
      then path = uri_pattern \<or>
           (legacy_prefix \<and> startswith path (rstrip_if slash uri_pattern @ ''/''))
      else matches_parts (parts_of uri_pattern) path)"

subsection \<open>Users, tenants and grants\<close>

record user_group =
  gp_id :: int
  gp_identifier :: string

record actor =
  ac_id :: int
  ac_username :: string
  ac_service :: "string option"
  ac_service_id :: string
  ac_last_used :: int
  ac_principal_id :: "int option"
  ac_groups :: "user_group list"

record verified_claims =
  vc_subject :: string
  vc_username :: string
  vc_roles :: "string list"

record permission_target =
  pt_command :: "string option"
  pt_resource_type :: "string option"
  pt_resource_id :: "string option"
  pt_uri :: "string option"

record permission_assignment =
  pa_principal_id :: int
  pa_permission :: string
  pa_grant_type :: string
  pa_target :: "permission_target option"

record principal =
  pr_id :: int
  pr_group_id :: "int option"

record grants =
  gr_users :: "actor list"
  gr_principals :: "principal list"
  gr_assignments :: "permission_assignment list"

record tenant_identity =
  ti_id :: string
  ti_slug :: string

text \<open>What a decision reads of its request: the identifiers of the active tenant and the
  verified claims of the bearer's token.\<close>

record request_context =
  rc_tenant_ids :: "string list"
  rc_claims :: "verified_claims option"

definition find_tenant_row :: "tenant_identity list \<Rightarrow> string list \<Rightarrow> tenant_identity option" where
  "find_tenant_row rows identifiers =
     (let wanted = dedup_into [] (filter (\<lambda>i. i \<noteq> []) (map strip identifiers)) in
      if wanted = [] then None
      else case filter (\<lambda>t. ti_id t \<in> set wanted \<or> ti_slug t \<in> set wanted) rows of
             [t] \<Rightarrow> Some t
           | _ \<Rightarrow> None)"

definition current_tenant_identifiers :: "tenant_identity list \<Rightarrow> string option \<Rightarrow> string list" where
  "current_tenant_identifiers rows tenant_id =
     (let effective = strip (or_default tenant_id []) in
      if effective = [] then []
      else case find_tenant_row rows [effective] of
             None \<Rightarrow> [effective]
           | Some t \<Rightarrow> dedup_into [effective] (filter (\<lambda>v. v \<noteq> []) [strip (ti_id t), strip (ti_slug t)]))"

definition actor_matches_verified_claims :: "request_context \<Rightarrow> actor \<Rightarrow> bool" where
  "actor_matches_verified_claims rc user \<longleftrightarrow>
     (case rc_claims rc of
        None \<Rightarrow> False
      | Some claims \<Rightarrow>
          (ac_service_id user \<noteq> [] \<and> vc_subject claims \<noteq> [] \<and> ac_service_id user = vc_subject claims) \<or>
          (ac_username user \<noteq> [] \<and> vc_username claims \<noteq> [] \<and> ac_username user = vc_username claims))"

definition actor_is_super_admin :: "request_context \<Rightarrow> actor option \<Rightarrow> bool" where
  "actor_is_super_admin rc user \<longleftrightarrow>
     (case user of
        None \<Rightarrow> False
      | Some u \<Rightarrow>
          list_ex (\<lambda>g. gp_identifier g = SUPER_ADMIN_ROLE) (ac_groups u) \<or>
          (case rc_claims rc of
             None \<Rightarrow> False
           | Some claims \<Rightarrow> actor_matches_verified_claims rc u \<and> SUPER_ADMIN_ROLE \<in> set (vc_roles claims)))"

definition counts_in :: "string list \<Rightarrow> string \<Rightarrow> bool" where
  "counts_in tenant_ids identifier \<longleftrightarrow>
     (case partition_at (CHR 0x3A) identifier of
        (prefix, found, rest) \<Rightarrow> \<not> found \<or> prefix \<in> set tenant_ids)"

definition active_tenant_groups :: "request_context \<Rightarrow> actor \<Rightarrow> user_group list" where
  "active_tenant_groups rc user =
     (if rc_tenant_ids rc = [] then ac_groups user
      else filter (\<lambda>g. counts_in (rc_tenant_ids rc) (gp_identifier g)) (ac_groups user))"

definition principal_ids :: "request_context \<Rightarrow> grants \<Rightarrow> actor \<Rightarrow> int list" where
  "principal_ids rc db user =
     (case ac_principal_id user of None \<Rightarrow> [] | Some i \<Rightarrow> [i]) @
     map pr_id (filter (\<lambda>p. case pr_group_id p of
                            None \<Rightarrow> False
                          | Some g \<Rightarrow> g \<in> set (map gp_id (active_tenant_groups rc user))) (gr_principals db))"

text \<open>Whether one target covers the request; \<open>None\<close> in a typed column is SQL's \<open>NULL\<close>.\<close>

definition legacy_tenant_target :: "permission_target \<Rightarrow> string \<Rightarrow> bool" where
  "legacy_tenant_target target requested_type \<longleftrightarrow>
     pt_resource_type target = None \<and> requested_type = ''tenant'' \<and> pt_resource_id target = None \<and>
     strip (or_default (pt_uri target) []) \<noteq> [] \<and> strip (or_default (pt_command target) []) \<noteq> []"

definition target_covers ::
  "permission_target \<Rightarrow> string \<Rightarrow> string \<Rightarrow> string option \<Rightarrow> bool \<Rightarrow> bool" where
  "target_covers target resource_type resource_id command allow_legacy_commandless \<longleftrightarrow>
     (command = None \<or> pt_command target = command \<or>
      (allow_legacy_commandless \<and> pt_command target = None)) \<and>
     (let requested_type = strip resource_type;
          target_type = map_option strip (pt_resource_type target);
          legacy = legacy_tenant_target target requested_type;
          pattern = or_default (if legacy then pt_uri target else pt_resource_id target) [];
          legacy_route = ((legacy \<or> (target_type = Some requested_type \<and> requested_type = ''tenant'')) \<and>
                          startswith pattern ''/'')
      in (target_type = Some requested_type \<or> legacy) \<and>
         path_matches resource_id pattern legacy_route)"

text \<open>The loop over the assignments: the first deny that applies ends it.\<close>

fun scan_assignments ::
  "(permission_target \<Rightarrow> bool) \<Rightarrow> string \<Rightarrow> bool \<Rightarrow> permission_assignment list \<Rightarrow> bool" where
  "scan_assignments covers action permitted [] = permitted"
| "scan_assignments covers action permitted (a # as) =
     (case pa_target a of
        None \<Rightarrow> scan_assignments covers action permitted as
      | Some target \<Rightarrow>
          (if \<not> covers target then scan_assignments covers action permitted as
           else if pa_permission a \<notin> {action, ''all''} then scan_assignments covers action permitted as
           else if pa_grant_type a = ''deny'' then False
           else scan_assignments covers action True as))"

definition resource_permitted ::
  "request_context \<Rightarrow> grants \<Rightarrow> actor \<Rightarrow> string \<Rightarrow> string \<Rightarrow> string \<Rightarrow> string option \<Rightarrow> bool \<Rightarrow> bool" where
  "resource_permitted rc db user action resource_type resource_id command allow_legacy_commandless =
     (let ids = principal_ids rc db user in
      if ids = [] then False
      else scan_assignments
             (\<lambda>t. target_covers t resource_type resource_id command allow_legacy_commandless)
             action False
             (filter (\<lambda>a. pa_principal_id a \<in> set ids) (gr_assignments db)))"

subsection \<open>Request authorization\<close>

definition NO_GROUP_FALLBACK_PREFIXES :: "string list" where
  "NO_GROUP_FALLBACK_PREFIXES = [''/secrets'', ''/m8flow/connector-profiles'', ''/m8flow/nats/'',
     ''/m8flow/nats-tokens'', ''/m8flow/task-review-access'', ''/m8flow/mcp-tools'',
     ''/m8flow/tenant-management'', ''/m8flow/celery/'']"

definition TENANT_WIDE_INSTANCE_READ_PATH :: string where
  "TENANT_WIDE_INSTANCE_READ_PATH = ''/process-instances''"

definition group_identifier_fallback ::
  "request_context \<Rightarrow> actor \<Rightarrow> string \<Rightarrow> string option \<Rightarrow> bool" where
  "group_identifier_fallback rc user path action =
     (let identifiers = map gp_identifier (active_tenant_groups rc user);
          has_role = (\<lambda>role. list_ex (\<lambda>i. endswith i role) identifiers)
      in if list_ex (\<lambda>i. i = SUPER_ADMIN_ROLE \<or> endswith i '':tenant-admin'') identifiers then True
         else let act = (case action of None \<Rightarrow> ''read'' | Some a \<Rightarrow> method_to_action a);
                  tenant_wide = (act = ''read'' \<and>
                    normalize_authorization_path path = TENANT_WIDE_INSTANCE_READ_PATH)
              in if \<not> tenant_wide \<and> has_role '':editor'' then True
                 else (substr_in ''/onboarding'' path \<or> endswith path ''/tasks'' \<or> substr_in ''/tasks'' path) \<and>
                      (has_role '':reviewer'' \<or> has_role '':editor'' \<or> has_role '':user''))"

text \<open>Roles of the active tenant that may only read process models.\<close>

definition read_only_role :: "string list \<Rightarrow> actor \<Rightarrow> bool" where
  "read_only_role tenant_ids user \<longleftrightarrow>
     list_ex (\<lambda>g. let i = gp_identifier g in
        (CHR 0x3A \<notin> set i \<or> rsplit_head (CHR 0x3A) i \<in> set tenant_ids) \<and>
        rsplit_last (CHR 0x3A) i \<in> {''viewer'', ''submitter''}) (ac_groups user)"

definition write_action :: "string \<Rightarrow> bool" where
  "write_action action \<longleftrightarrow> action \<in> {''create'', ''update'', ''delete''}"

text \<open>\<open>db\<close> is the session of the call or, without one, of the request; \<open>None\<close> when neither
  exists.\<close>

definition task_review_submission :: "string \<Rightarrow> bool" where
  "task_review_submission path \<longleftrightarrow>
     (case split_on (CHR ''/'') (strip_if slash path) of
        [a, b, task, verb] \<Rightarrow> a = ''m8flow'' \<and> b = ''task-review-access'' \<and> task \<noteq> [] \<and> verb = ''submit''
      | _ \<Rightarrow> False)"

definition allow_uri ::
  "request_context \<Rightarrow> grants option \<Rightarrow> actor option \<Rightarrow> string \<Rightarrow> string \<Rightarrow> bool \<Rightarrow> bool" where
  "allow_uri rc db user verb raw_path group_fallback =
     (case user of
        None \<Rightarrow> False
      | Some u \<Rightarrow>
          (let path0 = normalize_authorization_path raw_path in
           if path0 = ''/m8flow/home-task-count''
           then (case db of
                   None \<Rightarrow> False
                 | Some d \<Rightarrow> resource_permitted rc d u (method_to_action verb) ''tenant'' path0 None False)
           else
             let action0 = method_to_action verb;
                 (action, path) = (case lifecycle_route path0 of
                    None \<Rightarrow> (action0, path0)
                  | Some target \<Rightarrow>
                      (if action0 = ''create'' then (''execute'', target)
                       else if action0 = ''execute'' then (action0, target)
                       else (action0, path0)));
                 super = actor_is_super_admin rc (Some u)
             in if action = ''create'' \<and> task_review_submission path \<and> super then False
                else if write_action action \<and> startswith path ''/m8flow/nats-tokens'' \<and> super then False
                else if super then True
                else
                  let fallback = (group_fallback \<and> \<not> list_ex (startswith path) NO_GROUP_FALLBACK_PREFIXES)
                  in if write_action action \<and> startswith path ''/process-models'' \<and>
                        read_only_role (rc_tenant_ids rc) u
                     then False
                     else case db of
                       None \<Rightarrow> fallback \<and> group_identifier_fallback rc u path (Some action)
                     | Some d \<Rightarrow>
                         (if resource_permitted rc d u action ''tenant'' path None False then True
                          else if \<not> fallback then False
                          else group_identifier_fallback rc u path (Some action))))"

definition instance_initiator_scope :: "request_context \<Rightarrow> grants option \<Rightarrow> actor \<Rightarrow> int option" where
  "instance_initiator_scope rc db user =
     (if allow_uri rc db (Some user) ''GET'' TENANT_WIDE_INSTANCE_READ_PATH True then None
      else Some (ac_id user))"

definition database_permission ::
  "request_context \<Rightarrow> grants \<Rightarrow> actor option \<Rightarrow> string \<Rightarrow> string \<Rightarrow> bool" where
  "database_permission rc db user verb path =
     (case user of
        None \<Rightarrow> False
      | Some u \<Rightarrow> resource_permitted rc db u (method_to_action verb) ''tenant''
                    (without_api_path_prefix path) None False)"

text \<open>The module's own \<open>require_authorized_user\<close>: \<open>user\<close> is the signed-in user.\<close>

definition require_authorized_user ::
  "request_context \<Rightarrow> grants option \<Rightarrow> actor \<Rightarrow> string \<Rightarrow> string \<Rightarrow> string \<Rightarrow> api_error + actor" where
  "require_authorized_user rc db user action forbidden_message path =
     (if allow_uri rc db (Some user)
           (if action \<in> {''GET'', ''POST'', ''PUT'', ''DELETE''} then action else ''GET'') path True
      then Inr user
      else if group_identifier_fallback rc user path (Some action) then Inr user
      else Inl (ApiError ''permission_denied'' forbidden_message 403))"

subsection \<open>The policy behind the engine's commands\<close>

record authorization_request =
  ar_actor_user_id :: int
  ar_command_key :: string
  ar_permission :: string
  ar_resource_type :: string
  ar_resource_id :: string

record decision =
  dc_allowed :: bool
  dc_reason :: string

definition LIFECYCLE_COMMAND_KEYS :: "string list" where
  "LIFECYCLE_COMMAND_KEYS = [''process.suspend'', ''process.resume'', ''process.retry'', ''process.terminate'']"

definition PROCESS_START_COMMAND :: string where
  "PROCESS_START_COMMAND = ''process.start''"

definition TASK_COMMAND_KEYS :: "string list" where
  "TASK_COMMAND_KEYS = [''task.claim'', ''task.complete'']"

definition host_yaml_decision ::
  "request_context \<Rightarrow> grants \<Rightarrow> actor \<Rightarrow> string \<Rightarrow> string \<Rightarrow> string \<Rightarrow> string option \<Rightarrow> string option \<Rightarrow>
   bool \<Rightarrow> decision option" where
  "host_yaml_decision rc db user permission resource_type resource_id path_prefix command legacy =
     (if resource_permitted rc db user permission resource_type
           (normalize_route_resource_id resource_id path_prefix) command legacy
      then Some \<lparr>dc_allowed = True, dc_reason = ''host_yaml''\<rparr> else None)"

definition authorize_lifecycle ::
  "(authorization_request \<Rightarrow> decision) \<Rightarrow> request_context \<Rightarrow> grants \<Rightarrow> actor \<Rightarrow>
   authorization_request \<Rightarrow> decision" where
  "authorize_lifecycle core_policy rc db user r =
     (let direct = (\<lambda>permission. host_yaml_decision rc db user permission (ar_resource_type r)
                      (ar_resource_id r) None (Some (ar_command_key r)) False);
          route = (\<lambda>permission. host_yaml_decision rc db user permission ''tenant''
                      (ar_resource_id r) (Some ''/process-instances/'') (Some (ar_command_key r)) False)
      in if ar_permission r \<noteq> ''execute''
         then \<lparr>dc_allowed = False, dc_reason = ''lifecycle_requires_execute''\<rparr>
         else case or_else (direct (ar_permission r)) (route (ar_permission r)) of
           Some d \<Rightarrow> d
         | None \<Rightarrow>
             (if direct ''create'' \<noteq> None \<or> route ''create'' \<noteq> None
              then \<lparr>dc_allowed = False, dc_reason = ''lifecycle_permissions_migration_required''\<rparr>
              else core_policy r))"

definition authorize ::
  "(authorization_request \<Rightarrow> decision) \<Rightarrow> request_context \<Rightarrow> grants \<Rightarrow> authorization_request \<Rightarrow> decision" where
  "authorize core_policy rc db r =
     (let user = find (\<lambda>u. ac_id u = ar_actor_user_id r) (gr_users db) in
      if actor_is_super_admin rc user then \<lparr>dc_allowed = True, dc_reason = SUPER_ADMIN_ROLE\<rparr>
      else case user of
        None \<Rightarrow> core_policy r
      | Some u \<Rightarrow>
          (let import_grant = (if ar_command_key r = ''process_definition.import''
                 then host_yaml_decision rc db u ''create'' ''process_definition'' (ar_resource_id r) None None False
                 else None);
               start_grant = (if ar_command_key r = PROCESS_START_COMMAND
                 then or_else
                        (host_yaml_decision rc db u ''start'' ''tenant'' (ar_resource_id r)
                           (Some ''/process-models/'') None False)
                        (map_option (\<lambda>d. \<lparr>dc_allowed = True, dc_reason = ''host_yaml_legacy''\<rparr>)
                           (host_yaml_decision rc db u ''start'' ''tenant'' (ar_resource_id r)
                              (Some ''/process-models/'') (Some PROCESS_START_COMMAND) True))
                 else None);
               task_grant = (if ar_command_key r \<in> set TASK_COMMAND_KEYS
                 then host_yaml_decision rc db u (ar_permission r) ''tenant'' (ar_resource_id r)
                        (Some ''/tasks/'') None False
                 else None)
           in case or_else import_grant (or_else start_grant task_grant) of
                Some d \<Rightarrow> d
              | None \<Rightarrow>
                  (if ar_command_key r \<in> set LIFECYCLE_COMMAND_KEYS
                   then authorize_lifecycle core_policy rc db u r
                   else core_policy r)))"

end
