(* ===== verification/Authorization_Laws.thy ===== *)
theory Authorization_Laws
  imports Authorization
begin

text \<open>
  What the authorization rules promise: the language of a permission target, that a deny wins
  whatever the order of the rows, that a group of another tenant grants nothing, that lifecycle
  commands need \<open>execute\<close>, and which paths only the grant tables decide.
\<close>

subsection \<open>The language of a target\<close>

fun fits :: "part \<Rightarrow> string \<Rightarrow> bool" where
  "fits (Lit c) w \<longleftrightarrow> w = [c]"
| "fits Anything w \<longleftrightarrow> CHR 0x0A \<notin> set w"
| "fits One_segment w \<longleftrightarrow> w \<noteq> [] \<and> (\<forall>c \<in> set w. \<not> slash c)"

definition reads :: "part list \<Rightarrow> string \<Rightarrow> bool" where
  "reads ps s \<longleftrightarrow> (\<exists>ws. s = concat ws \<and> list_all2 fits ps ws)"

lemma reads_Nil [simp]: "reads [] s \<longleftrightarrow> s = []"
  by (simp add: reads_def)

lemma reads_append: "fits p w \<Longrightarrow> reads ps t \<Longrightarrow> reads (p # ps) (w @ t)"
  unfolding reads_def by (metis concat.simps(2) list_all2_Cons)

lemma reads_Cons: "reads (p # ps) s \<longleftrightarrow> (\<exists>w t. s = w @ t \<and> fits p w \<and> reads ps t)"
proof
  assume "reads (p # ps) s"
  then obtain w ws where "s = w @ concat ws" "fits p w" "list_all2 fits ps ws"
    by (auto simp: reads_def list_all2_Cons1)
  then show "\<exists>w t. s = w @ t \<and> fits p w \<and> reads ps t" unfolding reads_def by blast
qed (auto intro: reads_append)

lemma reads_Lit: "reads (Lit c # ps) s \<longleftrightarrow> (\<exists>t. s = c # t \<and> reads ps t)"
  by (auto simp: reads_Cons)

lemma reads_Anything_step:
  "reads (Anything # ps) (x # xs) \<longleftrightarrow>
     reads ps (x # xs) \<or> (x \<noteq> CHR 0x0A \<and> reads (Anything # ps) xs)"
proof
  assume "reads (Anything # ps) (x # xs)"
  then obtain w t where w: "x # xs = w @ t" "CHR 0x0A \<notin> set w" "reads ps t" by (auto simp: reads_Cons)
  then show "reads ps (x # xs) \<or> (x \<noteq> CHR 0x0A \<and> reads (Anything # ps) xs)"
  proof (cases w)
    case (Cons y v)
    with w have "x \<noteq> CHR 0x0A" "xs = v @ t" "CHR 0x0A \<notin> set v" by auto
    with w(3) show ?thesis by (auto simp: reads_Cons)
  qed simp
next
  assume "reads ps (x # xs) \<or> (x \<noteq> CHR 0x0A \<and> reads (Anything # ps) xs)"
  then show "reads (Anything # ps) (x # xs)"
  proof
    assume "reads ps (x # xs)"
    then show ?thesis using reads_append [of Anything "[]"] by simp
  next
    assume "x \<noteq> CHR 0x0A \<and> reads (Anything # ps) xs"
    then obtain w t where "xs = w @ t" "CHR 0x0A \<notin> set w" "x \<noteq> CHR 0x0A" "reads ps t"
      by (auto simp: reads_Cons)
    then show ?thesis using reads_append [of Anything "x # w" ps t] by simp
  qed
qed

lemma reads_One_segment_step:
  "reads (One_segment # ps) (x # xs) \<longleftrightarrow>
     \<not> slash x \<and> (reads ps xs \<or> reads (One_segment # ps) xs)"
proof
  assume "reads (One_segment # ps) (x # xs)"
  then obtain w t where w: "x # xs = w @ t" "w \<noteq> []" "\<forall>c \<in> set w. \<not> slash c" "reads ps t"
    by (auto simp: reads_Cons)
  then obtain v where v: "w = x # v" "xs = v @ t" by (cases w) auto
  show "\<not> slash x \<and> (reads ps xs \<or> reads (One_segment # ps) xs)"
  proof (cases "v = []")
    case False
    with w v have "fits One_segment v" by simp
    with w v show ?thesis unfolding reads_Cons by auto
  qed (use w v in simp)
next
  assume r: "\<not> slash x \<and> (reads ps xs \<or> reads (One_segment # ps) xs)"
  then consider "reads ps xs" | "reads (One_segment # ps) xs" by blast
  then show "reads (One_segment # ps) (x # xs)"
  proof cases
    case 1
    with r show ?thesis using reads_append [of One_segment "[x]" ps xs] by simp
  next
    case 2
    then obtain w t where "xs = w @ t" "w \<noteq> []" "\<forall>c \<in> set w. \<not> slash c" "reads ps t"
      by (auto simp: reads_Cons)
    with r show ?thesis using reads_append [of One_segment "x # w" ps t] by simp
  qed
qed

lemma reads_at_end:
  "reads (Anything # ps) [] \<longleftrightarrow> reads ps []" "\<not> reads (One_segment # ps) []" "\<not> reads (Lit c # ps) []"
  by (auto simp: reads_Cons)

lemma matches_parts_iff: "matches_parts ps s \<longleftrightarrow> reads ps s"
  by (induction ps s rule: matches_parts.induct)
    (auto simp: reads_at_end reads_Lit reads_Anything_step reads_One_segment_step)

text \<open>Without a wildcard, the slashes of the path are those of the pattern.\<close>

definition slashes :: "string \<Rightarrow> nat" where
  "slashes s = length (filter slash s)"

fun part_slashes :: "part list \<Rightarrow> nat" where
  "part_slashes [] = 0"
| "part_slashes (Lit c # ps) = (if slash c then 1 else 0) + part_slashes ps"
| "part_slashes (_ # ps) = part_slashes ps"

lemma reads_slashes: "reads ps s \<Longrightarrow> Anything \<notin> set ps \<Longrightarrow> slashes s = part_slashes ps"
proof (induction ps arbitrary: s)
  case (Cons p ps)
  from Cons.prems(1) obtain w t where w: "s = w @ t" "fits p w" "reads ps t" by (auto simp: reads_Cons)
  with Cons.IH [of t] Cons.prems(2) have "slashes t = part_slashes ps" by simp
  with w Cons.prems(2) show ?case
    by (cases p) (auto simp: slashes_def filter_empty_conv)
qed (simp add: slashes_def)

lemma parts_without_wildcard:
  "CHR ''%'' \<notin> set u \<Longrightarrow> CHR ''*'' \<notin> set u \<Longrightarrow> Anything \<notin> set (parts_of u)"
proof (induction u rule: parts_of.induct)
  case (2 c cs)
  let ?rest = "tl (dropWhile (\<lambda>x. x \<noteq> CHR 0x7D) cs)"
  have "set ?rest \<subseteq> set cs"
    by (metis list.set_sel(2) set_dropWhileD subsetI tl_Nil)
  then have "CHR ''%'' \<notin> set ?rest" "CHR ''*'' \<notin> set ?rest" using 2 by auto
  with 2 show ?case by (auto split: if_splits)
qed simp

text \<open>C16. A permission target with wildcards or placeholders matches exactly its language: a path
  matches if and only if it is cut into one piece per part, a literal part standing for itself, a
  wildcard for anything on one line and a brace placeholder for a non-empty piece of one segment.
  A target whose only wildcards are placeholders therefore matches only paths with as many
  slashes as itself, so it never grants a subtree.\<close>

theorem target_matches_exactly_its_language:
  assumes "has_pattern u"
  shows "(path_matches path u legacy \<longleftrightarrow> (\<exists>ws. path = concat ws \<and> list_all2 fits (parts_of u) ws)) \<and>
    (CHR ''%'' \<notin> set u \<longrightarrow> CHR ''*'' \<notin> set u \<longrightarrow> path_matches path u legacy \<longrightarrow>
       slashes path = part_slashes (parts_of u))"
proof -
  have m: "path_matches path u legacy \<longleftrightarrow> reads (parts_of u) path"
    using assms by (simp add: path_matches_def matches_parts_iff)
  show ?thesis
    unfolding m using reads_slashes parts_without_wildcard by (simp add: reads_def [symmetric])
qed

subsection \<open>Grants and denials\<close>

definition applies :: "(permission_target \<Rightarrow> bool) \<Rightarrow> string \<Rightarrow> permission_assignment \<Rightarrow> bool" where
  "applies covers action a \<longleftrightarrow>
     (\<exists>t. pa_target a = Some t \<and> covers t) \<and> pa_permission a \<in> {action, ''all''}"

definition denies :: "permission_assignment \<Rightarrow> bool" where
  "denies a \<longleftrightarrow> pa_grant_type a = ''deny''"

lemma scan_assignments_iff:
  "scan_assignments covers action permitted as \<longleftrightarrow>
     (permitted \<or> (\<exists>a \<in> set as. applies covers action a \<and> \<not> denies a)) \<and>
     \<not> (\<exists>a \<in> set as. applies covers action a \<and> denies a)"
  by (induction covers action permitted as rule: scan_assignments.induct)
    (auto simp: applies_def denies_def split: option.splits)

text \<open>The rows of the user: its own principal's and those of its groups that count.\<close>

definition holds_row :: "request_context \<Rightarrow> grants \<Rightarrow> actor \<Rightarrow> permission_assignment \<Rightarrow> bool" where
  "holds_row rc db u a \<longleftrightarrow>
     a \<in> set (gr_assignments db) \<and>
     (ac_principal_id u = Some (pa_principal_id a) \<or>
      (\<exists>p \<in> set (gr_principals db). pr_id p = pa_principal_id a \<and>
         (\<exists>g \<in> set (active_tenant_groups rc u). pr_group_id p = Some (gp_id g))))"

lemma principal_ids_iff:
  "i \<in> set (principal_ids rc db u) \<longleftrightarrow>
     ac_principal_id u = Some i \<or>
     (\<exists>p \<in> set (gr_principals db). pr_id p = i \<and>
        (\<exists>g \<in> set (active_tenant_groups rc u). pr_group_id p = Some (gp_id g)))"
  by (auto simp: principal_ids_def split: option.splits)

text \<open>C11. A deny wins, in whatever order the rows come: a resource is permitted exactly when some
  row of the user (its own or of a group that counts in the active tenant) grants the action on a
  target that covers it, and no such row denies it.\<close>

theorem deny_wins_in_any_order:
  "resource_permitted rc db u action ty res command legacy \<longleftrightarrow>
     (\<exists>a. holds_row rc db u a \<and> applies (\<lambda>t. target_covers t ty res command legacy) action a \<and> \<not> denies a) \<and>
     (\<nexists>a. holds_row rc db u a \<and> applies (\<lambda>t. target_covers t ty res command legacy) action a \<and> denies a)"
proof (cases "principal_ids rc db u = []")
  case True
  then have "\<not> holds_row rc db u a" for a
    using principal_ids_iff [of "pa_principal_id a" rc db u] by (auto simp: holds_row_def)
  with True show ?thesis by (simp add: resource_permitted_def)
next
  case False
  have "holds_row rc db u a \<longleftrightarrow> a \<in> set (filter (\<lambda>a. pa_principal_id a \<in> set (principal_ids rc db u))
      (gr_assignments db))" for a
    using principal_ids_iff [of "pa_principal_id a" rc db u] by (auto simp: holds_row_def)
  with False show ?thesis
    unfolding resource_permitted_def Let_def scan_assignments_iff by auto
qed

subsection \<open>Groups of other tenants\<close>

text \<open>A group that names another tenant, among the groups of a user.\<close>

definition foreign_group :: "request_context \<Rightarrow> user_group \<Rightarrow> bool" where
  "foreign_group rc g \<longleftrightarrow>
     rc_tenant_ids rc \<noteq> [] \<and>
     (\<exists>tenant role. gp_identifier g = tenant @ CHR 0x3A # role \<and> CHR 0x3A \<notin> set tenant \<and>
        CHR 0x3A \<notin> set role \<and> tenant \<notin> set (rc_tenant_ids rc))"

lemma foreign_not_counted: "foreign_group rc g \<Longrightarrow> \<not> counts_in (rc_tenant_ids rc) (gp_identifier g)"
  by (auto simp: foreign_group_def counts_in_def partition_at_sep)

lemma rsplit_head_sep:
  "CHR 0x3A \<notin> set r \<Longrightarrow> rsplit_head (CHR 0x3A) (t @ CHR 0x3A # r) = t"
  by (simp add: rsplit_head_def partition_at_sep)

lemma foreign_not_read_only:
  assumes "foreign_group rc g"
  shows "read_only_role (rc_tenant_ids rc) (u\<lparr>ac_groups := gs @ g # hs\<rparr>)
    = read_only_role (rc_tenant_ids rc) (u\<lparr>ac_groups := gs @ hs\<rparr>)"
  using assms by (auto simp: read_only_role_def Let_def foreign_group_def rsplit_head_sep)

lemma foreign_groups_dropped:
  "foreign_group rc g \<Longrightarrow>
   active_tenant_groups rc (u\<lparr>ac_groups := gs @ g # hs\<rparr>) = active_tenant_groups rc (u\<lparr>ac_groups := gs @ hs\<rparr>)"
  using foreign_not_counted [of rc g]
  by (simp add: active_tenant_groups_def) (simp add: foreign_group_def)

lemma foreign_not_super_admin:
  assumes "foreign_group rc g"
  shows "actor_is_super_admin rc (Some (u\<lparr>ac_groups := gs @ g # hs\<rparr>))
    = actor_is_super_admin rc (Some (u\<lparr>ac_groups := gs @ hs\<rparr>))"
proof -
  have "CHR 0x3A \<in> set (gp_identifier g)" using assms by (auto simp: foreign_group_def)
  then have "gp_identifier g \<noteq> SUPER_ADMIN_ROLE" by (auto simp: SUPER_ADMIN_ROLE_def)
  then show ?thesis
    by (simp add: actor_is_super_admin_def actor_matches_verified_claims_def cong: option.case_cong)
qed

lemma foreign_principals:
  assumes "foreign_group rc g"
  shows "principal_ids rc db (u\<lparr>ac_groups := gs @ g # hs\<rparr>) = principal_ids rc db (u\<lparr>ac_groups := gs @ hs\<rparr>)"
  unfolding principal_ids_def foreign_groups_dropped [OF assms] by simp

lemma foreign_resource:
  "foreign_group rc g \<Longrightarrow>
   resource_permitted rc db (u\<lparr>ac_groups := gs @ g # hs\<rparr>) action ty res command legacy
   = resource_permitted rc db (u\<lparr>ac_groups := gs @ hs\<rparr>) action ty res command legacy"
  by (simp add: resource_permitted_def foreign_principals)

lemma foreign_fallback:
  "foreign_group rc g \<Longrightarrow>
   group_identifier_fallback rc (u\<lparr>ac_groups := gs @ g # hs\<rparr>) path action
   = group_identifier_fallback rc (u\<lparr>ac_groups := gs @ hs\<rparr>) path action"
  by (simp add: group_identifier_fallback_def foreign_groups_dropped)

lemmas foreign_rules = foreign_resource foreign_fallback foreign_not_super_admin foreign_not_read_only

text \<open>C9. A role in one organization grants nothing, and takes nothing away, in another: with an
  active tenant, every request is decided as if the user were not in a group of another tenant,
  whether by the grant tables, the role fallback, the super-admin shortcut or the read-only
  rule.\<close>

theorem other_tenants_roles_do_not_count:
  assumes "foreign_group rc g"
  shows "allow_uri rc db (Some (u\<lparr>ac_groups := gs @ g # hs\<rparr>)) verb path fallback
       = allow_uri rc db (Some (u\<lparr>ac_groups := gs @ hs\<rparr>)) verb path fallback"
  unfolding allow_uri_def option.case foreign_rules [OF assms] by (rule refl)

subsection \<open>The engine's commands\<close>

lemma host_yaml_decision_allowed:
  "host_yaml_decision rc db u permission ty res prefix command legacy = Some d \<Longrightarrow> dc_allowed d"
  by (auto simp: host_yaml_decision_def split: if_splits)

lemma normalize_keeps_collection:
  "startswith (normalize_route_resource_id res (Some prefix)) (prefix)"
  if "startswith prefix ''/''" "endswith prefix ''/''"
  using that by (simp add: normalize_route_resource_id_def Let_def)

text \<open>A lifecycle command (suspend, resume, retry, terminate) of a user who is no super-admin is
  allowed exactly when it asks for \<open>execute\<close> and either the host grants \<open>execute\<close> on the instance,
  as a typed resource or as a route below \<open>/process-instances/\<close>, or no old \<open>create\<close> grant covers
  it and the engine's own policy allows it. A \<open>create\<close> grant never implies lifecycle rights.\<close>

theorem lifecycle_commands_need_execute:
  assumes "find (\<lambda>u. ac_id u = ar_actor_user_id r) (gr_users db) = Some u"
    and "\<not> actor_is_super_admin rc (Some u)" "ar_command_key r \<in> set LIFECYCLE_COMMAND_KEYS"
    and "typed = (\<lambda>p. resource_permitted rc db u p (ar_resource_type r) (strip (ar_resource_id r))
                     (Some (ar_command_key r)) False)"
    and "routed = (\<lambda>p. resource_permitted rc db u p ''tenant''
                     (normalize_route_resource_id (ar_resource_id r) (Some ''/process-instances/''))
                     (Some (ar_command_key r)) False)"
  shows "(dc_allowed (authorize core_policy rc db r) \<longleftrightarrow>
       ar_permission r = ''execute'' \<and>
       (typed ''execute'' \<or> routed ''execute'' \<or>
        (\<not> typed ''create'' \<and> \<not> routed ''create'' \<and> dc_allowed (core_policy r)))) \<and>
     startswith (normalize_route_resource_id (ar_resource_id r) (Some ''/process-instances/''))
       ''/process-instances/''"
proof -
  have keys: "ar_command_key r \<noteq> ''process_definition.import''" "ar_command_key r \<noteq> PROCESS_START_COMMAND"
      "ar_command_key r \<notin> set TASK_COMMAND_KEYS"
    using assms(3) by (auto simp: LIFECYCLE_COMMAND_KEYS_def PROCESS_START_COMMAND_def TASK_COMMAND_KEYS_def)
  then have "authorize core_policy rc db r = authorize_lifecycle core_policy rc db u r"
    using assms(1-3) by (simp add: authorize_def)
  then have "dc_allowed (authorize core_policy rc db r) \<longleftrightarrow>
       ar_permission r = ''execute'' \<and>
       (typed ''execute'' \<or> routed ''execute'' \<or>
        (\<not> typed ''create'' \<and> \<not> routed ''create'' \<and> dc_allowed (core_policy r)))"
    unfolding assms(4,5)
    by (auto simp: authorize_lifecycle_def Let_def host_yaml_decision_def or_else_def
        normalize_route_resource_id_def [of _ None])
  moreover have "startswith (normalize_route_resource_id (ar_resource_id r) (Some ''/process-instances/''))
      ''/process-instances/''"
    by (rule normalize_keeps_collection) code_simp+
  ultimately show ?thesis by blast
qed

subsection \<open>The role fallback\<close>

text \<open>Only three things widen a user's reading of process instances beyond their own: being a
  super-admin, a grant of \<open>read\<close> on the collection, or being a tenant admin of the active tenant.
  An editor's, reviewer's or user's role alone never does.\<close>

theorem instance_reading_is_widened_only_by_grant_or_admin:
  "instance_initiator_scope rc (Some db) u =
     (if actor_is_super_admin rc (Some u) \<or>
         resource_permitted rc db u ''read'' ''tenant'' ''/process-instances'' None False \<or>
         (\<exists>g \<in> set (active_tenant_groups rc u).
            gp_identifier g = SUPER_ADMIN_ROLE \<or> endswith (gp_identifier g) '':tenant-admin'')
      then None else Some (ac_id u))"
proof -
  have path: "normalize_authorization_path TENANT_WIDE_INSTANCE_READ_PATH = ''/process-instances''"
      "method_to_action ''GET'' = ''read''" "method_to_action ''read'' = ''read''"
      "lifecycle_route ''/process-instances'' = None"
      "normalize_authorization_path ''/process-instances'' = TENANT_WIDE_INSTANCE_READ_PATH"
      "\<not> list_ex (startswith ''/process-instances'') NO_GROUP_FALLBACK_PREFIXES"
      "\<not> substr_in ''/onboarding'' ''/process-instances''" "\<not> substr_in ''/tasks'' ''/process-instances''"
      "\<not> endswith ''/process-instances'' ''/tasks''" "\<not> write_action ''read''"
    by code_simp+
  have fallback: "group_identifier_fallback rc u ''/process-instances'' (Some ''read'') \<longleftrightarrow>
      (\<exists>g \<in> set (active_tenant_groups rc u).
         gp_identifier g = SUPER_ADMIN_ROLE \<or> endswith (gp_identifier g) '':tenant-admin'')"
    by (simp add: group_identifier_fallback_def Let_def path list_ex_iff del: substr_in.simps)
  have home: "''/process-instances'' \<noteq> ''/m8flow/home-task-count''" by simp
  have "allow_uri rc (Some db) (Some u) ''GET'' TENANT_WIDE_INSTANCE_READ_PATH True \<longleftrightarrow>
      actor_is_super_admin rc (Some u) \<or>
      resource_permitted rc db u ''read'' ''tenant'' ''/process-instances'' None False \<or>
      group_identifier_fallback rc u ''/process-instances'' (Some ''read'')"
    by (simp add: allow_uri_def Let_def path home)
  then show ?thesis
    by (simp only: instance_initiator_scope_def fallback)
qed

text \<open>A deny does not reach a tenant admin or an editor outside the protected paths: whatever
  rows deny, a member of the active tenant's admin group is let through, because the role fallback
  is asked after the grant tables said no.\<close>

theorem deny_is_overruled_by_the_role_fallback:
  assumes "g \<in> set (active_tenant_groups rc u)" "endswith (gp_identifier g) '':tenant-admin''"
    and "p = normalize_authorization_path path" "lifecycle_route p = None" "p \<noteq> ''/m8flow/home-task-count''"
    and "\<not> list_ex (startswith p) NO_GROUP_FALLBACK_PREFIXES"
    and "\<not> (write_action (method_to_action verb) \<and> startswith p ''/process-models'' \<and>
            read_only_role (rc_tenant_ids rc) u)"
    and "\<not> actor_is_super_admin rc (Some u)"
  shows "allow_uri rc (Some db) (Some u) verb path True"
proof -
  have "group_identifier_fallback rc u p a" for a
    using assms(1,2) by (auto simp: group_identifier_fallback_def Let_def list_ex_iff)
  then show ?thesis using assms(3-8) by (auto simp: allow_uri_def Let_def)
qed

end
