(* ===== verification/Active_Tenant.thy ===== *)
theory Active_Tenant
  imports Authorization Claims
begin

text \<open>
  The active tenant (auth/tenant_context.py, auth/canonicalize.py, auth/bind.py, auth/resolve.py,
  auth/identity_helpers.py, integrations/auth/core/membership.py): which tenant a request is bound
  to, which membership of the token it uses, and which group identifiers that membership grants.
  A request is a record: what the client sent, what the verified token says, and the attributes of
  \<open>flask.g\<close> and the context variable that the code writes. Whether the token was issued by the
  platform's own realm is the field \<open>te_platform\<close>.
\<close>

subsection \<open>Tokens, memberships and requests\<close>

record tenant_ref =
  tr_id :: "string option"
  tr_alias :: "string option"
  tr_name :: "string option"

record membership =
  mb_ref :: tenant_ref
  mb_roles :: "string list"
  mb_groups :: "string list"
  mb_roles_complete :: bool

record session_claims =
  cl_subject :: string
  cl_issuer :: string
  cl_username :: "string option"
  cl_roles :: "string list"
  cl_memberships :: "membership list"
  cl_active_ref :: "tenant_ref option"

record tenant_env =
  te_rows :: "tenant_identity list"
  te_users :: "actor list"
  te_platform :: bool
  te_path_prefix :: string

record request_state =
  rs_user :: "actor option"
  rs_claims :: "session_claims option"
  rs_payload_tenant :: "string option"   \<comment> \<open>the tenant claim of the decoded payload\<close>
  rs_cookie :: "string option"
  rs_header :: "string option"
  rs_args :: "string \<Rightarrow> string option"
  rs_path :: string
  rs_tenant_id :: "string option"        \<comment> \<open>\<open>g.m8flow_tenant_id\<close>\<close>
  rs_context :: "string option"          \<comment> \<open>the context variable\<close>
  rs_ctx_token :: "string option option" \<comment> \<open>the value a reset returns to\<close>
  rs_exempt :: bool
  rs_public :: bool
  rs_global :: bool

text \<open>What the authorization decisions read of the token.\<close>

definition verified_view :: "session_claims \<Rightarrow> verified_claims" where
  "verified_view c = \<lparr>vc_subject = cl_subject c, vc_username = or_default (cl_username c) [], vc_roles = cl_roles c\<rparr>"

definition claims_context :: "request_state \<Rightarrow> request_context" where
  "claims_context rs = \<lparr>rc_tenant_ids = [], rc_claims = map_option verified_view (rs_claims rs)\<rparr>"

definition is_super_admin_request :: "request_state \<Rightarrow> bool" where
  "is_super_admin_request rs \<longleftrightarrow> actor_is_super_admin (claims_context rs) (rs_user rs)"

subsection \<open>Tenant identifiers\<close>

definition is_legacy_placeholder_tenant_id :: "string \<Rightarrow> bool" where
  "is_legacy_placeholder_tenant_id tenant_id \<longleftrightarrow> strip tenant_id = ''default''"

definition is_concrete_tenant_id :: "string option \<Rightarrow> bool" where
  "is_concrete_tenant_id tenant_id \<longleftrightarrow>
     (case tenant_id of
        None \<Rightarrow> False
      | Some t \<Rightarrow> strip t \<noteq> [] \<and> \<not> is_legacy_placeholder_tenant_id (strip t) \<and> strip t \<noteq> ''public'')"

definition concrete :: "string option \<Rightarrow> string option" where
  "concrete x = (if is_concrete_tenant_id x then map_option strip x else None)"

fun strings :: "string option list \<Rightarrow> string list" where
  "strings [] = []"
| "strings (None # xs) = strings xs"
| "strings (Some x # xs) = x # strings xs"

definition canonical_tenant_id :: "tenant_identity list \<Rightarrow> string option list \<Rightarrow> string option" where
  "canonical_tenant_id rows identifiers =
     (case find_tenant_row rows (strings identifiers) of
        None \<Rightarrow> None
      | Some t \<Rightarrow> (if strip (ti_id t) = [] then None else Some (strip (ti_id t))))"

definition tenant_slug_for_identifier :: "tenant_identity list \<Rightarrow> string \<Rightarrow> string option" where
  "tenant_slug_for_identifier rows identifier =
     (if strip identifier = [] then None
      else case find_tenant_row rows [strip identifier] of
             None \<Rightarrow> None
           | Some t \<Rightarrow> (if strip (ti_slug t) = [] then None else Some (strip (ti_slug t))))"

definition current_tenant_id_or_none :: "request_state \<Rightarrow> string option" where
  "current_tenant_id_or_none rs =
     (if rs_global rs \<or> rs_public rs then None
      else or_else (concrete (rs_tenant_id rs)) (concrete (rs_context rs)))"

definition get_tenant_id :: "request_state \<Rightarrow> (string + string) \<times> request_state" where
  "get_tenant_id rs =
     (if truthy_str (rs_tenant_id rs)
      then (Inr (or_default (rs_tenant_id rs) []),
            if rs_context rs \<noteq> rs_tenant_id rs then rs\<lparr>rs_context := rs_tenant_id rs\<rparr> else rs)
      else if truthy_str (rs_context rs)
      then (Inr (or_default (rs_context rs) []), rs\<lparr>rs_tenant_id := rs_context rs\<rparr>)
      else (Inl ''RuntimeError: Missing tenant id in request context.'', rs))"

subsection \<open>Memberships of the token\<close>

definition nonblank :: "string option list \<Rightarrow> string list" where
  "nonblank xs = filter (\<lambda>v. v \<noteq> []) (map strip (strings xs))"

definition ref_tokens :: "membership \<Rightarrow> string list" where
  "ref_tokens m = nonblank [tr_id (mb_ref m), tr_alias (mb_ref m), tr_name (mb_ref m)]"

definition wanted_identifiers :: "tenant_identity list \<Rightarrow> string \<Rightarrow> string list" where
  "wanted_identifiers rows tenant_id =
     nonblank [Some tenant_id] @ strings [canonical_tenant_id rows [Some tenant_id]]"

definition exact_hit :: "string list \<Rightarrow> membership \<Rightarrow> bool" where
  "exact_hit wanted m \<longleftrightarrow> list_ex (\<lambda>t. t \<in> set wanted) (ref_tokens m)"

definition canonical_hit :: "tenant_identity list \<Rightarrow> string \<Rightarrow> string list \<Rightarrow> membership \<Rightarrow> bool" where
  "canonical_hit rows tenant_id wanted m \<longleftrightarrow>
     (case canonical_tenant_id rows (map Some (ref_tokens m) @ [Some tenant_id]) of
        None \<Rightarrow> False
      | Some c \<Rightarrow> c \<in> set wanted)"

definition membership_for_active_tenant ::
  "tenant_identity list \<Rightarrow> membership list \<Rightarrow> string \<Rightarrow> membership option" where
  "membership_for_active_tenant rows memberships tenant_id =
     (let wanted = wanted_identifiers rows tenant_id in
      if wanted = [] then None
      else case find (exact_hit wanted) memberships of
             Some m \<Rightarrow> Some m
           | None \<Rightarrow> find (canonical_hit rows tenant_id wanted) memberships)"

definition active_membership_needs_enrichment ::
  "membership list \<Rightarrow> membership option \<Rightarrow> bool \<Rightarrow> bool" where
  "active_membership_needs_enrichment memberships m require_lane_groups =
     (if memberships = [] then False
      else case m of
        None \<Rightarrow> True
      | Some a \<Rightarrow>
          (if require_lane_groups then mb_groups a = []
           else if mb_roles_complete a then False
           else mb_roles a = [] \<and> mb_groups a = []))"

text \<open>\<open>directory\<close> answers with the user's memberships, or fails (\<open>None\<close>).\<close>

definition enrich_active_membership ::
  "tenant_identity list \<Rightarrow> (string \<Rightarrow> membership list option) \<Rightarrow> string option \<Rightarrow> string \<Rightarrow>
   membership option \<Rightarrow> membership option" where
  "enrich_active_membership rows directory user_name tenant_id m =
     (let name = strip (or_default user_name []) in
      if name = [] then m
      else case directory name of
             None \<Rightarrow> m
           | Some found \<Rightarrow> or_else (membership_for_active_tenant rows found tenant_id) m)"

definition is_global_permission_group_identifier :: "string \<Rightarrow> bool" where
  "is_global_permission_group_identifier g \<longleftrightarrow> strip g = SUPER_ADMIN_ROLE"

text \<open>\<open>current\<close> is the active tenant of the request, read when no tenant is given.\<close>

definition qualify_group_identifier :: "string option \<Rightarrow> string \<Rightarrow> string option \<Rightarrow> string" where
  "qualify_group_identifier current group_identifier tenant_id =
     (let identifier = strip group_identifier;
          effective = strip (or_default (or_str tenant_id current) [])
      in if identifier = [] then identifier
         else if is_global_permission_group_identifier identifier then SUPER_ADMIN_ROLE
         else case partition_at (CHR 0x3A) identifier of
           (prefix, found, rest) \<Rightarrow>
             (if found \<and> prefix \<noteq> [] \<and> rest \<noteq> [] then identifier
              else if effective = [] then identifier
              else effective @ CHR 0x3A # identifier))"

definition group_identifiers_for_membership ::
  "string option \<Rightarrow> membership option \<Rightarrow> string list \<Rightarrow> string \<Rightarrow> string list" where
  "group_identifiers_for_membership current m roles canonical =
     dedup_into []
       ((if SUPER_ADMIN_ROLE \<in> set roles then [SUPER_ADMIN_ROLE] else []) @
        (case m of
           None \<Rightarrow> []
         | Some a \<Rightarrow>
             filter (\<lambda>v. v \<noteq> [])
               (map (\<lambda>name. strip (qualify_group_identifier current name (Some canonical)))
                 (filter (\<lambda>name. name \<in> set VALID_TENANT_ROLE_NAMES) (map strip (mb_roles a @ mb_groups a))))))"

definition is_slash :: "char \<Rightarrow> bool" where
  "is_slash c \<longleftrightarrow> c = CHR ''/''"

definition lane_group_identifiers_for_membership :: "membership option \<Rightarrow> string list" where
  "lane_group_identifiers_for_membership m =
     (case m of
        None \<Rightarrow> []
      | Some a \<Rightarrow>
          dedup_into [] (filter (\<lambda>v. v \<noteq> [])
            (map (\<lambda>g. strip (last (split_on (CHR ''/'') (strip_if is_slash (strip g))))) (mb_groups a))))"

record active_tenant =
  at_tenant_id :: string
  at_membership :: "membership option"
  at_groups :: "string list"
  at_lanes :: "string list"

definition select_tenant ::
  "tenant_identity list \<Rightarrow> (string \<Rightarrow> membership list option) \<Rightarrow> string option \<Rightarrow> membership list \<Rightarrow>
   string list \<Rightarrow> string \<Rightarrow> string option \<Rightarrow> bool \<Rightarrow> active_tenant" where
  "select_tenant rows directory current memberships roles tenant_id user_name require_lane_groups =
     (let m0 = membership_for_active_tenant rows memberships tenant_id;
          m = (if active_membership_needs_enrichment memberships m0 require_lane_groups
               then enrich_active_membership rows directory user_name tenant_id m0 else m0);
          canonical = or_default (canonical_tenant_id rows
             [Some tenant_id, Option.bind m (\<lambda>a. tr_id (mb_ref a)), Option.bind m (\<lambda>a. tr_alias (mb_ref a))])
             tenant_id
      in \<lparr>at_tenant_id = canonical, at_membership = m,
          at_groups = group_identifiers_for_membership current m roles canonical,
          at_lanes = lane_group_identifiers_for_membership m\<rparr>)"

subsection \<open>Who belongs to a tenant\<close>

definition user_belongs_to_current_tenant :: "actor \<Rightarrow> string list \<Rightarrow> bool" where
  "user_belongs_to_current_tenant user identifiers \<longleftrightarrow>
     identifiers = [] \<or>
     realm_from_service (ac_service user) \<in> set identifiers \<or>
     (CHR ''@'' \<in> set (ac_username user) \<and> rsplit_last (CHR ''@'') (ac_username user) \<in> set identifiers) \<or>
     list_ex (\<lambda>g. case partition_at (CHR 0x3A) (gp_identifier g) of
        (prefix, found, _) \<Rightarrow> found \<and> prefix \<in> set identifiers) (ac_groups user)"

definition more_recently_used :: "actor \<Rightarrow> actor \<Rightarrow> actor" where
  "more_recently_used best u =
     (if ac_last_used best < ac_last_used u \<or> (ac_last_used best = ac_last_used u \<and> ac_id best < ac_id u)
      then u else best)"

definition find_user_by_service_identity :: "actor list \<Rightarrow> string \<Rightarrow> string \<Rightarrow> actor option" where
  "find_user_by_service_identity users service service_id =
     (case find (\<lambda>u. ac_service u = Some service \<and> ac_service_id u = service_id) users of
        Some u \<Rightarrow> Some u
      | None \<Rightarrow>
          (if service_id = [] then None
           else case filter (\<lambda>u. ac_service_id u = service_id \<and>
                  realm_from_service (ac_service u) = realm_from_service (Some service)) users of
             [] \<Rightarrow> None
           | u # us \<Rightarrow> Some (foldl more_recently_used u us)))"

definition local_user_from_claims :: "tenant_env \<Rightarrow> session_claims option \<Rightarrow> actor option" where
  "local_user_from_claims te claims =
     (case claims of
        None \<Rightarrow> None
      | Some c \<Rightarrow>
          (if strip (cl_issuer c) = [] \<or> strip (cl_subject c) = [] then None
           else find_user_by_service_identity (te_users te) (strip (cl_issuer c)) (strip (cl_subject c))))"

definition claims_user_belongs_to_tenant :: "tenant_env \<Rightarrow> session_claims option \<Rightarrow> string list \<Rightarrow> bool" where
  "claims_user_belongs_to_tenant te claims identifiers \<longleftrightarrow>
     (case local_user_from_claims te claims of
        None \<Rightarrow> False
      | Some u \<Rightarrow> user_belongs_to_current_tenant u identifiers)"

subsection \<open>Binding a request\<close>

definition path_matches_prefix :: "string \<Rightarrow> string \<Rightarrow> bool" where
  "path_matches_prefix path prefix \<longleftrightarrow>
     path = prefix \<or> startswith path (if endswith prefix ''/'' then prefix else prefix @ ''/'')"

definition BASE_EXEMPT_PATH_PREFIXES :: "string list" where
  "BASE_EXEMPT_PATH_PREFIXES = [''/.well-known'', ''/favicon.ico'', ''/v1.0/ping'', ''/v1.0/m8flow/ping'',
     ''/v1.0/healthy'', ''/v1.0/status'', ''/v1.0/readyz'', ''/v1.0/openapi.json'', ''/v1.0/openapi.yaml'',
     ''/openapi.yaml'', ''/v1.0/ui'', ''/v1.0/static'', ''/v1.0/m8flow/openapi.json'',
     ''/v1.0/m8flow/openapi.yaml'', ''/v1.0/m8flow/ui'', ''/v1.0/logout'', ''/v1.0/authentication-options'',
     ''/v1.0/login'', ''/v1.0/refresh'', ''/v1.0/tenants/check'', ''/v1.0/m8flow/tenant-login-url'',
     ''/v1.0/m8flow/organization-memberships'', ''/v1.0/m8flow/tenant-realms'', ''/v1.0/m8flow/create-tenant'',
     ''/m8flow/create-tenant'', ''/m8flow/organization-memberships'', ''/v1.0/m8flow/session'',
     ''/m8flow/session'', ''/v1.0/m8flow/tenants'', ''/m8flow/tenants'', ''/v1.0/m8flow/invitations'',
     ''/m8flow/invitations'']"

definition path_is_exempt :: "tenant_env \<Rightarrow> string \<Rightarrow> bool" where
  "path_is_exempt te path \<longleftrightarrow>
     list_ex (path_matches_prefix path)
       (BASE_EXEMPT_PATH_PREFIXES @
        (if te_path_prefix te = [] then [] else map (\<lambda>p. te_path_prefix te @ p) BASE_EXEMPT_PATH_PREFIXES))"

definition is_tenant_context_exempt_request :: "tenant_env \<Rightarrow> request_state \<Rightarrow> bool" where
  "is_tenant_context_exempt_request te rs \<longleftrightarrow> rs_exempt rs \<or> rs_public rs \<or> rs_global rs \<or> te_platform te"

definition tenant_id_from_selected_cookie :: "request_state \<Rightarrow> string option" where
  "tenant_id_from_selected_cookie rs = or_str (rs_cookie rs) (rs_tenant_id rs)"

definition tenant_override_for_super_admin :: "bool \<Rightarrow> request_state \<Rightarrow> string option" where
  "tenant_override_for_super_admin super rs =
     (if \<not> super then None
      else let v = or_str (rs_args rs ''tenantId'') (rs_args rs ''tenant_id'') in if truthy_str v then v else None)"

definition memberships_of :: "request_state \<Rightarrow> membership list" where
  "memberships_of rs = (case rs_claims rs of None \<Rightarrow> [] | Some c \<Rightarrow> cl_memberships c)"

definition canonical_for_request :: "tenant_env \<Rightarrow> request_state \<Rightarrow> string \<Rightarrow> string" where
  "canonical_for_request te rs tenant_id =
     (case canonical_tenant_id (te_rows te) [Some tenant_id] of
        Some c \<Rightarrow> c
      | None \<Rightarrow>
          or_default
            (case membership_for_active_tenant (te_rows te) (memberships_of rs) tenant_id of
               None \<Rightarrow> None
             | Some m \<Rightarrow> canonical_tenant_id (te_rows te) [tr_id (mb_ref m), tr_alias (mb_ref m)])
            (strip tenant_id))"

definition bind_request_tenant :: "tenant_env \<Rightarrow> string \<Rightarrow> request_state \<Rightarrow> string \<times> request_state" where
  "bind_request_tenant te tenant_id rs =
     (let canonical = canonical_for_request te rs tenant_id;
          before = or_default (rs_ctx_token rs) (rs_context rs)
      in (canonical, rs\<lparr>rs_tenant_id := Some canonical, rs_context := Some canonical,
                        rs_ctx_token := Some before\<rparr>))"

definition require_tenant_id ::
  "tenant_env \<Rightarrow> actor option \<Rightarrow> bool \<Rightarrow> request_state \<Rightarrow> (api_error + string) \<times> request_state" where
  "require_tenant_id te user allow_override rs =
     (let super = actor_is_super_admin (claims_context rs) user;
          override = (if allow_override then tenant_override_for_super_admin super rs else None);
          selected = or_str override (tenant_id_from_selected_cookie rs)
      in if \<not> truthy_str selected
         then (Inl (ApiError ''tenant_required'' ''m8flow_selected_tenant cookie is required'' 400), rs)
         else let t = canonical_for_request te rs (or_default selected [])
              in (Inr t, rs\<lparr>rs_tenant_id := Some t\<rparr>))"

definition resolve_read_tenant_id ::
  "tenant_env \<Rightarrow> actor option \<Rightarrow> request_state \<Rightarrow> (api_error + string option) \<times> request_state" where
  "resolve_read_tenant_id te user rs =
     (if \<not> actor_is_super_admin (claims_context rs) user
      then (case require_tenant_id te user True rs of (r, rs') \<Rightarrow> (map_sum id Some r, rs'))
      else let selected = or_str (tenant_override_for_super_admin True rs) (tenant_id_from_selected_cookie rs)
           in if truthy_str selected then (Inr selected, rs\<lparr>rs_tenant_id := selected\<rparr>) else (Inr None, rs))"

definition require_catalog_write_tenant_id ::
  "tenant_env \<Rightarrow> actor option \<Rightarrow> string option \<Rightarrow> request_state \<Rightarrow> (api_error + string) \<times> request_state" where
  "require_catalog_write_tenant_id te user explicit rs =
     (let body_raw = strip (or_default explicit []);
          resolved = or_else (concrete (tenant_override_for_super_admin True rs))
                             (concrete (tenant_id_from_selected_cookie rs));
          bind = (\<lambda>t. case bind_request_tenant te t rs of (c, rs') \<Rightarrow> (Inr c, rs'))
      in if body_raw \<noteq> [] \<and> \<not> is_concrete_tenant_id (Some body_raw)
         then (Inl (ApiError ''invalid_tenant''
                 (''Invalid tenant '' @ [CHR 0x27] @ body_raw @ [CHR 0x27] @ ''.'') 400), rs)
         else if \<not> actor_is_super_admin (claims_context rs) user then require_tenant_id te user True rs
         else if body_raw \<noteq> []
         then (case resolved of
                 None \<Rightarrow> bind body_raw
               | Some r \<Rightarrow>
                   (if canonical_for_request te rs body_raw \<noteq> canonical_for_request te rs r
                    then (Inl (ApiError ''tenant_override_forbidden''
                      ''Super-admin workflow write request conflicts with the current tenant context.'' 400), rs)
                    else bind (canonical_for_request te rs body_raw)))
         else case resolved of
           Some r \<Rightarrow> bind r
         | None \<Rightarrow> (Inl (ApiError ''tenant_required''
             ''Select a tenant before creating, updating, or executing a workflow.'' 400), rs))"

definition selected_identifiers :: "tenant_env \<Rightarrow> string \<Rightarrow> string list" where
  "selected_identifiers te tenant_id =
     (let ids = current_tenant_identifiers (te_rows te) (Some tenant_id) in if ids = [] then [tenant_id] else ids)"

definition claims_match_cookie :: "tenant_env \<Rightarrow> session_claims option \<Rightarrow> string \<Rightarrow> bool" where
  "claims_match_cookie te claims cookie \<longleftrightarrow>
     (case claims of
        None \<Rightarrow> False
      | Some c \<Rightarrow>
          list_ex (\<lambda>m. list_ex (\<lambda>v. v \<noteq> [] \<and> v \<in> set (selected_identifiers te cookie))
                     (strings [tr_alias (mb_ref m), tr_id (mb_ref m)])) (cl_memberships c) \<or>
          claims_user_belongs_to_tenant te claims (selected_identifiers te cookie))"

definition jwt_tenant :: "session_claims option \<Rightarrow> string option \<Rightarrow> string option" where
  "jwt_tenant claims payload_tenant =
     (let candidate = (case claims of
                         None \<Rightarrow> None
                       | Some c \<Rightarrow> (case cl_active_ref c of
                           None \<Rightarrow> None | Some r \<Rightarrow> or_str (tr_id r) (tr_alias r)))
      in if is_concrete_tenant_id candidate then candidate else concrete payload_tenant)"

definition user_belongs :: "tenant_env \<Rightarrow> request_state \<Rightarrow> string \<Rightarrow> bool" where
  "user_belongs te rs tenant_id \<longleftrightarrow>
     (case rs_user rs of
        None \<Rightarrow> False
      | Some u \<Rightarrow> user_belongs_to_current_tenant u (current_tenant_identifiers (te_rows te) (Some tenant_id)))"

definition override_forbidden :: "string \<Rightarrow> api_error" where
  "override_forbidden via =
     ApiError ''tenant_override_forbidden''
       (''Tenant override forbidden via '' @ via @
        ''; the authenticated user does not belong to that tenant.'') 400"

definition trimmed :: "string option \<Rightarrow> string option" where
  "trimmed x = (if strip (or_default x []) = [] then None else Some (strip (or_default x [])))"

definition resolve_request_tenant :: "tenant_env \<Rightarrow> request_state \<Rightarrow> api_error + request_state" where
  "resolve_request_tenant te rs =
     (let bind = (\<lambda>t. Inr (snd (bind_request_tenant te t rs)));
          exempt = Inr (rs\<lparr>rs_exempt := True\<rparr>);
          cookie = trimmed (rs_cookie rs)
      in if is_super_admin_request rs
         then (let override = tenant_override_for_super_admin True rs in
               if is_concrete_tenant_id override then bind (strip (or_default override []))
               else case concrete (rs_cookie rs) of Some c \<Rightarrow> bind c | None \<Rightarrow> exempt)
         else if (case cookie of None \<Rightarrow> False | Some c \<Rightarrow> claims_match_cookie te (rs_claims rs) c)
         then bind (or_default cookie [])
         else case jwt_tenant (rs_claims rs) (rs_payload_tenant rs) of
           Some t \<Rightarrow> bind t
         | None \<Rightarrow>
             (if rs_user rs = None then (if path_is_exempt te (rs_path rs) then exempt else Inr rs)
              else case trimmed (rs_header rs) of
                Some h \<Rightarrow> (if \<not> user_belongs te rs h then Inl (override_forbidden ''x-m8flow-tenant-id'') else bind h)
              | None \<Rightarrow> (case cookie of
                  Some c \<Rightarrow> (if \<not> user_belongs te rs c then Inl (override_forbidden ''m8flow_selected_tenant'') else bind c)
                | None \<Rightarrow>
                    (if path_is_exempt te (rs_path rs) then exempt
                     else Inl (ApiError ''tenant_required''
                       (''Tenant context could not be resolved from authentication data for path '' @
                        [CHR 0x27] @ rs_path rs @ [CHR 0x27] @ ''.'') 400)))))"

text \<open>The settings a transaction of the request starts with, on PostgreSQL.\<close>

definition apply_postgres_rls :: "tenant_env \<Rightarrow> request_state \<Rightarrow> (string \<times> string) list" where
  "apply_postgres_rls te rs =
     (let current = (case current_tenant_id_or_none rs of
                       None \<Rightarrow> [] | Some t \<Rightarrow> [(''app.current_tenant'', t)])
      in if is_super_admin_request rs then (''app.bypass_rls'', ''on'') # current
         else if is_tenant_context_exempt_request te rs then []
         else current)"

end
