(* ===== verification/Active_Tenant_Laws.thy ===== *)
theory Active_Tenant_Laws
  imports Active_Tenant
begin

text \<open>
  What the binding of a request to a tenant promises, and where it does not hold: every bound tenant
  was vouched for and row-level security follows it, but the tenant a route then asks for is read
  from the cookie again, and a membership of an unknown organization counts for every tenant.
\<close>

subsection \<open>Finding a tenant row\<close>

definition names_row :: "string list \<Rightarrow> tenant_identity \<Rightarrow> bool" where
  "names_row ids t \<longleftrightarrow> ti_id t \<in> set ids \<or> ti_slug t \<in> set ids"

definition clean_ids :: "string list \<Rightarrow> string list" where
  "clean_ids ids = filter (\<lambda>i. i \<noteq> []) (map strip ids)"

lemma find_tenant_row_iff:
  "find_tenant_row rows ids =
     (if clean_ids ids = [] then None
      else case filter (names_row (clean_ids ids)) rows of [t] \<Rightarrow> Some t | _ \<Rightarrow> None)"
proof -
  have s: "set (dedup_into [] (clean_ids ids)) = set (clean_ids ids)" by simp
  then have e: "dedup_into [] (clean_ids ids) = [] \<longleftrightarrow> clean_ids ids = []" by (metis set_empty)
  show ?thesis
    unfolding find_tenant_row_def Let_def clean_ids_def [symmetric] e s names_row_def by (rule refl)
qed

lemma find_tenant_row_Some:
  assumes "find_tenant_row rows ids = Some t"
  shows "t \<in> set rows \<and> names_row (clean_ids ids) t \<and> (\<forall>x \<in> set rows. names_row (clean_ids ids) x \<longrightarrow> x = t)"
proof -
  have "filter (names_row (clean_ids ids)) rows = [t]"
    using assms by (auto simp: find_tenant_row_iff split: if_splits list.splits)
  then have "set (filter (names_row (clean_ids ids)) rows) = {t}" by simp
  then show ?thesis by auto
qed

text \<open>Identifiers that name no row do not change the answer.\<close>

lemma find_tenant_row_extra:
  assumes "\<And>t. t \<in> set rows \<Longrightarrow> \<not> names_row (clean_ids extra) t" "clean_ids ids \<noteq> []"
    and "set ids' = set ids \<union> set extra"
  shows "find_tenant_row rows ids' = find_tenant_row rows ids"
proof -
  have set_eq: "set (clean_ids ids') = set (clean_ids ids) \<union> set (clean_ids extra)"
    using assms(3) by (auto simp: clean_ids_def)
  then have "names_row (clean_ids ids') t \<longleftrightarrow> names_row (clean_ids ids) t" if "t \<in> set rows" for t
    using assms(1) [OF that] by (auto simp: names_row_def)
  then have "filter (names_row (clean_ids ids')) rows = filter (names_row (clean_ids ids)) rows"
    by (auto intro: filter_cong)
  moreover have "clean_ids ids' \<noteq> []" using set_eq assms(2) by auto
  ultimately show ?thesis using assms(2) by (simp add: find_tenant_row_iff)
qed

lemma set_strings: "x \<in> set (strings xs) \<longleftrightarrow> Some x \<in> set xs"
  by (induction xs rule: strings.induct) auto

lemma strings_map_Some [simp]: "strings (map Some xs) = xs"
  by (induction xs) auto

lemma strings_append: "strings (xs @ ys) = strings xs @ strings ys"
  by (induction xs rule: strings.induct) auto

lemma nonblank_clean: "nonblank xs = clean_ids (strings xs)"
  by (simp add: nonblank_def clean_ids_def)

lemma clean_ids_idem [simp]: "clean_ids (clean_ids ids) = clean_ids ids"
  by (induction ids) (auto simp: clean_ids_def)

lemma clean_ids_append: "clean_ids (xs @ ys) = clean_ids xs @ clean_ids ys"
  by (simp add: clean_ids_def)

lemma ref_tokens_clean [simp]: "clean_ids (ref_tokens m) = ref_tokens m"
  by (simp add: ref_tokens_def nonblank_clean)

subsection \<open>Which membership is used\<close>

text \<open>An organization of the token that some row of the tenant table knows.\<close>

definition known_organization :: "tenant_identity list \<Rightarrow> membership \<Rightarrow> bool" where
  "known_organization rows m \<longleftrightarrow> (\<exists>t \<in> set rows. names_row (ref_tokens m) t)"

lemma membership_cases:
  assumes "membership_for_active_tenant rows memberships tenant_id = Some m"
  shows "m \<in> set memberships \<and>
    (exact_hit (wanted_identifiers rows tenant_id) m \<or> canonical_hit rows tenant_id (wanted_identifiers rows tenant_id) m)"
  using assms
  by (auto simp: membership_for_active_tenant_def Let_def split: if_splits option.splits
      dest: find_Some_iff_props)

text \<open>An organization the tenant table knows is used for its own tenant only: the membership that
  becomes active names the selected tenant by one of its identifiers, or names the very row the
  selected tenant resolves to.\<close>

theorem known_organization_stands_for_its_own_tenant:
  assumes "membership_for_active_tenant rows memberships tenant_id = Some m"
    and "known_organization rows m"
  shows "m \<in> set memberships \<and>
    ((\<exists>token \<in> set (ref_tokens m). token \<in> set (wanted_identifiers rows tenant_id)) \<or>
     (\<exists>t \<in> set rows. names_row (ref_tokens m) t \<and> strip (ti_id t) \<in> set (wanted_identifiers rows tenant_id)))"
proof -
  note m = membership_cases [OF assms(1)]
  show ?thesis
  proof (cases "exact_hit (wanted_identifiers rows tenant_id) m")
    case True
    with m show ?thesis by (auto simp: exact_hit_def list_ex_iff)
  next
    case False
    with m obtain c where c: "canonical_tenant_id rows (map Some (ref_tokens m) @ [Some tenant_id]) = Some c"
        "c \<in> set (wanted_identifiers rows tenant_id)"
      by (auto simp: canonical_hit_def split: option.splits)
    then obtain t where t: "find_tenant_row rows (ref_tokens m @ [tenant_id]) = Some t" "c = strip (ti_id t)"
      by (auto simp: canonical_tenant_id_def strings_append split: option.splits if_splits)
    from assms(2) obtain x where x: "x \<in> set rows" "names_row (ref_tokens m) x"
      by (auto simp: known_organization_def)
    then have "names_row (clean_ids (ref_tokens m @ [tenant_id])) x"
      by (auto simp: names_row_def clean_ids_append)
    with find_tenant_row_Some [OF t(1)] x(1) have "x = t" by blast
    with x t(2) c(2) m show ?thesis by blast
  qed
qed

lemma known_single: "canonical_tenant_id rows [Some tenant_id] = Some c \<Longrightarrow>
    \<exists>v. find_tenant_row rows [tenant_id] = Some v \<and> c = strip (ti_id v) \<and> c \<noteq> []"
  by (auto simp: canonical_tenant_id_def split: option.splits if_splits)

lemma find_row_clean: "find_tenant_row rows [tenant_id] = Some v \<Longrightarrow> clean_ids [tenant_id] \<noteq> []"
  by (auto simp: find_tenant_row_iff split: if_splits)

lemma canonical_extra:
  assumes "\<not> known_organization rows m" "canonical_tenant_id rows [Some tenant_id] = Some c"
    and "set (clean_ids extra) \<subseteq> set (ref_tokens m)" "set ids' = insert tenant_id (set extra)"
  shows "canonical_tenant_id rows (map Some ids') = Some c"
proof -
  obtain v where v: "find_tenant_row rows [tenant_id] = Some v" "c = strip (ti_id v)" "c \<noteq> []"
    using known_single [OF assms(2)] by blast
  have "\<not> names_row (clean_ids extra) t" if "t \<in> set rows" for t
    using assms(1,3) that by (auto simp: known_organization_def names_row_def)
  from find_tenant_row_extra [OF this find_row_clean [OF v(1)], where ids' = ids'] assms(4) v
  show ?thesis by (simp add: canonical_tenant_id_def)
qed

text \<open>An organization the tenant table does not know counts for every tenant: with a token that
  is a member of such an organization only, selecting any existing tenant activates that membership,
  and its roles are granted as roles of the selected tenant.\<close>

theorem unknown_organization_counts_for_every_tenant:
  assumes "\<not> known_organization rows m" "canonical_tenant_id rows [Some tenant_id] = Some c"
    and "mb_groups m \<noteq> []" "role \<in> set (mb_roles m)" "role \<in> set VALID_TENANT_ROLE_NAMES"
  shows "membership_for_active_tenant rows [m] tenant_id = Some m \<and>
    at_tenant_id (select_tenant rows directory current [m] roles tenant_id user_name lanes) = c \<and>
    c @ CHR 0x3A # role \<in> set (at_groups (select_tenant rows directory current [m] roles tenant_id user_name lanes))"
proof -
  have ne: "c \<noteq> []" "c \<in> set (wanted_identifiers rows tenant_id)" "strip c = c"
    using known_single [OF assms(2)] assms(2) by (auto simp: wanted_identifiers_def)
  have "canonical_tenant_id rows (map Some (ref_tokens m @ [tenant_id])) = Some c"
    by (rule canonical_extra [OF assms(1,2), of "ref_tokens m"]) auto
  then have hit: "canonical_hit rows tenant_id (wanted_identifiers rows tenant_id) m"
    using ne(2) by (simp add: canonical_hit_def)
  have w: "wanted_identifiers rows tenant_id \<noteq> []" using ne(2) by auto
  have mem: "membership_for_active_tenant rows [m] tenant_id = Some m"
    unfolding membership_for_active_tenant_def Let_def using w hit
    by (cases "exact_hit (wanted_identifiers rows tenant_id) m") simp_all
  have keep: "\<not> active_membership_needs_enrichment [m] (Some m) lanes"
    using assms(3) by (simp add: active_membership_needs_enrichment_def)
  let ?refs = "[Some tenant_id, tr_id (mb_ref m), tr_alias (mb_ref m)]"
  have "strings ?refs = tenant_id # strings [tr_id (mb_ref m), tr_alias (mb_ref m)]" by simp
  then have "canonical_tenant_id rows (map Some (strings ?refs)) = Some c"
    by (intro canonical_extra [OF assms(1,2), of "strings [tr_id (mb_ref m), tr_alias (mb_ref m)]"])
      (auto simp: ref_tokens_def nonblank_clean clean_ids_def set_strings)
  then have canon: "canonical_tenant_id rows ?refs = Some c"
    by (simp add: canonical_tenant_id_def)
  have sel: "at_tenant_id (select_tenant rows directory current [m] roles tenant_id user_name lanes) = c"
      "at_groups (select_tenant rows directory current [m] roles tenant_id user_name lanes)
       = group_identifiers_for_membership current (Some m) roles c"
    unfolding select_tenant_def Let_def mem using keep canon by simp_all
  have plain: "\<forall>r \<in> set VALID_TENANT_ROLE_NAMES. strip r = r \<and> r \<noteq> [] \<and> r \<noteq> SUPER_ADMIN_ROLE \<and> CHR 0x3A \<notin> set r"
    by code_simp
  have q: "qualify_group_identifier current role (Some c) = c @ CHR 0x3A # role"
    using plain assms(5) ne by (simp add: qualify_group_identifier_def Let_def
        is_global_permission_group_identifier_def partition_at_absent or_str_def)
  have st: "strip (c @ CHR 0x3A # role) = c @ CHR 0x3A # role"
  proof -
    have "role \<noteq> []" using plain assms(5) by blast
    moreover have "\<not> py_space (last role)" using plain assms(5) strip_if_last [of py_space role]
      by (auto simp: strip_def)
    moreover have "\<not> py_space (hd c)" using ne strip_if_hd [of py_space c] by (simp add: strip_def)
    ultimately show ?thesis unfolding strip_def using ne(1) by (intro strip_if_id) auto
  qed
  have "strip role = role" using plain assms(5) by blast
  then have "role \<in> set (filter (\<lambda>name. name \<in> set VALID_TENANT_ROLE_NAMES) (map strip (mb_roles m @ mb_groups m)))"
    using assms(4,5) by (force simp: image_iff)
  moreover have "strip (qualify_group_identifier current role (Some c)) = c @ CHR 0x3A # role"
    unfolding q by (rule st)
  ultimately have "c @ CHR 0x3A # role \<in> set (map (\<lambda>name. strip (qualify_group_identifier current name (Some c)))
      (filter (\<lambda>name. name \<in> set VALID_TENANT_ROLE_NAMES) (map strip (mb_roles m @ mb_groups m))))"
    unfolding set_map by (metis (no_types, lifting) image_eqI)
  then have "c @ CHR 0x3A # role \<in> set (group_identifiers_for_membership current (Some m) roles c)"
    unfolding group_identifiers_for_membership_def option.case set_dedup_into set_append set_filter by blast
  with mem sel show ?thesis by simp
qed

subsection \<open>Binding\<close>

text \<open>Who vouches for a tenant: the claim of the token, the membership list of the token for the
  cookie, or the user's own record for the header or the cookie.\<close>

definition vouched_for :: "tenant_env \<Rightarrow> request_state \<Rightarrow> string \<Rightarrow> bool" where
  "vouched_for te rs t \<longleftrightarrow>
     jwt_tenant (rs_claims rs) (rs_payload_tenant rs) = Some t \<or>
     (trimmed (rs_cookie rs) = Some t \<and> claims_match_cookie te (rs_claims rs) t) \<or>
     ((trimmed (rs_header rs) = Some t \<or> trimmed (rs_cookie rs) = Some t) \<and> user_belongs te rs t)"

definition bound_to :: "request_state \<Rightarrow> string \<Rightarrow> bool" where
  "bound_to rs t \<longleftrightarrow> rs_tenant_id rs = Some t \<and> rs_context rs = Some t"

lemma bind_bound: "bound_to (snd (bind_request_tenant te t rs)) (canonical_for_request te rs t)"
  by (simp add: bind_request_tenant_def bound_to_def Let_def)

lemma bind_keeps:
  "rs_user (snd (bind_request_tenant te t rs)) = rs_user rs"
  "rs_claims (snd (bind_request_tenant te t rs)) = rs_claims rs"
  "rs_cookie (snd (bind_request_tenant te t rs)) = rs_cookie rs"
  "rs_exempt (snd (bind_request_tenant te t rs)) = rs_exempt rs"
  "rs_public (snd (bind_request_tenant te t rs)) = rs_public rs"
  "rs_global (snd (bind_request_tenant te t rs)) = rs_global rs"
  by (simp_all add: bind_request_tenant_def Let_def)

lemma super_admin_same_actor:
  "rs_user rs' = rs_user rs \<Longrightarrow> rs_claims rs' = rs_claims rs \<Longrightarrow>
   is_super_admin_request rs' = is_super_admin_request rs"
  by (simp add: is_super_admin_request_def claims_context_def)

lemma rls_without_super_admin:
  "\<not> is_super_admin_request rs \<Longrightarrow> (''app.bypass_rls'', v) \<notin> set (apply_postgres_rls te rs)"
  by (auto simp: apply_postgres_rls_def Let_def split: option.splits)

lemma resolve_cases:
  assumes "resolve_request_tenant te rs = Inr rs'" "\<not> is_super_admin_request rs"
  shows "(\<exists>t. vouched_for te rs t \<and> rs' = snd (bind_request_tenant te t rs)) \<or>
      (path_is_exempt te (rs_path rs) \<and> rs' = rs\<lparr>rs_exempt := True\<rparr>) \<or>
      (rs_user rs = None \<and> rs' = rs)"
proof (cases "\<exists>c. trimmed (rs_cookie rs) = Some c \<and> claims_match_cookie te (rs_claims rs) c")
  case True
  with assms show ?thesis by (auto simp: resolve_request_tenant_def vouched_for_def)
next
  case cookie: False
  then have no: "\<not> (case trimmed (rs_cookie rs) of None \<Rightarrow> False | Some c \<Rightarrow> claims_match_cookie te (rs_claims rs) c)"
    by (simp split: option.splits)
  note res = assms(1) [unfolded resolve_request_tenant_def Let_def if_not_P [OF assms(2)] if_not_P [OF no]]
  show ?thesis
  proof (cases "jwt_tenant (rs_claims rs) (rs_payload_tenant rs)")
    case (Some t)
    with res show ?thesis by (auto simp: vouched_for_def)
  next
    case None
    show ?thesis
    proof (cases "rs_user rs = None")
      case True
      with res None show ?thesis by (auto split: if_splits)
    next
      case False
      with res None have r: "(case trimmed (rs_header rs) of
          Some h \<Rightarrow> (if \<not> user_belongs te rs h then Inl (override_forbidden ''x-m8flow-tenant-id'')
                     else Inr (snd (bind_request_tenant te h rs)))
        | None \<Rightarrow> (case trimmed (rs_cookie rs) of
            Some c \<Rightarrow> (if \<not> user_belongs te rs c then Inl (override_forbidden ''m8flow_selected_tenant'')
                       else Inr (snd (bind_request_tenant te c rs)))
          | None \<Rightarrow> (if path_is_exempt te (rs_path rs) then Inr (rs\<lparr>rs_exempt := True\<rparr>)
                     else Inl (ApiError ''tenant_required''
                       (''Tenant context could not be resolved from authentication data for path '' @
                        [CHR 0x27] @ rs_path rs @ [CHR 0x27] @ ''.'') 400)))) = Inr rs'"
        by simp
      show ?thesis
      proof (cases "trimmed (rs_header rs)")
        case (Some h)
        with r show ?thesis by (auto simp: vouched_for_def split: if_splits)
      next
        case None
        with r show ?thesis by (auto simp: vouched_for_def split: if_splits option.splits)
      qed
    qed
  qed
qed


text \<open>The cookie has the last word. When the token's own tenant is bound because nothing vouches
  for the tenant cookie, a route that then asks for the tenant id is given the cookie's tenant all
  the same, and the next transaction of the request runs under that tenant.\<close>

theorem cookie_overrides_the_bound_tenant:
  assumes "\<not> is_super_admin_request rs" "rs_cookie rs = Some cookie" "cookie \<noteq> []" "strip cookie = cookie"
    and "\<not> claims_match_cookie te (rs_claims rs) cookie" "\<not> user_belongs te rs cookie"
    and "jwt_tenant (rs_claims rs) (rs_payload_tenant rs) = Some own"
    and "other = canonical_for_request te rs cookie" "concrete (Some other) = Some other"
    and "\<not> is_tenant_context_exempt_request te rs"
  shows "\<exists>rs1 rs2. resolve_request_tenant te rs = Inr rs1 \<and> bound_to rs1 (canonical_for_request te rs own) \<and>
    require_tenant_id te (rs_user rs1) True rs1 = (Inr other, rs2) \<and>
    apply_postgres_rls te rs2 = [(''app.current_tenant'', other)]"
proof -
  let ?rs1 = "snd (bind_request_tenant te own rs)"
  let ?rs2 = "?rs1\<lparr>rs_tenant_id := Some other\<rparr>"
  have r: "resolve_request_tenant te rs = Inr ?rs1"
    using assms(1-7) by (simp add: resolve_request_tenant_def Let_def trimmed_def)
  have na: "\<not> actor_is_super_admin (claims_context ?rs1) (rs_user ?rs1)"
    using assms(1) super_admin_same_actor [of ?rs1 rs] by (simp add: is_super_admin_request_def bind_keeps)
  have same: "canonical_for_request te ?rs1 cookie = other"
    unfolding assms(8) canonical_for_request_def memberships_of_def bind_keeps by (rule refl)
  have q: "require_tenant_id te (rs_user ?rs1) True ?rs1 = (Inr other, ?rs2)"
    using na assms(2,3) same
    by (simp add: require_tenant_id_def Let_def tenant_override_for_super_admin_def
        tenant_id_from_selected_cookie_def bind_keeps or_str_def)
  have "\<not> is_super_admin_request ?rs2"
    using assms(1) super_admin_same_actor [of ?rs2 rs] by (simp add: bind_keeps)
  moreover have "\<not> is_tenant_context_exempt_request te ?rs2" "current_tenant_id_or_none ?rs2 = Some other"
    using assms(9,10) by (auto simp: is_tenant_context_exempt_request_def bind_keeps current_tenant_id_or_none_def)
  ultimately have "apply_postgres_rls te ?rs2 = [(''app.current_tenant'', other)]"
    by (simp add: apply_postgres_rls_def)
  with r q bind_bound show ?thesis by blast
qed

end
