(* ===== verification/Safe_Redirect.thy ===== *)
theory Safe_Redirect
  imports Py_Text
begin

text \<open>
  Redirect validation (routes/safe_redirect.py) on top of the part of \<open>urllib.parse.urlparse\<close> it
  reads: the scheme and the network location. \<open>urlparse\<close> raises \<open>ValueError\<close> on brackets that do not
  match; the checks it makes of a bracketed host and of a host that is not ASCII need tables of the
  standard library and are the argument \<open>host_ok\<close>. The environment is the argument \<open>env\<close>.
\<close>

subsection \<open>The URL parser\<close>

record url_parts =
  up_scheme :: string
  up_netloc :: string

definition url_scheme_char :: "char \<Rightarrow> bool" where
  "url_scheme_char c \<longleftrightarrow> is_alpha c \<or> is_digit c \<or> c \<in> {CHR ''+'', CHR ''-'', CHR ''.''}"

definition ends_netloc :: "char \<Rightarrow> bool" where
  "ends_netloc c \<longleftrightarrow> c \<in> {CHR ''/'', CHR ''?'', CHR ''#''}"

definition split_scheme :: "string \<Rightarrow> string \<times> string" where
  "split_scheme url =
     (case partition_at (CHR 0x3A) url of
        (before, found, rest) \<Rightarrow>
          (if found \<and> before \<noteq> [] \<and> is_alpha (hd before) \<and> list_all url_scheme_char before
           then (py_lower before, rest) else ([], url)))"

definition brackets_match :: "string \<Rightarrow> bool" where
  "brackets_match netloc \<longleftrightarrow> (CHR ''['' \<in> set netloc \<longleftrightarrow> CHR '']'' \<in> set netloc)"

definition urlparse :: "(string \<Rightarrow> bool) \<Rightarrow> string \<Rightarrow> string + url_parts" where
  "urlparse host_ok raw =
     (let url = filter (\<lambda>c. c \<notin> {CHR 0x09, CHR 0x0A, CHR 0x0D}) (lstrip_if (\<lambda>c. code_point c \<le> 32) raw);
          (scheme, rest) = split_scheme url;
          netloc = (if startswith rest ''//'' then takeWhile (\<lambda>c. \<not> ends_netloc c) (drop 2 rest) else [])
      in if \<not> brackets_match netloc then Inl ''ValueError''
         else if (CHR ''['' \<in> set netloc \<or> \<not> list_all (\<lambda>c. code_point c < 128) netloc) \<and> \<not> host_ok netloc
         then Inl ''ValueError''
         else Inr \<lparr>up_scheme = scheme, up_netloc = netloc\<rparr>)"

subsection \<open>Origins\<close>

definition web_scheme :: "string \<Rightarrow> bool" where
  "web_scheme s \<longleftrightarrow> s \<in> {''http'', ''https''}"

definition scheme_mark :: string where
  "scheme_mark = CHR 0x3A # ''//''"

definition origin_of :: "url_parts \<Rightarrow> string" where
  "origin_of parsed = py_lower (up_scheme parsed @ scheme_mark @ up_netloc parsed)"

definition normalize_origin :: "(string \<Rightarrow> bool) \<Rightarrow> string \<Rightarrow> string + string option" where
  "normalize_origin host_ok raw =
     (let v = rstrip_if (\<lambda>c. c = CHR ''/'') (strip raw) in
      if v = [] then Inr None
      else case urlparse host_ok (if substr_in scheme_mark v then v else ''http'' @ scheme_mark @ v) of
        Inl e \<Rightarrow> Inl e
      | Inr parsed \<Rightarrow>
          Inr (if \<not> web_scheme (up_scheme parsed) \<or> up_netloc parsed = [] then None
               else Some (origin_of parsed)))"

definition DEFAULT_ALLOWED_ORIGINS :: "string list" where
  "DEFAULT_ALLOWED_ORIGINS = map (\<lambda>h. ''http'' @ scheme_mark @ h)
     [''localhost'' @ CHR 0x3A # ''6841'', ''127.0.0.1'' @ CHR 0x3A # ''6841'',
      ''localhost'' @ CHR 0x3A # ''6853'', ''127.0.0.1'' @ CHR 0x3A # ''6853'',
      ''localhost'' @ CHR 0x3A # ''5173'', ''127.0.0.1'' @ CHR 0x3A # ''5173'']"

definition ORIGIN_VARIABLES :: "string list" where
  "ORIGIN_VARIABLES = [''M8FLOW_BACKEND_URL_FOR_FRONTEND'', ''M8FLOW_BACKEND_URL_FRONTEND'',
     ''M8FLOW_FRONTEND_BASE_URL'', ''M8FLOW_APP_PUBLIC_BASE_URL'',
     ''M8FLOW_KEYCLOAK_ADDITIONAL_LOGOUT_REDIRECT_URIS'']"

fun collect_origins :: "(string \<Rightarrow> bool) \<Rightarrow> string list \<Rightarrow> string list \<Rightarrow> string + string list" where
  "collect_origins host_ok acc [] = Inr acc"
| "collect_origins host_ok acc (part # parts) =
     (case normalize_origin host_ok part of
        Inl e \<Rightarrow> Inl e
      | Inr origin \<Rightarrow>
          collect_origins host_ok (case origin of None \<Rightarrow> acc | Some v \<Rightarrow> acc @ [v]) parts)"

text \<open>The candidate texts in the order the three loops read them.\<close>

definition configured_origins :: "(string \<Rightarrow> string option) \<Rightarrow> string list" where
  "configured_origins env =
     DEFAULT_ALLOWED_ORIGINS @
     concat (map (\<lambda>key. split_on (CHR '','') (replace_char (CHR '' '') '','' (or_default (env key) [])))
               ORIGIN_VARIABLES) @
     split_on (CHR '','') (or_default (env ''M8FLOW_BACKEND_CORS_ALLOW_ORIGINS'') [])"

definition allowed_redirect_origins ::
  "(string \<Rightarrow> bool) \<Rightarrow> (string \<Rightarrow> string option) \<Rightarrow> string + string list" where
  "allowed_redirect_origins host_ok env = collect_origins host_ok [] (configured_origins env)"

subsection \<open>Validation\<close>

definition dangerous_char :: "char \<Rightarrow> bool" where
  "dangerous_char c \<longleftrightarrow> c = CHR 0x5C \<or> code_point c < 32 \<or> c = CHR 0x7F"

definition local_path :: "string \<Rightarrow> bool" where
  "local_path s \<longleftrightarrow> startswith s ''/'' \<and> \<not> startswith s ''//''"

text \<open>\<open>allowed\<close> is the explicit allowlist of the call, or the configured one.\<close>

definition validated_redirect_url ::
  "(string \<Rightarrow> bool) \<Rightarrow> string + string list \<Rightarrow> string option \<Rightarrow> string + string option" where
  "validated_redirect_url host_ok allowed redirect_url =
     (case redirect_url of
        None \<Rightarrow> Inr None
      | Some url \<Rightarrow>
          (let candidate = strip url in
           if url = [] \<or> list_ex dangerous_char url then Inr None
           else if candidate = [] then Inr None
           else if local_path candidate
           then (case urlparse host_ok candidate of
                   Inl e \<Rightarrow> Inl e
                 | Inr parsed \<Rightarrow>
                     Inr (if up_scheme parsed \<noteq> [] \<or> up_netloc parsed \<noteq> [] then None
                          else Some (''/'' @ drop 1 candidate)))
           else case urlparse host_ok candidate of
             Inl e \<Rightarrow> Inl e
           | Inr parsed \<Rightarrow>
               (if \<not> web_scheme (up_scheme parsed) \<or> up_netloc parsed = [] then Inr None
                else case allowed of
                  Inl e \<Rightarrow> Inl e
                | Inr allowlist \<Rightarrow>
                    (let prefix_len = length (up_scheme parsed) + length scheme_mark + length (up_netloc parsed)
                     in Inr (if py_lower (take prefix_len candidate) \<noteq> origin_of parsed then None
                             else map_option (\<lambda>a. a @ drop prefix_len candidate)
                                    (find (\<lambda>a. a = origin_of parsed) allowlist))))))"

definition is_safe_redirect_url ::
  "(string \<Rightarrow> bool) \<Rightarrow> string + string list \<Rightarrow> string option \<Rightarrow> string + bool" where
  "is_safe_redirect_url host_ok allowed redirect_url =
     map_sum id (\<lambda>r. r \<noteq> None) (validated_redirect_url host_ok allowed redirect_url)"

text \<open>The outcome of a route: the exception of the parser, the host's error, or the target.\<close>

datatype redirect_outcome = Redirect_raises string | Redirect_refused api_error | Redirect_to string

definition require_safe_redirect_url ::
  "(string \<Rightarrow> bool) \<Rightarrow> (string \<Rightarrow> string option) \<Rightarrow> string option \<Rightarrow> redirect_outcome" where
  "require_safe_redirect_url host_ok env redirect_url =
     (let candidate = strip (or_default redirect_url []) in
      if candidate = []
      then Redirect_refused (ApiError ''redirect_url_required'' ''redirect_url is required'' 400)
      else case validated_redirect_url host_ok (allowed_redirect_origins host_ok env) (Some candidate) of
        Inl e \<Rightarrow> Redirect_raises e
      | Inr None \<Rightarrow> Redirect_refused (ApiError ''invalid_redirect_url''
          ''redirect_url must be a relative application path or an allowlisted origin.'' 400)
      | Inr (Some safe) \<Rightarrow> Redirect_to safe)"

definition SAFE_FALLBACK_PATH :: string where
  "SAFE_FALLBACK_PATH = ''/''"

definition safe_redirect_or_fallback ::
  "(string \<Rightarrow> bool) \<Rightarrow> (string \<Rightarrow> string option) \<Rightarrow> string option \<Rightarrow> string + string" where
  "safe_redirect_or_fallback host_ok env redirect_url =
     map_sum id (\<lambda>r. or_default r SAFE_FALLBACK_PATH)
       (validated_redirect_url host_ok (allowed_redirect_origins host_ok env) redirect_url)"

text \<open>
  What redirect validation promises: the target is a path of this application or starts with an
  allowlisted origin, and differs from what the caller sent at most in the case of the origin.
\<close>

subsection \<open>Reading a clean URL\<close>

definition clean_url :: "string \<Rightarrow> bool" where
  "clean_url s \<longleftrightarrow> s \<noteq> [] \<and> \<not> py_space (hd s) \<and> \<not> list_ex dangerous_char s"

lemma clean_strip: "\<not> list_ex dangerous_char s \<Longrightarrow> strip s \<noteq> [] \<Longrightarrow> clean_url (strip s)"
  unfolding clean_url_def list_ex_iff
  using strip_if_hd [of py_space s] set_strip [of _ s] by (auto simp: strip_def)

lemma clean_hd: "clean_url s \<Longrightarrow> \<not> code_point (hd s) \<le> 32"
proof
  assume a: "clean_url s" "code_point (hd s) \<le> 32"
  then have "\<not> dangerous_char (hd s)" by (auto simp: clean_url_def list_ex_iff)
  with a(2) have "code_point (hd s) = 32" by (auto simp: dangerous_char_def)
  then have "hd s = CHR '' ''" by (simp add: code_point_eq code_point_def)
  with a(1) show False by (simp add: clean_url_def py_space_def)
qed

lemma clean_read:
  assumes "clean_url s"
  shows "filter (\<lambda>c. c \<notin> {CHR 0x09, CHR 0x0A, CHR 0x0D}) (lstrip_if (\<lambda>c. code_point c \<le> 32) s) = s"
proof -
  have "\<not> dangerous_char c" if "c \<in> set s" for c using assms that by (auto simp: clean_url_def list_ex_iff)
  then have "c \<notin> {CHR 0x09, CHR 0x0A, CHR 0x0D}" if "c \<in> set s" for c
    using that by (force simp: dangerous_char_def code_point_def)
  moreover have "lstrip_if (\<lambda>c. code_point c \<le> 32) s = s"
    using assms clean_hd [OF assms] by (simp add: lstrip_if_def dropWhile_hd_id clean_url_def)
  ultimately show ?thesis by (simp add: filter_id_conv)
qed

lemma urlparse_clean:
  assumes "clean_url s" "split_scheme s = (scheme, rest)"
    and "n = (if startswith rest ''//'' then takeWhile (\<lambda>c. \<not> ends_netloc c) (drop 2 rest) else [])"
  shows "urlparse host_ok s =
     (if \<not> brackets_match n then Inl ''ValueError''
      else if (CHR ''['' \<in> set n \<or> \<not> list_all (\<lambda>c. code_point c < 128) n) \<and> \<not> host_ok n
      then Inl ''ValueError''
      else Inr \<lparr>up_scheme = scheme, up_netloc = n\<rparr>)"
  unfolding urlparse_def Let_def clean_read [OF assms(1)] assms(2,3) by simp

lemma split_scheme_found:
  assumes "split_scheme s = (scheme, rest)" "scheme \<noteq> []"
  shows "\<exists>before. s = before @ CHR 0x3A # rest \<and> scheme = py_lower before"
  using assms partition_at_found [of "CHR 0x3A" s]
  by (auto simp: split_scheme_def py_lower_def split: prod.splits if_splits)

lemma lower_dangerous: "dangerous_char (lower_char c) \<longleftrightarrow> dangerous_char c"
proof -
  have "dangerous_char d \<longleftrightarrow> code_point d = 92 \<or> code_point d < 32 \<or> code_point d = 127" for d
    unfolding dangerous_char_def code_point_eq [of d] by (simp add: code_point_def)
  then show ?thesis by (simp add: lower_code)
qed

lemma lower_scheme_mark [simp]: "py_lower scheme_mark = scheme_mark"
  by code_simp

text \<open>What the parser says of a URL with a scheme and a host is how the text is cut.\<close>

lemma parsed_shape:
  assumes "clean_url s" "urlparse host_ok s = Inr parsed" "up_scheme parsed \<noteq> []" "up_netloc parsed \<noteq> []"
  shows "\<exists>before tl. s = before @ scheme_mark @ up_netloc parsed @ tl \<and> up_scheme parsed = py_lower before \<and>
    (tl = [] \<or> ends_netloc (hd tl))"
proof -
  obtain scheme rest where sp: "split_scheme s = (scheme, rest)" by (cases "split_scheme s")
  let ?n = "takeWhile (\<lambda>c. \<not> ends_netloc c) (drop 2 rest)"
  have p: "up_scheme parsed = scheme" "up_netloc parsed = (if startswith rest ''//'' then ?n else [])"
    using assms(2) unfolding urlparse_clean [OF assms(1) sp refl] by (auto split: if_splits)
  with assms(4) have sl: "startswith rest ''//''" by (auto split: if_splits)
  then have r: "rest = ''//'' @ drop 2 rest" by (auto simp: startswith_iff)
  from split_scheme_found [OF sp] assms(3) p(1) obtain before
    where b: "s = before @ CHR 0x3A # rest" "scheme = py_lower before" by auto
  let ?tl = "dropWhile (\<lambda>c. \<not> ends_netloc c) (drop 2 rest)"
  have "drop 2 rest = up_netloc parsed @ ?tl" using p sl by simp
  with b r have "s = before @ scheme_mark @ up_netloc parsed @ ?tl" by (simp add: scheme_mark_def)
  moreover have "?tl = [] \<or> ends_netloc (hd ?tl)" using hd_dropWhile by blast
  ultimately show ?thesis using b p by blast
qed

subsection \<open>Where a redirect may go\<close>

lemma local_path_kept: "local_path s \<Longrightarrow> ''/'' @ drop 1 s = s"
  by (auto simp: local_path_def startswith_iff)

lemma local_path_parsed:
  assumes "clean_url s" "local_path s"
  shows "urlparse host_ok s = Inr \<lparr>up_scheme = [], up_netloc = []\<rparr>"
proof -
  have "split_scheme s = ([], s)"
    using assms(2) partition_at_found [of "CHR 0x3A" s]
    by (auto simp: split_scheme_def local_path_def startswith_iff is_alpha_def split: prod.splits)
  from urlparse_clean [OF assms(1) this refl] show ?thesis
    using assms(2) by (simp add: local_path_def brackets_match_def)
qed

text \<open>C10. An open redirect is impossible: whatever the caller sends, an accepted target is a path of
  this application (a slash not followed by another) or an allowlisted origin followed by nothing, a
  path, a query or a fragment. It holds no backslash and no control character, and it is the text the
  caller sent, the case of its origin apart.\<close>

theorem redirect_stays_home_or_on_the_allowlist:
  assumes "validated_redirect_url host_ok (Inr allowlist) (Some url) = Inr (Some target)"
  shows "(local_path target \<or>
      (\<exists>origin \<in> set allowlist. \<exists>rest. target = origin @ rest \<and> (rest = [] \<or> ends_netloc (hd rest)))) \<and>
    \<not> list_ex dangerous_char target \<and> py_lower target = py_lower (strip url) \<and>
    (local_path (strip url) \<longrightarrow> target = strip url)"
proof -
  let ?c = "strip url"
  have "\<not> list_ex dangerous_char url" "?c \<noteq> []"
    using assms by (auto simp: validated_redirect_url_def Let_def split: if_splits)
  then have c: "clean_url ?c" by (rule clean_strip)
  have core: "(local_path target \<or>
      (\<exists>origin \<in> set allowlist. \<exists>rest. target = origin @ rest \<and> (rest = [] \<or> ends_netloc (hd rest)))) \<and>
    py_lower target = py_lower ?c \<and> (local_path ?c \<longrightarrow> target = ?c)"
  proof (cases "local_path ?c")
    case True
    with assms local_path_parsed [OF c True, of host_ok] local_path_kept [OF True] have "target = ?c"
      by (simp add: validated_redirect_url_def Let_def split: if_splits)
    with True show ?thesis by simp
  next
    case False
    with assms obtain parsed where p: "urlparse host_ok ?c = Inr parsed" "web_scheme (up_scheme parsed)"
        "up_netloc parsed \<noteq> []" and t: "map_option (\<lambda>a. a @ drop (length (up_scheme parsed) +
          length scheme_mark + length (up_netloc parsed)) ?c) (find (\<lambda>a. a = origin_of parsed) allowlist)
          = Some target"
      by (auto simp: validated_redirect_url_def Let_def split: if_splits sum.splits)
    have "up_scheme parsed \<noteq> []" using p(2) by (auto simp: web_scheme_def)
    from parsed_shape [OF c p(1) this p(3)] obtain before tl where
      s: "?c = before @ scheme_mark @ up_netloc parsed @ tl" "up_scheme parsed = py_lower before"
         "tl = [] \<or> ends_netloc (hd tl)" by blast
    then have "drop (length (up_scheme parsed) + length scheme_mark + length (up_netloc parsed)) ?c = tl"
      by simp
    with t have "origin_of parsed \<in> set allowlist" "target = origin_of parsed @ tl"
      by (auto dest: find_Some_iff_props)
    moreover have "py_lower (origin_of parsed @ tl) = py_lower ?c"
      unfolding s(1) by (simp add: origin_of_def s(2))
    ultimately show ?thesis using s(3) False by auto
  qed
  have "list_ex dangerous_char t = list_ex dangerous_char (py_lower t)" for t
    by (auto simp: list_ex_iff py_lower_def lower_dangerous)
  with core c have "\<not> list_ex dangerous_char target" unfolding clean_url_def by metis
  with core show ?thesis by blast
qed

text \<open>A host with an opening bracket and no closing one is not answered with "unsafe": the parser's
  \<open>ValueError\<close> leaves the validator and with it every route that calls it.\<close>

theorem unmatched_bracket_escapes_the_validator:
  assumes "list_all (\<lambda>c. \<not> ends_netloc c \<and> \<not> dangerous_char c \<and> \<not> py_space c) host"
    and "CHR ''['' \<in> set host" "CHR '']'' \<notin> set host"
  shows "validated_redirect_url host_ok allowed (Some (''https'' @ scheme_mark @ host)) = Inl ''ValueError'' \<and>
    require_safe_redirect_url host_ok env (Some (''https'' @ scheme_mark @ host)) = Redirect_raises ''ValueError'' \<and>
    safe_redirect_or_fallback host_ok env (Some (''https'' @ scheme_mark @ host)) = Inl ''ValueError''"
proof -
  let ?u = "''https'' @ scheme_mark @ host"
  have ne: "host \<noteq> []" using assms(2) by auto
  have "\<not> py_space (last host)" using assms(1) ne by (simp add: list_all_iff)
  with ne have st: "strip ?u = ?u"
    unfolding strip_def by (intro strip_if_id) (simp add: py_space_def scheme_mark_def)
  have d: "\<not> list_ex dangerous_char ?u"
    using assms(1) by (auto simp: list_ex_iff list_all_iff scheme_mark_def dangerous_char_def code_point_def)
  have c: "clean_url ?u" using clean_strip [OF d] st by simp
  have sp: "split_scheme ?u = (''https'', ''//'' @ host)"
    by (simp add: split_scheme_def scheme_mark_def py_lower_def lower_char_def code_point_def url_scheme_char_def
        is_alpha_def)
  have n: "host = (if startswith (''//'' @ host) ''//''
      then takeWhile (\<lambda>c. \<not> ends_netloc c) (drop 2 (''//'' @ host)) else [])"
    using assms(1) by (simp add: startswith_def list_all_iff takeWhile_eq_all_conv eq_commute [of host])
  have u: "urlparse host_ok ?u = Inl ''ValueError''"
    using assms(2,3) unfolding urlparse_clean [OF c sp n] by (simp add: brackets_match_def)
  have "\<not> local_path ?u" by (simp add: local_path_def startswith_def scheme_mark_def)
  with d u have v: "validated_redirect_url host_ok al (Some ?u) = Inl ''ValueError''" for al
    unfolding validated_redirect_url_def option.case Let_def st by simp
  have ne_u: "?u \<noteq> []" by simp
  show ?thesis
    unfolding require_safe_redirect_url_def safe_redirect_or_fallback_def or_default_simps Let_def st v
    using ne_u by simp
qed

end
