(* ===== verification/Invitations.thy ===== *)
theory Invitations
  imports Claims Row_Table
begin

text \<open>
  Tenant invitations (services/tenant_invitation_service.py, models/tenant_invitation.py,
  services/email_service.py): every operation on the table of
  invitations. The user directory is a state of its own, threaded through the calls; its lookup,
  its account creation, the membership write (tenant_role_service), the mail server, the hash and
  the random draws are fields of the environment record. One clock reading serves one call.
\<close>

subsection \<open>The table\<close>

datatype invitation_status = PENDING | ACCEPTED | REVOKED | EXPIRED

definition INVITATION_STATUSES :: "(string \<times> invitation_status) list" where
  "INVITATION_STATUSES = [(''PENDING'', PENDING), (''ACCEPTED'', ACCEPTED), (''REVOKED'', REVOKED),
     (''EXPIRED'', EXPIRED)]"

record invitation =
  iv_id :: string
  iv_tenant_id :: string
  iv_email :: string
  iv_roles :: string
  iv_token_hash :: string
  iv_status :: invitation_status
  iv_expires_at :: int
  iv_accepted_at :: "int option"
  iv_created_by :: string
  iv_modified_by :: string
  iv_created_at :: int
  iv_updated_at :: int

definition role_names :: "invitation \<Rightarrow> string list" where
  "role_names r = filter (\<lambda>n. n \<noteq> []) (split_on (CHR '','') (iv_roles r))"

record tenant_entry =
  tn_id :: string
  tn_name :: string

record 'd invite_db =
  iv_rows :: "invitation list"
  iv_tenants :: "tenant_entry list"
  iv_directory :: 'd

text \<open>A call refuses with the host's error or lets another exception out.\<close>

datatype call_failure = Refused api_error | Raised string

datatype user_answer = User_found | User_not_found | Lookup_fails call_failure

record mail =
  ml_to :: string
  ml_subject :: string
  ml_html :: string
  ml_text :: string

record 'd invite_env =
  ix_now :: int
  ix_uuid :: string
  ix_token :: string
  ix_hash :: "string \<Rightarrow> string"
  ix_frontend :: string
  ix_smtp_host :: string
  ix_smtp :: "mail \<Rightarrow> string option"
  ix_get_user :: "'d \<Rightarrow> string \<Rightarrow> user_answer"
  ix_create_user :: "'d \<Rightarrow> string \<Rightarrow> string \<Rightarrow> call_failure option \<times> 'd"
  ix_add_member :: "'d \<Rightarrow> string \<Rightarrow> string \<Rightarrow> string list \<Rightarrow> call_failure option \<times> 'd"
  ix_trunc :: "string \<Rightarrow> int"

text \<open>Saving a loaded row: nothing is written when no column changed, otherwise the write is
  stamped; the unique column is checked against the other rows.\<close>

definition touch :: "int \<Rightarrow> invitation \<Rightarrow> invitation \<Rightarrow> invitation" where
  "touch now old new = (if new = old then old else new\<lparr>iv_updated_at := now\<rparr>)"

definition put_row :: "invitation \<Rightarrow> 'd invite_db \<Rightarrow> 'd invite_db" where
  "put_row row db = db\<lparr>iv_rows := update_where (\<lambda>r. iv_id r = iv_id row) (\<lambda>_. row) (iv_rows db)\<rparr>"

definition hash_taken :: "string \<Rightarrow> string \<Rightarrow> 'd invite_db \<Rightarrow> bool" where
  "hash_taken own_id h db \<longleftrightarrow> list_ex (\<lambda>r. iv_id r \<noteq> own_id \<and> iv_token_hash r = h) (iv_rows db)"

subsection \<open>Small helpers\<close>

definition DEFAULT_VALIDITY_DAYS :: int where "DEFAULT_VALIDITY_DAYS = 7"
definition MAX_VALIDITY_DAYS :: int where "MAX_VALIDITY_DAYS = 30"
definition MIN_PASSWORD_LENGTH :: nat where "MIN_PASSWORD_LENGTH = 8"
definition SECONDS_PER_DAY :: int where "SECONDS_PER_DAY = 24 * 60 * 60"

definition normalized_email :: "pyval \<Rightarrow> string" where
  "normalized_email email = py_lower (strip (if truthy email then py_str email else []))"

definition clamp_days :: "int \<Rightarrow> int" where
  "clamp_days days = max 1 (min days MAX_VALIDITY_DAYS)"

text \<open>\<open>int(x)\<close> raises for what is no number; of a float it truncates, and an infinite one raises
  \<open>OverflowError\<close>, which the code does not catch.\<close>

definition validity_days :: "(string \<Rightarrow> int) \<Rightarrow> pyval \<Rightarrow> call_failure + int" where
  "validity_days trunc v =
     (case v of
        PNone \<Rightarrow> Inr (clamp_days DEFAULT_VALIDITY_DAYS)
      | PBool b \<Rightarrow> Inr (clamp_days (if b then 1 else 0))
      | PInt n \<Rightarrow> Inr (clamp_days n)
      | PFloat r \<Rightarrow>
          (if r \<in> {''inf'', ''-inf''} then Inl (Raised ''OverflowError'')
           else Inr (clamp_days (if r = ''nan'' then DEFAULT_VALIDITY_DAYS else trunc r)))
      | PStr s \<Rightarrow> Inr (clamp_days (or_default (py_int s) DEFAULT_VALIDITY_DAYS))
      | _ \<Rightarrow> Inr (clamp_days DEFAULT_VALIDITY_DAYS))"

definition accept_url :: "'d invite_env \<Rightarrow> string \<Rightarrow> string" where
  "accept_url env raw_token = ix_frontend env @ ''/accept-invitation?token='' @ raw_token"

definition is_expired :: "int \<Rightarrow> invitation \<Rightarrow> bool" where
  "is_expired now r \<longleftrightarrow> iv_expires_at r \<le> now"

definition maybe_expire :: "int \<Rightarrow> invitation \<Rightarrow> 'd invite_db \<Rightarrow> invitation \<times> 'd invite_db" where
  "maybe_expire now r db =
     (if iv_status r = PENDING \<and> is_expired now r
      then (let r' = touch now r (r\<lparr>iv_status := EXPIRED\<rparr>) in (r', put_row r' db))
      else (r, db))"

record invitation_view =
  vw_id :: string
  vw_tenant_id :: string
  vw_email :: string
  vw_roles :: "string list"
  vw_status :: invitation_status
  vw_expires_at :: int
  vw_accepted_at :: "int option"
  vw_created_by :: string
  vw_created_at :: int
  vw_link :: "string option"

definition serialize :: "invitation \<Rightarrow> string option \<Rightarrow> invitation_view" where
  "serialize r link =
     \<lparr>vw_id = iv_id r, vw_tenant_id = iv_tenant_id r, vw_email = iv_email r, vw_roles = role_names r,
      vw_status = iv_status r, vw_expires_at = iv_expires_at r, vw_accepted_at = iv_accepted_at r,
      vw_created_by = iv_created_by r, vw_created_at = iv_created_at r, vw_link = link\<rparr>"

definition refusal :: "string \<Rightarrow> string \<Rightarrow> int \<Rightarrow> call_failure" where
  "refusal code message status = Refused (ApiError code message status)"

definition validated_roles :: "pyval \<Rightarrow> call_failure + string list" where
  "validated_roles roles =
     (let normalized = normalize_tenant_role_names (case roles of PList xs \<Rightarrow> xs | v \<Rightarrow> [v]) in
      if normalized = [] then Inl (refusal ''invalid_roles'' ''At least one valid role is required.'' 400)
      else Inr normalized)"

definition send_email :: "'d invite_env \<Rightarrow> mail \<Rightarrow> call_failure + bool" where
  "send_email env m =
     (if ix_smtp_host env = [] then Inr False
      else case ix_smtp env m of Some e \<Rightarrow> Inl (Raised e) | None \<Rightarrow> Inr True)"

definition newline :: string where "newline = [CHR 0x0A]"

definition send_invitation_email :: "'d invite_env \<Rightarrow> string \<Rightarrow> string \<Rightarrow> string \<Rightarrow> call_failure + bool" where
  "send_invitation_email env email tenant_name raw_token =
     (let url = accept_url env raw_token; quote = [CHR 0x22] in
      send_email env
        \<lparr>ml_to = email,
         ml_subject = ''You have been invited to '' @ tenant_name @ '' on m8flow'',
         ml_html = ''<p>You have been invited to join <strong>'' @ tenant_name @ ''</strong> on m8flow.</p>'' @
           ''<p>Click the link below to set your password and activate your account. '' @
           ''This link is single-use and will expire.</p>'' @
           ''<p><a href='' @ quote @ url @ quote @ ''>Accept your invitation</a></p>'' @
           ''<p>If the link does not work, copy and paste this URL into your browser:<br>'' @ url @ ''</p>'',
         ml_text = ''You have been invited to join '' @ tenant_name @ '' on m8flow.'' @ newline @ newline @
           ''Set your password and activate your account here (single-use, expires soon):'' @ newline @
           url @ newline\<rparr>)"

definition get_tenant_by_id :: "string \<Rightarrow> 'd invite_db \<Rightarrow> call_failure + tenant_entry" where
  "get_tenant_by_id tenant_id db =
     (case find (\<lambda>t. tn_id t = tenant_id) (iv_tenants db) of
        None \<Rightarrow> Inl (refusal ''tenant_not_found'' (''Tenant with ID '' @ [CHR 0x27] @ tenant_id @ [CHR 0x27] @ '' not found.'') 404)
      | Some t \<Rightarrow> Inr t)"

subsection \<open>Creating\<close>

definition pending_for :: "string \<Rightarrow> string \<Rightarrow> invitation \<Rightarrow> bool" where
  "pending_for tenant_id email r \<longleftrightarrow>
     iv_tenant_id r = tenant_id \<and> iv_email r = email \<and> iv_status r = PENDING"

definition later_expiry :: "invitation \<Rightarrow> invitation \<Rightarrow> invitation" where
  "later_expiry best r = (if iv_expires_at best < iv_expires_at r then r else best)"

definition has_active_pending_invitation ::
  "int \<Rightarrow> string \<Rightarrow> string \<Rightarrow> 'd invite_db \<Rightarrow> bool \<times> 'd invite_db" where
  "has_active_pending_invitation now tenant_id email db =
     (case filter (pending_for tenant_id email) (iv_rows db) of
        [] \<Rightarrow> (False, db)
      | r # rs \<Rightarrow>
          (case maybe_expire now (foldl later_expiry r rs) db of
             (r', db') \<Rightarrow> (iv_status r' = PENDING, db')))"

definition new_invitation ::
  "'d invite_env \<Rightarrow> string \<Rightarrow> string \<Rightarrow> string list \<Rightarrow> int \<Rightarrow> string \<Rightarrow> invitation" where
  "new_invitation env tenant_id email roles days created_by =
     \<lparr>iv_id = ix_uuid env, iv_tenant_id = tenant_id, iv_email = email, iv_roles = join '','' roles,
      iv_token_hash = ix_hash env (ix_token env), iv_status = PENDING,
      iv_expires_at = ix_now env + days * SECONDS_PER_DAY, iv_accepted_at = None,
      iv_created_by = created_by, iv_modified_by = created_by,
      iv_created_at = ix_now env, iv_updated_at = ix_now env\<rparr>"

text \<open>The tail of a creation, once the address and the roles are accepted and no invitation or
  account is in the way.\<close>

definition send_and_insert ::
  "'d invite_env \<Rightarrow> tenant_entry \<Rightarrow> string \<Rightarrow> invitation \<Rightarrow> 'd invite_db \<Rightarrow>
   (call_failure + invitation_view) \<times> 'd invite_db" where
  "send_and_insert env tenant email row db =
     (case send_invitation_email env email (tn_name tenant) (ix_token env) of
        Inl e \<Rightarrow> (Inl e, db)
      | Inr sent \<Rightarrow>
          (if list_ex (\<lambda>r. iv_id r = iv_id row) (iv_rows db) \<or> hash_taken (iv_id row) (iv_token_hash row) db
           then (Inl (Raised ''IntegrityError''), db)
           else (Inr (serialize row (if sent then None else Some (accept_url env (ix_token env)))),
                 db\<lparr>iv_rows := iv_rows db @ [row]\<rparr>)))"

definition create_invitation ::
  "'d invite_env \<Rightarrow> string \<Rightarrow> pyval \<Rightarrow> pyval \<Rightarrow> pyval \<Rightarrow> string \<Rightarrow> 'd invite_db \<Rightarrow>
   (call_failure + invitation_view) \<times> 'd invite_db" where
  "create_invitation env tenant_id email roles days created_by db =
     (let address = normalized_email email in
      if address = [] \<or> CHR ''@'' \<notin> set address
      then (Inl (refusal ''invalid_email'' ''A valid email address is required.'' 400), db)
      else case get_tenant_by_id tenant_id db of
        Inl e \<Rightarrow> (Inl e, db)
      | Inr tenant \<Rightarrow> (case validated_roles roles of
          Inl e \<Rightarrow> (Inl e, db)
        | Inr names \<Rightarrow> (case has_active_pending_invitation (ix_now env) tenant_id address db of
            (active, db1) \<Rightarrow>
              if active
              then (Inl (refusal ''invitation_exists''
                      (''A pending invitation already exists for '' @ [CHR 0x27] @ address @ [CHR 0x27] @ ''.'') 409), db1)
              else case ix_get_user env (iv_directory db1) address of
                User_found \<Rightarrow> (Inl (refusal ''user_exists''
                      (''A user with email '' @ [CHR 0x27] @ address @ [CHR 0x27] @ '' already exists.'') 409), db1)
              | Lookup_fails e \<Rightarrow> (Inl e, db1)
              | User_not_found \<Rightarrow> (case validity_days (ix_trunc env) days of
                  Inl e \<Rightarrow> (Inl e, db1)
                | Inr n \<Rightarrow> send_and_insert env tenant address
                             (new_invitation env tenant_id address names n created_by) db1))))"

subsection \<open>Listing\<close>

fun expire_each :: "int \<Rightarrow> invitation list \<Rightarrow> 'd invite_db \<Rightarrow> invitation_view list \<times> 'd invite_db" where
  "expire_each now [] db = ([], db)"
| "expire_each now (r # rs) db =
     (case maybe_expire now r db of
        (r', db1) \<Rightarrow> (case expire_each now rs db1 of
          (views, db2) \<Rightarrow> (serialize r' None # views, db2)))"

record invitation_page =
  pg_results :: "invitation_view list"
  pg_total :: nat
  pg_offset :: nat
  pg_limit :: nat

definition status_selected :: "string option \<Rightarrow> invitation \<Rightarrow> bool" where
  "status_selected status_filter r \<longleftrightarrow>
     (case map_of INVITATION_STATUSES (upper (strip (or_default status_filter []))) of
        None \<Rightarrow> True
      | Some st \<Rightarrow> iv_status r = st)"

definition list_invitations ::
  "int \<Rightarrow> string \<Rightarrow> string option \<Rightarrow> nat \<Rightarrow> nat \<Rightarrow> 'd invite_db \<Rightarrow>
   (call_failure + invitation_page) \<times> 'd invite_db" where
  "list_invitations now tenant_id status_filter offset limit db =
     (case get_tenant_by_id tenant_id db of
        Inl e \<Rightarrow> (Inl e, db)
      | Inr _ \<Rightarrow>
          (let selected = filter (\<lambda>r. iv_tenant_id r = tenant_id \<and> status_selected status_filter r) (iv_rows db);
               page = take limit (drop offset (sort_key (\<lambda>r. - iv_created_at r) selected))
           in case expire_each now page db of
                (views, db') \<Rightarrow>
                  (Inr \<lparr>pg_results = views, pg_total = length selected, pg_offset = offset, pg_limit = limit\<rparr>, db')))"

subsection \<open>Resending and revoking\<close>

definition invitation_or_error :: "string \<Rightarrow> string \<Rightarrow> 'd invite_db \<Rightarrow> call_failure + invitation" where
  "invitation_or_error tenant_id invitation_id db =
     (case find (\<lambda>r. iv_id r = invitation_id \<and> iv_tenant_id r = tenant_id) (iv_rows db) of
        None \<Rightarrow> Inl (refusal ''invitation_not_found'' ''Invitation not found.'' 404)
      | Some r \<Rightarrow> Inr r)"

definition status_word :: "invitation_status \<Rightarrow> string" where
  "status_word st = (case st of PENDING \<Rightarrow> ''PENDING'' | ACCEPTED \<Rightarrow> ''ACCEPTED''
                              | REVOKED \<Rightarrow> ''REVOKED'' | EXPIRED \<Rightarrow> ''EXPIRED'')"

definition rotate_token :: "'d invite_env \<Rightarrow> string \<Rightarrow> invitation \<Rightarrow> invitation" where
  "rotate_token env modified_by r =
     r\<lparr>iv_token_hash := ix_hash env (ix_token env), iv_status := PENDING,
       iv_expires_at := ix_now env + DEFAULT_VALIDITY_DAYS * SECONDS_PER_DAY, iv_modified_by := modified_by\<rparr>"

definition resend_invitation ::
  "'d invite_env \<Rightarrow> string \<Rightarrow> string \<Rightarrow> string \<Rightarrow> 'd invite_db \<Rightarrow>
   (call_failure + invitation_view) \<times> 'd invite_db" where
  "resend_invitation env tenant_id invitation_id modified_by db =
     (case get_tenant_by_id tenant_id db of
        Inl e \<Rightarrow> (Inl e, db)
      | Inr tenant \<Rightarrow> (case invitation_or_error tenant_id invitation_id db of
          Inl e \<Rightarrow> (Inl e, db)
        | Inr found \<Rightarrow> (case maybe_expire (ix_now env) found db of
            (r, db1) \<Rightarrow>
              if iv_status r \<notin> {PENDING, EXPIRED}
              then (Inl (refusal ''invitation_not_resendable''
                      (''Cannot resend an invitation with status '' @ [CHR 0x27] @ status_word (iv_status r) @
                       [CHR 0x27] @ ''.'') 409), db1)
              else case send_invitation_email env (iv_email r) (tn_name tenant) (ix_token env) of
                Inl e \<Rightarrow> (Inl e, db1)
              | Inr sent \<Rightarrow>
                  (let r' = touch (ix_now env) r (rotate_token env modified_by r) in
                   if hash_taken (iv_id r) (iv_token_hash r') db1
                   then (Inl (Raised ''IntegrityError''), db1)
                   else (Inr (serialize r' (if sent then None else Some (accept_url env (ix_token env)))),
                         put_row r' db1)))))"

definition revoke_invitation ::
  "int \<Rightarrow> string \<Rightarrow> string \<Rightarrow> string \<Rightarrow> 'd invite_db \<Rightarrow>
   (call_failure + invitation_view) \<times> 'd invite_db" where
  "revoke_invitation now tenant_id invitation_id modified_by db =
     (case get_tenant_by_id tenant_id db of
        Inl e \<Rightarrow> (Inl e, db)
      | Inr _ \<Rightarrow> (case invitation_or_error tenant_id invitation_id db of
          Inl e \<Rightarrow> (Inl e, db)
        | Inr r \<Rightarrow>
            (if iv_status r = ACCEPTED
             then (Inl (refusal ''invitation_already_accepted''
                     ''Cannot revoke an invitation that has already been accepted.'' 409), db)
             else (let r' = touch now r (r\<lparr>iv_status := REVOKED, iv_modified_by := modified_by\<rparr>)
                   in (Inr (serialize r' None), put_row r' db)))))"

subsection \<open>The invitee's side\<close>

definition pending_invitation_by_token ::
  "(string \<Rightarrow> string) \<Rightarrow> int \<Rightarrow> pyval \<Rightarrow> 'd invite_db \<Rightarrow> (call_failure + invitation) \<times> 'd invite_db" where
  "pending_invitation_by_token hash_of now raw_token db =
     (let token = strip (if truthy raw_token then py_str raw_token else []) in
      if token = [] then (Inl (refusal ''invalid_invitation'' ''Invitation token is required.'' 400), db)
      else case find (\<lambda>r. iv_token_hash r = hash_of token) (iv_rows db) of
        None \<Rightarrow> (Inl (refusal ''invalid_invitation'' ''This invitation link is invalid.'' 404), db)
      | Some found \<Rightarrow> (case maybe_expire now found db of
          (r, db1) \<Rightarrow>
            if iv_status r = EXPIRED
            then (Inl (refusal ''invitation_expired'' ''This invitation link has expired.'' 410), db1)
            else if iv_status r \<noteq> PENDING
            then (Inl (refusal ''invitation_unusable'' ''This invitation link can no longer be used.'' 409), db1)
            else (Inr r, db1)))"

record token_view =
  tv_email :: string
  tv_tenant_id :: string
  tv_tenant_name :: string
  tv_roles :: "string list"
  tv_expires_at :: int

definition validate_token ::
  "(string \<Rightarrow> string) \<Rightarrow> int \<Rightarrow> pyval \<Rightarrow> 'd invite_db \<Rightarrow> (call_failure + token_view) \<times> 'd invite_db" where
  "validate_token hash_of now raw_token db =
     (case pending_invitation_by_token hash_of now raw_token db of
        (Inl e, db1) \<Rightarrow> (Inl e, db1)
      | (Inr r, db1) \<Rightarrow> (case get_tenant_by_id (iv_tenant_id r) db1 of
          Inl e \<Rightarrow> (Inl e, db1)
        | Inr tenant \<Rightarrow>
            (Inr \<lparr>tv_email = iv_email r, tv_tenant_id = iv_tenant_id r, tv_tenant_name = tn_name tenant,
                  tv_roles = role_names r, tv_expires_at = iv_expires_at r\<rparr>, db1)))"

record accepted_view =
  av_email :: string
  av_tenant_id :: string
  av_tenant_name :: string
  av_roles :: "string list"
  av_smtp_configured :: bool

definition ensure_account ::
  "'d invite_env \<Rightarrow> string \<Rightarrow> string \<Rightarrow> 'd invite_db \<Rightarrow> call_failure option \<times> 'd invite_db" where
  "ensure_account env email password db =
     (case ix_get_user env (iv_directory db) email of
        User_found \<Rightarrow> (None, db)
      | Lookup_fails e \<Rightarrow> (Some e, db)
      | User_not_found \<Rightarrow> (case ix_create_user env (iv_directory db) email password of
          (failed, d) \<Rightarrow> (failed, db\<lparr>iv_directory := d\<rparr>)))"

text \<open>The membership write runs with the invitation's tenant as the context.\<close>

definition add_member ::
  "'d invite_env \<Rightarrow> invitation \<Rightarrow> 'd invite_db \<Rightarrow> call_failure option \<times> 'd invite_db" where
  "add_member env r db =
     (case ix_add_member env (iv_directory db) (iv_tenant_id r) (iv_email r) (role_names r) of
        (failed, d) \<Rightarrow> (failed, db\<lparr>iv_directory := d\<rparr>))"

definition consume :: "int \<Rightarrow> invitation \<Rightarrow> invitation" where
  "consume now r = r\<lparr>iv_status := ACCEPTED, iv_accepted_at := Some now, iv_modified_by := iv_email r\<rparr>"

definition accept_invitation ::
  "'d invite_env \<Rightarrow> pyval \<Rightarrow> string option \<Rightarrow> 'd invite_db \<Rightarrow>
   (call_failure + accepted_view) \<times> 'd invite_db" where
  "accept_invitation env raw_token password db =
     (if length (or_default password []) < MIN_PASSWORD_LENGTH
      then (Inl (refusal ''weak_password''
              (''Password must be at least '' @ nat_str MIN_PASSWORD_LENGTH @ '' characters.'') 400), db)
      else case pending_invitation_by_token (ix_hash env) (ix_now env) raw_token db of
        (Inl e, db1) \<Rightarrow> (Inl e, db1)
      | (Inr r, db1) \<Rightarrow> (case get_tenant_by_id (iv_tenant_id r) db1 of
          Inl e \<Rightarrow> (Inl e, db1)
        | Inr tenant \<Rightarrow> (case ensure_account env (iv_email r) (or_default password []) db1 of
            (Some e, db2) \<Rightarrow> (Inl e, db2)
          | (None, db2) \<Rightarrow> (case add_member env r db2 of
              (Some e, db3) \<Rightarrow> (Inl e, db3)
            | (None, db3) \<Rightarrow>
                (Inr \<lparr>av_email = iv_email r, av_tenant_id = iv_tenant_id r, av_tenant_name = tn_name tenant,
                      av_roles = role_names r, av_smtp_configured = ix_smtp_host env \<noteq> []\<rparr>,
                 put_row (touch (ix_now env) r (consume (ix_now env) r)) db3)))))"

end
