(* ===== verification/Tenant_Access.thy ===== *)
theory Tenant_Access
  imports Active_Tenant Invitations
begin

text \<open>
  Managing tenants (services/tenant_management_authorization.py) and the routes of the invitation
  service (routes/tenant_invitation_controller.py): who may manage which tenant, and the service
  operations behind that guard.
\<close>

subsection \<open>The guards\<close>

definition request_context_of :: "tenant_env \<Rightarrow> request_state \<Rightarrow> request_context" where
  "request_context_of te rs =
     \<lparr>rc_tenant_ids = current_tenant_identifiers (te_rows te) (current_tenant_id_or_none rs),
      rc_claims = map_option verified_view (rs_claims rs)\<rparr>"

definition user_is_tenant_admin_or_super_admin ::
  "tenant_env \<Rightarrow> request_state \<Rightarrow> actor \<Rightarrow> string option \<Rightarrow> bool" where
  "user_is_tenant_admin_or_super_admin te rs user tenant_id \<longleftrightarrow>
     is_super_admin_request rs \<or>
     (let effective = or_str tenant_id (current_tenant_id_or_none rs) in
      truthy_str effective \<and>
      (let tenant_ids = current_tenant_identifiers (te_rows te) effective in
       list_ex (\<lambda>g. gp_identifier g = SUPER_ADMIN_ROLE \<or>
          (case partition_at (CHR 0x3A) (gp_identifier g) of
             (prefix, found, role) \<Rightarrow> found \<and> prefix \<in> set tenant_ids \<and> role = ''tenant-admin''))
         (ac_groups user)))"

definition tenant_require_authorized_user ::
  "tenant_env \<Rightarrow> grants option \<Rightarrow> request_state \<Rightarrow> string \<Rightarrow> string \<Rightarrow> string option \<Rightarrow> bool \<Rightarrow>
   call_failure + actor" where
  "tenant_require_authorized_user te db rs action forbidden_message tenant_id group_fallback =
     (case rs_user rs of
        None \<Rightarrow> Inl (refusal ''not_authenticated'' ''User not authenticated'' 401)
      | Some user \<Rightarrow>
          (if allow_uri (request_context_of te rs) db (Some user) action (rs_path rs) group_fallback then Inr user
           else if user_is_tenant_admin_or_super_admin te rs user tenant_id then Inr user
           else Inl (refusal ''forbidden'' forbidden_message 403)))"

definition ref_identifiers :: "tenant_ref \<Rightarrow> string list" where
  "ref_identifiers r = map strip (filter (\<lambda>v. v \<noteq> []) (strings [tr_id r, tr_alias r]))"

definition normalized_request_tenant_identifiers :: "request_state \<Rightarrow> string list" where
  "normalized_request_tenant_identifiers rs =
     nonblank [rs_tenant_id rs] @
     (case rs_claims rs of
        None \<Rightarrow> []
      | Some c \<Rightarrow>
          (case cl_active_ref c of None \<Rightarrow> [] | Some r \<Rightarrow> ref_identifiers r) @
          concat (map (\<lambda>m. ref_identifiers (mb_ref m)) (cl_memberships c)))"

definition requested_tenant_identifiers :: "tenant_identity list \<Rightarrow> string \<Rightarrow> call_failure + string list" where
  "requested_tenant_identifiers rows tenant_identifier =
     (let wanted = strip tenant_identifier in
      if wanted = [] then Inr []
      else case filter (\<lambda>t. ti_id t = wanted \<or> ti_slug t = wanted) rows of
             [] \<Rightarrow> Inr [wanted]
           | [t] \<Rightarrow> Inr (wanted # nonblank [Some (ti_id t), Some (ti_slug t)])
           | _ \<Rightarrow> Inl (Raised ''MultipleResultsFound''))"

definition ensure_request_can_access_tenant ::
  "tenant_env \<Rightarrow> request_state \<Rightarrow> string \<Rightarrow> string \<Rightarrow> call_failure option" where
  "ensure_request_can_access_tenant te rs tenant_identifier forbidden_message =
     (if is_super_admin_request rs \<or> rs_global rs then None
      else let own = normalized_request_tenant_identifiers rs;
               forbidden = Some (refusal ''forbidden'' forbidden_message 403)
           in if own = [] then forbidden
              else case requested_tenant_identifiers (te_rows te) tenant_identifier of
                Inl e \<Rightarrow> Some e
              | Inr ids \<Rightarrow> (if list_ex (\<lambda>i. i \<in> set ids) own then None else forbidden))"

subsection \<open>The invitation routes\<close>

definition require_super_admin ::
  "tenant_env \<Rightarrow> grants option \<Rightarrow> request_state \<Rightarrow> string \<Rightarrow> string \<Rightarrow> call_failure + actor" where
  "require_super_admin te db rs action tenant_id =
     (case tenant_require_authorized_user te db rs action
             ''Not authorized to manage tenant invitations.'' (Some tenant_id) True of
        Inl e \<Rightarrow> Inl e
      | Inr user \<Rightarrow>
          (if \<not> is_super_admin_request rs
           then Inl (refusal ''forbidden'' ''Only super admins can manage tenant invitations.'' 403)
           else case ensure_request_can_access_tenant te rs tenant_id
                       ''Not authorized to manage another tenant.'' of
             Some e \<Rightarrow> Inl e
           | None \<Rightarrow> Inr user))"

definition current_username :: "request_state \<Rightarrow> string" where
  "current_username rs =
     (case rs_user rs of None \<Rightarrow> ''system'' | Some u \<Rightarrow> (if ac_username u = [] then ''system'' else ac_username u))"

definition normalized_int_query_arg :: "request_state \<Rightarrow> string \<Rightarrow> int \<Rightarrow> int \<Rightarrow> int option \<Rightarrow> int" where
  "normalized_int_query_arg rs name fallback minimum maximum =
     (case rs_args rs name of
        None \<Rightarrow> fallback
      | Some raw \<Rightarrow>
          (if strip raw = [] then fallback
           else case py_int raw of
             None \<Rightarrow> fallback
           | Some n \<Rightarrow> (case maximum of None \<Rightarrow> max minimum n | Some m \<Rightarrow> min (max minimum n) m)))"

definition DEFAULT_INVITATION_PAGE_SIZE :: int where "DEFAULT_INVITATION_PAGE_SIZE = 10"
definition MAX_INVITATION_PAGE_SIZE :: int where "MAX_INVITATION_PAGE_SIZE = 100"

definition create_tenant_invitation ::
  "tenant_env \<Rightarrow> grants option \<Rightarrow> request_state \<Rightarrow> 'd invite_env \<Rightarrow> string \<Rightarrow> pyval \<Rightarrow> 'd invite_db \<Rightarrow>
   (call_failure + invitation_view) \<times> 'd invite_db" where
  "create_tenant_invitation te db rs env tenant_id body idb =
     (case require_super_admin te db rs ''create'' tenant_id of
        Inl e \<Rightarrow> (Inl e, idb)
      | Inr _ \<Rightarrow>
          (let payload = dict_items body in
           create_invitation env tenant_id (dget payload ''email'') (dget payload ''roles'')
             (dget payload ''validity_days'') (current_username rs) idb))"

definition list_tenant_invitations ::
  "tenant_env \<Rightarrow> grants option \<Rightarrow> request_state \<Rightarrow> int \<Rightarrow> string \<Rightarrow> 'd invite_db \<Rightarrow>
   (call_failure + invitation_page) \<times> 'd invite_db" where
  "list_tenant_invitations te db rs now tenant_id idb =
     (case require_super_admin te db rs ''read'' tenant_id of
        Inl e \<Rightarrow> (Inl e, idb)
      | Inr _ \<Rightarrow>
          list_invitations now tenant_id (rs_args rs ''status'')
            (nat (normalized_int_query_arg rs ''offset'' 0 0 None))
            (nat (normalized_int_query_arg rs ''limit'' DEFAULT_INVITATION_PAGE_SIZE 1 (Some MAX_INVITATION_PAGE_SIZE)))
            idb)"

definition resend_tenant_invitation ::
  "tenant_env \<Rightarrow> grants option \<Rightarrow> request_state \<Rightarrow> 'd invite_env \<Rightarrow> string \<Rightarrow> string \<Rightarrow> 'd invite_db \<Rightarrow>
   (call_failure + invitation_view) \<times> 'd invite_db" where
  "resend_tenant_invitation te db rs env tenant_id invitation_id idb =
     (case require_super_admin te db rs ''create'' tenant_id of
        Inl e \<Rightarrow> (Inl e, idb)
      | Inr _ \<Rightarrow> resend_invitation env tenant_id invitation_id (current_username rs) idb)"

definition revoke_tenant_invitation ::
  "tenant_env \<Rightarrow> grants option \<Rightarrow> request_state \<Rightarrow> int \<Rightarrow> string \<Rightarrow> string \<Rightarrow> 'd invite_db \<Rightarrow>
   (call_failure + invitation_view) \<times> 'd invite_db" where
  "revoke_tenant_invitation te db rs now tenant_id invitation_id idb =
     (case require_super_admin te db rs ''delete'' tenant_id of
        Inl e \<Rightarrow> (Inl e, idb)
      | Inr _ \<Rightarrow> revoke_invitation now tenant_id invitation_id (current_username rs) idb)"

definition accept_tenant_invitation ::
  "'d invite_env \<Rightarrow> pyval \<Rightarrow> 'd invite_db \<Rightarrow> (call_failure + accepted_view) \<times> 'd invite_db" where
  "accept_tenant_invitation env body idb =
     (let payload = dict_items body in
      accept_invitation env (dget payload ''token'') (str_of (dget payload ''password'')) idb)"

subsection \<open>What the guards promise\<close>

lemma not_super_admin_refused:
  assumes "\<not> is_super_admin_request rs"
  shows "\<exists>e. require_super_admin te db rs action tenant_id = Inl (Refused e) \<and> err_status e \<in> {401, 403}"
  using assms
  by (auto simp: require_super_admin_def tenant_require_authorized_user_def refusal_def
      split: option.splits sum.splits)

text \<open>Only a super-admin manages invitations: for anybody else, anonymous callers and tenant admins
  included, each of the four management routes answers 401 or 403 and leaves the table of
  invitations and the user directory untouched, whatever the grants and the role fallback say.\<close>

theorem only_super_admins_manage_invitations:
  assumes "\<not> is_super_admin_request rs"
  shows "(\<exists>e. create_tenant_invitation te db rs env tenant_id body idb = (Inl (Refused e), idb) \<and> err_status e \<in> {401, 403}) \<and>
    (\<exists>e. list_tenant_invitations te db rs now tenant_id idb = (Inl (Refused e), idb) \<and> err_status e \<in> {401, 403}) \<and>
    (\<exists>e. resend_tenant_invitation te db rs env tenant_id invitation_id idb = (Inl (Refused e), idb) \<and> err_status e \<in> {401, 403}) \<and>
    (\<exists>e. revoke_tenant_invitation te db rs now tenant_id invitation_id idb = (Inl (Refused e), idb) \<and> err_status e \<in> {401, 403})"
proof -
  note r = not_super_admin_refused [OF assms, of te db _ tenant_id]
  show ?thesis
    unfolding create_tenant_invitation_def list_tenant_invitations_def resend_tenant_invitation_def
      revoke_tenant_invitation_def
    using r [of "''create''"] r [of "''read''"] r [of "''delete''"] by (elim exE conjE) simp
qed

end
