(* ===== verification/Invitation_Properties.thy ===== *)
theory Invitation_Properties
  imports Invitations
begin

text \<open>
  What the invitation table promises over every history of its operations, and what a token is
  good for: it is accepted at most once, a re-sent invitation kills the token before it, and a
  failed e-mail changes nothing.
\<close>

subsection \<open>Rows over time\<close>

definition final_status :: "invitation_status \<Rightarrow> bool" where
  "final_status st \<longleftrightarrow> st \<in> {ACCEPTED, REVOKED}"

definition same_person :: "invitation \<Rightarrow> invitation \<Rightarrow> bool" where
  "same_person r r' \<longleftrightarrow> iv_id r' = iv_id r \<and> iv_tenant_id r' = iv_tenant_id r \<and> iv_email r' = iv_email r \<and>
     iv_roles r' = iv_roles r \<and> iv_created_by r' = iv_created_by r \<and> iv_created_at r' = iv_created_at r"

definition row_allowed :: "invitation \<Rightarrow> invitation \<Rightarrow> bool" where
  "row_allowed r r' \<longleftrightarrow> same_person r r' \<and>
     (final_status (iv_status r) \<longrightarrow> iv_status r' = iv_status r \<and> iv_accepted_at r' = iv_accepted_at r \<and>
        iv_token_hash r' = iv_token_hash r)"

definition row_ok :: "invitation \<Rightarrow> bool" where
  "row_ok r \<longleftrightarrow> (iv_accepted_at r \<noteq> None \<longleftrightarrow> iv_status r = ACCEPTED) \<and>
     iv_roles r \<noteq> [] \<and> iv_email r \<noteq> []"

definition invite_inv :: "'d invite_db \<Rightarrow> bool" where
  "invite_inv db \<longleftrightarrow> distinct (map iv_id (iv_rows db)) \<and> distinct (map iv_token_hash (iv_rows db)) \<and>
     (\<forall>r \<in> set (iv_rows db). row_ok r)"

definition rows_evolve :: "'d invite_db \<Rightarrow> 'd invite_db \<Rightarrow> bool" where
  "rows_evolve db db' \<longleftrightarrow> (\<forall>r \<in> set (iv_rows db). \<exists>r' \<in> set (iv_rows db'). row_allowed r r')"

lemma row_allowed_refl [simp]: "row_allowed r r"
  by (simp add: row_allowed_def same_person_def)

lemma row_allowed_trans: "row_allowed r s \<Longrightarrow> row_allowed s t \<Longrightarrow> row_allowed r t"
  by (auto simp: row_allowed_def same_person_def)

lemma rows_evolve_refl [simp]: "rows_evolve db db"
  by (auto simp: rows_evolve_def intro: row_allowed_refl)

lemma rows_evolve_trans: "rows_evolve a b \<Longrightarrow> rows_evolve b c \<Longrightarrow> rows_evolve a c"
  unfolding rows_evolve_def by (meson row_allowed_trans)

definition grows :: "'d invite_db \<Rightarrow> 'd invite_db \<Rightarrow> bool" where
  "grows db db' \<longleftrightarrow> invite_inv db' \<and> rows_evolve db db'"

lemma grows_refl [simp]: "invite_inv db \<Longrightarrow> grows db db"
  by (simp add: grows_def)

lemma grows_trans: "grows a b \<Longrightarrow> grows b c \<Longrightarrow> grows a c"
  using rows_evolve_trans by (auto simp: grows_def)

lemma grows_inv: "grows a b \<Longrightarrow> invite_inv b"
  by (simp add: grows_def)

lemma grows_directory: "invite_inv db \<Longrightarrow> grows db (db\<lparr>iv_directory := d\<rparr>)"
  by (simp add: grows_def invite_inv_def rows_evolve_def) (blast intro: row_allowed_refl)

lemma touch_sel [simp]:
  "iv_id (touch now r r') = iv_id r'" "iv_tenant_id (touch now r r') = iv_tenant_id r'"
  "iv_email (touch now r r') = iv_email r'" "iv_roles (touch now r r') = iv_roles r'"
  "iv_token_hash (touch now r r') = iv_token_hash r'" "iv_status (touch now r r') = iv_status r'"
  "iv_expires_at (touch now r r') = iv_expires_at r'" "iv_accepted_at (touch now r r') = iv_accepted_at r'"
  "iv_created_by (touch now r r') = iv_created_by r'" "iv_created_at (touch now r r') = iv_created_at r'"
  by (auto simp: touch_def)

subsection \<open>Writing a row\<close>

lemma put_row_rows:
  "iv_rows (put_row r' db) = update_where (\<lambda>r. iv_id r = iv_id r') (\<lambda>_. r') (iv_rows db)"
  by (simp add: put_row_def)

lemma put_row_member: "x \<in> set (iv_rows (put_row r' db)) \<Longrightarrow> x = r' \<or> (x \<in> set (iv_rows db) \<and> iv_id x \<noteq> iv_id r')"
  by (auto simp: put_row_rows in_update_where split: if_splits)

lemma put_row_in: "r \<in> set (iv_rows db) \<Longrightarrow> iv_id r' = iv_id r \<Longrightarrow> r' \<in> set (iv_rows (put_row r' db))"
  unfolding put_row_rows using update_where_hit [of r "iv_rows db" "\<lambda>r. iv_id r = iv_id r'" "\<lambda>_. r'"] by simp

lemma distinct_put:
  assumes "distinct (map iv_id rows)" "distinct (map iv_token_hash rows)"
    and "\<not> list_ex (\<lambda>r. iv_id r \<noteq> iv_id r' \<and> iv_token_hash r = iv_token_hash r') rows"
  shows "distinct (map iv_id (update_where (\<lambda>r. iv_id r = iv_id r') (\<lambda>_. r') rows)) \<and>
    distinct (map iv_token_hash (update_where (\<lambda>r. iv_id r = iv_id r') (\<lambda>_. r') rows))"
  using assms
proof (induction rows)
  case (Cons x rows)
  show ?case
  proof (cases "iv_id x = iv_id r'")
    case True
    with Cons.prems(1) have "\<forall>r \<in> set rows. iv_id r \<noteq> iv_id r'" by (auto simp: image_iff)
    then have same: "update_where (\<lambda>r. iv_id r = iv_id r') (\<lambda>_. r') rows = rows" by (rule update_where_id)
    have "iv_token_hash r' \<notin> iv_token_hash ` set rows" "iv_id r' \<notin> iv_id ` set rows"
      using Cons.prems(3) \<open>\<forall>r \<in> set rows. iv_id r \<noteq> iv_id r'\<close> by (auto simp: list_ex_iff)
    with Cons.prems True same show ?thesis by (simp add: update_where_Cons)
  next
    case False
    have "y \<in> set (update_where (\<lambda>r. iv_id r = iv_id r') (\<lambda>_. r') rows) \<Longrightarrow>
        iv_id y \<noteq> iv_id x \<and> iv_token_hash y \<noteq> iv_token_hash x" for y
      using Cons.prems False by (auto simp: in_update_where image_iff split: if_splits)
    then have "iv_id x \<notin> iv_id ` set (update_where (\<lambda>r. iv_id r = iv_id r') (\<lambda>_. r') rows)"
        "iv_token_hash x \<notin> iv_token_hash ` set (update_where (\<lambda>r. iv_id r = iv_id r') (\<lambda>_. r') rows)"
      by fastforce+
    with Cons False show ?thesis by (simp add: update_where_Cons)
  qed
qed (simp add: update_where_def)

lemma put_row_grows:
  assumes "invite_inv db" "r \<in> set (iv_rows db)" "row_allowed r r'" "row_ok r'"
    and "\<not> hash_taken (iv_id r) (iv_token_hash r') db"
  shows "grows db (put_row r' db)"
proof -
  have id: "iv_id r' = iv_id r" using assms(3) by (simp add: row_allowed_def same_person_def)
  have "distinct (map iv_id (iv_rows (put_row r' db))) \<and> distinct (map iv_token_hash (iv_rows (put_row r' db)))"
    unfolding put_row_rows using assms(1,5) id
    by (intro distinct_put) (simp_all add: invite_inv_def hash_taken_def)
  moreover have "\<forall>x \<in> set (iv_rows (put_row r' db)). row_ok x"
    using put_row_member [of _ r' db] assms(1,4) by (auto simp: invite_inv_def)
  moreover have "\<exists>x' \<in> set (iv_rows (put_row r' db)). row_allowed x x'" if "x \<in> set (iv_rows db)" for x
  proof (cases "iv_id x = iv_id r'")
    case True
    with assms(1,2) that id have "x = r" using same_key_same_row [of iv_id] by (auto simp: invite_inv_def)
    with assms(2,3) put_row_in [OF assms(2) id] show ?thesis by blast
  next
    case False
    then have "x \<in> set (iv_rows (put_row r' db))"
      unfolding put_row_rows using that by (intro update_where_miss)
    then show ?thesis using row_allowed_refl by blast
  qed
  ultimately show ?thesis by (simp add: grows_def invite_inv_def rows_evolve_def)
qed

lemma own_hash_free: "invite_inv db \<Longrightarrow> r \<in> set (iv_rows db) \<Longrightarrow> \<not> hash_taken (iv_id r) (iv_token_hash r) db"
  using same_key_same_row [of iv_token_hash "iv_rows db" r]
  by (fastforce simp: hash_taken_def list_ex_iff invite_inv_def)

lemma put_row_grows_same_hash:
  "invite_inv db \<Longrightarrow> r \<in> set (iv_rows db) \<Longrightarrow> row_allowed r r' \<Longrightarrow> row_ok r' \<Longrightarrow>
   iv_token_hash r' = iv_token_hash r \<Longrightarrow> grows db (put_row r' db)"
  using put_row_grows own_hash_free by metis

lemma maybe_expire_cases:
  assumes "invite_inv db" "r \<in> set (iv_rows db)" "maybe_expire now r db = (r', db')"
  shows "grows db db' \<and> r' \<in> set (iv_rows db') \<and> iv_tenants db' = iv_tenants db \<and>
    iv_directory db' = iv_directory db \<and> row_allowed r r' \<and> iv_token_hash r' = iv_token_hash r \<and>
    iv_accepted_at r' = iv_accepted_at r \<and> iv_expires_at r' = iv_expires_at r \<and>
    iv_status r' = (if iv_status r = PENDING \<and> is_expired now r then EXPIRED else iv_status r)"
proof (cases "iv_status r = PENDING \<and> is_expired now r")
  case True
  with assms(3) have r': "r' = touch now r (r\<lparr>iv_status := EXPIRED\<rparr>)" "db' = put_row r' db"
    by (auto simp: maybe_expire_def Let_def)
  have ok: "row_ok r" using assms(1,2) by (auto simp: invite_inv_def)
  have al: "row_allowed r r'" using True r'(1) by (simp add: row_allowed_def same_person_def final_status_def)
  moreover have "row_ok r'" using ok True r'(1) by (simp add: row_ok_def)
  ultimately have "grows db db'" using put_row_grows_same_hash [OF assms(1,2)] r' by simp
  with al True r' put_row_in [OF assms(2), of r'] show ?thesis by (simp add: put_row_def)
next
  case False
  with assms show ?thesis by (simp add: maybe_expire_def)
qed

lemma append_grows:
  assumes "invite_inv db" "row_ok row" "\<not> list_ex (\<lambda>r. iv_id r = iv_id row) (iv_rows db)"
    and "\<not> hash_taken (iv_id row) (iv_token_hash row) db"
  shows "grows db (db\<lparr>iv_rows := iv_rows db @ [row]\<rparr>)"
  using assms by (auto simp: grows_def invite_inv_def rows_evolve_def hash_taken_def list_ex_iff
      intro: row_allowed_refl)

subsection \<open>Every operation\<close>

lemma foldl_later_in: "foldl later_expiry r rs \<in> set (r # rs)"
proof (induction rs arbitrary: r)
  case (Cons x rs)
  have "foldl later_expiry (later_expiry r x) rs \<in> set (later_expiry r x # rs)" by (rule Cons.IH)
  moreover have "later_expiry r x \<in> {r, x}" by (simp add: later_expiry_def)
  ultimately show ?case by auto
qed simp

lemma foldl_later_ge: "iv_expires_at r \<le> iv_expires_at (foldl later_expiry r rs)"
proof (induction rs arbitrary: r)
  case (Cons y rs)
  have "iv_expires_at r \<le> iv_expires_at (later_expiry r y)" by (simp add: later_expiry_def)
  also have "\<dots> \<le> iv_expires_at (foldl later_expiry (later_expiry r y) rs)" by (rule Cons.IH)
  finally show ?case by simp
qed simp

lemma foldl_later_max:
  "x \<in> set (r # rs) \<Longrightarrow> iv_expires_at x \<le> iv_expires_at (foldl later_expiry r rs)"
proof (induction rs arbitrary: r)
  case (Cons y rs)
  from Cons.prems consider "x = r" | "x = y" | "x \<in> set rs" by auto
  then show ?case
  proof cases
    case 3
    with Cons.IH [of "later_expiry r y"] show ?thesis by simp
  next
    case 2
    then have "iv_expires_at x \<le> iv_expires_at (later_expiry r y)" by (simp add: later_expiry_def)
    with foldl_later_ge [of "later_expiry r y" rs] show ?thesis by simp
  next
    case 1
    with foldl_later_ge [of r "y # rs"] show ?thesis by simp
  qed
qed simp

definition active_pending :: "int \<Rightarrow> string \<Rightarrow> string \<Rightarrow> invitation \<Rightarrow> bool" where
  "active_pending now tenant_id email r \<longleftrightarrow> pending_for tenant_id email r \<and> \<not> is_expired now r"

lemma has_active_cases:
  assumes "invite_inv db" "has_active_pending_invitation now tenant_id email db = (active, db')"
  shows "grows db db' \<and> iv_tenants db' = iv_tenants db \<and> iv_directory db' = iv_directory db \<and>
    (active \<longleftrightarrow> (\<exists>r \<in> set (iv_rows db). active_pending now tenant_id email r)) \<and> (active \<longrightarrow> db' = db)"
proof (cases "filter (pending_for tenant_id email) (iv_rows db)")
  case Nil
  then have "\<not> pending_for tenant_id email r" if "r \<in> set (iv_rows db)" for r
    using that by (auto simp: filter_empty_conv)
  with assms Nil show ?thesis by (auto simp: has_active_pending_invitation_def active_pending_def)
next
  case (Cons r rs)
  let ?best = "foldl later_expiry r rs"
  have mem: "x \<in> set (r # rs) \<longleftrightarrow> x \<in> set (iv_rows db) \<and> pending_for tenant_id email x" for x
    using arg_cong [OF Cons, of set] by auto
  have best: "?best \<in> set (iv_rows db)" "pending_for tenant_id email ?best"
    using foldl_later_in [of r rs] mem by auto
  obtain r' where e: "maybe_expire now ?best db = (r', db')" and a: "active \<longleftrightarrow> iv_status r' = PENDING"
    using assms(2) Cons by (auto simp: has_active_pending_invitation_def split: prod.splits)
  note c = maybe_expire_cases [OF assms(1) best(1) e]
  have pend: "iv_status ?best = PENDING" using best(2) by (simp add: pending_for_def)
  have act: "active \<longleftrightarrow> \<not> is_expired now ?best" using a c pend by simp
  have "(\<exists>x \<in> set (iv_rows db). active_pending now tenant_id email x) \<longleftrightarrow> \<not> is_expired now ?best"
  proof
    assume "\<exists>x \<in> set (iv_rows db). active_pending now tenant_id email x"
    then obtain x where x: "x \<in> set (r # rs)" "\<not> is_expired now x" using mem by (auto simp: active_pending_def)
    with foldl_later_max [of x r rs] show "\<not> is_expired now ?best" by (simp add: is_expired_def)
  next
    assume "\<not> is_expired now ?best"
    with best show "\<exists>x \<in> set (iv_rows db). active_pending now tenant_id email x"
      by (auto simp: active_pending_def)
  qed
  moreover have "db' = db" if "active"
  proof -
    have "\<not> is_expired now ?best" using act that by blast
    with e show ?thesis by (simp add: maybe_expire_def)
  qed
  ultimately show ?thesis using c act by blast
qed

lemma valid_roles_shape: "validated_roles roles = Inr names \<Longrightarrow> join '','' names \<noteq> []"
proof -
  assume "validated_roles roles = Inr names"
  then obtain vs where n: "names = normalize_tenant_role_names vs" "names \<noteq> []"
    by (auto simp: validated_roles_def Let_def split: if_splits)
  then have "[] \<notin> set names" by (auto simp: normalize_tenant_role_names_def)
  with n(2) show ?thesis by (cases "('','', names)" rule: join.cases) auto
qed

lemma send_and_insert_grows:
  assumes "invite_inv db" "row_ok row"
  shows "grows db (snd (send_and_insert env tenant email row db))"
  using assms append_grows [OF assms]
  by (auto simp: send_and_insert_def split: sum.splits)

lemma create_grows:
  assumes "invite_inv db"
  shows "grows db (snd (create_invitation env tenant_id email roles days created_by db))"
proof -
  obtain active db1 where h: "has_active_pending_invitation (ix_now env) tenant_id (normalized_email email) db
      = (active, db1)" by fastforce
  note c = has_active_cases [OF assms h]
  have "row_ok (new_invitation env tenant_id (normalized_email email) names n created_by)"
    if "validated_roles roles = Inr names" "normalized_email email \<noteq> []" for names n
    using valid_roles_shape [OF that(1)] that(2) by (simp add: row_ok_def new_invitation_def)
  then have ins: "grows db (snd (send_and_insert env tenant (normalized_email email)
      (new_invitation env tenant_id (normalized_email email) names n created_by) db1))"
    if "validated_roles roles = Inr names" "normalized_email email \<noteq> []" for names n tenant
    using that c send_and_insert_grows grows_inv grows_trans by metis
  show ?thesis
    unfolding create_invitation_def Let_def h prod.case using assms c ins
    by (auto split: sum.splits user_answer.splits)
qed

lemma maybe_expire_others:
  assumes "maybe_expire now r db = (r', db')" "x \<in> set (iv_rows db)" "iv_id x \<noteq> iv_id r"
  shows "x \<in> set (iv_rows db')"
  using assms by (auto simp: maybe_expire_def Let_def put_row_rows update_where_miss split: if_splits)

lemma expire_each_grows:
  "invite_inv db \<Longrightarrow> distinct (map iv_id rs) \<Longrightarrow> set rs \<subseteq> set (iv_rows db) \<Longrightarrow>
   grows db (snd (expire_each now rs db))"
proof (induction rs arbitrary: db)
  case (Cons r rs)
  obtain r' db1 where e: "maybe_expire now r db = (r', db1)" by fastforce
  have g: "grows db db1" using maybe_expire_cases [OF Cons.prems(1) _ e] Cons.prems(3) by simp
  have "set rs \<subseteq> set (iv_rows db1)"
  proof
    fix x assume x: "x \<in> set rs"
    then have "iv_id x \<noteq> iv_id r" using Cons.prems(2) by (auto simp: image_iff)
    with x Cons.prems(3) maybe_expire_others [OF e, of x] show "x \<in> set (iv_rows db1)" by auto
  qed
  then have "grows db1 (snd (expire_each now rs db1))"
    using Cons.IH [OF grows_inv [OF g]] Cons.prems(2) by simp
  with g e show ?case by (auto split: prod.splits dest: grows_trans)
qed simp

lemma distinct_page:
  assumes "distinct (map iv_id rows)"
  shows "distinct (map iv_id (take n (drop m (sort_key k (filter P rows)))))"
proof -
  have "distinct (map iv_id (filter P rows))" using assms by (simp add: distinct_map_filter)
  then have "distinct (map iv_id (sort_key k (filter P rows)))" by (simp add: distinct_map)
  then show ?thesis by (metis distinct_take distinct_drop take_map drop_map)
qed

lemma list_grows:
  assumes "invite_inv db"
  shows "grows db (snd (list_invitations now tenant_id status_filter offset limit db))"
proof -
  let ?page = "take limit (drop offset (sort_key (\<lambda>r. - iv_created_at r)
      (filter (\<lambda>r. iv_tenant_id r = tenant_id \<and> status_selected status_filter r) (iv_rows db))))"
  have "set ?page \<subseteq> set (iv_rows db)" by (auto dest!: in_set_takeD in_set_dropD)
  moreover have "distinct (map iv_id ?page)" using assms by (intro distinct_page) (simp add: invite_inv_def)
  ultimately have "grows db (snd (expire_each now ?page db))" using expire_each_grows [OF assms] by blast
  with assms show ?thesis by (auto simp: list_invitations_def Let_def split: sum.splits prod.splits)
qed

lemma invitation_found:
  "invitation_or_error tenant_id invitation_id db = Inr r \<Longrightarrow>
   r \<in> set (iv_rows db) \<and> iv_id r = invitation_id \<and> iv_tenant_id r = tenant_id"
  by (auto simp: invitation_or_error_def split: option.splits dest: find_Some_iff_props)

lemma member_ok: "invite_inv db \<Longrightarrow> r \<in> set (iv_rows db) \<Longrightarrow> row_ok r"
  by (simp add: invite_inv_def)

lemma rotate_token_allowed:
  assumes "row_ok r" "iv_status r \<in> {PENDING, EXPIRED}"
  shows "row_allowed r (touch now r (rotate_token env who r)) \<and> row_ok (touch now r (rotate_token env who r))"
  using assms by (auto simp: row_allowed_def row_ok_def same_person_def final_status_def rotate_token_def)

lemma resend_grows:
  assumes "invite_inv db"
  shows "grows db (snd (resend_invitation env tenant_id invitation_id modified_by db))"
proof (cases "invitation_or_error tenant_id invitation_id db")
  case (Inl e)
  with assms show ?thesis by (auto simp: resend_invitation_def split: sum.splits)
next
  case (Inr found)
  obtain r db1 where e: "maybe_expire (ix_now env) found db = (r, db1)" by fastforce
  have c: "grows db db1" "r \<in> set (iv_rows db1)"
    using maybe_expire_cases [OF assms _ e] invitation_found [OF Inr] by auto
  let ?r' = "touch (ix_now env) r (rotate_token env modified_by r)"
  have "grows db1 (put_row ?r' db1)"
    if "iv_status r \<in> {PENDING, EXPIRED}" "\<not> hash_taken (iv_id r) (iv_token_hash ?r') db1"
    using rotate_token_allowed [OF member_ok [OF grows_inv [OF c(1)] c(2)] that(1)] that(2)
      put_row_grows [OF grows_inv [OF c(1)] c(2)] by blast
  with c(1) have "grows db (put_row ?r' db1)"
    if "iv_status r \<in> {PENDING, EXPIRED}" "\<not> hash_taken (iv_id r) (iv_token_hash ?r') db1"
    using that grows_trans by blast
  with assms c(1) show ?thesis
    unfolding resend_invitation_def Inr sum.case e prod.case Let_def by (auto split: sum.splits)
qed

lemma revoke_grows:
  assumes "invite_inv db"
  shows "grows db (snd (revoke_invitation now tenant_id invitation_id modified_by db))"
proof (cases "invitation_or_error tenant_id invitation_id db")
  case (Inl e)
  with assms show ?thesis by (auto simp: revoke_invitation_def split: sum.splits)
next
  case (Inr r)
  let ?r' = "touch now r (r\<lparr>iv_status := REVOKED, iv_modified_by := modified_by\<rparr>)"
  have m: "r \<in> set (iv_rows db)" using invitation_found [OF Inr] by simp
  have "row_allowed r ?r'" "row_ok ?r'" if "iv_status r \<noteq> ACCEPTED"
    using that member_ok [OF assms m]
    by (auto simp: row_allowed_def row_ok_def same_person_def final_status_def)
  then have "grows db (put_row ?r' db)" if "iv_status r \<noteq> ACCEPTED"
    using that put_row_grows_same_hash [OF assms m] by simp
  with assms show ?thesis
    unfolding revoke_invitation_def Inr sum.case Let_def by (auto split: sum.splits)
qed

subsection \<open>Tokens\<close>

definition token_text :: "pyval \<Rightarrow> string" where
  "token_text raw_token = strip (if truthy raw_token then py_str raw_token else [])"

lemma token_lookup:
  assumes "invite_inv db" "pending_invitation_by_token hash_of now raw_token db = (result, db')"
  shows "grows db db' \<and> iv_directory db' = iv_directory db \<and> iv_tenants db' = iv_tenants db \<and>
    (\<forall>r. result = Inr r \<longrightarrow> r \<in> set (iv_rows db) \<and> db' = db \<and> iv_token_hash r = hash_of (token_text raw_token) \<and>
        iv_status r = PENDING \<and> \<not> is_expired now r)"
proof (cases "token_text raw_token = []")
  case True
  with assms show ?thesis by (auto simp: pending_invitation_by_token_def token_text_def Let_def)
next
  case nonempty: False
  show ?thesis
  proof (cases "find (\<lambda>r. iv_token_hash r = hash_of (token_text raw_token)) (iv_rows db)")
    case None
    with nonempty assms show ?thesis
      by (auto simp: pending_invitation_by_token_def token_text_def [symmetric] Let_def)
  next
    case (Some found)
    then have f: "found \<in> set (iv_rows db)" "iv_token_hash found = hash_of (token_text raw_token)"
      by (auto dest: find_Some_iff_props)
    obtain r db1 where e: "maybe_expire now found db = (r, db1)" by fastforce
    note c = maybe_expire_cases [OF assms(1) f(1) e]
    have res: "db' = db1" "result = Inr x \<Longrightarrow> x = r \<and> iv_status r = PENDING" for x
      using assms(2) nonempty unfolding pending_invitation_by_token_def token_text_def [symmetric] Let_def
      by (auto simp: Some e split: if_splits)
    have "r = found \<and> db1 = db \<and> \<not> is_expired now r" if "iv_status r = PENDING"
    proof -
      have "\<not> (iv_status found = PENDING \<and> is_expired now found)" using c that by (auto split: if_splits)
      with e have "r = found" "db1 = db" by (auto simp: maybe_expire_def split: if_splits)
      with c that show ?thesis by (auto split: if_splits)
    qed
    with c f res show ?thesis by blast
  qed
qed

lemma consume_allowed:
  assumes "row_ok r" "iv_status r = PENDING"
  shows "row_allowed r (touch now r (consume now r)) \<and> row_ok (touch now r (consume now r))"
  using assms by (auto simp: row_allowed_def row_ok_def same_person_def final_status_def consume_def)

lemma ensure_account_rows: "ensure_account env email password db = (failed, db') \<Longrightarrow>
    db' = db\<lparr>iv_directory := iv_directory db'\<rparr>"
  by (auto simp: ensure_account_def split: user_answer.splits prod.splits)

lemma add_member_rows: "add_member env r db = (failed, db') \<Longrightarrow> db' = db\<lparr>iv_directory := iv_directory db'\<rparr>"
  by (auto simp: add_member_def split: prod.splits)

text \<open>The result of an acceptance: the row it consumed, or a state that only grew.\<close>

lemma accept_cases:
  assumes "invite_inv db" "accept_invitation env raw_token password db = (result, db')"
  shows "grows db db' \<and>
    (\<forall>v. result = Inr v \<longrightarrow> (\<exists>r d. r \<in> set (iv_rows db) \<and> iv_token_hash r = ix_hash env (token_text raw_token) \<and>
        iv_status r = PENDING \<and> \<not> is_expired (ix_now env) r \<and> MIN_PASSWORD_LENGTH \<le> length (or_default password []) \<and>
        av_email v = iv_email r \<and> av_tenant_id v = iv_tenant_id r \<and> av_roles v = role_names r \<and>
        db' = put_row (touch (ix_now env) r (consume (ix_now env) r)) (db\<lparr>iv_directory := d\<rparr>)))"
proof (cases "length (or_default password []) < MIN_PASSWORD_LENGTH")
  case True
  with assms show ?thesis by (auto simp: accept_invitation_def)
next
  case pw: False
  obtain found db1 where l: "pending_invitation_by_token (ix_hash env) (ix_now env) raw_token db = (found, db1)"
    by fastforce
  note t = token_lookup [OF assms(1) l]
  show ?thesis
  proof (cases found)
    case (Inl e)
    with assms(2) l pw t show ?thesis by (auto simp: accept_invitation_def)
  next
    case (Inr r)
    with t have db1: "db1 = db" and r: "r \<in> set (iv_rows db)" "iv_status r = PENDING" "\<not> is_expired (ix_now env) r"
        "iv_token_hash r = ix_hash env (token_text raw_token)" by auto
    let ?r' = "touch (ix_now env) r (consume (ix_now env) r)"
    have put: "grows db (put_row ?r' (db\<lparr>iv_directory := d\<rparr>))" for d
    proof -
      have g: "grows db (db\<lparr>iv_directory := d\<rparr>)" by (rule grows_directory) (rule assms(1))
      have "grows (db\<lparr>iv_directory := d\<rparr>) (put_row ?r' (db\<lparr>iv_directory := d\<rparr>))"
        using consume_allowed [OF member_ok [OF assms(1) r(1)] r(2)] r(1)
        by (intro put_row_grows_same_hash [OF grows_inv [OF g]]) (auto simp: consume_def)
      with g show ?thesis by (rule grows_trans)
    qed
    obtain f2 db2 where a: "ensure_account env (iv_email r) (or_default password []) db = (f2, db2)" by fastforce
    obtain f3 db3 where m: "add_member env r db2 = (f3, db3)" by fastforce
    have d: "db2 = db\<lparr>iv_directory := iv_directory db2\<rparr>" "db3 = db\<lparr>iv_directory := iv_directory db3\<rparr>"
      using ensure_account_rows [OF a] add_member_rows [OF m] by (metis invite_db.surjective invite_db.update_convs(3))+
    have g: "grows db db2" "grows db db3" using d grows_directory [OF assms(1)] by metis+
    have p: "grows db (put_row ?r' db3)" using put d(2) by metis
    have w: "put_row ?r' db3 = put_row ?r' (db\<lparr>iv_directory := iv_directory db3\<rparr>)" using d(2) by metis
    show ?thesis
      using assms(2) unfolding accept_invitation_def l Inr prod.case sum.case db1 a
      using pw g p r w assms(1) m by (auto split: sum.splits option.splits intro!: exI [of _ r] exI [of _ "iv_directory db3"])
  qed
qed

subsection \<open>Histories\<close>

text \<open>Every operation of the service, at any time and with any answers of the directory, the mail
  server and the random source.\<close>

inductive invite_step :: "'d invite_db \<Rightarrow> 'd invite_db \<Rightarrow> bool" where
  creating: "create_invitation env tenant_id email roles days who db = (res, db') \<Longrightarrow> invite_step db db'"
| listing: "list_invitations now tenant_id status_filter offset limit db = (res, db') \<Longrightarrow> invite_step db db'"
| resending: "resend_invitation env tenant_id invitation_id who db = (res, db') \<Longrightarrow> invite_step db db'"
| revoking: "revoke_invitation now tenant_id invitation_id who db = (res, db') \<Longrightarrow> invite_step db db'"
| validating: "validate_token hash_of now raw_token db = (res, db') \<Longrightarrow> invite_step db db'"
| accepting: "accept_invitation env raw_token password db = (res, db') \<Longrightarrow> invite_step db db'"

inductive_cases invite_stepE: "invite_step db db'"

lemma validate_grows:
  assumes "invite_inv db" "validate_token hash_of now raw_token db = (res, db')"
  shows "grows db db'"
proof -
  obtain found db1 where l: "pending_invitation_by_token hash_of now raw_token db = (found, db1)" by fastforce
  have "db' = db1" using assms(2) l by (auto simp: validate_token_def split: sum.splits)
  with token_lookup [OF assms(1) l] show ?thesis by simp
qed

lemma invite_step_grows:
  assumes "invite_inv db" "invite_step db db'"
  shows "grows db db'"
  using assms(2)
proof (cases rule: invite_step.cases)
  case creating
  with create_grows [OF assms(1)] show ?thesis by (metis snd_conv)
next
  case listing
  with list_grows [OF assms(1)] show ?thesis by (metis snd_conv)
next
  case resending
  with resend_grows [OF assms(1)] show ?thesis by (metis snd_conv)
next
  case revoking
  with revoke_grows [OF assms(1)] show ?thesis by (metis snd_conv)
next
  case validating
  with validate_grows [OF assms(1)] show ?thesis by blast
next
  case accepting
  with accept_cases [OF assms(1)] show ?thesis by blast
qed

interpretation invitations: step_system invite_step invite_inv rows_evolve
proof
  show "rows_evolve a c" if "rows_evolve a b" "rows_evolve b c" for a b c :: "'a invite_db"
    using that by (rule rows_evolve_trans)
qed (auto simp: grows_def dest: invite_step_grows)

text \<open>The properties of the invitation service.\<close>

text \<open>C15. Whatever is done to the invitations of all tenants, in any order, at any time and however
  the directory and the mail server answer: row ids and token hashes stay unique, an invitation has
  an acceptance time exactly when it is accepted, no row changes its tenant, address, roles or
  author, and an accepted or revoked invitation stays so for good with the token it had.\<close>

theorem invitation_history_is_safe:
  assumes "invite_step\<^sup>*\<^sup>* db db'" "invite_inv db"
  shows "invite_inv db' \<and> (\<forall>r \<in> set (iv_rows db). \<exists>r' \<in> set (iv_rows db'). row_allowed r r')"
  using invitations.history [OF assms] by (simp add: rows_evolve_def)


lemma resend_shape:
  assumes "invite_inv db" "resend_invitation env tenant_id invitation_id who db = (Inr view, db')"
  shows "\<exists>r db1. grows db db1 \<and> r \<in> set (iv_rows db1) \<and> iv_id r = invitation_id \<and> iv_tenant_id r = tenant_id \<and>
    iv_status r \<in> {PENDING, EXPIRED} \<and>
    (\<exists>found \<in> set (iv_rows db). iv_id found = invitation_id \<and> iv_token_hash found = iv_token_hash r) \<and>
    db' = put_row (touch (ix_now env) r (rotate_token env who r)) db1 \<and>
    \<not> hash_taken invitation_id (ix_hash env (ix_token env)) db1 \<and>
    (vw_link view = None \<longleftrightarrow> ix_smtp_host env \<noteq> [])"
proof -
  obtain found tenant where f: "invitation_or_error tenant_id invitation_id db = Inr found"
      "get_tenant_by_id tenant_id db = Inr tenant"
    using assms(2) by (auto simp: resend_invitation_def split: sum.splits)
  obtain r db1 where e: "maybe_expire (ix_now env) found db = (r, db1)" by fastforce
  note i = invitation_found [OF f(1)]
  note c = maybe_expire_cases [OF assms(1) _ e]
  have same: "iv_id r = invitation_id" "iv_tenant_id r = tenant_id"
    using c i by (auto simp: row_allowed_def same_person_def)
  have link: "send_invitation_email env (iv_email r) (tn_name tenant) (ix_token env) = Inr sent \<Longrightarrow>
      sent \<longleftrightarrow> ix_smtp_host env \<noteq> []" for sent
    by (auto simp: send_invitation_email_def send_email_def Let_def split: if_splits option.splits)
  have body: "iv_status r \<in> {PENDING, EXPIRED} \<and> \<not> hash_taken (iv_id r) (ix_hash env (ix_token env)) db1 \<and>
      db' = put_row (touch (ix_now env) r (rotate_token env who r)) db1 \<and> (vw_link view = None \<longleftrightarrow> ix_smtp_host env \<noteq> [])"
    using assms(2) link unfolding resend_invitation_def f sum.case e prod.case Let_def
    by (auto simp: rotate_token_def serialize_def split: if_splits sum.splits)
  show ?thesis using body c i same by (intro exI [of _ r] exI [of _ db1]) auto
qed

text \<open>Re-sending rotates the credential: once an invitation has been re-sent, the token of the
  earlier e-mail is as good as none, and the new link is shown to the administrator exactly when no
  mail server is configured.\<close>

theorem resending_kills_the_old_token:
  assumes "invite_inv db" "resend_invitation env tenant_id invitation_id who db = (Inr view, db')"
    and "r \<in> set (iv_rows db)" "iv_id r = invitation_id"
    and "ix_hash env (token_text old) = iv_token_hash r" "ix_hash env (ix_token env) \<noteq> iv_token_hash r"
  shows "(\<exists>e. fst (pending_invitation_by_token (ix_hash env) now old db') = Inl (Refused e) \<and>
      error_code e = ''invalid_invitation'') \<and> (vw_link view = None \<longleftrightarrow> ix_smtp_host env \<noteq> [])"
proof -
  from resend_shape [OF assms(1,2)] obtain s db1 where s: "grows db db1" "s \<in> set (iv_rows db1)"
      "iv_id s = invitation_id" "db' = put_row (touch (ix_now env) s (rotate_token env who s)) db1"
      "vw_link view = None \<longleftrightarrow> ix_smtp_host env \<noteq> []"
      "\<exists>found \<in> set (iv_rows db). iv_id found = invitation_id \<and> iv_token_hash found = iv_token_hash s"
    by (elim exE conjE) (rule that, assumption+)
  have "iv_token_hash s = iv_token_hash r"
    using s(6) assms(1,3,4) same_key_same_row [of iv_id "iv_rows db"] unfolding invite_inv_def by metis
  then have others: "iv_token_hash x \<noteq> iv_token_hash r" if "x \<in> set (iv_rows db1)" "iv_id x \<noteq> invitation_id" for x
    using that s(1-3) same_key_same_row [of iv_token_hash "iv_rows db1" x s]
    by (auto simp: grows_def invite_inv_def)
  have "iv_token_hash x \<noteq> ix_hash env (token_text old)" if "x \<in> set (iv_rows db')" for x
    using put_row_member [OF that [unfolded s(4)]] others [of x] assms(5,6) s(3)
    by (auto simp: rotate_token_def)
  then have "find (\<lambda>x. iv_token_hash x = ix_hash env (token_text old)) (iv_rows db') = None"
    by (simp add: find_None_conv)
  then have "\<exists>e. fst (pending_invitation_by_token (ix_hash env) now old db') = Inl (Refused e) \<and>
      error_code e = ''invalid_invitation''"
    unfolding pending_invitation_by_token_def token_text_def [symmetric] Let_def by (simp add: refusal_def)
  with s(5) show ?thesis by blast
qed

text \<open>The uniqueness that creating an invitation enforces is not kept by re-sending one: while a
  person has an active invitation of a tenant, a second one is refused, yet re-sending an older,
  expired invitation succeeds and leaves two active ones.\<close>

theorem resending_an_expired_invitation_duplicates_it:
  assumes "invite_inv db" "old \<in> set (iv_rows db)" "iv_status old = EXPIRED" "iv_tenant_id old = tenant_id"
    and "new \<in> set (iv_rows db)" "active_pending (ix_now env) tenant_id (iv_email old) new"
    and "get_tenant_by_id tenant_id db = Inr tenant" "ix_smtp_host env = []"
    and "\<not> hash_taken (iv_id old) (ix_hash env (ix_token env)) db"
    and "normalized_email email = iv_email old" "CHR ''@'' \<in> set (iv_email old)" "validated_roles roles = Inr names"
  shows "(\<exists>e. fst (create_invitation env tenant_id email roles days who db) = Inl (Refused e) \<and>
      error_code e = ''invitation_exists'') \<and>
    (\<exists>view db'. resend_invitation env tenant_id (iv_id old) who db = (Inr view, db') \<and>
      (\<exists>a \<in> set (iv_rows db'). \<exists>b \<in> set (iv_rows db'). iv_id a \<noteq> iv_id b \<and>
         active_pending (ix_now env) tenant_id (iv_email old) a \<and>
         active_pending (ix_now env) tenant_id (iv_email old) b))"
proof -
  obtain active db1 where h: "has_active_pending_invitation (ix_now env) tenant_id (iv_email old) db = (active, db1)"
    by fastforce
  have act: "active" using has_active_cases [OF assms(1) h] assms(5,6) by blast
  have "iv_email old \<noteq> []" using assms(11) by auto
  then have refused: "\<exists>e. fst (create_invitation env tenant_id email roles days who db) = Inl (Refused e) \<and>
      error_code e = ''invitation_exists''"
    unfolding create_invitation_def Let_def assms(7,10,12) sum.case h prod.case using act assms(11)
    by (simp add: refusal_def)
  have f: "invitation_or_error tenant_id (iv_id old) db = Inr old"
  proof -
    have "find (\<lambda>r. iv_id r = iv_id old \<and> iv_tenant_id r = tenant_id) (iv_rows db) = Some old"
      using assms(1-4) by (intro find_the_only) (auto simp: invite_inv_def dest: same_key_same_row)
    then show ?thesis by (simp add: invitation_or_error_def)
  qed
  have e: "maybe_expire (ix_now env) old db = (old, db)" using assms(3) by (simp add: maybe_expire_def)
  let ?r' = "touch (ix_now env) old (rotate_token env who old)"
  have send: "send_invitation_email env (iv_email old) (tn_name tenant) (ix_token env) = Inr False"
    using assms(8) by (simp add: send_invitation_email_def send_email_def Let_def)
  have "iv_token_hash ?r' = ix_hash env (ix_token env)" by (simp add: rotate_token_def)
  then have res: "resend_invitation env tenant_id (iv_id old) who db =
      (Inr (serialize ?r' (Some (accept_url env (ix_token env)))), put_row ?r' db)"
    unfolding resend_invitation_def assms(7) f sum.case e prod.case send Let_def using assms(3,9) by simp
  have "?r' \<in> set (iv_rows (put_row ?r' db))" by (rule put_row_in) (simp_all add: assms(2) rotate_token_def)
  moreover have "active_pending (ix_now env) tenant_id (iv_email old) ?r'"
    using assms(4) by (simp add: active_pending_def pending_for_def is_expired_def rotate_token_def
        DEFAULT_VALIDITY_DAYS_def SECONDS_PER_DAY_def)
  moreover have other: "iv_id new \<noteq> iv_id ?r'"
  proof
    assume "iv_id new = iv_id ?r'"
    then have "new = old" using assms(1,2,5) same_key_same_row [of iv_id "iv_rows db"]
      by (auto simp: invite_inv_def rotate_token_def)
    with assms(3,6) show False by (simp add: active_pending_def pending_for_def)
  qed
  moreover have "new \<in> set (iv_rows (put_row ?r' db))"
    unfolding put_row_rows using assms(5) other by (intro update_where_miss) auto
  ultimately show ?thesis using refused res assms(6) by blast
qed


end
