(* ===== verification/Access_Witnesses.thy ===== *)
theory Access_Witnesses
  imports Authorization_Laws Active_Tenant_Laws Safe_Redirect Tenant_Access Invitation_Properties
begin

text \<open>
  The access properties applied to a small deployment: two tenants, an editor of the first one and
  an administrator of it, a token of the first tenant's organization and one of an organization no
  row of the tenant table knows.
\<close>

subsection \<open>A deployment\<close>

definition demo_group :: "int \<Rightarrow> string \<Rightarrow> user_group" where
  "demo_group i identifier = \<lparr>gp_id = i, gp_identifier = identifier\<rparr>"

definition role_of :: "string \<Rightarrow> string \<Rightarrow> string" where
  "role_of tenant role = tenant @ CHR 0x3A # role"

definition demo_actor :: "user_group list \<Rightarrow> actor" where
  "demo_actor groups = \<lparr>ac_id = 5, ac_username = ''ann'', ac_service = Some ''https'', ac_service_id = ''s5'',
     ac_last_used = 0, ac_principal_id = Some 50, ac_groups = groups\<rparr>"

definition demo_rc :: request_context where
  "demo_rc = \<lparr>rc_tenant_ids = [''t1'', ''acme''], rc_claims = None\<rparr>"

definition demo_target :: "string \<Rightarrow> permission_target" where
  "demo_target res = \<lparr>pt_command = Some ''process.suspend'', pt_resource_type = Some ''tenant'',
     pt_resource_id = Some res, pt_uri = None\<rparr>"

definition demo_grants :: grants where
  "demo_grants = \<lparr>gr_users = [demo_actor []], gr_principals = [],
     gr_assignments = [\<lparr>pa_principal_id = 50, pa_permission = ''execute'', pa_grant_type = ''permit'',
       pa_target = Some (demo_target ''/process-instances/%'')\<rparr>]\<rparr>"

definition demo_rows :: "tenant_identity list" where
  "demo_rows = [\<lparr>ti_id = ''t1'', ti_slug = ''acme''\<rparr>, \<lparr>ti_id = ''t2'', ti_slug = ''globex''\<rparr>]"

definition demo_te :: tenant_env where
  "demo_te = \<lparr>te_rows = demo_rows, te_users = [], te_platform = False, te_path_prefix = []\<rparr>"

definition demo_membership :: "string \<Rightarrow> membership" where
  "demo_membership alias =
     \<lparr>mb_ref = \<lparr>tr_id = Some (''org-'' @ alias), tr_alias = Some alias, tr_name = None\<rparr>,
      mb_roles = [''tenant-admin''], mb_groups = [''Administrators''], mb_roles_complete = False\<rparr>"

definition demo_claims :: session_claims where
  "demo_claims = \<lparr>cl_subject = ''s5'', cl_issuer = ''https'', cl_username = Some ''ann'', cl_roles = [],
     cl_memberships = [demo_membership ''acme''], cl_active_ref = Some (mb_ref (demo_membership ''acme''))\<rparr>"

definition demo_request :: "string option \<Rightarrow> request_state" where
  "demo_request cookie =
     \<lparr>rs_user = Some (demo_actor [demo_group 1 (role_of ''t1'' ''editor'')]), rs_claims = Some demo_claims,
      rs_payload_tenant = None, rs_cookie = cookie, rs_header = None, rs_args = (\<lambda>_. None),
      rs_path = ''/v1.0/tasks'', rs_tenant_id = None, rs_context = None, rs_ctx_token = None,
      rs_exempt = False, rs_public = False, rs_global = False\<rparr>"

subsection \<open>Authorization\<close>

theorem target_matches_exactly_its_language_witness:
  "path_matches ''/tasks/7/submit'' ''/tasks/{id}/submit'' False \<and>
   slashes ''/tasks/7/submit'' = part_slashes (parts_of ''/tasks/{id}/submit'') \<and>
   \<not> path_matches ''/tasks/7/8/submit'' ''/tasks/{id}/submit'' False"
proof -
  have p: "has_pattern ''/tasks/{id}/submit''" by code_simp
  have yes: "path_matches ''/tasks/7/submit'' ''/tasks/{id}/submit'' False" by code_simp
  have no: "slashes ''/tasks/7/8/submit'' \<noteq> part_slashes (parts_of ''/tasks/{id}/submit'')" by code_simp
  have plain: "CHR ''%'' \<notin> set ''/tasks/{id}/submit''" "CHR ''*'' \<notin> set ''/tasks/{id}/submit''" by code_simp+
  show ?thesis
    using target_matches_exactly_its_language [OF p, of "''/tasks/7/submit''" False] yes plain
      target_matches_exactly_its_language [OF p, of "''/tasks/7/8/submit''" False] no
    by blast
qed

theorem other_tenants_roles_do_not_count_witness:
  "\<not> allow_uri demo_rc None (Some ((demo_actor [])\<lparr>ac_groups := [] @ demo_group 1 (role_of ''t2'' ''tenant-admin'') # []\<rparr>))
     ''GET'' ''/process-models'' True"
proof -
  have f: "foreign_group demo_rc (demo_group 1 (role_of ''t2'' ''tenant-admin''))"
    unfolding foreign_group_def
    by (intro conjI exI [of _ "''t2''"] exI [of _ "''tenant-admin''"])
      (simp_all add: demo_rc_def demo_group_def role_of_def)
  have "\<not> allow_uri demo_rc None (Some ((demo_actor [])\<lparr>ac_groups := [] @ []\<rparr>)) ''GET'' ''/process-models'' True"
    by code_simp
  with other_tenants_roles_do_not_count [OF f, where db = None and u = "demo_actor []" and gs = "[]"
      and hs = "[]" and verb = "''GET''" and path = "''/process-models''" and fallback = True]
  show ?thesis by blast
qed

definition demo_command :: authorization_request where
  "demo_command = \<lparr>ar_actor_user_id = 5, ar_command_key = ''process.suspend'', ar_permission = ''execute'',
     ar_resource_type = ''process_instance'', ar_resource_id = ''7''\<rparr>"

theorem lifecycle_commands_need_execute_witness:
  "dc_allowed (authorize (\<lambda>_. \<lparr>dc_allowed = False, dc_reason = []\<rparr>) demo_rc demo_grants demo_command)"
proof -
  have h: "find (\<lambda>u. ac_id u = ar_actor_user_id demo_command) (gr_users demo_grants) = Some (demo_actor [])"
      "\<not> actor_is_super_admin demo_rc (Some (demo_actor []))"
      "ar_command_key demo_command \<in> set LIFECYCLE_COMMAND_KEYS"
    by code_simp+
  have r: "resource_permitted demo_rc demo_grants (demo_actor []) ''execute'' ''tenant''
      (normalize_route_resource_id (ar_resource_id demo_command) (Some ''/process-instances/''))
      (Some (ar_command_key demo_command)) False" "ar_permission demo_command = ''execute''"
    by code_simp+
  show ?thesis
    using lifecycle_commands_need_execute [OF h refl refl, of "\<lambda>_. \<lparr>dc_allowed = False, dc_reason = []\<rparr>"] r
    by blast
qed

definition demo_admin :: actor where
  "demo_admin = demo_actor [demo_group 1 (role_of ''t1'' ''tenant-admin'')]"

definition deny_all :: grants where
  "deny_all = \<lparr>gr_users = [demo_admin], gr_principals = [],
     gr_assignments = [\<lparr>pa_principal_id = 50, pa_permission = ''all'', pa_grant_type = ''deny'',
       pa_target = Some ((demo_target ''%'')\<lparr>pt_command := None\<rparr>)\<rparr>]\<rparr>"

theorem deny_is_overruled_by_the_role_fallback_witness:
  "\<not> resource_permitted demo_rc deny_all demo_admin ''read'' ''tenant'' ''/process-models'' None False \<and>
   allow_uri demo_rc (Some deny_all) (Some demo_admin) ''GET'' ''/process-models'' True"
proof (rule conjI)
  show "\<not> resource_permitted demo_rc deny_all demo_admin ''read'' ''tenant'' ''/process-models'' None False"
    by code_simp
  have g: "demo_group 1 (role_of ''t1'' ''tenant-admin'') \<in> set (active_tenant_groups demo_rc demo_admin)"
      "endswith (gp_identifier (demo_group 1 (role_of ''t1'' ''tenant-admin''))) '':tenant-admin''"
    by code_simp+
  have p: "''/process-models'' = normalize_authorization_path ''/process-models''"
      "lifecycle_route ''/process-models'' = None" "\<not> list_ex (startswith ''/process-models'') NO_GROUP_FALLBACK_PREFIXES"
      "\<not> (write_action (method_to_action ''GET'') \<and> startswith ''/process-models'' ''/process-models'' \<and>
          read_only_role (rc_tenant_ids demo_rc) demo_admin)"
      "\<not> actor_is_super_admin demo_rc (Some demo_admin)"
    by code_simp+
  show "allow_uri demo_rc (Some deny_all) (Some demo_admin) ''GET'' ''/process-models'' True"
    by (rule deny_is_overruled_by_the_role_fallback [OF g p(1,2) _ p(3,4,5)]) simp
qed

subsection \<open>The active tenant\<close>

theorem known_organization_stands_for_its_own_tenant_witness:
  "membership_for_active_tenant demo_rows [demo_membership ''acme''] ''t1'' = Some (demo_membership ''acme'') \<and>
   (\<exists>t \<in> set demo_rows. names_row (ref_tokens (demo_membership ''acme'')) t \<and>
      strip (ti_id t) \<in> set (wanted_identifiers demo_rows ''t1''))"
proof -
  have m: "membership_for_active_tenant demo_rows [demo_membership ''acme''] ''t1'' = Some (demo_membership ''acme'')"
    by code_simp
  have k: "known_organization demo_rows (demo_membership ''acme'')" by code_simp
  have no: "\<not> (\<exists>token \<in> set (ref_tokens (demo_membership ''acme'')). token \<in> set (wanted_identifiers demo_rows ''t1''))"
    by code_simp
  from known_organization_stands_for_its_own_tenant [OF m k] no m show ?thesis by blast
qed

theorem unknown_organization_counts_for_every_tenant_witness:
  "role_of ''t2'' ''tenant-admin'' \<in>
     set (at_groups (select_tenant demo_rows (\<lambda>_. None) None [demo_membership ''initech''] [] ''globex'' None True))"
proof -
  have h: "\<not> known_organization demo_rows (demo_membership ''initech'')"
      "canonical_tenant_id demo_rows [Some ''globex''] = Some ''t2''"
      "mb_groups (demo_membership ''initech'') \<noteq> []" "''tenant-admin'' \<in> set (mb_roles (demo_membership ''initech''))"
      "''tenant-admin'' \<in> set VALID_TENANT_ROLE_NAMES"
    by code_simp+
  show ?thesis
    using unknown_organization_counts_for_every_tenant [OF h, of "\<lambda>_. None" None "[]" None True]
    unfolding role_of_def by blast
qed


theorem cookie_overrides_the_bound_tenant_witness:
  "\<exists>rs1 rs2. resolve_request_tenant demo_te (demo_request (Some ''globex'')) = Inr rs1 \<and> bound_to rs1 ''t1'' \<and>
     require_tenant_id demo_te (rs_user rs1) True rs1 = (Inr ''t2'', rs2) \<and>
     apply_postgres_rls demo_te rs2 = [(''app.current_tenant'', ''t2'')]"
proof -
  let ?rs = "demo_request (Some ''globex'')"
  have h: "\<not> is_super_admin_request ?rs" "rs_cookie ?rs = Some ''globex''" "''globex'' \<noteq> ([] :: string)"
      "strip ''globex'' = ''globex''" "\<not> claims_match_cookie demo_te (rs_claims ?rs) ''globex''"
      "\<not> user_belongs demo_te ?rs ''globex''"
      "jwt_tenant (rs_claims ?rs) (rs_payload_tenant ?rs) = Some ''org-acme''"
      "''t2'' = canonical_for_request demo_te ?rs ''globex''" "concrete (Some ''t2'') = Some ''t2''"
      "\<not> is_tenant_context_exempt_request demo_te ?rs"
    by code_simp+
  have own: "canonical_for_request demo_te ?rs ''org-acme'' = ''t1''" by code_simp
  from cookie_overrides_the_bound_tenant [OF h] show ?thesis unfolding own .
qed

theorem only_super_admins_manage_invitations_witness:
  "\<exists>e. revoke_tenant_invitation demo_te None (demo_request None) 5 ''t1'' ''i1''
       \<lparr>iv_rows = [], iv_tenants = [], iv_directory = ()\<rparr>
     = (Inl (Refused e), \<lparr>iv_rows = [], iv_tenants = [], iv_directory = ()\<rparr>) \<and> err_status e \<in> {401, 403}"
proof -
  have "\<not> is_super_admin_request (demo_request None)" by code_simp
  from only_super_admins_manage_invitations [OF this] show ?thesis by blast
qed

subsection \<open>Redirects\<close>

definition demo_origin :: string where
  "demo_origin = ''https'' @ scheme_mark @ ''app.example.org''"

theorem redirect_stays_home_or_on_the_allowlist_witness:
  "\<not> local_path (demo_origin @ ''/home?x=1'') \<and>
   (\<exists>origin \<in> set [demo_origin]. \<exists>rest. demo_origin @ ''/home?x=1'' = origin @ rest \<and> (rest = [] \<or> ends_netloc (hd rest)))"
proof -
  have v: "validated_redirect_url (\<lambda>_. True) (Inr [demo_origin]) (Some (''HTTPS'' @ scheme_mark @ ''App.example.org/home?x=1''))
      = Inr (Some (demo_origin @ ''/home?x=1''))"
    by code_simp
  have n: "\<not> local_path (demo_origin @ ''/home?x=1'')" by code_simp
  from redirect_stays_home_or_on_the_allowlist [OF v] n show ?thesis by blast
qed

text \<open>
  The invitation properties applied to a directory that is a list of account names, a tenant with
  one pending invitation and one that has expired, and no mail server.
\<close>

definition demo_invite_env :: "int \<Rightarrow> string \<Rightarrow> string list invite_env" where
  "demo_invite_env now token =
     \<lparr>ix_now = now, ix_uuid = ''id-'' @ token, ix_token = token, ix_hash = (\<lambda>s. ''h-'' @ s),
      ix_frontend = ''https'', ix_smtp_host = [], ix_smtp = (\<lambda>_. None),
      ix_get_user = (\<lambda>d u. if u \<in> set d then User_found else User_not_found),
      ix_create_user = (\<lambda>d u p. (None, u # d)), ix_add_member = (\<lambda>d t u rs. (None, d)),
      ix_trunc = (\<lambda>_. 0)\<rparr>"

definition demo_invitation :: "string \<Rightarrow> string \<Rightarrow> invitation_status \<Rightarrow> int \<Rightarrow> invitation" where
  "demo_invitation i token st expires =
     \<lparr>iv_id = i, iv_tenant_id = ''t1'', iv_email = ''bob@example.org'', iv_roles = ''editor'',
      iv_token_hash = ''h-'' @ token, iv_status = st, iv_expires_at = expires, iv_accepted_at = None,
      iv_created_by = ''root'', iv_modified_by = ''root'', iv_created_at = 1, iv_updated_at = 1\<rparr>"

definition demo_invite_db :: "string list invite_db" where
  "demo_invite_db =
     \<lparr>iv_rows = [demo_invitation ''old'' ''tok0'' EXPIRED 50, demo_invitation ''new'' ''tok1'' PENDING 1000],
      iv_tenants = [\<lparr>tn_id = ''t1'', tn_name = ''Acme''\<rparr>], iv_directory = []\<rparr>"

lemma demo_invite_inv: "invite_inv demo_invite_db"
  by code_simp

definition accepted_db :: "string list invite_db" where
  "accepted_db = snd (accept_invitation (demo_invite_env 100 ''x'') (PStr ''tok1'') (Some ''password1'') demo_invite_db)"

definition revoked_db :: "string list invite_db" where
  "revoked_db = snd (revoke_invitation 101 ''t1'' ''old'' ''root'' accepted_db)"

lemma demo_steps: "invite_step\<^sup>*\<^sup>* accepted_db revoked_db"
  unfolding revoked_db_def by (rule r_into_rtranclp) (rule revoking, rule prod.collapse [symmetric])

lemma demo_history: "invite_step\<^sup>*\<^sup>* demo_invite_db revoked_db"
proof -
  have "invite_step demo_invite_db accepted_db"
    unfolding accepted_db_def by (rule accepting) (rule prod.collapse [symmetric])
  then show ?thesis using demo_steps by (rule converse_rtranclp_into_rtranclp)
qed

lemma succeeds:
  assumes "case fst p of Inr _ \<Rightarrow> True | Inl _ \<Rightarrow> False"
  obtains v where "p = (Inr v, snd p)"
  using assms by (cases p) (auto split: sum.splits)

theorem invitation_history_is_safe_witness:
  "invite_inv revoked_db \<and> map iv_status (iv_rows revoked_db) = [REVOKED, ACCEPTED]"
proof -
  have "map iv_status (iv_rows revoked_db) = [REVOKED, ACCEPTED]" by code_simp
  with invitation_history_is_safe [OF demo_history demo_invite_inv] show ?thesis by blast
qed

definition demo_accepted :: accepted_view where
  "demo_accepted = \<lparr>av_email = ''bob@example.org'', av_tenant_id = ''t1'', av_tenant_name = ''Acme'',
     av_roles = [''editor''], av_smtp_configured = False\<rparr>"


theorem resending_kills_the_old_token_witness:
  "\<exists>e. fst (pending_invitation_by_token (\<lambda>s. ''h-'' @ s) 150 (PStr ''tok1'')
      (snd (resend_invitation (demo_invite_env 120 ''tok2'') ''t1'' ''new'' ''root'' demo_invite_db)))
      = Inl (Refused e) \<and> error_code e = ''invalid_invitation''"
proof -
  let ?env = "demo_invite_env 120 ''tok2''"
  have "case fst (resend_invitation ?env ''t1'' ''new'' ''root'' demo_invite_db) of Inr _ \<Rightarrow> True | Inl _ \<Rightarrow> False"
    by code_simp
  from succeeds [OF this] obtain view where r: "resend_invitation ?env ''t1'' ''new'' ''root'' demo_invite_db =
      (Inr view, snd (resend_invitation ?env ''t1'' ''new'' ''root'' demo_invite_db))" .
  have h: "demo_invitation ''new'' ''tok1'' PENDING 1000 \<in> set (iv_rows demo_invite_db)"
      "iv_id (demo_invitation ''new'' ''tok1'' PENDING 1000) = ''new''"
      "ix_hash ?env (token_text (PStr ''tok1'')) = iv_token_hash (demo_invitation ''new'' ''tok1'' PENDING 1000)"
      "ix_hash ?env (ix_token ?env) \<noteq> iv_token_hash (demo_invitation ''new'' ''tok1'' PENDING 1000)"
    by code_simp+
  have "ix_hash ?env = (\<lambda>s. ''h-'' @ s)" by (simp add: demo_invite_env_def)
  with resending_kills_the_old_token [OF demo_invite_inv r h, of 150] show ?thesis by metis
qed

theorem resending_an_expired_invitation_duplicates_it_witness:
  "\<exists>view db'. resend_invitation (demo_invite_env 120 ''tok2'') ''t1'' ''old'' ''root'' demo_invite_db = (Inr view, db') \<and>
     (\<exists>a \<in> set (iv_rows db'). \<exists>b \<in> set (iv_rows db'). iv_id a \<noteq> iv_id b \<and>
        active_pending 120 ''t1'' ''bob@example.org'' a \<and> active_pending 120 ''t1'' ''bob@example.org'' b)"
proof -
  let ?env = "demo_invite_env 120 ''tok2''"
  let ?old = "demo_invitation ''old'' ''tok0'' EXPIRED 50"
  let ?new = "demo_invitation ''new'' ''tok1'' PENDING 1000"
  have h: "?old \<in> set (iv_rows demo_invite_db)" "iv_status ?old = EXPIRED" "iv_tenant_id ?old = ''t1''"
      "?new \<in> set (iv_rows demo_invite_db)" "active_pending (ix_now ?env) ''t1'' (iv_email ?old) ?new"
      "get_tenant_by_id ''t1'' demo_invite_db = Inr \<lparr>tn_id = ''t1'', tn_name = ''Acme''\<rparr>" "ix_smtp_host ?env = []"
      "\<not> hash_taken (iv_id ?old) (ix_hash ?env (ix_token ?env)) demo_invite_db"
      "normalized_email (PStr '' Bob@Example.org'') = iv_email ?old" "CHR ''@'' \<in> set (iv_email ?old)"
      "validated_roles (PStr ''editor'') = Inr [''editor'']"
    by code_simp+
  have e: "ix_now ?env = 120" "iv_email ?old = ''bob@example.org''" "iv_id ?old = ''old''" by code_simp+
  from resending_an_expired_invitation_duplicates_it [OF demo_invite_inv h] show ?thesis
    unfolding e by blast
qed


end
