(* ===== verification/Template_Store.thy ===== *)
theory Template_Store
  imports Tenant_Access
begin

text \<open>
  Template files (services/template_storage_service.py): the file types, the unpacking of an uploaded
  archive, and the store on the file system. A file lies under the base directory at tenant, key,
  version and name, each component sanitized; the store maps these four components to the bytes, and
  a byte is a character. Which reads and writes the operating system refuses, and what an archive
  contains, are arguments.
\<close>

subsection \<open>File names\<close>

definition basename :: "string \<Rightarrow> string" where
  "basename p = rsplit_last (CHR ''/'') p"

text \<open>\<open>os.path.splitext(p)[1]\<close>: leading dots of the last component start no extension.\<close>

definition extension :: "string \<Rightarrow> string" where
  "extension p =
     (let name = dropWhile (\<lambda>c. c = CHR ''.'') (basename p) in
      if CHR ''.'' \<in> set name then CHR ''.'' # rsplit_last (CHR ''.'') name else [])"

definition FILE_EXT_TO_TYPE :: "(string \<times> string) list" where
  "FILE_EXT_TO_TYPE = [(''.bpmn'', ''bpmn''), (''.json'', ''json''), (''.dmn'', ''dmn''), (''.md'', ''md'')]"

definition file_type_from_filename :: "string \<Rightarrow> string" where
  "file_type_from_filename filename =
     or_default (map_of FILE_EXT_TO_TYPE (py_lower (extension filename))) ''other''"

subsection \<open>Archives\<close>

definition MAX_ZIP_SIZE :: nat where "MAX_ZIP_SIZE = 50 * 1024 * 1024"
definition MAX_EXTRACTED_SIZE :: nat where "MAX_EXTRACTED_SIZE = 200 * 1024 * 1024"
definition MAX_ZIP_ENTRIES :: nat where "MAX_ZIP_ENTRIES = 100"

text \<open>What \<open>zipfile\<close> finds in the bytes: the entries in the archive's order, each with what reading it
  gives (the size it unpacks to and the content, or an exception), or \<open>None\<close> for no archive.\<close>

datatype read_failure = Bad_zip string | Other_failure string

record zip_entry =
  ze_name :: string
  ze_read :: "read_failure + string"

type_synonym unzip = "string \<Rightarrow> string + zip_entry list"

fun extract_entries :: "nat \<Rightarrow> zip_entry list \<Rightarrow> call_failure + (string \<times> string) list" where
  "extract_entries seen [] = Inr []"
| "extract_entries seen (e # es) =
     (let base_name = basename (ze_name e) in
      if base_name = [] \<or> startswith base_name ''.'' then extract_entries seen es
      else case ze_read e of
        Inl (Bad_zip text) \<Rightarrow> Inl (Refused (ApiError ''invalid_content'' (''Invalid zip file: '' @ text) 400))
      | Inl (Other_failure text) \<Rightarrow> Inl (Raised text)
      | Inr content \<Rightarrow>
          (if MAX_EXTRACTED_SIZE < seen + length content
           then Inl (Refused (ApiError ''payload_too_large''
                  ''Extracted content exceeds maximum allowed size of 200 MB'' 400))
           else case extract_entries (seen + length content) es of
             Inl e \<Rightarrow> Inl e
           | Inr files \<Rightarrow> Inr ((base_name, content) # files)))"

definition safe_extract_zip :: "unzip \<Rightarrow> string \<Rightarrow> call_failure + (string \<times> string) list" where
  "safe_extract_zip unzip zip_bytes =
     (if MAX_ZIP_SIZE < length zip_bytes
      then Inl (Refused (ApiError ''payload_too_large'' ''Zip file exceeds maximum allowed size of 50 MB'' 400))
      else case unzip zip_bytes of
        Inl text \<Rightarrow> Inl (Refused (ApiError ''invalid_content'' (''Invalid zip file: '' @ text) 400))
      | Inr listing \<Rightarrow>
          (let entries = filter (\<lambda>e. \<not> endswith (ze_name e) ''/'') listing in
           if MAX_ZIP_ENTRIES < length entries
           then Inl (Refused (ApiError ''payload_too_large'' ''Zip contains too many entries (max 100)'' 400))
           else extract_entries 0 entries))"

subsection \<open>The store\<close>

type_synonym store_path = "string \<times> string \<times> string \<times> string"
type_synonym store = "store_path \<Rightarrow> string option"

text \<open>\<open>se_configured\<close>: one of the two settings names a directory. \<open>se_unwritable\<close> and \<open>se_unreadable\<close>
  give the text of the \<open>OSError\<close> a path meets (\<open>se_unwritable\<close> for removals, too).\<close>

record store_env =
  se_configured :: bool
  se_unwritable :: "store_path \<Rightarrow> string option"
  se_unreadable :: "store_path \<Rightarrow> string option"

definition INVALID_PATH_CHARS :: string where
  "INVALID_PATH_CHARS = [CHR ''/'', CHR 0x5C, CHR 0x3A, CHR ''*'', CHR ''?'', CHR 0x22, CHR ''<'', CHR ''>'', CHR ''|'']"

definition hidden_char :: "char \<Rightarrow> bool" where
  "hidden_char c \<longleftrightarrow> c \<in> {CHR ''.'', CHR '' '', CHR ''-''}"

definition sanitize :: "string \<Rightarrow> api_error + string" where
  "sanitize s =
     (let replaced = map (\<lambda>c. if c \<in> set INVALID_PATH_CHARS then CHR ''-'' else c)
                       (filter (\<lambda>c. c \<noteq> CHR 0x00) s);
          stripped = strip_if hidden_char replaced
      in if stripped = [] then Inl (ApiError ''invalid_input'' ''Name is empty after sanitization'' 400)
         else Inr (take 255 stripped))"

definition version_dir :: "store_env \<Rightarrow> string \<Rightarrow> string \<Rightarrow> string \<Rightarrow> api_error + string \<times> string \<times> string" where
  "version_dir se tenant_id template_key version =
     (if \<not> se_configured se
      then Inl (ApiError ''configuration_error''
             ''M8FLOW_TEMPLATES_STORAGE_DIR or SPIFFWORKFLOW_BACKEND_BPMN_SPEC_ABSOLUTE_DIR must be configured'' 500)
      else case sanitize tenant_id of
        Inl e \<Rightarrow> Inl e
      | Inr t \<Rightarrow> (case sanitize template_key of
          Inl e \<Rightarrow> Inl e
        | Inr k \<Rightarrow> (case sanitize version of Inl e \<Rightarrow> Inl e | Inr v \<Rightarrow> Inr (t, k, v))))"

definition file_path :: "store_env \<Rightarrow> string \<Rightarrow> string \<Rightarrow> string \<Rightarrow> string \<Rightarrow> api_error + store_path" where
  "file_path se tenant_id template_key version file_name =
     (case sanitize (basename file_name) of
        Inl e \<Rightarrow> Inl e
      | Inr safe_name \<Rightarrow> (case version_dir se tenant_id template_key version of
          Inl e \<Rightarrow> Inl e
        | Inr (t, k, v) \<Rightarrow> Inr (t, k, v, safe_name)))"

definition store_file ::
  "store_env \<Rightarrow> string \<Rightarrow> string \<Rightarrow> string \<Rightarrow> string \<Rightarrow> string \<Rightarrow> store \<Rightarrow> (api_error + unit) \<times> store" where
  "store_file se tenant_id template_key version file_name content st =
     (case file_path se tenant_id template_key version file_name of
        Inl e \<Rightarrow> (Inl e, st)
      | Inr path \<Rightarrow>
          (case se_unwritable se path of
             Some text \<Rightarrow> (Inl (ApiError ''storage_error'' (''Failed to write file: '' @ text) 500), st)
           | None \<Rightarrow> (Inr (), st(path \<mapsto> content))))"

definition get_file ::
  "store_env \<Rightarrow> string \<Rightarrow> string \<Rightarrow> string \<Rightarrow> string \<Rightarrow> store \<Rightarrow> api_error + string" where
  "get_file se tenant_id template_key version file_name st =
     (case file_path se tenant_id template_key version file_name of
        Inl e \<Rightarrow> Inl e
      | Inr path \<Rightarrow>
          (case st path of
             None \<Rightarrow> Inl (ApiError ''not_found'' (''File not found: '' @ file_name) 404)
           | Some content \<Rightarrow>
               (case se_unreadable se path of
                  Some text \<Rightarrow> Inl (ApiError ''storage_error'' (''Failed to read file: '' @ text) 500)
                | None \<Rightarrow> Inr content)))"

definition delete_file ::
  "store_env \<Rightarrow> string \<Rightarrow> string \<Rightarrow> string \<Rightarrow> string \<Rightarrow> store \<Rightarrow> (api_error + unit) \<times> store" where
  "delete_file se tenant_id template_key version file_name st =
     (case file_path se tenant_id template_key version file_name of
        Inl e \<Rightarrow> (Inl e, st)
      | Inr path \<Rightarrow>
          (if st path = None then (Inr (), st)
           else case se_unwritable se path of
             Some text \<Rightarrow> (Inl (ApiError ''storage_error'' (''Failed to delete file: '' @ text) 500), st)
           | None \<Rightarrow> (Inr (), st(path := None))))"

text \<open>\<open>stream_zip\<close>: the members of the archive; an entry that cannot be read is left out.\<close>

fun stream_zip :: "store_env \<Rightarrow> string \<Rightarrow> string \<Rightarrow> string \<Rightarrow> store \<Rightarrow> string option list \<Rightarrow> (string \<times> string) list" where
  "stream_zip se tenant_id template_key version st [] = []"
| "stream_zip se tenant_id template_key version st (entry # entries) =
     (case (if truthy_str entry then get_file se tenant_id template_key version (or_default entry []) st
            else Inl (ApiError [] [] 0)) of
        Inl e \<Rightarrow> stream_zip se tenant_id template_key version st entries
      | Inr content \<Rightarrow> (or_default entry [], content) # stream_zip se tenant_id template_key version st entries)"

subsection \<open>A path stays where it belongs\<close>

text \<open>A component no directory walk can leave: it is a proper name.\<close>

definition proper_name :: "string \<Rightarrow> bool" where
  "proper_name s \<longleftrightarrow> s \<noteq> [] \<and> length s \<le> 255 \<and> set s \<inter> set INVALID_PATH_CHARS = {} \<and> CHR 0x00 \<notin> set s \<and>
     \<not> hidden_char (hd s)"

lemma replaced_free:
  "r \<notin> set bad \<Longrightarrow> set (map (\<lambda>c. if c \<in> set bad then r else c) xs) \<inter> set bad = {}"
  "r \<noteq> z \<Longrightarrow> z \<notin> set xs \<Longrightarrow> z \<notin> set (map (\<lambda>c. if c \<in> set bad then r else c) xs)"
  by auto

lemma sanitize_proper:
  assumes "sanitize s = Inr c"
  shows "proper_name c"
proof -
  define replaced where "replaced = map (\<lambda>c. if c \<in> set INVALID_PATH_CHARS then CHR ''-'' else c)
    (filter (\<lambda>c. c \<noteq> CHR 0x00) s)"
  from assms have c: "strip_if hidden_char replaced \<noteq> []" "c = take 255 (strip_if hidden_char replaced)"
    by (auto simp: sanitize_def replaced_def Let_def split: if_splits)
  have "CHR ''-'' \<notin> set INVALID_PATH_CHARS" by code_simp
  then have free: "set replaced \<inter> set INVALID_PATH_CHARS = {}"
    unfolding replaced_def by (rule replaced_free)
  have "CHR 0x00 \<notin> set replaced"
    unfolding replaced_def by (rule replaced_free) simp_all
  moreover have "set c \<subseteq> set replaced"
    unfolding c(2) by (rule order_trans [OF set_take_subset strip_if_set])
  moreover have "hd c = hd (strip_if hidden_char replaced)" using c by (simp add: hd_take)
  ultimately show ?thesis using c(1) free strip_if_hd [OF c(1)]
    by (auto simp: proper_name_def c(2))
qed

lemma proper_name_no_walk: "proper_name s \<Longrightarrow> s \<notin> {[], ''.'', ''..''} \<and> CHR ''/'' \<notin> set s"
  by (auto simp: proper_name_def hidden_char_def INVALID_PATH_CHARS_def)

lemma file_path_components:
  assumes "file_path se tenant_id template_key version file_name = Inr (t, k, v, n)"
  shows "sanitize tenant_id = Inr t" "sanitize template_key = Inr k" "sanitize version = Inr v"
    "sanitize (basename file_name) = Inr n"
  using assms by (auto simp: file_path_def version_dir_def split: sum.splits if_splits)

text \<open>Sanitizing is idempotent on its results, so a stored path names itself.\<close>

lemma map_replace_id:
  "set s \<inter> set INVALID_PATH_CHARS = {} \<Longrightarrow> CHR 0x00 \<notin> set s \<Longrightarrow>
   map (\<lambda>c. if c \<in> set INVALID_PATH_CHARS then CHR ''-'' else c) (filter (\<lambda>c. c \<noteq> CHR 0x00) s) = s"
  by (induction s) (auto simp: insert_ident)

lemma sanitize_id:
  assumes "proper_name s" "\<not> hidden_char (last s)"
  shows "sanitize s = Inr s"
proof -
  have "strip_if hidden_char s = s" by (rule strip_if_id) (use assms in \<open>simp add: proper_name_def\<close>)
  moreover have "map (\<lambda>c. if c \<in> set INVALID_PATH_CHARS then CHR ''-'' else c) (filter (\<lambda>c. c \<noteq> CHR 0x00) s) = s"
    by (rule map_replace_id) (use assms in \<open>auto simp: proper_name_def\<close>)
  ultimately show ?thesis using assms by (simp add: sanitize_def Let_def proper_name_def)
qed

end
