(* ===== verification/Templates.thy ===== *)
theory Templates
  imports Template_Store
begin

text \<open>
  Process templates (services/template_service.py, services/template_authorization_service.py, the
  template row of models/native.py, routes/templates_controller.py): versions of a template share a
  key within a tenant, a published version is never edited in place, and its edits collect on one
  draft. The state is the table, the provenance links and the file store. A request that fails rolls
  the database back, but not the store.
\<close>

subsection \<open>State\<close>

record file_entry =
  fe_type :: "string option"
  fe_name :: "string option"

record template =
  tm_id :: int
  tm_key :: string
  tm_version :: string
  tm_name :: string
  tm_description :: pyval
  tm_tags :: pyval
  tm_category :: pyval
  tm_tenant :: string
  tm_visibility :: pyval
  tm_files :: "file_entry list"
  tm_published :: bool
  tm_status :: pyval
  tm_deleted :: bool
  tm_created_by :: string
  tm_modified_by :: string
  tm_created_at :: int
  tm_updated_at :: int

record provenance =
  pv_model :: string
  pv_template :: int
  pv_tenant :: string

record template_db =
  tb_rows :: "template list"
  tb_seq :: int
  tb_links :: "provenance list"
  tb_store :: store

text \<open>What the database refuses of a row beside the uniqueness of tenant, key and version.\<close>

datatype db_refusal = Integrity string | Other_refusal string

record template_env =
  tx_now :: int
  tx_stamp :: string
  tx_files :: store_env
  tx_refuses :: "template \<Rightarrow> db_refusal option"
  tx_unzip :: unzip
  tx_ilike :: "string \<Rightarrow> string \<Rightarrow> bool"

text \<open>The request: its tenant binding, its claims and the grant tables.\<close>

record web =
  wb_te :: tenant_env
  wb_grants :: "grants option"
  wb_rs :: request_state

definition g_user :: "web \<Rightarrow> actor option" where "g_user w = rs_user (wb_rs w)"
definition g_tenant :: "web \<Rightarrow> string option" where "g_tenant w = rs_tenant_id (wb_rs w)"

definition api_failure :: "string \<Rightarrow> string \<Rightarrow> int \<Rightarrow> call_failure" where
  "api_failure code message status = Refused (ApiError code message status)"

subsection \<open>Who may see and edit a template\<close>

definition is_public :: "template \<Rightarrow> bool" where "is_public t \<longleftrightarrow> tm_visibility t = PStr ''PUBLIC''"
definition is_tenant_visible :: "template \<Rightarrow> bool" where "is_tenant_visible t \<longleftrightarrow> tm_visibility t = PStr ''TENANT''"
definition is_private :: "template \<Rightarrow> bool" where "is_private t \<longleftrightarrow> tm_visibility t = PStr ''PRIVATE''"

definition web_allows :: "web \<Rightarrow> actor option \<Rightarrow> string \<Rightarrow> string \<Rightarrow> bool" where
  "web_allows w user permission path =
     allow_uri (request_context_of (wb_te w) (wb_rs w)) (wb_grants w) user permission path True"

definition super_admin_caller :: "web \<Rightarrow> actor option \<Rightarrow> bool" where
  "super_admin_caller w user =
     actor_is_super_admin (request_context_of (wb_te w) (wb_rs w)) (or_else user (g_user w))"

definition has_admin_permission :: "web \<Rightarrow> actor option \<Rightarrow> string \<Rightarrow> bool" where
  "has_admin_permission w user permission =
     (user \<noteq> None \<and> web_allows w user permission ''/m8flow/admin/templates'')"

definition owns :: "actor option \<Rightarrow> template \<Rightarrow> bool" where
  "owns user t = (case user of None \<Rightarrow> False | Some u \<Rightarrow> tm_created_by t = ac_username u)"

definition is_current_tenant_template :: "web \<Rightarrow> template \<Rightarrow> bool" where
  "is_current_tenant_template w t \<longleftrightarrow> g_tenant w = Some (tm_tenant t)"

definition can_view :: "web \<Rightarrow> template \<Rightarrow> actor option \<Rightarrow> bool" where
  "can_view w t user \<longleftrightarrow>
     (if user \<noteq> None \<and> has_admin_permission w user ''read'' \<and> g_tenant w = Some (tm_tenant t) then True
      else if super_admin_caller w user then True
      else if is_public t then True
      else if is_tenant_visible t then g_tenant w = Some (tm_tenant t)
      else if is_private t then owns user t \<and> g_tenant w = Some (tm_tenant t)
      else False)"

definition can_edit :: "web \<Rightarrow> template \<Rightarrow> actor option \<Rightarrow> bool" where
  "can_edit w t user \<longleftrightarrow>
     (if super_admin_caller w user then False
      else if user = None then False
      else if \<not> is_current_tenant_template w t then False
      else if owns user t then True
      else web_allows w user ''update'' ''/m8flow/templates'')"

definition visible_in_queries :: "web \<Rightarrow> actor option \<Rightarrow> template \<Rightarrow> bool" where
  "visible_in_queries w user t \<longleftrightarrow>
     (if super_admin_caller w user then True
      else case g_tenant w of
        None \<Rightarrow> is_public t
      | Some tenant \<Rightarrow>
          is_public t \<or> (is_tenant_visible t \<and> tm_tenant t = tenant) \<or>
          (user \<noteq> None \<and>
           (if has_admin_permission w user ''read'' then is_private t \<and> tm_tenant t = tenant
            else is_private t \<and> tm_tenant t = tenant \<and> owns user t)))"

subsection \<open>Versions\<close>

text \<open>The sort key of a version: every \<open>V\<close> number comes after every other form.\<close>

datatype vkey = Legacy string | Numbered nat

instantiation vkey :: linorder
begin

fun less_eq_vkey :: "vkey \<Rightarrow> vkey \<Rightarrow> bool" where
  "Legacy s \<le> Legacy t \<longleftrightarrow> s \<le> t"
| "Legacy s \<le> Numbered n \<longleftrightarrow> True"
| "Numbered m \<le> Legacy t \<longleftrightarrow> False"
| "Numbered m \<le> Numbered n \<longleftrightarrow> m \<le> n"

definition less_vkey :: "vkey \<Rightarrow> vkey \<Rightarrow> bool" where
  "less_vkey x y \<longleftrightarrow> x \<le> y \<and> x \<noteq> y"

instance
proof
  fix x y z :: vkey
  show "x < y \<longleftrightarrow> x \<le> y \<and> \<not> y \<le> x" by (cases x; cases y) (auto simp: less_vkey_def)
  show "x \<le> x" by (cases x) auto
  show "x \<le> y \<Longrightarrow> y \<le> z \<Longrightarrow> x \<le> z" by (cases x; cases y; cases z) auto
  show "x \<le> y \<Longrightarrow> y \<le> x \<Longrightarrow> x = y" by (cases x; cases y) auto
  show "x \<le> y \<or> y \<le> x" by (cases x; cases y) auto
qed

end

text \<open>\<open>str.isdigit\<close> also holds of the superscripts, which \<open>int\<close> refuses, as it does texts of more
  than 4300 digits.\<close>

definition unicode_digit :: "char \<Rightarrow> bool" where
  "unicode_digit c \<longleftrightarrow> is_digit c \<or> c \<in> {CHR 0xB2, CHR 0xB3, CHR 0xB9}"

definition v_style :: "string \<Rightarrow> bool" where
  "v_style v \<longleftrightarrow> v \<noteq> [] \<and> hd v \<in> {CHR ''V'', CHR ''v''} \<and> tl v \<noteq> [] \<and> list_all unicode_digit (tl v)"

definition digits_int :: "string \<Rightarrow> string + nat" where
  "digits_int s =
     (if 4300 < length s then Inl ''ValueError''
      else case digits_value 0 False s of None \<Rightarrow> Inl ''ValueError'' | Some n \<Rightarrow> Inr n)"

definition version_key :: "string \<Rightarrow> string + vkey" where
  "version_key version =
     (let v = strip version in
      if v_style v then (case digits_int (tl v) of Inl e \<Rightarrow> Inl e | Inr n \<Rightarrow> Inr (Numbered n))
      else Inr (Legacy v))"

text \<open>\<open>max(rows, key=...)\<close>: the first of the largest.\<close>

fun max_version :: "template \<Rightarrow> vkey \<Rightarrow> template list \<Rightarrow> string + template" where
  "max_version best k [] = Inr best"
| "max_version best k (r # rs) =
     (case version_key (tm_version r) of
        Inl e \<Rightarrow> Inl e
      | Inr k' \<Rightarrow> (if k < k' then max_version r k' rs else max_version best k rs))"

definition latest_version :: "template list \<Rightarrow> string + template option" where
  "latest_version rows =
     (case rows of
        [] \<Rightarrow> Inr None
      | r # rs \<Rightarrow>
          (case version_key (tm_version r) of
             Inl e \<Rightarrow> Inl e
           | Inr k \<Rightarrow> (case max_version r k rs of Inl e \<Rightarrow> Inl e | Inr best \<Rightarrow> Inr (Some best))))"

definition versions_of :: "string \<Rightarrow> string \<Rightarrow> template_db \<Rightarrow> template list" where
  "versions_of template_key tenant_id db =
     filter (\<lambda>r. tm_key r = template_key \<and> tm_tenant r = tenant_id) (tb_rows db)"

definition next_version :: "string \<Rightarrow> string \<Rightarrow> template_db \<Rightarrow> string + string" where
  "next_version template_key tenant_id db =
     (case latest_version (versions_of template_key tenant_id db) of
        Inl e \<Rightarrow> Inl e
      | Inr None \<Rightarrow> Inr ''V1''
      | Inr (Some latest) \<Rightarrow>
          (case version_key (tm_version latest) of
             Inr (Numbered n) \<Rightarrow>
               (if 4300 < length (nat_str (n + 1)) then Inl ''ValueError'' else Inr (CHR ''V'' # nat_str (n + 1)))
           | _ \<Rightarrow> Inr ''V1''))"

definition TEMPLATE_NAME_MAX_LENGTH :: nat where "TEMPLATE_NAME_MAX_LENGTH = 100"

definition name_char :: "char \<Rightarrow> bool" where
  "name_char c \<longleftrightarrow> is_alpha c \<or> is_digit c \<or> c \<in> {CHR '' '', CHR ''_'', CHR ''-''}"

definition validate_template_name :: "pyval \<Rightarrow> call_failure option" where
  "validate_template_name name =
     (case (if truthy name then str_of name else Some []) of
        None \<Rightarrow> Some (Raised ''AttributeError'')
      | Some text \<Rightarrow>
          (let stripped = strip text in
           if TEMPLATE_NAME_MAX_LENGTH < length stripped
           then Some (api_failure ''template_name_too_long'' ''Template name must be 100 characters or fewer.'' 400)
           else if stripped = [] \<or> \<not> list_all name_char stripped
           then Some (api_failure ''template_name_invalid_chars''
                  ''Template name may only contain letters, numbers, spaces, hyphens and underscores.'' 400)
           else None))"

subsection \<open>Rows\<close>

definition same_version :: "template \<Rightarrow> template \<Rightarrow> bool" where
  "same_version t r \<longleftrightarrow> tm_tenant r = tm_tenant t \<and> tm_key r = tm_key t \<and> tm_version r = tm_version t"

definition conflict :: call_failure where
  "conflict = api_failure ''template_conflict'' ''A template with this key and version already exists for this tenant.'' 409"

text \<open>Adding a row and flushing: the database's answer, \<open>None\<close> for the uniqueness constraint.\<close>

definition insert_template :: "template_env \<Rightarrow> template \<Rightarrow> template_db \<Rightarrow> (db_refusal option + template) \<times> template_db" where
  "insert_template env t db =
     (let row = t\<lparr>tm_id := tb_seq db + 1, tm_created_at := tx_now env, tm_updated_at := tx_now env\<rparr> in
      if list_ex (same_version row) (tb_rows db) then (Inl None, db)
      else case tx_refuses env row of
        Some r \<Rightarrow> (Inl (Some r), db)
      | None \<Rightarrow> (Inr row, db\<lparr>tb_rows := tb_rows db @ [row], tb_seq := tb_seq db + 1\<rparr>))"

text \<open>Flushing a changed row; a row that did not change is not written.\<close>

definition flush_template :: "template_env \<Rightarrow> template \<Rightarrow> template \<Rightarrow> template_db \<Rightarrow> (db_refusal + template) \<times> template_db" where
  "flush_template env old t db =
     (if t = old then (Inr t, db)
      else let row = t\<lparr>tm_updated_at := tx_now env\<rparr> in
        case tx_refuses env row of
          Some r \<Rightarrow> (Inl r, db)
        | None \<Rightarrow> (Inr row, db\<lparr>tb_rows := update_where (\<lambda>r. tm_id r = tm_id t) (\<lambda>_. row) (tb_rows db)\<rparr>))"

fun refusal_text :: "db_refusal \<Rightarrow> string" where
  "refusal_text (Integrity m) = ''IntegrityError'' @ m"
| "refusal_text (Other_refusal m) = m"

definition flushed :: "template_env \<Rightarrow> template \<Rightarrow> template \<Rightarrow> template_db \<Rightarrow> (call_failure + template) \<times> template_db" where
  "flushed env old t db =
     (case flush_template env old t db of
        (Inl r, db') \<Rightarrow> (Inl (Raised (refusal_text r)), db')
      | (Inr t', db') \<Rightarrow> (Inr t', db'))"

definition get_template_by_id :: "web \<Rightarrow> int \<Rightarrow> actor option \<Rightarrow> bool \<Rightarrow> template_db \<Rightarrow> template option" where
  "get_template_by_id w template_id user include_deleted db =
     (case find (\<lambda>r. tm_id r = template_id \<and> (include_deleted \<or> \<not> tm_deleted r)) (tb_rows db) of
        None \<Rightarrow> None
      | Some t \<Rightarrow> (if can_view w t user then Some t else None))"

subsection \<open>Creation\<close>

record template_metadata =
  md_template_key :: "string option"
  md_name :: "string option"
  md_description :: pyval
  md_category :: pyval
  md_tags :: pyval
  md_visibility :: pyval
  md_status :: pyval
  md_is_published :: bool
  md_version :: "string option"

definition SUPER_ADMIN_READ_ONLY :: call_failure where
  "SUPER_ADMIN_READ_ONLY = api_failure ''forbidden'' ''Super-admin is read-only across tenants.'' 403"

fun store_all :: "store_env \<Rightarrow> string \<Rightarrow> string \<Rightarrow> string \<Rightarrow> (string \<times> string) list \<Rightarrow> store \<Rightarrow>
    (api_error + file_entry list) \<times> store" where
  "store_all se tenant key version [] st = (Inr [], st)"
| "store_all se tenant key version ((name, content) # files) st =
     (case store_file se tenant key version name content st of
        (Inl e, st1) \<Rightarrow> (Inl e, st1)
      | (Inr _, st1) \<Rightarrow>
          (case store_all se tenant key version files st1 of
             (Inl e, st2) \<Rightarrow> (Inl e, st2)
           | (Inr entries, st2) \<Rightarrow>
               (Inr (\<lparr>fe_type = Some (file_type_from_filename name), fe_name = Some name\<rparr> # entries), st2)))"

definition version_for_creation :: "template_metadata \<Rightarrow> string \<Rightarrow> string \<Rightarrow> string \<Rightarrow> template_db \<Rightarrow> call_failure + string" where
  "version_for_creation md key name tenant db =
     (if truthy_str (md_version md) then Inr (or_default (md_version md) [])
      else if list_ex (\<lambda>r. tm_key r = key \<and> tm_tenant r = tenant \<and> \<not> tm_deleted r) (tb_rows db)
      then Inl (api_failure ''template_name_exists''
             (''A template named '' @ [CHR 0x27] @ name @ [CHR 0x27] @ '' already exists. Please choose a different name.'') 409)
      else case next_version key tenant db of Inl e \<Rightarrow> Inl (Raised e) | Inr v \<Rightarrow> Inr v)"

definition create_template_with_files ::
  "web \<Rightarrow> template_env \<Rightarrow> template_metadata \<Rightarrow> (string \<times> string) list \<Rightarrow> actor option \<Rightarrow> string option \<Rightarrow>
   template_db \<Rightarrow> (call_failure + template) \<times> template_db" where
  "create_template_with_files w env md files user tenant_id db =
     (if user = None
      then (Inl (api_failure ''unauthorized'' ''User must be authenticated to create templates'' 403), db)
      else if is_super_admin_request (wb_rs w) then (Inl SUPER_ADMIN_READ_ONLY, db)
      else case or_str tenant_id (g_tenant w) of
        None \<Rightarrow> (Inl (api_failure ''tenant_required'' ''Tenant context required'' 400), db)
      | Some tenant \<Rightarrow>
          (if \<not> truthy_str (md_template_key md) \<or> \<not> truthy_str (md_name md)
           then (Inl (api_failure ''missing_fields'' ''template_key and name are required'' 400), db)
           else let key = or_default (md_template_key md) []; name = or_default (md_name md) [] in
             case validate_template_name (PStr name) of
               Some e \<Rightarrow> (Inl e, db)
             | None \<Rightarrow>
                 (case version_for_creation md key name tenant db of
                    Inl e \<Rightarrow> (Inl e, db)
                  | Inr version \<Rightarrow>
                      (if \<not> list_ex (\<lambda>(name, _). file_type_from_filename name = ''bpmn'') files
                       then (Inl (api_failure ''missing_fields'' ''At least one BPMN file is required'' 400), db)
                       else case store_all (tx_files env) tenant key version files (tb_store db) of
                         (Inl e, st) \<Rightarrow> (Inl (Refused e), db\<lparr>tb_store := st\<rparr>)
                       | (Inr entries, st) \<Rightarrow>
                           (case g_user w of
                              None \<Rightarrow> (Inl (api_failure ''unauthorized'' ''User username not found in request context'' 403),
                                       db\<lparr>tb_store := st\<rparr>)
                            | Some u \<Rightarrow>
                                (case insert_template env
                                   \<lparr>tm_id = 0, tm_key = key, tm_version = version, tm_name = name,
                                    tm_description = md_description md, tm_tags = md_tags md,
                                    tm_category = md_category md, tm_tenant = tenant,
                                    tm_visibility = md_visibility md, tm_files = entries,
                                    tm_published = md_is_published md, tm_status = md_status md,
                                    tm_deleted = False, tm_created_by = ac_username u,
                                    tm_modified_by = ac_username u, tm_created_at = 0, tm_updated_at = 0\<rparr>
                                   (db\<lparr>tb_store := st\<rparr>) of
                                   (Inr t, db') \<Rightarrow> (Inr t, db')
                                 | (Inl None, db') \<Rightarrow> (Inl conflict, db')
                                 | (Inl (Some r), db') \<Rightarrow> (Inl (Raised (refusal_text r)), db')))))))"

definition create_template ::
  "web \<Rightarrow> template_env \<Rightarrow> template_metadata \<Rightarrow> string option \<Rightarrow> actor option \<Rightarrow> string option \<Rightarrow>
   template_db \<Rightarrow> (call_failure + template) \<times> template_db" where
  "create_template w env md bpmn_bytes user tenant_id db =
     (case bpmn_bytes of
        None \<Rightarrow> (Inl (api_failure ''missing_fields'' ''bpmn_content is required'' 400), db)
      | Some content \<Rightarrow> create_template_with_files w env md [(''diagram.bpmn'', content)] user tenant_id db)"

definition import_template_from_zip ::
  "web \<Rightarrow> template_env \<Rightarrow> string \<Rightarrow> template_metadata \<Rightarrow> actor option \<Rightarrow> string option \<Rightarrow>
   template_db \<Rightarrow> (call_failure + template) \<times> template_db" where
  "import_template_from_zip w env zip_bytes md user tenant_id db =
     (if user = None then (Inl (api_failure ''unauthorized'' ''User must be authenticated'' 403), db)
      else if is_super_admin_request (wb_rs w) then (Inl SUPER_ADMIN_READ_ONLY, db)
      else case or_str tenant_id (g_tenant w) of
        None \<Rightarrow> (Inl (api_failure ''tenant_required'' ''Tenant context required'' 400), db)
      | Some tenant \<Rightarrow>
          (if \<not> truthy_str (md_template_key md) \<or> \<not> truthy_str (md_name md)
           then (Inl (api_failure ''missing_fields'' ''template_key and name are required'' 400), db)
           else case (if truthy_str (md_version md) then Inr (or_default (md_version md) [])
                      else next_version (or_default (md_template_key md) []) tenant db) of
             Inl e \<Rightarrow> (Inl (Raised e), db)
           | Inr version \<Rightarrow>
               (case safe_extract_zip (tx_unzip env) zip_bytes of
                  Inl e \<Rightarrow> (Inl e, db)
                | Inr files \<Rightarrow>
                    (if \<not> list_ex (\<lambda>(name, _). file_type_from_filename name = ''bpmn'') files
                     then (Inl (api_failure ''missing_fields'' ''Zip must contain at least one .bpmn file'' 400), db)
                     else create_template_with_files w env (md\<lparr>md_version := Some version\<rparr>) files user tenant_id db))))"

end
