(* ===== verification/Template_Edits.thy ===== *)
theory Template_Edits
  imports Templates
begin

text \<open>
  Editing templates (services/template_service.py): the draft on which the edits of a published
  version collect, updates, files, deletion and restoration, the listing, and the routes that load a
  template before they edit it (routes/templates_controller.py).
\<close>

subsection \<open>The draft of a published version\<close>

definition newest :: "template list \<Rightarrow> template option" where
  "newest rows = fold (\<lambda>r best. case best of None \<Rightarrow> Some r
                        | Some b \<Rightarrow> if tm_id b < tm_id r then Some r else Some b) rows None"

definition existing_draft :: "template \<Rightarrow> template_db \<Rightarrow> template option" where
  "existing_draft published db =
     newest (filter (\<lambda>r. tm_key r = tm_key published \<and> tm_tenant r = tm_tenant published \<and>
                      \<not> tm_published r \<and> \<not> tm_deleted r) (tb_rows db))"

fun copy_files :: "store_env \<Rightarrow> string \<Rightarrow> string \<Rightarrow> string \<Rightarrow> string \<Rightarrow> file_entry list \<Rightarrow> store \<Rightarrow>
    file_entry list \<times> store" where
  "copy_files se tenant key old_version version [] st = ([], st)"
| "copy_files se tenant key old_version version (entry # entries) st =
     (let fname = or_default (fe_name entry) [] in
      if fname = [] then copy_files se tenant key old_version version entries st
      else case get_file se tenant key old_version fname st of
        Inl e \<Rightarrow> copy_files se tenant key old_version version entries st
      | Inr content \<Rightarrow>
          (case store_file se tenant key version fname content st of
             (Inl e, st1) \<Rightarrow> copy_files se tenant key old_version version entries st1
           | (Inr _, st1) \<Rightarrow>
               (case copy_files se tenant key old_version version entries st1 of
                  (copied, st2) \<Rightarrow>
                    (\<lparr>fe_type = Some (or_default (fe_type entry) (file_type_from_filename fname)),
                      fe_name = Some fname\<rparr> # copied, st2))))"

definition get_or_create_draft_version ::
  "web \<Rightarrow> template_env \<Rightarrow> template \<Rightarrow> template_db \<Rightarrow> (call_failure + template) \<times> template_db" where
  "get_or_create_draft_version w env published db =
     (case existing_draft published db of
        Some draft \<Rightarrow> (Inr draft, db)
      | None \<Rightarrow>
          (let tenant = tm_tenant published; key = tm_key published;
               username = (case g_user w of Some u \<Rightarrow> ac_username u | None \<Rightarrow> ''unknown'')
           in case next_version key tenant db of
                Inl e \<Rightarrow> (Inl (Raised e), db)
              | Inr version \<Rightarrow>
                  (case copy_files (tx_files env) tenant key (tm_version published) version
                          (tm_files published) (tb_store db) of
                     (new_files, st) \<Rightarrow>
                       (if new_files = []
                        then (Inl (api_failure ''storage_error'' ''Failed to copy any files for the new template version'' 500),
                              db\<lparr>tb_store := st\<rparr>)
                        else case insert_template env
                          \<lparr>tm_id = 0, tm_key = key, tm_version = version, tm_name = tm_name published,
                           tm_description = tm_description published, tm_tags = tm_tags published,
                           tm_category = tm_category published, tm_tenant = tenant,
                           tm_visibility = tm_visibility published, tm_files = new_files,
                           tm_published = False, tm_status = PStr ''draft'', tm_deleted = False,
                           tm_created_by = username, tm_modified_by = username,
                           tm_created_at = 0, tm_updated_at = 0\<rparr> (db\<lparr>tb_store := st\<rparr>) of
                            (Inr t, db') \<Rightarrow> (Inr t, db')
                          | (Inl None, db') \<Rightarrow> (Inl (Raised ''IntegrityError''), db')
                          | (Inl (Some r), db') \<Rightarrow> (Inl (Raised (refusal_text r)), db')))))"

subsection \<open>Updates\<close>

text \<open>The keys of the \<open>updates\<close> dict that the code reads.\<close>

record template_updates =
  up_name :: "pyval option"
  up_description :: "pyval option"
  up_tags :: "pyval option"
  up_category :: "pyval option"
  up_visibility :: "pyval option"
  up_status :: "pyval option"
  up_files :: "file_entry list option"
  up_is_published :: "pyval option"

definition apply_fields :: "template_updates \<Rightarrow> template \<Rightarrow> template" where
  "apply_fields ups t =
     t\<lparr>tm_name := (case up_name ups of Some (PStr n) \<Rightarrow> n | _ \<Rightarrow> tm_name t),
       tm_description := or_default (up_description ups) (tm_description t),
       tm_tags := or_default (up_tags ups) (tm_tags t),
       tm_category := or_default (up_category ups) (tm_category t),
       tm_visibility := or_default (up_visibility ups) (tm_visibility t)\<rparr>"

definition apply_status :: "template_updates \<Rightarrow> template \<Rightarrow> template" where
  "apply_status ups t = t\<lparr>tm_status := or_default (up_status ups) (tm_status t)\<rparr>"

definition apply_files :: "template_updates \<Rightarrow> template \<Rightarrow> template" where
  "apply_files ups t = t\<lparr>tm_files := or_default (up_files ups) (tm_files t)\<rparr>"

definition updated_name_error :: "template_updates \<Rightarrow> call_failure option" where
  "updated_name_error ups = (case up_name ups of None \<Rightarrow> None | Some n \<Rightarrow> validate_template_name n)"

text \<open>\<open>update_template\<close>: one version, by key.\<close>

definition get_template :: "web \<Rightarrow> string \<Rightarrow> string option \<Rightarrow> actor option \<Rightarrow> bool \<Rightarrow> string option \<Rightarrow> bool \<Rightarrow>
    template_db \<Rightarrow> string + template option" where
  "get_template w template_key version user suppress_visibility tenant_id include_deleted db =
     (let tenant = or_str tenant_id (g_tenant w);
          rows = filter (\<lambda>r. tm_key r = template_key \<and>
                   (truthy_str tenant \<longrightarrow> tenant = Some (tm_tenant r)) \<and>
                   (include_deleted \<or> \<not> tm_deleted r) \<and>
                   (suppress_visibility \<or> visible_in_queries w user r)) (tb_rows db)
      in if truthy_str version then Inr (find (\<lambda>r. Some (tm_version r) = version) rows)
         else latest_version rows)"

definition update_template :: "web \<Rightarrow> template_env \<Rightarrow> string \<Rightarrow> string \<Rightarrow> template_updates \<Rightarrow> actor option \<Rightarrow>
    template_db \<Rightarrow> (call_failure + template) \<times> template_db" where
  "update_template w env template_key version ups user db =
     (if is_super_admin_request (wb_rs w) then (Inl SUPER_ADMIN_READ_ONLY, db)
      else case get_template w template_key (Some version) user False None False db of
        Inl e \<Rightarrow> (Inl (Raised e), db)
      | Inr None \<Rightarrow> (Inl (api_failure ''not_found'' ''Template version not found'' 404), db)
      | Inr (Some t) \<Rightarrow>
          (if tm_published t
           then (Inl (api_failure ''immutable'' ''Published template versions cannot be updated'' 400), db)
           else if \<not> can_edit w t user
           then (Inl (api_failure ''forbidden'' ''You cannot edit this template'' 403), db)
           else case updated_name_error ups of
             Some e \<Rightarrow> (Inl e, db)
           | None \<Rightarrow>
               flushed env t
                 ((apply_files ups (apply_status ups (apply_fields ups t)))
                    \<lparr>tm_modified_by := (case g_user w of Some u \<Rightarrow> ac_username u | None \<Rightarrow> tm_modified_by t)\<rparr>) db))"

definition is_bpmn_entry :: "file_entry \<Rightarrow> bool" where
  "is_bpmn_entry e \<longleftrightarrow> fe_type e = Some ''bpmn''"

text \<open>New BPMN content for a version: the named file, or its first BPMN file; the entry list after.\<close>

definition put_bpmn :: "store_env \<Rightarrow> template \<Rightarrow> string option \<Rightarrow> string \<Rightarrow> store \<Rightarrow>
    (api_error + file_entry list) \<times> store" where
  "put_bpmn se t bpmn_file_name content st =
     (let put = (\<lambda>name. store_file se (tm_tenant t) (tm_key t) (tm_version t) name content st);
          added = (\<lambda>name. tm_files t @ [\<lparr>fe_type = Some ''bpmn'', fe_name = Some name\<rparr>]);
          finish = (\<lambda>files r. case r of (Inl e, st') \<Rightarrow> (Inl e, st') | (Inr _, st') \<Rightarrow> (Inr files, st'))
      in if truthy_str bpmn_file_name
         then let name = or_default bpmn_file_name [] in
              finish (if list_ex (\<lambda>e. fe_name e = Some name \<and> is_bpmn_entry e) (tm_files t)
                      then tm_files t else added name) (put name)
         else case find is_bpmn_entry (tm_files t) of
           Some e \<Rightarrow> finish (tm_files t) (put (or_default (fe_name e) ''diagram.bpmn''))
         | None \<Rightarrow> finish (added ''diagram.bpmn'') (put ''diagram.bpmn''))"

definition put_optional_bpmn :: "store_env \<Rightarrow> template \<Rightarrow> string option \<Rightarrow> string option \<Rightarrow> store \<Rightarrow>
    (api_error + file_entry list) \<times> store" where
  "put_optional_bpmn se t bpmn_file_name bpmn_bytes st =
     (case bpmn_bytes of
        None \<Rightarrow> (Inr (tm_files t), st)
      | Some content \<Rightarrow> put_bpmn se t bpmn_file_name content st)"

definition publish_if :: "template_updates \<Rightarrow> template \<Rightarrow> template" where
  "publish_if ups t =
     (if up_is_published ups = Some (PBool True)
      then t\<lparr>tm_published := True, tm_status := PStr ''published''\<rparr> else t)"

definition update_template_by_id ::
  "web \<Rightarrow> template_env \<Rightarrow> int \<Rightarrow> template_updates \<Rightarrow> string option \<Rightarrow> string option \<Rightarrow> actor option \<Rightarrow>
   template_db \<Rightarrow> (call_failure + template) \<times> template_db" where
  "update_template_by_id w env template_id ups bpmn_bytes bpmn_file_name user db =
     (if is_super_admin_request (wb_rs w) then (Inl SUPER_ADMIN_READ_ONLY, db)
      else case get_template_by_id w template_id user False db of
        None \<Rightarrow> (Inl (api_failure ''not_found'' ''Template not found'' 404), db)
      | Some t \<Rightarrow>
          (if \<not> can_edit w t user
           then (Inl (api_failure ''forbidden'' ''You cannot edit this template'' 403), db)
           else case updated_name_error ups of
             Some e \<Rightarrow> (Inl e, db)
           | None \<Rightarrow> (case g_user w of
               None \<Rightarrow> (Inl (api_failure ''unauthorized'' ''User username not found in request context'' 403), db)
             | Some u \<Rightarrow>
                 (if \<not> tm_published t
                  then case put_optional_bpmn (tx_files env) t bpmn_file_name bpmn_bytes (tb_store db) of
                    (Inl e, st) \<Rightarrow> (Inl (Refused e), db\<lparr>tb_store := st\<rparr>)
                  | (Inr files, st) \<Rightarrow>
                      flushed env t
                        ((apply_status ups (apply_fields ups (publish_if ups t)))
                           \<lparr>tm_files := files, tm_modified_by := ac_username u\<rparr>) (db\<lparr>tb_store := st\<rparr>)
                  else case get_or_create_draft_version w env t db of
                    (Inl e, db1) \<Rightarrow> (Inl e, db1)
                  | (Inr draft, db1) \<Rightarrow>
                      (case put_optional_bpmn (tx_files env) draft bpmn_file_name bpmn_bytes (tb_store db1) of
                         (Inl e, st) \<Rightarrow> (Inl (Refused e), db1\<lparr>tb_store := st\<rparr>)
                       | (Inr files, st) \<Rightarrow>
                           (case flush_template env draft
                               ((apply_fields ups draft)\<lparr>tm_files := files, tm_modified_by := ac_username u\<rparr>)
                               (db1\<lparr>tb_store := st\<rparr>) of
                              (Inl (Integrity _), db2) \<Rightarrow> (Inl conflict, db2)
                            | (Inl (Other_refusal m), db2) \<Rightarrow> (Inl (Raised m), db2)
                            | (Inr t', db2) \<Rightarrow> (Inr t', db2)))))))"

subsection \<open>Deletion and restoration\<close>

definition DELETED_MARK :: string where
  "DELETED_MARK = ''_deleted_''"

fun delete_entries :: "store_env \<Rightarrow> template \<Rightarrow> file_entry list \<Rightarrow> store \<Rightarrow> store" where
  "delete_entries se t [] st = st"
| "delete_entries se t (entry # entries) st =
     (let file_name = or_default (fe_name entry) [] in
      delete_entries se t entries
        (if file_name = [] then st
         else snd (delete_file se (tm_tenant t) (tm_key t) (tm_version t) file_name st)))"

definition delete_template_by_id :: "web \<Rightarrow> template_env \<Rightarrow> int \<Rightarrow> actor option \<Rightarrow>
    template_db \<Rightarrow> (call_failure + unit) \<times> template_db" where
  "delete_template_by_id w env template_id user db =
     (if is_super_admin_request (wb_rs w) then (Inl SUPER_ADMIN_READ_ONLY, db)
      else case get_template_by_id w template_id user True db of
        None \<Rightarrow> (Inl (api_failure ''not_found'' ''Template not found'' 404), db)
      | Some t \<Rightarrow>
          (if tm_deleted t then (Inl (api_failure ''not_found'' ''Template not found'' 404), db)
           else if tm_published t
           then (if \<not> has_admin_permission w user ''delete''
                 then (Inl (api_failure ''forbidden'' ''Insufficient permissions to delete published templates'' 403), db)
                 else case flushed env t
                     (t\<lparr>tm_name := (if tm_name t = [] then ''template'' else tm_name t) @ DELETED_MARK @ tx_stamp env,
                        tm_deleted := True,
                        tm_modified_by := (case user of Some u \<Rightarrow>
                            (if ac_username u = [] then tm_modified_by t else ac_username u)
                          | None \<Rightarrow> tm_modified_by t)\<rparr>) db of
                   (Inl e, db') \<Rightarrow> (Inl e, db')
                 | (Inr _, db') \<Rightarrow> (Inr (), db'))
           else if \<not> (owns user t \<or> has_admin_permission w user ''delete'')
           then (Inl (api_failure ''forbidden'' ''You cannot delete this template'' 403), db)
           else (Inr (), db\<lparr>tb_store := delete_entries (tx_files env) t (tm_files t) (tb_store db),
                   tb_links := filter (\<lambda>l. pv_template l \<noteq> tm_id t) (tb_links db),
                   tb_rows := filter (\<lambda>r. tm_id r \<noteq> tm_id t) (tb_rows db)\<rparr>)))"

text \<open>\<open>re.match(r"^(?P<base>.*)_deleted_\d{14}$", name)\<close>.\<close>

definition deleted_base :: "string \<Rightarrow> string option" where
  "deleted_base name =
     (let n = (if name \<noteq> [] \<and> last name = CHR 0x0A then butlast name else name);
          base = take (length n - 23) n; tl = drop (length n - 23) n
      in if 23 \<le> length n \<and> startswith tl DELETED_MARK \<and> list_all is_digit (drop 9 tl) \<and> CHR 0x0A \<notin> set base
         then Some base else None)"

definition restored_name :: "string \<Rightarrow> string" where
  "restored_name name =
     (case deleted_base name of
        None \<Rightarrow> name
      | Some base \<Rightarrow> (if strip base = [] then name else strip base))"

definition restore_template_by_id :: "web \<Rightarrow> template_env \<Rightarrow> int \<Rightarrow> actor option \<Rightarrow>
    template_db \<Rightarrow> (call_failure + template) \<times> template_db" where
  "restore_template_by_id w env template_id user db =
     (case get_template_by_id w template_id user True db of
        None \<Rightarrow> (Inl (api_failure ''not_found'' ''Template not found'' 404), db)
      | Some t \<Rightarrow>
          (if \<not> tm_deleted t then (Inl (api_failure ''invalid_state'' ''Template is not deleted'' 400), db)
           else if \<not> has_admin_permission w user ''update''
           then (Inl (api_failure ''forbidden'' ''Insufficient permissions to restore templates'' 403), db)
           else flushed env t
             (t\<lparr>tm_name := restored_name (tm_name t), tm_deleted := False,
                tm_modified_by := (case user of Some u \<Rightarrow>
                    (if ac_username u = [] then tm_modified_by t else ac_username u)
                  | None \<Rightarrow> tm_modified_by t)\<rparr>) db))"

subsection \<open>Files\<close>

definition get_file_content :: "template_env \<Rightarrow> template \<Rightarrow> string \<Rightarrow> template_db \<Rightarrow> api_error + string" where
  "get_file_content env t file_name db =
     get_file (tx_files env) (tm_tenant t) (tm_key t) (tm_version t) file_name (tb_store db)"

fun first_readable :: "template_env \<Rightarrow> template \<Rightarrow> template_db \<Rightarrow> file_entry list \<Rightarrow> string option" where
  "first_readable env t db [] = None"
| "first_readable env t db (e # es) =
     (if is_bpmn_entry e \<and> truthy_str (fe_name e)
      then case get_file_content env t (or_default (fe_name e) []) db of
        Inr content \<Rightarrow> Some content
      | Inl _ \<Rightarrow> first_readable env t db es
      else first_readable env t db es)"

definition get_first_bpmn_content :: "template_env \<Rightarrow> template \<Rightarrow> template_db \<Rightarrow> string option" where
  "get_first_bpmn_content env t db = first_readable env t db (tm_files t)"

definition named :: "string \<Rightarrow> file_entry \<Rightarrow> bool" where
  "named file_name e \<longleftrightarrow> fe_name e = Some file_name"

definition update_file_content :: "web \<Rightarrow> template_env \<Rightarrow> template \<Rightarrow> string \<Rightarrow> string \<Rightarrow> actor option \<Rightarrow>
    template_db \<Rightarrow> (call_failure + template) \<times> template_db" where
  "update_file_content w env t file_name content user db =
     (if is_super_admin_request (wb_rs w) then (Inl SUPER_ADMIN_READ_ONLY, db)
      else case find (named file_name) (tm_files t) of
        None \<Rightarrow> (Inl (api_failure ''not_found'' (''File not found: '' @ file_name) 404), db)
      | Some found \<Rightarrow>
          (case (if tm_published t then get_or_create_draft_version w env t db else (Inr t, db)) of
             (Inl e, db1) \<Rightarrow> (Inl e, db1)
           | (Inr target, db1) \<Rightarrow>
               (case store_file (tx_files env) (tm_tenant target) (tm_key target) (tm_version target)
                       file_name content (tb_store db1) of
                  (Inl e, st) \<Rightarrow> (Inl (Refused e), db1\<lparr>tb_store := st\<rparr>)
                | (Inr _, st) \<Rightarrow> (Inr target, db1\<lparr>tb_store := st\<rparr>))))"

definition delete_file_from_template :: "web \<Rightarrow> template_env \<Rightarrow> template \<Rightarrow> string \<Rightarrow> actor option \<Rightarrow>
    template_db \<Rightarrow> (call_failure + template) \<times> template_db" where
  "delete_file_from_template w env t file_name user db =
     (let without = filter (\<lambda>e. \<not> named file_name e) in
      if is_super_admin_request (wb_rs w) then (Inl SUPER_ADMIN_READ_ONLY, db)
      else if tm_files t = [] then (Inl (api_failure ''not_found'' ''Template has no files'' 404), db)
      else if \<not> list_ex (named file_name) (tm_files t)
      then (Inl (api_failure ''not_found'' (''File not found: '' @ file_name) 404), db)
      else if without (tm_files t) = []
      then (Inl (api_failure ''forbidden'' ''Cannot delete the last file from a template'' 403), db)
      else if \<not> list_ex is_bpmn_entry (without (tm_files t))
      then (Inl (api_failure ''forbidden'' ''Template must have at least one BPMN file'' 403), db)
      else case (if tm_published t then get_or_create_draft_version w env t db else (Inr t, db)) of
        (Inl e, db1) \<Rightarrow> (Inl e, db1)
      | (Inr target, db1) \<Rightarrow>
          (case flushed env target
              (target\<lparr>tm_files := without (tm_files target),
                 tm_modified_by := (case user of Some u \<Rightarrow> ac_username u | None \<Rightarrow> tm_modified_by target)\<rparr>) db1 of
             (Inl e, db2) \<Rightarrow> (Inl e, db2)
           | (Inr t', db2) \<Rightarrow>
               (Inr t', db2\<lparr>tb_store := snd (delete_file (tx_files env) (tm_tenant t') (tm_key t')
                                              (tm_version t') file_name (tb_store db2))\<rparr>)))"

definition export_template_zip :: "web \<Rightarrow> template_env \<Rightarrow> int \<Rightarrow> actor option \<Rightarrow> template_db \<Rightarrow>
    call_failure + ((string \<times> string) list \<times> string)" where
  "export_template_zip w env template_id user db =
     (case get_template_by_id w template_id user False db of
        None \<Rightarrow> Inl (api_failure ''not_found'' ''Template not found'' 404)
      | Some t \<Rightarrow>
          (if tm_files t = [] then Inl (api_failure ''not_found'' ''Template has no files to export'' 404)
           else Inr (stream_zip (tx_files env) (tm_tenant t) (tm_key t) (tm_version t) (tb_store db)
                       (map fe_name (tm_files t)),
                     ''template-'' @ tm_key t @ ''-'' @ tm_version t @ ''.zip'')))"

subsection \<open>Requests\<close>

text \<open>The end of a request: after an error the session is rolled back, the files stay as they are.\<close>

definition at_request_end :: "template_db \<Rightarrow> (call_failure + 'a) \<times> template_db \<Rightarrow> (call_failure + 'a) \<times> template_db" where
  "at_request_end before p =
     (case p of
        (Inl e, after) \<Rightarrow> (Inl e, before\<lparr>tb_store := tb_store after\<rparr>)
      | (Inr v, after) \<Rightarrow> (Inr v, after))"

definition template_put_file :: "web \<Rightarrow> template_env \<Rightarrow> int \<Rightarrow> string \<Rightarrow> string \<Rightarrow>
    template_db \<Rightarrow> (call_failure + template) \<times> template_db" where
  "template_put_file w env i file_name content db =
     at_request_end db
       (case get_template_by_id w i (g_user w) False db of
          None \<Rightarrow> (Inl (api_failure ''not_found'' ''Template not found'' 404), db)
        | Some t \<Rightarrow>
            (if content = [] then (Inl (api_failure ''missing_content'' ''Request body is required'' 400), db)
             else update_file_content w env t file_name content (g_user w) db))"

definition template_delete_file :: "web \<Rightarrow> template_env \<Rightarrow> int \<Rightarrow> string \<Rightarrow>
    template_db \<Rightarrow> (call_failure + template) \<times> template_db" where
  "template_delete_file w env i file_name db =
     at_request_end db
       (case get_template_by_id w i (g_user w) False db of
          None \<Rightarrow> (Inl (api_failure ''not_found'' ''Template not found'' 404), db)
        | Some t \<Rightarrow> delete_file_from_template w env t file_name (g_user w) db)"

definition template_get_file :: "web \<Rightarrow> template_env \<Rightarrow> int \<Rightarrow> string \<Rightarrow> template_db \<Rightarrow> call_failure + string" where
  "template_get_file w env i file_name db =
     (case get_template_by_id w i (g_user w) True db of
        None \<Rightarrow> Inl (api_failure ''not_found'' ''Template not found'' 404)
      | Some t \<Rightarrow>
          (if \<not> list_ex (named file_name) (tm_files t)
           then Inl (api_failure ''not_found'' (''File not found: '' @ file_name) 404)
           else case get_file_content env t file_name db of
             Inl _ \<Rightarrow> Inl (api_failure ''not_found'' (''File not found: '' @ file_name) 404)
           | Inr content \<Rightarrow> Inr content))"

definition template_update_by_id :: "web \<Rightarrow> template_env \<Rightarrow> int \<Rightarrow> template_updates \<Rightarrow> string option \<Rightarrow> string option \<Rightarrow>
    template_db \<Rightarrow> (call_failure + template) \<times> template_db" where
  "template_update_by_id w env i ups bpmn_bytes bpmn_file_name db =
     at_request_end db (update_template_by_id w env i ups bpmn_bytes bpmn_file_name (g_user w) db)"

definition template_create :: "web \<Rightarrow> template_env \<Rightarrow> template_metadata \<Rightarrow> (string \<times> string) list \<Rightarrow>
    template_db \<Rightarrow> (call_failure + template) \<times> template_db" where
  "template_create w env md files db =
     at_request_end db
       (if \<not> truthy_str (md_template_key md) \<or> \<not> truthy_str (md_name md)
        then (Inl (api_failure ''missing_fields'' ''X-Template-Key and X-Template-Name headers are required'' 400), db)
        else let files_list = filter (\<lambda>(name, content). name \<noteq> [] \<and> content \<noteq> []) files in
          if files_list = [] then (Inl (api_failure ''missing_content'' ''At least one file is required'' 400), db)
          else create_template_with_files w env md files_list (g_user w) (g_tenant w) db)"

definition template_import :: "web \<Rightarrow> template_env \<Rightarrow> string \<Rightarrow> template_metadata \<Rightarrow>
    template_db \<Rightarrow> (call_failure + template) \<times> template_db" where
  "template_import w env zip_bytes md db =
     at_request_end db
       (if zip_bytes = [] then (Inl (api_failure ''missing_content'' ''Zip file content is required'' 400), db)
        else import_template_from_zip w env zip_bytes md (g_user w) (g_tenant w) db)"

definition template_delete_by_id :: "web \<Rightarrow> template_env \<Rightarrow> int \<Rightarrow> template_db \<Rightarrow> (call_failure + unit) \<times> template_db" where
  "template_delete_by_id w env i db = at_request_end db (delete_template_by_id w env i (g_user w) db)"

definition template_restore_by_id :: "web \<Rightarrow> template_env \<Rightarrow> int \<Rightarrow> template_db \<Rightarrow> (call_failure + template) \<times> template_db" where
  "template_restore_by_id w env i db = at_request_end db (restore_template_by_id w env i (g_user w) db)"

end
