(* ===== verification/Template_Listing.thy ===== *)
theory Template_Listing
  imports Templates
begin

text \<open>
  The template listing (\<open>TemplateService.list_templates\<close>): visibility, tenant scope, filters, the latest
  version per key, order and pages. The database's \<open>ILIKE\<close> is an argument.
\<close>

record template_filter =
  lf_tenant :: "string option"
  lf_latest_only :: bool
  lf_category :: "string option"
  lf_tag :: "string option"
  lf_owner :: "string option"
  lf_visibility :: "string option"
  lf_search :: "string option"
  lf_template_key :: "string option"
  lf_published_only :: bool
  lf_include_deleted :: bool
  lf_deleted_only :: bool
  lf_sort_by :: "string option"
  lf_order :: string
  lf_page :: int
  lf_per_page :: int

definition deletion_selected :: "template_filter \<Rightarrow> template \<Rightarrow> bool" where
  "deletion_selected f t \<longleftrightarrow>
     (if lf_deleted_only f then tm_deleted t else lf_include_deleted f \<or> \<not> tm_deleted t)"

definition tenant_scope :: "web \<Rightarrow> actor option \<Rightarrow> string option \<Rightarrow> template_filter \<Rightarrow> template \<Rightarrow> bool" where
  "tenant_scope w user tenant_id f t \<longleftrightarrow>
     (let tenant = or_str tenant_id (g_tenant w); super = super_admin_caller w user in
      (truthy_str tenant \<and> \<not> super \<longrightarrow> Some (tm_tenant t) = tenant \<or> is_public t) \<and>
      (super \<and> truthy_str (lf_tenant f) \<longrightarrow> Some (tm_tenant t) = lf_tenant f \<or> is_public t))"

definition wanted_text :: "string option \<Rightarrow> pyval \<Rightarrow> bool" where
  "wanted_text filter_value cell \<longleftrightarrow>
     (truthy_str filter_value \<longrightarrow> cell = PStr (or_default filter_value []))"

definition search_hit :: "template_env \<Rightarrow> template_filter \<Rightarrow> template \<Rightarrow> bool" where
  "search_hit env f t \<longleftrightarrow>
     (truthy_str (lf_search f) \<longrightarrow>
      (let pattern = ''%'' @ or_default (lf_search f) [] @ ''%'' in
       tx_ilike env pattern (tm_name t) \<or>
       (case str_of (tm_description t) of None \<Rightarrow> False | Some d \<Rightarrow> tx_ilike env pattern d)))"

definition column_filters :: "template_env \<Rightarrow> template_filter \<Rightarrow> template \<Rightarrow> bool" where
  "column_filters env f t \<longleftrightarrow>
     wanted_text (lf_category f) (tm_category t) \<and> wanted_text (lf_owner f) (PStr (tm_created_by t)) \<and>
     wanted_text (lf_visibility f) (tm_visibility t) \<and> wanted_text (lf_template_key f) (PStr (tm_key t)) \<and>
     (lf_published_only f \<longrightarrow> tm_published t) \<and> search_hit env f t"

definition wanted_tags :: "template_filter \<Rightarrow> string list" where
  "wanted_tags f =
     (if truthy_str (lf_tag f)
      then filter (\<lambda>t. t \<noteq> []) (map strip (split_on (CHR '','') (or_default (lf_tag f) []))) else [])"

definition tag_hit :: "template_filter \<Rightarrow> template \<Rightarrow> bool" where
  "tag_hit f t \<longleftrightarrow>
     wanted_tags f \<noteq> [] \<longrightarrow>
     (case tm_tags t of
        PList tags \<Rightarrow> list_ex (\<lambda>w. PStr w \<in> set tags) (wanted_tags f)
      | PStr text \<Rightarrow> text \<noteq> [] \<and> list_ex (\<lambda>w. substr_in w text) (wanted_tags f)
      | _ \<Rightarrow> False)"

definition selected_templates :: "web \<Rightarrow> template_env \<Rightarrow> actor option \<Rightarrow> string option \<Rightarrow> template_filter \<Rightarrow>
    template_db \<Rightarrow> template list" where
  "selected_templates w env user tenant_id f db =
     filter (\<lambda>t. visible_in_queries w user t \<and> deletion_selected f t \<and> tenant_scope w user tenant_id f t \<and>
              column_filters env f t \<and> tag_hit f t) (tb_rows db)"

text \<open>\<open>latest_per_tenant_key\<close>: a dict in the order in which its keys were first met.\<close>

definition same_key :: "template \<Rightarrow> template \<Rightarrow> bool" where
  "same_key t r \<longleftrightarrow> tm_tenant r = tm_tenant t \<and> tm_key r = tm_key t"

fun put_latest :: "template \<Rightarrow> template list \<Rightarrow> string + template list" where
  "put_latest row [] = Inr [row]"
| "put_latest row (current # rest) =
     (if same_key row current
      then case version_key (tm_version row) of
        Inl e \<Rightarrow> Inl e
      | Inr k \<Rightarrow> (case version_key (tm_version current) of
          Inl e \<Rightarrow> Inl e
        | Inr k' \<Rightarrow> Inr ((if k' < k then row else current) # rest))
      else case put_latest row rest of Inl e \<Rightarrow> Inl e | Inr rest' \<Rightarrow> Inr (current # rest'))"

fun latest_per_key :: "template list \<Rightarrow> template list \<Rightarrow> string + template list" where
  "latest_per_key acc [] = Inr acc"
| "latest_per_key acc (row # rows) =
     (case put_latest row acc of Inl e \<Rightarrow> Inl e | Inr acc' \<Rightarrow> latest_per_key acc' rows)"

definition py_sorted :: "('a \<Rightarrow> 'k::linorder) \<Rightarrow> bool \<Rightarrow> 'a list \<Rightarrow> 'a list" where
  "py_sorted key reversed xs = (if reversed then rev (sort_key key (rev xs)) else sort_key key xs)"

definition ordered_templates :: "template_filter \<Rightarrow> template list \<Rightarrow> template list" where
  "ordered_templates f rows =
     (let reversed = (lower (lf_order f) = ''desc'') in
      if lf_sort_by f = Some ''created'' then py_sorted tm_created_at reversed rows
      else if lf_sort_by f = Some ''name'' then py_sorted (\<lambda>t. py_lower (tm_name t)) reversed rows
      else rows)"

record pagination =
  pg_count :: int
  pg_total :: int
  pg_pages :: int

definition page_size :: "int \<Rightarrow> int" where
  "page_size per_page = max 1 (min per_page 100)"

definition page_count :: "int \<Rightarrow> int \<Rightarrow> int" where
  "page_count size_all per_page = max 1 ((size_all + per_page - 1) div per_page)"

definition page_of :: "int \<Rightarrow> int \<Rightarrow> 'a list \<Rightarrow> 'a list \<times> pagination" where
  "page_of page per_page results =
     (let size_all = int (length results); size = page_size per_page; pages = page_count size_all size;
          p = max 1 (min page pages);
          items = take (nat size) (drop (nat ((p - 1) * size)) results)
      in (items, \<lparr>pg_count = int (length items), pg_total = size_all, pg_pages = pages\<rparr>))"

definition list_templates :: "web \<Rightarrow> template_env \<Rightarrow> actor option \<Rightarrow> string option \<Rightarrow> template_filter \<Rightarrow>
    template_db \<Rightarrow> string + template list \<times> pagination" where
  "list_templates w env user tenant_id f db =
     (let results = selected_templates w env user tenant_id f db in
      case (if lf_latest_only f then latest_per_key [] results else Inr results) of
        Inl e \<Rightarrow> Inl e
      | Inr rows \<Rightarrow> Inr (page_of (lf_page f) (lf_per_page f) (ordered_templates f rows)))"

subsection \<open>Pages\<close>

lemma page_size_pos: "0 < page_size n" by (simp add: page_size_def)

text \<open>The pages of a listing, put together, are the listing.\<close>

lemma pages_tile:
  fixes per_page m :: int
  defines "m \<equiv> page_size per_page"
  shows "concat (map (\<lambda>p. fst (page_of p per_page xs)) [1..page_count (int (length xs)) m]) = xs"
proof -
  let ?pages = "page_count (int (length xs)) m"
  have m: "0 < m" by (simp add: m_def page_size_pos)
  have pages: "1 \<le> ?pages" by (simp add: page_count_def)
  have item: "fst (page_of p per_page xs) = take (nat m) (drop (nat (p - 1) * nat m) xs)"
    if "1 \<le> p" "p \<le> ?pages" for p
    using that m by (simp add: page_of_def Let_def m_def nat_mult_distrib)
  have upto: "[1..?pages] = map (\<lambda>i. int i + 1) [0..<nat ?pages]"
    using pages by (intro nth_equalityI) auto
  have "map (\<lambda>p. fst (page_of p per_page xs)) [1..?pages]
      = map (\<lambda>i. take (nat m) (drop (i * nat m) xs)) [0..<nat ?pages]"
    unfolding upto using item by auto
  moreover have "concat (map (\<lambda>i. take (nat m) (drop (i * nat m) xs)) [0..<nat ?pages])
      = take (nat ?pages * nat m) xs"
    by (rule concat_slices) (use m in simp)
  moreover have "length xs \<le> nat ?pages * nat m"
  proof -
    have "int (length xs) + m - 1 = ((int (length xs) + m - 1) div m) * m + (int (length xs) + m - 1) mod m"
      by simp
    moreover have "(int (length xs) + m - 1) mod m < m" using m by simp
    ultimately have "int (length xs) \<le> ((int (length xs) + m - 1) div m) * m" by linarith
    also have "\<dots> \<le> ?pages * m" using m by (simp add: page_count_def mult_right_mono)
    finally have "int (length xs) \<le> int (nat ?pages * nat m)" using m pages by simp
    then show ?thesis by (simp only: of_nat_le_iff)
  qed
  ultimately show ?thesis by simp
qed

end
