(* ===== verification/Template_Laws.thy ===== *)
theory Template_Laws
  imports Template_Edits Template_Listing
begin

text \<open>
  What the template table promises over every history of requests. The specification is a table of
  versions with four moves: a new version is added, an unpublished one is rewritten or dropped, and a
  published one at most gets another name, deletion flag and editor. Every request of the service is a
  sequence of such moves.
\<close>

subsection \<open>The version table\<close>

type_synonym version_table = "template list \<times> int"

definition table_of :: "template_db \<Rightarrow> version_table" where
  "table_of db = (tb_rows db, tb_seq db)"

definition frozen :: "template \<Rightarrow> template \<Rightarrow> bool" where
  "frozen r r' \<longleftrightarrow> r' = r\<lparr>tm_name := tm_name r', tm_deleted := tm_deleted r', tm_modified_by := tm_modified_by r',
     tm_updated_at := tm_updated_at r'\<rparr>"

lemma frozen_refl: "frozen r r" by (simp add: frozen_def)

lemma frozen_keeps:
  assumes "frozen r r'"
  shows "tm_id r' = tm_id r" "same_version r r'" "tm_published r' = tm_published r" "tm_files r' = tm_files r"
proof -
  obtain n d m u where "r' = r\<lparr>tm_name := n, tm_deleted := d, tm_modified_by := m, tm_updated_at := u\<rparr>"
    using assms by (auto simp: frozen_def)
  then show "tm_id r' = tm_id r" "same_version r r'" "tm_published r' = tm_published r" "tm_files r' = tm_files r"
    by (simp_all add: same_version_def)
qed

lemma frozen_trans:
  assumes "frozen r s" "frozen s t"
  shows "frozen r t"
proof -
  obtain n d m u where s: "s = r\<lparr>tm_name := n, tm_deleted := d, tm_modified_by := m, tm_updated_at := u\<rparr>"
    using assms(1) by (auto simp: frozen_def)
  obtain n' d' m' u' where t: "t = s\<lparr>tm_name := n', tm_deleted := d', tm_modified_by := m', tm_updated_at := u'\<rparr>"
    using assms(2) by (auto simp: frozen_def)
  show ?thesis by (simp add: frozen_def s t)
qed

inductive edit_step :: "version_table \<Rightarrow> version_table \<Rightarrow> bool" where
  adding: "\<forall>r \<in> set rows. \<not> same_version row r \<Longrightarrow> tm_id row = n + 1 \<Longrightarrow> edit_step (rows, n) (rows @ [row], n + 1)"
| rewriting: "old \<in> set rows \<Longrightarrow> \<not> tm_published old \<Longrightarrow> same_version old row \<Longrightarrow> tm_id row = tm_id old \<Longrightarrow>
    edit_step (rows, n) (update_where (\<lambda>r. tm_id r = tm_id old) (\<lambda>_. row) rows, n)"
| marking: "old \<in> set rows \<Longrightarrow> tm_published old \<Longrightarrow> frozen old row \<Longrightarrow>
    edit_step (rows, n) (update_where (\<lambda>r. tm_id r = tm_id old) (\<lambda>_. row) rows, n)"
| dropping: "old \<in> set rows \<Longrightarrow> \<not> tm_published old \<Longrightarrow>
    edit_step (rows, n) (filter (\<lambda>r. tm_id r \<noteq> tm_id old) rows, n)"

inductive_cases edit_stepE: "edit_step v v'"

definition version_id :: "template \<Rightarrow> string \<times> string \<times> string" where
  "version_id r = (tm_tenant r, tm_key r, tm_version r)"

lemma same_version_id: "same_version t r \<longleftrightarrow> version_id r = version_id t"
  by (simp add: same_version_def version_id_def)

definition table_ok :: "version_table \<Rightarrow> bool" where
  "table_ok v \<longleftrightarrow> distinct (map tm_id (fst v)) \<and> distinct (map version_id (fst v)) \<and>
     (\<forall>r \<in> set (fst v). tm_id r \<le> snd v)"

definition published_kept :: "version_table \<Rightarrow> version_table \<Rightarrow> bool" where
  "published_kept v v' \<longleftrightarrow>
     (\<forall>r \<in> set (fst v). tm_published r \<longrightarrow> (\<exists>r' \<in> set (fst v'). frozen r r'))"

lemma replaced_keys:
  assumes "distinct (map tm_id rows)" "old \<in> set rows" "key row = key old"
  shows "map key (update_where (\<lambda>r. tm_id r = tm_id old) (\<lambda>_. row) rows) = map key rows"
  using same_key_same_row [OF assms(1) _ assms(2)] assms(3) by (auto simp: update_where_def)

lemma edit_keeps_table:
  assumes "table_ok v" "edit_step v v'"
  shows "table_ok v'"
  using assms(2,1)
proof (cases rule: edit_step.cases)
  case (adding rows row n)
  then show ?thesis using assms(1)
    by (auto simp: table_ok_def same_version_id image_iff)
next
  case (rewriting old rows row n)
  then have d: "distinct (map tm_id rows)" using assms(1) by (simp add: table_ok_def)
  have "map tm_id (update_where (\<lambda>r. tm_id r = tm_id old) (\<lambda>_. row) rows) = map tm_id rows"
       "map version_id (update_where (\<lambda>r. tm_id r = tm_id old) (\<lambda>_. row) rows) = map version_id rows"
    using rewriting by (auto intro!: replaced_keys [OF d] simp: same_version_id)
  then show ?thesis using rewriting assms(1) by (auto simp: table_ok_def in_update_where)
next
  case (marking old rows row n)
  then have d: "distinct (map tm_id rows)" using assms(1) by (simp add: table_ok_def)
  have "map tm_id (update_where (\<lambda>r. tm_id r = tm_id old) (\<lambda>_. row) rows) = map tm_id rows"
       "map version_id (update_where (\<lambda>r. tm_id r = tm_id old) (\<lambda>_. row) rows) = map version_id rows"
    using frozen_keeps [OF marking(5)] marking(3) by (auto intro!: replaced_keys [OF d] simp: same_version_id)
  then show ?thesis using marking assms(1) frozen_keeps(1) [OF marking(5)] by (auto simp: table_ok_def in_update_where)
next
  case (dropping old rows n)
  then show ?thesis using assms(1) by (auto simp: table_ok_def distinct_map_filter)
qed

lemma edit_keeps_published:
  assumes "table_ok v" "edit_step v v'"
  shows "published_kept v v'"
  using assms(2,1)
proof (cases rule: edit_step.cases)
  case (adding rows row n)
  then show ?thesis by (auto simp: published_kept_def intro: frozen_refl)
next
  case (rewriting old rows row n)
  have "\<exists>r' \<in> set (update_where (\<lambda>r. tm_id r = tm_id old) (\<lambda>_. row) rows). frozen r r'"
    if "r \<in> set rows" "tm_published r" for r
  proof -
    have "distinct (map tm_id rows)" using assms(1) rewriting(1) by (simp add: table_ok_def)
    then have "tm_id r \<noteq> tm_id old" using same_key_same_row that rewriting(3,4) by metis
    then show ?thesis using that(1) by (intro bexI [of _ r]) (auto intro: frozen_refl update_where_miss)
  qed
  with rewriting show ?thesis by (simp add: published_kept_def)
next
  case (marking old rows row n)
  have "\<exists>r' \<in> set (update_where (\<lambda>r. tm_id r = tm_id old) (\<lambda>_. row) rows). frozen r r'"
    if "r \<in> set rows" "tm_published r" for r
  proof (cases "tm_id r = tm_id old")
    case True
    have "distinct (map tm_id rows)" using assms(1) marking(1) by (simp add: table_ok_def)
    then have "r = old" using same_key_same_row that(1) True marking(3) by metis
    then show ?thesis using marking(3,5) by (intro bexI [of _ row]) (auto simp: in_update_where)
  next
    case False
    then show ?thesis using that(1) by (intro bexI [of _ r]) (auto intro: frozen_refl update_where_miss)
  qed
  with marking show ?thesis by (simp add: published_kept_def)
next
  case (dropping old rows n)
  have "tm_id r \<noteq> tm_id old" if "r \<in> set rows" "tm_published r" for r
  proof -
    have "distinct (map tm_id rows)" using assms(1) dropping(1) by (simp add: table_ok_def)
    then show ?thesis using same_key_same_row that dropping(3,4) by metis
  qed
  with dropping show ?thesis by (auto simp: published_kept_def intro: frozen_refl)
qed

lemma published_kept_trans: "published_kept v w \<Longrightarrow> published_kept w x \<Longrightarrow> published_kept v x"
  unfolding published_kept_def using frozen_trans frozen_keeps(3) by metis

lemma published_kept_refl: "published_kept v v"
  by (auto simp: published_kept_def intro: frozen_refl)

interpretation version_history: step_system edit_step table_ok published_kept
  by unfold_locales (fact edit_keeps_table edit_keeps_published published_kept_refl published_kept_trans)+

subsection \<open>Each operation is a sequence of moves\<close>

abbreviation moves :: "template_db \<Rightarrow> template_db \<Rightarrow> bool" where
  "moves db db' \<equiv> edit_step\<^sup>*\<^sup>* (table_of db) (table_of db')"

lemma moves_same: "tb_rows db' = tb_rows db \<Longrightarrow> tb_seq db' = tb_seq db \<Longrightarrow> moves db db'"
  by (simp add: table_of_def)

lemma moves_trans: "moves db db1 \<Longrightarrow> moves db1 db2 \<Longrightarrow> moves db db2"
  by (rule rtranclp_trans)

lemma table_of_store [simp]: "table_of (db\<lparr>tb_store := st\<rparr>) = table_of db"
  by (simp add: table_of_def)

lemma insert_moves:
  assumes "insert_template env t db = (Inr row, db')"
  shows "moves db db'" "row \<in> set (tb_rows db')" "row = t\<lparr>tm_id := tm_id row, tm_created_at := tx_now env, tm_updated_at := tx_now env\<rparr>"
    "tb_store db' = tb_store db"
proof -
  have r: "row = t\<lparr>tm_id := tb_seq db + 1, tm_created_at := tx_now env, tm_updated_at := tx_now env\<rparr>"
      "\<not> list_ex (same_version row) (tb_rows db)"
      "db' = db\<lparr>tb_rows := tb_rows db @ [row], tb_seq := tb_seq db + 1\<rparr>"
    using assms by (auto simp: insert_template_def Let_def split: if_splits option.splits)
  have "edit_step (table_of db) (table_of db')"
    unfolding r(3) table_of_def using adding [of "tb_rows db" row "tb_seq db"] r(1,2) by (simp add: list_ex_iff)
  then show "moves db db'" by (rule r_into_rtranclp)
  show "row \<in> set (tb_rows db')" "row = t\<lparr>tm_id := tm_id row, tm_created_at := tx_now env, tm_updated_at := tx_now env\<rparr>"
    "tb_store db' = tb_store db" using r(1,3) by simp_all
qed

lemma flush_cases:
  assumes "flush_template env old t db = (Inr t', db')"
  shows "(t = old \<and> t' = old \<and> db' = db) \<or>
    (t' = t\<lparr>tm_updated_at := tx_now env\<rparr> \<and>
     db' = db\<lparr>tb_rows := update_where (\<lambda>r. tm_id r = tm_id t) (\<lambda>_. t') (tb_rows db)\<rparr>)"
  using assms by (auto simp: flush_template_def Let_def split: if_splits option.splits)

lemma flush_moves:
  assumes "flush_template env old t db = (Inr t', db')" "old \<in> set (tb_rows db)"
    and "(\<not> tm_published old \<and> same_version old t \<and> tm_id t = tm_id old) \<or> (tm_published old \<and> frozen old t)"
  shows "moves db db'" "t' \<in> set (tb_rows db')" "tb_store db' = tb_store db"
proof -
  have id: "tm_id t = tm_id old" using assms(3) frozen_keeps(1) by auto
  have row: "(\<not> tm_published old \<and> same_version old (t\<lparr>tm_updated_at := n\<rparr>)) \<or>
      (tm_published old \<and> frozen old (t\<lparr>tm_updated_at := n\<rparr>))" for n
  proof -
    have "frozen t (t\<lparr>tm_updated_at := n\<rparr>)" by (simp add: frozen_def)
    with assms(3) show ?thesis by (auto simp: same_version_def dest: frozen_trans)
  qed
  have "edit_step (table_of db) (table_of (db\<lparr>tb_rows := update_where (\<lambda>r. tm_id r = tm_id t)
      (\<lambda>_. t\<lparr>tm_updated_at := tx_now env\<rparr>) (tb_rows db)\<rparr>))"
    using rewriting [OF assms(2), of "t\<lparr>tm_updated_at := tx_now env\<rparr>"] marking [OF assms(2), of "t\<lparr>tm_updated_at := tx_now env\<rparr>"]
      row [of "tx_now env"] id by (auto simp: table_of_def)
  with flush_cases [OF assms(1)] show "moves db db'" by auto
  show "t' \<in> set (tb_rows db')" "tb_store db' = tb_store db"
    using flush_cases [OF assms(1)] assms(2) id by (auto simp: in_update_where)
qed

lemma flushed_moves:
  assumes "flushed env old t db = (Inr t', db')" "old \<in> set (tb_rows db)"
    and "(\<not> tm_published old \<and> same_version old t \<and> tm_id t = tm_id old) \<or> (tm_published old \<and> frozen old t)"
  shows "moves db db'" "t' \<in> set (tb_rows db')" "tb_store db' = tb_store db"
    "t = old \<and> t' = old \<or> t' = t\<lparr>tm_updated_at := tx_now env\<rparr>"
proof -
  have f: "flush_template env old t db = (Inr t', db')"
    using assms(1) by (auto simp: flushed_def split: prod.splits sum.splits)
  show "moves db db'" "t' \<in> set (tb_rows db')" "tb_store db' = tb_store db" by (fact flush_moves [OF f assms(2,3)])+
  show "t = old \<and> t' = old \<or> t' = t\<lparr>tm_updated_at := tx_now env\<rparr>" using flush_cases [OF f] by blast
qed

lemma get_template_by_id_Some:
  assumes "get_template_by_id w i user deleted db = Some t"
  shows "t \<in> set (tb_rows db)" "tm_id t = i" "can_view w t user" "deleted \<or> \<not> tm_deleted t"
  using assms by (auto simp: get_template_by_id_def split: option.splits if_splits dest!: find_Some_iff_props)

lemma newest_in: "newest rows = Some r \<Longrightarrow> r \<in> set rows"
proof -
  have "fold (\<lambda>r best. case best of None \<Rightarrow> Some r | Some b \<Rightarrow> if tm_id b < tm_id r then Some r else Some b) rows best = Some r
    \<Longrightarrow> r \<in> set rows \<or> best = Some r" for best
    by (induction rows arbitrary: best) (auto split: option.splits if_splits)
  then show "newest rows = Some r \<Longrightarrow> r \<in> set rows" by (auto simp: newest_def)
qed

lemma draft_moves:
  assumes "get_or_create_draft_version w env published db = (Inr draft, db1)"
  shows "moves db db1" "draft \<in> set (tb_rows db1)" "\<not> tm_published draft"
    "tm_key draft = tm_key published" "tm_tenant draft = tm_tenant published"
proof -
  have "moves db db1 \<and> draft \<in> set (tb_rows db1) \<and> \<not> tm_published draft \<and>
    tm_key draft = tm_key published \<and> tm_tenant draft = tm_tenant published"
  proof (cases "existing_draft published db")
    case (Some d)
    then have "d \<in> set (tb_rows db) \<and> \<not> tm_published d \<and> tm_key d = tm_key published \<and> tm_tenant d = tm_tenant published"
      unfolding existing_draft_def by (auto dest: newest_in)
    then show ?thesis using assms Some by (auto simp: get_or_create_draft_version_def)
  next
    case None
    then obtain row st t where i: "insert_template env t (db\<lparr>tb_store := st\<rparr>) = (Inr draft, db1)"
        "\<not> tm_published t" "tm_key t = tm_key published" "tm_tenant t = tm_tenant published"
      using assms by (auto simp: get_or_create_draft_version_def Let_def split: sum.splits prod.splits if_splits option.splits)
    have "moves (db\<lparr>tb_store := st\<rparr>) db1" "draft \<in> set (tb_rows db1)" by (fact insert_moves [OF i(1)])+
    moreover have "tm_published draft = tm_published t \<and> tm_key draft = tm_key t \<and> tm_tenant draft = tm_tenant t"
      by (subst (1 2 3) insert_moves(3) [OF i(1)]) simp
    ultimately show ?thesis using i(2-4) by simp
  qed
  then show "moves db db1" "draft \<in> set (tb_rows db1)" "\<not> tm_published draft"
    "tm_key draft = tm_key published" "tm_tenant draft = tm_tenant published" by blast+
qed

lemma create_moves:
  assumes "create_template_with_files w env md files user tenant_id db = (Inr t, db')"
  shows "moves db db'"
proof -
  obtain row st where "insert_template env row (db\<lparr>tb_store := st\<rparr>) = (Inr t, db')"
    using assms unfolding create_template_with_files_def Let_def
    by (auto split: sum.splits prod.splits if_splits option.splits)
  from insert_moves(1) [OF this] show ?thesis by simp
qed

lemma import_moves:
  assumes "import_template_from_zip w env bytes md user tenant_id db = (Inr t, db')"
  shows "moves db db'"
  using assms unfolding import_template_from_zip_def Let_def
  by (auto split: sum.splits prod.splits if_splits option.splits intro: create_moves)

lemma field_updates_keep [simp]:
  "tm_id (apply_fields ups t) = tm_id t" "tm_id (apply_status ups t) = tm_id t" "tm_id (apply_files ups t) = tm_id t"
  "tm_id (publish_if ups t) = tm_id t"
  "same_version r (apply_fields ups t) = same_version r t" "same_version r (apply_status ups t) = same_version r t"
  "same_version r (apply_files ups t) = same_version r t" "same_version r (publish_if ups t) = same_version r t"
  by (simp_all add: apply_fields_def apply_status_def apply_files_def publish_if_def same_version_def)

lemma same_version_refl [simp]: "same_version r r" by (simp add: same_version_def)

lemma same_version_upd [simp]:
  "same_version r (t\<lparr>tm_files := fs\<rparr>) = same_version r t" "same_version r (t\<lparr>tm_modified_by := m\<rparr>) = same_version r t"
  by (simp_all add: same_version_def)

lemma update_moves:
  assumes "update_template w env key version ups user db = (Inr t', db')"
  shows "moves db db'"
proof -
  obtain t row where g: "get_template w key (Some version) user False None False db = Inr (Some t)" "\<not> tm_published t"
      "flushed env t row db = (Inr t', db')" "same_version t row" "tm_id row = tm_id t"
    using assms unfolding update_template_def by (auto split: sum.splits prod.splits if_splits option.splits)
  have "t \<in> set (tb_rows db)"
  proof -
    have best: "max_version b k rs = Inr x \<Longrightarrow> x = b \<or> x \<in> set rs" for b k rs x
      by (induction b k rs rule: max_version.induct) (auto split: sum.splits if_splits)
    have "latest_version rows = Inr (Some x) \<Longrightarrow> x \<in> set rows" for rows x
      unfolding latest_version_def by (auto split: list.splits sum.splits dest: best)
    then show ?thesis using g(1) unfolding get_template_def Let_def
      by (auto split: if_splits dest!: find_Some_iff_props) (metis (no_types, lifting) filter_is_subset subsetD)+
  qed
  with flushed_moves(1) [OF g(3)] g(2,4,5) show ?thesis by simp
qed

lemma update_by_id_moves:
  assumes "update_template_by_id w env i ups bytes name user db = (Inr t', db')"
  shows "moves db db'"
proof -
  obtain t where t: "get_template_by_id w i user False db = Some t"
    using assms unfolding update_template_by_id_def by (auto split: if_splits option.splits)
  note mem = get_template_by_id_Some(1) [OF t]
  show ?thesis
  proof (cases "tm_published t")
    case False
    then obtain row st where f: "flushed env t row (db\<lparr>tb_store := st\<rparr>) = (Inr t', db')" "same_version t row" "tm_id row = tm_id t"
      using assms t unfolding update_template_by_id_def by (auto split: sum.splits prod.splits if_splits option.splits)
    with flushed_moves(1) [OF f(1)] mem False show ?thesis by simp
  next
    case True
    then obtain draft db1 row st where d: "get_or_create_draft_version w env t db = (Inr draft, db1)"
        "flush_template env draft row (db1\<lparr>tb_store := st\<rparr>) = (Inr t', db')" "same_version draft row" "tm_id row = tm_id draft"
      using assms t unfolding update_template_by_id_def
      by (auto split: sum.splits prod.splits if_splits option.splits db_refusal.splits)
    have "moves (db1\<lparr>tb_store := st\<rparr>) db'"
      using draft_moves(2,3) [OF d(1)] d(3,4) by (intro flush_moves(1) [OF d(2)]) simp_all
    with draft_moves(1) [OF d(1)] show ?thesis by simp
  qed
qed

lemma delete_moves:
  assumes "delete_template_by_id w env i user db = (Inr u, db')"
  shows "moves db db'"
proof -
  obtain t where t: "get_template_by_id w i user True db = Some t"
    using assms unfolding delete_template_by_id_def by (auto split: if_splits option.splits)
  note mem = get_template_by_id_Some(1) [OF t]
  show ?thesis
  proof (cases "tm_published t")
    case True
    then obtain row t' where f: "flushed env t row db = (Inr t', db')" "frozen t row"
      using assms t unfolding delete_template_by_id_def
      by (auto simp: frozen_def split: sum.splits prod.splits if_splits option.splits)
    with flushed_moves(1) [OF f(1)] mem True show ?thesis by simp
  next
    case False
    then obtain st ls where "db' = db\<lparr>tb_store := st, tb_links := ls, tb_rows := filter (\<lambda>r. tm_id r \<noteq> tm_id t) (tb_rows db)\<rparr>"
      using assms t unfolding delete_template_by_id_def by (auto split: if_splits)
    then have "edit_step (table_of db) (table_of db')" using dropping [OF mem False] by (simp add: table_of_def)
    then show ?thesis by (rule r_into_rtranclp)
  qed
qed

lemma restore_moves:
  assumes "restore_template_by_id w env i user db = (Inr t', db')"
  shows "moves db db'"
proof -
  obtain t row where t: "get_template_by_id w i user True db = Some t" "flushed env t row db = (Inr t', db')" "frozen t row"
    using assms unfolding restore_template_by_id_def
    by (auto simp: frozen_def split: sum.splits prod.splits if_splits option.splits)
  with flushed_moves(1) [OF t(2) get_template_by_id_Some(1) [OF t(1)]] frozen_keeps(1,2) [OF t(3)] show ?thesis by auto
qed

lemma update_file_moves:
  assumes "update_file_content w env t name content user db = (Inr t', db')"
  shows "moves db db'"
  using assms draft_moves(1) unfolding update_file_content_def
  by (auto split: sum.splits prod.splits if_splits option.splits)

lemma delete_file_moves:
  assumes "delete_file_from_template w env t name user db = (Inr t', db')" "t \<in> set (tb_rows db)"
  shows "moves db db'"
proof -
  obtain target db1 row db2 st where d: "(if tm_published t then get_or_create_draft_version w env t db else (Inr t, db)) = (Inr target, db1)"
      "flushed env target row db1 = (Inr t', db2)" "same_version target row" "tm_id row = tm_id target" "db' = db2\<lparr>tb_store := st\<rparr>"
    using assms(1) unfolding delete_file_from_template_def Let_def
    by (auto split: sum.splits prod.splits if_splits option.splits)
  have target: "moves db db1" "target \<in> set (tb_rows db1)" "\<not> tm_published target"
    using d(1) assms(2) draft_moves(1-3) by (auto split: if_splits)
  have "moves db1 db2" using target(2,3) d(3,4) by (intro flushed_moves(1) [OF d(2)]) simp_all
  with target(1) show ?thesis using d(5) by simp
qed

subsection \<open>Histories of requests\<close>

text \<open>The requests that may change the table, by any user, with any answer of the database and of the
  file system.\<close>

inductive template_step :: "template_db \<Rightarrow> template_db \<Rightarrow> bool" where
  creating: "template_step db (snd (template_create w env md files db))"
| importing: "template_step db (snd (template_import w env bytes md db))"
| updating: "template_step db (snd (template_update_by_id w env i ups bytes name db))"
| putting_file: "template_step db (snd (template_put_file w env i name content db))"
| deleting_file: "template_step db (snd (template_delete_file w env i name db))"
| deleting: "template_step db (snd (template_delete_by_id w env i db))"
| restoring: "template_step db (snd (template_restore_by_id w env i db))"

inductive_cases template_stepE: "template_step db db'"

lemma at_request_end_moves:
  assumes "\<And>v db'. p = (Inr v, db') \<Longrightarrow> moves db db'"
  shows "moves db (snd (at_request_end db p))"
proof -
  obtain r db' where p: "p = (r, db')" by fastforce
  show ?thesis
  proof (cases r)
    case (Inl e)
    then show ?thesis by (simp add: p at_request_end_def)
  next
    case (Inr v)
    with assms [of v db'] p show ?thesis by (simp add: at_request_end_def)
  qed
qed

lemma template_step_moves: "template_step db db' \<Longrightarrow> moves db db'"
proof (induction rule: template_step.induct)
  case (creating db w env md files)
  show ?case unfolding template_create_def
    by (rule at_request_end_moves) (auto simp: Let_def split: if_splits intro: create_moves)
next
  case (importing db w env bytes md)
  show ?case unfolding template_import_def
    by (rule at_request_end_moves) (auto split: if_splits intro: import_moves)
next
  case (updating db w env i ups bytes name)
  show ?case unfolding template_update_by_id_def
    by (rule at_request_end_moves) (rule update_by_id_moves)
next
  case (putting_file db w env i name content)
  show ?case unfolding template_put_file_def
    by (rule at_request_end_moves) (auto split: if_splits option.splits intro: update_file_moves)
next
  case (deleting_file db w env i name)
  show ?case unfolding template_delete_file_def
    by (rule at_request_end_moves)
      (auto split: if_splits option.splits intro: delete_file_moves dest: get_template_by_id_Some(1))
next
  case (deleting db w env i)
  show ?case unfolding template_delete_by_id_def
    by (rule at_request_end_moves) (rule delete_moves)
next
  case (restoring db w env i)
  show ?case unfolding template_restore_by_id_def
    by (rule at_request_end_moves) (rule restore_moves)
qed

lemma template_history_moves: "template_step\<^sup>*\<^sup>* db db' \<Longrightarrow> moves db db'"
  by (induction rule: rtranclp_induct) (auto dest: template_step_moves intro: moves_trans)

end
