(* ===== verification/Template_Properties.thy ===== *)
theory Template_Properties
  imports Template_Laws
begin

text \<open>The properties of the template service.\<close>

subsection \<open>Published versions\<close>

text \<open>C19. Every request on templates is a sequence of moves of the version table: whatever the request,
  the user, the database and the file system do, the table changes only by adding a new version,
  rewriting or dropping an unpublished one, or renaming, deleting or restoring a published one.\<close>

theorem template_requests_refine_the_version_table:
  assumes "template_step\<^sup>*\<^sup>* db db'"
  shows "edit_step\<^sup>*\<^sup>* (table_of db) (table_of db')"
  using assms by (rule template_history_moves)

text \<open>C18. A published version is never edited: after any history of requests every published version is
  still there with its key, version, tenant, visibility, metadata and list of files, and tenant, key
  and version name at most one row.\<close>

theorem published_versions_are_frozen:
  assumes "template_step\<^sup>*\<^sup>* db db'" "table_ok (table_of db)"
  shows "table_ok (table_of db') \<and>
    (\<forall>r \<in> set (tb_rows db). tm_published r \<longrightarrow> (\<exists>r' \<in> set (tb_rows db'). frozen r r'))"
  using version_history.history [OF template_history_moves [OF assms(1)] assms(2)]
  by (simp add: published_kept_def table_of_def)

subsection \<open>Their files\<close>

lemma store_file_Inr:
  "file_path se tenant key version name = Inr path \<Longrightarrow> se_unwritable se path = None \<Longrightarrow>
   store_file se tenant key version name content st = (Inr (), st(path \<mapsto> content))"
  by (simp add: store_file_def)

text \<open>The files of a published version can still be overwritten: creating a template with the key and
  the version of a published one is refused as a conflict, but by then its content is in the store in
  place of the published file.\<close>

theorem refused_creation_rewrites_published_files:
  assumes "r \<in> set (tb_rows db)" "tm_published r" "named n e" "e \<in> set (tm_files r)"
    and "g_user w = Some u" "\<not> is_super_admin_request (wb_rs w)" "g_tenant w = Some (tm_tenant r)" "tm_tenant r \<noteq> []"
    and "md_template_key md = Some (tm_key r)" "tm_key r \<noteq> []" "md_version md = Some (tm_version r)" "tm_version r \<noteq> []"
    and "md_name md = Some name" "name \<noteq> []" "validate_template_name (PStr name) = None"
    and "n \<noteq> []" "file_type_from_filename n = ''bpmn''" "content \<noteq> []"
    and "file_path (tx_files env) (tm_tenant r) (tm_key r) (tm_version r) n = Inr path"
    and "se_unwritable (tx_files env) path = None" "se_unreadable (tx_files env) path = None"
  shows "fst (template_create w env md [(n, content)] db) = Inl conflict \<and>
    get_file_content env r n (snd (template_create w env md [(n, content)] db)) = Inr content"
proof -
  let ?st = "(tb_store db)(path \<mapsto> content)"
  let ?entry = "\<lparr>fe_type = Some (file_type_from_filename n), fe_name = Some n\<rparr>"
  have store: "store_all (tx_files env) (tm_tenant r) (tm_key r) (tm_version r) [(n, content)] (tb_store db)
      = (Inr [?entry], ?st)"
    using store_file_Inr [OF assms(19,20)] by simp
  have version: "version_for_creation md (tm_key r) name (tm_tenant r) db = Inr (tm_version r)"
    using assms(11,12) by (simp add: version_for_creation_def)
  have clash: "insert_template env t (db\<lparr>tb_store := ?st\<rparr>) = (Inl None, db\<lparr>tb_store := ?st\<rparr>)"
    if "tm_tenant t = tm_tenant r" "tm_key t = tm_key r" "tm_version t = tm_version r" for t
    using that assms(1) by (auto simp: insert_template_def Let_def list_ex_iff same_version_def)
  have c: "create_template_with_files w env md [(n, content)] (g_user w) (g_tenant w) db = (Inl conflict, db\<lparr>tb_store := ?st\<rparr>)"
    unfolding create_template_with_files_def Let_def
    using assms(5-10,13-17) store version by (simp add: or_str_def clash)
  have t: "template_create w env md [(n, content)] db = (Inl conflict, db\<lparr>tb_store := ?st\<rparr>)"
    unfolding template_create_def Let_def using assms(9,10,13,14,16,18) c by (simp add: at_request_end_def)
  show ?thesis using assms(19,21) by (simp add: t get_file_content_def get_file_def)
qed

text \<open>A draft can lose its last file: deleting a file through a published version checks what would
  remain of the published version, and deletes from the draft; a draft that holds only that file is
  left without any.\<close>

theorem deleting_through_a_published_version_can_empty_the_draft:
  assumes "get_template_by_id w i (g_user w) False db = Some t" "tm_published t"
    and "\<not> is_super_admin_request (wb_rs w)" "existing_draft t db = Some d"
    and "\<forall>e \<in> set (tm_files d). named n e" "tm_files d \<noteq> []"
    and "list_ex (named n) (tm_files t)" "list_ex (\<lambda>e. is_bpmn_entry e \<and> \<not> named n e) (tm_files t)"
    and "\<forall>row. tx_refuses env row = None"
  shows "\<exists>t' db'. template_delete_file w env i n db = (Inr t', db') \<and> tm_id t' = tm_id d \<and> tm_files t' = []"
proof -
  let ?without = "filter (\<lambda>e. \<not> named n e)"
  have rest: "?without (tm_files t) \<noteq> []" "list_ex is_bpmn_entry (?without (tm_files t))" "tm_files t \<noteq> []"
    using assms(8) by (auto simp: list_ex_iff filter_empty_conv)
  have d: "get_or_create_draft_version w env t db = (Inr d, db)"
    using assms(4) by (simp add: get_or_create_draft_version_def)
  have none: "?without (tm_files d) = []" using assms(5) by (simp add: filter_empty_conv)
  define row where "row = d\<lparr>tm_files := [], tm_modified_by := (case g_user w of Some u \<Rightarrow> ac_username u | None \<Rightarrow> tm_modified_by d)\<rparr>"
  have "tm_files row = []" by (simp add: row_def)
  then have "row \<noteq> d" using assms(6) by blast
  then have f: "flushed env d row db = (Inr (row\<lparr>tm_updated_at := tx_now env\<rparr>),
      db\<lparr>tb_rows := update_where (\<lambda>r. tm_id r = tm_id row) (\<lambda>_. row\<lparr>tm_updated_at := tx_now env\<rparr>) (tb_rows db)\<rparr>)"
    using assms(9) by (simp add: flushed_def flush_template_def Let_def)
  have x: "fst (delete_file_from_template w env t n (g_user w) db) = Inr (row\<lparr>tm_updated_at := tx_now env\<rparr>)"
    unfolding delete_file_from_template_def Let_def
    using assms(2,3,7) rest d none f by (simp add: row_def)
  have files: "tm_files (row\<lparr>tm_updated_at := tx_now env\<rparr>) = []" "tm_id (row\<lparr>tm_updated_at := tx_now env\<rparr>) = tm_id d"
    by (simp_all add: row_def)
  show ?thesis unfolding template_delete_file_def using assms(1) x files
    by (cases "delete_file_from_template w env t n (g_user w) db") (auto simp: at_request_end_def)
qed

subsection \<open>Who may change a template\<close>

text \<open>Uploading a file needs no right to edit: whoever can see an unpublished template, of another
  tenant even when it is public, replaces its files, although the same user's update of it is refused.\<close>

theorem file_upload_skips_the_edit_check:
  assumes "get_template_by_id w i (g_user w) False db = Some t" "\<not> can_edit w t (g_user w)"
    and "\<not> is_super_admin_request (wb_rs w)" "\<not> tm_published t" "list_ex (named n) (tm_files t)" "content \<noteq> []"
    and "file_path (tx_files env) (tm_tenant t) (tm_key t) (tm_version t) n = Inr path"
    and "se_unwritable (tx_files env) path = None"
  shows "template_update_by_id w env i ups bytes name db =
      (Inl (api_failure ''forbidden'' ''You cannot edit this template'' 403), db) \<and>
    template_put_file w env i n content db = (Inr t, db\<lparr>tb_store := (tb_store db)(path \<mapsto> content)\<rparr>)"
proof -
  obtain e where "find (named n) (tm_files t) = Some e"
    using assms(5) by (cases "find (named n) (tm_files t)") (auto simp: find_None_conv list_ex_iff)
  then have "update_file_content w env t n content (g_user w) db = (Inr t, db\<lparr>tb_store := (tb_store db)(path \<mapsto> content)\<rparr>)"
    using assms(3,4) store_file_Inr [OF assms(7,8)] by (simp add: update_file_content_def)
  then show ?thesis using assms(1-3,6)
    by (simp add: template_update_by_id_def template_put_file_def update_template_by_id_def at_request_end_def)
qed

text \<open>An administrator deletes other tenants' templates: a public published template is deleted by
  anybody who may delete templates in a tenant of their own.\<close>

theorem foreign_admin_deletes_public_templates:
  assumes "get_template_by_id w i (g_user w) True db = Some t" "\<not> tm_deleted t" "tm_published t"
    and "\<not> is_super_admin_request (wb_rs w)" "has_admin_permission w (g_user w) ''delete''"
    and "g_tenant w \<noteq> Some (tm_tenant t)" "\<forall>row. tx_refuses env row = None"
  shows "\<not> can_edit w t (g_user w) \<and>
    (\<exists>r \<in> set (tb_rows (snd (template_delete_by_id w env i db))). tm_id r = i \<and> tm_deleted r)"
proof -
  note t = get_template_by_id_Some [OF assms(1)]
  define row where "row = t\<lparr>tm_name := (if tm_name t = [] then ''template'' else tm_name t) @ DELETED_MARK @ tx_stamp env,
    tm_deleted := True, tm_modified_by := (case g_user w of Some u \<Rightarrow> (if ac_username u = [] then tm_modified_by t else ac_username u)
      | None \<Rightarrow> tm_modified_by t)\<rparr>"
  let ?row = "row\<lparr>tm_updated_at := tx_now env\<rparr>"
  have "tm_deleted row" by (simp add: row_def)
  then have "row \<noteq> t" using assms(2) by blast
  then have f: "flushed env t row db = (Inr ?row, db\<lparr>tb_rows := update_where (\<lambda>r. tm_id r = tm_id row) (\<lambda>_. ?row) (tb_rows db)\<rparr>)"
    using assms(7) by (simp add: flushed_def flush_template_def Let_def)
  have "template_delete_by_id w env i db = (Inr (), db\<lparr>tb_rows := update_where (\<lambda>r. tm_id r = tm_id row) (\<lambda>_. ?row) (tb_rows db)\<rparr>)"
    unfolding template_delete_by_id_def delete_template_by_id_def using assms(1-5) f
    by (simp add: at_request_end_def row_def)
  moreover have "?row \<in> set (update_where (\<lambda>r. tm_id r = tm_id row) (\<lambda>_. ?row) (tb_rows db))"
    using t(1) by (auto simp: in_update_where row_def intro!: bexI [of _ t])
  moreover have "tm_id ?row = i" "tm_deleted ?row" using t(2) by (simp_all add: row_def)
  ultimately have "\<exists>r \<in> set (tb_rows (snd (template_delete_by_id w env i db))). tm_id r = i \<and> tm_deleted r"
    by (intro bexI [of _ ?row]) simp_all
  then show ?thesis using assms(6) by (simp add: can_edit_def is_current_tenant_template_def)
qed

text \<open>What the listing shows is what can be opened: for a template whose visibility is one of the three
  the code knows, the filter of the queries and the check of a single template give the same answer.\<close>

theorem listing_agrees_with_viewing:
  assumes "is_public t \<or> is_tenant_visible t \<or> is_private t"
  shows "visible_in_queries w user t \<longleftrightarrow> can_view w t user"
  using assms
  by (auto simp: visible_in_queries_def can_view_def has_admin_permission_def is_public_def is_tenant_visible_def
      is_private_def owns_def split: option.splits)

subsection \<open>Versions\<close>

lemma digit_char_props: "d < 10 \<Longrightarrow> is_digit (digit_char d)" "d < 10 \<Longrightarrow> of_char (digit_char d) = (48 + d :: nat)"
  by (auto simp: is_digit_def digit_char_def)

lemma digits_value_nat_str:
  "digits_value acc b (nat_str n @ s) = digits_value (acc * 10 ^ length (nat_str n) + n) True s"
proof (induction n arbitrary: s rule: nat_str.induct)
  case (1 n)
  show ?case
  proof (cases "n < 10")
    case True
    then show ?thesis by (subst (1 2) nat_str.simps) (simp add: digit_char_props mult.commute)
  next
    case False
    have m: "n mod 10 < 10" by simp
    have "digits_value acc b (nat_str n @ s) = digits_value acc b (nat_str (n div 10) @ digit_char (n mod 10) # s)"
      using False by (subst nat_str.simps) simp
    also have "\<dots> = digits_value (acc * 10 ^ length (nat_str (n div 10)) + n div 10) True (digit_char (n mod 10) # s)"
      using 1 [OF False] by simp
    also have "\<dots> = digits_value (10 * (acc * 10 ^ length (nat_str (n div 10)) + n div 10) + n mod 10) True s"
      using digit_char_props [OF m] by simp
    also have "10 * (acc * 10 ^ length (nat_str (n div 10)) + n div 10) + n mod 10 = acc * 10 ^ length (nat_str n) + n"
      using False by (subst (2) nat_str.simps) (simp add: algebra_simps)
    finally show ?thesis .
  qed
qed

lemma nat_str_digits: "list_all is_digit (nat_str n)" "nat_str n \<noteq> []"
proof (induction n rule: nat_str.induct)
  case (1 n)
  { case 1 show ?case using "1.IH" by (subst nat_str.simps) (simp add: digit_char_props) }
  { case 2 show ?case by (subst nat_str.simps) simp }
qed

lemma digit_not_space: "is_digit c \<Longrightarrow> \<not> py_space c"
  by (auto simp: is_digit_def py_space_def)

lemma version_key_number:
  assumes "length (nat_str n) \<le> 4300"
  shows "version_key (CHR ''V'' # nat_str n) = Inr (Numbered n)"
proof -
  have "is_digit (last (nat_str n))" using nat_str_digits [of n] by (simp add: list_all_iff)
  then have s: "strip (CHR ''V'' # nat_str n) = CHR ''V'' # nat_str n"
    unfolding strip_def using nat_str_digits(2) [of n] by (intro strip_if_id) (auto simp: digit_not_space, simp add: py_space_def)
  have v: "v_style (CHR ''V'' # nat_str n)"
    using nat_str_digits [of n] by (auto simp: v_style_def unicode_digit_def list_all_iff)
  have "digits_value 0 False (nat_str n) = Some n" using digits_value_nat_str [of 0 False n "[]"] by simp
  with s v assms show ?thesis by (simp add: version_key_def Let_def digits_int_def)
qed

lemma max_version_spec:
  assumes "max_version b k rs = Inr best" "version_key (tm_version b) = Inr k"
  shows "\<exists>kb. version_key (tm_version best) = Inr kb \<and> k \<le> kb \<and>
    (\<forall>r \<in> set rs. \<exists>kr. version_key (tm_version r) = Inr kr \<and> kr \<le> kb)"
  using assms
proof (induction b k rs rule: max_version.induct)
  case (2 b k r rs)
  obtain k' where k': "version_key (tm_version r) = Inr k'"
    using 2(3) by (auto split: sum.splits)
  show ?case
  proof (cases "k < k'")
    case True
    then have "max_version r k' rs = Inr best" using 2(3) k' by simp
    from 2(1) [OF k' True this k'] show ?thesis using True k' by (auto intro: order_trans less_imp_le)
  next
    case False
    then have "max_version b k rs = Inr best" using 2(3) k' by simp
    from 2(2) [OF k' False this 2(4)] show ?thesis using False k' by (auto intro: order_trans)
  qed
qed simp

lemma latest_version_spec:
  assumes "latest_version rows = Inr (Some best)"
  shows "\<exists>kb. version_key (tm_version best) = Inr kb \<and>
    (\<forall>r \<in> set rows. \<exists>kr. version_key (tm_version r) = Inr kr \<and> kr \<le> kb)"
  using assms unfolding latest_version_def
  by (auto split: list.splits sum.splits dest: max_version_spec)

text \<open>The version given to a new template or a new draft is fresh and the newest: no version of that
  key, deleted ones included, has that name, and every other one sorts before it.\<close>

theorem next_version_is_fresh_and_newest:
  assumes "next_version key tenant db = Inr v" "r \<in> set (versions_of key tenant db)"
  shows "tm_version r \<noteq> v \<and>
    (\<exists>kr kv. version_key (tm_version r) = Inr kr \<and> version_key v = Inr kv \<and> kr < kv)"
proof -
  have "latest_version (versions_of key tenant db) \<noteq> Inr None"
    using assms(2) by (auto simp: latest_version_def split: list.splits sum.splits)
  then obtain best where best: "latest_version (versions_of key tenant db) = Inr (Some best)"
    using assms(1) by (auto simp: next_version_def split: sum.splits option.splits)
  from latest_version_spec [OF best] obtain kb kr where k: "version_key (tm_version best) = Inr kb"
      "version_key (tm_version r) = Inr kr" "kr \<le> kb" using assms(2) by blast
  have "\<exists>kv. version_key v = Inr kv \<and> kb < kv"
  proof (cases kb)
    case (Legacy s)
    then have "v = ''V1''" using assms(1) best k(1) by (simp add: next_version_def)
    moreover have "version_key ''V1'' = Inr (Numbered 1)" by code_simp
    ultimately show ?thesis using Legacy by (simp add: less_vkey_def)
  next
    case (Numbered n)
    then have "v = CHR ''V'' # nat_str (n + 1)" "length (nat_str (n + 1)) \<le> 4300"
      using assms(1) best k(1) by (auto simp: next_version_def split: if_splits)
    then have "version_key v = Inr (Numbered (n + 1))" using version_key_number by blast
    then show ?thesis using Numbered by (simp add: less_vkey_def)
  qed
  then obtain kv where kv: "version_key v = Inr kv" "kb < kv" by blast
  then have "kr < kv" using k(3) by simp
  with k(2) kv(1) show ?thesis by auto
qed

lemma odd_version_raises:
  assumes "\<exists>r \<in> set rs. version_key (tm_version r) = Inl e"
  shows "\<exists>e'. max_version b k rs = Inl e'"
proof (cases "max_version b k rs")
  case (Inr best)
  have "max_version b k rs = Inr best \<Longrightarrow> \<forall>r \<in> set rs. \<exists>kr. version_key (tm_version r) = Inr kr" for b k
    by (induction rs arbitrary: b k) (auto split: sum.splits if_splits)
  with Inr assms show ?thesis by fastforce
qed simp

text \<open>A version of superscript digits blocks its template: once a row of the key has a version such as
  V with a superscript two, which \<open>isdigit\<close> accepts and \<open>int\<close> refuses, computing the next version
  raises, so that a published version without a draft can no longer be edited by anybody.\<close>

theorem superscript_version_blocks_the_template:
  assumes "r \<in> set (versions_of (tm_key t) (tm_tenant t) db)" "strip (tm_version r) = [CHR ''V'', CHR 0xB2]"
    and "existing_draft t db = None"
  shows "\<exists>e. get_or_create_draft_version w env t db = (Inl (Raised e), db)"
proof -
  have "digits_int [CHR 0xB2] = Inl ''ValueError''" "v_style [CHR ''V'', CHR 0xB2]" by code_simp+
  then have bad: "version_key (tm_version r) = Inl ''ValueError''" using assms(2) by (simp add: version_key_def)
  have "\<exists>e. latest_version (versions_of (tm_key t) (tm_tenant t) db) = Inl e"
  proof (cases "versions_of (tm_key t) (tm_tenant t) db")
    case (Cons x xs)
    show ?thesis
    proof (cases "version_key (tm_version x)")
      case (Inr k)
      with assms(1) bad Cons have "\<exists>y \<in> set xs. version_key (tm_version y) = Inl ''ValueError''" by auto
      from odd_version_raises [OF this] obtain e where "max_version x k xs = Inl e" by blast
      with Inr Cons show ?thesis by (simp add: latest_version_def)
    qed (simp add: latest_version_def Cons)
  qed (use assms(1) in simp)
  then show ?thesis using assms(3) by (auto simp: get_or_create_draft_version_def Let_def next_version_def)
qed

end
