(* ===== verification/Template_Safety.thy ===== *)
theory Template_Safety
  imports Template_Laws
begin

text \<open>
  Where the template service writes files, what deletion and restoration do to a name, and how a listing
  is cut into pages.
\<close>

subsection \<open>Files\<close>

definition proper_path :: "store_path \<Rightarrow> bool" where
  "proper_path p \<longleftrightarrow>
     (case p of (t, k, v, n) \<Rightarrow> proper_name t \<and> proper_name k \<and> proper_name v \<and> proper_name n)"

definition touches :: "store \<Rightarrow> store \<Rightarrow> bool" where
  "touches st st' \<longleftrightarrow> (\<forall>p. st' p \<noteq> st p \<longrightarrow> proper_path p)"

lemma touches_refl [simp]: "touches st st" by (simp add: touches_def)

lemma touches_trans: "touches st st1 \<Longrightarrow> touches st1 st2 \<Longrightarrow> touches st st2"
  unfolding touches_def by metis

lemma file_path_proper: "file_path se tenant key version name = Inr p \<Longrightarrow> proper_path p"
proof -
  assume f: "file_path se tenant key version name = Inr p"
  obtain t k v n where p: "p = (t, k, v, n)" by (cases p)
  show ?thesis using file_path_components [OF f [unfolded p]] by (auto simp: p proper_path_def intro: sanitize_proper)
qed

lemma touches_upd: "proper_path p \<Longrightarrow> touches st (st(p := c))"
  by (auto simp: touches_def)

lemma touches_store_file: "touches st (snd (store_file se tenant key version name content st))"
  by (auto simp: store_file_def split: sum.splits option.splits intro: touches_upd file_path_proper)

lemma touches_delete_file: "touches st (snd (delete_file se tenant key version name st))"
  by (auto simp: delete_file_def split: sum.splits option.splits intro: touches_upd file_path_proper)

lemma touches_store_all: "touches st (snd (store_all se tenant key version files st))"
proof (induction files arbitrary: st)
  case (Cons f files)
  obtain name content where f: "f = (name, content)" by fastforce
  obtain r st1 where s: "store_file se tenant key version name content st = (r, st1)" by fastforce
  have t: "touches st st1" using touches_store_file [of st se tenant key version name content] s by simp
  have "touches st (snd (store_all se tenant key version files st1))" by (rule touches_trans [OF t Cons.IH])
  with s t show ?case by (auto simp: f split: sum.splits prod.splits)
qed simp

lemma touches_copy_files: "touches st (snd (copy_files se tenant key old version entries st))"
proof (induction entries arbitrary: st)
  case (Cons entry entries)
  let ?fname = "or_default (fe_name entry) []"
  have step: "touches st (snd (copy_files se tenant key old version entries (snd (store_file se tenant key version ?fname c st))))" for c
    by (rule touches_trans [OF touches_store_file Cons.IH])
  show ?case
  proof (cases "get_file se tenant key old ?fname st")
    case (Inl e)
    then show ?thesis using Cons.IH by (simp add: Let_def)
  next
    case (Inr c)
    then show ?thesis using step [of c] Cons.IH
      by (auto simp: Let_def split: prod.splits sum.splits)
  qed
qed simp

lemma touches_delete_entries: "touches st (delete_entries se t entries st)"
proof (induction entries arbitrary: st)
  case (Cons e es)
  then show ?case using touches_trans [OF touches_delete_file Cons.IH] by (simp add: Let_def)
qed simp

lemma finish_store:
  "snd (case x of (Inl e, st') \<Rightarrow> (Inl e, st') | (Inr _, st') \<Rightarrow> (Inr files, st')) = snd x"
  by (cases x) (simp split: sum.splits)

lemma touches_put_bpmn: "touches st (snd (put_optional_bpmn se t name content st))"
  by (cases content)
    (simp_all add: put_optional_bpmn_def put_bpmn_def Let_def finish_store touches_store_file split: option.splits)

lemma insert_store: "tb_store (snd (insert_template env t db)) = tb_store db"
  by (simp add: insert_template_def Let_def split: option.splits)

lemma flush_store: "tb_store (snd (flush_template env old t db)) = tb_store db"
  by (simp add: flush_template_def Let_def split: option.splits)

lemma flushed_store: "tb_store (snd (flushed env old t db)) = tb_store db"
  using flush_store [of env old t db] by (auto simp: flushed_def split: prod.splits sum.splits)

definition touches_db :: "template_db \<Rightarrow> template_db \<Rightarrow> bool" where
  "touches_db db db' \<longleftrightarrow> touches (tb_store db) (tb_store db')"

lemma touches_db_refl [simp]: "touches_db db db" by (simp add: touches_db_def)

lemma touched:
  "store_all se tenant key version files st = (r, st') \<Longrightarrow> touches st st'"
  "copy_files se tenant key old version entries st = (es, st') \<Longrightarrow> touches st st'"
  "put_optional_bpmn se t oname content st = (r', st') \<Longrightarrow> touches st st'"
  "store_file se tenant key version fname c st = (r'', st') \<Longrightarrow> touches st st'"
  by (metis touches_store_all snd_conv, metis touches_copy_files snd_conv, metis touches_put_bpmn snd_conv,
      metis touches_store_file snd_conv)

lemma same_store:
  "insert_template env t db = (x, db') \<Longrightarrow> tb_store db' = tb_store db"
  "flush_template env old t db = (y, db') \<Longrightarrow> tb_store db' = tb_store db"
  "flushed env old t db = (z, db') \<Longrightarrow> tb_store db' = tb_store db"
  by (metis insert_store snd_conv, metis flush_store snd_conv, metis flushed_store snd_conv)

lemma touches_create:
  "create_template_with_files w env md files user tenant db = (r, db') \<Longrightarrow> touches (tb_store db) (tb_store db')"
  unfolding create_template_with_files_def Let_def
  by (auto split: option.splits sum.splits prod.splits if_splits dest!: touched(1) same_store(1))

lemma touches_import:
  "import_template_from_zip w env bytes md user tenant db = (r, db') \<Longrightarrow> touches (tb_store db) (tb_store db')"
  unfolding import_template_from_zip_def Let_def
  by (auto split: option.splits sum.splits prod.splits if_splits intro: touches_create)

lemma touches_draft:
  "get_or_create_draft_version w env t db = (r, db') \<Longrightarrow> touches (tb_store db) (tb_store db')"
  unfolding get_or_create_draft_version_def Let_def
  by (auto split: option.splits sum.splits prod.splits if_splits dest!: touched(2) same_store(1))

lemma touches_update:
  assumes "update_template_by_id w env i ups bytes name user db = (r, db')"
  shows "touches (tb_store db) (tb_store db')"
  using assms unfolding update_template_by_id_def
  by (auto split: option.splits sum.splits prod.splits if_splits db_refusal.splits
      dest!: touched(3) same_store(2,3) touches_draft intro: touches_trans)

lemma touches_delete:
  "delete_template_by_id w env i user db = (r, db') \<Longrightarrow> touches (tb_store db) (tb_store db')"
  unfolding delete_template_by_id_def
  by (auto split: option.splits sum.splits prod.splits if_splits dest!: same_store(3) intro: touches_delete_entries)

lemma touches_restore:
  "restore_template_by_id w env i user db = (r, db') \<Longrightarrow> touches (tb_store db) (tb_store db')"
  unfolding restore_template_by_id_def
  by (auto split: option.splits sum.splits prod.splits if_splits dest!: same_store(3))

lemma touches_update_file:
  "update_file_content w env t name content user db = (r, db') \<Longrightarrow> touches (tb_store db) (tb_store db')"
  unfolding update_file_content_def
  by (auto split: option.splits sum.splits prod.splits if_splits dest!: touches_draft touched(4) intro: touches_trans)

lemma touches_delete_file_op:
  assumes "delete_file_from_template w env t name user db = (r, db')"
  shows "touches (tb_store db) (tb_store db')"
  using assms unfolding delete_file_from_template_def Let_def
  by (auto split: sum.splits prod.splits if_splits dest!: touches_draft same_store(3)
      intro: touches_trans [OF _ touches_delete_file] touches_delete_file)

lemma touches_request:
  assumes "\<And>r db'. p = (r, db') \<Longrightarrow> touches (tb_store db) (tb_store db')"
  shows "touches (tb_store db) (tb_store (snd (at_request_end db p)))"
  using assms by (cases p) (auto simp: at_request_end_def split: sum.splits)

lemma template_step_touches: "template_step db db' \<Longrightarrow> touches (tb_store db) (tb_store db')"
proof (induction rule: template_step.induct)
  case (creating db w env md files)
  show ?case unfolding template_create_def
    by (rule touches_request) (auto simp: Let_def split: if_splits intro: touches_create)
next
  case (importing db w env bytes md)
  show ?case unfolding template_import_def
    by (rule touches_request) (auto split: if_splits intro: touches_import)
next
  case (updating db w env i ups bytes name)
  show ?case unfolding template_update_by_id_def by (rule touches_request) (rule touches_update)
next
  case (putting_file db w env i name content)
  show ?case unfolding template_put_file_def
    by (rule touches_request) (auto split: if_splits option.splits intro: touches_update_file)
next
  case (deleting_file db w env i name)
  show ?case unfolding template_delete_file_def
    by (rule touches_request) (auto split: option.splits intro: touches_delete_file_op)
next
  case (deleting db w env i)
  show ?case unfolding template_delete_by_id_def by (rule touches_request) (rule touches_delete)
next
  case (restoring db w env i)
  show ?case unfolding template_restore_by_id_def by (rule touches_request) (rule touches_restore)
qed

text \<open>C20. No request leaves the store: a file that any request writes or removes lies exactly four levels
  below the base directory, and none of the four names is empty, is \<open>.\<close> or \<open>..\<close>, or contains a slash,
  a backslash or a null byte, whatever tenant, key, version and file names the request gave.\<close>

theorem template_files_stay_in_the_store:
  assumes "template_step db db'" "tb_store db' (t, k, v, n) \<noteq> tb_store db (t, k, v, n)" "c \<in> {t, k, v, n}"
  shows "c \<notin> {[], ''.'', ''..''} \<and> set c \<inter> {CHR ''/'', CHR 0x5C, CHR 0x00} = {} \<and> length c \<le> 255"
proof -
  have "proper_name c" using template_step_touches [OF assms(1)] assms(2,3)
    unfolding touches_def proper_path_def by auto
  moreover have "{CHR ''/'', CHR 0x5C} \<subseteq> set INVALID_PATH_CHARS" by (simp add: INVALID_PATH_CHARS_def)
  ultimately show ?thesis using proper_name_no_walk [of c] unfolding proper_name_def by blast
qed

subsection \<open>Names\<close>

lemma deleted_base_of_mark:
  assumes "CHR 0x0A \<notin> set n" "length stamp = 14" "list_all is_digit stamp"
  shows "deleted_base (n @ DELETED_MARK @ stamp) = Some n"
proof -
  have stamp: "stamp \<noteq> []" using assms(2) by auto
  then have "is_digit (last stamp)" using assms(3) by (simp add: list_all_iff)
  then have l: "last (n @ DELETED_MARK @ stamp) \<noteq> CHR 0x0A" using stamp by (auto simp: is_digit_def)
  have m: "length DELETED_MARK = 9" by (simp add: DELETED_MARK_def)
  show ?thesis using l assms m by (simp add: deleted_base_def Let_def startswith_def)
qed

lemma flushed_row:
  assumes "flushed env r row db = (Inr t, db')" "row \<noteq> r" "r \<in> set (tb_rows db)" "tm_published r" "frozen r row"
  shows "t = row\<lparr>tm_updated_at := tx_now env\<rparr>" "t \<in> set (tb_rows db')" "moves db db'" "frozen r t"
proof -
  show t: "t = row\<lparr>tm_updated_at := tx_now env\<rparr>" using flushed_moves(4) [OF assms(1,3)] assms(2,4,5) by blast
  show "t \<in> set (tb_rows db')" "moves db db'" using flushed_moves(1,2) [OF assms(1,3)] assms(4,5) by blast+
  have "frozen row t" by (simp add: t frozen_def)
  with assms(5) show "frozen r t" by (rule frozen_trans)
qed

lemma the_template:
  assumes "table_ok (table_of db)" "r \<in> set (tb_rows db)" "get_template_by_id w (tm_id r) user b db = Some x"
  shows "x = r"
proof -
  have "distinct (map tm_id (tb_rows db))" using assms(1) by (simp add: table_ok_def table_of_def)
  then show ?thesis using same_key_same_row get_template_by_id_Some(1,2) [OF assms(3)] assms(2) by metis
qed

lemma deletion_marks:
  assumes "table_ok (table_of db)" "r \<in> set (tb_rows db)" "tm_published r" "tm_name r \<noteq> []"
    and "template_delete_by_id w env (tm_id r) db = (Inr (), db1)"
  shows "\<exists>r1 \<in> set (tb_rows db1). tm_name r1 = tm_name r @ DELETED_MARK @ tx_stamp env \<and> tm_deleted r1 \<and>
    frozen r r1 \<and> moves db db1"
proof -
  have del: "delete_template_by_id w env (tm_id r) (g_user w) db = (Inr (), db1)"
    using assms(5) by (auto simp: template_delete_by_id_def at_request_end_def split: prod.splits sum.splits)
  then obtain x where x: "get_template_by_id w (tm_id r) (g_user w) True db = Some x"
    unfolding delete_template_by_id_def by (auto split: if_splits option.splits)
  note xr = the_template [OF assms(1,2) x]
  obtain r1 m where f: "flushed env r (r\<lparr>tm_name := tm_name r @ DELETED_MARK @ tx_stamp env, tm_deleted := True,
      tm_modified_by := m\<rparr>) db = (Inr r1, db1)"
    using del assms(3,4) x unfolding delete_template_by_id_def xr by (auto split: if_splits sum.splits prod.splits)
  have ne: "r\<lparr>tm_name := tm_name r @ DELETED_MARK @ tx_stamp env, tm_deleted := True, tm_modified_by := m\<rparr> \<noteq> r" (is "?row \<noteq> r")
  proof
    assume "?row = r"
    then have "tm_name ?row = tm_name r" by (rule arg_cong)
    then show False by (simp add: DELETED_MARK_def)
  qed
  have fr: "frozen r ?row" by (simp add: frozen_def)
  note row = flushed_row [OF f ne assms(2,3) fr]
  show ?thesis using row(2-4) by (intro bexI [of _ r1]) (simp_all add: row(1))
qed

lemma restoration_unmarks:
  assumes "table_ok (table_of db)" "r \<in> set (tb_rows db)" "tm_published r"
    and "template_restore_by_id w env (tm_id r) db = (Inr t, db2)"
  shows "tm_name t = restored_name (tm_name r) \<and> \<not> tm_deleted t \<and> frozen r t \<and> t \<in> set (tb_rows db2)"
proof -
  have res: "restore_template_by_id w env (tm_id r) (g_user w) db = (Inr t, db2)"
    using assms(4) by (auto simp: template_restore_by_id_def at_request_end_def split: prod.splits sum.splits)
  then obtain y where y: "get_template_by_id w (tm_id r) (g_user w) True db = Some y"
    unfolding restore_template_by_id_def by (auto split: option.splits)
  note yr = the_template [OF assms(1,2) y]
  obtain m where f: "flushed env r (r\<lparr>tm_name := restored_name (tm_name r), tm_deleted := False, tm_modified_by := m\<rparr>) db = (Inr t, db2)"
    and del: "tm_deleted r"
    using res y unfolding restore_template_by_id_def yr by (auto split: if_splits)
  have ne: "r\<lparr>tm_name := restored_name (tm_name r), tm_deleted := False, tm_modified_by := m\<rparr> \<noteq> r" (is "?row \<noteq> r")
  proof
    assume "?row = r"
    then have "tm_deleted ?row = tm_deleted r" by (rule arg_cong)
    with del show False by simp
  qed
  have fr: "frozen r ?row" by (simp add: frozen_def)
  note row = flushed_row [OF f ne assms(2,3) fr]
  show ?thesis using row(2,4) by (simp add: row(1))
qed

text \<open>Restoring undoes deleting: a published template that is deleted and then restored, by whomever and
  whenever, is live again under its old name without surrounding blanks, with its version, files and
  visibility.\<close>

theorem restoring_undoes_deleting:
  assumes "table_ok (table_of db)" "r \<in> set (tb_rows db)" "tm_published r"
    and "CHR 0x0A \<notin> set (tm_name r)" "strip (tm_name r) \<noteq> []"
    and "length (tx_stamp env) = 14" "list_all is_digit (tx_stamp env)"
    and "template_delete_by_id w env (tm_id r) db = (Inr (), db1)"
    and "template_restore_by_id w' env' (tm_id r) db1 = (Inr t, db2)"
  shows "tm_name t = strip (tm_name r) \<and> \<not> tm_deleted t \<and> frozen r t \<and> t \<in> set (tb_rows db2)"
proof -
  have "tm_name r \<noteq> []" using assms(5) by auto
  from deletion_marks [OF assms(1-3) this assms(8)] obtain r1 where r1: "r1 \<in> set (tb_rows db1)"
      "tm_name r1 = tm_name r @ DELETED_MARK @ tx_stamp env" "frozen r r1" "moves db db1" by blast
  have ok: "table_ok (table_of db1)" using version_history.history [OF r1(4) assms(1)] by simp
  note same = frozen_keeps [OF r1(3)]
  have "restored_name (tm_name r1) = strip (tm_name r)"
    unfolding restored_name_def r1(2) deleted_base_of_mark [OF assms(4,6,7)] using assms(5) by simp
  moreover have "template_restore_by_id w' env' (tm_id r1) db1 = (Inr t, db2)" using assms(9) same(1) by simp
  from restoration_unmarks [OF ok r1(1) _ this] same(3) assms(3)
  have "tm_name t = restored_name (tm_name r1) \<and> \<not> tm_deleted t \<and> frozen r1 t \<and> t \<in> set (tb_rows db2)" by simp
  ultimately show ?thesis using frozen_trans [OF r1(3)] by simp
qed

subsection \<open>Pages\<close>

text \<open>The pages of a listing are a partition of it: put together in order, from the first page to the
  last one announced, they give every selected template exactly once, in the listing's order.\<close>

theorem template_pages_tile_the_listing:
  assumes "list_templates w env user tenant (f\<lparr>lf_page := 1\<rparr>) db = Inr (items, pg)"
  shows "\<exists>rows. (if lf_latest_only f then latest_per_key [] (selected_templates w env user tenant f db)
        else Inr (selected_templates w env user tenant f db)) = Inr rows \<and>
    concat (map (\<lambda>p. case list_templates w env user tenant (f\<lparr>lf_page := p\<rparr>) db of Inr (items, _) \<Rightarrow> items | Inl _ \<Rightarrow> [])
        [1..pg_pages pg]) = ordered_templates f rows"
proof -
  have tags: "wanted_tags (f\<lparr>lf_page := p\<rparr>) = wanted_tags f" for p by (simp add: wanted_tags_def)
  have parts: "deletion_selected (f\<lparr>lf_page := p\<rparr>) t = deletion_selected f t" "tag_hit (f\<lparr>lf_page := p\<rparr>) t = tag_hit f t"
      "tenant_scope w user tenant (f\<lparr>lf_page := p\<rparr>) t = tenant_scope w user tenant f t"
      "column_filters env (f\<lparr>lf_page := p\<rparr>) t = column_filters env f t" for p t
    unfolding deletion_selected_def tag_hit_def tags tenant_scope_def column_filters_def search_hit_def by simp_all
  have sel: "selected_templates w env user tenant (f\<lparr>lf_page := p\<rparr>) db = selected_templates w env user tenant f db" for p
    by (simp only: selected_templates_def parts)
  obtain rows where rows: "(if lf_latest_only f then latest_per_key [] (selected_templates w env user tenant f db)
        else Inr (selected_templates w env user tenant f db)) = Inr rows"
    using assms by (auto simp: list_templates_def Let_def sel split: sum.splits)
  have ord: "ordered_templates (f\<lparr>lf_page := p\<rparr>) rows = ordered_templates f rows" for p
    unfolding ordered_templates_def Let_def by (cases "lf_sort_by f") simp_all
  have l: "list_templates w env user tenant (f\<lparr>lf_page := p\<rparr>) db = Inr (page_of p (lf_per_page f) (ordered_templates f rows))" for p
    using rows by (simp add: list_templates_def Let_def sel ord split: if_splits sum.splits)
  have "pg_pages pg = page_count (int (length (ordered_templates f rows))) (page_size (lf_per_page f))"
    using assms l [of 1] by (auto simp: page_of_def Let_def)
  then have "concat (map (\<lambda>p. fst (page_of p (lf_per_page f) (ordered_templates f rows))) [1..pg_pages pg]) = ordered_templates f rows"
    using pages_tile [of "lf_per_page f" "ordered_templates f rows"] by simp
  with rows show ?thesis by (simp add: l case_prod_beta)
qed

end
