(* ===== verification/Template_Witnesses.thy ===== *)
theory Template_Witnesses
  imports Access_Witnesses Template_Properties Template_Safety
begin

text \<open>
  The template properties on a small catalogue: two tenants, a published version with two diagrams and a
  draft that kept one of them, a public draft, and an administrator and an editor per tenant.
\<close>

definition demo_web :: "string \<Rightarrow> string \<Rightarrow> web" where
  "demo_web tenant role =
     \<lparr>wb_te = demo_te, wb_grants = None,
      wb_rs = (demo_request None)\<lparr>rs_user := Some (demo_actor [demo_group 1 (role_of tenant role)]),
        rs_claims := None, rs_tenant_id := Some tenant, rs_context := Some tenant\<rparr>\<rparr>"

definition demo_files :: store_env where
  "demo_files = \<lparr>se_configured = True, se_unwritable = (\<lambda>_. None), se_unreadable = (\<lambda>_. None)\<rparr>"

definition demo_template_env :: template_env where
  "demo_template_env = \<lparr>tx_now = 100, tx_stamp = ''20260101120000'', tx_files = demo_files,
     tx_refuses = (\<lambda>_. None), tx_unzip = (\<lambda>_. Inl ''no archive''), tx_ilike = (\<lambda>p s. False)\<rparr>"

definition demo_entry :: "string \<Rightarrow> file_entry" where
  "demo_entry name = \<lparr>fe_type = Some (file_type_from_filename name), fe_name = Some name\<rparr>"

definition demo_template :: "int \<Rightarrow> string \<Rightarrow> string \<Rightarrow> string \<Rightarrow> string list \<Rightarrow> bool \<Rightarrow> template" where
  "demo_template i tenant key version names published =
     \<lparr>tm_id = i, tm_key = key, tm_version = version, tm_name = '' Invoice approval'', tm_description = PNone,
      tm_tags = PNone, tm_category = PNone, tm_tenant = tenant, tm_visibility = PStr ''PUBLIC'',
      tm_files = map demo_entry names, tm_published = published,
      tm_status = PStr (if published then ''published'' else ''draft''), tm_deleted = False,
      tm_created_by = ''carl'', tm_modified_by = ''carl'', tm_created_at = 1, tm_updated_at = 1\<rparr>"

definition invoice :: template where
  "invoice = demo_template 1 ''t1'' ''invoice'' ''V1'' [''a.bpmn'', ''b.bpmn''] True"

definition invoice_draft :: template where
  "invoice_draft = demo_template 2 ''t1'' ''invoice'' ''V2'' [''a.bpmn''] False"

definition leave_draft :: template where
  "leave_draft = demo_template 3 ''t1'' ''leave'' ''V1'' [''a.bpmn''] False"

definition catalogue :: template_db where
  "catalogue = \<lparr>tb_rows = [invoice, invoice_draft, leave_draft], tb_seq = 3, tb_links = [],
     tb_store = (\<lambda>p. if p = (''t1'', ''invoice'', ''V1'', ''a.bpmn'') then Some ''old'' else None)\<rparr>"

lemma catalogue_ok: "table_ok (table_of catalogue)"
  by code_simp

lemma never_refused: "\<forall>row. tx_refuses demo_template_env row = None"
  by (simp add: demo_template_env_def)

definition after_update :: template_db where
  "after_update = snd (template_put_file (demo_web ''t1'' ''editor'') demo_template_env 1 ''a.bpmn'' ''new'' catalogue)"

lemma catalogue_history: "template_step\<^sup>*\<^sup>* catalogue after_update"
  unfolding after_update_def by (rule r_into_rtranclp) (rule putting_file)

theorem template_requests_refine_the_version_table_witness:
  "edit_step\<^sup>*\<^sup>* (table_of catalogue) (table_of after_update)"
  using template_requests_refine_the_version_table [OF catalogue_history] .

theorem published_versions_are_frozen_witness:
  "table_ok (table_of after_update) \<and> (\<exists>r' \<in> set (tb_rows after_update). frozen invoice r')"
proof -
  have "invoice \<in> set (tb_rows catalogue)" "tm_published invoice"
    by (simp add: catalogue_def) (simp add: invoice_def demo_template_def)
  with published_versions_are_frozen [OF catalogue_history catalogue_ok] show ?thesis by blast
qed

definition clashing_metadata :: template_metadata where
  "clashing_metadata = \<lparr>md_template_key = Some ''invoice'', md_name = Some ''Invoice'', md_description = PNone,
     md_category = PNone, md_tags = PNone, md_visibility = PStr ''PRIVATE'', md_status = PStr ''draft'',
     md_is_published = False, md_version = Some ''V1''\<rparr>"

theorem refused_creation_rewrites_published_files_witness:
  "get_file_content demo_template_env invoice ''a.bpmn'' catalogue = Inr ''old'' \<and>
   get_file_content demo_template_env invoice ''a.bpmn''
     (snd (template_create (demo_web ''t1'' ''editor'') demo_template_env clashing_metadata [(''a.bpmn'', ''forged'')] catalogue))
     = Inr ''forged''"
proof -
  let ?w = "demo_web ''t1'' ''editor''"
  have r: "invoice \<in> set (tb_rows catalogue)" by (simp add: catalogue_def)
  have h1: "tm_published invoice" "named ''a.bpmn'' (demo_entry ''a.bpmn'')" "demo_entry ''a.bpmn'' \<in> set (tm_files invoice)"
    by (simp_all add: invoice_def demo_template_def named_def demo_entry_def)
  have u: "g_user ?w = Some (demo_actor [demo_group 1 (role_of ''t1'' ''editor'')])"
    by (simp add: g_user_def demo_web_def)
  have h2: "\<not> is_super_admin_request (wb_rs ?w)" "g_tenant ?w = Some (tm_tenant invoice)" "tm_tenant invoice \<noteq> []"
      "md_template_key clashing_metadata = Some (tm_key invoice)" "tm_key invoice \<noteq> []"
      "md_version clashing_metadata = Some (tm_version invoice)" "tm_version invoice \<noteq> []"
      "md_name clashing_metadata = Some ''Invoice''" "''Invoice'' \<noteq> []"
      "validate_template_name (PStr ''Invoice'') = None" "''a.bpmn'' \<noteq> []" "file_type_from_filename ''a.bpmn'' = ''bpmn''"
      "''forged'' \<noteq> []"
      "file_path (tx_files demo_template_env) (tm_tenant invoice) (tm_key invoice) (tm_version invoice) ''a.bpmn''
         = Inr (''t1'', ''invoice'', ''V1'', ''a.bpmn'')"
    by code_simp+
  have h3: "se_unwritable (tx_files demo_template_env) (''t1'', ''invoice'', ''V1'', ''a.bpmn'') = None"
      "se_unreadable (tx_files demo_template_env) (''t1'', ''invoice'', ''V1'', ''a.bpmn'') = None"
    by (simp_all add: demo_template_env_def demo_files_def)
  have "get_file_content demo_template_env invoice ''a.bpmn'' catalogue = Inr ''old''" by code_simp
  with refused_creation_rewrites_published_files [OF r h1 u h2 h3] show ?thesis by blast
qed

theorem deleting_through_a_published_version_can_empty_the_draft_witness:
  "\<exists>t' db'. template_delete_file (demo_web ''t1'' ''editor'') demo_template_env 1 ''a.bpmn'' catalogue = (Inr t', db') \<and>
     tm_id t' = 2 \<and> tm_files t' = []"
proof -
  let ?w = "demo_web ''t1'' ''editor''"
  have h: "get_template_by_id ?w 1 (g_user ?w) False catalogue = Some invoice" "tm_published invoice"
      "\<not> is_super_admin_request (wb_rs ?w)" "existing_draft invoice catalogue = Some invoice_draft"
      "\<forall>e \<in> set (tm_files invoice_draft). named ''a.bpmn'' e" "tm_files invoice_draft \<noteq> []"
      "list_ex (named ''a.bpmn'') (tm_files invoice)"
      "list_ex (\<lambda>e. is_bpmn_entry e \<and> \<not> named ''a.bpmn'' e) (tm_files invoice)" "tm_id invoice_draft = 2"
    by code_simp+
  from deleting_through_a_published_version_can_empty_the_draft [OF h(1-8) never_refused] h(9)
  show ?thesis by metis
qed

theorem file_upload_skips_the_edit_check_witness:
  "\<not> can_edit (demo_web ''t2'' ''editor'') leave_draft (g_user (demo_web ''t2'' ''editor'')) \<and>
   fst (template_put_file (demo_web ''t2'' ''editor'') demo_template_env 3 ''a.bpmn'' ''forged'' catalogue) = Inr leave_draft"
proof -
  let ?w = "demo_web ''t2'' ''editor''"
  have h: "get_template_by_id ?w 3 (g_user ?w) False catalogue = Some leave_draft" "\<not> can_edit ?w leave_draft (g_user ?w)"
      "\<not> is_super_admin_request (wb_rs ?w)" "\<not> tm_published leave_draft" "list_ex (named ''a.bpmn'') (tm_files leave_draft)"
      "''forged'' \<noteq> []"
      "file_path (tx_files demo_template_env) (tm_tenant leave_draft) (tm_key leave_draft) (tm_version leave_draft) ''a.bpmn''
         = Inr (''t1'', ''leave'', ''V1'', ''a.bpmn'')"
    by code_simp+
  have p: "se_unwritable (tx_files demo_template_env) (''t1'', ''leave'', ''V1'', ''a.bpmn'') = None"
    by (simp add: demo_template_env_def demo_files_def)
  from file_upload_skips_the_edit_check [OF h p] h(2) show ?thesis by simp
qed

theorem foreign_admin_deletes_public_templates_witness:
  "\<exists>r \<in> set (tb_rows (snd (template_delete_by_id (demo_web ''t2'' ''tenant-admin'') demo_template_env 1 catalogue))).
     tm_id r = 1 \<and> tm_deleted r"
proof -
  let ?w = "demo_web ''t2'' ''tenant-admin''"
  have h: "get_template_by_id ?w 1 (g_user ?w) True catalogue = Some invoice" "\<not> tm_deleted invoice" "tm_published invoice"
      "\<not> is_super_admin_request (wb_rs ?w)" "has_admin_permission ?w (g_user ?w) ''delete''"
      "g_tenant ?w \<noteq> Some (tm_tenant invoice)"
    by code_simp+
  from foreign_admin_deletes_public_templates [OF h never_refused] show ?thesis by blast
qed

theorem listing_agrees_with_viewing_witness:
  "can_view (demo_web ''t2'' ''editor'') invoice (g_user (demo_web ''t2'' ''editor'')) \<and>
   visible_in_queries (demo_web ''t2'' ''editor'') (g_user (demo_web ''t2'' ''editor'')) invoice"
proof -
  have "is_public invoice \<or> is_tenant_visible invoice \<or> is_private invoice" by code_simp
  moreover have "can_view (demo_web ''t2'' ''editor'') invoice (g_user (demo_web ''t2'' ''editor''))" by code_simp
  ultimately show ?thesis using listing_agrees_with_viewing by blast
qed

theorem next_version_is_fresh_and_newest_witness:
  "next_version ''invoice'' ''t1'' catalogue = Inr ''V3'' \<and> tm_version invoice_draft \<noteq> ''V3''"
proof -
  have n: "next_version ''invoice'' ''t1'' catalogue = Inr ''V3''" by code_simp
  have m: "invoice_draft \<in> set (versions_of ''invoice'' ''t1'' catalogue)" by code_simp
  from next_version_is_fresh_and_newest [OF n m] n show ?thesis by blast
qed

definition odd_catalogue :: template_db where
  "odd_catalogue = catalogue\<lparr>tb_rows := [invoice, demo_template 4 ''t1'' ''invoice'' [CHR ''V'', CHR 0xB2] [''a.bpmn''] True]\<rparr>"

theorem superscript_version_blocks_the_template_witness:
  "\<exists>e. fst (get_or_create_draft_version (demo_web ''t1'' ''editor'') demo_template_env invoice odd_catalogue) = Inl (Raised e)"
proof -
  let ?odd = "demo_template 4 ''t1'' ''invoice'' [CHR ''V'', CHR 0xB2] [''a.bpmn''] True"
  have h: "?odd \<in> set (versions_of (tm_key invoice) (tm_tenant invoice) odd_catalogue)"
      "strip (tm_version ?odd) = [CHR ''V'', CHR 0xB2]" "existing_draft invoice odd_catalogue = None"
    by code_simp+
  from superscript_version_blocks_the_template [OF h] show ?thesis by (metis fst_conv)
qed

theorem template_files_stay_in_the_store_witness:
  "''a.bpmn'' \<notin> {[], ''.'', ''..''}"
proof -
  have s: "template_step catalogue after_update" unfolding after_update_def by (rule putting_file)
  have n: "tb_store after_update (''t1'', ''invoice'', ''V2'', ''a.bpmn'') \<noteq> tb_store catalogue (''t1'', ''invoice'', ''V2'', ''a.bpmn'')"
    by code_simp
  from template_files_stay_in_the_store [OF s n, of "''a.bpmn''"] show ?thesis by blast
qed

definition deleted_catalogue :: template_db where
  "deleted_catalogue = snd (template_delete_by_id (demo_web ''t1'' ''tenant-admin'') demo_template_env 1 catalogue)"

theorem restoring_undoes_deleting_witness:
  "\<exists>t db2. template_restore_by_id (demo_web ''t1'' ''tenant-admin'') demo_template_env 1 deleted_catalogue = (Inr t, db2) \<and>
     tm_name t = ''Invoice approval''"
proof -
  let ?w = "demo_web ''t1'' ''tenant-admin''"
  have r: "invoice \<in> set (tb_rows catalogue)" by (simp add: catalogue_def)
  have h: "tm_published invoice" "CHR 0x0A \<notin> set (tm_name invoice)" "strip (tm_name invoice) \<noteq> []"
      "length (tx_stamp demo_template_env) = 14" "list_all is_digit (tx_stamp demo_template_env)"
    by code_simp+
  have "fst (template_delete_by_id ?w demo_template_env (tm_id invoice) catalogue) = Inr ()" by code_simp
  then have d: "template_delete_by_id ?w demo_template_env (tm_id invoice) catalogue = (Inr (), deleted_catalogue)"
    unfolding deleted_catalogue_def by (metis demo_template_def invoice_def prod.collapse template.select_convs(1))
  have "case fst (template_restore_by_id ?w demo_template_env (tm_id invoice) deleted_catalogue) of Inr _ \<Rightarrow> True | Inl _ \<Rightarrow> False"
    by code_simp
  then obtain t db2 where t: "template_restore_by_id ?w demo_template_env (tm_id invoice) deleted_catalogue = (Inr t, db2)"
    by (cases "template_restore_by_id ?w demo_template_env (tm_id invoice) deleted_catalogue") (auto split: sum.splits)
  have e: "strip (tm_name invoice) = ''Invoice approval''" "tm_id invoice = 1" by code_simp+
  from restoring_undoes_deleting [OF catalogue_ok r h d t] t show ?thesis unfolding e by blast
qed

definition demo_filter :: template_filter where
  "demo_filter = \<lparr>lf_tenant = None, lf_latest_only = True, lf_category = None, lf_tag = None, lf_owner = None,
     lf_visibility = None, lf_search = None, lf_template_key = None, lf_published_only = False,
     lf_include_deleted = False, lf_deleted_only = False, lf_sort_by = Some ''name'', lf_order = ''desc'',
     lf_page = 1, lf_per_page = 1\<rparr>"

theorem template_pages_tile_the_listing_witness:
  "\<exists>pg. (\<exists>items. list_templates (demo_web ''t2'' ''editor'') demo_template_env (g_user (demo_web ''t2'' ''editor'')) None
       demo_filter catalogue = Inr (items, pg)) \<and>
     length (concat (map (\<lambda>p. case list_templates (demo_web ''t2'' ''editor'') demo_template_env
       (g_user (demo_web ''t2'' ''editor'')) None (demo_filter\<lparr>lf_page := p\<rparr>) catalogue of
         Inr (items, _) \<Rightarrow> items | Inl _ \<Rightarrow> []) [1..pg_pages pg])) = 2"
proof -
  let ?w = "demo_web ''t2'' ''editor''"
  let ?l = "list_templates ?w demo_template_env (g_user ?w) None demo_filter catalogue"
  have "case ?l of Inr _ \<Rightarrow> True | Inl _ \<Rightarrow> False" by code_simp
  then obtain items pg where l: "?l = Inr (items, pg)" by (cases ?l) auto
  have f: "demo_filter\<lparr>lf_page := 1\<rparr> = demo_filter" by (simp add: demo_filter_def)
  have rows: "latest_per_key [] (selected_templates ?w demo_template_env (g_user ?w) None demo_filter catalogue)
      = Inr [invoice_draft, leave_draft]" "lf_latest_only demo_filter"
    "length (ordered_templates demo_filter [invoice_draft, leave_draft]) = 2"
    by code_simp+
  from template_pages_tile_the_listing [of ?w demo_template_env "g_user ?w" None demo_filter catalogue items pg] l rows
  have "length (concat (map (\<lambda>p. case list_templates ?w demo_template_env (g_user ?w) None (demo_filter\<lparr>lf_page := p\<rparr>) catalogue of
      Inr (items, _) \<Rightarrow> items | Inl _ \<Rightarrow> []) [1..pg_pages pg])) = 2" unfolding f by auto
  with l show ?thesis by blast
qed

end
