(* ===== verification/Redaction.thy ===== *)
theory Redaction
  imports Py_Value
begin

text \<open>
  Python's backtracking regular expressions (\<open>re\<close>), as far as the code uses them: the matches of a
  pattern at a position are a list in the order in which the engine tries them, so that its answer is
  the first one. A position is what was read, reversed, what is left, and the text of the groups.
\<close>

record spot =
  sp_before :: string
  sp_rest :: string
  sp_groups :: "(nat \<times> string) list"

datatype rx =
    One "char \<Rightarrow> bool"
  | Eps
  | Seq rx rx
  | Alt rx rx
  | Rep nat "nat option" rx  \<comment> \<open>greedy, at least and at most\<close>
  | Possessive rx
  | Group nat rx
  | Not_after "char \<Rightarrow> bool"
  | Word_edge
  | Text_end

definition word_char :: "char \<Rightarrow> bool" where
  "word_char c \<longleftrightarrow> (let n = code_point c in
     is_alpha c \<or> is_digit c \<or> c = CHR ''_'' \<or> n \<in> {170, 178, 179, 181, 185, 186, 188, 189, 190} \<or>
     (192 \<le> n \<and> n \<noteq> 215 \<and> n \<noteq> 247))"

fun rep_matches :: "(spot \<Rightarrow> spot list) \<Rightarrow> nat \<Rightarrow> nat \<Rightarrow> spot \<Rightarrow> spot list" where
  "rep_matches f least 0 s = (if least = 0 then [s] else [])"
| "rep_matches f least (Suc most) s =
     concat (map (rep_matches f (least - 1) most) (f s)) @ (if least = 0 then [s] else [])"

text \<open>The unbounded repetitions of the code repeat patterns that consume, so that the length of what is
  left bounds them. \<open>$\<close> also matches before a newline that ends the text.\<close>

fun matches :: "rx \<Rightarrow> spot \<Rightarrow> spot list" where
  "matches (One p) s =
     (case sp_rest s of
        [] \<Rightarrow> []
      | c # cs \<Rightarrow> (if p c then [s\<lparr>sp_before := c # sp_before s, sp_rest := cs\<rparr>] else []))"
| "matches Eps s = [s]"
| "matches (Seq a b) s = concat (map (matches b) (matches a s))"
| "matches (Alt a b) s = matches a s @ matches b s"
| "matches (Rep least most r) s = rep_matches (matches r) least (or_default most (length (sp_rest s))) s"
| "matches (Possessive r) s = take 1 (matches r s)"
| "matches (Group k r) s =
     map (\<lambda>t. t\<lparr>sp_groups := (k, take (length (sp_rest s) - length (sp_rest t)) (sp_rest s)) # sp_groups t\<rparr>)
       (matches r s)"
| "matches (Not_after p) s = (case sp_before s of [] \<Rightarrow> [s] | c # _ \<Rightarrow> if p c then [] else [s])"
| "matches Word_edge s =
     (let before = (case sp_before s of [] \<Rightarrow> False | c # _ \<Rightarrow> word_char c);
          after = (case sp_rest s of [] \<Rightarrow> False | c # _ \<Rightarrow> word_char c)
      in if before \<noteq> after then [s] else [])"
| "matches Text_end s = (if sp_rest s = [] \<or> sp_rest s = [CHR 0x0A] then [s] else [])"

definition group_text :: "spot \<Rightarrow> nat \<Rightarrow> string" where
  "group_text s k = or_default (map_of (sp_groups s) k) []"

fun seqs :: "rx list \<Rightarrow> rx" where
  "seqs [] = Eps"
| "seqs [r] = r"
| "seqs (r # rs) = Seq r (seqs rs)"

fun alts :: "rx list \<Rightarrow> rx" where
  "alts [] = Rep 1 (Some 0) Eps"
| "alts [r] = r"
| "alts (r # rs) = Alt r (alts rs)"

definition word :: "string \<Rightarrow> rx" where
  "word text = seqs (map (\<lambda>c. One (\<lambda>x. x = c)) text)"

text \<open>With \<open>IGNORECASE\<close>.\<close>

definition iword :: "string \<Rightarrow> rx" where
  "iword text = seqs (map (\<lambda>c. One (\<lambda>x. lower_char x = lower_char c)) text)"

definition optional :: "rx \<Rightarrow> rx" where "optional r = Rep 0 (Some 1) r"

subsection \<open>Search and substitution\<close>

definition spot_at :: "string \<Rightarrow> string \<Rightarrow> spot" where
  "spot_at before rest = \<lparr>sp_before = before, sp_rest = rest, sp_groups = []\<rparr>"

text \<open>\<open>pattern.search(text)\<close>.\<close>

fun search_from :: "rx \<Rightarrow> string \<Rightarrow> string \<Rightarrow> spot option" where
  "search_from r before [] = (case matches r (spot_at before []) of [] \<Rightarrow> None | m # _ \<Rightarrow> Some m)"
| "search_from r before (c # cs) =
     (case matches r (spot_at before (c # cs)) of [] \<Rightarrow> search_from r (c # before) cs | m # _ \<Rightarrow> Some m)"

definition searches :: "rx \<Rightarrow> string \<Rightarrow> bool" where
  "searches r text \<longleftrightarrow> search_from r [] text \<noteq> None"

text \<open>\<open>pattern.sub(f, text)\<close> for a pattern that matches no empty text: a match that consumes nothing is
  passed over.\<close>

function sub_from :: "rx \<Rightarrow> (spot \<Rightarrow> string) \<Rightarrow> string \<Rightarrow> string \<Rightarrow> string" where
  "sub_from r f before [] = []"
| "sub_from r f before (c # cs) =
     (case matches r (spot_at before (c # cs)) of
        m # _ \<Rightarrow> (if length (sp_rest m) < length (c # cs) then f m @ sub_from r f (sp_before m) (sp_rest m)
                 else c # sub_from r f (c # before) cs)
      | [] \<Rightarrow> c # sub_from r f (c # before) cs)"
  by pat_completeness auto
termination by (relation "measure (\<lambda>(r, f, before, rest). length rest)") auto

definition re_sub :: "rx \<Rightarrow> (spot \<Rightarrow> string) \<Rightarrow> string \<Rightarrow> string" where
  "re_sub r f text = sub_from r f [] text"

subsection \<open>What a match is\<close>

text \<open>A match reads a prefix of what is left.\<close>

definition advances :: "spot \<Rightarrow> spot \<Rightarrow> bool" where
  "advances s t \<longleftrightarrow> (\<exists>read. sp_rest s = read @ sp_rest t \<and> sp_before t = rev read @ sp_before s)"

lemma advances_refl: "advances s s" by (auto simp: advances_def)

lemma advances_trans: "advances s t \<Longrightarrow> advances t u \<Longrightarrow> advances s u"
  unfolding advances_def by (metis append.assoc rev_append)

lemma rep_matches_advance:
  assumes "\<And>s t. t \<in> set (f s) \<Longrightarrow> advances s t"
  shows "t \<in> set (rep_matches f least most s) \<Longrightarrow> advances s t"
proof (induction most arbitrary: least s t)
  case (Suc most)
  from Suc.prems consider (more) u where "u \<in> set (f s)" "t \<in> set (rep_matches f (least - 1) most u)" | (stop) "t = s"
    by (auto split: if_splits)
  then show ?case
  proof cases
    case more
    from more(1) have "advances s u" by (rule assms)
    moreover from more Suc.IH have "advances u t" by blast
    ultimately show ?thesis by (rule advances_trans)
  qed (simp add: advances_refl)
qed (auto split: if_splits intro: advances_refl)

lemma matches_advance: "t \<in> set (matches r s) \<Longrightarrow> advances s t"
proof (induction r arbitrary: s t)
  case (One p)
  then show ?case by (auto simp: advances_def split: list.splits if_splits)
next
  case (Seq a b)
  from Seq.prems obtain u where "u \<in> set (matches a s)" "t \<in> set (matches b u)" by auto
  then show ?case using Seq.IH advances_trans by blast
next
  case (Rep least most r)
  then show ?case using rep_matches_advance [of "matches r"] by auto
next
  case (Possessive r)
  then show ?case by (auto dest: in_set_takeD)
next
  case (Group k r)
  then show ?case by (force simp: advances_def)
qed (auto simp: advances_refl Let_def split: list.splits if_splits)

lemma rep_One_first:
  assumes "least \<le> length (takeWhile p (sp_rest s))" "length (takeWhile p (sp_rest s)) \<le> most"
  shows "\<exists>others. rep_matches (matches (One p)) least most s
       = s\<lparr>sp_before := rev (takeWhile p (sp_rest s)) @ sp_before s, sp_rest := dropWhile p (sp_rest s)\<rparr> # others"
  using assms
proof (induction most arbitrary: least s)
  case (Suc most)
  show ?case
  proof (cases "sp_rest s")
    case (Cons c cs)
    show ?thesis
    proof (cases "p c")
      case True
      let ?t = "s\<lparr>sp_before := c # sp_before s, sp_rest := cs\<rparr>"
      from Suc.prems Cons True have "least - 1 \<le> length (takeWhile p (sp_rest ?t))"
        "length (takeWhile p (sp_rest ?t)) \<le> most" by simp_all
      from Suc.IH [OF this] show ?thesis using Cons True by auto
    qed (use Suc.prems Cons in simp)
  qed (use Suc.prems in simp)
next
  case 0
  then have stuck: "takeWhile p (sp_rest s) = []" "least = 0" by simp_all
  have same: "dropWhile p (sp_rest s) = sp_rest s"
    using stuck(1) by (metis append_Nil takeWhile_dropWhile_id)
  show ?case unfolding stuck same by simp
qed

text \<open>
  Redaction of credentials in what operators are shown (services/nats_monitoring_service.py,
  \<open>redact_secrets\<close> and below). The regular expressions are those of the module, term by term. The
  JSON library is an argument; the ellipsis that marks a shortened text is beyond the characters of
  the model, so a shortened text is paired with a flag.
\<close>

definition dash_or_underscore :: "char \<Rightarrow> bool" where
  "dash_or_underscore c \<longleftrightarrow> c = CHR ''_'' \<or> c = CHR ''-''"

definition SECRET_NAME :: rx where
  "SECRET_NAME = alts
     [seqs [iword ''api'', optional (One dash_or_underscore), iword ''key''],
      iword ''token'',
      seqs [iword ''passw'', optional (iword ''or''), iword ''d''],
      iword ''secret'', iword ''authorization'', iword ''credential'',
      seqs [iword ''private'', optional (One dash_or_underscore), iword ''key''],
      seqs [Not_after is_alpha, iword ''reference'', optional (One dash_or_underscore), iword ''id'', optional (iword ''s'')]]"

definition secret_name :: "string \<Rightarrow> bool" where
  "secret_name key \<longleftrightarrow> searches SECRET_NAME key"

definition is_char :: "char \<Rightarrow> char \<Rightarrow> bool" where "is_char c x \<longleftrightarrow> x = c"

definition none_of :: "string \<Rightarrow> char \<Rightarrow> bool" where "none_of cs x \<longleftrightarrow> x \<notin> set cs"

definition DQ :: char where "DQ = CHR 0x22"
definition SQ :: char where "SQ = CHR 0x27"
definition BACKSLASH :: char where "BACKSLASH = CHR 0x5C"

definition spaces :: "nat \<Rightarrow> nat \<Rightarrow> rx" where
  "spaces least most = Rep least (Some most) (One py_space)"

text \<open>The characters of a quoted string: any but the quote and the backslash, or a backslash with what
  follows it.\<close>

definition quoted_body :: "char \<Rightarrow> (char \<Rightarrow> bool) \<Rightarrow> rx" where
  "quoted_body quote dot =
     Rep 0 None (Alt (One (none_of [quote, BACKSLASH])) (Seq (One (is_char BACKSLASH)) (One dot)))"

definition any_char :: "char \<Rightarrow> bool" where "any_char c \<longleftrightarrow> True"
definition not_newline :: "char \<Rightarrow> bool" where "not_newline c \<longleftrightarrow> c \<noteq> CHR 0x0A"

definition SECRET_FIELD :: rx where
  "SECRET_FIELD = seqs
     [Group 1 (seqs
        [One (is_char DQ), Rep 0 (Some 64) (One (none_of [DQ])), SECRET_NAME, Rep 0 (Some 64) (One (none_of [DQ])),
         One (is_char DQ), spaces 0 16, One (is_char CHR '':''), spaces 0 16]),
      alts
        [seqs [One (is_char DQ), quoted_body DQ any_char, Alt (One (is_char DQ)) Text_end],
         seqs [One (\<lambda>c. c = CHR ''['' \<or> c = CHR ''{''), Rep 0 None (One any_char)],
         Rep 1 None (One (\<lambda>c. \<not> py_space c \<and> none_of '',}]'' c))]]"

definition lower_hex :: "char \<Rightarrow> bool" where
  "lower_hex c \<longleftrightarrow> is_digit c \<or> (97 \<le> code_point c \<and> code_point c \<le> 102)"

definition key_char :: "char \<Rightarrow> bool" where
  "key_char c \<longleftrightarrow> word_char c \<or> c = CHR ''-''"

definition M8FLOW_API_KEY :: rx where
  "M8FLOW_API_KEY = seqs
     [word ''m8f_'', Possessive (Rep 1 None (One lower_hex)), One (is_char CHR ''.''), Rep 1 None (One key_char)]"

definition secret_name_char :: "char \<Rightarrow> bool" where
  "secret_name_char c \<longleftrightarrow> word_char c \<or> c = CHR ''.'' \<or> c = CHR ''-''"

definition a_quote :: "char \<Rightarrow> bool" where
  "a_quote c \<longleftrightarrow> c = DQ \<or> c = SQ"

definition SECRET_PAIR :: rx where
  "SECRET_PAIR = seqs
     [Group 1 (seqs
        [Not_after secret_name_char, optional (One a_quote), Rep 0 (Some 64) (One secret_name_char), SECRET_NAME,
         Rep 0 (Some 64) (One secret_name_char), optional (One a_quote), spaces 0 16,
         One (\<lambda>c. c = CHR '':'' \<or> c = CHR ''=''), spaces 0 16]),
      Group 2 (seqs
        [optional (seqs [alts [iword ''bearer'', iword ''basic'', iword ''digest'', iword ''token''], spaces 1 8]),
         alts
           [seqs [One (is_char DQ), quoted_body DQ not_newline, optional (One (is_char DQ))],
            seqs [One (is_char SQ), quoted_body SQ not_newline, optional (One (is_char SQ))],
            Rep 1 None (One (\<lambda>c. \<not> py_space c \<and> none_of ([DQ, SQ] @ '',;&)}]'') c))]])]"

definition BEARER :: rx where
  "BEARER = seqs
     [Word_edge, Group 1 (iword ''bearer''), spaces 1 8,
      Rep 1 None (One (\<lambda>c. word_char c \<or> c \<in> set ''-.~+/'')), Rep 0 None (One (is_char CHR ''=''))]"

definition password_scheme_char :: "char \<Rightarrow> bool" where
  "password_scheme_char c \<longleftrightarrow> word_char c \<or> c \<in> set ''+.-''"

definition URL_PASSWORD :: rx where
  "URL_PASSWORD = seqs
     [Not_after password_scheme_char,
      Group 1 (seqs [One word_char, Rep 0 (Some 31) (One password_scheme_char), word ''://'']),
      Group 2 (Possessive (Rep 0 (Some 256) (One (\<lambda>c. none_of '':/@'' c \<and> \<not> py_space c)))),
      One (is_char CHR '':''),
      Group 3 (Possessive (Rep 1 (Some 256) (One (\<lambda>c. none_of ''@/'' c \<and> \<not> py_space c)))),
      One (is_char CHR ''@'')]"

subsection \<open>The functions\<close>

definition mask_pair :: "spot \<Rightarrow> string" where
  "mask_pair m =
     (let quote = hd (group_text m 2) in
      group_text m 1 @ (if a_quote quote then [quote] @ ''[redacted]'' @ [quote] else ''[redacted]''))"

definition redact_text :: "string \<Rightarrow> string" where
  "redact_text text =
     (let pairs = re_sub SECRET_PAIR mask_pair text;
          bearers = re_sub BEARER (\<lambda>m. group_text m 1 @ '' [redacted]'') pairs
      in re_sub URL_PASSWORD (\<lambda>m. group_text m 1 @ group_text m 2 @ '':[redacted]@'') bearers)"

fun redact_fields :: "pyval \<Rightarrow> pyval" where
  "redact_fields (PDict d) =
     PDict (map (\<lambda>(k, v). (k, if secret_name k then PStr ''[redacted]'' else redact_fields v)) d)"
| "redact_fields (PList xs) = PList (map redact_fields xs)"
| "redact_fields (PStr s) = PStr (redact_text s)"
| "redact_fields v = v"

text \<open>The JSON library. \<open>js_loads\<close> is \<open>None\<close> for a text that is not JSON or is nested too deep to walk;
  \<open>js_chunks\<close> is what \<open>iterencode\<close> yields.\<close>

record json_lib =
  js_loads :: "string \<Rightarrow> pyval option"
  js_dumps :: "pyval \<Rightarrow> string"
  js_chunks :: "pyval \<Rightarrow> string list"

text \<open>\<open>redacted != parsed\<close>: a NaN differs from itself.\<close>

definition json_differs :: "pyval \<Rightarrow> pyval \<Rightarrow> bool" where
  "json_differs redacted parsed \<longleftrightarrow> redacted \<noteq> parsed \<or> parsed = PFloat ''nan''"

definition redact_api_keys :: "string \<Rightarrow> string" where
  "redact_api_keys text = re_sub M8FLOW_API_KEY (\<lambda>m. ''[redacted]'') text"

definition redact_secrets :: "json_lib \<Rightarrow> string \<Rightarrow> string" where
  "redact_secrets js text =
     redact_api_keys
       (case js_loads js text of
          Some parsed \<Rightarrow>
            (let redacted = redact_fields parsed in
             if json_differs redacted parsed then js_dumps js redacted else text)
        | None \<Rightarrow> redact_text (re_sub SECRET_FIELD (\<lambda>m. group_text m 1 @ [DQ] @ ''[redacted]'' @ [DQ]) text))"

fun json_prefix_parts :: "nat \<Rightarrow> nat \<Rightarrow> string list \<Rightarrow> string list" where
  "json_prefix_parts limit read [] = []"
| "json_prefix_parts limit read (chunk # chunks) =
     chunk # (if limit \<le> read + length chunk then [] else json_prefix_parts limit (read + length chunk) chunks)"

definition json_prefix :: "json_lib \<Rightarrow> pyval \<Rightarrow> nat \<Rightarrow> string" where
  "json_prefix js v limit = take limit (concat (json_prefix_parts limit 0 (js_chunks js v)))"

definition redact_bounded :: "json_lib \<Rightarrow> pyval \<Rightarrow> nat \<Rightarrow> string \<times> bool" where
  "redact_bounded js v cap =
     (let budget = 2 * cap;
          raw = (case v of PStr s \<Rightarrow> take (budget + 1) s | _ \<Rightarrow> json_prefix js v (budget + 1));
          shortened = budget < length raw;
          text = redact_secrets js (take budget raw)
      in if shortened \<or> cap < length text then (take cap text, True) else (text, False))"

end
