(* ===== verification/Task_History.thy ===== *)
theory Task_History
  imports Redaction Active_Tenant Api_Keys
begin

text \<open>
  The history of background tasks (services/celery_task_history_service.py, models/celery_task.py):
  the recorder that the workers' task signals call. Moments and durations are microseconds. The
  process state is the counter of writes and the tasks being timed; the table is shared with the
  other processes. What the database refuses is an argument, as are the clock and the JSON library.
\<close>

datatype celery_task_state = TASK_RECEIVED | TASK_STARTED | TASK_SUCCESS | TASK_FAILURE | TASK_RETRY | TASK_REVOKED

fun state_value :: "celery_task_state \<Rightarrow> string" where
  "state_value TASK_RECEIVED = ''RECEIVED''"
| "state_value TASK_STARTED = ''STARTED''"
| "state_value TASK_SUCCESS = ''SUCCESS''"
| "state_value TASK_FAILURE = ''FAILURE''"
| "state_value TASK_RETRY = ''RETRY''"
| "state_value TASK_REVOKED = ''REVOKED''"

definition FINISHED_STATES :: "string list" where
  "FINISHED_STATES = [state_value TASK_SUCCESS, state_value TASK_FAILURE, state_value TASK_REVOKED]"

type_synonym clipped = "string \<times> bool"  \<comment> \<open>the text, and whether an ellipsis follows\<close>

record celery_task =
  ct_task_id :: string
  ct_name :: "string option"
  ct_state :: string
  ct_worker :: "string option"
  ct_queue :: "string option"
  ct_tenant :: "string option"
  ct_args :: "clipped option"
  ct_kwargs :: "clipped option"
  ct_result :: "clipped option"
  ct_exception :: "clipped option"
  ct_traceback :: "clipped option"
  ct_retries :: int
  ct_eta :: "string option"
  ct_expires :: "string option"
  ct_parent_id :: "string option"
  ct_root_id :: "string option"
  ct_received_at :: "int option"
  ct_started_at :: "int option"
  ct_finished_at :: "int option"
  ct_runtime :: "int option"
  ct_updated_at :: int

text \<open>The keyword arguments of \<open>record\<close>. \<open>None\<close> is a column the write leaves alone.\<close>

record task_values =
  tv_name :: "string option"
  tv_state :: "string option"
  tv_worker :: "string option"
  tv_queue :: "string option"
  tv_tenant :: "string option"
  tv_args :: "clipped option"
  tv_kwargs :: "clipped option"
  tv_result :: "clipped option"
  tv_exception :: "clipped option"
  tv_traceback :: "clipped option"
  tv_retries :: "int option"
  tv_eta :: "string option"
  tv_expires :: "string option"
  tv_parent_id :: "string option"
  tv_root_id :: "string option"
  tv_received_at :: "int option"
  tv_started_at :: "int option"
  tv_finished_at :: "int option"
  tv_runtime :: "int option"

definition no_values :: task_values where
  "no_values = \<lparr>tv_name = None, tv_state = None, tv_worker = None, tv_queue = None, tv_tenant = None,
     tv_args = None, tv_kwargs = None, tv_result = None, tv_exception = None, tv_traceback = None,
     tv_retries = None, tv_eta = None, tv_expires = None, tv_parent_id = None, tv_root_id = None,
     tv_received_at = None, tv_started_at = None, tv_finished_at = None, tv_runtime = None\<rparr>"

definition ARGS_MAX_CHARS :: nat where "ARGS_MAX_CHARS = 2000"
definition RESULT_MAX_CHARS :: nat where "RESULT_MAX_CHARS = 2000"
definition EXCEPTION_MAX_CHARS :: nat where "EXCEPTION_MAX_CHARS = 2000"
definition TRACEBACK_MAX_CHARS :: nat where "TRACEBACK_MAX_CHARS = 10000"
definition MAX_STARTED :: nat where "MAX_STARTED = 10000"
definition PRUNE_EVERY :: int where "PRUNE_EVERY = 500"

text \<open>\<open>_KEEP_EXISTING.get(state)\<close>; the empty list where the dict has no entry.\<close>

definition KEEP_EXISTING :: "string \<Rightarrow> string list" where
  "KEEP_EXISTING st =
     (if st = state_value TASK_RECEIVED then state_value TASK_STARTED # FINISHED_STATES
      else if st = state_value TASK_STARTED \<or> st = state_value TASK_RETRY then FINISHED_STATES
      else [])"

subsection \<open>Configuration\<close>

definition env_truthy :: "string option \<Rightarrow> bool" where
  "env_truthy raw \<longleftrightarrow> lower (strip (or_default raw [])) \<in> {''true'', ''1'', ''yes'', ''on''}"

text \<open>The three settings, as the environment holds them.\<close>

definition celery_monitoring_enabled :: "string option \<Rightarrow> string option \<Rightarrow> bool" where
  "celery_monitoring_enabled monitoring celery =
     (case config_get monitoring of None \<Rightarrow> env_truthy (config_get celery) | Some raw \<Rightarrow> env_truthy (Some raw))"

definition celery_task_history_enabled :: "string option \<Rightarrow> string option \<Rightarrow> string option \<Rightarrow> bool" where
  "celery_task_history_enabled history monitoring celery =
     (case config_get history of
        None \<Rightarrow> celery_monitoring_enabled monitoring celery
      | Some raw \<Rightarrow> env_truthy (Some raw))"

definition celery_task_history_retention_days :: "string option \<Rightarrow> int" where
  "celery_task_history_retention_days setting =
     (case config_get setting of
        None \<Rightarrow> 7
      | Some raw \<Rightarrow> if raw = [] then 7 else or_default (py_int raw) 7)"

subsection \<open>The write\<close>

definition new_task_row :: "string \<Rightarrow> task_values \<Rightarrow> int \<Rightarrow> celery_task" where
  "new_task_row task_id v now =
     \<lparr>ct_task_id = task_id, ct_name = tv_name v, ct_state = or_default (tv_state v) (state_value TASK_STARTED),
      ct_worker = tv_worker v, ct_queue = tv_queue v, ct_tenant = tv_tenant v,
      ct_args = tv_args v, ct_kwargs = tv_kwargs v, ct_result = tv_result v,
      ct_exception = tv_exception v, ct_traceback = tv_traceback v, ct_retries = or_default (tv_retries v) 0,
      ct_eta = tv_eta v, ct_expires = tv_expires v, ct_parent_id = tv_parent_id v, ct_root_id = tv_root_id v,
      ct_received_at = tv_received_at v, ct_started_at = tv_started_at v, ct_finished_at = tv_finished_at v,
      ct_runtime = tv_runtime v, ct_updated_at = now\<rparr>"

definition set_values :: "task_values \<Rightarrow> int \<Rightarrow> celery_task \<Rightarrow> celery_task" where
  "set_values v now r =
     \<lparr>ct_task_id = ct_task_id r, ct_name = or_else (tv_name v) (ct_name r),
      ct_state = or_default (tv_state v) (ct_state r),
      ct_worker = or_else (tv_worker v) (ct_worker r), ct_queue = or_else (tv_queue v) (ct_queue r),
      ct_tenant = or_else (tv_tenant v) (ct_tenant r),
      ct_args = or_else (tv_args v) (ct_args r), ct_kwargs = or_else (tv_kwargs v) (ct_kwargs r),
      ct_result = or_else (tv_result v) (ct_result r), ct_exception = or_else (tv_exception v) (ct_exception r),
      ct_traceback = or_else (tv_traceback v) (ct_traceback r), ct_retries = or_default (tv_retries v) (ct_retries r),
      ct_eta = or_else (tv_eta v) (ct_eta r), ct_expires = or_else (tv_expires v) (ct_expires r),
      ct_parent_id = or_else (tv_parent_id v) (ct_parent_id r), ct_root_id = or_else (tv_root_id v) (ct_root_id r),
      ct_received_at = or_else (tv_received_at v) (ct_received_at r),
      ct_started_at = or_else (tv_started_at v) (ct_started_at r),
      ct_finished_at = or_else (tv_finished_at v) (ct_finished_at r),
      ct_runtime = or_else (tv_runtime v) (ct_runtime r), ct_updated_at = now\<rparr>"

text \<open>\<open>INSERT ... ON CONFLICT DO UPDATE\<close>, with the \<open>CASE\<close> expression on the state.\<close>

definition on_conflict :: "string list \<Rightarrow> task_values \<Rightarrow> int \<Rightarrow> celery_task \<Rightarrow> celery_task" where
  "on_conflict keep v now r =
     (let updated = set_values v now r in
      if keep \<noteq> [] then updated\<lparr>ct_state := if ct_state r \<in> set keep then ct_state r else ct_state updated\<rparr>
      else updated)"

definition upsert_native :: "string \<Rightarrow> task_values \<Rightarrow> string list \<Rightarrow> int \<Rightarrow> celery_task list \<Rightarrow> celery_task list" where
  "upsert_native task_id v keep now rows =
     (if list_ex (\<lambda>r. ct_task_id r = task_id) rows
      then update_where (\<lambda>r. ct_task_id r = task_id) (on_conflict keep v now) rows
      else rows @ [new_task_row task_id v now])"

definition upsert_portable :: "string \<Rightarrow> task_values \<Rightarrow> string list \<Rightarrow> int \<Rightarrow> celery_task list \<Rightarrow> celery_task list" where
  "upsert_portable task_id v keep now rows =
     (case find (\<lambda>r. ct_task_id r = task_id) rows of
        None \<Rightarrow> rows @ [new_task_row task_id v now]
      | Some row \<Rightarrow>
          (let kept = (if keep \<noteq> [] \<and> ct_state row \<in> set keep then v\<lparr>tv_state := None\<rparr> else v)
           in update_where (\<lambda>r. ct_task_id r = task_id) (set_values kept now) rows))"

definition native_insert :: "string \<Rightarrow> int \<times> int \<times> int \<Rightarrow> bool" where
  "native_insert dialect sqlite_version =
     (if dialect = ''postgresql'' then True
      else if dialect = ''sqlite''
      then (case sqlite_version of (major, minor, patch) \<Rightarrow> 3 < major \<or> major = 3 \<and> (24 < minor \<or> minor = 24 \<and> 0 \<le> patch))
      else False)"

record history_env =
  he_enabled :: bool
  he_dialect :: string
  he_sqlite :: "int \<times> int \<times> int"
  he_retention :: int
  he_now :: int
  he_perf :: int               \<comment> \<open>\<open>time.perf_counter()\<close>\<close>
  he_json :: json_lib
  he_upsert_fails :: bool      \<comment> \<open>connecting, or the statement\<close>
  he_prune_fails :: bool
  he_commit_fails :: bool

definition upsert :: "history_env \<Rightarrow> string \<Rightarrow> task_values \<Rightarrow> celery_task list \<Rightarrow> celery_task list" where
  "upsert he task_id v rows =
     (let keep = KEEP_EXISTING (or_default (tv_state v) []) in
      if native_insert (he_dialect he) (he_sqlite he) then upsert_native task_id v keep (he_now he) rows
      else upsert_portable task_id v keep (he_now he) rows)"

definition DAY :: int where "DAY = 86400 * 1000000"

text \<open>\<open>datetime.min\<close>; a retention that reaches further back raises.\<close>

definition EARLIEST_MOMENT :: int where "EARLIEST_MOMENT = - 62135596800 * 1000000"

definition prune_history :: "history_env \<Rightarrow> celery_task list \<Rightarrow> celery_task list option" where
  "prune_history he rows =
     (let days = he_retention he in
      if 0 < days
      then (if he_prune_fails he \<or> he_now he - days * DAY < EARLIEST_MOMENT then None
            else Some (filter (\<lambda>r. \<not> ct_updated_at r < he_now he - days * DAY) rows))
      else Some rows)"

record recorder =
  hr_rows :: "celery_task list"
  hr_writes :: int
  hr_started :: "(string \<times> int) list"

text \<open>\<open>record\<close>. A failure rolls the session back; the write is counted once the statement has run.\<close>

definition record_task :: "history_env \<Rightarrow> string option \<Rightarrow> task_values \<Rightarrow> recorder \<Rightarrow> recorder" where
  "record_task he task_id v rc =
     (if \<not> truthy_str task_id \<or> \<not> he_enabled he then rc
      else if he_upsert_fails he then rc
      else
        (let rows = upsert he (or_default task_id []) v (hr_rows rc);
             writes = hr_writes rc + 1;
             due = (writes mod PRUNE_EVERY = 0)
         in case (if due then prune_history he rows else Some rows) of
              None \<Rightarrow> rc\<lparr>hr_writes := writes\<rparr>
            | Some rows' \<Rightarrow>
                if he_commit_fails he then rc\<lparr>hr_writes := writes\<rparr>
                else rc\<lparr>hr_rows := rows', hr_writes := writes\<rparr>))"

subsection \<open>Signals\<close>

definition store_text :: "history_env \<Rightarrow> pyval \<Rightarrow> nat \<Rightarrow> clipped option" where
  "store_text he v cap = (if v = PNone then None else Some (redact_bounded (he_json he) v cap))"

text \<open>\<open>_iso\<close>; a \<open>datetime\<close> comes as its \<open>isoformat\<close>.\<close>

definition iso :: "string option \<Rightarrow> string option" where
  "iso v = (if truthy_str v then v else None)"

definition TENANT_SELECTION_HEADER_NAME :: string where
  "TENANT_SELECTION_HEADER_NAME = ''x-m8flow-tenant-id''"

definition tenant_id_from_celery_headers :: "pyval \<Rightarrow> string option" where
  "tenant_id_from_celery_headers headers =
     (case headers of
        PDict d \<Rightarrow>
          (let raw = (if dget d TENANT_SELECTION_HEADER_NAME \<noteq> PNone then dget d TENANT_SELECTION_HEADER_NAME
                      else case find (\<lambda>(k, v). py_lower k = TENANT_SELECTION_HEADER_NAME) d of
                             None \<Rightarrow> PNone | Some (k, v) \<Rightarrow> v)
           in case raw of
                PStr s \<Rightarrow>
                  (let tenant = strip s in
                   if tenant = [] \<or> \<not> is_concrete_tenant_id (Some tenant) then None else Some tenant)
              | _ \<Rightarrow> None)
      | _ \<Rightarrow> None)"

text \<open>The request of a task, with \<open>None\<close> for an attribute it lacks: \<open>rq_header_retries\<close> and \<open>rq_retries\<close>
  are the number in the message and the one of the context.\<close>

record task_request =
  rq_id :: "string option"
  rq_name :: "string option"
  rq_hostname :: "string option"
  rq_routing_key :: "string option"
  rq_request_dict :: pyval
  rq_headers :: pyval
  rq_attributes :: pyval
  rq_args :: pyval
  rq_kwargs :: pyval
  rq_header_retries :: "int option"
  rq_retries :: "int option"
  rq_eta :: "string option"
  rq_expires :: "string option"
  rq_parent_id :: "string option"
  rq_root_id :: "string option"

definition task_tenant :: "task_request option \<Rightarrow> string option" where
  "task_tenant request =
     (case request of
        None \<Rightarrow> None
      | Some rq \<Rightarrow>
          or_else (tenant_id_from_celery_headers (rq_request_dict rq))
            (or_else (tenant_id_from_celery_headers (rq_headers rq))
               (tenant_id_from_celery_headers (rq_attributes rq))))"

definition on_task_received :: "history_env \<Rightarrow> task_request option \<Rightarrow> recorder \<Rightarrow> recorder" where
  "on_task_received he request rc =
     (case request of
        None \<Rightarrow> rc
      | Some rq \<Rightarrow>
          record_task he (rq_id rq)
            (no_values\<lparr>tv_state := Some (state_value TASK_RECEIVED), tv_name := rq_name rq,
               tv_worker := rq_hostname rq, tv_queue := rq_routing_key rq, tv_tenant := task_tenant request,
               tv_args := store_text he (rq_args rq) ARGS_MAX_CHARS,
               tv_kwargs := store_text he (rq_kwargs rq) ARGS_MAX_CHARS,
               tv_retries := Some (or_default (rq_header_retries rq) 0),
               tv_eta := iso (rq_eta rq), tv_expires := iso (rq_expires rq),
               tv_parent_id := rq_parent_id rq, tv_root_id := rq_root_id rq,
               tv_received_at := Some (he_now he)\<rparr>) rc)"

fun pop_started :: "string \<Rightarrow> (string \<times> int) list \<Rightarrow> int option \<times> (string \<times> int) list" where
  "pop_started k [] = (None, [])"
| "pop_started k ((k', t) # rest) =
     (if k' = k then (Some t, rest) else (case pop_started k rest of (found, rest') \<Rightarrow> (found, (k', t) # rest')))"

fun put_started :: "string \<Rightarrow> int \<Rightarrow> (string \<times> int) list \<Rightarrow> (string \<times> int) list" where
  "put_started k t [] = [(k, t)]"
| "put_started k t ((k', t') # rest) = (if k' = k then (k, t) # rest else (k', t') # put_started k t rest)"

definition start_timing :: "string option \<Rightarrow> int \<Rightarrow> (string \<times> int) list \<Rightarrow> (string \<times> int) list" where
  "start_timing task_id perf started =
     (if truthy_str task_id
      then put_started (or_default task_id []) perf (if MAX_STARTED \<le> length started then tl started else started)
      else started)"

definition on_task_prerun :: "history_env \<Rightarrow> string option \<Rightarrow> string option \<Rightarrow> task_request option \<Rightarrow> pyval \<Rightarrow> pyval \<Rightarrow>
    recorder \<Rightarrow> recorder" where
  "on_task_prerun he task_id task_name request args kwargs rc =
     record_task he task_id
       (no_values\<lparr>tv_state := Some (state_value TASK_STARTED), tv_name := task_name,
          tv_worker := Option.bind request rq_hostname, tv_queue := Option.bind request rq_routing_key,
          tv_tenant := task_tenant request,
          tv_args := store_text he args ARGS_MAX_CHARS, tv_kwargs := store_text he kwargs ARGS_MAX_CHARS,
          tv_started_at := Some (he_now he)\<rparr>)
       (rc\<lparr>hr_started := start_timing task_id (he_perf he) (hr_started rc)\<rparr>)"

definition on_task_postrun :: "history_env \<Rightarrow> string option \<Rightarrow> pyval \<Rightarrow> string option \<Rightarrow> recorder \<Rightarrow> recorder" where
  "on_task_postrun he task_id retval st rc =
     (let (started, rest) = (if truthy_str task_id then pop_started (or_default task_id []) (hr_started rc)
                             else (None, hr_started rc))
      in record_task he task_id
           (no_values\<lparr>tv_state := if truthy_str st then st else None,
              tv_result := if st = Some (state_value TASK_SUCCESS) then store_text he retval RESULT_MAX_CHARS else None,
              tv_finished_at := if (case st of Some s \<Rightarrow> s \<in> set FINISHED_STATES | None \<Rightarrow> False)
                                then Some (he_now he) else None,
              tv_runtime := map_option (\<lambda>t. he_perf he - t) started\<rparr>)
           (rc\<lparr>hr_started := rest\<rparr>))"

text \<open>The exception is its \<open>repr\<close> (for a retry, the \<open>str\<close> of the reason).\<close>

definition optional_text :: "string option \<Rightarrow> pyval" where
  "optional_text x = (case x of None \<Rightarrow> PNone | Some s \<Rightarrow> PStr s)"

definition on_task_failure :: "history_env \<Rightarrow> string option \<Rightarrow> string option \<Rightarrow> string option \<Rightarrow> recorder \<Rightarrow> recorder" where
  "on_task_failure he task_id exception_repr traceback rc =
     record_task he task_id
       (no_values\<lparr>tv_state := Some (state_value TASK_FAILURE),
          tv_exception := store_text he (optional_text exception_repr) EXCEPTION_MAX_CHARS,
          tv_traceback := store_text he (optional_text traceback) TRACEBACK_MAX_CHARS\<rparr>) rc"

definition on_task_retry :: "history_env \<Rightarrow> task_request option \<Rightarrow> string option \<Rightarrow> string option \<Rightarrow> recorder \<Rightarrow> recorder" where
  "on_task_retry he request reason traceback rc =
     record_task he (Option.bind request rq_id)
       (no_values\<lparr>tv_state := Some (state_value TASK_RETRY),
          tv_retries := Some (or_default (Option.bind request rq_retries) 0 + 1),
          tv_exception := store_text he (optional_text reason) EXCEPTION_MAX_CHARS,
          tv_traceback := store_text he (optional_text traceback) TRACEBACK_MAX_CHARS\<rparr>) rc"

definition on_task_revoked :: "history_env \<Rightarrow> task_request option \<Rightarrow> bool \<Rightarrow> bool \<Rightarrow> recorder \<Rightarrow> recorder" where
  "on_task_revoked he request terminated expired rc =
     (let reason = (if expired then ''expired'' else if terminated then ''terminated'' else ''revoked'')
      in record_task he (Option.bind request rq_id)
           (no_values\<lparr>tv_state := Some (state_value TASK_REVOKED), tv_name := Option.bind request rq_name,
              tv_worker := Option.bind request rq_hostname, tv_exception := Some (reason, False),
              tv_finished_at := Some (he_now he)\<rparr>) rc)"

text \<open>The signals that \<open>install_celery_task_history_signals\<close> connects.\<close>

datatype task_signal =
    Sig_received "task_request option"
  | Sig_prerun "string option" "string option" "task_request option" pyval pyval
  | Sig_postrun "string option" pyval "string option"
  | Sig_failure "string option" "string option" "string option"
  | Sig_retry "task_request option" "string option" "string option"
  | Sig_revoked "task_request option" bool bool

fun deliver :: "history_env \<Rightarrow> task_signal \<Rightarrow> recorder \<Rightarrow> recorder" where
  "deliver he (Sig_received request) rc = on_task_received he request rc"
| "deliver he (Sig_prerun task_id task_name request args kwargs) rc =
     on_task_prerun he task_id task_name request args kwargs rc"
| "deliver he (Sig_postrun task_id retval st) rc = on_task_postrun he task_id retval st rc"
| "deliver he (Sig_failure task_id exception_repr traceback) rc = on_task_failure he task_id exception_repr traceback rc"
| "deliver he (Sig_retry request reason traceback) rc = on_task_retry he request reason traceback rc"
| "deliver he (Sig_revoked request terminated expired) rc = on_task_revoked he request terminated expired rc"

end
