(* ===== verification/Task_Views.thy ===== *)
theory Task_Views
  imports Task_History "HOL-Library.Product_Lexorder" "HOL-Library.List_Lexorder"
begin

text \<open>
  Reading the task history (\<open>CeleryTaskHistoryService\<close>) and the routes in front of it
  (routes/celery_monitoring_controller.py). The database's \<open>ILIKE\<close> and its order on texts are
  arguments.
\<close>

definition MAX_PER_PAGE :: int where "MAX_PER_PAGE = 100"
definition MAX_WINDOW_HOURS :: int where "MAX_WINDOW_HOURS = 24 * 365"
definition MAX_CHILDREN :: nat where "MAX_CHILDREN = 50"

definition SORT_COLUMNS :: "string list" where
  "SORT_COLUMNS = [''received'', ''started'', ''runtime'', ''name'', ''state'', ''worker'', ''updated'']"

record view_env =
  vw_now :: int
  vw_ilike :: "string \<Rightarrow> clipped \<Rightarrow> bool"
  vw_rank :: "string \<Rightarrow> int"    \<comment> \<open>the collation of the database\<close>

record task_query =
  tq_state :: "string option"
  tq_name :: "string option"
  tq_worker :: "string option"
  tq_search :: "string option"
  tq_window :: "int option"
  tq_page :: int
  tq_per_page :: int
  tq_sort :: "string option"
  tq_order :: "string option"

record task_details =
  td_result :: "clipped option"
  td_traceback :: "clipped option"
  td_eta :: "string option"
  td_expires :: "string option"
  td_parent_id :: "string option"
  td_root_id :: "string option"

record task_view =
  tv_taskId :: string
  tv_task_name :: "string option"
  tv_task_state :: string
  tv_task_worker :: "string option"
  tv_task_queue :: "string option"
  tv_tenantId :: "string option"
  tv_args_text :: clipped
  tv_kwargs_text :: clipped
  tv_retry_count :: int
  tv_receivedAt :: "int option"
  tv_startedAt :: "int option"
  tv_finishedAt :: "int option"
  tv_runtimeSeconds :: "int option"
  tv_updatedAt :: int
  tv_exception_text :: "clipped option"
  tv_details :: "task_details option"

definition view_row :: "bool \<Rightarrow> celery_task \<Rightarrow> task_view" where
  "view_row full r =
     \<lparr>tv_taskId = ct_task_id r, tv_task_name = ct_name r, tv_task_state = ct_state r, tv_task_worker = ct_worker r,
      tv_task_queue = ct_queue r, tv_tenantId = ct_tenant r, tv_args_text = or_default (ct_args r) ([], False),
      tv_kwargs_text = or_default (ct_kwargs r) ([], False), tv_retry_count = ct_retries r,
      tv_receivedAt = ct_received_at r, tv_startedAt = ct_started_at r, tv_finishedAt = ct_finished_at r,
      tv_runtimeSeconds = ct_runtime r, tv_updatedAt = ct_updated_at r, tv_exception_text = ct_exception r,
      tv_details = (if full then Some
        \<lparr>td_result = ct_result r, td_traceback = ct_traceback r, td_eta = ct_eta r, td_expires = ct_expires r,
         td_parent_id = ct_parent_id r, td_root_id = ct_root_id r\<rparr> else None)\<rparr>"

definition cutoff :: "int \<Rightarrow> int option \<Rightarrow> int option" where
  "cutoff now window_hours =
     (case window_hours of
        None \<Rightarrow> None
      | Some w \<Rightarrow> if w = 0 \<or> w < 0 then None else Some (now - min w MAX_WINDOW_HOURS * 3600 * 1000000))"

definition in_window :: "int \<Rightarrow> int option \<Rightarrow> celery_task \<Rightarrow> bool" where
  "in_window now window_hours r \<longleftrightarrow>
     (case cutoff now window_hours of None \<Rightarrow> True | Some c \<Rightarrow> c \<le> ct_updated_at r)"

definition equals_filter :: "string option \<Rightarrow> string option \<Rightarrow> bool" where
  "equals_filter wanted cell \<longleftrightarrow> (truthy_str wanted \<longrightarrow> cell = wanted)"

definition search_filter :: "view_env \<Rightarrow> string option \<Rightarrow> celery_task \<Rightarrow> bool" where
  "search_filter vw search r \<longleftrightarrow>
     (let needle = strip (or_default search []) in
      needle \<noteq> [] \<longrightarrow>
      (let hit = (\<lambda>cell. case cell of None \<Rightarrow> False | Some t \<Rightarrow> vw_ilike vw (''%'' @ needle @ ''%'') t) in
       hit (Some (ct_task_id r, False)) \<or> hit (map_option (\<lambda>n. (n, False)) (ct_name r)) \<or>
       hit (ct_args r) \<or> hit (ct_kwargs r)))"

definition selected_tasks :: "view_env \<Rightarrow> task_query \<Rightarrow> celery_task list \<Rightarrow> celery_task list" where
  "selected_tasks vw q rows =
     filter (\<lambda>r. equals_filter (tq_state q) (Some (ct_state r)) \<and> equals_filter (tq_name q) (ct_name r) \<and>
       equals_filter (tq_worker q) (ct_worker r) \<and> in_window (vw_now vw) (tq_window q) r \<and>
       search_filter vw (tq_search q) r) rows"

text \<open>The sort key of a column; \<open>None\<close> is NULL.\<close>

definition sort_cell :: "view_env \<Rightarrow> string \<Rightarrow> celery_task \<Rightarrow> int option" where
  "sort_cell vw column r =
     (if column = ''received'' then ct_received_at r
      else if column = ''started'' then ct_started_at r
      else if column = ''runtime'' then ct_runtime r
      else if column = ''name'' then map_option (vw_rank vw) (ct_name r)
      else if column = ''state'' then Some (vw_rank vw (ct_state r))
      else if column = ''worker'' then map_option (vw_rank vw) (ct_worker r)
      else Some (ct_updated_at r))"

definition order_key :: "view_env \<Rightarrow> string \<Rightarrow> bool \<Rightarrow> celery_task \<Rightarrow> int \<times> int \<times> int" where
  "order_key vw column ascending r =
     (case sort_cell vw column r of
        None \<Rightarrow> (1, 0, vw_rank vw (ct_task_id r))
      | Some n \<Rightarrow> (0, if ascending then n else - n, vw_rank vw (ct_task_id r)))"

record task_page =
  tp_results :: "task_view list"
  tp_page :: int
  tp_per_page :: int
  tp_total :: int
  tp_pages :: int

definition invalid_sort :: api_error where
  "invalid_sort = ApiError ''invalid_celery_history_sort''
     ([SQ] @ ''sort'' @ [SQ] @ '' must be one of '' @ join '', '' SORT_COLUMNS @ '' and '' @ [SQ] @ ''order'' @ [SQ] @
      '' asc or desc.'') 400"

definition list_tasks :: "view_env \<Rightarrow> task_query \<Rightarrow> celery_task list \<Rightarrow> api_error + task_page" where
  "list_tasks vw q rows =
     (let column = or_default (or_str (tq_sort q) (Some ''updated'')) [];
          order = or_default (or_str (tq_order q) (Some ''desc'')) [] in
      if column \<notin> set SORT_COLUMNS \<or> order \<notin> {''asc'', ''desc''} then Inl invalid_sort
      else
        (let page = max 1 (tq_page q);
             per_page = min (max 1 (tq_per_page q)) MAX_PER_PAGE;
             selected = selected_tasks vw q rows;
             total_rows = int (length selected);
             sorted_rows = sort_key (order_key vw column (tq_order q = Some ''asc'')) selected;
             items = take (nat per_page) (drop (nat ((page - 1) * per_page)) sorted_rows)
         in Inr \<lparr>tp_results = map (view_row False) items, tp_page = page, tp_per_page = per_page,
                 tp_total = total_rows, tp_pages = - ((- total_rows) div per_page)\<rparr>))"

definition get_task :: "view_env \<Rightarrow> string \<Rightarrow> celery_task list \<Rightarrow>
    api_error + task_view \<times> (string \<times> string option \<times> string) list" where
  "get_task vw task_id rows =
     (case find (\<lambda>r. ct_task_id r = task_id) rows of
        None \<Rightarrow> Inl (ApiError ''celery_task_not_found'' ''No recorded task with that id.'' 404)
      | Some r \<Rightarrow>
          Inr (view_row True r,
               map (\<lambda>c. (ct_task_id c, ct_name c, ct_state c))
                 (take MAX_CHILDREN
                   (sort_key (order_key vw ''received'' True) (filter (\<lambda>c. ct_parent_id c = Some task_id) rows)))))"

subsection \<open>Aggregates\<close>

definition count_state :: "celery_task_state \<Rightarrow> celery_task list \<Rightarrow> int" where
  "count_state st rows = int (length (filter (\<lambda>r. ct_state r = state_value st) rows))"

definition group_keys :: "('r \<Rightarrow> 'k) \<Rightarrow> 'r list \<Rightarrow> 'k list" where
  "group_keys key rows = dedup_into [] (map key rows)"

text \<open>The average is exact here; the code rounds it to microseconds.\<close>

record task_type_stats =
  ty_name :: string
  ty_total :: int
  ty_succeeded :: int
  ty_failed :: int
  ty_retried :: int
  ty_revoked :: int
  ty_running :: int
  ty_avg_runtime :: "rat option"
  ty_max_runtime :: "int option"
  ty_last_seen :: "int option"

fun some_values :: "'a option list \<Rightarrow> 'a list" where
  "some_values [] = []"
| "some_values (None # xs) = some_values xs"
| "some_values (Some x # xs) = x # some_values xs"

definition type_stats :: "string \<Rightarrow> celery_task list \<Rightarrow> task_type_stats" where
  "type_stats name rows =
     (let runtimes = some_values (map ct_runtime rows) in
      \<lparr>ty_name = name, ty_total = int (length rows), ty_succeeded = count_state TASK_SUCCESS rows,
       ty_failed = count_state TASK_FAILURE rows, ty_retried = count_state TASK_RETRY rows,
       ty_revoked = count_state TASK_REVOKED rows, ty_running = count_state TASK_STARTED rows,
       ty_avg_runtime = (if runtimes = [] then None
                         else Some (rat_of_int (sum_list runtimes) / rat_of_int (int (length runtimes)))),
       ty_max_runtime = (if runtimes = [] then None else Some (Max (set runtimes))),
       ty_last_seen = (if rows = [] then None else Some (Max (set (map ct_updated_at rows))))\<rparr>)"

definition task_types :: "view_env \<Rightarrow> int \<Rightarrow> celery_task list \<Rightarrow> task_type_stats list" where
  "task_types vw window_hours rows =
     (let named = filter (\<lambda>r. ct_name r \<noteq> None \<and> in_window (vw_now vw) (Some window_hours) r) rows;
          names = sort_key (vw_rank vw) (group_keys (\<lambda>r. or_default (ct_name r) []) named)
      in map (\<lambda>n. type_stats n (filter (\<lambda>r. ct_name r = Some n) named)) names)"

definition history_summary :: "view_env \<Rightarrow> int \<Rightarrow> celery_task list \<Rightarrow> (string \<times> int) list" where
  "history_summary vw window_hours rows =
     (let recent = filter (in_window (vw_now vw) (Some window_hours)) rows in
      map (\<lambda>s. (s, int (length (filter (\<lambda>r. ct_state r = s) recent)))) (group_keys ct_state recent))"

record worker_numbers =
  wn_received :: int
  wn_succeeded :: int
  wn_failed :: int
  wn_retried :: int

definition numbers_of :: "celery_task list \<Rightarrow> worker_numbers" where
  "numbers_of rows =
     (let retried = sum_list (map ct_retries rows) in
      \<lparr>wn_received = int (length rows) + retried, wn_succeeded = count_state TASK_SUCCESS rows,
       wn_failed = count_state TASK_FAILURE rows, wn_retried = retried\<rparr>)"

definition worker_counts :: "(string \<times> int) list \<Rightarrow> celery_task list \<Rightarrow> (string option \<times> worker_numbers) list" where
  "worker_counts since rows =
     (let counted = filter (\<lambda>r. list_ex (\<lambda>(name, start). ct_worker r = Some name \<and> start \<le> ct_updated_at r) since) rows in
      map (\<lambda>w. (w, numbers_of (filter (\<lambda>r. ct_worker r = w) counted))) (group_keys ct_worker counted))"

definition recent_workers :: "view_env \<Rightarrow> int \<Rightarrow> celery_task list \<Rightarrow> (string option \<times> int) list" where
  "recent_workers vw window_hours rows =
     (let seen = filter (\<lambda>r. ct_worker r \<noteq> None \<and> in_window (vw_now vw) (Some window_hours) r) rows in
      map (\<lambda>w. (w, Max (set (map ct_updated_at (filter (\<lambda>r. ct_worker r = w) seen))))) (group_keys ct_worker seen))"

subsection \<open>Routes\<close>

text \<open>\<open>handle_api_errors\<close> and the permission gate of the decorator (\<open>gate_open\<close>) stand before each of
  them; \<open>args\<close> is the query string.\<close>

definition celery_require_super_admin :: "request_state \<Rightarrow> api_error + actor" where
  "celery_require_super_admin rs =
     (case rs_user rs of
        None \<Rightarrow> Inl (ApiError ''not_authenticated'' ''User not authenticated'' 401)
      | Some user \<Rightarrow>
          if \<not> is_super_admin_request rs
          then Inl (ApiError ''forbidden'' ''Celery monitoring is restricted to super-admins.'' 403)
          else Inr user)"

definition require_history :: "bool \<Rightarrow> api_error + unit" where
  "require_history enabled =
     (if \<not> enabled
      then Inl (ApiError ''celery_history_disabled'' ''Celery task history is not enabled on this deployment.'' 503)
      else Inr ())"

definition in_quotes :: "string \<Rightarrow> string" where
  "in_quotes name = [SQ] @ name @ [SQ]"

definition int_arg :: "(string \<Rightarrow> string option) \<Rightarrow> string \<Rightarrow> int option \<Rightarrow> int option \<Rightarrow> int option \<Rightarrow>
    api_error + int option" where
  "int_arg args name dflt low high =
     (case args name of
        None \<Rightarrow> Inr dflt
      | Some raw \<Rightarrow>
          if strip raw = [] then Inr dflt
          else (case py_int raw of
              None \<Rightarrow> Inl (ApiError ''invalid_parameter'' (in_quotes name @ '' must be an integer.'') 400)
            | Some v \<Rightarrow>
                if (case low of None \<Rightarrow> False | Some l \<Rightarrow> v < l) \<or> (case high of None \<Rightarrow> False | Some h \<Rightarrow> h < v)
                then Inl (ApiError ''invalid_parameter'' (in_quotes name @ '' must be '' @
                       (case high of
                          Some h \<Rightarrow> ''between '' @ (case low of None \<Rightarrow> ''None'' | Some l \<Rightarrow> int_str l) @ '' and '' @ int_str h
                        | None \<Rightarrow> ''at least '' @ (case low of None \<Rightarrow> ''None'' | Some l \<Rightarrow> int_str l)) @ ''.'') 400)
                else Inr (Some v)))"

definition text_arg :: "(string \<Rightarrow> string option) \<Rightarrow> string \<Rightarrow> string option" where
  "text_arg args name = (if truthy_str (args name) then args name else None)"

text \<open>The arguments are read in the order in which the code reads them.\<close>

definition history_route :: "view_env \<Rightarrow> bool \<Rightarrow> request_state \<Rightarrow> (string \<Rightarrow> string option) \<Rightarrow> celery_task list \<Rightarrow>
    api_error + task_page" where
  "history_route vw enabled rs args rows =
     (case celery_require_super_admin rs of Inl e \<Rightarrow> Inl e | Inr _ \<Rightarrow>
      case require_history enabled of Inl e \<Rightarrow> Inl e | Inr _ \<Rightarrow>
      case int_arg args ''windowHours'' None (Some 1) (Some MAX_WINDOW_HOURS) of Inl e \<Rightarrow> Inl e | Inr window \<Rightarrow>
      case int_arg args ''page'' (Some 1) (Some 1) None of Inl e \<Rightarrow> Inl e | Inr page \<Rightarrow>
      case int_arg args ''perPage'' (Some 50) (Some 1) (Some MAX_PER_PAGE) of Inl e \<Rightarrow> Inl e | Inr per_page \<Rightarrow>
        list_tasks vw
          \<lparr>tq_state = text_arg args ''state'', tq_name = text_arg args ''name'', tq_worker = text_arg args ''worker'',
           tq_search = text_arg args ''search'', tq_window = window, tq_page = or_default page 1,
           tq_per_page = or_default per_page 50, tq_sort = text_arg args ''sort'', tq_order = text_arg args ''order''\<rparr> rows)"

definition history_task_route :: "view_env \<Rightarrow> bool \<Rightarrow> request_state \<Rightarrow> string \<Rightarrow> celery_task list \<Rightarrow>
    api_error + task_view \<times> (string \<times> string option \<times> string) list" where
  "history_task_route vw enabled rs task_id rows =
     (case celery_require_super_admin rs of Inl e \<Rightarrow> Inl e | Inr _ \<Rightarrow>
      case require_history enabled of Inl e \<Rightarrow> Inl e | Inr _ \<Rightarrow> get_task vw task_id rows)"

definition idle_type :: "string \<Rightarrow> task_type_stats" where
  "idle_type name =
     \<lparr>ty_name = name, ty_total = 0, ty_succeeded = 0, ty_failed = 0, ty_retried = 0, ty_revoked = 0, ty_running = 0,
      ty_avg_runtime = None, ty_max_runtime = None, ty_last_seen = None\<rparr>"

text \<open>\<open>registered\<close> is what the workers answer, as a list without duplicates; Python orders texts by code
  points.\<close>

definition py_order :: "string \<Rightarrow> nat list" where
  "py_order text = map code_point text"

definition task_types_route :: "view_env \<Rightarrow> bool \<Rightarrow> request_state \<Rightarrow> (string \<Rightarrow> string option) \<Rightarrow> string list \<Rightarrow>
    celery_task list \<Rightarrow> api_error + task_type_stats list \<times> int" where
  "task_types_route vw enabled rs args registered rows =
     (case celery_require_super_admin rs of Inl e \<Rightarrow> Inl e | Inr _ \<Rightarrow>
      case int_arg args ''windowHours'' (Some 24) (Some 1) (Some MAX_WINDOW_HOURS) of Inl e \<Rightarrow> Inl e | Inr window \<Rightarrow>
        (let hours = or_default window 24;
             stats = (if enabled then task_types vw hours rows else []);
             idle = map idle_type (sort_key py_order (filter (\<lambda>n. n \<notin> set (map ty_name stats)) registered))
         in Inr (sort_key (\<lambda>t. py_order (ty_name t)) (stats @ idle), hours)))"

end
