(* ===== verification/Redaction_Laws.thy ===== *)
theory Redaction_Laws
  imports Redaction
begin

text \<open>
  What redaction guarantees: no m8flow API key is left in a redacted text or in a cut of it, and below
  a key that names a credential nothing is left. A shortened text is within its cap, and never more
  than one chunk beyond the scanned part is serialized.
\<close>

subsection \<open>API keys\<close>

text \<open>A key, stated without the regular expression: the prefix, hexadecimal digits, a dot and at least
  one character of the secret.\<close>

definition key_here :: "string \<Rightarrow> bool" where
  "key_here s \<longleftrightarrow>
     startswith s ''m8f_'' \<and> takeWhile lower_hex (drop 4 s) \<noteq> [] \<and>
     (case dropWhile lower_hex (drop 4 s) of c # w # _ \<Rightarrow> c = CHR ''.'' \<and> key_char w | _ \<Rightarrow> False)"

fun holds_api_key :: "string \<Rightarrow> bool" where
  "holds_api_key [] = False"
| "holds_api_key (c # s) = (key_here (c # s) \<or> holds_api_key s)"

definition read_on :: "string \<Rightarrow> string \<Rightarrow> spot \<Rightarrow> spot" where
  "read_on text rest s = s\<lparr>sp_before := rev text @ sp_before s, sp_rest := rest\<rparr>"

lemma read_on_sel [simp]: "sp_rest (read_on t r s) = r" by (simp add: read_on_def)

lemma matches_word:
  "matches (word w) s = (if startswith (sp_rest s) w then [read_on w (drop (length w) (sp_rest s)) s] else [])"
proof (induction w arbitrary: s)
  case Nil
  then show ?case by (simp add: word_def read_on_def)
next
  case (Cons c w)
  have split: "matches (word (c # w)) s = concat (map (matches (word w)) (matches (One (\<lambda>x. x = c)) s))"
    by (cases w) (simp_all add: word_def split: list.splits)
  show ?case
    unfolding split by (auto simp: Cons.IH read_on_def startswith_def split: list.splits)
qed

lemma matches_word_Seq:
  assumes "m \<in> set (matches (Seq (word w) r) s)"
  shows "startswith (sp_rest s) w" "m \<in> set (matches r (read_on w (drop (length w) (sp_rest s)) s))"
  using assms by (auto simp: matches_word split: if_splits)

lemma matches_Rep_One:
  assumes "least \<le> length (takeWhile p (sp_rest s))"
  shows "\<exists>others. matches (Rep least None (One p)) s
       = read_on (takeWhile p (sp_rest s)) (dropWhile p (sp_rest s)) s # others"
  using rep_One_first [OF assms length_takeWhile_le] by (simp add: read_on_def)

lemma key_matches:
  assumes "key_here (sp_rest s)"
  shows "matches M8FLOW_API_KEY s \<noteq> []"
proof -
  let ?t = "drop 4 (sp_rest s)"
  let ?s1 = "read_on ''m8f_'' ?t s"
  let ?s2 = "read_on (takeWhile lower_hex ?t) (dropWhile lower_hex ?t) ?s1"
  from assms have pre: "startswith (sp_rest s) ''m8f_''" and hex: "takeWhile lower_hex ?t \<noteq> []"
    and tail: "case dropWhile lower_hex ?t of c # w # _ \<Rightarrow> c = CHR ''.'' \<and> key_char w | _ \<Rightarrow> False"
    by (simp_all add: key_here_def)
  from tail obtain w rest where rest: "dropWhile lower_hex ?t = CHR ''.'' # w # rest" and w: "key_char w"
    by (auto split: list.splits)
  have m1: "matches (word ''m8f_'') s = [?s1]" using pre by (simp add: matches_word eval_nat_numeral)
  have "1 \<le> length (takeWhile lower_hex (sp_rest ?s1))"
    unfolding read_on_sel using hex by (cases "takeWhile lower_hex ?t") auto
  from matches_Rep_One [OF this] have m2: "matches (Possessive (Rep 1 None (One lower_hex))) ?s1 = [?s2]"
    by auto
  let ?s3 = "?s2\<lparr>sp_before := CHR ''.'' # sp_before ?s2, sp_rest := w # rest\<rparr>"
  have m3: "matches (One (is_char CHR ''.'')) ?s2 = [?s3]" using rest by (simp add: is_char_def)
  have "1 \<le> length (takeWhile key_char (sp_rest ?s3))" using w by simp
  from matches_Rep_One [OF this] have m4: "matches (Rep 1 None (One key_char)) ?s3 \<noteq> []" by (metis list.distinct(1))
  show ?thesis using m4 by (simp add: M8FLOW_API_KEY_def m1 m2 m3 del: matches.simps(1,5,6) One_nat_def)
qed

subsection \<open>What a substitution leaves\<close>

text \<open>What the substitution copies is found unchanged in the text: up to the first character that the
  replacement opens with, its output is a prefix of its input.\<close>

lemma sub_copies:
  assumes "\<And>m. f m = q # g m"
  shows "sub_from r f before s = p @ t \<Longrightarrow> q \<notin> set p \<Longrightarrow> startswith s p"
proof (induction s arbitrary: before p t)
  case (Cons c cs)
  show ?case
  proof (cases p)
    case p: (Cons d ds)
    have "sub_from r f before (c # cs) = c # sub_from r f (c # before) cs"
      using Cons.prems assms p by (auto split: list.splits if_splits)
    with Cons.prems p have "c = d" "sub_from r f (c # before) cs = ds @ t" "q \<notin> set ds" by auto
    with Cons.IH p show ?thesis by (auto simp: startswith_def)
  qed simp
qed simp

lemma key_here_iff:
  "key_here s \<longleftrightarrow> (\<exists>h w t. s = ''m8f_'' @ h @ CHR ''.'' # w # t \<and> h \<noteq> [] \<and> list_all lower_hex h \<and> key_char w)"
proof
  assume key: "key_here s"
  let ?t = "drop 4 s"
  from key obtain u where "s = ''m8f_'' @ u" by (auto simp: key_here_def startswith_iff)
  then have s: "s = ''m8f_'' @ ?t" by simp
  from key obtain w t where "dropWhile lower_hex ?t = CHR ''.'' # w # t" "key_char w" and h: "takeWhile lower_hex ?t \<noteq> []"
    by (auto simp: key_here_def split: list.splits)
  moreover from this have "?t = takeWhile lower_hex ?t @ CHR ''.'' # w # t" by (metis takeWhile_dropWhile_id)
  moreover have "list_all lower_hex (takeWhile lower_hex ?t)" by (auto simp: list_all_iff dest: set_takeWhileD)
  ultimately show "\<exists>h w t. s = ''m8f_'' @ h @ CHR ''.'' # w # t \<and> h \<noteq> [] \<and> list_all lower_hex h \<and> key_char w"
    using s by metis
next
  assume "\<exists>h w t. s = ''m8f_'' @ h @ CHR ''.'' # w # t \<and> h \<noteq> [] \<and> list_all lower_hex h \<and> key_char w"
  then obtain h w t where s: "s = ''m8f_'' @ h @ CHR ''.'' # w # t" and h: "h \<noteq> []" "\<forall>x \<in> set h. lower_hex x"
    and w: "key_char w"
    by (auto simp: list_all_iff)
  have dot: "\<not> lower_hex CHR ''.''" by code_simp
  have "takeWhile lower_hex (h @ CHR ''.'' # w # t) = h" using h dot by (simp add: takeWhile_append2)
  moreover have "dropWhile lower_hex (h @ CHR ''.'' # w # t) = CHR ''.'' # w # t"
    using h dot by (simp add: dropWhile_append2)
  ultimately show "key_here s" using h w by (simp add: key_here_def s startswith_def)
qed

lemma key_consumes: "m \<in> set (matches M8FLOW_API_KEY s) \<Longrightarrow> length (sp_rest m) < length (sp_rest s)"
proof -
  let ?tail = "Seq (Possessive (Rep 1 None (One lower_hex))) (Seq (One (is_char CHR ''.'')) (Rep 1 None (One key_char)))"
  let ?t = "read_on ''m8f_'' (drop (length ''m8f_'') (sp_rest s)) s"
  assume "m \<in> set (matches M8FLOW_API_KEY s)"
  then have "m \<in> set (matches (Seq (word ''m8f_'') ?tail) s)" by (simp only: M8FLOW_API_KEY_def seqs.simps)
  then have pre: "startswith (sp_rest s) ''m8f_''" and m: "m \<in> set (matches ?tail ?t)"
    by (rule matches_word_Seq)+
  from matches_advance [OF m] have "length (sp_rest m) \<le> length (drop (length ''m8f_'') (sp_rest s))"
    unfolding advances_def read_on_sel by (metis le_add2 length_append)
  moreover from pre have "4 \<le> length (sp_rest s)" by (auto simp: startswith_iff)
  ultimately show ?thesis by simp
qed

lemma no_key_in_mask: "holds_api_key (''[redacted]'' @ s) = holds_api_key s"
  by (simp add: key_here_def startswith_def)

lemma no_key_left: "\<not> holds_api_key (sub_from M8FLOW_API_KEY (\<lambda>m. ''[redacted]'') before s)"
proof (induction M8FLOW_API_KEY "\<lambda>m :: spot. ''[redacted]''" before s rule: sub_from.induct)
  case (2 before c cs)
  let ?f = "\<lambda>m :: spot. ''[redacted]''"
  let ?out = "sub_from M8FLOW_API_KEY ?f before (c # cs)"
  show ?case
  proof (cases "matches M8FLOW_API_KEY (spot_at before (c # cs))")
    case (Cons m ms)
    from key_consumes [of m "spot_at before (c # cs)"] Cons have less: "length (sp_rest m) < length (c # cs)"
      by (simp add: spot_at_def)
    with Cons have out: "?out = ''[redacted]'' @ sub_from M8FLOW_API_KEY ?f (sp_before m) (sp_rest m)" by simp
    show ?thesis unfolding out no_key_in_mask using 2(2) [OF Cons less] .
  next
    case Nil
    then have out: "?out = c # sub_from M8FLOW_API_KEY ?f (c # before) cs" by simp
    have "\<not> key_here ?out"
    proof
      assume "key_here ?out"
      then obtain h w t where k: "?out = (''m8f_'' @ h @ [CHR ''.'', w]) @ t" "h \<noteq> []" "list_all lower_hex h" "key_char w"
        unfolding key_here_iff by auto
      have "\<not> lower_hex CHR ''[''" "\<not> key_char CHR ''[''" by code_simp+
      with k have "CHR ''['' \<notin> set (''m8f_'' @ h @ [CHR ''.'', w])" by (auto simp: list_all_iff)
      from sub_copies [of ?f "CHR ''[''" "\<lambda>_. ''redacted]''", OF _ k(1) this] obtain t' where "c # cs = (''m8f_'' @ h @ [CHR ''.'', w]) @ t'"
        by (auto simp: startswith_iff)
      then have "key_here (c # cs)" using k(2-4) unfolding key_here_iff by auto
      then show False using key_matches [of "spot_at before (c # cs)"] Nil by (simp add: spot_at_def)
    qed
    with out 2 Nil show ?thesis by simp
  qed
qed simp

lemma holds_key_take: "holds_api_key (take n s) \<Longrightarrow> holds_api_key s"
proof (induction s arbitrary: n)
  case (Cons c s)
  show ?case
  proof (cases n)
    case (Suc k)
    with Cons.prems have "key_here (c # take k s) \<or> holds_api_key (take k s)" by simp
    then show ?thesis
    proof
      assume "key_here (c # take k s)"
      then obtain h w t where "c # take k s = ''m8f_'' @ h @ CHR ''.'' # w # t" and key: "h \<noteq> []" "list_all lower_hex h" "key_char w"
        unfolding key_here_iff by auto
      then have "c # s = ''m8f_'' @ h @ CHR ''.'' # w # t @ drop k s"
        by (metis append_Cons append_assoc append_take_drop_id)
      with key have "key_here (c # s)" unfolding key_here_iff by blast
      then show ?thesis by simp
    qed (use Cons.IH in auto)
  qed (use Cons.prems in simp)
qed simp

lemma redacted_holds_no_key: "\<not> holds_api_key (redact_secrets js text)"
  unfolding redact_secrets_def redact_api_keys_def re_sub_def by (rule no_key_left)

lemma clip_fst: "fst (if a \<or> n < length text then (take n text, True) else (text, False)) = take n text"
  by simp

lemma bounded_is_a_cut: "\<exists>t. fst (redact_bounded js v cap) = take cap (redact_secrets js t)"
  unfolding redact_bounded_def Let_def clip_fst by blast

lemma bounded_holds_no_key: "\<not> holds_api_key (fst (redact_bounded js v cap))"
  using bounded_is_a_cut redacted_holds_no_key holds_key_take by metis

lemma bounded_within_cap: "length (fst (redact_bounded js v cap)) \<le> cap"
  using bounded_is_a_cut [of js v cap] by auto

subsection \<open>Fields\<close>

text \<open>At any depth, what a credential's name holds is the mask.\<close>

fun masked :: "pyval \<Rightarrow> bool" where
  "masked (PDict d) = (\<forall>(k, v) \<in> set d. (secret_name k \<longrightarrow> v = PStr ''[redacted]'') \<and> masked v)"
| "masked (PList xs) = (\<forall>v \<in> set xs. masked v)"
| "masked _ = True"

lemma redact_fields_masked: "masked (redact_fields v)"
  by (induction v rule: redact_fields.induct) auto

subsection \<open>The work\<close>

lemma json_prefix_parts_eq:
  "read < limit \<Longrightarrow>
   take (limit - read) (concat (json_prefix_parts limit read chunks)) = take (limit - read) (concat chunks)"
proof (induction chunks arbitrary: read)
  case (Cons chunk chunks)
  show ?case
  proof (cases "limit \<le> read + length chunk")
    case False
    then have "take (limit - (read + length chunk)) (concat (json_prefix_parts limit (read + length chunk) chunks))
      = take (limit - (read + length chunk)) (concat chunks)"
      by (intro Cons.IH) simp
    with False show ?thesis by simp
  qed simp
qed simp

lemma json_prefix_eq: "0 < limit \<Longrightarrow> json_prefix js v limit = take limit (concat (js_chunks js v))"
  using json_prefix_parts_eq [of 0 limit "js_chunks js v"] by (simp add: json_prefix_def)

lemma json_prefix_parts_work:
  assumes "read < limit" "\<forall>c \<in> set chunks. length c \<le> most"
  shows "read + length (concat (json_prefix_parts limit read chunks)) < limit + most \<or> chunks = []"
  using assms
proof (induction chunks arbitrary: read)
  case (Cons chunk chunks)
  show ?case
  proof (cases "limit \<le> read + length chunk")
    case False
    with Cons.IH [of "read + length chunk"] Cons.prems show ?thesis by (cases chunks) auto
  qed (use Cons.prems in auto)
qed simp

end
