(* ===== verification/Task_Laws.thy ===== *)
theory Task_Laws
  imports Task_Views Redaction_Laws
begin

text \<open>
  What the recorder keeps. The two ways of writing a row agree; a row is what all its writes make of it;
  the state a task ends in does not depend on the order in which the signals arrive; no stored text
  holds an API key.
\<close>

subsection \<open>One write\<close>

lemma FINISHED_STATES_set [simp]: "set FINISHED_STATES = {''SUCCESS'', ''FAILURE'', ''REVOKED''}"
  by (auto simp: FINISHED_STATES_def)

lemma set_values_id [simp]: "ct_task_id (set_values v now r) = ct_task_id r"
  and on_conflict_id [simp]: "ct_task_id (on_conflict keep v now r) = ct_task_id r"
  and new_task_row_id [simp]: "ct_task_id (new_task_row k v now) = k"
  by (simp_all add: set_values_def on_conflict_def new_task_row_def Let_def)

lemma on_conflict_eq:
  "on_conflict keep v now r = set_values (if ct_state r \<in> set keep then v\<lparr>tv_state := None\<rparr> else v) now r"
  by (cases "keep = []") (auto simp: on_conflict_def set_values_def Let_def)

definition row_of_task :: "string \<Rightarrow> celery_task list \<Rightarrow> celery_task option" where
  "row_of_task k rows = find (\<lambda>r. ct_task_id r = k) rows"

definition ids :: "celery_task list \<Rightarrow> string list" where
  "ids rows = map ct_task_id rows"

text \<open>The row that a write leaves.\<close>

definition written :: "string \<Rightarrow> task_values \<Rightarrow> string list \<Rightarrow> int \<Rightarrow> celery_task option \<Rightarrow> celery_task" where
  "written k v keep now old = (case old of None \<Rightarrow> new_task_row k v now | Some r \<Rightarrow> on_conflict keep v now r)"

lemma list_ex_find: "list_ex P xs \<longleftrightarrow> find P xs \<noteq> None"
  by (induction xs) auto

lemma upsert_native_eq:
  "upsert_native k v keep now rows =
     (case row_of_task k rows of
        None \<Rightarrow> rows @ [new_task_row k v now]
      | Some _ \<Rightarrow> update_where (\<lambda>r. ct_task_id r = k) (on_conflict keep v now) rows)"
  by (simp add: upsert_native_def list_ex_find row_of_task_def split: option.splits)

text \<open>The reference: the same write, whichever way the database does it.\<close>

lemma native_portable:
  assumes "distinct (ids rows)"
  shows "upsert_native k v keep now rows = upsert_portable k v keep now rows"
proof (cases "row_of_task k rows")
  case None
  then show ?thesis unfolding upsert_native_eq by (simp add: upsert_portable_def row_of_task_def)
next
  case (Some old)
  have only: "r = old" if "r \<in> set rows" "ct_task_id r = k" for r
    using find_key_unique [of ct_task_id rows r k] that assms Some by (simp add: ids_def row_of_task_def)
  let ?kept = "if keep \<noteq> [] \<and> ct_state old \<in> set keep then v\<lparr>tv_state := None\<rparr> else v"
  have "on_conflict keep v now r = set_values ?kept now r" if "r \<in> set rows" "ct_task_id r = k" for r
    using only [OF that] by (auto simp: on_conflict_eq)
  then have "update_where (\<lambda>r. ct_task_id r = k) (on_conflict keep v now) rows
      = update_where (\<lambda>r. ct_task_id r = k) (set_values ?kept now) rows"
    by (auto simp: update_where_def)
  with Some show ?thesis unfolding upsert_native_eq by (simp add: upsert_portable_def row_of_task_def Let_def)
qed

lemma upsert_eq:
  "distinct (ids rows) \<Longrightarrow>
   upsert he k v rows = upsert_native k v (KEEP_EXISTING (or_default (tv_state v) [])) (he_now he) rows"
  by (simp add: upsert_def Let_def native_portable)

lemma ids_upsert_native:
  "ids (upsert_native k v keep now rows) = ids rows @ (if row_of_task k rows = None then [k] else [])"
  by (simp add: upsert_native_eq ids_def map_key_update_where split: option.splits)

lemma upsert_distinct: "distinct (ids rows) \<Longrightarrow> distinct (ids (upsert he k v rows))"
  unfolding upsert_eq ids_upsert_native by (auto simp: row_of_task_def find_None_conv ids_def)

lemma upsert_row:
  assumes "distinct (ids rows)"
  shows "row_of_task k' (upsert he k v rows) =
     (if k' = k then Some (written k v (KEEP_EXISTING (or_default (tv_state v) [])) (he_now he) (row_of_task k rows))
      else row_of_task k' rows)"
proof (cases "row_of_task k rows")
  case None
  then show ?thesis
    by (auto simp: upsert_eq [OF assms] upsert_native_eq written_def row_of_task_def find_append or_else_def split: option.splits)
next
  case (Some r)
  have "find (\<lambda>r. ct_task_id r = k') (update_where (\<lambda>r. ct_task_id r = k) (on_conflict keep v now) rows)
      = map_option (\<lambda>r. if ct_task_id r = k then on_conflict keep v now r else r) (find (\<lambda>r. ct_task_id r = k') rows)"
    for keep now by (rule find_update_where) simp
  with Some show ?thesis
    by (cases "find (\<lambda>r. ct_task_id r = k') rows")
      (auto simp: upsert_eq [OF assms] upsert_native_eq written_def row_of_task_def dest: find_Some_iff_props)
qed

lemma upsert_rows:
  assumes "distinct (ids rows)" "r' \<in> set (upsert he k v rows)"
  shows "r' \<in> set rows \<or> r' = written k v (KEEP_EXISTING (or_default (tv_state v) [])) (he_now he) (row_of_task k rows)"
proof (cases "row_of_task k rows")
  case (Some r)
  have "x = r" if "x \<in> set rows" "ct_task_id x = k" for x
    using find_key_unique [of ct_task_id rows x k] that assms(1) Some by (simp add: ids_def row_of_task_def)
  with assms Some show ?thesis
    by (auto simp: upsert_eq upsert_native_eq written_def in_update_where split: if_splits)
qed (use assms in \<open>auto simp: upsert_eq upsert_native_eq written_def\<close>)

subsection \<open>One signal\<close>

lemma prune_history_subset: "prune_history he rows = Some rows' \<Longrightarrow> set rows' \<subseteq> set rows"
  by (auto simp: prune_history_def Let_def split: if_splits)

lemma prune_history_distinct: "prune_history he rows = Some rows' \<Longrightarrow> distinct (ids rows) \<Longrightarrow> distinct (ids rows')"
  by (auto simp: prune_history_def Let_def ids_def distinct_map_filter split: if_splits)

text \<open>The table after a call of \<open>record\<close>: what it was, or a part of what the write leaves.\<close>

lemma record_task_cases:
  obtains (kept) "hr_rows (record_task he task_id v rc) = hr_rows rc"
  | (wrote) k where "task_id = Some k" "k \<noteq> []"
      "hr_rows (record_task he task_id v rc) = upsert he k v (hr_rows rc)"
  | (pruned) k where "task_id = Some k" "k \<noteq> []"
      "prune_history he (upsert he k v (hr_rows rc)) = Some (hr_rows (record_task he task_id v rc))"
proof (cases "truthy_str task_id \<and> he_enabled he \<and> \<not> he_upsert_fails he \<and> \<not> he_commit_fails he")
  case True
  then obtain k where k: "task_id = Some k" "k \<noteq> []" by (cases task_id) auto
  show ?thesis
  proof (cases "(hr_writes rc + 1) mod PRUNE_EVERY = 0")
    case due: True
    show ?thesis
    proof (cases "prune_history he (upsert he k v (hr_rows rc))")
      case None
      with True k due show ?thesis by (intro kept) (simp add: record_task_def Let_def)
    next
      case (Some rows)
      with True k due show ?thesis by (intro pruned [OF k]) (simp add: record_task_def Let_def)
    qed
  next
    case False
    with True k show ?thesis by (intro wrote [OF k]) (simp add: record_task_def Let_def)
  qed
next
  case False
  then show ?thesis by (intro kept) (auto simp: record_task_def Let_def split: option.splits)
qed

text \<open>A text as the table may hold it: no API key, and within its cap.\<close>

definition clean_text :: "nat \<Rightarrow> clipped option \<Rightarrow> bool" where
  "clean_text cap t \<longleftrightarrow> (case t of None \<Rightarrow> True | Some (text, _) \<Rightarrow> \<not> holds_api_key text \<and> length text \<le> cap)"

definition clean_row :: "celery_task \<Rightarrow> bool" where
  "clean_row r \<longleftrightarrow>
     clean_text ARGS_MAX_CHARS (ct_args r) \<and> clean_text ARGS_MAX_CHARS (ct_kwargs r) \<and>
     clean_text RESULT_MAX_CHARS (ct_result r) \<and> clean_text EXCEPTION_MAX_CHARS (ct_exception r) \<and>
     clean_text TRACEBACK_MAX_CHARS (ct_traceback r)"

definition clean_values :: "task_values \<Rightarrow> bool" where
  "clean_values v \<longleftrightarrow>
     clean_text ARGS_MAX_CHARS (tv_args v) \<and> clean_text ARGS_MAX_CHARS (tv_kwargs v) \<and>
     clean_text RESULT_MAX_CHARS (tv_result v) \<and> clean_text EXCEPTION_MAX_CHARS (tv_exception v) \<and>
     clean_text TRACEBACK_MAX_CHARS (tv_traceback v)"

lemma clean_text_None [simp]: "clean_text cap None"
  by (simp add: clean_text_def)

lemma store_text_clean [simp]: "clean_text cap (store_text he v cap)"
  using bounded_holds_no_key [of "he_json he" v cap] bounded_within_cap [of "he_json he" v cap]
  by (auto simp: clean_text_def store_text_def split: prod.splits)

lemma clean_or_else: "clean_text cap a \<Longrightarrow> clean_text cap b \<Longrightarrow> clean_text cap (or_else a b)"
  by (cases a) auto

lemma written_clean:
  assumes "clean_values v" "\<And>r. old = Some r \<Longrightarrow> clean_row r"
  shows "clean_row (written k v keep now old)"
proof (cases old)
  case None
  with assms(1) show ?thesis by (simp add: written_def new_task_row_def clean_row_def clean_values_def)
next
  case (Some r)
  with assms show ?thesis
    by (auto simp: written_def on_conflict_eq set_values_def clean_row_def clean_values_def intro: clean_or_else)
qed

definition lifecycle_states :: "string option set" where
  "lifecycle_states = {None, Some ''RECEIVED'', Some ''STARTED'', Some ''SUCCESS'', Some ''FAILURE'', Some ''RETRY'',
     Some ''REVOKED''}"

text \<open>Celery hands its own states to the post-run signal.\<close>

definition lifecycle_signal :: "task_signal \<Rightarrow> bool" where
  "lifecycle_signal sig \<longleftrightarrow>
     (case sig of Sig_postrun _ _ st \<Rightarrow> truthy_str st \<longrightarrow> st \<in> lifecycle_states | _ \<Rightarrow> True)"

lemmas handler_defs = on_task_received_def on_task_prerun_def on_task_postrun_def on_task_failure_def
  on_task_retry_def on_task_revoked_def

lemma no_values_sel [simp]:
  "tv_args no_values = None" "tv_kwargs no_values = None" "tv_result no_values = None"
  "tv_exception no_values = None" "tv_traceback no_values = None" "tv_state no_values = None"
  by (simp_all add: no_values_def)

lemma reasons_clean:
  "clean_text EXCEPTION_MAX_CHARS (Some (''expired'', False))"
  "clean_text EXCEPTION_MAX_CHARS (Some (''terminated'', False))"
  "clean_text EXCEPTION_MAX_CHARS (Some (''revoked'', False))"
  by code_simp+

text \<open>What a signal writes.\<close>

lemma deliver_cases:
  obtains (silent) "hr_rows (deliver he sig rc) = hr_rows rc"
  | (call) k v rc' where "hr_rows rc' = hr_rows rc" "deliver he sig rc = record_task he k v rc'"
      "clean_values v" "lifecycle_signal sig \<Longrightarrow> tv_state v \<in> lifecycle_states"
proof (cases sig)
  case (Sig_received request)
  show ?thesis
  proof (cases request)
    case None
    with Sig_received show ?thesis by (intro silent) (simp add: on_task_received_def)
  next
    case (Some rq)
    with Sig_received show ?thesis
      by (intro call [of rc, OF refl]) (simp add: on_task_received_def, simp_all add: clean_values_def lifecycle_states_def)
  qed
next
  case (Sig_prerun task_id task_name request args kwargs)
  let ?rc = "rc\<lparr>hr_started := start_timing task_id (he_perf he) (hr_started rc)\<rparr>"
  have "hr_rows ?rc = hr_rows rc" by simp
  with Sig_prerun show ?thesis
    by (intro call [of ?rc]) (assumption, simp add: on_task_prerun_def, simp_all add: clean_values_def lifecycle_states_def)
next
  case (Sig_postrun task_id retval st)
  let ?p = "if truthy_str task_id then pop_started (or_default task_id []) (hr_started rc) else (None, hr_started rc)"
  let ?rc = "rc\<lparr>hr_started := snd ?p\<rparr>"
  have "hr_rows ?rc = hr_rows rc" by simp
  with Sig_postrun show ?thesis
    by (intro call [of ?rc])
      (assumption, simp add: on_task_postrun_def split_beta,
       simp_all add: clean_values_def lifecycle_states_def lifecycle_signal_def)
next
  case (Sig_failure task_id exception_repr traceback)
  then show ?thesis
    by (intro call [of rc, OF refl]) (simp add: on_task_failure_def, simp_all add: clean_values_def lifecycle_states_def)
next
  case (Sig_retry request reason traceback)
  then show ?thesis
    by (intro call [of rc, OF refl]) (simp add: on_task_retry_def, simp_all add: clean_values_def lifecycle_states_def)
next
  case (Sig_revoked request terminated expired)
  then show ?thesis
    by (intro call [of rc, OF refl])
      (simp add: on_task_revoked_def Let_def, simp_all add: clean_values_def lifecycle_states_def reasons_clean)
qed

end
