(* ===== verification/Task_Properties.thy ===== *)
theory Task_Properties
  imports Task_Laws "HOL-Library.Multiset"
begin

text \<open>The properties of the task history and of redaction.\<close>

subsection \<open>What the table holds\<close>

text \<open>One signal in some process: its counter of writes and its timers are its own, the table is shared.\<close>

inductive history_step :: "celery_task list \<Rightarrow> celery_task list \<Rightarrow> bool" where
  signal: "history_step (hr_rows rc) (hr_rows (deliver he sig rc))"

inductive_cases history_stepE [elim!]: "history_step rows rows'"

definition history_inv :: "celery_task list \<Rightarrow> bool" where
  "history_inv rows \<longleftrightarrow> distinct (ids rows) \<and> (\<forall>r \<in> set rows. clean_row r)"

lemma upsert_inv:
  assumes "history_inv rows" "clean_values v"
  shows "history_inv (upsert he k v rows)"
proof -
  from assms have d: "distinct (ids rows)" and c: "\<And>r. r \<in> set rows \<Longrightarrow> clean_row r" by (auto simp: history_inv_def)
  have "clean_row (written k v keep now (row_of_task k rows))" for keep now
    by (rule written_clean [OF assms(2)]) (auto simp: row_of_task_def intro: c dest: find_Some_iff_props)
  then show ?thesis
    using upsert_distinct [OF d] upsert_rows [OF d] c unfolding history_inv_def by blast
qed

lemma prune_inv: "prune_history he rows = Some rows' \<Longrightarrow> history_inv rows \<Longrightarrow> history_inv rows'"
  unfolding history_inv_def using prune_history_subset prune_history_distinct by blast

lemma record_task_inv:
  assumes "history_inv (hr_rows rc)" "clean_values v"
  shows "history_inv (hr_rows (record_task he k v rc))"
proof (cases rule: record_task_cases [of he k v rc])
  case (wrote j)
  with upsert_inv [OF assms] show ?thesis by simp
next
  case (pruned j)
  with upsert_inv [OF assms] show ?thesis using prune_inv by blast
qed (use assms in simp)

lemma deliver_inv:
  assumes "history_inv (hr_rows rc)"
  shows "history_inv (hr_rows (deliver he sig rc))"
proof (cases rule: deliver_cases [of he sig rc])
  case (call k v rc')
  with record_task_inv [of rc' v] assms show ?thesis by simp
qed (use assms in simp)


subsection \<open>States\<close>

definition finished_row :: "celery_task \<Rightarrow> bool" where
  "finished_row r \<longleftrightarrow> ct_state r \<in> set FINISHED_STATES"

text \<open>The writes of Celery's lifecycle, and the fact that a finished row stays so under any of them.\<close>

type_synonym lifecycle_write = "celery_task_state option \<times> task_values \<times> int"

definition apply_write :: "lifecycle_write \<Rightarrow> celery_task \<Rightarrow> celery_task" where
  "apply_write w r = (case w of (st, v, now) \<Rightarrow>
     on_conflict (KEEP_EXISTING (or_default (map_option state_value st) [])) (v\<lparr>tv_state := map_option state_value st\<rparr>) now r)"

lemma on_conflict_finished:
  assumes "tv_state v \<in> lifecycle_states" "finished_row r"
  shows "finished_row (on_conflict (KEEP_EXISTING (or_default (tv_state v) [])) v now r)"
  using assms
  by (auto simp: lifecycle_states_def finished_row_def on_conflict_eq set_values_def KEEP_EXISTING_def)

interpretation task_rows: row_lifecycle apply_write "\<lambda>r s. finished_row r \<longrightarrow> finished_row s"
proof unfold_locales
  fix r :: celery_task and a :: lifecycle_write
  obtain st v now where a: "a = (st, v, now)" by (cases a)
  have "Some (state_value x) \<in> lifecycle_states" for x by (cases x) (simp_all add: lifecycle_states_def)
  then have "map_option state_value st \<in> lifecycle_states" by (cases st) (simp_all add: lifecycle_states_def)
  with on_conflict_finished [of "v\<lparr>tv_state := map_option state_value st\<rparr>" r now]
  show "finished_row r \<longrightarrow> finished_row (apply_write a r)" by (simp add: a apply_write_def)
qed simp_all

lemma prune_row:
  assumes "prune_history he rows = Some rows'" "distinct (ids rows)" "row_of_task k rows' = Some r"
  shows "row_of_task k rows = Some r"
proof -
  from assms(3) have "r \<in> set rows'" "ct_task_id r = k" by (auto simp: row_of_task_def dest: find_Some_iff_props)
  with prune_history_subset [OF assms(1)] find_key_unique [of ct_task_id rows r k] assms(2)
  show ?thesis by (auto simp: ids_def row_of_task_def)
qed

lemma upsert_finished:
  assumes "distinct (ids rows)" "tv_state v \<in> lifecycle_states"
    and "row_of_task k rows = Some r" "finished_row r" "row_of_task k (upsert he j v rows) = Some r'"
  shows "finished_row r'"
proof (cases "j = k")
  case True
  with assms on_conflict_finished [of v r] show ?thesis by (auto simp: upsert_row written_def)
qed (use assms in \<open>simp add: upsert_row\<close>)

text \<open>A finished task is never shown as received, started or waiting for a retry again: whatever signal
  arrives late, its row stays in a finished state until it is pruned.\<close>

theorem finished_tasks_stay_finished:
  assumes "history_inv (hr_rows rc)" "lifecycle_signal sig"
    and "row_of_task k (hr_rows rc) = Some r" "ct_state r \<in> set FINISHED_STATES"
    and "row_of_task k (hr_rows (deliver he sig rc)) = Some r'"
  shows "ct_state r' \<in> set FINISHED_STATES"
proof -
  from assms(1) have d: "distinct (ids (hr_rows rc))" by (simp add: history_inv_def)
  have "finished_row r'"
  proof (cases rule: deliver_cases [of he sig rc])
    case silent
    with assms show ?thesis by (simp add: finished_row_def)
  next
    case (call j v rc')
    then have state: "tv_state v \<in> lifecycle_states" using assms(2) by blast
    note late = upsert_finished [OF d state assms(3), unfolded finished_row_def, OF assms(4)]
    show ?thesis
    proof (cases rule: record_task_cases [of he j v rc'])
      case kept
      with call assms show ?thesis by (simp add: finished_row_def)
    next
      case (wrote i)
      with call assms(5) show ?thesis using late by (simp add: finished_row_def)
    next
      case (pruned i)
      have "row_of_task k (upsert he i v (hr_rows rc)) = Some r'"
        using prune_row [OF pruned(3)] upsert_distinct [OF d] call assms(5) by simp
      then show ?thesis using late by (simp add: finished_row_def)
    qed
  qed
  then show ?thesis by (simp add: finished_row_def)
qed

definition state_after :: "string \<Rightarrow> string list \<Rightarrow> string" where
  "state_after f states =
     (if f \<in> set states then f else if ''STARTED'' \<in> set states then ''STARTED'' else ''RECEIVED'')"

lemma state_after_snoc:
  assumes "f \<in> set FINISHED_STATES" "s \<in> {''RECEIVED'', ''STARTED'', f}" "set ss \<subseteq> {''RECEIVED'', ''STARTED'', f}"
  shows "state_after f (ss @ [s]) =
     (if state_after f ss \<in> set (KEEP_EXISTING s) then state_after f ss else s)"
  using assms by (auto simp: state_after_def KEEP_EXISTING_def)


text \<open>PostgreSQL's insert-or-update and the portable read-then-write leave the same table.\<close>

theorem native_and_portable_writes_agree:
  assumes "history_inv rows"
  shows "upsert_native k v (KEEP_EXISTING st) now rows = upsert_portable k v (KEEP_EXISTING st) now rows"
  using assms by (intro native_portable) (simp add: history_inv_def)

text \<open>A task that failed once, was retried and then succeeded: nothing clears the error of the first run, so
  that the row of a successful task shows an exception.\<close>

theorem success_keeps_the_error_of_an_earlier_run:
  assumes "distinct (ids rows)" "row_of_task k rows = Some r" "ct_exception r = Some e" "he_enabled he" "k \<noteq> []"
    and "\<not> he_upsert_fails he" "\<not> he_commit_fails he" "(n + 1) mod PRUNE_EVERY \<noteq> 0"
  shows "\<exists>r'. row_of_task k (hr_rows (deliver he (Sig_postrun (Some k) retval (Some ''SUCCESS''))
                \<lparr>hr_rows = rows, hr_writes = n, hr_started = started\<rparr>)) = Some r' \<and>
              ct_state r' = ''SUCCESS'' \<and> ct_exception r' = Some e"
  using assms
  by (auto simp: on_task_postrun_def record_task_def upsert_row written_def on_conflict_eq set_values_def
      KEEP_EXISTING_def no_values_def split: prod.splits)

subsection \<open>Timers\<close>

lemma length_put_started: "length (put_started k t xs) \<le> Suc (length xs)"
  by (induction k t xs rule: put_started.induct) auto

lemma length_pop_started: "length (snd (pop_started k xs)) \<le> length xs"
  by (induction k xs rule: pop_started.induct) (auto split: prod.splits)

lemma start_timing_bounded:
  assumes "length started \<le> MAX_STARTED"
  shows "length (start_timing task_id perf started) \<le> MAX_STARTED"
proof (cases "MAX_STARTED \<le> length started")
  case True
  have "0 < MAX_STARTED" by (simp add: MAX_STARTED_def)
  with True assms length_put_started [of "or_default task_id []" perf "tl started"] show ?thesis
    by (auto simp: start_timing_def)
next
  case False
  with assms length_put_started [of "or_default task_id []" perf started] show ?thesis
    by (auto simp: start_timing_def)
qed

lemma record_task_started [simp]: "hr_started (record_task he k v rc) = hr_started rc"
  by (auto simp: record_task_def Let_def split: option.splits)

text \<open>A process never times more than \<open>MAX_STARTED\<close> tasks, even when post-run signals are lost.\<close>

theorem timers_are_bounded:
  assumes "length (hr_started rc) \<le> MAX_STARTED"
  shows "length (hr_started (deliver he sig rc)) \<le> MAX_STARTED"
proof (cases sig)
  case (Sig_prerun task_id task_name request args kwargs)
  with start_timing_bounded [OF assms] show ?thesis by (simp add: on_task_prerun_def)
next
  case (Sig_postrun task_id retval st)
  with assms length_pop_started [of "or_default task_id []" "hr_started rc"] show ?thesis
    by (auto simp: on_task_postrun_def split: prod.splits)
qed (use assms in \<open>auto simp: handler_defs Let_def split: option.splits\<close>)

subsection \<open>Reading\<close>

text \<open>The whole listing of a query, and the key by which it is ordered.\<close>

definition ordered_tasks :: "view_env \<Rightarrow> task_query \<Rightarrow> celery_task list \<Rightarrow> celery_task list" where
  "ordered_tasks vw q rows =
     sort_key (order_key vw (or_default (or_str (tq_sort q) (Some ''updated'')) []) (tq_order q = Some ''asc''))
       (selected_tasks vw q rows)"

definition page_results :: "api_error + task_page \<Rightarrow> task_view list" where
  "page_results answer = (case answer of Inl _ \<Rightarrow> [] | Inr pg \<Rightarrow> tp_results pg)"

lemma ceiling_covers:
  fixes n m :: int
  assumes "0 < m"
  shows "n \<le> - ((- n) div m) * m"
proof -
  have "- n = (- n) div m * m + (- n) mod m" by simp
  moreover have "0 \<le> (- n) mod m" using assms by simp
  ultimately have "(- n) div m * m \<le> - n" by linarith
  then show ?thesis by simp
qed

text \<open>The pages of the task history, put together, are the selected tasks, each once, in the order that
  was asked for, with the tasks that have no value for the sort column last.\<close>

theorem task_pages_tile_the_history:
  assumes "list_tasks vw q rows = Inr pg"
  shows "concat (map (\<lambda>p. page_results (list_tasks vw (q\<lparr>tq_page := p\<rparr>) rows)) [1..tp_pages pg])
         = map (view_row False) (ordered_tasks vw q rows) \<and>
         mset (ordered_tasks vw q rows) = mset (selected_tasks vw q rows)"
proof (intro conjI)
  let ?m = "min (max 1 (tq_per_page q)) MAX_PER_PAGE"
  let ?xs = "ordered_tasks vw q rows"
  let ?view = "map (view_row False)"
  have m: "0 < ?m" by (simp add: MAX_PER_PAGE_def)
  from assms have ok: "or_default (or_str (tq_sort q) (Some ''updated'')) [] \<in> set SORT_COLUMNS"
    "or_default (or_str (tq_order q) (Some ''desc'')) [] \<in> {''asc'', ''desc''}"
    and pages: "tp_pages pg = - ((- int (length ?xs)) div ?m)"
    by (auto simp: list_tasks_def Let_def ordered_tasks_def split: if_splits)
  let ?pages = "tp_pages pg"
  have "(- int (length ?xs)) div ?m \<le> 0" using m by (simp add: div_nonpos_pos_le0)
  then have nonneg: "0 \<le> ?pages" by (simp add: pages)
  have selected: "selected_tasks vw (q\<lparr>tq_page := p\<rparr>) rows = selected_tasks vw q rows" for p
    by (simp add: selected_tasks_def)
  have item: "page_results (list_tasks vw (q\<lparr>tq_page := p\<rparr>) rows) = ?view (take (nat ?m) (drop (nat (p - 1) * nat ?m) ?xs))"
    if "1 \<le> p" for p
    using ok that m by (auto simp: list_tasks_def Let_def page_results_def selected ordered_tasks_def nat_mult_distrib)
  have upto: "[1..?pages] = map (\<lambda>i. int i + 1) [0..<nat ?pages]"
    using nonneg by (intro nth_equalityI) auto
  have "concat (map (\<lambda>p. page_results (list_tasks vw (q\<lparr>tq_page := p\<rparr>) rows)) [1..?pages])
      = concat (map (\<lambda>i. ?view (take (nat ?m) (drop (i * nat ?m) ?xs))) [0..<nat ?pages])"
    unfolding upto by (rule arg_cong [of _ _ concat]) (simp add: item)
  also have "\<dots> = ?view (concat (map (\<lambda>i. take (nat ?m) (drop (i * nat ?m) ?xs)) [0..<nat ?pages]))"
    by (simp add: map_concat comp_def)
  also have "\<dots> = ?view (take (nat ?pages * nat ?m) ?xs)"
    by (subst concat_slices) (use m in simp_all)
  also have "length ?xs \<le> nat ?pages * nat ?m"
  proof -
    have "int (length ?xs) \<le> ?pages * ?m" unfolding pages by (rule ceiling_covers [OF m])
    also have "\<dots> = int (nat ?pages * nat ?m)" using nonneg m by simp
    finally show ?thesis by (simp only: of_nat_le_iff)
  qed
  then have "?view (take (nat ?pages * nat ?m) ?xs) = ?view ?xs" by simp
  finally show "concat (map (\<lambda>p. page_results (list_tasks vw (q\<lparr>tq_page := p\<rparr>) rows)) [1..?pages]) = ?view ?xs" .
  show "mset ?xs = mset (selected_tasks vw q rows)" by (simp add: ordered_tasks_def)
qed

lemma sum_groups:
  assumes "distinct ks" "key ` set rows \<subseteq> set ks"
  shows "sum_list (map (\<lambda>k. int (length (filter (\<lambda>r. key r = k) rows))) ks) = int (length rows)"
  using assms(2)
proof (induction rows)
  case (Cons r rows)
  have "sum_list (map (\<lambda>k. int (length (filter (\<lambda>x. key x = k) (r # rows)))) ks)
      = sum_list (map (\<lambda>k. (if key r = k then 1 else 0) + int (length (filter (\<lambda>x. key x = k) rows))) ks)"
    by (rule arg_cong [of _ _ sum_list]) simp
  also have "\<dots> = sum_list (map (\<lambda>k. if key r = k then 1 else 0) ks) + int (length rows)"
    using Cons by (simp add: sum_list_addf)
  also have "sum_list (map (\<lambda>k. if key r = k then 1 else 0 :: int) ks) = (\<Sum>k \<in> set ks. if key r = k then 1 else 0)"
    by (rule sum_list_distinct_conv_sum_set [OF assms(1)])
  also have "\<dots> = 1" using Cons.prems by simp
  finally show ?case by simp
qed simp

text \<open>The outcome counts of the overview add up to the tasks recorded in the window.\<close>

theorem summary_counts_every_task_once:
  "sum_list (map snd (history_summary vw hours rows))
   = int (length (filter (in_window (vw_now vw) (Some hours)) rows))"
  unfolding history_summary_def Let_def group_keys_def map_map comp_def snd_conv
  by (rule sum_groups) (simp_all add: distinct_dedup_into)

subsection \<open>Redaction\<close>


text \<open>A stored text is within its cap and holds no API key however large the value is, and no more than
  one chunk beyond the scanned part is ever serialized.\<close>

theorem redaction_is_bounded:
  assumes "\<forall>c \<in> set (js_chunks js v). length c \<le> most"
  shows "length (fst (redact_bounded js v cap)) \<le> cap \<and> \<not> holds_api_key (fst (redact_bounded js v cap)) \<and>
         length (concat (json_prefix_parts (2 * cap + 1) 0 (js_chunks js v))) < 2 * cap + 1 + max 1 most"
proof -
  have "length (concat (json_prefix_parts (2 * cap + 1) 0 (js_chunks js v))) < 2 * cap + 1 + most \<or> js_chunks js v = []"
    using json_prefix_parts_work [of 0 "2 * cap + 1" "js_chunks js v" most] assms by simp
  then show ?thesis using bounded_within_cap bounded_holds_no_key by auto
qed

end
