(* ===== verification/Task_Control.thy ===== *)
theory Task_Control
  imports Task_Views
begin

text \<open>
  Commands to the workers (services/celery_control_service.py and the control routes of
  routes/celery_monitoring_controller.py). A command is a value of \<open>control_command\<close>, and sending it
  appends it to what the broker got; whether the broker answers, and what, are arguments. A JSON float
  is its \<open>repr\<close>, and \<open>ce_float\<close> what that denotes; \<open>float(n)\<close> of an integer is taken as exact.
\<close>

datatype number = Finite rat | Infinite bool | Not_a_number   \<comment> \<open>\<open>Infinite True\<close> is negative\<close>

fun number_greater :: "number \<Rightarrow> number \<Rightarrow> bool" where
  "number_greater (Finite a) (Finite b) = (a > b)"
| "number_greater (Finite a) (Infinite negative) = negative"
| "number_greater (Infinite negative) (Finite b) = (\<not> negative)"
| "number_greater (Infinite a) (Infinite b) = (\<not> a \<and> b)"
| "number_greater _ _ = False"

datatype control_failure = Refused api_error | Crashed   \<comment> \<open>an exception the service does not map\<close>

definition WORKER_ACTIONS :: "string list" where
  "WORKER_ACTIONS = [''pool_grow'', ''pool_shrink'', ''autoscale'', ''pool_restart'', ''add_consumer'', ''cancel_consumer'', ''shutdown'']"

definition TERMINATE_SIGNALS :: "string list" where
  "TERMINATE_SIGNALS = [''SIGTERM'', ''SIGKILL'', ''SIGINT'']"

definition MAX_POOL_STEP :: int where "MAX_POOL_STEP = 32"
definition MAX_AUTOSCALE :: int where "MAX_AUTOSCALE = 64"

definition fullmatch :: "rx \<Rightarrow> string \<Rightarrow> bool" where
  "fullmatch r text \<longleftrightarrow> list_ex (\<lambda>m. sp_rest m = []) (matches r (spot_at [] text))"

definition RATE_LIMIT_RE :: rx where
  "RATE_LIMIT_RE = seqs
     [Rep 1 None (One is_digit), optional (seqs [One (is_char CHR ''.''), Rep 1 None (One is_digit)]),
      optional (seqs [One (is_char CHR ''/''), One (\<lambda>c. c \<in> set ''smh'')])]"

definition control_name_char :: "char \<Rightarrow> bool" where
  "control_name_char c \<longleftrightarrow> word_char c \<or> c \<in> set ''.:@-[]''"

definition NAME_RE :: rx where
  "NAME_RE = Rep 1 (Some 255) (One control_name_char)"

definition invalid :: "string \<Rightarrow> control_failure" where
  "invalid message = Refused (ApiError ''invalid_parameter'' message 400)"

text \<open>\<open>str(value or "").strip()\<close>.\<close>

definition stripped_text :: "pyval \<Rightarrow> string" where
  "stripped_text v = (if truthy v then strip (py_str v) else [])"

definition control_name :: "pyval \<Rightarrow> string \<Rightarrow> control_failure + string" where
  "control_name v what =
     (let text = stripped_text v in
      if \<not> fullmatch NAME_RE text
      then Inl (invalid (in_quotes what @ '' is missing or contains characters it cannot have.'')) else Inr text)"

definition limit_destination :: "pyval \<Rightarrow> control_failure + string list option" where
  "limit_destination w =
     (if w = PNone \<or> w = PStr [] then Inr None
      else case control_name w ''worker'' of Inl e \<Rightarrow> Inl e | Inr name \<Rightarrow> Inr (Some [name]))"

definition celery_control_enabled :: "string option \<Rightarrow> string option \<Rightarrow> string option \<Rightarrow> bool" where
  "celery_control_enabled control monitoring celery =
     (case config_get control of
        None \<Rightarrow> celery_monitoring_enabled monitoring celery
      | Some raw \<Rightarrow> env_truthy (Some raw))"

record control_env =
  ce_enabled :: bool
  ce_reachable :: bool
  ce_float :: "string \<Rightarrow> number"

definition in_bounds :: "int \<Rightarrow> string \<Rightarrow> int \<Rightarrow> int \<Rightarrow> control_failure + int" where
  "in_bounds n what low high =
     (if \<not> (low \<le> n \<and> n \<le> high)
      then Inl (invalid (in_quotes what @ '' must be between '' @ int_str low @ '' and '' @ int_str high @ ''.'')) else Inr n)"

definition whole :: "control_env \<Rightarrow> pyval \<Rightarrow> string \<Rightarrow> int \<Rightarrow> int \<Rightarrow> control_failure + int" where
  "whole ce v what low high =
     (let no = Inl (invalid (in_quotes what @ '' must be a whole number.'')) in
      case v of
        PInt n \<Rightarrow> in_bounds n what low high
      | PFloat r \<Rightarrow>
          (case ce_float ce r of
             Finite q \<Rightarrow> if of_int \<lfloor>q\<rfloor> \<noteq> q then no else in_bounds \<lfloor>q\<rfloor> what low high
           | _ \<Rightarrow> Inl Crashed)
      | _ \<Rightarrow> no)"

text \<open>An integer that no double holds makes \<open>float\<close> raise.\<close>

definition DOUBLE_LIMIT :: int where "DOUBLE_LIMIT = 2 ^ 1024 - 2 ^ 970"

definition seconds :: "control_env \<Rightarrow> pyval \<Rightarrow> string \<Rightarrow> control_failure + number option" where
  "seconds ce v what =
     (let no = Inl (invalid (in_quotes what @ '' must be a number of seconds, 0 or more.'')) in
      case v of
        PNone \<Rightarrow> Inr None
      | PStr s \<Rightarrow> (if s = [] then Inr None else no)
      | PInt n \<Rightarrow> (if n < 0 then no else if DOUBLE_LIMIT \<le> n then Inl Crashed else Inr (Some (Finite (of_int n))))
      | PFloat r \<Rightarrow> (if number_greater (Finite 0) (ce_float ce r) then no else Inr (Some (ce_float ce r)))
      | _ \<Rightarrow> no)"

subsection \<open>Sending\<close>

datatype control_command =
    Revoke string bool string
  | Rate_limit string "string option" "string list option"
  | Time_limit string "number option" "number option" "string list option"
  | Pool_grow int "string list"
  | Pool_shrink int "string list"
  | Autoscale int int "string list"
  | Pool_restart "string list"
  | Add_consumer string "string list"
  | Cancel_consumer string "string list"
  | Shutdown "string list"

record control_outcome =
  oc_ok :: bool
  oc_message :: "string option"
  oc_results :: "(string \<times> bool \<times> string) list"

text \<open>The answers: \<open>None\<close> for what is not a list; an answer that is \<open>None\<close> counts as empty.\<close>

definition answer_line :: "string \<Rightarrow> pyval \<Rightarrow> string \<times> bool \<times> string" where
  "answer_line worker body =
     (case body of
        PDict d \<Rightarrow> (let succeeded = (map_of d ''ok'' \<noteq> None) in
                     (worker, succeeded, py_str (if succeeded then dget d ''ok'' else dget d ''error'')))
      | _ \<Rightarrow> (worker, False, py_str body))"

definition summarize_replies :: "(string \<times> pyval) list option list option \<Rightarrow> control_outcome" where
  "summarize_replies replies =
     (let results = concat (map (\<lambda>reply. map (\<lambda>(worker, body). answer_line worker body) (or_default reply [])) (or_default replies []))
      in if results = [] then \<lparr>oc_ok = False, oc_message = Some ''No worker answered.'', oc_results = []\<rparr>
         else \<lparr>oc_ok = list_all (\<lambda>(worker, succeeded, message). succeeded) results,
               oc_message = (if length results = 1 then Some (snd (snd (hd results))) else None),
               oc_results = results\<rparr>)"

type_synonym broker_answers = "control_command \<Rightarrow> (string \<times> pyval) list option list option"

definition send_command :: "control_env \<Rightarrow> broker_answers \<Rightarrow> bool \<Rightarrow> control_command \<Rightarrow> control_command list \<Rightarrow>
    (control_failure + control_outcome) \<times> control_command list" where
  "send_command ce answers reply command sent =
     (if \<not> ce_enabled ce
      then (Inl (Refused (ApiError ''celery_control_disabled'' ''Celery control actions are disabled on this deployment.'' 403)), sent)
      else if \<not> ce_reachable ce
      then (Inl (Refused (ApiError ''celery_monitoring_unavailable''
              ''The Celery broker is not reachable, so the command was not sent.'' 503)), sent)
      else (Inr (if reply then summarize_replies (answers command)
                 else \<lparr>oc_ok = True, oc_message = Some ''Sent.'', oc_results = []\<rparr>), sent @ [command]))"

text \<open>A command that passed its checks is sent, one that did not leaves the broker alone.\<close>

definition send_checked :: "control_env \<Rightarrow> broker_answers \<Rightarrow> bool \<Rightarrow> control_failure + control_command \<Rightarrow>
    control_command list \<Rightarrow> (control_failure + control_outcome) \<times> control_command list" where
  "send_checked ce answers reply checked sent =
     (case checked of Inl e \<Rightarrow> (Inl e, sent) | Inr command \<Rightarrow> send_command ce answers reply command sent)"

definition control_revoke :: "pyval \<Rightarrow> bool \<Rightarrow> pyval \<Rightarrow> control_failure + control_command" where
  "control_revoke task_id terminate signal =
     (case control_name task_id ''taskId'' of Inl e \<Rightarrow> Inl e | Inr task \<Rightarrow>
        (let text = upper (stripped_text signal); name = (if text = [] then ''SIGTERM'' else text) in
         if name \<notin> set TERMINATE_SIGNALS
         then Inl (invalid (in_quotes ''signal'' @ '' must be one of '' @ join '', '' TERMINATE_SIGNALS @ ''.''))
         else Inr (Revoke task terminate name)))"

definition control_rate_limit :: "pyval \<Rightarrow> pyval \<Rightarrow> pyval \<Rightarrow> control_failure + control_command" where
  "control_rate_limit task_name limit worker =
     (case control_name task_name ''taskName'' of Inl e \<Rightarrow> Inl e | Inr name \<Rightarrow>
        (let text = stripped_text limit in
         if text \<noteq> [] \<and> \<not> fullmatch RATE_LIMIT_RE text
         then Inl (invalid (in_quotes ''rateLimit'' @ '' must look like 10, 10/s, 10/m or 10/h; leave it empty to remove the limit.''))
         else (case limit_destination worker of Inl e \<Rightarrow> Inl e | Inr destination \<Rightarrow>
                 Inr (Rate_limit name (if text = [] then None else Some text) destination))))"

definition control_time_limit :: "control_env \<Rightarrow> pyval \<Rightarrow> pyval \<Rightarrow> pyval \<Rightarrow> pyval \<Rightarrow> control_failure + control_command" where
  "control_time_limit ce task_name soft hard worker =
     (case control_name task_name ''taskName'' of Inl e \<Rightarrow> Inl e | Inr name \<Rightarrow>
      case seconds ce soft ''softSeconds'' of Inl e \<Rightarrow> Inl e | Inr soft_seconds \<Rightarrow>
      case seconds ce hard ''hardSeconds'' of Inl e \<Rightarrow> Inl e | Inr hard_seconds \<Rightarrow>
      if (case (soft_seconds, hard_seconds) of (Some s, Some h) \<Rightarrow> number_greater s h | _ \<Rightarrow> False)
      then Inl (invalid (in_quotes ''softSeconds'' @ '' cannot be longer than '' @ in_quotes ''hardSeconds'' @ ''.''))
      else (case limit_destination worker of Inl e \<Rightarrow> Inl e | Inr destination \<Rightarrow>
              Inr (Time_limit name soft_seconds hard_seconds destination)))"

definition dget_or :: "(string \<times> pyval) list \<Rightarrow> string \<Rightarrow> pyval \<Rightarrow> pyval" where
  "dget_or d k dflt = (case map_of d k of None \<Rightarrow> dflt | Some v \<Rightarrow> v)"

definition pool_step :: "control_env \<Rightarrow> (string \<times> pyval) list \<Rightarrow> control_failure + int" where
  "pool_step ce body = whole ce (dget_or body ''n'' (PInt 1)) ''n'' 1 MAX_POOL_STEP"

definition autoscale :: "control_env \<Rightarrow> (string \<times> pyval) list \<Rightarrow> string list \<Rightarrow> control_failure + control_command" where
  "autoscale ce body destination =
     (case whole ce (dget body ''min'') ''min'' 0 MAX_AUTOSCALE of Inl e \<Rightarrow> Inl e | Inr minimum \<Rightarrow>
      case whole ce (dget body ''max'') ''max'' 1 MAX_AUTOSCALE of Inl e \<Rightarrow> Inl e | Inr maximum \<Rightarrow>
      if maximum < minimum then Inl (invalid (in_quotes ''min'' @ '' cannot be more than '' @ in_quotes ''max'' @ ''.''))
      else Inr (Autoscale maximum minimum destination))"

definition worker_action :: "control_env \<Rightarrow> pyval \<Rightarrow> (string \<times> pyval) list \<Rightarrow> control_failure + control_command" where
  "worker_action ce worker_name body =
     (case control_name worker_name ''worker'' of Inl e \<Rightarrow> Inl e | Inr worker \<Rightarrow>
        (let action = lower (stripped_text (dget body ''action'')); destination = [worker] in
         if action = ''pool_grow'' then map_sum id (\<lambda>n. Pool_grow n destination) (pool_step ce body)
         else if action = ''pool_shrink'' then map_sum id (\<lambda>n. Pool_shrink n destination) (pool_step ce body)
         else if action = ''autoscale'' then autoscale ce body destination
         else if action = ''pool_restart'' then Inr (Pool_restart destination)
         else if action = ''add_consumer''
         then map_sum id (\<lambda>q. Add_consumer q destination) (control_name (dget body ''queue'') ''queue'')
         else if action = ''cancel_consumer''
         then map_sum id (\<lambda>q. Cancel_consumer q destination) (control_name (dget body ''queue'') ''queue'')
         else if action = ''shutdown'' then Inr (Shutdown destination)
         else Inl (invalid (in_quotes ''action'' @ '' must be one of '' @ join '', '' WORKER_ACTIONS @ ''.''))))"

definition waits_for_reply :: "control_command \<Rightarrow> bool" where
  "waits_for_reply command \<longleftrightarrow> (case command of Shutdown _ \<Rightarrow> False | _ \<Rightarrow> True)"

subsection \<open>The routes\<close>

datatype control_request =
    Post_revoke pyval
  | Post_rate_limit pyval
  | Post_time_limit pyval
  | Post_worker string pyval

fun checked_command :: "control_env \<Rightarrow> control_request \<Rightarrow> control_failure + control_command" where
  "checked_command ce (Post_revoke json) =
     (let body = dict_items json in
      control_revoke (dget body ''taskId'') (truthy (dget body ''terminate'')) (dget body ''signal''))"
| "checked_command ce (Post_rate_limit json) =
     (let body = dict_items json in
      control_rate_limit (dget body ''taskName'') (dget body ''rateLimit'') (dget body ''worker''))"
| "checked_command ce (Post_time_limit json) =
     (let body = dict_items json in
      control_time_limit ce (dget body ''taskName'') (dget body ''softSeconds'') (dget body ''hardSeconds'') (dget body ''worker''))"
| "checked_command ce (Post_worker worker_name json) = worker_action ce (PStr worker_name) (dict_items json)"

definition control_route :: "control_env \<Rightarrow> broker_answers \<Rightarrow> request_state \<Rightarrow> control_request \<Rightarrow> control_command list \<Rightarrow>
    (control_failure + control_outcome) \<times> control_command list" where
  "control_route ce answers rs post sent =
     (case celery_require_super_admin rs of
        Inl e \<Rightarrow> (Inl (Refused e), sent)
      | Inr _ \<Rightarrow>
          (let checked = checked_command ce post in
           send_checked ce answers (case checked of Inr c \<Rightarrow> waits_for_reply c | Inl _ \<Rightarrow> True) checked sent))"

subsection \<open>What is sent\<close>

text \<open>A command that may go out: names of the allowed characters, bounds, signals and limits as documented.\<close>

definition good_name :: "string \<Rightarrow> bool" where
  "good_name s \<longleftrightarrow> 1 \<le> length s \<and> length s \<le> 255 \<and> list_all control_name_char s"

definition one_worker :: "string list \<Rightarrow> bool" where
  "one_worker ws \<longleftrightarrow> (case ws of [w] \<Rightarrow> good_name w | _ \<Rightarrow> False)"

definition some_worker :: "string list option \<Rightarrow> bool" where
  "some_worker ws \<longleftrightarrow> (case ws of None \<Rightarrow> True | Some ws \<Rightarrow> one_worker ws)"

definition not_negative :: "number option \<Rightarrow> bool" where
  "not_negative n \<longleftrightarrow> (case n of None \<Rightarrow> True | Some x \<Rightarrow> \<not> number_greater (Finite 0) x)"

fun well_formed_command :: "control_command \<Rightarrow> bool" where
  "well_formed_command (Revoke task terminate name) \<longleftrightarrow> good_name task \<and> name \<in> set TERMINATE_SIGNALS"
| "well_formed_command (Rate_limit task limit ws) \<longleftrightarrow>
     good_name task \<and> some_worker ws \<and> (case limit of None \<Rightarrow> True | Some l \<Rightarrow> fullmatch RATE_LIMIT_RE l)"
| "well_formed_command (Time_limit task soft hard ws) \<longleftrightarrow>
     good_name task \<and> some_worker ws \<and> not_negative soft \<and> not_negative hard \<and>
     (case (soft, hard) of (Some s, Some h) \<Rightarrow> \<not> number_greater s h | _ \<Rightarrow> True)"
| "well_formed_command (Pool_grow n ws) \<longleftrightarrow> 1 \<le> n \<and> n \<le> 32 \<and> one_worker ws"
| "well_formed_command (Pool_shrink n ws) \<longleftrightarrow> 1 \<le> n \<and> n \<le> 32 \<and> one_worker ws"
| "well_formed_command (Autoscale maximum minimum ws) \<longleftrightarrow>
     0 \<le> minimum \<and> minimum \<le> maximum \<and> 1 \<le> maximum \<and> maximum \<le> 64 \<and> one_worker ws"
| "well_formed_command (Pool_restart ws) \<longleftrightarrow> one_worker ws"
| "well_formed_command (Add_consumer queue ws) \<longleftrightarrow> good_name queue \<and> one_worker ws"
| "well_formed_command (Cancel_consumer queue ws) \<longleftrightarrow> good_name queue \<and> one_worker ws"
| "well_formed_command (Shutdown ws) \<longleftrightarrow> one_worker ws"

lemma rep_One_matches:
  assumes "t \<in> set (rep_matches (matches (One p)) least most s)"
  shows "\<exists>read. sp_rest s = read @ sp_rest t \<and> list_all p read \<and> least \<le> length read \<and> length read \<le> most"
  using assms
proof (induction most arbitrary: least s)
  case (Suc most)
  show ?case
  proof (cases "t \<in> set (concat (map (rep_matches (matches (One p)) (least - 1) most) (matches (One p) s)))")
    case True
    then obtain c cs where "sp_rest s = c # cs" "p c"
      and "t \<in> set (rep_matches (matches (One p)) (least - 1) most (s\<lparr>sp_before := c # sp_before s, sp_rest := cs\<rparr>))"
      by (cases "sp_rest s") (auto split: if_splits)
    with Suc.IH obtain read where "sp_rest s = (c # read) @ sp_rest t" "list_all p (c # read)"
      "least - 1 \<le> length read" "length read \<le> most" by fastforce
    then show ?thesis by (intro exI [of _ "c # read"]) auto
  next
    case False
    with Suc.prems have "t \<in> set (if least = 0 then [s] else [])" by (simp only: rep_matches.simps set_append Un_iff simp_thms)
    then show ?thesis by (cases "least = 0") simp_all
  qed
qed (auto split: if_splits)

lemma name_fullmatch: "fullmatch NAME_RE text \<Longrightarrow> good_name text"
  using rep_One_matches [of _ control_name_char 1 255 "spot_at [] text"]
  by (fastforce simp: fullmatch_def NAME_RE_def good_name_def list_ex_iff spot_at_def)

lemma control_name_good: "control_name v what = Inr name \<Longrightarrow> good_name name"
  by (auto simp: control_name_def Let_def split: if_splits intro: name_fullmatch)

lemma limit_destination_good: "limit_destination w = Inr ws \<Longrightarrow> some_worker ws"
  by (auto simp: limit_destination_def some_worker_def one_worker_def split: if_splits sum.splits intro: control_name_good)

lemma in_bounds_bounds: "in_bounds n what low high = Inr m \<Longrightarrow> low \<le> m \<and> m \<le> high"
  by (auto simp: in_bounds_def split: if_splits)

lemma whole_bounds: "whole ce v what low high = Inr n \<Longrightarrow> low \<le> n \<and> n \<le> high"
  by (auto simp: whole_def Let_def split: pyval.splits number.splits if_splits dest: in_bounds_bounds)

lemma seconds_good: "seconds ce v what = Inr n \<Longrightarrow> not_negative n"
  by (auto simp: seconds_def not_negative_def Let_def split: pyval.splits if_splits)

lemma control_revoke_vetted: "control_revoke task_id terminate signal = Inr c \<Longrightarrow> well_formed_command c"
  by (auto simp: control_revoke_def Let_def split: sum.splits if_splits dest: control_name_good)

lemma control_rate_limit_vetted: "control_rate_limit task_name limit worker = Inr c \<Longrightarrow> well_formed_command c"
  by (auto simp: control_rate_limit_def Let_def split: sum.splits if_splits dest: control_name_good limit_destination_good)

lemma control_time_limit_vetted: "control_time_limit ce task_name soft hard worker = Inr c \<Longrightarrow> well_formed_command c"
  by (auto simp: control_time_limit_def Let_def split: sum.splits if_splits option.splits
      dest: control_name_good limit_destination_good seconds_good)

lemma autoscale_vetted: "autoscale ce body ws = Inr c \<Longrightarrow> one_worker ws \<Longrightarrow> well_formed_command c"
  by (auto simp: autoscale_def MAX_AUTOSCALE_def split: sum.splits if_splits dest!: whole_bounds)

lemma pool_step_bounds: "pool_step ce body = Inr n \<Longrightarrow> 1 \<le> n \<and> n \<le> 32"
  unfolding pool_step_def MAX_POOL_STEP_def by (rule whole_bounds)

lemma one_worker_single [simp]: "one_worker [w] = good_name w"
  by (simp add: one_worker_def)

lemma autoscale_one_vetted: "autoscale ce body [w] = Inr c \<Longrightarrow> good_name w \<Longrightarrow> well_formed_command c"
  by (erule autoscale_vetted) simp

lemma worker_action_vetted: "worker_action ce worker_name body = Inr c \<Longrightarrow> well_formed_command c"
  by (auto simp: worker_action_def Let_def map_sum_Inr split: sum.splits if_splits
      dest: control_name_good pool_step_bounds autoscale_one_vetted)

lemma checked_command_vetted: "checked_command ce post = Inr c \<Longrightarrow> well_formed_command c"
  by (cases post) (auto simp: Let_def dest: control_revoke_vetted control_rate_limit_vetted control_time_limit_vetted
      worker_action_vetted)


end
