(* ===== verification/History_Witnesses.thy ===== *)
theory History_Witnesses
  imports Task_Properties Task_Control
begin

text \<open>A small history on which the properties of redaction, of the recorder and of the control routes are applied.\<close>

definition demo_dict :: pyval where
  "demo_dict = PDict [(''token'', PStr ''m8f_a.x''), (''n'', PInt 2)]"

definition demo_json :: json_lib where
  "demo_json = \<lparr>js_loads = (\<lambda>t. if t = py_repr demo_dict then Some demo_dict else None),
     js_dumps = py_repr, js_chunks = (\<lambda>v. [py_repr v])\<rparr>"

definition demo_he :: history_env where
  "demo_he = \<lparr>he_enabled = True, he_dialect = ''postgresql'', he_sqlite = (0, 0, 0), he_retention = 7,
     he_now = 100, he_perf = 5, he_json = demo_json, he_upsert_fails = False, he_prune_fails = False,
     he_commit_fails = False\<rparr>"

definition demo_rq :: task_request where
  "demo_rq = \<lparr>rq_id = Some ''k'', rq_name = Some ''poll'', rq_hostname = Some ''w1'', rq_routing_key = None,
     rq_request_dict = PNone, rq_headers = PDict [(''x-m8flow-tenant-id'', PStr ''t1'')], rq_attributes = PNone,
     rq_args = demo_dict, rq_kwargs = PNone, rq_header_retries = None, rq_retries = None, rq_eta = None,
     rq_expires = None, rq_parent_id = None, rq_root_id = None\<rparr>"

definition idle_recorder :: recorder where
  "idle_recorder = \<lparr>hr_rows = [], hr_writes = 0, hr_started = []\<rparr>"

definition after_received :: recorder where
  "after_received = deliver demo_he (Sig_received (Some demo_rq)) idle_recorder"

definition after_success :: recorder where
  "after_success = deliver demo_he (Sig_postrun (Some ''k'') PNone (Some ''SUCCESS''))
     (deliver demo_he (Sig_prerun (Some ''k'') (Some ''poll'') None PNone PNone) idle_recorder)"

lemma after_received_row:
  "map (\<lambda>r. (ct_task_id r, ct_state r, ct_tenant r, ct_args r)) (hr_rows after_received)
   = [(''k'', ''RECEIVED'', Some ''t1'', Some (py_repr (PDict [(''token'', PStr ''[redacted]''), (''n'', PInt 2)]), False))]"
  by code_simp


lemma after_success_row:
  "map_option ct_state (row_of_task ''k'' (hr_rows after_success)) = Some ''SUCCESS''" "history_inv (hr_rows after_success)"
  by code_simp+

definition late_start :: task_signal where
  "late_start = Sig_prerun (Some ''k'') (Some ''poll'') None PNone PNone"

lemma late_start_row:
  "map_option ct_state (row_of_task ''k'' (hr_rows (deliver demo_he late_start after_success))) = Some ''SUCCESS''"
  "lifecycle_signal late_start"
  by code_simp+

theorem finished_tasks_stay_finished_witness:
  "\<exists>r'. row_of_task ''k'' (hr_rows (deliver demo_he late_start after_success)) = Some r' \<and> ct_state r' \<in> set FINISHED_STATES"
proof -
  obtain r r' where r: "row_of_task ''k'' (hr_rows after_success) = Some r" "ct_state r = ''SUCCESS''"
    and r': "row_of_task ''k'' (hr_rows (deliver demo_he late_start after_success)) = Some r'"
    using after_success_row(1) late_start_row(1) by auto
  have "ct_state r \<in> set FINISHED_STATES" using r(2) by simp
  from finished_tasks_stay_finished [OF after_success_row(2) late_start_row(2) r(1) this r'] r' show ?thesis by blast
qed


theorem native_and_portable_writes_agree_witness:
  "upsert_native ''k'' no_values (KEEP_EXISTING ''RETRY'') 7 (hr_rows after_success)
   = upsert_portable ''k'' no_values (KEEP_EXISTING ''RETRY'') 7 (hr_rows after_success)"
  by (rule native_and_portable_writes_agree [OF after_success_row(2)])

theorem timers_are_bounded_witness:
  "length (hr_started (deliver demo_he late_start idle_recorder)) \<le> MAX_STARTED"
  by (rule timers_are_bounded) code_simp

definition demo_vw :: view_env where
  "demo_vw = \<lparr>vw_now = 100, vw_ilike = (\<lambda>p t. False), vw_rank = (\<lambda>s. int (length s))\<rparr>"

definition demo_tq :: task_query where
  "demo_tq = \<lparr>tq_state = None, tq_name = None, tq_worker = None, tq_search = None, tq_window = Some 24,
     tq_page = 1, tq_per_page = 1, tq_sort = Some ''runtime'', tq_order = Some ''asc''\<rparr>"

lemma demo_page: "case list_tasks demo_vw demo_tq (hr_rows after_success) of Inl _ \<Rightarrow> False | Inr pg \<Rightarrow> tp_pages pg = 1"
  by code_simp

theorem task_pages_tile_the_history_witness:
  "concat (map (\<lambda>p. page_results (list_tasks demo_vw (demo_tq\<lparr>tq_page := p\<rparr>) (hr_rows after_success))) [1..1])
   = map (view_row False) (ordered_tasks demo_vw demo_tq (hr_rows after_success)) \<and>
   mset (ordered_tasks demo_vw demo_tq (hr_rows after_success)) = mset (selected_tasks demo_vw demo_tq (hr_rows after_success))"
proof -
  from demo_page obtain pg where "list_tasks demo_vw demo_tq (hr_rows after_success) = Inr pg" "tp_pages pg = 1"
    by (cases "list_tasks demo_vw demo_tq (hr_rows after_success)") auto
  from task_pages_tile_the_history [OF this(1)] this(2) show ?thesis by simp
qed


theorem redaction_is_bounded_witness:
  "length (fst (redact_bounded demo_json (PInt 12) 1)) \<le> 1 \<and>
   length (concat (json_prefix_parts 3 0 (js_chunks demo_json (PInt 12)))) < 3 + max 1 2"
proof -
  have "\<forall>c \<in> set (js_chunks demo_json (PInt 12)). length c \<le> 2" by code_simp
  from redaction_is_bounded [OF this, of 1] show ?thesis by simp
qed

theorem success_keeps_the_error_of_an_earlier_run_witness:
  "\<exists>r'. row_of_task ''k'' (hr_rows (deliver demo_he (Sig_postrun (Some ''k'') PNone (Some ''SUCCESS''))
      \<lparr>hr_rows = [new_task_row ''k'' (no_values\<lparr>tv_exception := Some (''boom'', False)\<rparr>) 1], hr_writes = 1, hr_started = []\<rparr>)) = Some r' \<and>
    ct_state r' = ''SUCCESS'' \<and> ct_exception r' = Some (''boom'', False)"
proof (rule success_keeps_the_error_of_an_earlier_run)
  let ?r = "new_task_row ''k'' (no_values\<lparr>tv_exception := Some (''boom'', False)\<rparr>) 1"
  show "row_of_task ''k'' [?r] = Some ?r" by (simp add: row_of_task_def)
  show "ct_exception ?r = Some (''boom'', False)" by (simp add: new_task_row_def)
qed (simp_all add: demo_he_def PRUNE_EVERY_def ids_def)

lemma a_command:
  "checked_command \<lparr>ce_enabled = True, ce_reachable = True, ce_float = (\<lambda>_. Not_a_number)\<rparr>
     (Post_worker ''w1@h'' (PDict [(''action'', PStr ''Pool_Grow''), (''n'', PInt 3)])) = Inr (Pool_grow 3 [''w1@h''])"
  by code_simp

end
