(* ===== verification/Catalog_Paths.thy ===== *)
theory Catalog_Paths
  imports Invitations
begin

text \<open>
  The file system under the process model catalog (catalog/__init__.py) and the guard that every path
  of a request goes through. A path is the list of its components from the root; a node is a directory,
  a file with its bytes (a byte is a character) or a symbolic link with its text. \<open>realpath\<close> is Python's.
\<close>

type_synonym path = "string list"

datatype node = Dir | File string | Link string

type_synonym disk = "(path \<times> node) list"

definition node_at :: "disk \<Rightarrow> path \<Rightarrow> node option" where
  "node_at d p = (if p = [] then Some Dir else map_of d p)"

definition put_node :: "path \<Rightarrow> node \<Rightarrow> disk \<Rightarrow> disk" where
  "put_node p n d = (p, n) # filter (\<lambda>(q, _). q \<noteq> p) d"

fun is_prefix :: "path \<Rightarrow> path \<Rightarrow> bool" where
  "is_prefix [] q = True"
| "is_prefix (c # p) [] = False"
| "is_prefix (c # p) (e # q) = (c = e \<and> is_prefix p q)"

definition without_tree :: "path \<Rightarrow> disk \<Rightarrow> disk" where
  "without_tree p d = filter (\<lambda>(q, _). \<not> is_prefix p q) d"

definition without_node :: "path \<Rightarrow> disk \<Rightarrow> disk" where
  "without_node p d = filter (\<lambda>(q, _). q \<noteq> p) d"

definition join_path :: "string \<Rightarrow> string \<Rightarrow> string" where
  "join_path a b =
     (if startswith b ''/'' then b else if a = [] \<or> endswith a ''/'' then a @ b else a @ ''/'' @ b)"

definition join_paths :: "string \<Rightarrow> string list \<Rightarrow> string" where
  "join_paths a parts = foldl join_path a parts"

text \<open>\<open>os.path.normpath\<close> of an absolute path, on components.\<close>

fun norm_onto :: "path \<Rightarrow> string list \<Rightarrow> path" where
  "norm_onto done_part [] = done_part"
| "norm_onto done_part (name # rest) =
     norm_onto (if name = [] \<or> name = ''.'' then done_part
                else if name = ''..'' then butlast done_part else done_part @ [name]) rest"

definition path_text :: "path \<Rightarrow> string" where
  "path_text p = ''/'' @ join ''/'' p"

text \<open>\<open>_joinrealpath\<close>: \<open>seen\<close> maps a link to what it resolves to, \<open>None\<close> while it is being resolved. A link
  met while it is being resolved ends the walk with the rest unresolved. A link is entered once, so that
  the number of links bounds the depth.\<close>

type_synonym seen = "(path \<times> path option) list"

definition link_at :: "disk \<Rightarrow> path \<Rightarrow> string option" where
  "link_at d p = (case node_at d p of Some (Link target) \<Rightarrow> Some target | _ \<Rightarrow> None)"

function join_real :: "nat \<Rightarrow> disk \<Rightarrow> path \<Rightarrow> string list \<Rightarrow> seen \<Rightarrow> path \<times> bool \<times> seen" where
  "join_real depth d p [] seen = (p, True, seen)"
| "join_real depth d p (name # rest) seen =
     (if name = [] \<or> name = ''.'' then join_real depth d p rest seen
      else if name = ''..'' then join_real depth d (butlast p) rest seen
      else case link_at d (p @ [name]) of
        None \<Rightarrow> join_real depth d (p @ [name]) rest seen
      | Some target \<Rightarrow>
          (case map_of seen (p @ [name]) of
             Some (Some q) \<Rightarrow> join_real depth d q rest seen
           | Some None \<Rightarrow> (norm_onto (p @ [name]) rest, False, seen)
           | None \<Rightarrow>
               (case depth of
                  0 \<Rightarrow> (norm_onto (p @ [name]) rest, False, seen)
                | Suc n \<Rightarrow>
                    (case join_real n d (if startswith target ''/'' then [] else p) (split_on (CHR ''/'') target)
                            ((p @ [name], None) # seen) of
                       (q, ok, seen') \<Rightarrow>
                         if ok then join_real depth d q rest ((p @ [name], Some q) # seen')
                         else (norm_onto q rest, False, seen')))))"
  by pat_completeness auto
termination by (relation "measures [\<lambda>(depth, d, p, rest, seen). depth, \<lambda>(depth, d, p, rest, seen). length rest]") auto

definition is_link :: "node \<Rightarrow> bool" where
  "is_link n = (case n of Link _ \<Rightarrow> True | _ \<Rightarrow> False)"

definition link_count :: "disk \<Rightarrow> nat" where
  "link_count d = length (filter (\<lambda>(_, n). is_link n) d)"

definition realpath :: "disk \<Rightarrow> string \<Rightarrow> path" where
  "realpath d text = norm_onto [] (fst (join_real (link_count d) d [] (split_on (CHR ''/'') text) []))"

subsection \<open>What the operating system does\<close>

text \<open>A path is resolved on access. A link that is left is a loop, which is refused.\<close>

definition resolve :: "disk \<Rightarrow> path \<Rightarrow> path" where
  "resolve d p = realpath d (path_text p)"

definition node_of :: "disk \<Rightarrow> path \<Rightarrow> node option" where
  "node_of d p = (case node_at d (resolve d p) of Some (Link _) \<Rightarrow> None | n \<Rightarrow> n)"

definition is_dir :: "disk \<Rightarrow> path \<Rightarrow> bool" where
  "is_dir d p \<longleftrightarrow> node_of d p = Some Dir"

definition is_file :: "disk \<Rightarrow> path \<Rightarrow> bool" where
  "is_file d p \<longleftrightarrow> (case node_of d p of Some (File _) \<Rightarrow> True | _ \<Rightarrow> False)"

definition path_exists :: "disk \<Rightarrow> path \<Rightarrow> bool" where
  "path_exists d p \<longleftrightarrow> node_of d p \<noteq> None"

definition read_bytes :: "disk \<Rightarrow> path \<Rightarrow> string option" where
  "read_bytes d p = (case node_of d p of Some (File content) \<Rightarrow> Some content | _ \<Rightarrow> None)"

text \<open>\<open>iterdir\<close>: the names in a directory, in the order of the disk.\<close>

definition children :: "disk \<Rightarrow> path \<Rightarrow> string list" where
  "children d p = map (\<lambda>(q, _). last q) (filter (\<lambda>(q, _). q \<noteq> [] \<and> butlast q = resolve d p) d)"

text \<open>\<open>mkdir(parents=True, exist_ok=True)\<close>, \<open>write_bytes\<close>, \<open>shutil.rmtree\<close> and \<open>unlink\<close> (of the entry itself).
  A step returns what it raised with the disk it left.\<close>

type_synonym disk_step = "call_failure option \<times> disk"

fun make_dirs :: "path \<Rightarrow> string list \<Rightarrow> disk \<Rightarrow> disk_step" where
  "make_dirs p [] d = (None, d)"
| "make_dirs p (name # rest) d =
     (case node_at d (p @ [name]) of
        None \<Rightarrow> make_dirs (p @ [name]) rest (put_node (p @ [name]) Dir d)
      | Some Dir \<Rightarrow> make_dirs (p @ [name]) rest d
      | Some _ \<Rightarrow> (Some (Raised (if rest = [] then ''FileExistsError'' else ''NotADirectoryError'')), d))"

definition mkdirs :: "path \<Rightarrow> disk \<Rightarrow> disk_step" where
  "mkdirs p d = make_dirs [] (resolve d p) d"

definition write_bytes :: "path \<Rightarrow> string \<Rightarrow> disk \<Rightarrow> disk_step" where
  "write_bytes p content d =
     (let q = resolve d p in
      case node_at d q of
        Some Dir \<Rightarrow> (Some (Raised ''IsADirectoryError''), d)
      | Some (Link _) \<Rightarrow> (Some (Raised ''OSError''), d)
      | _ \<Rightarrow>
          (case node_at d (butlast q) of
             Some Dir \<Rightarrow> (None, put_node q (File content) d)
           | None \<Rightarrow> (Some (Raised ''FileNotFoundError''), d)
           | Some _ \<Rightarrow> (Some (Raised ''NotADirectoryError''), d)))"

definition then_step :: "disk_step \<Rightarrow> (disk \<Rightarrow> disk_step) \<Rightarrow> disk_step" where
  "then_step r f = (case r of (Some e, d) \<Rightarrow> (Some e, d) | (None, d) \<Rightarrow> f d)"

definition rmtree :: "path \<Rightarrow> disk \<Rightarrow> disk" where
  "rmtree p d = without_tree (resolve d p) d"

definition unlink :: "path \<Rightarrow> disk \<Rightarrow> disk" where
  "unlink p d = without_node (resolve d (butlast p) @ [last p]) d"

subsection \<open>The guard\<close>

definition path_refusal :: "string \<Rightarrow> string \<Rightarrow> call_failure" where
  "path_refusal code message = Refused (ApiError code message 400)"

definition GROUP_PATH_ERROR :: call_failure where
  "GROUP_PATH_ERROR = path_refusal ''invalid_process_group'' ''Invalid process group identifier''"

definition MODEL_PATH_ERROR :: call_failure where
  "MODEL_PATH_ERROR = path_refusal ''invalid_process_model'' ''Invalid process model identifier''"

text \<open>\<open>os.path.commonpath\<close> of two resolved paths.\<close>

fun commonpath :: "path \<Rightarrow> path \<Rightarrow> path" where
  "commonpath (c # p) (e # q) = (if c = e then c # commonpath p q else [])"
| "commonpath _ _ = []"

definition strictly_inside :: "path \<Rightarrow> path \<Rightarrow> bool" where
  "strictly_inside child parent \<longleftrightarrow> child \<noteq> parent \<and> commonpath parent child = parent"

text \<open>\<open>spec_dir\<close> is the configured base directory, an absolute path.\<close>

definition tenant_models_root :: "string \<Rightarrow> disk \<Rightarrow> string \<Rightarrow> call_failure + path" where
  "tenant_models_root spec_dir d tenant_id =
     (let base = realpath d spec_dir;
          home = realpath d (join_path (path_text base) tenant_id) in
      if \<not> startswith (path_text home) (join_path (path_text base) [])
      then Inl (path_refusal ''invalid_tenant'' ''Invalid tenant'')
      else if \<not> strictly_inside home base
      then Inl (path_refusal ''invalid_tenant'' ''Invalid tenant'')
      else Inr home)"

definition resolved_inside_tenant :: "string \<Rightarrow> disk \<Rightarrow> string \<Rightarrow> string list \<Rightarrow> call_failure \<Rightarrow> call_failure + path" where
  "resolved_inside_tenant spec_dir d tenant_id parts refusal_of_caller =
     (case tenant_models_root spec_dir d tenant_id of
        Inl e \<Rightarrow> Inl e
      | Inr home \<Rightarrow>
          (let target = realpath d (join_paths (path_text home) parts) in
           if \<not> startswith (path_text target) (join_path (path_text home) []) then Inl refusal_of_caller
           else if \<not> strictly_inside target home then Inl refusal_of_caller
           else Inr target))"

subsection \<open>Laws\<close>

lemma is_prefix_Nil [simp]: "is_prefix p [] \<longleftrightarrow> p = []"
  by (cases p) auto

lemma commonpath_prefix: "commonpath p q = p \<longleftrightarrow> is_prefix p q"
  by (induction p q rule: commonpath.induct) auto

lemma is_prefix_iff: "is_prefix p q \<longleftrightarrow> (\<exists>r. q = p @ r)"
  by (induction p q rule: is_prefix.induct) auto

lemma strictly_inside_iff: "strictly_inside child parent \<longleftrightarrow> (\<exists>name rest. child = parent @ name # rest)"
proof
  assume "strictly_inside child parent"
  then obtain r where "child = parent @ r" "r \<noteq> []"
    by (auto simp: strictly_inside_def commonpath_prefix is_prefix_iff)
  then show "\<exists>name rest. child = parent @ name # rest" by (cases r) auto
qed (auto simp: strictly_inside_def commonpath_prefix is_prefix_iff)

lemma inside_below: "strictly_inside p home \<Longrightarrow> is_prefix p q \<Longrightarrow> strictly_inside q home"
  by (auto simp: strictly_inside_iff is_prefix_iff)

lemma resolved_inside:
  "resolved_inside_tenant spec_dir d tenant_id parts e = Inr target \<Longrightarrow>
   \<exists>home. tenant_models_root spec_dir d tenant_id = Inr home \<and> strictly_inside target home"
  by (auto simp: resolved_inside_tenant_def Let_def split: sum.splits if_splits)

lemma node_at_put: "node_at (put_node p n d) q = (if q = p \<and> p \<noteq> [] then Some n else node_at d q)"
proof -
  have "map_of (filter (\<lambda>(q, _). q \<noteq> p) d) q = map_of d q" if "q \<noteq> p"
    using that by (induction d) auto
  then show ?thesis by (auto simp: node_at_def put_node_def)
qed

lemma node_at_without_tree: "node_at (without_tree p d) q = (if is_prefix p q \<and> q \<noteq> [] then None else node_at d q)"
proof -
  have "map_of (without_tree p d) q = (if is_prefix p q then None else map_of d q)"
    unfolding without_tree_def by (induction d) auto
  then show ?thesis by (simp add: node_at_def)
qed

lemma node_at_without_node: "node_at (without_node p d) q = (if q = p \<and> q \<noteq> [] then None else node_at d q)"
proof -
  have "map_of (without_node p d) q = (if q = p then None else map_of d q)"
    unfolding without_node_def by (induction d) auto
  then show ?thesis by (cases "q = p") (simp_all add: node_at_def)
qed

text \<open>Two disks agree outside a directory, but for directories that lead to it.\<close>

definition same_outside :: "path \<Rightarrow> disk \<Rightarrow> disk \<Rightarrow> bool" where
  "same_outside home d d' \<longleftrightarrow>
     (\<forall>p. \<not> strictly_inside p home \<longrightarrow>
        node_at d' p = node_at d p \<or> (node_at d p = None \<and> node_at d' p = Some Dir \<and> is_prefix p home))"

lemma same_outside_refl [simp]: "same_outside home d d"
  by (simp add: same_outside_def)

lemma same_outside_trans: "same_outside home d e \<Longrightarrow> same_outside home e f \<Longrightarrow> same_outside home d f"
  unfolding same_outside_def by metis

lemma same_outside_put: "strictly_inside p home \<Longrightarrow> same_outside home d (put_node p n d)"
  by (auto simp: same_outside_def node_at_put)

lemma same_outside_without_tree: "strictly_inside p home \<Longrightarrow> same_outside home d (without_tree p d)"
  using inside_below by (auto simp: same_outside_def node_at_without_tree)

lemma same_outside_without_node: "strictly_inside p home \<Longrightarrow> same_outside home d (without_node p d)"
  by (auto simp: same_outside_def node_at_without_node)

lemma prefix_comparable:
  assumes "is_prefix q f" "is_prefix f home \<or> strictly_inside f home"
  shows "is_prefix q home \<or> strictly_inside q home"
proof -
  from assms(1) obtain s where f: "f = q @ s" by (auto simp: is_prefix_iff)
  consider (above) t where "home = f @ t" | (below) n t where "f = home @ n # t"
    using assms(2) by (auto simp: is_prefix_iff strictly_inside_iff)
  then show ?thesis
  proof cases
    case below
    then obtain us where "q = home @ us \<or> home = q @ us" using f by (auto simp: append_eq_append_conv2)
    then show ?thesis by (cases us) (auto simp: is_prefix_iff strictly_inside_iff)
  qed (auto simp: f is_prefix_iff)
qed

subsection \<open>Links\<close>

text \<open>Two disks with the same links resolve every path alike.\<close>

definition same_links :: "disk \<Rightarrow> disk \<Rightarrow> bool" where
  "same_links d e \<longleftrightarrow> link_count d = link_count e \<and> (\<forall>p. link_at d p = link_at e p)"

lemma same_links_refl [simp]: "same_links d d"
  and same_links_trans: "same_links d e \<Longrightarrow> same_links e f \<Longrightarrow> same_links d f"
  by (auto simp: same_links_def)

lemma join_real_cong:
  assumes "\<And>p. link_at d p = link_at e p"
  shows "join_real depth d p names seen = join_real depth e p names seen"
  using assms
proof (induction depth d p names seen rule: join_real.induct)
  case (2 depth d p name rest seen)
  show ?case
  proof (cases "name = [] \<or> name = ''.'' \<or> name = ''..''")
    case True
    with 2 show ?thesis by auto
  next
    case name: False
    show ?thesis
    proof (cases "link_at e (p @ [name])")
      case None
      with 2 name show ?thesis by simp
    next
      case (Some t)
      then have link: "link_at d (p @ [name]) = Some t" using 2 by simp
      show ?thesis
      proof (cases "map_of seen (p @ [name])")
        case (Some known)
        with 2 name link \<open>link_at e (p @ [name]) = Some t\<close> show ?thesis by (cases known) simp_all
      next
        case None
        show ?thesis
        proof (cases depth)
          case (Suc n)
          let ?go = "\<lambda>d. join_real n d (if startswith t ''/'' then [] else p) (split_on (CHR ''/'') t) ((p @ [name], None) # seen)"
          have same: "?go d = ?go e" using "2.IH"(4) [OF _ _ link None Suc] "2.prems" name by blast
          obtain q ok seen' where r: "?go e = (q, ok, seen')" by (cases "?go e") auto
          have "join_real depth d q rest ((p @ [name], Some q) # seen') = join_real depth e q rest ((p @ [name], Some q) # seen')"
            if ok using "2.IH"(5) [OF _ _ link None Suc, of q "(ok, seen')" ok seen'] same r that "2.prems" name by auto
          then show ?thesis using name link Some None Suc same r by (simp only: join_real.simps) simp
        qed (use name link Some None in simp)
      qed
    qed
  qed
qed simp

lemma realpath_cong: "same_links d e \<Longrightarrow> realpath d text = realpath e text"
  unfolding realpath_def same_links_def using join_real_cong by metis

lemma resolve_cong: "same_links d e \<Longrightarrow> resolve d p = resolve e p"
  unfolding resolve_def by (rule realpath_cong)

subsection \<open>Disks without loops\<close>

definition clean_path :: "path \<Rightarrow> bool" where
  "clean_path p \<longleftrightarrow> list_all (\<lambda>c. c \<notin> {[], ''.'', ''..''} \<and> CHR ''/'' \<notin> set c) p"

definition resolved :: "disk \<Rightarrow> path \<Rightarrow> bool" where
  "resolved d p \<longleftrightarrow> clean_path p \<and> list_all (\<lambda>k. link_at d (take k p) = None) [0..<Suc (length p)]"

text \<open>\<open>realpath\<close> promises a path without links. It keeps the promise where no link loops.\<close>

definition stable :: "disk \<Rightarrow> bool" where
  "stable d \<longleftrightarrow> (\<forall>t. resolved d (realpath d t))"

text \<open>A tree: one node for a path, and a directory above it.\<close>

definition well_formed :: "disk \<Rightarrow> bool" where
  "well_formed d \<longleftrightarrow> distinct (map fst d) \<and>
     list_all (\<lambda>(p, _). p \<noteq> [] \<and> clean_path p \<and> node_at d (butlast p) = Some Dir) d"

lemma resolvedI: "clean_path p \<Longrightarrow> (\<And>k. k \<le> length p \<Longrightarrow> link_at d (take k p) = None) \<Longrightarrow> resolved d p"
  and resolvedD: "resolved d p \<Longrightarrow> k \<le> length p \<Longrightarrow> link_at d (take k p) = None"
  and resolved_clean: "resolved d p \<Longrightarrow> clean_path p"
  by (auto simp: resolved_def list_all_iff less_Suc_eq_le simp del: upt_Suc)

lemma resolved_cong: "same_links d e \<Longrightarrow> resolved d p = resolved e p"
  by (simp add: resolved_def same_links_def)

lemma stable_cong: "same_links d e \<Longrightarrow> stable d \<Longrightarrow> stable e"
  unfolding stable_def using realpath_cong resolved_cong by metis

lemma clean_take: "clean_path p \<Longrightarrow> clean_path (take k p)"
  by (auto simp: clean_path_def list_all_iff dest: in_set_takeD)

lemma resolved_take: "resolved d p \<Longrightarrow> resolved d (take k p)"
  by (rule resolvedI) (simp_all add: clean_take resolved_clean resolvedD)

lemma resolved_butlast: "resolved d p \<Longrightarrow> resolved d (butlast p)"
  by (simp add: butlast_conv_take resolved_take)

lemma resolved_snoc:
  assumes "resolved d p" "clean_path [name]" "link_at d (p @ [name]) = None"
  shows "resolved d (p @ [name])"
proof (rule resolvedI)
  show "clean_path (p @ [name])" using assms by (simp add: resolved_def clean_path_def)
  fix k assume "k \<le> length (p @ [name])"
  then show "link_at d (take k (p @ [name])) = None"
    using assms by (cases "k = Suc (length p)") (auto intro: resolvedD)
qed

lemma norm_onto_clean: "clean_path names \<Longrightarrow> norm_onto p names = p @ names"
  by (induction names arbitrary: p) (auto simp: clean_path_def)

lemma split_path_text: "clean_path p \<Longrightarrow> split_on (CHR ''/'') (path_text p) = [] # (if p = [] then [[]] else p)"
  by (simp add: path_text_def split_on_join clean_path_def list_all_iff)

lemma walk_resolved: "resolved d (p @ names) \<Longrightarrow> join_real depth d p names seen = (p @ names, True, seen)"
proof (induction names arbitrary: p)
  case (Cons name rest)
  have "link_at d (p @ [name]) = None" using resolvedD [OF Cons.prems, of "Suc (length p)"] by simp
  moreover have "name \<notin> {[], ''.'', ''..''}" using Cons.prems by (auto simp: resolved_def clean_path_def)
  ultimately show ?case using Cons by simp
qed simp

lemma realpath_resolved: "resolved d p \<Longrightarrow> realpath d (path_text p) = p"
  using walk_resolved [of d "[]" p] norm_onto_clean [of p "[]"]
  by (cases "p = []") (auto simp: realpath_def split_path_text resolved_clean)

lemma resolve_resolved: "resolved d p \<Longrightarrow> resolve d p = p"
  by (simp add: resolve_def realpath_resolved)

text \<open>Every link names a path in which there is no link.\<close>

definition link_target :: "string \<Rightarrow> path" where
  "link_target t = filter (\<lambda>c. c \<noteq> []) (split_on (CHR ''/'') t)"

definition flat_links :: "disk \<Rightarrow> bool" where
  "flat_links d \<longleftrightarrow>
     list_all (\<lambda>(p, n). case n of Link t \<Rightarrow> t = path_text (link_target t) \<and> resolved d (link_target t) | _ \<Rightarrow> True) d"

lemma flat_link:
  assumes "flat_links d" "link_at d p = Some t"
  obtains q where "t = path_text q" "resolved d q"
proof -
  from assms(2) have "(p, Link t) \<in> set d"
    by (auto simp: link_at_def node_at_def split: option.splits node.splits if_splits dest: map_of_SomeD)
  with assms(1) have "t = path_text (link_target t)" "resolved d (link_target t)"
    by (auto simp: flat_links_def list_all_iff)
  then show thesis by (rule that)
qed

definition good_seen :: "disk \<Rightarrow> seen \<Rightarrow> bool" where
  "good_seen d seen \<longleftrightarrow> (\<forall>k. case map_of seen k of None \<Rightarrow> True | Some None \<Rightarrow> False | Some (Some q) \<Rightarrow> resolved d q)"

lemma flat_walk:
  assumes "flat_links d" "\<And>p t. link_at d p = Some t \<Longrightarrow> depth \<noteq> 0"
  shows "resolved d p \<Longrightarrow> good_seen d seen \<Longrightarrow> \<forall>c \<in> set names. CHR ''/'' \<notin> set c \<Longrightarrow>
    \<exists>q seen'. join_real depth d p names seen = (q, True, seen') \<and> resolved d q"
proof (induction names arbitrary: p seen)
  case (Cons name rest)
  show ?case
  proof (cases "name \<in> {[], ''.'', ''..''}")
    case True
    with Cons resolved_butlast show ?thesis by auto
  next
    case special: False
    show ?thesis
    proof (cases "link_at d (p @ [name])")
      case None
      with special Cons.prems have "resolved d (p @ [name])" by (intro resolved_snoc) (auto simp: clean_path_def)
      with None special Cons show ?thesis by auto
    next
      case (Some target)
      from flat_link [OF assms(1) Some] obtain q where q: "target = path_text q" "resolved d q" .
      show ?thesis
      proof (cases "map_of seen (p @ [name])")
        case (Some known)
        with Cons.prems(2) obtain r where "known = Some r" "resolved d r"
          by (auto simp: good_seen_def dest!: spec [of _ "p @ [name]"] split: option.splits)
        with Some \<open>link_at d (p @ [name]) = Some target\<close> special Cons show ?thesis by auto
      next
        case None
        obtain n where n: "depth = Suc n" using assms(2) [OF Some] by (cases depth) auto
        have "join_real n d [] (split_on (CHR ''/'') target) ((p @ [name], None) # seen) = (q, True, (p @ [name], None) # seen)"
          using walk_resolved [of d "[]" q] q by (cases "q = []") (auto simp: split_path_text resolved_clean)
        moreover have "startswith target ''/''" by (simp add: q(1) path_text_def startswith_def)
        ultimately have "join_real depth d p (name # rest) seen
            = join_real depth d q rest ((p @ [name], Some q) # (p @ [name], None) # seen)"
          using special Some None n by simp
        moreover have "good_seen d ((p @ [name], Some q) # (p @ [name], None) # seen)"
          using Cons.prems(2) q(2) by (auto simp: good_seen_def)
        ultimately show ?thesis using Cons.IH [OF q(2)] Cons.prems(3) by simp
      qed
    qed
  qed
qed simp

lemma flat_stable:
  assumes "flat_links d"
  shows "stable d"
  unfolding stable_def
proof
  fix t
  have "link_count d \<noteq> 0" if "link_at d p = Some t" for p t
  proof -
    from that have "(p, Link t) \<in> set d"
      by (auto simp: link_at_def node_at_def split: option.splits node.splits if_splits dest: map_of_SomeD)
    then have "(p, Link t) \<in> set (filter (\<lambda>(_, n). is_link n) d)" by (simp add: is_link_def)
    then show ?thesis unfolding link_count_def by (metis length_0_conv list.set_cases list.distinct(1))
  qed
  moreover have "resolved d []"
    by (auto simp: resolved_def clean_path_def link_at_def node_at_def)
  ultimately obtain q seen where q: "join_real (link_count d) d [] (split_on (CHR ''/'') t) [] = (q, True, seen)" "resolved d q"
    using flat_walk [OF assms, of "link_count d" "[]" "[]" "split_on (CHR ''/'') t"] split_on_no_sep
    by (auto simp: good_seen_def)
  then show "resolved d (realpath d t)" using norm_onto_clean [of q "[]"] by (simp add: realpath_def resolved_clean)
qed

subsection \<open>Steps of the disk\<close>

text \<open>A step may only change what is inside a directory and makes no links.\<close>

definition steady :: "path \<Rightarrow> disk \<Rightarrow> disk \<Rightarrow> bool" where
  "steady home d e \<longleftrightarrow> well_formed e \<and> same_links d e \<and> same_outside home d e"

definition in_reach :: "path \<Rightarrow> path \<Rightarrow> bool" where
  "in_reach home p \<longleftrightarrow> is_prefix p home \<or> strictly_inside p home"

lemma steady_refl: "well_formed d \<Longrightarrow> steady home d d"
  by (simp add: steady_def)

lemma steady_trans: "steady home d e \<Longrightarrow> steady home e f \<Longrightarrow> steady home d f"
  unfolding steady_def using same_links_trans same_outside_trans by blast

lemma well_formed_at: "well_formed d \<Longrightarrow> node_at d p = Some n \<Longrightarrow> p \<noteq> [] \<Longrightarrow> clean_path p \<and> node_at d (butlast p) = Some Dir"
  by (fastforce simp: well_formed_def list_all_iff node_at_def split: if_splits dest: map_of_SomeD)

lemma well_formed_put:
  assumes "well_formed d" "p \<noteq> []" "clean_path p" "node_at d (butlast p) = Some Dir" "node_at d p = Some Dir \<Longrightarrow> n = Dir"
  shows "well_formed (put_node p n d)"
proof -
  have up: "node_at (put_node p n d) q = Some Dir" if "node_at d q = Some Dir" for q
    using assms(5) that by (auto simp: node_at_put)
  have "distinct (map fst (put_node p n d))"
    using assms(1) by (auto simp: well_formed_def put_node_def distinct_map_filter)
  then show ?thesis
    using assms(1-4) up by (auto simp: well_formed_def list_all_iff put_node_def)
qed

lemma same_links_put:
  assumes "well_formed d" "p \<noteq> []" "link_at d p = None" "\<not> is_link n"
  shows "same_links d (put_node p n d)"
proof -
  have "\<not> is_link m" if "(p, m) \<in> set d" for m
  proof -
    from that assms(1) have "map_of d p = Some m" by (simp add: well_formed_def)
    with assms(2,3) show ?thesis by (auto simp: link_at_def node_at_def is_link_def split: node.splits)
  qed
  then have "filter (\<lambda>(_, m). is_link m) (filter (\<lambda>(q, _). q \<noteq> p) d) = filter (\<lambda>(_, m). is_link m) d"
    unfolding filter_filter by (intro filter_cong) auto
  then have "link_count (put_node p n d) = link_count d"
    using assms(4) by (simp add: link_count_def put_node_def)
  moreover have "link_at (put_node p n d) q = link_at d q" for q
    using assms(2-4) by (auto simp: link_at_def node_at_put is_link_def split: node.splits)
  ultimately show ?thesis by (simp add: same_links_def)
qed

lemma link_at_other: "node_at d p = None \<Longrightarrow> link_at d p = None" "node_at d p = Some Dir \<Longrightarrow> link_at d p = None"
  "node_at d p = Some (File c) \<Longrightarrow> link_at d p = None"
  by (simp_all add: link_at_def)

lemma same_outside_new_dir: "in_reach home p \<Longrightarrow> node_at d p = None \<Longrightarrow> same_outside home d (put_node p Dir d)"
  by (auto simp: same_outside_def in_reach_def node_at_put)

lemma in_reach_up: "in_reach home f \<Longrightarrow> is_prefix q f \<Longrightarrow> in_reach home q"
  unfolding in_reach_def by (rule prefix_comparable)

lemma steady_make_dirs:
  "well_formed d \<Longrightarrow> node_at d p = Some Dir \<Longrightarrow> clean_path (p @ names) \<Longrightarrow> in_reach home (p @ names) \<Longrightarrow>
   steady home d (snd (make_dirs p names d))"
proof (induction names arbitrary: p d)
  case (Cons name rest)
  let ?q = "p @ [name]"
  have q: "in_reach home ?q" by (rule in_reach_up [OF Cons.prems(4)]) (simp add: is_prefix_iff)
  have clean: "clean_path ?q" using Cons.prems(3) by (simp add: clean_path_def)
  show ?case
  proof (cases "node_at d ?q")
    case None
    let ?e = "put_node ?q Dir d"
    have e: "well_formed ?e" by (rule well_formed_put) (use Cons.prems None clean in simp_all)
    moreover have "same_links d ?e"
      by (rule same_links_put) (use Cons.prems None in \<open>simp_all add: link_at_other is_link_def\<close>)
    ultimately have "steady home d ?e" using same_outside_new_dir [OF q None] by (simp add: steady_def)
    moreover have "steady home ?e (snd (make_dirs ?q rest ?e))"
      by (rule Cons.IH) (use Cons.prems e in \<open>simp_all add: node_at_put\<close>)
    ultimately show ?thesis using None steady_trans by simp
  next
    case (Some n)
    with Cons show ?thesis by (cases n) (simp_all add: steady_refl)
  qed
qed (simp add: steady_refl)

lemma steady_mkdirs:
  assumes "well_formed d" "resolved d p" "in_reach home p"
  shows "steady home d (snd (mkdirs p d))"
  unfolding mkdirs_def resolve_resolved [OF assms(2)]
  by (rule steady_make_dirs) (use assms resolved_clean in \<open>simp_all add: node_at_def\<close>)

lemma steady_write_bytes:
  assumes "well_formed d" "resolved d p" "strictly_inside p home"
  shows "steady home d (snd (write_bytes p content d))"
proof -
  have p: "p \<noteq> []" using assms(3) by (auto simp: strictly_inside_iff)
  have put: "steady home d (put_node p (File content) d)"
    if "node_at d (butlast p) = Some Dir" "node_at d p \<noteq> Some Dir" "link_at d p = None"
    unfolding steady_def
    using well_formed_put [OF assms(1) p _ that(1)] same_links_put [OF assms(1) p that(3)]
      same_outside_put [OF assms(3)] resolved_clean [OF assms(2)] that(2) by (simp add: is_link_def)
  show ?thesis
    using put by (auto simp: write_bytes_def resolve_resolved [OF assms(2)] link_at_other steady_refl [OF assms(1)]
        split: option.splits node.splits)
qed

lemma then_step_steady:
  "steady home d (snd r) \<Longrightarrow> (\<And>e. r = (None, e) \<Longrightarrow> steady home d (snd (f e))) \<Longrightarrow> steady home d (snd (then_step r f))"
  by (cases r) (auto simp: then_step_def split: option.splits)

end
