(* ===== verification/Catalog_Xml.thy ===== *)
theory Catalog_Xml
  imports Catalog_Paths
begin

text \<open>
  What the catalog accepts as BPMN (catalog/__init__.py, \<open>_reject_unsupported_constructs\<close> and below). The
  parser is an argument; its answer is an element tree, in which a comment or a processing instruction has
  no tag. \<open>Forbidden\<close> is what defusedxml refuses (entities and the like), an exception of its own.
\<close>

datatype xml = Element (tag: "string option") (attributes: "(string \<times> string) list") (xml_text: "string option") (kids: "xml list")

datatype parsed_xml = Parsed xml | Malformed | Forbidden

type_synonym xml_parser = "string \<Rightarrow> parsed_xml"

text \<open>\<open>root.iter()\<close>: the elements in document order.\<close>

fun xml_iter :: "xml \<Rightarrow> xml list" where
  "xml_iter (Element t a x ks) = Element t a x ks # concat (map xml_iter ks)"

definition xml_local_name :: "string option \<Rightarrow> string" where
  "xml_local_name t = (case t of None \<Rightarrow> [] | Some s \<Rightarrow> rsplit_last (CHR ''}'') s)"

definition attribute :: "xml \<Rightarrow> string \<Rightarrow> string option" where
  "attribute e k = map_of (attributes e) k"

definition xml_boolean_is_true :: "string option \<Rightarrow> bool" where
  "xml_boolean_is_true v \<longleftrightarrow> (case v of None \<Rightarrow> False | Some s \<Rightarrow> lower (strip s) \<in> {''true'', ''1''})"

definition UNSUPPORTED_CONSTRUCTS :: "string list" where
  "UNSUPPORTED_CONSTRUCTS = [''messageEventDefinition'', ''correlationKey'', ''correlationProperty'', ''compensateEventDefinition'']"

text \<open>\<open>_BPMN_DATA_REFERENCE_RE.fullmatch\<close>.\<close>

definition data_reference :: "string \<Rightarrow> bool" where
  "data_reference s \<longleftrightarrow>
     (case s of [] \<Rightarrow> False
      | c # cs \<Rightarrow> (is_alpha c \<or> c = CHR ''_'') \<and>
                  list_all (\<lambda>x. is_alpha x \<or> is_digit x \<or> x \<in> set ''_.-'') cs)"

text \<open>\<open>re.fullmatch(r"[+-]?\d+", s) and int(s) < 0\<close>.\<close>

definition negative_integer :: "string \<Rightarrow> bool" where
  "negative_integer s \<longleftrightarrow>
     (case s of [] \<Rightarrow> False
      | c # cs \<Rightarrow> c = CHR ''-'' \<and> cs \<noteq> [] \<and> list_all is_digit cs \<and> list_ex (\<lambda>d. d \<noteq> CHR ''0'') cs)"

text \<open>The children by local name; a later child of the same name replaces an earlier one.\<close>

definition children_by_name :: "xml \<Rightarrow> string \<Rightarrow> xml option" where
  "children_by_name e name =
     find (\<lambda>k. tag k \<noteq> None \<and> xml_local_name (tag k) = name) (rev (kids e))"

definition stripped_child_text :: "xml option \<Rightarrow> string" where
  "stripped_child_text e = strip (or_default (Option.bind e xml_text) [])"

definition unsupported :: "string \<Rightarrow> call_failure" where
  "unsupported message = Refused (ApiError ''unsupported_bpmn'' message 400)"

definition invalid_model :: "string \<Rightarrow> call_failure" where
  "invalid_model message = Refused (ApiError ''invalid_process_model'' message 400)"

text \<open>One round of the loop over the multi-instance characteristics: the refusal, if any.\<close>

definition multi_instance_refusal :: "xml \<Rightarrow> call_failure option" where
  "multi_instance_refusal e =
     (let sequential = xml_boolean_is_true (attribute e ''isSequential'');
          input_reference = children_by_name e ''loopDataInputRef'';
          cardinality = stripped_child_text (children_by_name e ''loopCardinality'');
          output_reference = children_by_name e ''loopDataOutputRef'';
          bad_item = (\<lambda>item. case children_by_name e item of
             None \<Rightarrow> False
           | Some k \<Rightarrow> \<not> data_reference (strip (or_default (attribute k ''id'') [])))
      in if \<not> sequential \<and> children_by_name e ''completionCondition'' \<noteq> None
         then Some (unsupported ''Completion conditions on parallel multi-instance activities are not supported'')
         else if input_reference \<noteq> None \<and> \<not> data_reference (stripped_child_text input_reference)
         then Some (unsupported ''loopDataInputRef must be a collection variable identifier; empty references and expressions are not supported'')
         else if negative_integer cardinality
         then Some (invalid_model ''Multi-instance loopCardinality must be zero or a positive integer'')
         else if output_reference \<noteq> None \<and> \<not> data_reference (stripped_child_text output_reference)
         then Some (invalid_model ''loopDataOutputRef must be a non-empty output collection variable identifier'')
         else if bad_item ''inputDataItem''
         then Some (invalid_model ''Multi-instance inputDataItem must include a non-empty valid BPMN id'')
         else if bad_item ''outputDataItem''
         then Some (invalid_model ''Multi-instance outputDataItem must include a non-empty valid BPMN id'')
         else if (stripped_child_text output_reference \<noteq> []) \<noteq> (children_by_name e ''outputDataItem'' \<noteq> None)
         then Some (invalid_model ''A multi-instance output mapping must define both loopDataOutputRef and outputDataItem'')
         else None)"

fun first_refusal :: "('a \<Rightarrow> call_failure option) \<Rightarrow> 'a list \<Rightarrow> call_failure + unit" where
  "first_refusal f [] = Inr ()"
| "first_refusal f (x # xs) = (case f x of Some e \<Rightarrow> Inl e | None \<Rightarrow> first_refusal f xs)"

definition is_multi_instance :: "xml \<Rightarrow> bool" where
  "is_multi_instance e \<longleftrightarrow> tag e \<noteq> None \<and> xml_local_name (tag e) = ''multiInstanceLoopCharacteristics''"

definition validate_multi_instance_features :: "xml \<Rightarrow> call_failure + unit" where
  "validate_multi_instance_features r = first_refusal multi_instance_refusal (filter is_multi_instance (xml_iter r))"

definition non_interrupting_timer :: "xml \<Rightarrow> bool" where
  "non_interrupting_timer start \<longleftrightarrow>
     \<not> xml_boolean_is_true (Some (or_default (attribute start ''isInterrupting'') ''true'')) \<and>
     list_ex (\<lambda>k. xml_local_name (tag k) = ''timerEventDefinition'') (kids start)"

definition is_event_subprocess :: "xml \<Rightarrow> bool" where
  "is_event_subprocess e \<longleftrightarrow>
     xml_local_name (tag e) = ''subProcess'' \<and> xml_boolean_is_true (attribute e ''triggeredByEvent'')"

definition start_events :: "xml \<Rightarrow> xml list" where
  "start_events e = filter (\<lambda>k. xml_local_name (tag k) = ''startEvent'') (kids e)"

definition event_subprocesses_supported :: "xml \<Rightarrow> bool" where
  "event_subprocesses_supported r \<longleftrightarrow>
     list_all (\<lambda>sub. is_event_subprocess sub \<longrightarrow>
        start_events sub \<noteq> [] \<and> list_all non_interrupting_timer (start_events sub)) (xml_iter r)"

definition construct_refusal :: "xml \<Rightarrow> call_failure option" where
  "construct_refusal e =
     (if tag e \<noteq> None \<and> xml_local_name (tag e) \<in> set UNSUPPORTED_CONSTRUCTS
      then Some (unsupported (''Unsupported BPMN construct: '' @ xml_local_name (tag e))) else None)"

definition reject_unsupported_constructs :: "xml_parser \<Rightarrow> string \<Rightarrow> call_failure + unit" where
  "reject_unsupported_constructs parse source =
     (case parse source of
        Malformed \<Rightarrow> Inl (invalid_model ''BPMN XML is malformed'')
      | Forbidden \<Rightarrow> Inl (Raised ''DefusedXmlException'')
      | Parsed r \<Rightarrow>
          (case validate_multi_instance_features r of Inl e \<Rightarrow> Inl e | Inr _ \<Rightarrow>
           if \<not> event_subprocesses_supported r
           then Inl (unsupported ''Only non-interrupting timer event subprocesses are supported'')
           else first_refusal construct_refusal (xml_iter r)))"

text \<open>Decisions: those the BPMN calls, and the first one of a DMN.\<close>

definition called_decision_ids :: "xml_parser \<Rightarrow> string \<Rightarrow> string list" where
  "called_decision_ids parse bpmn_xml =
     (case parse bpmn_xml of
        Parsed r \<Rightarrow> map (\<lambda>e. strip (or_default (xml_text e) []))
                     (filter (\<lambda>e. xml_local_name (tag e) = ''calledDecisionId'') (xml_iter r))
      | _ \<Rightarrow> [])"

definition dmn_decision_id :: "xml_parser \<Rightarrow> string \<Rightarrow> string option" where
  "dmn_decision_id parse dmn_xml =
     (case parse dmn_xml of
        Parsed r \<Rightarrow> Option.bind (find (\<lambda>e. xml_local_name (tag e) = ''decision'') (kids r)) (\<lambda>e. attribute e ''id'')
      | _ \<Rightarrow> None)"

subsection \<open>What is accepted\<close>

lemma first_refusal_iff: "first_refusal f xs = Inr u \<longleftrightarrow> (\<forall>x \<in> set xs. f x = None)"
  by (induction xs) (auto split: option.splits)

text \<open>The contract of a multi-instance activity, stated as what must hold rather than as what is refused.\<close>

definition multi_instance_ok :: "xml \<Rightarrow> bool" where
  "multi_instance_ok e \<longleftrightarrow>
     (children_by_name e ''completionCondition'' \<noteq> None \<longrightarrow> xml_boolean_is_true (attribute e ''isSequential'')) \<and>
     (\<forall>k. children_by_name e ''loopDataInputRef'' = Some k \<longrightarrow> data_reference (stripped_child_text (Some k))) \<and>
     \<not> negative_integer (stripped_child_text (children_by_name e ''loopCardinality'')) \<and>
     (\<forall>k. children_by_name e ''loopDataOutputRef'' = Some k \<longrightarrow> data_reference (stripped_child_text (Some k))) \<and>
     (\<forall>item \<in> {''inputDataItem'', ''outputDataItem''}. \<forall>k. children_by_name e item = Some k \<longrightarrow>
        data_reference (strip (or_default (attribute k ''id'') []))) \<and>
     (children_by_name e ''loopDataOutputRef'' \<noteq> None \<longleftrightarrow> children_by_name e ''outputDataItem'' \<noteq> None)"

lemma data_reference_nonempty: "data_reference s \<Longrightarrow> s \<noteq> []"
  by (auto simp: data_reference_def)

lemma stripped_child_text_None [simp]: "stripped_child_text None = []"
  by (simp add: stripped_child_text_def)

lemma multi_instance_refusal_iff: "multi_instance_refusal e = None \<longleftrightarrow> multi_instance_ok e"
proof -
  have "(stripped_child_text r \<noteq> []) = (r \<noteq> None)" if "r \<noteq> None \<longrightarrow> data_reference (stripped_child_text r)" for r
    using that data_reference_nonempty by (cases r) auto
  note output_set = this [of "children_by_name e ''loopDataOutputRef''"]
  show ?thesis
    unfolding multi_instance_refusal_def multi_instance_ok_def Let_def
    using output_set by (auto split: option.splits if_splits)
qed

end
