(* ===== verification/Catalog_Read.thy ===== *)
theory Catalog_Read
  imports Catalog_Xml "HOL-Library.List_Lexorder" "HOL-Library.Char_ord"
begin

text \<open>
  Reading the process model catalog (catalog/__init__.py). A model is a directory under the tenant's root
  with a BPMN file in it; its \<open>process_model.json\<close> holds the display name, the description, the status and
  the name of the primary file. JSON, UTF-8, the XML parser, the modification times and the registry of
  tenants are arguments.
\<close>

record catalog_env =
  ca_spec_dir :: string
  ca_loads :: "string \<Rightarrow> pyval option"       \<comment> \<open>\<open>json.loads\<close>\<close>
  ca_dumps :: "pyval \<Rightarrow> string"              \<comment> \<open>\<open>json.dumps(..., indent=2, sort_keys=True)\<close>\<close>
  ca_decode :: "string \<Rightarrow> string option"      \<comment> \<open>UTF-8\<close>
  ca_decode_lossy :: "string \<Rightarrow> string"
  ca_encode :: "string \<Rightarrow> string"
  ca_xml :: xml_parser
  ca_mtime :: "path \<Rightarrow> string"
  ca_tenants :: "string list"
  ca_bpmn_template :: string                 \<comment> \<open>\<open>_DEFAULT_BPMN_TEMPLATE\<close>\<close>
  ca_dmn_template :: string

definition model_path :: "catalog_env \<Rightarrow> disk \<Rightarrow> string \<Rightarrow> string list \<Rightarrow> call_failure + path" where
  "model_path ca d tenant parts = resolved_inside_tenant (ca_spec_dir ca) d tenant parts MODEL_PATH_ERROR"

definition group_path :: "catalog_env \<Rightarrow> disk \<Rightarrow> string \<Rightarrow> string list \<Rightarrow> call_failure + path" where
  "group_path ca d tenant parts = resolved_inside_tenant (ca_spec_dir ca) d tenant parts GROUP_PATH_ERROR"

text \<open>\<open>tenant_id or g.m8flow_tenant_id or "default"\<close>.\<close>

definition effective_tenant :: "string option \<Rightarrow> string option \<Rightarrow> string" where
  "effective_tenant tenant_id bound = or_default (or_str tenant_id (or_str bound (Some ''default''))) []"

subsection \<open>Names\<close>

definition validate_leaf_file_name :: "string \<Rightarrow> call_failure + string" where
  "validate_leaf_file_name file_name =
     (if file_name = [] \<or> file_name \<in> {''.'', ''..''} \<or> CHR ''/'' \<in> set file_name \<or> CHR 0x5C \<in> set file_name
      then Inl (Refused (ApiError ''invalid_file_name'' ''Invalid file name'' 400)) else Inr file_name)"

text \<open>\<open>_GROUP_SEGMENT_RE.match\<close>; its \<open>$\<close> also matches before a newline that ends the segment.\<close>

definition segment_char :: "char \<Rightarrow> bool" where
  "segment_char c \<longleftrightarrow> is_alpha c \<or> is_digit c \<or> c = CHR ''_'' \<or> c = CHR ''-''"

definition without_last_newline :: "string \<Rightarrow> string" where
  "without_last_newline s = (if s \<noteq> [] \<and> last s = CHR 0x0A then butlast s else s)"

definition group_segment :: "string \<Rightarrow> bool" where
  "group_segment segment \<longleftrightarrow>
     (case without_last_newline segment of
        [] \<Rightarrow> False
      | c # cs \<Rightarrow> (is_alpha c \<or> is_digit c) \<and> list_all segment_char cs)"

definition bad_group :: "string \<Rightarrow> call_failure" where
  "bad_group message = Refused (ApiError ''invalid_process_group'' message 400)"

definition validate_process_group_id :: "string \<Rightarrow> call_failure + string" where
  "validate_process_group_id group_id =
     (if strip group_id = [] then Inl (bad_group ''Process group id is required'')
      else
        (let cleaned = strip_if (\<lambda>c. c = CHR ''/'') (strip group_id) in
         if cleaned = [] \<or> CHR 0x5C \<in> set cleaned \<or> CHR '':'' \<in> set cleaned
         then Inl (bad_group ''Invalid process group identifier'')
         else if \<not> list_all group_segment (split_on (CHR ''/'') cleaned)
         then Inl (bad_group ''Invalid process group identifier'')
         else Inr cleaned))"

definition validate_process_model_leaf :: "string \<Rightarrow> call_failure + string" where
  "validate_process_model_leaf leaf_id =
     (case validate_process_group_id leaf_id of
        Inl e \<Rightarrow> Inl e
      | Inr cleaned \<Rightarrow>
          if CHR ''/'' \<in> set cleaned then Inl (invalid_model ''Process model id must be a single path segment'')
          else Inr cleaned)"

text \<open>\<open>re.sub(r"\s+", "-", s)\<close> and \<open>re.sub(r"-+", "-", s)\<close>: a run becomes one dash.\<close>

fun dash_runs :: "(char \<Rightarrow> bool) \<Rightarrow> bool \<Rightarrow> string \<Rightarrow> string" where
  "dash_runs p in_run [] = []"
| "dash_runs p in_run (c # cs) =
     (if p c then (if in_run then dash_runs p True cs else CHR ''-'' # dash_runs p True cs)
      else c # dash_runs p False cs)"

definition slug_char :: "char \<Rightarrow> bool" where
  "slug_char c \<longleftrightarrow> (97 \<le> code_point c \<and> code_point c \<le> 122) \<or> is_digit c \<or> c = CHR ''_'' \<or> c = CHR ''-''"

definition slugify_process_model_leaf :: "string \<Rightarrow> string" where
  "slugify_process_model_leaf display_name =
     (let slug = py_lower (strip display_name);
          dashed = dash_runs py_space False slug;
          kept = filter slug_char dashed;
          collapsed = dash_runs (\<lambda>c. c = CHR ''-'') False kept
      in strip_if (\<lambda>c. c = CHR ''-'' \<or> c = CHR ''_'') collapsed)"

definition resolve_process_model_leaf :: "string \<Rightarrow> string option \<Rightarrow> call_failure + string" where
  "resolve_process_model_leaf leaf_id display_name =
     (let raw = strip leaf_id in
      if raw \<noteq> [] then validate_process_model_leaf raw
      else
        (let slug = slugify_process_model_leaf (or_default display_name []) in
         if slug = []
         then Inl (invalid_model ''Process model id is required, or provide a display name to generate one'')
         else validate_process_model_leaf slug))"

definition bpmn_process_id :: "string \<Rightarrow> string" where
  "bpmn_process_id leaf =
     (let cleaned = map (\<lambda>c. if segment_char c then c else CHR ''_'') leaf in
      case cleaned of
        [] \<Rightarrow> ''Process_model''
      | c # _ \<Rightarrow> if is_alpha c \<or> c = CHR ''_'' then cleaned else ''Process_'' @ cleaned)"

definition file_suffix :: "string \<Rightarrow> string" where
  "file_suffix file_name =
     (let l = py_lower file_name in
      if CHR ''.'' \<in> set l then CHR ''.'' # rsplit_last (CHR ''.'') l else [])"

text \<open>\<open>path.suffix\<close>: no suffix for a name whose only dot leads it or ends it.\<close>

definition path_suffix :: "string \<Rightarrow> string" where
  "path_suffix name =
     (let after = rsplit_last (CHR ''.'') name; before = rsplit_head (CHR ''.'') name in
      if CHR ''.'' \<notin> set name \<or> before = [] \<or> after = [] then [] else CHR ''.'' # after)"

definition process_group_id_for_model :: "string \<Rightarrow> string" where
  "process_group_id_for_model identifier =
     (if CHR ''/'' \<notin> set identifier then [] else rsplit_head (CHR ''/'') identifier)"

text \<open>\<open>identifier.rstrip("/").split("/")[-1]\<close>.\<close>

definition leaf_segment :: "string \<Rightarrow> string" where
  "leaf_segment identifier = rsplit_last (CHR ''/'') (rstrip_if (\<lambda>c. c = CHR ''/'') identifier)"

subsection \<open>Metadata\<close>

definition read_json_file :: "catalog_env \<Rightarrow> disk \<Rightarrow> path \<Rightarrow> (string \<times> pyval) list" where
  "read_json_file ca d p =
     (case Option.bind (read_bytes d p) (ca_decode ca) of
        None \<Rightarrow> []
      | Some text \<Rightarrow> (case ca_loads ca text of Some (PDict items) \<Rightarrow> items | _ \<Rightarrow> []))"

definition model_json :: "catalog_env \<Rightarrow> disk \<Rightarrow> string \<Rightarrow> string \<Rightarrow> call_failure + (string \<times> pyval) list" where
  "model_json ca d tenant identifier =
     map_sum id (read_json_file ca d) (model_path ca d tenant [identifier, ''process_model.json''])"

definition group_json :: "catalog_env \<Rightarrow> disk \<Rightarrow> string \<Rightarrow> string \<Rightarrow> call_failure + (string \<times> pyval) list" where
  "group_json ca d tenant group_id =
     map_sum id (read_json_file ca d) (group_path ca d tenant [group_id, ''process_group.json''])"

text \<open>A stripped string of a dict, empty for anything else.\<close>

definition text_item :: "(string \<times> pyval) list \<Rightarrow> string \<Rightarrow> string" where
  "text_item meta key = strip (or_default (str_of (dget meta key)) [])"

definition or_text :: "string \<Rightarrow> string \<Rightarrow> string" where
  "or_text a b = (if a = [] then b else a)"

definition process_model_display_name :: "catalog_env \<Rightarrow> disk \<Rightarrow> string \<Rightarrow> string \<Rightarrow> call_failure + string" where
  "process_model_display_name ca d tenant identifier =
     map_sum id (\<lambda>meta. or_text (text_item meta ''display_name'') (leaf_segment identifier)) (model_json ca d tenant identifier)"

definition process_model_description :: "catalog_env \<Rightarrow> disk \<Rightarrow> string \<Rightarrow> string \<Rightarrow> call_failure + string" where
  "process_model_description ca d tenant identifier =
     map_sum id (\<lambda>meta. text_item meta ''description'') (model_json ca d tenant identifier)"

definition DRAFT :: string where "DRAFT = ''draft''"
definition PUBLISHED :: string where "PUBLISHED = ''published''"
definition PAUSED :: string where "PAUSED = ''paused''"

definition PROCESS_MODEL_STATUSES :: "string list" where
  "PROCESS_MODEL_STATUSES = [DRAFT, PUBLISHED, PAUSED]"

definition PROCESS_MODEL_STARTABLE_STATUSES :: "string list" where
  "PROCESS_MODEL_STARTABLE_STATUSES = [PUBLISHED]"

definition status_of :: "(string \<times> pyval) list \<Rightarrow> string" where
  "status_of meta =
     (let status = text_item meta ''status'' in if status \<in> set PROCESS_MODEL_STATUSES then status else PUBLISHED)"

definition process_model_status :: "catalog_env \<Rightarrow> disk \<Rightarrow> string \<Rightarrow> string \<Rightarrow> call_failure + string" where
  "process_model_status ca d tenant identifier = map_sum id status_of (model_json ca d tenant identifier)"

definition process_group_display_name :: "catalog_env \<Rightarrow> disk \<Rightarrow> string \<Rightarrow> string \<Rightarrow> call_failure + string" where
  "process_group_display_name ca d tenant group_id =
     (if group_id = [] then Inr []
      else map_sum id (\<lambda>meta. or_text (text_item meta ''display_name'') (leaf_segment group_id)) (group_json ca d tenant group_id))"

subsection \<open>Models, groups and files\<close>

definition bpmn_names :: "disk \<Rightarrow> path \<Rightarrow> string list" where
  "bpmn_names d p = filter (\<lambda>n. endswith n ''.bpmn'') (children d p)"

text \<open>A refusal of the guard means that there is no such model (\<open>except ApiError\<close>).\<close>

definition is_process_model_identifier :: "catalog_env \<Rightarrow> disk \<Rightarrow> string \<Rightarrow> string \<Rightarrow> bool" where
  "is_process_model_identifier ca d tenant identifier \<longleftrightarrow>
     (case model_path ca d tenant [identifier] of
        Inl _ \<Rightarrow> False
      | Inr p \<Rightarrow> is_dir d p \<and> bpmn_names d p \<noteq> [])"

definition is_process_group_identifier :: "catalog_env \<Rightarrow> disk \<Rightarrow> string \<Rightarrow> string \<Rightarrow> bool" where
  "is_process_group_identifier ca d tenant group_id \<longleftrightarrow>
     (case group_path ca d tenant [group_id] of Inl _ \<Rightarrow> False | Inr p \<Rightarrow> is_dir d p)"

definition process_group_exists :: "catalog_env \<Rightarrow> disk \<Rightarrow> string \<Rightarrow> string \<Rightarrow> bool" where
  "process_group_exists ca d tenant group_id \<longleftrightarrow>
     (case validate_process_group_id group_id of
        Inl _ \<Rightarrow> False
      | Inr cleaned \<Rightarrow>
          (case group_path ca d tenant [cleaned] of
             Inl _ \<Rightarrow> False
           | Inr p \<Rightarrow> is_dir d p \<and> \<not> is_process_model_identifier ca d tenant cleaned))"

text \<open>\<open>rglob("*.bpmn")\<close> below a directory, and the model a file belongs to.\<close>

definition below :: "path \<Rightarrow> disk \<Rightarrow> path list" where
  "below p d = filter (\<lambda>q. strictly_inside q p) (map fst d)"

definition relative_posix :: "path \<Rightarrow> path \<Rightarrow> string" where
  "relative_posix home p = (let r = drop (length home) p in if r = [] then ''.'' else join ''/'' r)"

definition list_models :: "catalog_env \<Rightarrow> disk \<Rightarrow> string \<Rightarrow> string option \<Rightarrow> call_failure + string list" where
  "list_models ca d tenant grp =
     (case tenant_models_root (ca_spec_dir ca) d tenant of
        Inl e \<Rightarrow> Inl e
      | Inr home \<Rightarrow>
          if \<not> path_exists d home then Inr []
          else
            (case (if truthy_str grp then group_path ca d tenant [or_default grp []] else Inr home) of
               Inl _ \<Rightarrow> Inr []
             | Inr search \<Rightarrow>
                 if \<not> path_exists d search then Inr []
                 else Inr (sort (remdups (map (\<lambda>q. relative_posix home (butlast q))
                             (filter (\<lambda>q. endswith (last q) ''.bpmn'') (below search d)))))))"

definition list_group_ids :: "catalog_env \<Rightarrow> disk \<Rightarrow> string \<Rightarrow> call_failure + string list" where
  "list_group_ids ca d tenant =
     (case tenant_models_root (ca_spec_dir ca) d tenant of
        Inl e \<Rightarrow> Inl e
      | Inr home \<Rightarrow>
          (case list_models ca d tenant None of
             Inl e \<Rightarrow> Inl e
           | Inr models \<Rightarrow>
               Inr (sort (remdups
                 (filter (\<lambda>g. g \<noteq> []) (map process_group_id_for_model models) @
                  (if path_exists d home
                   then filter (\<lambda>r. r \<noteq> [] \<and> r \<noteq> ''.'')
                          (map (\<lambda>q. relative_posix home (butlast q))
                             (filter (\<lambda>q. last q = ''process_group.json'') (below home d)))
                   else []))))))"

definition first_bpmn_name :: "disk \<Rightarrow> path \<Rightarrow> string" where
  "first_bpmn_name d p =
     (case sort (filter (\<lambda>n. is_file d (p @ [n]) \<and> py_lower (path_suffix n) = ''.bpmn'') (children d p)) of
        [] \<Rightarrow> [] | n # _ \<Rightarrow> n)"

definition model_file_path :: "catalog_env \<Rightarrow> disk \<Rightarrow> string \<Rightarrow> string \<Rightarrow> call_failure + path" where
  "model_file_path ca d tenant identifier =
     (case model_json ca d tenant identifier of
        Inl e \<Rightarrow> Inl e
      | Inr meta \<Rightarrow>
          (let primary = text_item meta ''primary_file_name'' in
           model_path ca d tenant [identifier, if primary \<noteq> [] then primary else leaf_segment identifier @ ''.bpmn'']))"

definition read_model_file :: "catalog_env \<Rightarrow> disk \<Rightarrow> string \<Rightarrow> string \<Rightarrow> string \<Rightarrow> call_failure + string option" where
  "read_model_file ca d tenant identifier file_name =
     (case validate_leaf_file_name file_name of
        Inl e \<Rightarrow> Inl e
      | Inr name \<Rightarrow>
          (case model_path ca d tenant [identifier, name] of
             Inl _ \<Rightarrow> Inr None
           | Inr p \<Rightarrow> Inr (if is_file d p then read_bytes d p else None)))"

text \<open>\<open>read_primary_bpmn\<close>: the path is the one that was checked, so that what is read is what was resolved.\<close>

definition primary_bpmn_path :: "catalog_env \<Rightarrow> disk \<Rightarrow> string \<Rightarrow> string \<Rightarrow> call_failure + path option" where
  "primary_bpmn_path ca d tenant identifier =
     (case model_path ca d tenant [identifier] of Inl e \<Rightarrow> Inl e | Inr model_dir \<Rightarrow>
        if \<not> is_dir d model_dir then Inr None
        else (case model_file_path ca d tenant identifier of Inl e \<Rightarrow> Inl e | Inr p \<Rightarrow>
          if is_file d p then Inr (Some p)
          else
            (let name = first_bpmn_name d model_dir in
             if name = [] then Inr None
             else map_sum id Some (model_path ca d tenant [identifier, name]))))"

definition read_primary_bpmn :: "catalog_env \<Rightarrow> disk \<Rightarrow> string \<Rightarrow> string \<Rightarrow> call_failure + (string \<times> string) option" where
  "read_primary_bpmn ca d tenant identifier =
     (case primary_bpmn_path ca d tenant identifier of
        Inl _ \<Rightarrow> Inr None
      | Inr None \<Rightarrow> Inr None
      | Inr (Some p) \<Rightarrow>
          (case read_bytes d p of
             None \<Rightarrow> Inr None
           | Some content \<Rightarrow>
               (case ca_decode ca content of
                  None \<Rightarrow> Inl (Refused (ApiError ''invalid_file_content'' ''File is not valid UTF-8'' 400))
                | Some xml_source \<Rightarrow>
                    (case reject_unsupported_constructs (ca_xml ca) xml_source of
                       Inl e \<Rightarrow> Inl e
                     | Inr _ \<Rightarrow> Inr (Some (last p, xml_source))))))"

text \<open>The DMN files of a directory, by name; a name of \<open>pending\<close> replaces what is on disk.\<close>

fun decode_files :: "catalog_env \<Rightarrow> disk \<Rightarrow> path \<Rightarrow> string list \<Rightarrow> (string \<times> string) list option" where
  "decode_files ca d p [] = Some []"
| "decode_files ca d p (n # ns) =
     (case Option.bind (read_bytes d (p @ [n])) (ca_decode ca) of
        None \<Rightarrow> None
      | Some text \<Rightarrow> map_option (\<lambda>rest. (n, text) # rest) (decode_files ca d p ns))"

definition choose_dmn :: "xml_parser \<Rightarrow> string \<Rightarrow> (string \<times> string) list \<Rightarrow> string option" where
  "choose_dmn parse bpmn_xml sources =
     (if sources = [] then None
      else
        (let called = called_decision_ids parse bpmn_xml;
             names = sort (remdups (map fst sources));
             chosen = (case find (\<lambda>n. case dmn_decision_id parse (or_default (map_of sources n) []) of
                                        None \<Rightarrow> False | Some i \<Rightarrow> i \<in> set called) names of
                         Some n \<Rightarrow> n | None \<Rightarrow> hd names)
         in map_of sources chosen))"

definition model_dmn_xml :: "catalog_env \<Rightarrow> disk \<Rightarrow> string \<Rightarrow> string \<Rightarrow> string \<Rightarrow> (string \<times> string) list \<Rightarrow>
    call_failure + string option" where
  "model_dmn_xml ca d tenant identifier bpmn_xml pending =
     (case model_path ca d tenant [identifier] of
        Inl e \<Rightarrow> Inl e
      | Inr model_dir \<Rightarrow>
          (case decode_files ca d model_dir
                  (filter (\<lambda>n. endswith n ''.dmn'' \<and> is_file d (model_dir @ [n])) (children d model_dir)) of
             None \<Rightarrow> Inl (Refused (ApiError ''invalid_file_content'' ''DMN file is not valid UTF-8'' 400))
           | Some files \<Rightarrow> Inr (choose_dmn (ca_xml ca) bpmn_xml (pending @ files))))"

end
