(* ===== verification/Catalog.thy ===== *)
theory Catalog
  imports Catalog_Read Claims
begin

text \<open>
  Writing the process model catalog (catalog/__init__.py). An operation takes the disk and the state of
  the engine's database and returns its result with both, an exception included. Importing a definition
  into the engine is an argument; it happens before the files are written, as the code does it.
\<close>

record import_request =
  im_tenant :: string
  im_user :: int
  im_identifier :: string
  im_xml :: string
  im_dmn :: "string option"
  im_name :: "string option"

type_synonym 'd importer = "import_request \<Rightarrow> 'd \<Rightarrow> call_failure option \<times> 'd"

type_synonym ('a, 'd) catalog_result = "(call_failure + 'a) \<times> disk \<times> 'd"

definition write_file :: "path \<Rightarrow> string \<Rightarrow> disk \<Rightarrow> disk_step" where
  "write_file p content d = then_step (mkdirs (butlast p) d) (write_bytes p content)"

text \<open>A step on a path that the guard has resolved.\<close>

definition with_path :: "call_failure + path \<Rightarrow> (path \<Rightarrow> disk \<Rightarrow> disk_step) \<Rightarrow> disk \<Rightarrow> disk_step" where
  "with_path resolved_path step d = (case resolved_path of Inl e \<Rightarrow> (Some e, d) | Inr p \<Rightarrow> step p d)"

definition write_spec_file :: "catalog_env \<Rightarrow> string \<Rightarrow> string \<Rightarrow> string \<Rightarrow> string \<Rightarrow> disk \<Rightarrow> disk_step" where
  "write_spec_file ca tenant identifier file_name content d =
     with_path (model_path ca d tenant [identifier, file_name]) (\<lambda>target. write_file target content) d"

definition write_process_group_json :: "catalog_env \<Rightarrow> string \<Rightarrow> string \<Rightarrow> (string \<times> pyval) list \<Rightarrow> disk \<Rightarrow> disk_step" where
  "write_process_group_json ca tenant group_id info d =
     with_path (group_path ca d tenant [group_id, ''process_group.json''])
       (\<lambda>p. write_file p (ca_encode ca (ca_dumps ca (PDict info)))) d"

definition write_process_model_json :: "catalog_env \<Rightarrow> string \<Rightarrow> string \<Rightarrow> (string \<times> pyval) list \<Rightarrow> disk \<Rightarrow> disk_step" where
  "write_process_model_json ca tenant model_id info d =
     (let payload = filter (\<lambda>(k, v). k \<noteq> ''id'' \<and> v \<noteq> PNone) info in
      if payload = [] then (None, d)
      else with_path (model_path ca d tenant [model_id, ''process_model.json''])
             (\<lambda>p. write_file p (ca_encode ca (ca_dumps ca (PDict payload)))) d)"

definition add_process_model :: "catalog_env \<Rightarrow> string \<Rightarrow> string \<Rightarrow> (string \<times> pyval) list \<Rightarrow> disk \<Rightarrow> disk_step" where
  "add_process_model ca tenant model_id info d =
     then_step (with_path (model_path ca d tenant [model_id]) mkdirs d) (write_process_model_json ca tenant model_id info)"

text \<open>Steps on the disk and on both; the disk of a step that raised is the one it left.\<close>

definition on_disk :: "disk_step \<Rightarrow> 'd \<Rightarrow> (unit, 'd) catalog_result" where
  "on_disk step w = (case step of (Some e, d) \<Rightarrow> (Inl e, d, w) | (None, d) \<Rightarrow> (Inr (), d, w))"

definition and_then :: "('a, 'd) catalog_result \<Rightarrow> ('a \<Rightarrow> disk \<Rightarrow> 'd \<Rightarrow> ('b, 'd) catalog_result) \<Rightarrow> ('b, 'd) catalog_result" where
  "and_then r f = (case r of (Inl e, d, w) \<Rightarrow> (Inl e, d, w) | (Inr x, d, w) \<Rightarrow> f x d w)"

definition checked :: "call_failure + 'a \<Rightarrow> disk \<Rightarrow> 'd \<Rightarrow> ('a, 'd) catalog_result" where
  "checked x d w = (x, d, w)"

definition import_definition :: "'d importer \<Rightarrow> import_request \<Rightarrow> disk \<Rightarrow> 'd \<Rightarrow> (unit, 'd) catalog_result" where
  "import_definition imp req d w =
     (case imp req w of (Some e, w') \<Rightarrow> (Inl e, d, w') | (None, w') \<Rightarrow> (Inr (), d, w'))"

subsection \<open>Saving a diagram\<close>

definition save_model :: "catalog_env \<Rightarrow> 'd importer \<Rightarrow> string \<Rightarrow> string \<Rightarrow> string \<Rightarrow> int \<Rightarrow> string option \<Rightarrow> disk \<Rightarrow> 'd \<Rightarrow>
    (unit, 'd) catalog_result" where
  "save_model ca imp identifier xml_source tenant user file_name d w =
     and_then (checked (reject_unsupported_constructs (ca_xml ca) xml_source) d w) (\<lambda>_ d w.
     and_then (checked (model_dmn_xml ca d tenant identifier xml_source []) d w) (\<lambda>dmn d w.
     and_then (import_definition imp
        \<lparr>im_tenant = tenant, im_user = user, im_identifier = identifier, im_xml = xml_source, im_dmn = dmn,
         im_name = Some (leaf_segment identifier)\<rparr> d w) (\<lambda>_ d w.
     and_then (checked (if truthy_str file_name then model_path ca d tenant [identifier, or_default file_name []]
                        else model_file_path ca d tenant identifier) d w) (\<lambda>p d w.
     on_disk (write_file p (ca_encode ca xml_source) d) w))))"

text \<open>\<open>update_file\<close>: \<open>user\<close> is \<open>None\<close> where \<open>require_current_user\<close> raises.\<close>

definition unauthenticated :: call_failure where
  "unauthenticated = Refused (ApiError ''not_authenticated'' ''User not authenticated'' 401)"

definition utf8_error :: call_failure where
  "utf8_error = Raised ''UnicodeDecodeError''"

definition update_file :: "catalog_env \<Rightarrow> 'd importer \<Rightarrow> int option \<Rightarrow> string \<Rightarrow> string \<Rightarrow> string \<Rightarrow> string \<Rightarrow> disk \<Rightarrow> 'd \<Rightarrow>
    (unit, 'd) catalog_result" where
  "update_file ca imp user tenant model_id file_name content d w =
     and_then (on_disk (write_spec_file ca tenant model_id file_name content d) w) (\<lambda>_ d w.
     (let l = py_lower file_name in
      if \<not> endswith l ''.bpmn'' \<and> \<not> endswith l ''.dmn'' then (Inr (), d, w)
      else case user of
        None \<Rightarrow> (Inl unauthenticated, d, w)
      | Some u \<Rightarrow>
          if endswith l ''.bpmn''
          then (case ca_decode ca content of
                  None \<Rightarrow> (Inl utf8_error, d, w)
                | Some xml_source \<Rightarrow> save_model ca imp model_id xml_source tenant u (Some file_name) d w)
          else and_then (checked (model_file_path ca d tenant model_id) d w) (\<lambda>p d w.
            if \<not> is_file d p then (Inr (), d, w)
            else case Option.bind (read_bytes d p) (ca_decode ca) of
                None \<Rightarrow> (Inl utf8_error, d, w)
              | Some xml_source \<Rightarrow> save_model ca imp model_id xml_source tenant u (Some (last p)) d w)))"

subsection \<open>Identity\<close>

record model_identity =
  mi_id :: string
  mi_tenant :: string
  mi_display_name :: string
  mi_description :: string
  mi_group_id :: string
  mi_group_display_name :: string
  mi_status :: string

definition tenant_ids_for_fanout :: "catalog_env \<Rightarrow> string option \<Rightarrow> string list" where
  "tenant_ids_for_fanout ca tenant_id = (case tenant_id of Some t \<Rightarrow> [t] | None \<Rightarrow> ca_tenants ca)"

definition identity_in :: "catalog_env \<Rightarrow> disk \<Rightarrow> string \<Rightarrow> string \<Rightarrow> call_failure + model_identity" where
  "identity_in ca d tenant identifier =
     (let group_id = process_group_id_for_model identifier in
      case process_model_display_name ca d tenant identifier of Inl e \<Rightarrow> Inl e | Inr name \<Rightarrow>
      case process_model_description ca d tenant identifier of Inl e \<Rightarrow> Inl e | Inr desc \<Rightarrow>
      case process_group_display_name ca d tenant group_id of Inl e \<Rightarrow> Inl e | Inr group_name \<Rightarrow>
      case process_model_status ca d tenant identifier of Inl e \<Rightarrow> Inl e | Inr status \<Rightarrow>
        Inr \<lparr>mi_id = identifier, mi_tenant = tenant, mi_display_name = name, mi_description = desc,
             mi_group_id = group_id, mi_group_display_name = group_name, mi_status = status\<rparr>)"

definition get_model_identity :: "catalog_env \<Rightarrow> disk \<Rightarrow> string option \<Rightarrow> string \<Rightarrow> call_failure + model_identity option" where
  "get_model_identity ca d tenant_id identifier =
     (case find (\<lambda>t. is_process_model_identifier ca d t identifier) (tenant_ids_for_fanout ca tenant_id) of
        None \<Rightarrow> Inr None
      | Some tenant \<Rightarrow> map_sum id Some (identity_in ca d tenant identifier))"

definition model_not_found :: call_failure where
  "model_not_found = Refused (ApiError ''not_found'' ''Process model not found'' 404)"

definition group_not_found :: call_failure where
  "group_not_found = Refused (ApiError ''not_found'' ''Process group not found'' 404)"

definition model_taken :: call_failure where
  "model_taken = Refused (ApiError ''process_model_exists'' ''Process model already exists'' 409)"

text \<open>The last step of the operations that return the model.\<close>

definition answer_identity :: "catalog_env \<Rightarrow> string \<Rightarrow> string \<Rightarrow> disk \<Rightarrow> 'd \<Rightarrow> (model_identity, 'd) catalog_result" where
  "answer_identity ca tenant identifier d w =
     (case get_model_identity ca d (Some tenant) identifier of
        Inl e \<Rightarrow> (Inl e, d, w)
      | Inr None \<Rightarrow> (Inl model_not_found, d, w)
      | Inr (Some i) \<Rightarrow> (Inr i, d, w))"

subsection \<open>Groups\<close>

record group_row =
  gr_id :: string
  gr_display_name :: string
  gr_description :: string
  gr_model_count :: int

definition stripped :: "string option \<Rightarrow> string" where
  "stripped x = strip (or_default x [])"

definition group_info :: "string \<Rightarrow> string \<Rightarrow> (string \<times> pyval) list" where
  "group_info name desc = [(''display_name'', PStr name), (''description'', PStr desc)]"

definition create_process_group :: "catalog_env \<Rightarrow> string \<Rightarrow> string \<Rightarrow> string option \<Rightarrow> string option \<Rightarrow> disk \<Rightarrow> 'd \<Rightarrow>
    (group_row, 'd) catalog_result" where
  "create_process_group ca tenant group_id display_name description d w =
     and_then (checked (validate_process_group_id group_id) d w) (\<lambda>cleaned d w.
     and_then (checked (group_path ca d tenant [cleaned]) d w) (\<lambda>target d w.
       if is_process_model_identifier ca d tenant cleaned
       then (Inl (Refused (ApiError ''process_model_exists'' ''A process model already uses this id'' 409)), d, w)
       else if path_exists d target
       then (Inl (Refused (ApiError ''process_group_exists'' ''Process group already exists'' 409)), d, w)
       else
         and_then (on_disk (mkdirs target d) w) (\<lambda>_ d w.
           (let name = or_text (stripped display_name) (rsplit_last (CHR ''/'') cleaned); desc = stripped description in
            and_then (on_disk (write_process_group_json ca tenant cleaned (group_info name desc) d) w) (\<lambda>_ d w.
              (Inr \<lparr>gr_id = cleaned, gr_display_name = name, gr_description = desc, gr_model_count = 0\<rparr>, d, w))))))"

definition update_process_group :: "catalog_env \<Rightarrow> string \<Rightarrow> string \<Rightarrow> string option \<Rightarrow> string option \<Rightarrow> disk \<Rightarrow> 'd \<Rightarrow>
    (group_row, 'd) catalog_result" where
  "update_process_group ca tenant group_id display_name description d w =
     and_then (checked (validate_process_group_id group_id) d w) (\<lambda>cleaned d w.
       if \<not> process_group_exists ca d tenant cleaned then (Inl group_not_found, d, w)
       else
         and_then (checked (group_json ca d tenant cleaned) d w) (\<lambda>meta d w.
           (let leaf = rsplit_last (CHR ''/'') cleaned;
                name = (case display_name of Some n \<Rightarrow> or_text (strip n) leaf
                                           | None \<Rightarrow> or_text (text_item meta ''display_name'') leaf);
                desc = (case description of Some x \<Rightarrow> strip x | None \<Rightarrow> text_item meta ''description'')
            in and_then (on_disk (write_process_group_json ca tenant cleaned (group_info name desc) d) w) (\<lambda>_ d w.
                 case list_models ca d tenant (Some cleaned) of
                   Inl e \<Rightarrow> (Inl e, d, w)
                 | Inr models \<Rightarrow>
                     (Inr \<lparr>gr_id = cleaned, gr_display_name = name, gr_description = desc,
                           gr_model_count = int (length models)\<rparr>, d, w)))))"

definition delete_process_group :: "catalog_env \<Rightarrow> string \<Rightarrow> string \<Rightarrow> disk \<Rightarrow> 'd \<Rightarrow> (unit, 'd) catalog_result" where
  "delete_process_group ca tenant group_id d w =
     and_then (checked (validate_process_group_id group_id) d w) (\<lambda>cleaned d w.
     and_then (checked (group_path ca d tenant [cleaned]) d w) (\<lambda>target d w.
       if \<not> process_group_exists ca d tenant cleaned then (Inl group_not_found, d, w)
       else (Inr (), rmtree target d, w)))"

subsection \<open>Models\<close>

definition delete_process_model :: "catalog_env \<Rightarrow> string \<Rightarrow> string \<Rightarrow> disk \<Rightarrow> 'd \<Rightarrow> (unit, 'd) catalog_result" where
  "delete_process_model ca tenant identifier d w =
     and_then (checked (model_path ca d tenant [identifier]) d w) (\<lambda>target d w.
       if \<not> is_dir d target then (Inl model_not_found, d, w) else (Inr (), rmtree target d, w))"

definition default_bpmn_xml :: "catalog_env \<Rightarrow> string \<Rightarrow> string" where
  "default_bpmn_xml ca process_id = replace_text ''{process_id}'' process_id (ca_bpmn_template ca)"

definition default_dmn_xml :: "catalog_env \<Rightarrow> string \<Rightarrow> string" where
  "default_dmn_xml ca decision_id = replace_text ''{decision_id}'' decision_id (ca_dmn_template ca)"

text \<open>\<open>except Exception: if target.exists(): shutil.rmtree(target); raise\<close>.\<close>

definition cleaning_up :: "path \<Rightarrow> ('a, 'd) catalog_result \<Rightarrow> ('a, 'd) catalog_result" where
  "cleaning_up target r =
     (case r of
        (Inl e, d, w) \<Rightarrow> (Inl e, if path_exists d target then rmtree target d else d, w)
      | (Inr x, d, w) \<Rightarrow> (Inr x, d, w))"

definition create_process_model :: "catalog_env \<Rightarrow> 'd importer \<Rightarrow> string \<Rightarrow> string \<Rightarrow> string \<Rightarrow> string option \<Rightarrow>
    string option \<Rightarrow> int \<Rightarrow> disk \<Rightarrow> 'd \<Rightarrow> (model_identity, 'd) catalog_result" where
  "create_process_model ca imp tenant group_id leaf_id display_name description user d w =
     and_then (checked (validate_process_group_id group_id) d w) (\<lambda>grp d w.
     and_then (checked (resolve_process_model_leaf leaf_id display_name) d w) (\<lambda>leaf d w.
       if \<not> process_group_exists ca d tenant grp then (Inl group_not_found, d, w)
       else
         (let model_id = grp @ ''/'' @ leaf in
          and_then (checked (model_path ca d tenant [model_id]) d w) (\<lambda>target d w.
            if is_process_model_identifier ca d tenant model_id \<or> path_exists d target then (Inl model_taken, d, w)
            else
              (let name = or_text (stripped display_name) leaf; desc = stripped description;
                   process_id = bpmn_process_id leaf; file_name = leaf @ ''.bpmn'';
                   xml_source = default_bpmn_xml ca process_id in
               and_then (checked (reject_unsupported_constructs (ca_xml ca) xml_source) d w) (\<lambda>_ d w.
               and_then
                 (cleaning_up target
                   (and_then (import_definition imp
                      \<lparr>im_tenant = tenant, im_user = user, im_identifier = model_id, im_xml = xml_source,
                       im_dmn = None, im_name = Some file_name\<rparr> d w) (\<lambda>_ d w.
                    and_then (on_disk (add_process_model ca tenant model_id
                       [(''id'', PStr model_id), (''display_name'', PStr name), (''description'', PStr desc),
                        (''status'', PStr DRAFT), (''primary_file_name'', PStr file_name),
                        (''primary_process_id'', PStr process_id)] d) w) (\<lambda>_ d w.
                    on_disk (write_spec_file ca tenant model_id file_name (ca_encode ca xml_source) d) w))))
                 (\<lambda>_ d w. answer_identity ca tenant model_id d w)))))))"

subsection \<open>Status\<close>

definition STATUS_TRANSITIONS :: "string \<Rightarrow> string list" where
  "STATUS_TRANSITIONS current =
     (if current = DRAFT then [PUBLISHED]
      else if current = PUBLISHED then [PAUSED, DRAFT]
      else if current = PAUSED then [PUBLISHED, DRAFT] else [])"

definition validated_status_transition :: "string \<Rightarrow> string \<Rightarrow> call_failure + string" where
  "validated_status_transition current requested =
     (let candidate = strip requested in
      if candidate \<notin> set PROCESS_MODEL_STATUSES
      then Inl (Refused (ApiError ''invalid_status'' (''Unknown process model status: '' @ repr_str requested) 400))
      else if candidate = current then Inr candidate
      else if candidate \<notin> set (STATUS_TRANSITIONS current)
      then Inl (Refused (ApiError ''invalid_status_transition''
             (''Cannot change process model status from '' @ current @ '' to '' @ candidate) 400))
      else Inr candidate)"

definition text_payload :: "string \<Rightarrow> string \<Rightarrow> (string \<times> pyval) list" where
  "text_payload key v = (if v = [] then [] else [(key, PStr v)])"

definition update_process_model_metadata :: "catalog_env \<Rightarrow> string \<Rightarrow> string \<Rightarrow> string option \<Rightarrow> string option \<Rightarrow>
    string option \<Rightarrow> string option \<Rightarrow> disk \<Rightarrow> 'd \<Rightarrow> (model_identity, 'd) catalog_result" where
  "update_process_model_metadata ca tenant identifier display_name description primary_file_name status d w =
     (if \<not> is_process_model_identifier ca d tenant identifier then (Inl model_not_found, d, w)
      else
        and_then (checked (model_json ca d tenant identifier) d w) (\<lambda>meta d w.
        and_then (checked
          (case primary_file_name of
             None \<Rightarrow> Inr (text_item meta ''primary_file_name'')
           | Some f \<Rightarrow>
               (case validate_leaf_file_name (strip f) of Inl e \<Rightarrow> Inl e | Inr candidate \<Rightarrow>
                case model_path ca d tenant [identifier, candidate] of Inl e \<Rightarrow> Inl e | Inr p \<Rightarrow>
                if \<not> is_file d p
                then Inl (Refused (ApiError ''invalid_primary_file'' ''Primary file not found in this process model'' 400))
                else Inr candidate)) d w) (\<lambda>primary d w.
        and_then (checked (process_model_status ca d tenant identifier) d w) (\<lambda>current d w.
        and_then (checked (case status of None \<Rightarrow> Inr current | Some s \<Rightarrow> validated_status_transition current s) d w) (\<lambda>next_status d w.
          (let leaf = (if CHR ''/'' \<in> set identifier then rsplit_last (CHR ''/'') identifier else identifier);
               name = (case display_name of Some n \<Rightarrow> or_text (strip n) leaf
                                          | None \<Rightarrow> or_text (text_item meta ''display_name'') leaf);
               desc = (case description of Some x \<Rightarrow> strip x | None \<Rightarrow> text_item meta ''description'');
               payload = [(''display_name'', PStr name), (''description'', PStr desc), (''status'', PStr next_status)] @
                         text_payload ''primary_file_name'' primary @
                         text_payload ''primary_process_id'' (text_item meta ''primary_process_id'')
           in and_then (on_disk (write_process_model_json ca tenant identifier payload d) w) (\<lambda>_ d w.
                answer_identity ca tenant identifier d w)))))))"

end
