(* ===== verification/Catalog_Files.thy ===== *)
theory Catalog_Files
  imports Catalog
begin

text \<open>Files of a model, copies of a model, and the rows of the catalog's lists (catalog/__init__.py).\<close>

definition RESERVED_MODEL_FILE_NAMES :: "string list" where
  "RESERVED_MODEL_FILE_NAMES = [''process_model.json'', ''process_group.json'']"

definition DEFAULT_CREATE_SUFFIXES :: "string list" where
  "DEFAULT_CREATE_SUFFIXES = [''.bpmn'', ''.dmn'', ''.json'', ''.md'']"

definition UPLOAD_SUFFIXES :: "string list" where
  "UPLOAD_SUFFIXES = DEFAULT_CREATE_SUFFIXES @ [''.txt'', ''.xml'', ''.svg'', ''.html'', ''.css'']"

definition default_file_bytes :: "catalog_env \<Rightarrow> string \<Rightarrow> string" where
  "default_file_bytes ca file_name =
     (let suffix = file_suffix file_name;
          stem = take (length file_name - length suffix) file_name in
      if suffix = ''.bpmn'' then ca_encode ca (default_bpmn_xml ca (bpmn_process_id stem))
      else if suffix = ''.dmn'' then ca_encode ca (default_dmn_xml ca (bpmn_process_id stem))
      else if suffix = ''.json'' then ''{}'' @ [CHR 0x0A]
      else [])"

record file_row =
  fl_name :: string
  fl_size :: int
  fl_updated_at :: string
  fl_primary :: bool
  fl_decision_id :: "string option"

definition file_payload :: "catalog_env \<Rightarrow> path \<Rightarrow> string \<Rightarrow> string \<times> int \<times> string" where
  "file_payload ca p content = (last p, int (length content), ca_mtime ca p)"

definition refused :: "string \<Rightarrow> string \<Rightarrow> int \<Rightarrow> call_failure" where
  "refused code message status = Refused (ApiError code message status)"

definition body_to_write :: "catalog_env \<Rightarrow> string \<Rightarrow> string option \<Rightarrow> call_failure + string" where
  "body_to_write ca name content =
     (let suffix = file_suffix name in
      case content of
        None \<Rightarrow>
          if suffix \<notin> set DEFAULT_CREATE_SUFFIXES
          then Inl (refused ''unsupported_file_type'' ''Add file without content must be .bpmn, .dmn, .json, or .md'' 400)
          else Inr (default_file_bytes ca name)
      | Some body \<Rightarrow>
          if suffix \<notin> set UPLOAD_SUFFIXES then Inl (refused ''unsupported_file_type'' ''That file type is not allowed'' 400)
          else if body = [] then Inl (refused ''missing_content'' ''Request body is required'' 400)
          else Inr body)"

text \<open>What a new diagram or decision table imports into the engine before it is written.\<close>

definition import_new_file :: "catalog_env \<Rightarrow> 'd importer \<Rightarrow> string \<Rightarrow> string \<Rightarrow> string \<Rightarrow> string \<Rightarrow> int \<Rightarrow> disk \<Rightarrow> 'd \<Rightarrow>
    (unit, 'd) catalog_result" where
  "import_new_file ca imp tenant identifier name body user d w =
     (if file_suffix name = ''.bpmn''
      then (case ca_decode ca body of
          None \<Rightarrow> (Inl (refused ''invalid_file_content'' ''File is not valid UTF-8'' 400), d, w)
        | Some xml_source \<Rightarrow>
            and_then (checked (reject_unsupported_constructs (ca_xml ca) xml_source) d w) (\<lambda>_ d w.
            and_then (checked (model_dmn_xml ca d tenant identifier xml_source []) d w) (\<lambda>dmn d w.
            import_definition imp
              \<lparr>im_tenant = tenant, im_user = user, im_identifier = identifier, im_xml = xml_source, im_dmn = dmn,
               im_name = Some name\<rparr> d w)))
      else if file_suffix name = ''.dmn''
      then (case ca_decode ca body of
          None \<Rightarrow> (Inl (refused ''invalid_file_content'' ''DMN file is not valid UTF-8'' 400), d, w)
        | Some dmn_xml \<Rightarrow>
            if dmn_decision_id (ca_xml ca) dmn_xml = None
            then (Inl (refused ''invalid_file_content'' ''DMN file must be DMN XML with a decision'' 400), d, w)
            else and_then (checked (model_file_path ca d tenant identifier) d w) (\<lambda>bpmn_path d w.
              if \<not> is_file d bpmn_path then (Inr (), d, w)
              else case Option.bind (read_bytes d bpmn_path) (ca_decode ca) of
                  None \<Rightarrow> (Inl utf8_error, d, w)
                | Some bpmn_xml \<Rightarrow>
                    and_then (checked (model_dmn_xml ca d tenant identifier bpmn_xml [(name, dmn_xml)]) d w) (\<lambda>dmn d w.
                    import_definition imp
                      \<lparr>im_tenant = tenant, im_user = user, im_identifier = identifier, im_xml = bpmn_xml, im_dmn = dmn,
                       im_name = Some (last bpmn_path)\<rparr> d w)))
      else (Inr (), d, w))"

definition create_model_file :: "catalog_env \<Rightarrow> 'd importer \<Rightarrow> string \<Rightarrow> string \<Rightarrow> string \<Rightarrow> string option \<Rightarrow> int \<Rightarrow>
    disk \<Rightarrow> 'd \<Rightarrow> (string \<times> int \<times> string, 'd) catalog_result" where
  "create_model_file ca imp tenant identifier file_name content user d w =
     (if \<not> is_process_model_identifier ca d tenant identifier then (Inl model_not_found, d, w)
      else
        and_then (checked (validate_leaf_file_name (strip file_name)) d w) (\<lambda>name d w.
          if py_lower name \<in> set RESERVED_MODEL_FILE_NAMES
          then (Inl (refused ''reserved_file_name'' ''That file name is reserved'' 400), d, w)
          else
            and_then (checked (body_to_write ca name content) d w) (\<lambda>body d w.
            and_then (checked (model_path ca d tenant [identifier, name]) d w) (\<lambda>target d w.
              if path_exists d target
              then (Inl (refused ''file_exists'' ''A file with this name already exists'' 409), d, w)
              else
                and_then (import_new_file ca imp tenant identifier name body user d w) (\<lambda>_ d w.
                and_then (on_disk (write_spec_file ca tenant identifier name body d) w) (\<lambda>_ d w.
                (Inr (file_payload ca target body), d, w)))))))"

definition delete_model_file :: "catalog_env \<Rightarrow> string \<Rightarrow> string \<Rightarrow> string \<Rightarrow> disk \<Rightarrow> 'd \<Rightarrow> (unit, 'd) catalog_result" where
  "delete_model_file ca tenant identifier file_name d w =
     (if \<not> is_process_model_identifier ca d tenant identifier then (Inl model_not_found, d, w)
      else
        and_then (checked (validate_leaf_file_name file_name) d w) (\<lambda>name d w.
          if py_lower name \<in> set RESERVED_MODEL_FILE_NAMES
          then (Inl (refused ''reserved_file_name'' ''That file name is reserved'' 400), d, w)
          else
            and_then (checked (model_path ca d tenant [identifier, name]) d w) (\<lambda>p d w.
              if \<not> is_file d p then (Inl (refused ''not_found'' (''File not found: '' @ name) 404), d, w)
              else
                and_then (checked (model_json ca d tenant identifier) d w) (\<lambda>meta d w.
                  (let primary = text_item meta ''primary_file_name'' in
                   if primary \<noteq> [] \<and> last p = primary
                   then (Inl (refused ''cannot_delete_primary'' ''Set another file as primary before deleting this one.'' 409), d, w)
                   else (Inr (), unlink p d, w))))))"

subsection \<open>Copies\<close>

text \<open>\<open>shutil.copy2\<close> of each file of a directory into another, links followed.\<close>

fun copy_model_files :: "disk \<Rightarrow> path \<Rightarrow> path \<Rightarrow> string list \<Rightarrow> disk \<Rightarrow> disk_step" where
  "copy_model_files source src dest [] d = (None, d)"
| "copy_model_files source src dest (n # ns) d =
     (case read_bytes source (src @ [n]) of
        None \<Rightarrow> copy_model_files source src dest ns d
      | Some content \<Rightarrow>
          if n = ''process_model.json'' then copy_model_files source src dest ns d
          else then_step (write_bytes (dest @ [n]) content d) (copy_model_files source src dest ns))"

definition copied_primary :: "catalog_env \<Rightarrow> disk \<Rightarrow> string \<Rightarrow> string \<Rightarrow> path \<Rightarrow> string \<Rightarrow> string" where
  "copied_primary ca d tenant dest_id dest primary =
     (let kept = (if primary = [] then []
                  else case model_path ca d tenant [dest_id, primary] of
                    Inl _ \<Rightarrow> [] | Inr p \<Rightarrow> if is_file d p then primary else [])
      in if kept = [] then first_bpmn_name d dest else kept)"

definition import_copy :: "catalog_env \<Rightarrow> 'd importer \<Rightarrow> string \<Rightarrow> string \<Rightarrow> path \<Rightarrow> string \<Rightarrow> int \<Rightarrow> disk \<Rightarrow> 'd \<Rightarrow>
    (unit, 'd) catalog_result" where
  "import_copy ca imp tenant dest_id dest primary user d w =
     (let bpmn_name = (if endswith (py_lower primary) ''.bpmn'' then primary else first_bpmn_name d dest) in
      if bpmn_name = [] then (Inr (), d, w)
      else
        and_then (checked (model_path ca d tenant [dest_id, bpmn_name]) d w) (\<lambda>p d w.
          case read_bytes d p of
            None \<Rightarrow> (Inl (Raised ''FileNotFoundError''), d, w)
          | Some content \<Rightarrow>
              (case ca_decode ca content of
                 None \<Rightarrow> (Inl (refused ''invalid_file_content'' ''File is not valid UTF-8'' 400), d, w)
               | Some xml_source \<Rightarrow>
                   and_then (checked (reject_unsupported_constructs (ca_xml ca) xml_source) d w) (\<lambda>_ d w.
                   and_then (checked (model_dmn_xml ca d tenant dest_id xml_source []) d w) (\<lambda>dmn d w.
                   import_definition imp
                     \<lparr>im_tenant = tenant, im_user = user, im_identifier = dest_id, im_xml = xml_source, im_dmn = dmn,
                      im_name = Some bpmn_name\<rparr> d w)))))"

text \<open>The files of the source, new metadata and the import: the steps that a failure undoes.\<close>

definition fill_copy :: "catalog_env \<Rightarrow> 'd importer \<Rightarrow> string \<Rightarrow> string \<Rightarrow> path \<Rightarrow> path \<Rightarrow> string \<Rightarrow> int \<Rightarrow> disk \<Rightarrow> 'd \<Rightarrow>
    (unit, 'd) catalog_result" where
  "fill_copy ca imp tenant dest_id dest source_dir name user d w =
     and_then (on_disk (copy_model_files d source_dir dest (children d source_dir) d) w) (\<lambda>_ d w.
       (let source_meta = read_json_file ca d (source_dir @ [''process_model.json'']);
            primary = copied_primary ca d tenant dest_id dest (text_item source_meta ''primary_file_name'');
            payload = [(''display_name'', PStr name),
                       (''description'', PStr (text_item source_meta ''description'')),
                       (''status'', PStr DRAFT)] @
                      text_payload ''primary_file_name'' primary @
                      text_payload ''primary_process_id'' (text_item source_meta ''primary_process_id'')
        in and_then (on_disk (write_process_model_json ca tenant dest_id payload d) w) (\<lambda>_ d w.
           import_copy ca imp tenant dest_id dest primary user d w)))"

definition copy_process_model :: "catalog_env \<Rightarrow> 'd importer \<Rightarrow> string \<Rightarrow> string \<Rightarrow> string \<Rightarrow> string option \<Rightarrow> int \<Rightarrow>
    disk \<Rightarrow> 'd \<Rightarrow> (model_identity, 'd) catalog_result" where
  "copy_process_model ca imp tenant source_id leaf_id display_name user d w =
     (if \<not> is_process_model_identifier ca d tenant source_id then (Inl model_not_found, d, w)
      else
        and_then (checked (validate_process_model_leaf leaf_id) d w) (\<lambda>leaf d w.
          (let grp = process_group_id_for_model source_id;
               dest_id = (if grp = [] then leaf else grp @ ''/'' @ leaf) in
           and_then (checked (model_path ca d tenant [dest_id]) d w) (\<lambda>dest d w.
             if is_process_model_identifier ca d tenant dest_id \<or> path_exists d dest then (Inl model_taken, d, w)
             else
               and_then (checked (model_path ca d tenant [source_id]) d w) (\<lambda>source_dir d w.
               and_then (on_disk (mkdirs dest d) w) (\<lambda>_ d w.
               and_then
                 (cleaning_up dest
                   (fill_copy ca imp tenant dest_id dest source_dir (or_text (stripped display_name) leaf) user d w))
                 (\<lambda>_ d w. answer_identity ca tenant dest_id d w)))))))"

subsection \<open>Lists\<close>

definition file_row_of :: "catalog_env \<Rightarrow> disk \<Rightarrow> path \<Rightarrow> string \<Rightarrow> string \<Rightarrow> file_row" where
  "file_row_of ca d p primary n =
     (let content = or_default (read_bytes d (p @ [n])) [] in
      \<lparr>fl_name = n, fl_size = int (length content), fl_updated_at = ca_mtime ca (p @ [n]),
       fl_primary = (primary \<noteq> [] \<and> n = primary),
       fl_decision_id = (if py_lower (path_suffix n) = ''.dmn''
                         then dmn_decision_id (ca_xml ca) (ca_decode_lossy ca content) else None)\<rparr>)"

definition list_model_files :: "catalog_env \<Rightarrow> disk \<Rightarrow> string \<Rightarrow> string \<Rightarrow> file_row list" where
  "list_model_files ca d tenant identifier =
     (case model_path ca d tenant [identifier] of
        Inl _ \<Rightarrow> []
      | Inr p \<Rightarrow>
          if \<not> is_dir d p then []
          else
            (let primary = text_item (read_json_file ca d (p @ [''process_model.json''])) ''primary_file_name'' in
             map (file_row_of ca d p primary)
               (filter (\<lambda>n. is_file d (p @ [n]) \<and> n \<noteq> ''process_model.json'') (sort_key py_lower (children d p)))))"

text \<open>The processes of one file: the stripped ids of its process elements.\<close>

definition process_ids_of :: "xml_parser \<Rightarrow> string \<Rightarrow> string list" where
  "process_ids_of parse source =
     (case parse source of
        Parsed r \<Rightarrow> filter (\<lambda>i. i \<noteq> [])
          (map (\<lambda>e. strip (or_default (attribute e ''id'') [])) (filter (\<lambda>e. xml_local_name (tag e) = ''process'') (xml_iter r)))
      | _ \<Rightarrow> [])"

definition bpmn_processes_for_model :: "catalog_env \<Rightarrow> disk \<Rightarrow> string \<Rightarrow> string \<Rightarrow> call_failure + (string \<times> string) list" where
  "bpmn_processes_for_model ca d tenant identifier =
     (let names = filter (\<lambda>n. endswith (py_lower n) ''.bpmn'') (map fl_name (list_model_files ca d tenant identifier)) in
      fold (\<lambda>n acc. case acc of Inl e \<Rightarrow> Inl e | Inr found \<Rightarrow>
          (case read_model_file ca d tenant identifier n of
             Inl e \<Rightarrow> Inl e
           | Inr None \<Rightarrow> Inr found
           | Inr (Some source) \<Rightarrow> Inr (dedup_into found (map (\<lambda>i. (i, n)) (process_ids_of (ca_xml ca) source)))))
        names (Inr []))"

record model_row =
  mr_processes :: "(string \<times> string) list"
  mr_identity :: model_identity

text \<open>A row raises where one of its parts does.\<close>

definition model_row_in :: "catalog_env \<Rightarrow> disk \<Rightarrow> string \<Rightarrow> string \<Rightarrow> call_failure + model_row" where
  "model_row_in ca d tenant identifier =
     (case bpmn_processes_for_model ca d tenant identifier of Inl e \<Rightarrow> Inl e | Inr processes \<Rightarrow>
      case identity_in ca d tenant identifier of Inl e \<Rightarrow> Inl e | Inr i \<Rightarrow>
        Inr \<lparr>mr_processes = processes, mr_identity = i\<rparr>)"

fun collect :: "('a \<Rightarrow> call_failure + 'b) \<Rightarrow> 'a list \<Rightarrow> call_failure + 'b list" where
  "collect f [] = Inr []"
| "collect f (x # xs) =
     (case f x of Inl e \<Rightarrow> Inl e | Inr y \<Rightarrow>
      case collect f xs of Inl e \<Rightarrow> Inl e | Inr ys \<Rightarrow> Inr (y # ys))"

definition list_model_rows :: "catalog_env \<Rightarrow> disk \<Rightarrow> string option \<Rightarrow> string option \<Rightarrow> call_failure + model_row list" where
  "list_model_rows ca d tenant_id grp =
     map_sum id concat (collect (\<lambda>tenant.
       case list_models ca d tenant grp of Inl e \<Rightarrow> Inl e | Inr models \<Rightarrow> collect (model_row_in ca d tenant) models)
       (tenant_ids_for_fanout ca tenant_id))"

definition group_row_in :: "catalog_env \<Rightarrow> disk \<Rightarrow> string \<Rightarrow> string \<Rightarrow> call_failure + string \<times> group_row" where
  "group_row_in ca d tenant group_id =
     (case group_json ca d tenant group_id of Inl e \<Rightarrow> Inl e | Inr meta \<Rightarrow>
      case process_group_display_name ca d tenant group_id of Inl e \<Rightarrow> Inl e | Inr name \<Rightarrow>
      case list_models ca d tenant (Some group_id) of Inl e \<Rightarrow> Inl e | Inr models \<Rightarrow>
        Inr (tenant, \<lparr>gr_id = group_id, gr_display_name = name, gr_description = text_item meta ''description'',
                      gr_model_count = int (length models)\<rparr>))"

definition list_group_rows :: "catalog_env \<Rightarrow> disk \<Rightarrow> string option \<Rightarrow> call_failure + (string \<times> group_row) list" where
  "list_group_rows ca d tenant_id =
     map_sum id concat (collect (\<lambda>tenant.
       case list_group_ids ca d tenant of Inl e \<Rightarrow> Inl e | Inr groups \<Rightarrow> collect (group_row_in ca d tenant) groups)
       (tenant_ids_for_fanout ca tenant_id))"

end
