(* ===== verification/Catalog_Laws.thy ===== *)
theory Catalog_Laws
  imports Catalog_Files
begin

text \<open>
  Where the catalog writes. \<open>framed\<close> is the contract of its steps: a condition on disks that a relation
  between disks keeps. It holds for the steps that only write (\<open>steady\<close>: no link is made or removed) and
  for all of them (\<open>same_outside\<close>: nothing changes outside the directory of the tenant).
\<close>

definition disk_of :: "('a, 'd) catalog_result \<Rightarrow> disk" where
  "disk_of r = fst (snd r)"

lemma disk_of_pair [simp]: "disk_of (x, d, w) = d"
  by (simp add: disk_of_def)

lemma disk_of_on_disk [simp]: "disk_of (on_disk r w) = snd r"
  by (cases r) (simp add: on_disk_def split: option.splits)

lemma disk_of_import [simp]: "disk_of (import_definition imp req d w) = d"
  by (simp add: import_definition_def split: prod.splits option.splits)

lemma and_then_checked:
  "and_then (checked x d w) f = (case x of Inl e \<Rightarrow> (Inl e, d, w) | Inr y \<Rightarrow> f y d w)"
  by (simp add: checked_def and_then_def split: sum.splits)

locale framed =
  fixes sound :: "disk \<Rightarrow> bool" and frame :: "disk \<Rightarrow> disk \<Rightarrow> bool"
  assumes frame_refl: "sound d \<Longrightarrow> frame d d"
    and frame_trans: "frame d e \<Longrightarrow> frame e f \<Longrightarrow> frame d f"
    and frame_sound: "sound d \<Longrightarrow> frame d e \<Longrightarrow> sound e"
begin

lemma and_then_framed:
  assumes "sound d" "frame d (disk_of r)"
    "\<And>x e v. r = (Inr x, e, v) \<Longrightarrow> sound e \<Longrightarrow> frame e (disk_of (f x e v))"
  shows "frame d (disk_of (and_then r f))"
proof -
  obtain x e v where r: "r = (x, e, v)" by (cases r) auto
  with assms show ?thesis
    by (cases x) (auto simp: and_then_def intro: frame_trans frame_sound)
qed

lemma checked_framed:
  assumes "sound d" "\<And>y. x = Inr y \<Longrightarrow> frame d (disk_of (f y d w))"
  shows "frame d (disk_of (and_then (checked x d w) f))"
  using assms frame_refl by (simp add: and_then_checked split: sum.splits)

lemma then_step_framed:
  assumes "sound d" "frame d (snd r)" "\<And>e. r = (None, e) \<Longrightarrow> sound e \<Longrightarrow> frame e (snd (f e))"
  shows "frame d (snd (then_step r f))"
  using assms by (cases r) (auto simp: then_step_def split: option.splits intro: frame_trans frame_sound)

lemma with_path_framed:
  assumes "sound d" "\<And>p. x = Inr p \<Longrightarrow> frame d (snd (step p d))"
  shows "frame d (snd (with_path x step d))"
  using assms frame_refl by (simp add: with_path_def split: sum.splits)

end

text \<open>A sound disk, and the directory of a tenant on it.\<close>

definition home_on :: "catalog_env \<Rightarrow> string \<Rightarrow> path \<Rightarrow> disk \<Rightarrow> bool" where
  "home_on ca tenant home d \<longleftrightarrow>
     well_formed d \<and> stable d \<and> tenant_models_root (ca_spec_dir ca) d tenant = Inr home"

lemma tenant_models_root_cong:
  "same_links d e \<Longrightarrow> tenant_models_root spec_dir d tenant = tenant_models_root spec_dir e tenant"
  by (simp add: tenant_models_root_def realpath_cong [of d e])

interpretation wr: framed "home_on ca tenant home" "steady home" for ca tenant home
proof
  show "home_on ca tenant home d \<Longrightarrow> steady home d d" for d
    by (simp add: home_on_def steady_refl)
  show "steady home d e \<Longrightarrow> steady home e f \<Longrightarrow> steady home d f" for d e f
    by (rule steady_trans)
  show "home_on ca tenant home d \<Longrightarrow> steady home d e \<Longrightarrow> home_on ca tenant home e" for d e
    using stable_cong tenant_models_root_cong by (fastforce simp: home_on_def steady_def)
qed

interpretation out: framed "\<lambda>_. True" "same_outside home" for home
  by unfold_locales (auto intro: same_outside_trans)

lemma steady_outside: "steady home d e \<Longrightarrow> same_outside home d e"
  by (simp add: steady_def)

subsection \<open>The steps\<close>

lemma model_path_inside:
  assumes "home_on ca tenant home d" "model_path ca d tenant parts = Inr p"
  shows "resolved d p" "strictly_inside p home"
  using assms resolved_inside
  by (fastforce simp: model_path_def home_on_def stable_def resolved_inside_tenant_def Let_def split: sum.splits if_splits)+

lemma group_path_inside:
  assumes "home_on ca tenant home d" "group_path ca d tenant parts = Inr p"
  shows "resolved d p" "strictly_inside p home"
  using assms resolved_inside
  by (fastforce simp: group_path_def home_on_def stable_def resolved_inside_tenant_def Let_def split: sum.splits if_splits)+

lemma parent_in_reach: "strictly_inside p home \<Longrightarrow> in_reach home (butlast p)"
  by (auto simp: in_reach_def strictly_inside_iff is_prefix_iff butlast_append)
     (metis append_butlast_last_id append_Cons append_self_conv butlast.simps(2) list.exhaust)+

lemma write_file_steady:
  assumes "home_on ca tenant home d" "resolved d p" "strictly_inside p home"
  shows "steady home d (snd (write_file p content d))"
  unfolding write_file_def
proof (rule wr.then_step_framed [OF assms(1)])
  show "steady home d (snd (mkdirs (butlast p) d))"
    using assms by (intro steady_mkdirs resolved_butlast parent_in_reach) (simp_all add: home_on_def)
  fix e assume e: "mkdirs (butlast p) d = (None, e)" "home_on ca tenant home e"
  have "steady home d e" using e(1) steady_mkdirs [of d "butlast p" home] assms
    by (simp add: home_on_def resolved_butlast parent_in_reach)
  then show "steady home e (snd (write_bytes p content e))"
    using assms e(2) by (intro steady_write_bytes) (auto simp: home_on_def steady_def dest: resolved_cong)
qed

lemma write_model_path_steady:
  assumes "home_on ca tenant home d"
  shows "steady home d (snd (with_path (model_path ca d tenant parts) (\<lambda>p. write_file p content) d))"
  by (rule wr.with_path_framed [OF assms]) (rule write_file_steady [OF assms model_path_inside [OF assms]])

lemma write_spec_file_steady:
  "home_on ca tenant home d \<Longrightarrow> steady home d (snd (write_spec_file ca tenant i n content d))"
  unfolding write_spec_file_def by (rule write_model_path_steady)

lemma write_process_group_json_steady:
  assumes "home_on ca tenant home d"
  shows "steady home d (snd (write_process_group_json ca tenant g info d))"
  unfolding write_process_group_json_def
  by (rule wr.with_path_framed [OF assms]) (rule write_file_steady [OF assms group_path_inside [OF assms]])

lemma write_process_model_json_steady:
  "home_on ca tenant home d \<Longrightarrow> steady home d (snd (write_process_model_json ca tenant i info d))"
  by (simp add: write_process_model_json_def Let_def wr.frame_refl write_model_path_steady)

lemma mkdirs_steady:
  "home_on ca tenant home d \<Longrightarrow> resolved d p \<Longrightarrow> strictly_inside p home \<Longrightarrow> steady home d (snd (mkdirs p d))"
  by (rule steady_mkdirs) (simp_all add: home_on_def in_reach_def)

lemma add_process_model_steady:
  assumes "home_on ca tenant home d"
  shows "steady home d (snd (add_process_model ca tenant i info d))"
  unfolding add_process_model_def
proof (rule wr.then_step_framed [OF assms])
  show "steady home d (snd (with_path (model_path ca d tenant [i]) mkdirs d))"
    by (rule wr.with_path_framed [OF assms]) (rule mkdirs_steady [OF assms model_path_inside [OF assms]])
qed (rule write_process_model_json_steady)

lemma rmtree_outside:
  "resolved d p \<Longrightarrow> strictly_inside p home \<Longrightarrow> same_outside home d (rmtree p d)"
  by (simp add: rmtree_def resolve_resolved same_outside_without_tree)

lemma unlink_outside:
  assumes "resolved d p" "strictly_inside p home"
  shows "same_outside home d (unlink p d)"
proof -
  have "p \<noteq> []" using assms(2) by (auto simp: strictly_inside_iff)
  then show ?thesis using assms by (simp add: unlink_def resolve_resolved resolved_butlast same_outside_without_node)
qed

lemma cleaning_up_outside:
  assumes "steady home d (disk_of r)" "resolved d p" "strictly_inside p home"
  shows "same_outside home d (disk_of (cleaning_up p r))"
proof -
  obtain x e w where r: "r = (x, e, w)" by (cases r) auto
  from assms(1) r have e: "same_links d e" "same_outside home d e" by (simp_all add: steady_def)
  have "same_outside home e (rmtree p e)"
    using rmtree_outside [of e p home] resolved_cong [OF e(1)] assms(2,3) by blast
  with e(2) r show ?thesis by (cases x) (auto simp: cleaning_up_def intro: same_outside_trans)
qed

lemma disk_of_answer [simp]: "disk_of (answer_identity ca tenant i d w) = d"
  by (simp add: answer_identity_def split: sum.splits option.splits)

end
