(* ===== verification/Catalog_Safety.thy ===== *)
theory Catalog_Safety
  imports Catalog_Laws
begin

text \<open>
  Every operation of the catalog stays inside the directory of its tenant. \<open>catalog_write\<close> is one call of an
  operation that writes, with any arguments, whether it answers or raises.
\<close>

inductive catalog_write :: "catalog_env \<Rightarrow> 'd importer \<Rightarrow> string \<Rightarrow> disk \<Rightarrow> disk \<Rightarrow> bool"
  for ca imp tenant d where
  saving: "catalog_write ca imp tenant d (disk_of (save_model ca imp i xml_source tenant user f d (w :: 'd)))"
| updating: "catalog_write ca imp tenant d (disk_of (update_file ca imp u tenant i f content d (w :: 'd)))"
| creating_group: "catalog_write ca imp tenant d (disk_of (create_process_group ca tenant g name desc d (w :: 'd)))"
| updating_group: "catalog_write ca imp tenant d (disk_of (update_process_group ca tenant g name desc d (w :: 'd)))"
| deleting_group: "catalog_write ca imp tenant d (disk_of (delete_process_group ca tenant g d (w :: 'd)))"
| deleting: "catalog_write ca imp tenant d (disk_of (delete_process_model ca tenant i d (w :: 'd)))"
| creating: "catalog_write ca imp tenant d (disk_of (create_process_model ca imp tenant g leaf name desc user d (w :: 'd)))"
| describing: "catalog_write ca imp tenant d (disk_of (update_process_model_metadata ca tenant i name desc primary status d (w :: 'd)))"
| adding_file: "catalog_write ca imp tenant d (disk_of (create_model_file ca imp tenant i f body user d (w :: 'd)))"
| deleting_file: "catalog_write ca imp tenant d (disk_of (delete_model_file ca tenant i f d (w :: 'd)))"
| copying: "catalog_write ca imp tenant d (disk_of (copy_process_model ca imp tenant i leaf name user d (w :: 'd)))"

lemma on_disk_framed:
  "steady home d (snd r) \<Longrightarrow> steady home d (disk_of (on_disk r w))"
  by simp

lemma import_framed: "home_on ca tenant home d \<Longrightarrow> steady home d (disk_of (import_definition imp req d w))"
  by (simp add: wr.frame_refl)

lemma answer_framed: "home_on ca tenant home d \<Longrightarrow> steady home d (disk_of (x, d, w))"
  by (simp add: wr.frame_refl)

lemmas stay = wr.frame_refl import_framed answer_framed write_spec_file_steady write_process_group_json_steady
  write_process_model_json_steady

lemma model_file_path_inside:
  "home_on ca tenant home d \<Longrightarrow> model_file_path ca d tenant i = Inr p \<Longrightarrow> resolved d p \<and> strictly_inside p home"
  unfolding model_file_path_def Let_def by (auto split: sum.splits dest: model_path_inside)

lemma save_model_steady:
  assumes "home_on ca tenant home d"
  shows "steady home d (disk_of (save_model ca imp i xml_source tenant user f d w))"
  unfolding save_model_def
  by (intro wr.checked_framed [OF assms] wr.and_then_framed [OF assms import_framed [OF assms]]
        wr.checked_framed on_disk_framed; assumption?)
     (auto intro!: write_file_steady dest: model_path_inside model_file_path_inside split: if_splits)

lemma update_file_steady:
  assumes "home_on ca tenant home d"
  shows "steady home d (disk_of (update_file ca imp u tenant i f content d w))"
  unfolding update_file_def
  by (rule wr.and_then_framed [OF assms on_disk_framed [OF write_spec_file_steady [OF assms]]])
     (auto simp: Let_def save_model_steady split: option.splits intro!: wr.checked_framed; erule stay)

lemma create_process_group_steady:
  assumes "home_on ca tenant home d"
  shows "steady home d (disk_of (create_process_group ca tenant g name desc d w))"
  unfolding create_process_group_def
  by (insert assms, auto simp: Let_def mkdirs_steady group_path_inside [OF assms]
      intro!: wr.checked_framed [OF assms] wr.and_then_framed [OF assms] wr.and_then_framed [where ca = ca and tenant = tenant]; erule stay)

lemma update_process_group_steady:
  assumes "home_on ca tenant home d"
  shows "steady home d (disk_of (update_process_group ca tenant g name desc d w))"
  unfolding update_process_group_def
  by (insert assms, auto simp: Let_def split: sum.splits intro!: wr.checked_framed [OF assms] wr.and_then_framed [OF assms]; erule stay)

lemma update_process_model_metadata_steady:
  assumes "home_on ca tenant home d"
  shows "steady home d (disk_of (update_process_model_metadata ca tenant i name desc primary status d w))"
  unfolding update_process_model_metadata_def
  by (insert assms, auto simp: Let_def intro!: wr.checked_framed [OF assms] wr.and_then_framed [OF assms]; erule stay)

lemma create_model_file_steady:
  assumes "home_on ca tenant home d"
  shows "steady home d (disk_of (create_model_file ca imp tenant i f body user d w))"
proof -
  have imp: "steady home d (disk_of (import_new_file ca imp tenant i name body user d w))" for name body w
    unfolding import_new_file_def
    by (insert assms, auto split: option.splits intro!: wr.checked_framed [OF assms]; erule stay)
  show ?thesis
    unfolding create_model_file_def
    by (insert assms, auto simp: imp intro!: wr.checked_framed [OF assms] wr.and_then_framed [OF assms] wr.and_then_framed [where ca = ca and tenant = tenant]; erule stay)
qed

subsection \<open>Operations that delete\<close>

lemma delete_process_group_outside:
  assumes "home_on ca tenant home d"
  shows "same_outside home d (disk_of (delete_process_group ca tenant g d w))"
  unfolding delete_process_group_def and_then_checked
  by (auto split: sum.splits intro: rmtree_outside group_path_inside [OF assms])

lemma delete_process_model_outside:
  assumes "home_on ca tenant home d"
  shows "same_outside home d (disk_of (delete_process_model ca tenant i d w))"
  unfolding delete_process_model_def and_then_checked
  by (auto split: sum.splits intro: rmtree_outside model_path_inside [OF assms])

lemma delete_model_file_outside:
  assumes "home_on ca tenant home d"
  shows "same_outside home d (disk_of (delete_model_file ca tenant i f d w))"
  unfolding delete_model_file_def and_then_checked
  by (auto simp: Let_def split: sum.splits intro: unlink_outside model_path_inside [OF assms])

lemma answered_outside:
  "same_outside home d (disk_of r) \<Longrightarrow> same_outside home d (disk_of (and_then r (\<lambda>_ d w. answer_identity ca tenant i d w)))"
  by (rule out.and_then_framed) auto

lemma create_process_model_outside:
  assumes "home_on ca tenant home d"
  shows "same_outside home d (disk_of (create_process_model ca imp tenant g leaf name desc user d w))"
  unfolding create_process_model_def
  by (insert assms, auto simp: Let_def model_path_inside [OF assms]
      intro!: out.checked_framed answered_outside cleaning_up_outside
        wr.and_then_framed [where ca = ca and tenant = tenant]; erule stay add_process_model_steady)

subsection \<open>Copies\<close>

lemma children_clean: "well_formed d \<Longrightarrow> n \<in> set (children d p) \<Longrightarrow> clean_path [n]"
  by (fastforce simp: children_def well_formed_def list_all_iff clean_path_def)

lemma nothing_below:
  assumes "well_formed d" "resolved d p" "\<not> path_exists d p"
  shows "link_at d (p @ [n]) = None"
proof (rule ccontr)
  assume "link_at d (p @ [n]) \<noteq> None"
  then obtain m where "node_at d (p @ [n]) = Some m" by (auto simp: link_at_def split: option.splits)
  with well_formed_at [OF assms(1)] have "node_at d p = Some Dir" by fastforce
  with assms(2,3) show False by (simp add: path_exists_def node_of_def resolve_resolved)
qed

lemma copy_model_files_steady:
  assumes "\<forall>n \<in> set names. clean_path [n]" "strictly_inside dest home"
  shows "well_formed d \<Longrightarrow> resolved d dest \<Longrightarrow> \<forall>n \<in> set names. link_at d (dest @ [n]) = None \<Longrightarrow>
    steady home d (snd (copy_model_files source src dest names d))"
  using assms(1)
proof (induction names arbitrary: d)
  case (Cons n ns)
  let ?w = "\<lambda>content. write_bytes (dest @ [n]) content d"
  have inside: "strictly_inside (dest @ [n]) home"
    by (rule inside_below [OF assms(2)]) (simp add: is_prefix_iff)
  have step: "steady home d (snd (?w content))" for content
    using Cons.prems inside by (intro steady_write_bytes resolved_snoc) simp_all
  have "steady home d (snd (then_step (?w content) (copy_model_files source src dest ns)))" for content
  proof (rule then_step_steady [OF step])
    fix e assume "?w content = (None, e)"
    with step [of content] have e: "steady home d e" by simp
    then have "well_formed e" "same_links d e" by (simp_all add: steady_def)
    then have "steady home e (snd (copy_model_files source src dest ns e))"
      using Cons.prems resolved_cong [of d e] by (intro Cons.IH) (auto simp: same_links_def)
    with e show "steady home d (snd (copy_model_files source src dest ns e))" by (rule steady_trans)
  qed
  then show ?case using Cons by (auto split: option.splits)
qed (simp add: steady_refl)

lemma import_copy_steady:
  assumes "home_on ca tenant home d"
  shows "steady home d (disk_of (import_copy ca imp tenant i p f user d w))"
  unfolding import_copy_def
  by (insert assms, auto simp: Let_def split: option.splits intro!: wr.checked_framed [OF assms]; erule stay)

lemma fill_copy_steady:
  assumes "home_on ca tenant home d" "resolved d dest" "strictly_inside dest home"
    "\<And>n. link_at d (dest @ [n]) = None"
  shows "steady home d (disk_of (fill_copy ca imp tenant i dest src name user d w))"
  unfolding fill_copy_def Let_def
proof (rule wr.and_then_framed [OF assms(1)])
  have "\<forall>n \<in> set (children d src). clean_path [n]"
    using assms(1) children_clean by (auto simp: home_on_def)
  then show "steady home d (disk_of (on_disk (copy_model_files d src dest (children d src) d) w))"
    using copy_model_files_steady [of "children d src" dest home d] assms by (simp add: home_on_def)
qed (auto intro!: wr.and_then_framed [where ca = ca and tenant = tenant]
      intro: write_process_model_json_steady import_copy_steady)

lemma filled_copy_outside:
  assumes "home_on ca tenant home d" "model_path ca d tenant parts = Inr dest" "\<not> path_exists d dest"
  shows "same_outside home d (disk_of (and_then (on_disk (mkdirs dest d) w) (\<lambda>_ d w.
    and_then (cleaning_up dest (fill_copy ca imp tenant i dest src name user d w))
      (\<lambda>_ d w. answer_identity ca tenant i d w))))"
proof (rule out.and_then_framed)
  note dest = model_path_inside [OF assms(1,2)]
  have made: "steady home d (snd (mkdirs dest d))" by (rule mkdirs_steady [OF assms(1) dest])
  then show "same_outside home d (disk_of (on_disk (mkdirs dest d) w))" by (simp add: steady_outside)
  fix x e v assume "on_disk (mkdirs dest d) w = (Inr x, e, v)"
  with made have e: "steady home d e" by (auto simp: on_disk_def split: prod.splits option.splits)
  then have home: "home_on ca tenant home e" using wr.frame_sound assms(1) by blast
  have links: "same_links d e" using e by (simp add: steady_def)
  then have free: "link_at e (dest @ [n]) = None" for n
    using nothing_below [OF _ dest(1) assms(3)] assms(1) by (simp add: same_links_def home_on_def)
  have at: "resolved e dest" using dest(1) resolved_cong [OF links] by simp
  show "same_outside home e (disk_of (and_then (cleaning_up dest (fill_copy ca imp tenant i dest src name user e v))
      (\<lambda>_ d w. answer_identity ca tenant i d w)))"
    by (rule answered_outside [OF cleaning_up_outside [OF fill_copy_steady [OF home at dest(2) free] at dest(2)]])
qed simp

lemma copy_process_model_outside:
  assumes "home_on ca tenant home d"
  shows "same_outside home d (disk_of (copy_process_model ca imp tenant i leaf name user d w))"
  unfolding copy_process_model_def Let_def
  by (auto intro!: out.checked_framed filled_copy_outside [OF assms])

text \<open>Whatever a caller passes to an operation of the process model catalog that writes (a model, a group,
  a file name, a link in the directory), nothing changes on the disk outside the directory of its tenant,
  except that missing directories on the way to it are made, whether the operation answers or raises.\<close>

lemma catalog_writes_stay_with_the_tenant:
  assumes "catalog_write ca imp tenant d e" "well_formed d" "stable d"
    "tenant_models_root (ca_spec_dir ca) d tenant = Inr home"
  shows "same_outside home d e"
proof -
  have home: "home_on ca tenant home d" using assms by (simp add: home_on_def)
  note steady = save_model_steady update_file_steady create_process_group_steady update_process_group_steady
    update_process_model_metadata_steady create_model_file_steady
  note outside = delete_process_group_outside delete_process_model_outside delete_model_file_outside
    create_process_model_outside copy_process_model_outside
  from assms(1) show ?thesis
    by cases (simp_all add: steady [OF home, THEN steady_outside] outside [OF home])
qed

end
