(* ===== verification/Catalog_Drafts.thy ===== *)
theory Catalog_Drafts
  imports Catalog_Safety
begin

text \<open>What the catalog reads back after it has written: new models and copies are drafts.\<close>

subsection \<open>The path of an entry of a directory\<close>

lemma norm_onto_append: "norm_onto p (xs @ ys) = norm_onto (norm_onto p xs) ys"
  by (induction p xs rule: norm_onto.induct) simp_all

lemma walk_append:
  "join_real depth d p (xs @ ys) seen =
     (case join_real depth d p xs seen of
        (q, ok, seen') \<Rightarrow> if ok then join_real depth d q ys seen' else (norm_onto q ys, False, seen'))"
proof (induction depth d p xs seen rule: join_real.induct)
  case (2 depth d p name rest seen)
  show ?case
  proof (cases "name = [] \<or> name = ''.'' \<or> name = ''..''")
    case True
    with 2 show ?thesis by auto
  next
    case name: False
    show ?thesis
    proof (cases "link_at d (p @ [name])")
      case None
      with 2 name show ?thesis by simp
    next
      case link: (Some t)
      show ?thesis
      proof (cases "map_of seen (p @ [name])")
        case (Some known)
        with 2 name link show ?thesis by (cases known) (simp_all add: norm_onto_append)
      next
        case None
        show ?thesis
        proof (cases depth)
          case (Suc n)
          obtain q ok seen' where r: "join_real n d (if startswith t ''/'' then [] else p) (split_on (CHR ''/'') t)
              ((p @ [name], None) # seen) = (q, ok, seen')" by (metis prod_cases3)
          show ?thesis
            using "2.IH"(5) [OF _ _ link None Suc, of q "(ok, seen')" ok seen'] r name link None Suc
            by (cases ok) (simp_all add: norm_onto_append)
        qed (use name link None in \<open>simp add: norm_onto_append\<close>)
      qed
    qed
  qed
qed simp

definition clean_seen :: "seen \<Rightarrow> bool" where
  "clean_seen seen \<longleftrightarrow> (\<forall>k q. (k, Some q) \<in> set seen \<longrightarrow> clean_path q)"

lemma clean_Nil [simp]: "clean_path []"
  by (simp add: clean_path_def)

lemma clean_butlast: "clean_path p \<Longrightarrow> clean_path (butlast p)"
  by (auto simp: clean_path_def list_all_iff dest: in_set_butlastD)

lemma clean_snoc [simp]: "clean_path (p @ [name]) \<longleftrightarrow> clean_path p \<and> clean_path [name]"
  by (auto simp: clean_path_def)

lemma clean_name: "clean_path [name] \<longleftrightarrow> name \<noteq> [] \<and> name \<noteq> ''.'' \<and> name \<noteq> ''..'' \<and> CHR ''/'' \<notin> set name"
  by (simp add: clean_path_def)

lemma clean_onto: "clean_path p \<Longrightarrow> \<forall>c \<in> set names. CHR ''/'' \<notin> set c \<Longrightarrow> clean_path (norm_onto p names)"
proof (induction names arbitrary: p)
  case (Cons c cs)
  let ?p = "if c = [] \<or> c = ''.'' then p else if c = ''..'' then butlast p else p @ [c]"
  have "clean_path ?p" using Cons.prems by (simp add: clean_butlast clean_name)
  with Cons.IH [of ?p] Cons.prems(2) show ?case by (simp only: norm_onto.simps) simp
qed simp

lemma walk_clean:
  "clean_path p \<Longrightarrow> \<forall>c \<in> set names. CHR ''/'' \<notin> set c \<Longrightarrow> clean_seen seen \<Longrightarrow>
   case join_real depth d p names seen of (q, ok, seen') \<Rightarrow> clean_path q \<and> clean_seen seen'"
proof (induction depth d p names seen rule: join_real.induct)
  case (2 depth d p name rest seen)
  show ?case
  proof (cases "name = [] \<or> name = ''.'' \<or> name = ''..''")
    case True
    with 2 show ?thesis by (auto simp: clean_butlast)
  next
    case name: False
    then have step: "clean_path (p @ [name])" using "2.prems" by (simp add: clean_path_def)
    show ?thesis
    proof (cases "link_at d (p @ [name])")
      case None
      with "2.IH"(3) "2.prems" name step show ?thesis by simp
    next
      case link: (Some t)
      show ?thesis
      proof (cases "map_of seen (p @ [name])")
        case (Some known)
        with "2.prems"(3) have "known = Some q \<Longrightarrow> clean_path q" for q
          by (auto simp: clean_seen_def dest!: map_of_SomeD)
        with 2 name link Some step show ?thesis by (cases known) (simp_all add: clean_onto)
      next
        case None
        show ?thesis
        proof (cases depth)
          case (Suc n)
          let ?seen = "(p @ [name], None) # seen"
          let ?go = "join_real n d (if startswith t ''/'' then [] else p) (split_on (CHR ''/'') t) ?seen"
          obtain q ok seen' where r: "?go = (q, ok, seen')" by (metis prod_cases3)
          have "clean_path (if startswith t ''/'' then [] else p)" using "2.prems" by (simp add: clean_path_def)
          moreover have "clean_seen ?seen" using "2.prems" by (simp add: clean_seen_def)
          ultimately have go: "clean_path q" "clean_seen seen'"
            using "2.IH"(4) [OF _ _ link None Suc] name r split_on_no_sep by fastforce+
          then have "clean_seen ((p @ [name], Some q) # seen')" by (simp add: clean_seen_def)
          then show ?thesis
            using "2.IH"(5) [OF _ _ link None Suc, of q "(ok, seen')" ok seen'] r name link None Suc go "2.prems"
            by (cases ok) (simp_all add: clean_onto)
        qed (use "2.prems" name link None step in \<open>simp add: clean_onto\<close>)
      qed
    qed
  qed
qed simp

lemma split_on_snoc: "c \<notin> set w \<Longrightarrow> split_on c (t @ c # w) = split_on c t @ [w]"
proof (induction t)
  case (Cons x t)
  obtain v vs where "split_on c t = v # vs" by (cases "split_on c t") auto
  with Cons show ?case by simp
qed (simp add: split_on_id)

lemma realpath_child:
  assumes "clean_path [name]" "link_at d (realpath d t @ [name]) = None"
  shows "realpath d (t @ CHR ''/'' # name) = realpath d t @ [name]"
proof -
  have name: "CHR ''/'' \<notin> set name" "name \<noteq> []" "name \<noteq> ''.''" "name \<noteq> ''..''" using assms(1) by (auto simp: clean_path_def)
  obtain q ok seen' where r: "join_real (link_count d) d [] (split_on (CHR ''/'') t) [] = (q, ok, seen')" by (metis prod_cases3)
  have "clean_path q"
    using walk_clean [of "[]" "split_on (CHR ''/'') t" "[]" "link_count d" d] split_on_no_sep r by (auto simp: clean_seen_def)
  then have q: "norm_onto [] q = q" by (simp add: norm_onto_clean)
  then have "realpath d t = q" by (simp add: realpath_def r)
  moreover from this have "link_at d (q @ [name]) = None" using assms(2) by simp
  ultimately show ?thesis
    using q name \<open>clean_path q\<close> assms(1) by (simp add: realpath_def split_on_snoc walk_append r norm_onto_clean norm_onto_append)
qed

subsection \<open>The metadata of a new model\<close>

abbreviation METADATA :: string where "METADATA \<equiv> ''process_model.json''"

lemma METADATA_clean: "clean_path [METADATA]"
  by (simp add: clean_name)

lemma realpath_slash: "realpath d (t @ ''/'') = realpath d t"
  using split_on_snoc [of "CHR ''/''" "[]" t]
  by (simp add: realpath_def walk_append split: prod.splits)

lemma join_snoc: "p \<noteq> [] \<Longrightarrow> join sep (p @ [n]) = join sep p @ sep @ n"
  by (induction sep p rule: join.induct) simp_all

lemma path_text_snoc: "p \<noteq> [] \<Longrightarrow> path_text (p @ [n]) = path_text p @ CHR ''/'' # n"
  by (simp add: path_text_def join_snoc)

lemma startswith_longer: "startswith s p \<Longrightarrow> startswith (s @ t) p"
  by (auto simp: startswith_iff)

lemma model_path_child:
  assumes "model_path ca d tenant [i] = Inr target" "clean_path [n]" "link_at d (target @ [n]) = None"
  shows "model_path ca d tenant [i, n] = Inr (target @ [n])"
proof -
  from assms(1) obtain home where home: "tenant_models_root (ca_spec_dir ca) d tenant = Inr home"
    and target: "target = realpath d (join_path (path_text home) i)"
      "startswith (path_text target) (join_path (path_text home) [])" "strictly_inside target home"
    by (auto simp: model_path_def resolved_inside_tenant_def Let_def join_paths_def split: sum.splits if_splits)
  let ?a = "join_path (path_text home) i"
  have "?a \<noteq> []" by (auto simp: join_path_def path_text_def startswith_def split: if_splits)
  have n: "\<not> startswith n ''/''" using assms(2) by (cases n) (auto simp: clean_name startswith_def)
  have "realpath d (join_path ?a n) = target @ [n]"
  proof (cases "endswith ?a ''/''")
    case True
    then obtain b where b: "?a = b @ ''/''" by (auto simp: endswith_iff)
    then have "realpath d (b @ CHR ''/'' # n) = target @ [n]"
      using realpath_child [OF assms(2), of d b] target(1) assms(3) realpath_slash [of d b] by simp
    then show ?thesis unfolding b using n by (simp add: join_path_def endswith_iff)
  next
    case False
    with n \<open>?a \<noteq> []\<close> realpath_child [OF assms(2), of d ?a] target(1) assms(3) show ?thesis
      by (simp add: join_path_def [of ?a])
  qed
  moreover have "target \<noteq> []" using target(3) by (auto simp: strictly_inside_iff)
  moreover have "strictly_inside (target @ [n]) home"
    by (rule inside_below [OF target(3)]) (simp add: is_prefix_iff)
  ultimately show ?thesis
    using home target(2) by (simp add: model_path_def resolved_inside_tenant_def Let_def join_paths_def path_text_snoc startswith_longer)
qed

lemma make_dirs_keeps: "node_at d q = Some n \<Longrightarrow> node_at (snd (make_dirs p names d)) q = Some n"
  by (induction p names d rule: make_dirs.induct) (auto simp: node_at_put split: option.splits node.splits)

lemma write_bytes_puts:
  "write_bytes p content d = (None, e) \<Longrightarrow> resolved d p \<Longrightarrow> p \<noteq> [] \<Longrightarrow>
   e = put_node p (File content) d"
  by (auto simp: write_bytes_def resolve_resolved split: option.splits node.splits)

lemma write_file_result:
  assumes "home_on ca tenant home d" "resolved d p" "strictly_inside p home" "write_file p content d = (None, e)"
  shows "node_at e p = Some (File content)"
    and "q \<noteq> p \<Longrightarrow> node_at d q = Some n \<Longrightarrow> node_at e q = Some n"
    and "home_on ca tenant home e" "same_links d e"
proof -
  obtain f where f: "mkdirs (butlast p) d = (None, f)" "write_bytes p content f = (None, e)"
    using assms(4) by (auto simp: write_file_def then_step_def split: prod.splits option.splits)
  have p: "p \<noteq> []" using assms(3) by (auto simp: strictly_inside_iff)
  have "steady home d f"
    using steady_mkdirs [of d "butlast p" home] assms f(1) by (simp add: home_on_def resolved_butlast parent_in_reach)
  then have "resolved f p" using assms(2) resolved_cong by (auto simp: steady_def)
  then have e: "e = put_node p (File content) f" by (rule write_bytes_puts [OF f(2) _ p])
  then show "node_at e p = Some (File content)" using p by (simp add: node_at_put)
  show "node_at e q = Some n" if "q \<noteq> p" "node_at d q = Some n"
    using that make_dirs_keeps [of d q n "[]" "resolve d (butlast p)"] f(1) by (simp add: e node_at_put mkdirs_def)
  have "steady home d e" using write_file_steady [OF assms(1-3), of content] assms(4) by simp
  then show "home_on ca tenant home e" "same_links d e"
    using wr.frame_sound [OF assms(1)] by (auto simp: steady_def)
qed

text \<open>Documented behaviour of JSON and UTF-8: the status that was written is read back.\<close>

definition read_back :: "catalog_env \<Rightarrow> string \<Rightarrow> (string \<times> pyval) list option" where
  "read_back ca content =
     (case Option.bind (ca_decode ca content) (ca_loads ca) of Some (PDict items) \<Rightarrow> Some items | _ \<Rightarrow> None)"

definition keeps_status :: "catalog_env \<Rightarrow> bool" where
  "keeps_status ca \<longleftrightarrow>
     (\<forall>info s. dget info ''status'' = PStr s \<longrightarrow>
        (\<exists>items. read_back ca (ca_encode ca (ca_dumps ca (PDict info))) = Some items \<and> dget items ''status'' = PStr s))"

text \<open>The metadata of a model says that it is a draft.\<close>

definition draft_at :: "catalog_env \<Rightarrow> disk \<Rightarrow> path \<Rightarrow> bool" where
  "draft_at ca d target \<longleftrightarrow>
     (\<exists>content items. node_at d (target @ [METADATA]) = Some (File content) \<and>
        read_back ca content = Some items \<and> dget items ''status'' = PStr DRAFT)"

lemma draft_status:
  assumes "home_on ca tenant home d" "model_path ca d tenant [i] = Inr target" "draft_at ca d target"
  shows "process_model_status ca d tenant i = Inr DRAFT"
proof -
  obtain content items where c: "node_at d (target @ [METADATA]) = Some (File content)"
    "read_back ca content = Some items" "dget items ''status'' = PStr DRAFT"
    using assms(3) by (auto simp: draft_at_def)
  note target = model_path_inside [OF assms(1,2)]
  have free: "link_at d (target @ [METADATA]) = None" using c(1) by (rule link_at_other)
  have "resolved d (target @ [METADATA])" by (rule resolved_snoc [OF target(1) METADATA_clean free])
  then have "read_bytes d (target @ [METADATA]) = Some content"
    using c(1) by (simp add: read_bytes_def node_of_def resolve_resolved)
  then have "read_json_file ca d (target @ [METADATA]) = items"
    using c(2) by (auto simp: read_json_file_def read_back_def split: option.splits pyval.splits bind_splits)
  moreover have "strip DRAFT = DRAFT" "DRAFT \<in> set PROCESS_MODEL_STATUSES" by code_simp+
  ultimately show ?thesis
    using c(3) model_path_child [OF assms(2) METADATA_clean free]
    by (simp add: process_model_status_def model_json_def status_of_def text_item_def)
qed

lemma written_draft:
  assumes "home_on ca tenant home d" "model_path ca d tenant [i] = Inr target"
    "link_at d (target @ [METADATA]) = None" "keeps_status ca"
    "dget info ''status'' = PStr DRAFT" "write_process_model_json ca tenant i info d = (None, e)"
  shows "draft_at ca e target" "home_on ca tenant home e" "same_links d e"
proof -
  note target = model_path_inside [OF assms(1,2)]
  let ?payload = "filter (\<lambda>(k, v). k \<noteq> ''id'' \<and> v \<noteq> PNone) info"
  have status: "dget ?payload ''status'' = PStr DRAFT"
    using assms(5) by (induction info) (auto simp: dget_def)
  then have "?payload \<noteq> []" by (auto simp: dget_def)
  then have e: "write_file (target @ [METADATA]) (ca_encode ca (ca_dumps ca (PDict ?payload))) d = (None, e)"
    using assms(6) model_path_child [OF assms(2) METADATA_clean assms(3)]
    by (simp add: write_process_model_json_def Let_def with_path_def)
  have r: "resolved d (target @ [METADATA])" by (rule resolved_snoc [OF target(1) METADATA_clean assms(3)])
  have s: "strictly_inside (target @ [METADATA]) home" by (rule inside_below [OF target(2)]) (simp add: is_prefix_iff)
  note written = write_file_result [OF assms(1) r s e]
  show "draft_at ca e target"
    using written(1) assms(4) status by (auto simp: draft_at_def keeps_status_def)
  show "home_on ca tenant home e" "same_links d e" by (rule written(3), rule written(4))
qed

lemma model_path_cong: "same_links d e \<Longrightarrow> model_path ca d tenant parts = model_path ca e tenant parts"
  unfolding model_path_def resolved_inside_tenant_def
  by (simp add: tenant_models_root_cong [of d e] realpath_cong [of d e] cong: sum.case_cong)

lemma answered_draft:
  assumes "home_on ca tenant home d" "model_path ca d tenant [i] = Inr target" "draft_at ca d target"
    "answer_identity ca tenant i d w = (Inr m, d', w')"
  shows "mi_status m = DRAFT"
  using assms(4) draft_status [OF assms(1-3)]
  by (auto simp: answer_identity_def get_model_identity_def identity_in_def Let_def tenant_ids_for_fanout_def
      split: sum.splits option.splits if_splits)

lemma and_then_Inr:
  "and_then r f = (Inr y, d', w') \<longleftrightarrow> (\<exists>x d w. r = (Inr x, d, w) \<and> f x d w = (Inr y, d', w'))"
  by (cases r) (auto simp: and_then_def split: sum.splits)

lemma cleaning_up_Inr: "cleaning_up p r = (Inr y, d, w) \<longleftrightarrow> r = (Inr y, d, w)"
  by (cases r) (auto simp: cleaning_up_def split: sum.splits)

lemma on_disk_Inr: "on_disk r v = (Inr y, d, w) \<longleftrightarrow> r = (None, d) \<and> w = v"
  by (cases r) (auto simp: on_disk_def split: option.splits)

lemma checked_Inr: "checked x d w = (Inr y, d', w') \<longleftrightarrow> x = Inr y \<and> d' = d \<and> w' = w"
  by (auto simp: checked_def)

lemma import_Inr: "import_definition imp req d w = (Inr y, d', w') \<Longrightarrow> d' = d"
  by (auto simp: import_definition_def split: prod.splits option.splits)

lemma then_step_None: "then_step r f = (None, e) \<longleftrightarrow> (\<exists>d. r = (None, d) \<and> f d = (None, e))"
  by (cases r) (auto simp: then_step_def split: option.splits)

lemmas answers = and_then_Inr cleaning_up_Inr on_disk_Inr checked_Inr then_step_None

lemma made_dir:
  assumes "home_on ca tenant home d" "model_path ca d tenant [i] = Inr target" "\<not> path_exists d target"
    "mkdirs target d = (None, e)"
  shows "home_on ca tenant home e" "model_path ca e tenant [i] = Inr target" "link_at e (target @ [n]) = None"
proof -
  note target = model_path_inside [OF assms(1,2)]
  have e: "steady home d e" using mkdirs_steady [OF assms(1) target] assms(4) by simp
  then show "home_on ca tenant home e" by (rule wr.frame_sound [OF assms(1)])
  from e have links: "same_links d e" by (simp add: steady_def)
  then show "model_path ca e tenant [i] = Inr target" using assms(2) model_path_cong by metis
  show "link_at e (target @ [n]) = None"
    using links nothing_below [OF _ target(1) assms(3), of n] assms(1) by (simp add: same_links_def home_on_def)
qed

lemma created_draft:
  assumes "home_on ca tenant home d" "model_path ca d tenant [i] = Inr target" "\<not> path_exists d target" "keeps_status ca"
    "dget info ''status'' = PStr DRAFT" "add_process_model ca tenant i info d = (None, e)"
  shows "home_on ca tenant home e" "model_path ca e tenant [i] = Inr target" "draft_at ca e target"
    "link_at e (target @ [n]) = None"
proof -
  obtain f where f: "mkdirs target d = (None, f)" "write_process_model_json ca tenant i info f = (None, e)"
    using assms(2,6) by (auto simp: add_process_model_def answers with_path_def)
  note made = made_dir [OF assms(1-3) f(1)]
  note draft = written_draft [OF made(1,2) made(3) assms(4,5) f(2)]
  show "home_on ca tenant home e" "draft_at ca e target" by (rule draft(2), rule draft(1))
  show "model_path ca e tenant [i] = Inr target" using made(2) model_path_cong [OF draft(3)] by metis
  show "link_at e (target @ [n]) = None" using made(3) [of n] draft(3) by (simp add: same_links_def)
qed

lemma other_file_keeps_draft:
  assumes "home_on ca tenant home d" "model_path ca d tenant [i] = Inr target" "draft_at ca d target"
    "link_at d (target @ [n]) = None" "clean_path [n]" "n \<noteq> METADATA"
    "write_spec_file ca tenant i n content d = (None, e)"
  shows "home_on ca tenant home e" "model_path ca e tenant [i] = Inr target" "draft_at ca e target"
proof -
  note target = model_path_inside [OF assms(1,2)]
  have e: "write_file (target @ [n]) content d = (None, e)"
    using assms(7) model_path_child [OF assms(2,5,4)] by (simp add: write_spec_file_def with_path_def)
  have r: "resolved d (target @ [n])" by (rule resolved_snoc [OF target(1) assms(5,4)])
  have s: "strictly_inside (target @ [n]) home" by (rule inside_below [OF target(2)]) (simp add: is_prefix_iff)
  note written = write_file_result [OF assms(1) r s e]
  show "home_on ca tenant home e" by (rule written(3))
  show "model_path ca e tenant [i] = Inr target" using assms(2) model_path_cong [OF written(4)] by metis
  show "draft_at ca e target" using assms(3,6) written(2) by (fastforce simp: draft_at_def)
qed

lemma leaf_no_slash: "resolve_process_model_leaf leaf_id name = Inr leaf \<Longrightarrow> CHR ''/'' \<notin> set leaf"
  by (auto simp: resolve_process_model_leaf_def validate_process_model_leaf_def Let_def split: sum.splits if_splits)

lemma bpmn_not_metadata: "leaf @ ''.bpmn'' \<noteq> METADATA"
proof
  assume "leaf @ ''.bpmn'' = METADATA"
  then have "rev (leaf @ ''.bpmn'') = rev METADATA" by (rule arg_cong)
  then show False by simp
qed

lemma created_model_is_draft:
  assumes "home_on ca tenant home d" "keeps_status ca"
    "create_process_model ca imp tenant g leaf_id name desc user d w = (Inr m, d', w')"
  shows "mi_status m = DRAFT"
proof -
  from assms(3) obtain grp leaf i target v0 v1 v2 v4 v5 f content e v where
    leaf: "resolve_process_model_leaf leaf_id name = Inr leaf"
    and target: "model_path ca d tenant [i] = Inr target" "\<not> path_exists d target"
    and model: "add_process_model ca tenant i [(''id'', v0), (''display_name'', v1), (''description'', v2),
        (''status'', PStr DRAFT), (''primary_file_name'', v4), (''primary_process_id'', v5)] d = (None, f)"
    and added: "write_spec_file ca tenant i (leaf @ ''.bpmn'') content f = (None, e)"
    and answer: "answer_identity ca tenant i e v = (Inr m, d', w')"
    unfolding create_process_model_def
    by (auto simp: answers Let_def dest!: import_Inr split: if_splits)
  note created = created_draft [OF assms(1) target assms(2) _ model, simplified dget_def, simplified]
  have "clean_path [leaf @ ''.bpmn'']" using leaf_no_slash [OF leaf] by (auto simp: clean_name)
  note last_step = other_file_keeps_draft [OF created(1-3) created(4) this bpmn_not_metadata added]
  show ?thesis by (rule answered_draft [OF last_step answer])
qed

lemma import_copy_Inr: "import_copy ca imp tenant i p f user d w = (Inr y, d', w') \<Longrightarrow> d' = d"
  unfolding import_copy_def
  by (auto simp: Let_def answers dest!: import_Inr split: if_splits option.splits)

lemma copied_model_is_draft:
  assumes "home_on ca tenant home d" "keeps_status ca"
    "copy_process_model ca imp tenant source leaf_id name user d w = (Inr m, d', w')"
  shows "mi_status m = DRAFT"
proof -
  from assms(3) obtain i target src n f e v u where
    target: "model_path ca d tenant [i] = Inr target" "\<not> path_exists d target"
    and made: "mkdirs target d = (None, f)"
    and filled: "fill_copy ca imp tenant i target src n user f w = (Inr u, e, v)"
    and answer: "answer_identity ca tenant i e v = (Inr m, d', w')"
    unfolding copy_process_model_def
    by (auto simp: answers Let_def split: if_splits)
  note dir = made_dir [OF assms(1) target made]
  note inside = model_path_inside [OF assms(1) target(1)]
  from filled obtain g v1 v2 vs where
    copied: "copy_model_files f src target (children f src) f = (None, g)"
    and json: "write_process_model_json ca tenant i
        ((''display_name'', v1) # (''description'', v2) # (''status'', PStr DRAFT) # vs) g = (None, e)"
    unfolding fill_copy_def by (auto simp: answers Let_def dest!: import_copy_Inr)
  have "\<forall>n \<in> set (children f src). clean_path [n]" using dir(1) children_clean by (auto simp: home_on_def)
  then have "steady home f g"
    using copy_model_files_steady [of "children f src" target home f f src] inside(2) model_path_inside [OF dir(1,2)] dir(1,3) copied
    by (simp add: home_on_def)
  then have g: "home_on ca tenant home g" "same_links f g"
    using wr.frame_sound [OF dir(1)] by (auto simp: steady_def)
  have "model_path ca g tenant [i] = Inr target" using dir(2) model_path_cong [OF g(2)] by metis
  moreover have "link_at g (target @ [METADATA]) = None" using dir(3) g(2) by (simp add: same_links_def)
  ultimately have draft: "draft_at ca e target" "home_on ca tenant home e" "model_path ca e tenant [i] = Inr target"
    using written_draft [OF g(1) _ _ assms(2) _ json] model_path_cong [of g e] by (simp_all add: dget_def)
  show ?thesis by (rule answered_draft [OF draft(2,3,1) answer])
qed

text \<open>A model that a caller creates, and a copy of any model, published or not, answers as a draft, so that no
  instance of it can be started before somebody publishes it.\<close>

theorem new_models_are_drafts:
  assumes "well_formed d" "stable d" "tenant_models_root (ca_spec_dir ca) d tenant = Inr home" "keeps_status ca"
    "create_process_model ca imp tenant g leaf name desc user d w = (Inr m, d', w') \<or>
     copy_process_model ca imp tenant source leaf name user d w = (Inr m, d', w')"
  shows "mi_status m = DRAFT"
proof -
  have "home_on ca tenant home d" using assms(1-3) by (simp add: home_on_def)
  with assms(4,5) show ?thesis using created_model_is_draft copied_model_is_draft by metis
qed

end
