(* ===== verification/Catalog_Properties.thy ===== *)
theory Catalog_Properties
  imports Catalog_Drafts
begin

text \<open>What the catalog reads, accepts and names.\<close>

subsection \<open>Reading the diagram that is imported\<close>

lemma read_resolved:
  assumes "resolved d p" "read_bytes d p = Some content"
  shows "node_at d p = Some (File content)"
  using assms by (auto simp: read_bytes_def node_of_def resolve_resolved split: option.splits node.splits)

text \<open>The diagram of a model that the catalog hands to the engine is a file in the directory of the tenant, with no
  symbolic link on its path, and it has passed the check for unsupported constructs.\<close>

theorem primary_diagram_is_the_tenants_own:
  assumes "stable d" "tenant_models_root (ca_spec_dir ca) d tenant = Inr home"
    "read_primary_bpmn ca d tenant i = Inr (Some (name, xml_source))"
  shows "\<exists>p content. strictly_inside p home \<and> resolved d p \<and> last p = name \<and> node_at d p = Some (File content) \<and>
    ca_decode ca content = Some xml_source \<and> reject_unsupported_constructs (ca_xml ca) xml_source = Inr ()"
proof -
  have inside: "resolved d p \<and> strictly_inside p home" if "model_path ca d tenant parts = Inr p" for parts p
    using that assms(1,2) resolved_inside
    by (fastforce simp: model_path_def stable_def resolved_inside_tenant_def Let_def split: sum.splits if_splits)
  obtain p content where p: "primary_bpmn_path ca d tenant i = Inr (Some p)" "last p = name"
    "read_bytes d p = Some content" "ca_decode ca content = Some xml_source"
    "reject_unsupported_constructs (ca_xml ca) xml_source = Inr ()"
    using assms(3) by (auto simp: read_primary_bpmn_def split: sum.splits option.splits)
  have "resolved d p \<and> strictly_inside p home"
    using p(1) by (auto simp: primary_bpmn_path_def model_file_path_def Let_def map_sum_Inr dest: inside split: sum.splits if_splits)
  with p read_resolved show ?thesis by blast
qed

subsection \<open>Which diagrams are accepted\<close>

text \<open>The contract of a diagram, stated as what must hold rather than as what is refused.\<close>

definition supported_model :: "xml \<Rightarrow> bool" where
  "supported_model r \<longleftrightarrow> (\<forall>e \<in> set (xml_iter r).
     (is_multi_instance e \<longrightarrow> multi_instance_ok e) \<and>
     (is_event_subprocess e \<longrightarrow> start_events e \<noteq> [] \<and> (\<forall>s \<in> set (start_events e). non_interrupting_timer s)) \<and>
     xml_local_name (tag e) \<notin> set UNSUPPORTED_CONSTRUCTS)"

lemma construct_refusal_iff: "construct_refusal e = None \<longleftrightarrow> xml_local_name (tag e) \<notin> set UNSUPPORTED_CONSTRUCTS"
  by (auto simp: construct_refusal_def xml_local_name_def UNSUPPORTED_CONSTRUCTS_def)


subsection \<open>Decision tables\<close>

text \<open>When a decision table of the model holds a decision that the diagram calls, the table imported with the
  diagram is such a table, whatever the names of the files.\<close>

theorem called_decision_is_imported:
  assumes "map_of sources n = Some table" "dmn_decision_id parse table = Some i" "i \<in> set (called_decision_ids parse bpmn_xml)"
  shows "\<exists>chosen j. choose_dmn parse bpmn_xml sources = Some chosen \<and> chosen \<in> snd ` set sources \<and>
    dmn_decision_id parse chosen = Some j \<and> j \<in> set (called_decision_ids parse bpmn_xml)"
proof -
  let ?P = "\<lambda>n. case dmn_decision_id parse (or_default (map_of sources n) []) of
      None \<Rightarrow> False | Some i \<Rightarrow> i \<in> set (called_decision_ids parse bpmn_xml)"
  let ?names = "sort (remdups (map fst sources))"
  have "n \<in> set ?names" "?P n" using assms map_of_SomeD [OF assms(1)] by (force simp: or_default_def)+
  then obtain m where m: "find ?P ?names = Some m" by (cases "find ?P ?names") (auto simp: find_None_iff)
  then have "?P m" by (auto simp: find_Some_iff)
  have "m \<in> set ?names" using m by (metis find_Some_iff nth_mem)
  then obtain y where y: "map_of sources m = Some y" using map_of_eq_None_iff [of sources m] by (cases "map_of sources m") auto
  then have "y \<in> snd ` set sources" using map_of_SomeD by force
  with \<open>?P m\<close> y m assms(1) show ?thesis
    by (auto simp: choose_dmn_def Let_def or_default_def split: option.splits)
qed

subsection \<open>Names\<close>

lemma dash_runs_set: "set (dash_runs p r s) \<subseteq> insert (CHR ''-'') (set s)"
  by (induction p r s rule: dash_runs.induct) auto

lemma slug_chars:
  assumes "c \<in> set (slugify_process_model_leaf s)"
  shows "slug_char c"
proof -
  have "set (slugify_process_model_leaf s) \<subseteq> insert (CHR ''-'') {c. slug_char c}"
    unfolding slugify_process_model_leaf_def Let_def
    by (rule subset_trans [OF strip_if_set], rule subset_trans [OF dash_runs_set]) auto
  then show ?thesis using assms by (auto simp: slug_char_def)
qed

lemma slug_ends:
  assumes "slugify_process_model_leaf s \<noteq> []"
  shows "hd (slugify_process_model_leaf s) \<notin> {CHR ''-'', CHR ''_''}" "last (slugify_process_model_leaf s) \<notin> {CHR ''-'', CHR ''_''}"
  using assms strip_if_hd [of "\<lambda>c. c = CHR ''-'' \<or> c = CHR ''_''"] strip_if_last [of "\<lambda>c. c = CHR ''-'' \<or> c = CHR ''_''"]
  by (simp_all add: slugify_process_model_leaf_def Let_def)

lemma slug_char_segment: "slug_char c \<Longrightarrow> segment_char c"
  by (auto simp: slug_char_def segment_char_def is_alpha_def code_point_def Let_def)

lemma slug_char_plain:
  assumes "slug_char c"
  shows "c \<noteq> CHR ''/''" "c \<noteq> CHR 0x5C" "c \<noteq> CHR '':''" "c \<noteq> CHR 0x0A" "\<not> py_space c"
  using assms by (auto simp: slug_char_def code_point_def is_digit_def Let_def py_space_def)

text \<open>C26. The identifier made from a display name is empty, which the caller refuses, or a valid identifier of a model
  as it stands: one segment that the validation of identifiers accepts unchanged.\<close>

theorem slugs_are_valid_identifiers:
  "slugify_process_model_leaf name = [] \<or>
   validate_process_model_leaf (slugify_process_model_leaf name) = Inr (slugify_process_model_leaf name)"
proof (cases "slugify_process_model_leaf name = []")
  case False
  let ?s = "slugify_process_model_leaf name"
  have ends: "hd ?s \<in> set ?s" "last ?s \<in> set ?s" using False by simp_all
  note plain = slug_char_plain [OF slug_chars]
  have "strip ?s = ?s" unfolding strip_def by (rule strip_if_id) (use plain(5) ends in blast)
  moreover have "strip_if (\<lambda>c. c = CHR ''/'') ?s = ?s" by (rule strip_if_id) (use plain(1) ends in blast)
  moreover have "CHR ''/'' \<notin> set ?s" "CHR 0x5C \<notin> set ?s" "CHR '':'' \<notin> set ?s" using plain by blast+
  moreover have "without_last_newline ?s = ?s" using plain(4) ends by (auto simp: without_last_newline_def)
  moreover have "is_alpha (hd ?s) \<or> is_digit (hd ?s)"
    using slug_ends(1) [OF False] slug_char_segment [OF slug_chars [OF ends(1)]] by (simp add: segment_char_def)
  moreover have "list_all segment_char (tl ?s)"
    using slug_char_segment slug_chars by (auto simp: list_all_iff dest: list.set_sel(2) [OF False])
  ultimately show ?thesis
    using False by (cases ?s) (auto simp: validate_process_model_leaf_def validate_process_group_id_def Let_def
        group_segment_def split_on_id)
qed simp

text \<open>
  The walk along symbolic links always ends: a link is entered at most once, so that the depth \<open>realpath\<close>
  starts with is never used up, not even where links loop.
\<close>

definition links_of :: "disk \<Rightarrow> path set" where
  "links_of d = {p. link_at d p \<noteq> None}"

lemma links_of_subset: "links_of d \<subseteq> fst ` set (filter (\<lambda>(_, n). is_link n) d)"
proof
  fix p assume "p \<in> links_of d"
  then obtain t where "node_at d p = Some (Link t)" by (auto simp: links_of_def link_at_def split: option.splits node.splits)
  then have "(p, Link t) \<in> set d" by (auto simp: node_at_def split: if_splits dest: map_of_SomeD)
  then show "p \<in> fst ` set (filter (\<lambda>(_, n). is_link n) d)" by (force simp: is_link_def)
qed

lemma finite_links [simp]: "finite (links_of d)"
  using links_of_subset by (rule finite_subset) simp

lemma card_links: "card (links_of d) \<le> link_count d"
proof -
  have "card (links_of d) \<le> card (fst ` set (filter (\<lambda>(_, n). is_link n) d))"
    by (rule card_mono [OF _ links_of_subset]) simp
  also have "\<dots> \<le> card (set (filter (\<lambda>(_, n). is_link n) d))" by (rule card_image_le) simp
  also have "\<dots> \<le> link_count d" unfolding link_count_def by (rule card_length)
  finally show ?thesis .
qed

abbreviation keys :: "seen \<Rightarrow> path set" where
  "keys seen \<equiv> fst ` set seen"

lemma seen_grows: "case join_real depth d p names seen of (q, ok, seen') \<Rightarrow> keys seen \<subseteq> keys seen'"
proof (induction depth d p names seen rule: join_real.induct)
  case (2 depth d p name rest seen)
  show ?case
  proof (cases "name = [] \<or> name = ''.'' \<or> name = ''..''")
    case True
    with 2 show ?thesis by auto
  next
    case name: False
    show ?thesis
    proof (cases "link_at d (p @ [name])")
      case None
      with 2 name show ?thesis by simp
    next
      case link: (Some t)
      show ?thesis
      proof (cases "map_of seen (p @ [name])")
        case (Some known)
        with 2 name link show ?thesis by (cases known) simp_all
      next
        case None
        show ?thesis
        proof (cases depth)
          case (Suc n)
          let ?go = "join_real n d (if startswith t ''/'' then [] else p) (split_on (CHR ''/'') t) ((p @ [name], None) # seen)"
          obtain q ok seen' where r: "?go = (q, ok, seen')" by (metis prod_cases3)
          have "keys seen \<subseteq> keys seen'" using "2.IH"(4) [OF _ _ link None Suc] name r by auto
          then show ?thesis
            using "2.IH"(5) [OF _ _ link None Suc, of q "(ok, seen')" ok seen'] r name link None Suc
            by (cases ok) (auto split: prod.splits)
        qed (use name link None in simp)
      qed
    qed
  qed
qed simp

lemma card_more: "keys s \<subseteq> keys s' \<Longrightarrow> card (links_of d - keys s') \<le> card (links_of d - keys s)"
  by (rule card_mono) auto

lemma card_entered:
  assumes "q \<in> links_of d" "q \<notin> keys seen"
  shows "Suc (card (links_of d - keys ((q, v) # seen))) = card (links_of d - keys seen)"
proof -
  have "links_of d - keys ((q, v) # seen) = (links_of d - keys seen) - {q}" by auto
  then show ?thesis using assms by (simp only:) (rule card_Suc_Diff1, auto)
qed

lemma join_real_fuel:
  "card (links_of d - keys seen) \<le> depth \<Longrightarrow> join_real (depth + k) d p names seen = join_real depth d p names seen"
proof (induction depth d p names seen rule: join_real.induct)
  case (2 depth d p name rest seen)
  show ?case
  proof (cases "name = [] \<or> name = ''.'' \<or> name = ''..''")
    case True
    with 2 show ?thesis by auto
  next
    case name: False
    show ?thesis
    proof (cases "link_at d (p @ [name])")
      case None
      with 2 name show ?thesis by simp
    next
      case link: (Some t)
      show ?thesis
      proof (cases "map_of seen (p @ [name])")
        case (Some known)
        with 2 name link show ?thesis by (cases known) simp_all
      next
        case None
        then have new: "p @ [name] \<in> links_of d" "p @ [name] \<notin> keys seen"
          using link by (simp_all add: links_of_def map_of_eq_None_iff)
        then have "0 < card (links_of d - keys seen)" by (auto simp: card_gt_0_iff)
        then obtain n where n: "depth = Suc n" using "2.prems" by (cases depth) auto
        let ?seen = "(p @ [name], None) # seen"
        let ?go = "\<lambda>n. join_real n d (if startswith t ''/'' then [] else p) (split_on (CHR ''/'') t) ?seen"
        have "card (links_of d - keys ?seen) \<le> n" using card_entered [OF new, of None] "2.prems" n by simp
        then have go: "?go (n + k) = ?go n" using "2.IH"(4) [OF _ _ link None n] name by blast
        obtain q ok seen' where r: "?go n = (q, ok, seen')" by (metis prod_cases3)
        have "keys ?seen \<subseteq> keys seen'"
          using seen_grows [where depth = n and d = d and p = "if startswith t ''/'' then [] else p"
              and names = "split_on (CHR ''/'') t" and seen = ?seen]
          unfolding r by simp
        then have "keys seen \<subseteq> keys ((p @ [name], Some q) # seen')" by auto
        then have "card (links_of d - keys ((p @ [name], Some q) # seen')) \<le> depth"
          using card_more "2.prems" order_trans by blast
        then have "join_real (depth + k) d q rest ((p @ [name], Some q) # seen') = join_real depth d q rest ((p @ [name], Some q) # seen')"
          if ok using "2.IH"(5) [OF _ _ link None n, of q "(ok, seen')" ok seen'] r name that by simp
        then show ?thesis using name link None n go r by simp
      qed
    qed
  qed
qed simp

text \<open>The guard of the catalog always gets its answer: resolving a path ends on every disk, looping links included. The number
  of links on the disk is depth enough, since a greater one changes nothing.\<close>

theorem realpath_never_runs_out_of_depth:
  "norm_onto [] (fst (join_real (link_count d + k) d [] (split_on (CHR ''/'') t) [])) = realpath d t"
  using join_real_fuel [of d "[]" "link_count d" k] card_links [of d] by (simp add: realpath_def)

end
