(* ===== verification/Call_Activities.thy ===== *)
theory Call_Activities
  imports Catalog_Properties Workflow "HOL-Library.Product_Lexorder"
begin

text \<open>
  Which definition a call activity runs (workflow/__init__.py, \<open>_call_activity_definition_index\<close> and
  \<open>_call_activity_resolver\<close>): the stored BPMN definitions of a tenant are indexed by process id, newest
  first, and the index is kept in a small cache under a signature of the table. The table belongs to the
  engine; a row holds the columns the host reads. The XML parser is an argument.
\<close>

record definition_row =
  df_id :: int
  df_tenant :: string
  df_model :: "string option"        \<comment> \<open>\<open>process_model_identifier\<close>\<close>
  df_bpmn_identifier :: string
  df_bpmn_xml :: "string option"
  df_dmn_xml :: "string option"
  df_digest :: string                \<comment> \<open>\<open>process_xml_digest\<close>\<close>
  df_created_at :: "int option"
  df_updated_at :: "int option"

subsection \<open>The index\<close>

type_synonym definition_reference = "int \<times> string \<times> string"

type_synonym index_tables = "(string \<times> definition_reference list) list \<times> (string \<times> string) list"

type_synonym index_signature = "int \<times> int option \<times> int option \<times> int option"

definition max_of :: "int list \<Rightarrow> int option" where
  "max_of xs = (if xs = [] then None else Some (Max (set xs)))"

definition tenant_rows :: "string \<Rightarrow> definition_row list \<Rightarrow> definition_row list" where
  "tenant_rows tenant rows = filter (\<lambda>r. df_tenant r = tenant) rows"

definition stamps :: "(definition_row \<Rightarrow> int option) \<Rightarrow> definition_row list \<Rightarrow> int list" where
  "stamps f rows = map the (filter (\<lambda>t. t \<noteq> None) (map f rows))"

definition definition_signature :: "string \<Rightarrow> definition_row list \<Rightarrow> index_signature" where
  "definition_signature tenant rows =
     (let mine = tenant_rows tenant rows in
      (int (length mine), max_of (map df_id mine), max_of (stamps df_created_at mine), max_of (stamps df_updated_at mine)))"

text \<open>\<open>ORDER BY created_at DESC NULLS LAST, id DESC\<close>.\<close>

definition newness :: "definition_row \<Rightarrow> int \<times> int \<times> int" where
  "newness r = (case df_created_at r of None \<Rightarrow> (1, 0, - df_id r) | Some t \<Rightarrow> (0, - t, - df_id r))"

definition newest_first :: "definition_row list \<Rightarrow> definition_row list" where
  "newest_first rows = sort_key newness rows"

definition process_ids :: "xml \<Rightarrow> string list" where
  "process_ids r = filter (\<lambda>i. i \<noteq> [])
     (map (\<lambda>e. or_default (attribute e ''id'') [])
       (filter (\<lambda>e. tag e \<noteq> None \<and> xml_local_name (tag e) = ''process'') (xml_iter r)))"

text \<open>\<open>setdefault(process_id, []).append(reference)\<close> and \<open>setdefault(model_identifier, ...)\<close>.\<close>

fun put_reference :: "definition_reference \<Rightarrow> string \<Rightarrow> (string \<times> definition_reference list) list \<Rightarrow>
    (string \<times> definition_reference list) list" where
  "put_reference r k [] = [(k, [r])]"
| "put_reference r k ((i, rs) # ix) = (if i = k then (i, rs @ [r]) # ix else (i, rs) # put_reference r k ix)"

definition put_malformed :: "string \<Rightarrow> string \<Rightarrow> (string \<times> string) list \<Rightarrow> (string \<times> string) list" where
  "put_malformed model bpmn bad = (if map_of bad model = None then bad @ [(model, bpmn)] else bad)"

definition index_row :: "xml_parser \<Rightarrow> definition_row \<Rightarrow> index_tables \<Rightarrow> index_tables" where
  "index_row parse row ix =
     (let source = or_default (df_bpmn_xml row) []; model = or_default (df_model row) [] in
      if source = [] \<or> model = [] then ix
      else case parse source of
        Parsed r \<Rightarrow> (fold (put_reference (df_id row, model, df_bpmn_identifier row)) (process_ids r) (fst ix), snd ix)
      | _ \<Rightarrow> (fst ix, put_malformed model (df_bpmn_identifier row) (snd ix)))"

definition definition_index :: "xml_parser \<Rightarrow> string \<Rightarrow> definition_row list \<Rightarrow> index_tables" where
  "definition_index parse tenant rows = fold (index_row parse) (newest_first (tenant_rows tenant rows)) ([], [])"

subsection \<open>The cache\<close>

text \<open>An \<open>OrderedDict\<close>, the entry used last at its end. A key is an engine (\<open>session.get_bind()\<close>) and a tenant.\<close>

type_synonym index_cache = "((nat \<times> string) \<times> index_signature \<times> index_tables) list"

definition CALL_ACTIVITY_INDEX_CACHE_MAX_ENTRIES :: nat where
  "CALL_ACTIVITY_INDEX_CACHE_MAX_ENTRIES = 128"

definition move_to_end :: "'k \<Rightarrow> ('k \<times> 'v) list \<Rightarrow> ('k \<times> 'v) list" where
  "move_to_end k c = filter (\<lambda>(i, _). i \<noteq> k) c @ filter (\<lambda>(i, _). i = k) c"

definition set_entry :: "'k \<Rightarrow> 'v \<Rightarrow> ('k \<times> 'v) list \<Rightarrow> ('k \<times> 'v) list" where
  "set_entry k v c = (if map_of c k = None then c @ [(k, v)] else map (\<lambda>(i, w). (i, if i = k then v else w)) c)"

text \<open>\<open>while len(cache) > MAX: cache.popitem(last=False)\<close>.\<close>

function evict :: "nat \<Rightarrow> 'a list \<Rightarrow> 'a list" where
  "evict n c = (if n < length c then evict n (tl c) else c)"
  by pat_completeness auto
termination by (relation "measure (\<lambda>(n, c). length c - n)") auto

declare evict.simps [simp del]

definition call_activity_definition_index ::
  "xml_parser \<Rightarrow> nat \<Rightarrow> string \<Rightarrow> definition_row list \<Rightarrow> index_cache \<Rightarrow> index_tables \<times> index_cache" where
  "call_activity_definition_index parse bind tenant rows cache =
     (let sig = definition_signature tenant rows; key = (bind, tenant);
          fresh = definition_index parse tenant rows;
          kept = evict CALL_ACTIVITY_INDEX_CACHE_MAX_ENTRIES (move_to_end key (set_entry key (sig, fresh) cache)) in
      case map_of cache key of
        None \<Rightarrow> (fresh, kept)
      | Some (s, ix) \<Rightarrow> if s = sig then (ix, move_to_end key cache) else (fresh, kept))"

subsection \<open>The resolver\<close>

definition model_status :: "catalog_env \<Rightarrow> disk \<Rightarrow> string \<Rightarrow> string \<Rightarrow> call_failure + string" where
  "model_status ca d tenant model = process_model_status ca d tenant model"

text \<open>A malformed definition counts where its model reads as published; one without a readable status does not.\<close>

definition malformed_published :: "catalog_env \<Rightarrow> disk \<Rightarrow> string \<Rightarrow> (string \<times> string) list \<Rightarrow> string list" where
  "malformed_published ca d tenant bad =
     map snd (filter (\<lambda>(model, _). model_status ca d tenant model = Inr PUBLISHED) bad)"

definition status_unknown :: "string \<Rightarrow> string \<Rightarrow> string" where
  "status_unknown model tenant =
     ''Could not determine publication status for child process model '' @ repr_str model @ '' in tenant '' @ repr_str tenant"

fun published_matches :: "catalog_env \<Rightarrow> disk \<Rightarrow> string \<Rightarrow> definition_reference list \<Rightarrow> (string \<times> int) list \<Rightarrow>
    string + (string \<times> int) list" where
  "published_matches ca d tenant [] found = Inr found"
| "published_matches ca d tenant ((i, model, _) # refs) found =
     (case model_status ca d tenant model of
        Inl _ \<Rightarrow> Inl (status_unknown model tenant)
      | Inr status \<Rightarrow>
          published_matches ca d tenant refs
            (if status = PUBLISHED \<and> map_of found model = None then found @ [(model, i)] else found))"

definition no_child :: "string \<Rightarrow> string \<Rightarrow> string list \<Rightarrow> string" where
  "no_child called tenant malformed =
     (if malformed \<noteq> []
      then ''Could not confirm called process '' @ repr_str called @ '' in tenant '' @ repr_str tenant @
           ''; published BPMN definitions could not be parsed: '' @ join '', '' (sort malformed)
      else ''No published child process '' @ repr_str called @ '' was found in tenant '' @ repr_str tenant)"

definition many_children :: "string \<Rightarrow> string \<Rightarrow> string" where
  "many_children called tenant =
     ''More than one published child process '' @ repr_str called @ '' was found in tenant '' @ repr_str tenant"

definition child_changed :: "string \<Rightarrow> string \<Rightarrow> string" where
  "child_changed called tenant =
     ''Published child process '' @ repr_str called @ '' changed while resolving tenant '' @ repr_str tenant"

definition references_of :: "index_tables \<Rightarrow> string \<Rightarrow> definition_reference list" where
  "references_of ix called = or_default (map_of (fst ix) called) []"

definition resolve_definition :: "catalog_env \<Rightarrow> disk \<Rightarrow> nat \<Rightarrow> definition_row list \<Rightarrow> string \<Rightarrow> string \<Rightarrow> index_cache \<Rightarrow>
    (string + definition_row) \<times> index_cache" where
  "resolve_definition ca d bind rows tenant called cache =
     (if tenant = [] \<or> called = [] then (Inl ''Call activity is missing tenant or calledElement context'', cache)
      else
        (let (ix, cache') = call_activity_definition_index (ca_xml ca) bind tenant rows cache;
             malformed = malformed_published ca d tenant (snd ix) in
         (case published_matches ca d tenant (references_of ix called) [] of
            Inl e \<Rightarrow> Inl e
          | Inr [] \<Rightarrow> Inl (no_child called tenant malformed)
          | Inr [(model, i)] \<Rightarrow>
              (case find (\<lambda>r. df_id r = i) rows of
                 None \<Rightarrow> Inl (child_changed called tenant)
               | Some row \<Rightarrow> Inr row)
          | Inr _ \<Rightarrow> Inl (many_children called tenant), cache')))"

record call_activity_definition =
  cd_process_id :: string
  cd_bpmn_xml :: "string option"
  cd_dmn_xml :: "string option"

definition resolve_call_activity :: "catalog_env \<Rightarrow> disk \<Rightarrow> nat \<Rightarrow> definition_row list \<Rightarrow> string \<Rightarrow> string \<Rightarrow> index_cache \<Rightarrow>
    (string + call_activity_definition) \<times> index_cache" where
  "resolve_call_activity ca d bind rows tenant called cache =
     (case resolve_definition ca d bind rows tenant called cache of
        (r, cache') \<Rightarrow>
          (map_sum id (\<lambda>row. \<lparr>cd_process_id = called, cd_bpmn_xml = df_bpmn_xml row, cd_dmn_xml = df_dmn_xml row\<rparr>) r, cache'))"

text \<open>
  The index agrees with a direct reading of the table, the cache with the index, and the resolver picks the newest
  definition of the only published model that defines the called process.
\<close>

subsection \<open>The index, read directly\<close>

text \<open>The references that one row makes to a process, and all those of a list of rows.\<close>

definition row_references :: "xml_parser \<Rightarrow> string \<Rightarrow> definition_row \<Rightarrow> definition_reference list" where
  "row_references parse called row = references_of (index_row parse row ([], [])) called"

lemma references_put:
  "references_of (put_reference r k ix, bad) called = references_of (ix, bad) called @ (if k = called then [r] else [])"
  by (induction ix) (auto simp: references_of_def)

lemma references_fold_put:
  "references_of (fold (put_reference r) ks ix, bad) called
     = references_of (ix, bad) called @ map (\<lambda>_. r) (filter (\<lambda>k. k = called) ks)"
  by (induction ks arbitrary: ix) (auto simp: references_put)

lemma references_empty [simp]: "references_of ([], bad) called = []"
  by (simp add: references_of_def)

lemma references_bad: "references_of (ix, bad) called = references_of (ix, []) called"
  by (simp add: references_of_def)

lemma references_index_row:
  "references_of (index_row parse row ix) called = references_of ix called @ row_references parse called row"
  by (cases ix) (auto simp: row_references_def index_row_def Let_def references_fold_put split: parsed_xml.splits,
    simp_all add: references_of_def)

lemma references_fold_rows:
  "references_of (fold (index_row parse) rows ix) called = references_of ix called @ concat (map (row_references parse called) rows)"
  by (induction rows arbitrary: ix) (simp_all add: references_index_row)

lemma references_index:
  "references_of (definition_index parse tenant rows) called
     = concat (map (row_references parse called) (newest_first (tenant_rows tenant rows)))"
  by (simp add: definition_index_def references_fold_rows)

text \<open>A row defines a process for a model.\<close>

definition defines_process :: "xml_parser \<Rightarrow> definition_row \<Rightarrow> string \<Rightarrow> string \<Rightarrow> bool" where
  "defines_process parse row model called \<longleftrightarrow>
     df_model row = Some model \<and> model \<noteq> [] \<and> called \<noteq> [] \<and>
     (\<exists>source r. df_bpmn_xml row = Some source \<and> source \<noteq> [] \<and> parse source = Parsed r \<and> called \<in> set (process_ids r))"

lemma or_default_nonempty: "or_default x [] \<noteq> [] \<longleftrightarrow> (\<exists>s. x = Some s \<and> s \<noteq> [])"
  by (cases x) (auto simp: or_default_def)

lemma row_references_set:
  "(i, model, b) \<in> set (row_references parse called row) \<longleftrightarrow>
     i = df_id row \<and> b = df_bpmn_identifier row \<and> defines_process parse row model called"
proof (cases "or_default (df_bpmn_xml row) [] = [] \<or> or_default (df_model row) [] = []")
  case True
  then show ?thesis by (auto simp: row_references_def index_row_def Let_def defines_process_def or_default_def)
next
  case False
  then obtain source m where r: "df_bpmn_xml row = Some source" "df_model row = Some m" "source \<noteq> []" "m \<noteq> []"
    using or_default_nonempty by metis
  then show ?thesis
    by (auto simp: row_references_def index_row_def Let_def defines_process_def or_default_def references_fold_put process_ids_def
        split: parsed_xml.splits)
qed

subsection \<open>The cache\<close>

text \<open>An entry is honest for a table if the signature it carries, when it is the one of the table, comes with the
  index of the table.\<close>

definition honest_cache :: "xml_parser \<Rightarrow> nat \<Rightarrow> definition_row list \<Rightarrow> index_cache \<Rightarrow> bool" where
  "honest_cache parse bind rows cache \<longleftrightarrow>
     (\<forall>tenant ix. ((bind, tenant), definition_signature tenant rows, ix) \<in> set cache \<longrightarrow> ix = definition_index parse tenant rows)"

lemma evict_drop: "evict n c = drop (length c - n) c"
proof (induction n c rule: evict.induct)
  case (1 n c)
  show ?case
  proof (cases "n < length c")
    case True
    then have "drop (length (tl c) - n) (tl c) = drop (length c - n) c"
      by (cases c) (simp_all add: Suc_diff_le)
    with 1 True show ?thesis by (subst evict.simps) simp
  qed (subst evict.simps, simp)
qed

lemma set_evict: "set (evict n c) \<subseteq> set c"
  by (simp add: evict_drop set_drop_subset)

lemma length_evict: "length (evict n c) \<le> n"
  by (simp add: evict_drop)

lemma set_move_to_end [simp]: "set (move_to_end k c) = set c"
  by (auto simp: move_to_end_def)

lemma length_move_to_end [simp]: "length (move_to_end k c) = length c"
  unfolding move_to_end_def by (induction c) (auto split: prod.splits)

lemma set_set_entry: "set (set_entry k v c) \<subseteq> insert (k, v) (set c)"
  by (auto simp: set_entry_def split: if_splits)

lemma honest_subset:
  assumes "honest_cache parse bind rows cache"
    "set cache' \<subseteq> insert ((bind, tenant), definition_signature tenant rows, definition_index parse tenant rows) (set cache)"
  shows "honest_cache parse bind rows cache'"
  unfolding honest_cache_def
proof (intro allI impI)
  fix t ix assume "((bind, t), definition_signature t rows, ix) \<in> set cache'"
  with assms(2) have "((bind, t), definition_signature t rows, ix) \<in> set cache \<or> (t = tenant \<and> ix = definition_index parse tenant rows)"
    by auto
  with assms(1) show "ix = definition_index parse t rows" by (auto simp only: honest_cache_def)
qed

lemma index_is_honest:
  assumes "honest_cache (ca_xml ca) bind rows cache"
  shows "fst (call_activity_definition_index (ca_xml ca) bind tenant rows cache) = definition_index (ca_xml ca) tenant rows"
    and "honest_cache (ca_xml ca) bind rows (snd (call_activity_definition_index (ca_xml ca) bind tenant rows cache))"
proof -
  let ?sig = "definition_signature tenant rows" and ?ix = "definition_index (ca_xml ca) tenant rows"
  show "fst (call_activity_definition_index (ca_xml ca) bind tenant rows cache) = ?ix"
    using assms by (auto simp: call_activity_definition_index_def honest_cache_def Let_def
        dest!: map_of_SomeD split: option.splits)
  let ?kept = "evict CALL_ACTIVITY_INDEX_CACHE_MAX_ENTRIES (move_to_end (bind, tenant) (set_entry (bind, tenant) (?sig, ?ix) cache))"
  have "set ?kept \<subseteq> insert ((bind, tenant), ?sig, ?ix) (set cache)"
    by (rule subset_trans [OF set_evict]) (simp add: set_set_entry)
  then have "honest_cache (ca_xml ca) bind rows ?kept" by (rule honest_subset [OF assms])
  moreover have "honest_cache (ca_xml ca) bind rows (move_to_end (bind, tenant) cache)"
    by (rule honest_subset [OF assms]) auto
  ultimately show "honest_cache (ca_xml ca) bind rows (snd (call_activity_definition_index (ca_xml ca) bind tenant rows cache))"
    by (simp add: call_activity_definition_index_def Let_def split: option.splits)
qed

text \<open>Reading the index through the cache never lets the cache grow beyond its bound, whatever it held before the
  last insertion.\<close>

theorem index_cache_is_bounded:
  "length (snd (call_activity_definition_index parse bind tenant rows cache))
     \<le> max (length cache) CALL_ACTIVITY_INDEX_CACHE_MAX_ENTRIES"
  by (auto simp: call_activity_definition_index_def Let_def le_max_iff_disj length_evict split: option.splits)

subsection \<open>The resolver\<close>

abbreviation by_model :: "definition_reference list \<Rightarrow> (string \<times> int) list" where
  "by_model refs \<equiv> map (\<lambda>(i, model, b). (model, i)) refs"

lemma published_matches_map:
  "published_matches ca d tenant refs found = Inr result \<Longrightarrow>
   map_of result model = (case map_of found model of
      Some i \<Rightarrow> Some i
    | None \<Rightarrow> if model_status ca d tenant model = Inr PUBLISHED then map_of (by_model refs) model else None)"
  by (induction ca d tenant refs found rule: published_matches.induct)
    (auto simp: map_add_def split: sum.splits option.splits if_splits)

lemma map_of_concat_first:
  "map_of (concat (map g xs)) k = Some v \<Longrightarrow>
   \<exists>us x vs. xs = us @ x # vs \<and> map_of (g x) k = Some v \<and> (\<forall>u \<in> set us. map_of (g u) k = None)"
proof (induction xs)
  case (Cons x xs)
  show ?case
  proof (cases "map_of (g x) k")
    case None
    with Cons obtain us y vs where "xs = us @ y # vs" "map_of (g y) k = Some v" "\<forall>u \<in> set us. map_of (g u) k = None"
      by (auto simp: map_add_def)
    with None show ?thesis by (intro exI [of _ "x # us"] exI [of _ y] exI [of _ vs]) simp
  next
    case (Some w)
    with Cons.prems show ?thesis by (intro exI [of _ "[]"] exI [of _ x] exI [of _ xs]) (simp add: map_add_def)
  qed
qed simp

lemma by_model_row:
  "map_of (by_model (row_references parse called row)) model = None \<longleftrightarrow> \<not> defines_process parse row model called"
proof -
  have "map_of (by_model (row_references parse called row)) model = None
      \<longleftrightarrow> (\<forall>(i, m, b) \<in> set (row_references parse called row). m \<noteq> model)"
    unfolding map_of_eq_None_iff by force
  also have "\<dots> \<longleftrightarrow> \<not> defines_process parse row model called"
    using row_references_set [of _ _ _ parse called row] by fastforce
  finally show ?thesis .
qed

lemma by_model_row_id:
  "map_of (by_model (row_references parse called row)) model = Some i \<Longrightarrow> i = df_id row \<and> defines_process parse row model called"
  by (auto dest!: map_of_SomeD simp: row_references_set)

text \<open>The newest definition of a process by a model, in a table of one tenant.\<close>

definition newest_definition :: "xml_parser \<Rightarrow> string \<Rightarrow> definition_row list \<Rightarrow> definition_row \<Rightarrow> string \<Rightarrow> string \<Rightarrow> bool" where
  "newest_definition parse tenant rows row model called \<longleftrightarrow>
     row \<in> set rows \<and> df_tenant row = tenant \<and> defines_process parse row model called \<and>
     (\<forall>other \<in> set rows. df_tenant other = tenant \<and> defines_process parse other model called \<longrightarrow> newness row \<le> newness other)"

lemma first_reference_is_newest:
  assumes "map_of (by_model (references_of (definition_index parse tenant rows) called)) model = Some i"
  shows "\<exists>row. df_id row = i \<and> newest_definition parse tenant rows row model called"
proof -
  let ?rows = "newest_first (tenant_rows tenant rows)" and ?g = "\<lambda>r. by_model (row_references parse called r)"
  have "map_of (concat (map ?g ?rows)) model = Some i"
    using assms by (simp add: references_index map_concat comp_def)
  from map_of_concat_first [OF this] obtain us row vs where
    split: "?rows = us @ row # vs" and first: "map_of (?g row) model = Some i"
      "\<forall>u \<in> set us. map_of (?g u) model = None" by blast
  have "sorted (map newness (us @ row # vs))" unfolding split [symmetric] newest_first_def by simp
  then have sorted: "\<forall>r \<in> set (row # vs). newness row \<le> newness r" by (auto simp: sorted_append)
  have rows: "set ?rows = {r \<in> set rows. df_tenant r = tenant}" by (simp add: newest_first_def tenant_rows_def)
  have "newest_definition parse tenant rows row model called"
    unfolding newest_definition_def
  proof (intro conjI ballI impI)
    show "row \<in> set rows" "df_tenant row = tenant" using rows split by auto
    show "defines_process parse row model called" using by_model_row_id [OF first(1)] by simp
    fix other assume "other \<in> set rows" "df_tenant other = tenant \<and> defines_process parse other model called"
    moreover from this have "other \<in> set ?rows" using rows by simp
    ultimately have "other \<in> set (row # vs)" using first(2) by_model_row split by fastforce
    then show "newness row \<le> newness other" using sorted by blast
  qed
  with by_model_row_id [OF first(1)] show ?thesis by blast
qed

text \<open>C29. A call activity that resolves runs the newest definition of its process in the table of the caller's tenant,
  by a model that is published there, and no other published model of the tenant defines that process. The
  cached index, of any age, makes no difference as long as a change of the table changes its signature.\<close>

theorem call_activity_runs_the_only_published_child:
  assumes "resolve_definition ca d bind rows tenant called cache = (Inr row, cache')"
    "honest_cache (ca_xml ca) bind rows cache" "distinct (map df_id rows)"
  shows "\<exists>model. newest_definition (ca_xml ca) tenant rows row model called \<and>
    process_model_status ca d tenant model = Inr PUBLISHED \<and>
    (\<forall>other \<in> set rows. \<forall>m. df_tenant other = tenant \<and> defines_process (ca_xml ca) other m called \<and>
       process_model_status ca d tenant m = Inr PUBLISHED \<longrightarrow> m = model)"
proof -
  let ?refs = "references_of (definition_index (ca_xml ca) tenant rows) called"
  obtain model i where result: "published_matches ca d tenant ?refs [] = Inr [(model, i)]"
    and row: "find (\<lambda>r. df_id r = i) rows = Some row"
    using assms(1) index_is_honest(1) [OF assms(2), of tenant]
    by (auto simp: resolve_definition_def Let_def split: if_splits prod.splits sum.splits list.splits option.splits)
  note at = published_matches_map [OF result]
  from at [of model] have first: "map_of (by_model ?refs) model = Some i" "model_status ca d tenant model = Inr PUBLISHED"
    by (auto split: if_splits)
  obtain r where r: "df_id r = i" "newest_definition (ca_xml ca) tenant rows r model called"
    using first_reference_is_newest [OF first(1)] by blast
  then have "r = row"
    using row assms(3) find_Some_iff_props [OF row] by (auto simp: newest_definition_def intro: same_key_same_row)
  moreover have "m = model" if other: "other \<in> set rows" "df_tenant other = tenant"
    "defines_process (ca_xml ca) other m called" "process_model_status ca d tenant m = Inr PUBLISHED" for other m
  proof (rule ccontr)
    assume "m \<noteq> model"
    then have "map_of (by_model ?refs) m = None" using at [of m] other(4) by (simp add: model_status_def)
    moreover have "(df_id other, m, df_bpmn_identifier other) \<in> set ?refs"
      using other by (auto simp: references_index newest_first_def tenant_rows_def row_references_set)
    ultimately show False unfolding map_of_eq_None_iff by force
  qed
  ultimately show ?thesis using r(2) first(2) by (auto simp: model_status_def)
qed

end
