(* ===== verification/Instances.thy ===== *)
theory Instances
  imports Call_Activities Catalog
begin

text \<open>
  The life of a process instance around the engine (workflow/__init__.py): which definition a start runs, the
  start itself, the display name, and deletion; and the host's own rows of a running task, the drafts and the
  instructions (human_task/__init__.py). Importing a definition and starting an instance are commands of the
  engine, so that they are arguments; an instance is created in a session of the engine.
\<close>

subsection \<open>The definition that a start runs\<close>

text \<open>\<open>st_meanwhile\<close> is what other sessions have committed by the time the advisory lock is granted.\<close>

record start_env =
  st_catalog :: catalog_env
  st_disk :: disk
  st_digest :: "string \<Rightarrow> string"              \<comment> \<open>SHA-256 of the UTF-8 text\<close>
  st_postgres :: bool
  st_meanwhile :: "definition_row list \<Rightarrow> definition_row list"
  st_import :: "import_request \<Rightarrow> definition_row list \<Rightarrow> (core_exn + int) \<times> definition_row list"

record start_state =
  ss_rows :: "definition_row list"
  ss_db :: db
  ss_names :: "(int \<times> string) list"           \<comment> \<open>\<open>process_model_display_name\<close> of the instances\<close>

fun host_failure :: "call_failure \<Rightarrow> host_exn" where
  "host_failure (Refused e) = ApiExn e"
| "host_failure (Raised name) = CoreExn (OtherExn name)"

definition workflow_import_definition :: "start_env \<Rightarrow> import_request \<Rightarrow> start_state \<Rightarrow> (host_exn + int) \<times> start_state" where
  "workflow_import_definition env req s =
     (case st_import env req (ss_rows s) of
        (Inl e, rows) \<Rightarrow> (Inl (mapped e), s\<lparr>ss_rows := rows\<rparr>)
      | (Inr i, rows) \<Rightarrow> (Inr i, s\<lparr>ss_rows := rows\<rparr>))"

definition require_startable_status :: "start_env \<Rightarrow> string \<Rightarrow> string \<Rightarrow> host_exn option" where
  "require_startable_status env tenant model =
     (case process_model_status (st_catalog env) (st_disk env) tenant model of
        Inl e \<Rightarrow> Some (host_failure e)
      | Inr status \<Rightarrow>
          if status \<in> set PROCESS_MODEL_STARTABLE_STATUSES then None
          else Some (ApiExn (ApiError ''process_model_not_startable''
                 (''Process model is '' @ status @ '' and cannot be started. Publish it first.'') 409)))"

text \<open>At most one row carries a digest in a tenant.\<close>

definition imported_as_this_model :: "string \<Rightarrow> string \<Rightarrow> string \<Rightarrow> string option \<Rightarrow> definition_row list \<Rightarrow> definition_row option" where
  "imported_as_this_model digest tenant model dmn rows =
     (case find (\<lambda>r. df_tenant r = tenant \<and> df_digest r = digest) rows of
        None \<Rightarrow> None
      | Some r \<Rightarrow> if df_model r = Some model \<and> (dmn = None \<or> df_dmn_xml r = dmn) then Some r else None)"

definition commit_start :: "start_state \<Rightarrow> start_state" where
  "commit_start s = s\<lparr>ss_db := commit (ss_db s)\<rparr>"

text \<open>Import, unless another session has done it while this one waited for the lock, and commit.\<close>

definition import_for_start :: "start_env \<Rightarrow> string \<Rightarrow> int \<Rightarrow> string \<Rightarrow> string \<Rightarrow> string \<Rightarrow> string option \<Rightarrow> start_state \<Rightarrow>
    (host_exn + int) \<times> start_state" where
  "import_for_start env tenant user model file_name xml_source dmn s =
     (let digest = st_digest env xml_source;
          s' = (if st_postgres env then s\<lparr>ss_rows := st_meanwhile env (ss_rows s)\<rparr> else s);
          found = (if st_postgres env then imported_as_this_model digest tenant model dmn (ss_rows s') else None) in
      case found of
        Some r \<Rightarrow> (Inr (df_id r), commit_start s')
      | None \<Rightarrow>
          (case workflow_import_definition env
                  \<lparr>im_tenant = tenant, im_user = user, im_identifier = model, im_xml = xml_source, im_dmn = dmn,
                   im_name = Some file_name\<rparr> s' of
             (Inl e, t) \<Rightarrow> (Inl e, t)
           | (Inr i, t) \<Rightarrow> (Inr i, commit_start t)))"

definition definition_id_for_start :: "start_env \<Rightarrow> string \<Rightarrow> int \<Rightarrow> string \<Rightarrow> start_state \<Rightarrow> (host_exn + int) \<times> start_state" where
  "definition_id_for_start env tenant user model s =
     (case read_primary_bpmn (st_catalog env) (st_disk env) tenant model of
        Inl e \<Rightarrow> (Inl (host_failure e), s)
      | Inr None \<Rightarrow> (Inl (ApiExn (ApiError ''not_found'' (''No BPMN file for process model '' @ model) 404)), s)
      | Inr (Some (file_name, xml_source)) \<Rightarrow>
          (case model_dmn_xml (st_catalog env) (st_disk env) tenant model xml_source [] of
             Inl e \<Rightarrow> (Inl (host_failure e), s)
           | Inr dmn \<Rightarrow>
               (case imported_as_this_model (st_digest env xml_source) tenant model dmn (ss_rows s) of
                  Some r \<Rightarrow> (Inr (df_id r), s)
                | None \<Rightarrow> import_for_start env tenant user model file_name xml_source dmn s)))"

subsection \<open>Starting\<close>

text \<open>The engine creates the instance in a session of its own and commits it there; a caller of \<open>start\<close> stages nothing
  before. What SpiffWorkflow raises by itself is a problem of the model.\<close>

fun start_refusal :: "core_exn \<Rightarrow> host_exn" where
  "start_refusal (CoreError k m) = ApiExn (map_bpmn_error k m)"
| "start_refusal (WorkflowTask t m) =
     ApiExn (ApiError ''invalid_process_model'' (''This process model cannot be started: '' @ m) 422)"
| "start_refusal (SpiffError m) =
     ApiExn (ApiError ''invalid_process_model'' (''This process model cannot be started: '' @ m) 422)"
| "start_refusal e = CoreExn e"

definition apply_model_display_name :: "start_env \<Rightarrow> string \<Rightarrow> string \<Rightarrow> int \<Rightarrow> start_state \<Rightarrow> host_exn option \<times> start_state" where
  "apply_model_display_name env tenant model i s =
     (case process_model_display_name (st_catalog env) (st_disk env) tenant model of
        Inl e \<Rightarrow> (Some (host_failure e), s)
      | Inr name \<Rightarrow>
          (None, if name = [] \<or> map_of (ss_names s) i = Some name then s
                 else s\<lparr>ss_names := (i, name) # filter (\<lambda>(j, _). j \<noteq> i) (ss_names s)\<rparr>))"

definition start_metadata :: "nat option \<Rightarrow> (string \<times> pyval) list option \<Rightarrow> (string \<times> string) list option" where
  "start_metadata width submission =
     (case submission of None \<Rightarrow> None | Some [] \<Rightarrow> None
      | Some given \<Rightarrow> Some (map (\<lambda>(k, v). (k, stringify_metadata_value width v)) given))"

definition start :: "core \<Rightarrow> env \<Rightarrow> start_env \<Rightarrow> string \<Rightarrow> int \<Rightarrow> string \<Rightarrow> string option \<Rightarrow> (string \<times> pyval) list option \<Rightarrow> start_state \<Rightarrow>
    (host_exn + int) \<times> notification_event list \<times> start_state" where
  "start core env senv tenant user model summary submission s =
     (case require_startable_status senv tenant model of
        Some e \<Rightarrow> (Inl e, [], s)
      | None \<Rightarrow>
          (case definition_id_for_start senv tenant user model s of
             (Inl e, s1) \<Rightarrow> (Inl e, [], s1)
           | (Inr definition_id, s1) \<Rightarrow>
               (case execute_command core
                       (StartInstance tenant definition_id user summary (start_metadata (env_width env) submission)) (ss_db s1) of
                  (Inl e, d) \<Rightarrow> (Inl (start_refusal e), [], s1\<lparr>ss_db := d\<rparr>)
                | (Inr i, d) \<Rightarrow>
                    (case apply_model_display_name senv tenant model i (s1\<lparr>ss_db := commit d\<rparr>) of
                       (Some e, s2) \<Rightarrow> (Inl e, [], s2)
                     | (None, s2) \<Rightarrow>
                         (let (evs, d') = emit_external_form_requests env (ss_db s2) tenant i
                          in (Inr i, evs, s2\<lparr>ss_db := d'\<rparr>))))))"

text \<open>\<open>_display_name_for_row\<close>: a stored name that is only the identifier is read again, once per listing.\<close>

definition display_name_for_row :: "catalog_env \<Rightarrow> disk \<Rightarrow> string \<Rightarrow> string \<Rightarrow> string option \<Rightarrow> ((string \<times> string) \<times> string) list \<Rightarrow>
    string \<times> ((string \<times> string) \<times> string) list" where
  "display_name_for_row ca d tenant identifier stored cache =
     (let s = or_default stored [] in
      if s \<noteq> [] \<and> s \<notin> {identifier, leaf_segment identifier} then (s, cache)
      else case map_of cache (tenant, identifier) of
        Some name \<Rightarrow> (name, cache)
      | None \<Rightarrow>
          (let name = (case process_model_display_name ca d tenant identifier of
                         Inr n \<Rightarrow> n | Inl _ \<Rightarrow> if s \<noteq> [] then s else identifier)
           in (name, ((tenant, identifier), name) # cache)))"

subsection \<open>The host's rows of a running instance\<close>

record run_row =
  rn_tenant :: string
  rn_instance :: int
  rn_guid :: string
  rn_content :: string

record run_store =
  rs_db :: db
  rs_drafts :: "run_row list"
  rs_instructions :: "run_row list"
  rs_files :: "run_row list"

definition is_draft_of :: "string \<Rightarrow> int \<Rightarrow> string \<Rightarrow> run_row \<Rightarrow> bool" where
  "is_draft_of tenant pid guid r \<longleftrightarrow> rn_instance r = pid \<and> rn_guid r = guid \<and> rn_tenant r = tenant"

fun update_first :: "('a \<Rightarrow> bool) \<Rightarrow> ('a \<Rightarrow> 'a) \<Rightarrow> 'a list \<Rightarrow> 'a list" where
  "update_first P f [] = []"
| "update_first P f (x # xs) = (if P x then f x # xs else x # update_first P f xs)"

definition save_draft :: "(pyval \<Rightarrow> string) \<Rightarrow> string \<Rightarrow> int \<Rightarrow> string \<Rightarrow> (string \<times> pyval) list \<Rightarrow> run_store \<Rightarrow> run_row \<times> run_store" where
  "save_draft json_dumps tenant pid guid saved_form_data s =
     (let payload = json_dumps (PDict saved_form_data) in
      case find (is_draft_of tenant pid guid) (rs_drafts s) of
        None \<Rightarrow>
          (let row = \<lparr>rn_tenant = tenant, rn_instance = pid, rn_guid = guid, rn_content = payload\<rparr>
           in (row, s\<lparr>rs_drafts := rs_drafts s @ [row]\<rparr>))
      | Some row \<Rightarrow>
          (row\<lparr>rn_content := payload\<rparr>,
           s\<lparr>rs_drafts := update_first (is_draft_of tenant pid guid) (\<lambda>r. r\<lparr>rn_content := payload\<rparr>) (rs_drafts s)\<rparr>))"

definition store_end_user_instructions :: "string \<Rightarrow> int \<Rightarrow> string \<Rightarrow> run_store \<Rightarrow> run_row \<times> run_store" where
  "store_end_user_instructions tenant pid instruction s =
     (let row = \<lparr>rn_tenant = tenant, rn_instance = pid, rn_guid = [], rn_content = instruction\<rparr>
      in (row, s\<lparr>rs_instructions := rs_instructions s @ [row]\<rparr>))"

subsection \<open>Deletion\<close>

definition TERMINAL_INSTANCE_STATUSES :: "string list" where
  "TERMINAL_INSTANCE_STATUSES = [''complete'', ''error'', ''terminated'']"

definition delete_rows_of :: "string \<Rightarrow> int \<Rightarrow> run_row list \<Rightarrow> run_row list" where
  "delete_rows_of tenant pid rows = filter (\<lambda>r. \<not> (rn_instance r = pid \<and> rn_tenant r = tenant)) rows"

definition delete_links_of :: "string \<Rightarrow> int \<Rightarrow> world \<Rightarrow> world" where
  "delete_links_of tenant pid w =
     w\<lparr>forms := filter (\<lambda>r. \<not> (fr_process_instance_id r = pid \<and> fr_tenant_id r = tenant)) (forms w)\<rparr>"

text \<open>\<open>cascade\<close> is the deletion of the instance through the engine's mapping, with all that hangs on it.\<close>

definition delete_instance :: "(int \<Rightarrow> world \<Rightarrow> world) \<Rightarrow> string \<Rightarrow> int \<Rightarrow> run_store \<Rightarrow> (api_error + int) \<times> run_store" where
  "delete_instance cascade tenant pid s =
     (case instance_by_id (working (rs_db s)) pid of
        None \<Rightarrow> (Inl (ApiError ''not_found'' ''Process instance not found'' 404), s)
      | Some p \<Rightarrow>
          if pi_tenant_id p \<noteq> tenant then (Inl (ApiError ''not_found'' ''Process instance not found'' 404), s)
          else if pi_status p \<notin> set TERMINAL_INSTANCE_STATUSES
          then (Inl (ApiError ''process_instance_not_finished''
                  (''Process instance is '' @ pi_status p @
                   ''; only complete, terminated or error instances can be deleted. Terminate it first.'') 409), s)
          else
            (Inr pid,
             s\<lparr>rs_drafts := delete_rows_of tenant pid (rs_drafts s),
               rs_instructions := delete_rows_of tenant pid (rs_instructions s),
               rs_files := delete_rows_of tenant pid (rs_files s),
               rs_db := modify (\<lambda>w. cascade pid (delete_links_of tenant pid w)) (rs_db s)\<rparr>))"

text \<open>What a start runs, that it imports only once, and what a deletion leaves.\<close>

subsection \<open>Starting\<close>

text \<open>Documented behaviour of the engine's import: it returns the definition that carries the digest of the diagram, which names
  the model imported last and keeps a stored decision table when it is given none; a digest stands once in a tenant.\<close>

definition definition_for :: "start_env \<Rightarrow> string \<Rightarrow> string \<Rightarrow> string \<Rightarrow> string option \<Rightarrow> definition_row \<Rightarrow> bool" where
  "definition_for env tenant model xml_source dmn row \<longleftrightarrow>
     df_tenant row = tenant \<and> df_model row = Some model \<and> df_digest row = st_digest env xml_source \<and>
     (dmn = None \<or> df_dmn_xml row = dmn)"

definition one_per_digest :: "definition_row list \<Rightarrow> bool" where
  "one_per_digest rows \<longleftrightarrow> distinct (map (\<lambda>r. (df_tenant r, df_digest r)) rows)"

definition import_contract :: "start_env \<Rightarrow> bool" where
  "import_contract env \<longleftrightarrow>
     (\<forall>req rows i rows'. one_per_digest rows \<and> st_import env req rows = (Inr i, rows') \<longrightarrow>
        one_per_digest rows' \<and>
        (\<exists>row \<in> set rows'. df_id row = i \<and> definition_for env (im_tenant req) (im_identifier req) (im_xml req) (im_dmn req) row)) \<and>
     (\<forall>rows. one_per_digest rows \<longrightarrow> one_per_digest (st_meanwhile env rows))"

lemma imported_as_this_model_Some:
  "imported_as_this_model (st_digest env xml_source) tenant model dmn rows = Some r \<Longrightarrow>
   r \<in> set rows \<and> definition_for env tenant model xml_source dmn r"
  unfolding imported_as_this_model_def
  by (auto simp: definition_for_def dest!: find_Some_iff_props split: option.splits if_splits)

lemma imported_as_this_model_row:
  assumes "one_per_digest rows" "r \<in> set rows" "definition_for env tenant model xml_source dmn r"
  shows "imported_as_this_model (st_digest env xml_source) tenant model dmn rows = Some r"
proof -
  have "find (\<lambda>x. df_tenant x = tenant \<and> df_digest x = st_digest env xml_source) rows = Some r"
  proof (rule find_the_only [OF assms(2)])
    show "df_tenant r = tenant \<and> df_digest r = st_digest env xml_source" using assms(3) by (simp add: definition_for_def)
    fix x assume "x \<in> set rows" "df_tenant x = tenant \<and> df_digest x = st_digest env xml_source"
    with assms show "x = r" by (auto simp: one_per_digest_def definition_for_def distinct_map inj_on_def)
  qed
  then show ?thesis using assms(3) by (simp add: imported_as_this_model_def definition_for_def)
qed

text \<open>What \<open>definition_id_for_start\<close> answers with.\<close>

lemma definition_id_for_start_row:
  assumes "definition_id_for_start env tenant user model s = (Inr i, s')" "import_contract env" "one_per_digest (ss_rows s)"
  shows "\<exists>file_name xml_source dmn row.
    read_primary_bpmn (st_catalog env) (st_disk env) tenant model = Inr (Some (file_name, xml_source)) \<and>
    model_dmn_xml (st_catalog env) (st_disk env) tenant model xml_source [] = Inr dmn \<and>
    one_per_digest (ss_rows s') \<and> row \<in> set (ss_rows s') \<and> df_id row = i \<and>
    definition_for env tenant model xml_source dmn row"
proof -
  obtain file_name xml_source dmn where disk:
    "read_primary_bpmn (st_catalog env) (st_disk env) tenant model = Inr (Some (file_name, xml_source))"
    "model_dmn_xml (st_catalog env) (st_disk env) tenant model xml_source [] = Inr dmn"
    using assms(1) by (auto simp: definition_id_for_start_def split: sum.splits option.splits prod.splits)
  have "\<exists>row. one_per_digest (ss_rows s') \<and> row \<in> set (ss_rows s') \<and> df_id row = i \<and> definition_for env tenant model xml_source dmn row"
  proof (cases "imported_as_this_model (st_digest env xml_source) tenant model dmn (ss_rows s)")
    case (Some r)
    with assms(1,3) disk imported_as_this_model_Some [OF Some] show ?thesis by (auto simp: definition_id_for_start_def)
  next
    case None
    let ?s = "if st_postgres env then s\<lparr>ss_rows := st_meanwhile env (ss_rows s)\<rparr> else s"
    have one: "one_per_digest (ss_rows ?s)" using assms(2,3) by (simp add: import_contract_def)
    from None assms(1) disk have run: "import_for_start env tenant user model file_name xml_source dmn s = (Inr i, s')"
      by (simp add: definition_id_for_start_def)
    show ?thesis
    proof (cases "if st_postgres env then imported_as_this_model (st_digest env xml_source) tenant model dmn (ss_rows ?s) else None")
      case (Some r)
      then have "r \<in> set (ss_rows ?s) \<and> definition_for env tenant model xml_source dmn r"
        by (auto split: if_splits dest: imported_as_this_model_Some)
      with run Some one show ?thesis by (auto simp: import_for_start_def Let_def commit_start_def split: if_splits)
    next
      case None
      with run obtain rows where imported: "ss_rows s' = rows" "st_import env \<lparr>im_tenant = tenant, im_user = user, im_identifier = model,
          im_xml = xml_source, im_dmn = dmn, im_name = Some file_name\<rparr> (ss_rows ?s) = (Inr i, rows)"
        by (auto simp: import_for_start_def Let_def commit_start_def workflow_import_definition_def
            split: prod.splits sum.splits)
      with one assms(2) have "one_per_digest rows \<and>
          (\<exists>row \<in> set rows. df_id row = i \<and> definition_for env tenant model xml_source dmn row)"
        unfolding import_contract_def by (metis import_request.select_convs)
      with imported(1) show ?thesis by blast
    qed
  qed
  with disk show ?thesis by blast
qed


text \<open>A model is imported once: once a start has found or imported its definition, the next start, by anybody, answers with the
  same definition and writes nothing, so that its timers are not rescheduled.\<close>

theorem next_start_imports_nothing:
  assumes "definition_id_for_start env tenant user model s = (Inr i, s')" "import_contract env" "one_per_digest (ss_rows s)"
  shows "definition_id_for_start env tenant other_user model s' = (Inr i, s')"
proof -
  from definition_id_for_start_row [OF assms] obtain file_name xml_source dmn row where disk:
      "read_primary_bpmn (st_catalog env) (st_disk env) tenant model = Inr (Some (file_name, xml_source))"
      "model_dmn_xml (st_catalog env) (st_disk env) tenant model xml_source [] = Inr dmn"
    and row: "one_per_digest (ss_rows s')" "row \<in> set (ss_rows s')" "definition_for env tenant model xml_source dmn row" "df_id row = i"
    by blast
  from imported_as_this_model_row [OF row(1-3)] disk row(4) show ?thesis by (simp add: definition_id_for_start_def)
qed

subsection \<open>Drafts\<close>

lemma update_first_key: "(\<And>x. key (f x) = key x) \<Longrightarrow> map key (update_first P f xs) = map key xs"
  by (induction xs) auto

lemma find_update_first:
  "(\<And>x. P x \<Longrightarrow> P (f x)) \<Longrightarrow> find P xs = Some x \<Longrightarrow> find P (update_first P f xs) = Some (f x)"
  by (induction xs) (auto split: if_splits)

definition draft_key :: "run_row \<Rightarrow> string \<times> int \<times> string" where
  "draft_key r = (rn_tenant r, rn_instance r, rn_guid r)"

text \<open>The last draft that was saved is the one that is found, and a task of a tenant has one at most.\<close>

lemma saved_draft_is_read:
  "find (is_draft_of tenant pid guid) (rs_drafts (snd (save_draft json_dumps tenant pid guid given s)))
     = Some \<lparr>rn_tenant = tenant, rn_instance = pid, rn_guid = guid, rn_content = json_dumps (PDict given)\<rparr>"
proof (cases "find (is_draft_of tenant pid guid) (rs_drafts s)")
  case None
  then show ?thesis by (simp add: save_draft_def Let_def find_append is_draft_of_def)
next
  case (Some row)
  then have row: "is_draft_of tenant pid guid row" by (auto dest: find_Some_iff_props)
  have "find (is_draft_of tenant pid guid) (update_first (is_draft_of tenant pid guid)
      (\<lambda>r. r\<lparr>rn_content := json_dumps (PDict given)\<rparr>) (rs_drafts s)) = Some (row\<lparr>rn_content := json_dumps (PDict given)\<rparr>)"
    by (rule find_update_first [OF _ Some]) (simp add: is_draft_of_def)
  with Some row show ?thesis
    by (cases row) (simp add: save_draft_def Let_def is_draft_of_def)
qed

lemma one_draft_per_task:
  assumes "distinct (map draft_key (rs_drafts s))"
  shows "distinct (map draft_key (rs_drafts (snd (save_draft json_dumps tenant pid guid given s))))"
proof (cases "find (is_draft_of tenant pid guid) (rs_drafts s)")
  case None
  then have "draft_key r \<noteq> (tenant, pid, guid)" if "r \<in> set (rs_drafts s)" for r
    using that by (auto simp: find_None_iff is_draft_of_def draft_key_def)
  with None assms show ?thesis by (force simp: save_draft_def Let_def draft_key_def)
next
  case (Some row)
  with assms show ?thesis by (simp add: save_draft_def Let_def update_first_key draft_key_def)
qed

subsection \<open>Deletion\<close>

text \<open>Documented behaviour of the engine's mapping: deleting an instance removes its row, and no other instance and no link.\<close>

definition cascade_contract :: "(int \<Rightarrow> world \<Rightarrow> world) \<Rightarrow> bool" where
  "cascade_contract cascade \<longleftrightarrow>
     (\<forall>pid w. instances (cascade pid w) = filter (\<lambda>p. pi_id p \<noteq> pid) (instances w) \<and> forms (cascade pid w) = forms w)"

text \<open>The rows that belong to an instance of a tenant.\<close>

definition of_instance :: "string \<Rightarrow> int \<Rightarrow> run_row \<Rightarrow> bool" where
  "of_instance tenant pid r \<longleftrightarrow> rn_instance r = pid \<and> rn_tenant r = tenant"

definition link_of_instance :: "string \<Rightarrow> int \<Rightarrow> form_request \<Rightarrow> bool" where
  "link_of_instance tenant pid r \<longleftrightarrow> fr_process_instance_id r = pid \<and> fr_tenant_id r = tenant"


text \<open>A refused deletion changes nothing.\<close>

lemma refused_deletion_changes_nothing: "delete_instance cascade tenant pid s = (Inl e, s') \<Longrightarrow> s' = s"
  by (auto simp: delete_instance_def split: option.splits if_splits)

end
