(* ===== verification/Instance_Witnesses.thy ===== *)
theory Instance_Witnesses
  imports Catalog_Properties Instances Task_Witnesses
begin

text \<open>
  A catalog on which the properties of the process model catalog are applied: the directory of one tenant with
  a group, a model in it and a link to the directory of another tenant.
\<close>

definition demo_diagram :: "string \<Rightarrow> xml" where
  "demo_diagram kind =
     Element (Some ''{bpmn}definitions'') [] None
       [Element (Some ''{bpmn}process'') [(''id'', ''P'')] None
         [Element (Some kind) [] None []]]"

definition demo_table :: xml where
  "demo_table = Element (Some ''{dmn}definitions'') [] None [Element (Some ''{dmn}decision'') [(''id'', ''D'')] None []]"

definition demo_parser :: xml_parser where
  "demo_parser source =
     (if source = ''table'' then Parsed demo_table
      else if source = ''message'' then Parsed (demo_diagram ''{bpmn}messageEventDefinition'')
      else if source = [] then Malformed
      else Parsed (Element (Some ''{bpmn}definitions'') [] None
        [Element (Some ''calledDecisionId'') [] (Some ''D'') []]))"

definition demo_dumps :: "pyval \<Rightarrow> string" where
  "demo_dumps v = (case v of PDict kvs \<Rightarrow> (case dget kvs ''status'' of PStr s \<Rightarrow> s | _ \<Rightarrow> []) | _ \<Rightarrow> [])"

definition demo_catalog :: catalog_env where
  "demo_catalog =
     \<lparr>ca_spec_dir = ''/m'', ca_loads = (\<lambda>t. Some (PDict [(''status'', PStr t)])), ca_dumps = demo_dumps,
      ca_decode = Some, ca_decode_lossy = id, ca_encode = id, ca_xml = demo_parser, ca_mtime = (\<lambda>_. ''then''),
      ca_tenants = [''t''], ca_bpmn_template = ''start'', ca_dmn_template = ''table''\<rparr>"

definition demo_disk :: disk where
  "demo_disk =
     [([''m''], Dir), ([''m'', ''t''], Dir), ([''m'', ''u''], Dir), ([''m'', ''t'', ''out''], Link ''/m/u''),
      ([''m'', ''t'', ''g''], Dir), ([''m'', ''t'', ''g'', ''a''], Dir),
      ([''m'', ''t'', ''g'', ''a'', ''a.bpmn''], File ''flow''),
      ([''m'', ''t'', ''g'', ''a'', ''process_model.json''], File ''published'')]"

definition demo_import :: "string list importer" where
  "demo_import req w = (None, im_xml req # w)"

lemma demo_well_formed: "well_formed demo_disk"
  by code_simp

lemma demo_stable: "stable demo_disk"
  by (rule flat_stable) code_simp

lemma demo_home: "tenant_models_root (ca_spec_dir demo_catalog) demo_disk ''t'' = Inr [''m'', ''t'']"
  by code_simp

lemma demo_keeps_status: "keeps_status demo_catalog"
  by (simp add: keeps_status_def read_back_def demo_catalog_def demo_dumps_def dget_def)

lemma demo_write_stays_at_home:
  "same_outside [''m'', ''t''] demo_disk
     (disk_of (create_model_file demo_catalog demo_import ''t'' ''g/a'' ''b.bpmn'' (Some ''flow'') 1 demo_disk []))"
  by (rule catalog_writes_stay_with_the_tenant [OF adding_file demo_well_formed demo_stable demo_home])

text \<open>The link does not help.\<close>

lemma write_through_the_link_is_refused:
  "save_model demo_catalog demo_import ''out'' ''flow'' ''t'' 1 (Some ''a.bpmn'') demo_disk [] = (Inl MODEL_PATH_ERROR, demo_disk, [])"
  by code_simp

lemma demo_copy:
  "\<exists>m d' w'. copy_process_model demo_catalog demo_import ''t'' ''g/a'' ''b'' None 1 demo_disk [] = (Inr m, d', w')"
proof -
  have "(case fst (copy_process_model demo_catalog demo_import ''t'' ''g/a'' ''b'' None 1 demo_disk []) of Inr m \<Rightarrow> True | Inl _ \<Rightarrow> False)"
    by code_simp
  then show ?thesis
    by (cases "copy_process_model demo_catalog demo_import ''t'' ''g/a'' ''b'' None 1 demo_disk []") (auto split: sum.splits)
qed

lemma new_models_are_drafts_witness:
  "process_model_status demo_catalog demo_disk ''t'' ''g/a'' = Inr PUBLISHED \<and>
   (\<exists>m d' w'. copy_process_model demo_catalog demo_import ''t'' ''g/a'' ''b'' None 1 demo_disk [] = (Inr m, d', w') \<and> mi_status m = DRAFT)"
proof
  show "process_model_status demo_catalog demo_disk ''t'' ''g/a'' = Inr PUBLISHED" by code_simp
  from demo_copy obtain m d' w' where
    copy: "copy_process_model demo_catalog demo_import ''t'' ''g/a'' ''b'' None 1 demo_disk [] = (Inr m, d', w')"
    by blast
  with new_models_are_drafts [OF demo_well_formed demo_stable demo_home demo_keeps_status disjI2 [OF copy]]
  show "\<exists>m d' w'. copy_process_model demo_catalog demo_import ''t'' ''g/a'' ''b'' None 1 demo_disk [] = (Inr m, d', w') \<and> mi_status m = DRAFT"
    by blast
qed

lemma primary_diagram_is_the_tenants_own_witness:
  "\<exists>p content. strictly_inside p [''m'', ''t''] \<and> resolved demo_disk p \<and> last p = ''a.bpmn'' \<and>
    node_at demo_disk p = Some (File content) \<and> ca_decode demo_catalog content = Some ''flow'' \<and>
    reject_unsupported_constructs (ca_xml demo_catalog) ''flow'' = Inr ()"
  by (rule primary_diagram_is_the_tenants_own [OF demo_stable demo_home, of "''g/a''"]) code_simp

lemma called_decision_is_imported_witness:
  "\<exists>chosen j. choose_dmn demo_parser ''flow'' [(''a.dmn'', ''flow''), (''z.dmn'', ''table'')] = Some chosen \<and>
    chosen \<in> snd ` set [(''a.dmn'', ''flow''), (''z.dmn'', ''table'')] \<and>
    dmn_decision_id demo_parser chosen = Some j \<and> j \<in> set (called_decision_ids demo_parser ''flow'')"
  by (rule called_decision_is_imported [of _ "''z.dmn''" "''table''" _ "''D''"]) code_simp+

text \<open>\<open>update_file\<close> writes a diagram before it checks it. A diagram that it refuses stays in the model, and a new
  decision table imports it into the engine unchecked.\<close>

definition after_refusal :: disk where
  "after_refusal = disk_of (update_file demo_catalog demo_import (Some 1) ''t'' ''g/a'' ''a.bpmn'' ''message'' demo_disk [])"

lemma refused_diagram_reaches_the_engine:
  "fst (update_file demo_catalog demo_import (Some 1) ''t'' ''g/a'' ''a.bpmn'' ''message'' demo_disk [])
     = Inl (unsupported ''Unsupported BPMN construct: messageEventDefinition'') \<and>
   create_model_file demo_catalog demo_import ''t'' ''g/a'' ''d.dmn'' (Some ''table'') 1 after_refusal []
     = (Inr (''d.dmn'', 5, ''then''), put_node [''m'', ''t'', ''g'', ''a'', ''d.dmn''] (File ''table'') after_refusal, [''message''])"
  by code_simp

text \<open>Starts and deletions on the deployment of \<open>Demo\<close> and the catalog of \<open>Catalog_Witnesses\<close>.\<close>

text \<open>An import that does what is documented of the engine's.\<close>

definition same_digest :: "import_request \<Rightarrow> definition_row \<Rightarrow> bool" where
  "same_digest req r \<longleftrightarrow> df_tenant r = im_tenant req \<and> df_digest r = im_xml req"

definition name_last :: "import_request \<Rightarrow> definition_row \<Rightarrow> definition_row" where
  "name_last req r = r\<lparr>df_model := Some (im_identifier req),
     df_dmn_xml := (case im_dmn req of None \<Rightarrow> df_dmn_xml r | Some y \<Rightarrow> Some y)\<rparr>"

definition new_definition :: "import_request \<Rightarrow> definition_row list \<Rightarrow> definition_row" where
  "new_definition req rows =
     \<lparr>df_id = int (length rows) + 1, df_tenant = im_tenant req, df_model = Some (im_identifier req), df_bpmn_identifier = im_identifier req,
      df_bpmn_xml = Some (im_xml req), df_dmn_xml = im_dmn req, df_digest = im_xml req, df_created_at = Some 5, df_updated_at = None\<rparr>"

definition demo_engine_import :: "import_request \<Rightarrow> definition_row list \<Rightarrow> (core_exn + int) \<times> definition_row list" where
  "demo_engine_import req rows =
     (case find (same_digest req) rows of
        Some r \<Rightarrow> (Inr (df_id r), update_where (same_digest req) (name_last req) rows)
      | None \<Rightarrow> (Inr (df_id (new_definition req rows)), rows @ [new_definition req rows]))"

definition demo_start_env :: start_env where
  "demo_start_env =
     \<lparr>st_catalog = demo_catalog, st_disk = demo_disk, st_digest = id, st_postgres = True, st_meanwhile = id,
      st_import = demo_engine_import\<rparr>"

lemma demo_import_contract: "import_contract demo_start_env"
  unfolding import_contract_def
proof (intro conjI allI impI)
  fix req rows i rows'
  assume a: "one_per_digest rows \<and> st_import demo_start_env req rows = (Inr i, rows')"
  show "one_per_digest rows'"
  proof (cases "find (same_digest req) rows")
    case None
    with a show ?thesis
      by (auto simp: one_per_digest_def demo_start_env_def demo_engine_import_def new_definition_def find_None_iff same_digest_def; blast)
  next
    case (Some r)
    have "map (\<lambda>r. (df_tenant r, df_digest r)) (update_where (same_digest req) (name_last req) rows)
        = map (\<lambda>r. (df_tenant r, df_digest r)) rows"
      by (rule map_key_update_where) (simp add: name_last_def)
    with Some a show ?thesis by (simp add: one_per_digest_def demo_start_env_def demo_engine_import_def)
  qed
  show "\<exists>row \<in> set rows'. df_id row = i \<and>
      definition_for demo_start_env (im_tenant req) (im_identifier req) (im_xml req) (im_dmn req) row"
  proof (cases "find (same_digest req) rows")
    case None
    with a show ?thesis
      by (auto simp: demo_start_env_def demo_engine_import_def new_definition_def definition_for_def)
  next
    case (Some r)
    then have "r \<in> set rows" "same_digest req r" by (auto dest: find_Some_iff_props)
    with Some a show ?thesis
      by (intro bexI [of _ "name_last req r"])
        (auto simp: demo_start_env_def demo_engine_import_def definition_for_def name_last_def same_digest_def
          update_where_def split: option.splits)
  qed
qed (simp add: demo_start_env_def)

text \<open>The same diagram is stored under another model.\<close>

definition stored_elsewhere :: definition_row where
  "stored_elsewhere =
     \<lparr>df_id = 3, df_tenant = ''t'', df_model = Some ''other'', df_bpmn_identifier = ''other'', df_bpmn_xml = Some ''flow'',
      df_dmn_xml = None, df_digest = ''flow'', df_created_at = Some 1, df_updated_at = None\<rparr>"

definition demo_start_state :: start_state where
  "demo_start_state = \<lparr>ss_rows = [stored_elsewhere], ss_db = sent_db, ss_names = []\<rparr>"

lemma demo_one_per_digest: "one_per_digest (ss_rows demo_start_state)"
  by code_simp

lemma demo_start:
  "\<exists>evs s'. start demo_core demo_env demo_start_env ''t'' 1 ''g/a'' None None demo_start_state = (Inr 8, evs, s')"
proof -
  have "fst (start demo_core demo_env demo_start_env ''t'' 1 ''g/a'' None None demo_start_state) = Inr 8" by code_simp
  then show ?thesis by (metis prod.collapse)
qed


lemma demo_definition_id:
  "\<exists>s'. definition_id_for_start demo_start_env ''t'' 1 ''g/a'' demo_start_state = (Inr 3, s')"
proof -
  have "fst (definition_id_for_start demo_start_env ''t'' 1 ''g/a'' demo_start_state) = Inr 3" by code_simp
  then show ?thesis by (metis prod.collapse)
qed

lemma next_start_imports_nothing_witness:
  "\<exists>s'. definition_id_for_start demo_start_env ''t'' 1 ''g/a'' demo_start_state = (Inr 3, s') \<and>
    definition_id_for_start demo_start_env ''t'' 2 ''g/a'' s' = (Inr 3, s')"
  using demo_definition_id next_start_imports_nothing [OF _ demo_import_contract demo_one_per_digest] by blast

text \<open>Deletion.\<close>

definition demo_run_row :: "int \<Rightarrow> run_row" where
  "demo_run_row pid = \<lparr>rn_tenant = ''t1'', rn_instance = pid, rn_guid = ''g1'', rn_content = ''x''\<rparr>"

definition demo_run_store :: run_store where
  "demo_run_store = \<lparr>rs_db = fresh_session (demo_world ''complete'' [demo_form 1 ''r1'' Notified (Some 20)]),
     rs_drafts = [demo_run_row 7, demo_run_row 9], rs_instructions = [demo_run_row 9], rs_files = []\<rparr>"

definition demo_cascade :: "int \<Rightarrow> world \<Rightarrow> world" where
  "demo_cascade pid w = w\<lparr>instances := filter (\<lambda>p. pi_id p \<noteq> pid) (instances w)\<rparr>"

lemma demo_cascade_contract: "cascade_contract demo_cascade"
  by (simp add: cascade_contract_def demo_cascade_def)


text \<open>Two revisions of a published model define the called process.\<close>

definition child_revision :: "int \<Rightarrow> int \<Rightarrow> definition_row" where
  "child_revision i stamp =
     \<lparr>df_id = i, df_tenant = ''t'', df_model = Some ''g/a'', df_bpmn_identifier = ''g/a'', df_bpmn_xml = Some ''message'',
      df_dmn_xml = None, df_digest = ''m'' @ int_str i, df_created_at = Some stamp, df_updated_at = None\<rparr>"

lemma demo_child:
  "\<exists>cache. resolve_definition demo_catalog demo_disk 0 [child_revision 1 10, child_revision 2 20] ''t'' ''P'' [] = (Inr (child_revision 2 20), cache)"
proof -
  have "fst (resolve_definition demo_catalog demo_disk 0 [child_revision 1 10, child_revision 2 20] ''t'' ''P'' []) = Inr (child_revision 2 20)"
    by code_simp
  then show ?thesis by (metis prod.collapse)
qed

lemma call_activity_runs_the_only_published_child_witness:
  "\<exists>model. newest_definition demo_parser ''t'' [child_revision 1 10, child_revision 2 20] (child_revision 2 20) model ''P'' \<and>
    process_model_status demo_catalog demo_disk ''t'' model = Inr PUBLISHED"
proof -
  obtain cache where "resolve_definition demo_catalog demo_disk 0 [child_revision 1 10, child_revision 2 20] ''t'' ''P'' []
      = (Inr (child_revision 2 20), cache)" using demo_child by blast
  moreover have "honest_cache (ca_xml demo_catalog) 0 [child_revision 1 10, child_revision 2 20] []"
    by (simp add: honest_cache_def)
  moreover have "distinct (map df_id [child_revision 1 10, child_revision 2 20])" by code_simp
  ultimately have "\<exists>model. newest_definition (ca_xml demo_catalog) ''t'' [child_revision 1 10, child_revision 2 20] (child_revision 2 20) model ''P'' \<and>
      process_model_status demo_catalog demo_disk ''t'' model = Inr PUBLISHED"
    using call_activity_runs_the_only_published_child by blast
  then show ?thesis by (simp add: demo_catalog_def)
qed

end
