(* ===== verification/Instance_Store.thy ===== *)
theory Instance_Store
  imports Instances Task_Views
begin

text \<open>
  The tables that the instance pages read (m8flow_core's models, a separate package): a record holds the
  columns that the queries of workflow/__init__.py use. A join along a primary key is a lookup. Times are
  microseconds, and a time of an answer stands for its ISO text. \<open>qe_rank\<close> is the collation of the database.
\<close>

record instance_row =
  ir_id :: int
  ir_tenant :: string
  ir_model :: string                    \<comment> \<open>\<open>process_model_identifier\<close>\<close>
  ir_display :: "string option"         \<comment> \<open>\<open>process_model_display_name\<close>\<close>
  ir_status :: string
  ir_initiator :: int
  ir_started_at :: "int option"
  ir_ended_at :: "int option"
  ir_updated_at :: int
  ir_definition :: "int option"
  ir_milestone :: "string option"
  ir_state :: "pyval option"            \<comment> \<open>\<open>workflow_state_json\<close>, decoded; \<open>None\<close> where there is none\<close>

record work_row =
  wk_id :: int
  wk_tenant :: string
  wk_instance :: int
  wk_completed :: bool
  wk_title :: "string option"
  wk_name :: "string option"
  wk_lane :: "string option"
  wk_lane_group :: "int option"
  wk_owner :: "int option"
  wk_completer :: "int option"
  wk_status :: string
  wk_created_at :: int
  wk_updated_at :: int

record candidate_row =
  cr_work_item :: int
  cr_user :: int
  cr_tenant :: string
  cr_added_by :: "string option"

record person_row =
  pr_id :: int
  pr_username :: "string option"
  pr_display :: "string option"

record runtime_task =
  rt_guid :: string
  rt_tenant :: string
  rt_instance :: int
  rt_definition :: int
  rt_process :: "int option"            \<comment> \<open>\<open>bpmn_process_id\<close>\<close>
  rt_state :: string
  rt_properties :: pyval
  rt_data :: pyval                      \<comment> \<open>what \<open>_task_data\<close> reads for the task\<close>

record task_spec_row =
  ts_id :: int
  ts_bpmn_identifier :: string
  ts_bpmn_name :: "string option"
  ts_typename :: string
  ts_properties :: pyval

record event_row =
  er_id :: int
  er_tenant :: string
  er_instance :: int
  er_type :: string
  er_guid :: "string option"
  er_user :: "int option"
  er_category :: "string option"
  er_occurred_at :: int

record failure_row =
  xr_tenant :: string
  xr_instance :: int
  xr_guid :: "string option"
  xr_message :: string

text \<open>\<open>failures\<close> are in the order of their keys.\<close>

record runtime_db =
  rd_instances :: "instance_row list"
  rd_work :: "work_row list"
  rd_candidates :: "candidate_row list"
  rd_people :: "person_row list"
  rd_groups :: "(int \<times> string) list"
  rd_tasks :: "runtime_task list"
  rd_specs :: "task_spec_row list"
  rd_processes :: "(int \<times> int option) list"   \<comment> \<open>a BPMN process and its definition\<close>
  rd_events :: "event_row list"
  rd_failures :: "failure_row list"
  rd_definitions :: "definition_row list"

record query_env =
  qe_now :: int
  qe_active :: "string list"            \<comment> \<open>\<open>ProcessInstanceModel.active_statuses()\<close>\<close>
  qe_rank :: "string \<Rightarrow> int"
  qe_seconds :: "string \<Rightarrow> rat"         \<comment> \<open>the value of a float\<close>
  qe_category :: "string \<Rightarrow> string option" \<comment> \<open>\<open>event_category_for_type\<close>\<close>
  qe_catalog :: catalog_env
  qe_disk :: disk

definition instance_of :: "runtime_db \<Rightarrow> int \<Rightarrow> instance_row option" where
  "instance_of db i = find (\<lambda>r. ir_id r = i) (rd_instances db)"

definition person_of_id :: "runtime_db \<Rightarrow> int \<Rightarrow> person_row option" where
  "person_of_id db i = find (\<lambda>p. pr_id p = i) (rd_people db)"

definition username_of :: "runtime_db \<Rightarrow> instance_row \<Rightarrow> string option" where
  "username_of db r = Option.bind (person_of_id db (ir_initiator r)) pr_username"

text \<open>The display name of a person, or else the user name, over an outer join.\<close>

definition shown_name :: "runtime_db \<Rightarrow> int option \<Rightarrow> string option" where
  "shown_name db i =
     (case Option.bind i (person_of_id db) of None \<Rightarrow> None | Some p \<Rightarrow> or_str (pr_display p) (pr_username p))"

text \<open>SQL's \<open>LIKE\<close>: \<open>%\<close> is any text, \<open>_\<close> any character, a backslash takes the next character literally.\<close>

fun sql_like :: "string \<Rightarrow> string \<Rightarrow> bool" where
  "sql_like [] s = (s = [])"
| "sql_like (c # p) [] = (c = CHR ''%'' \<and> sql_like p [])"
| "sql_like (c # p) (x # s) =
     (if c = CHR ''%'' then sql_like p (x # s) \<or> sql_like (c # p) s
      else if c = CHR ''_'' then sql_like p s
      else if c = CHR 0x5C then (case p of [] \<Rightarrow> False | d # q \<Rightarrow> x = d \<and> sql_like q s)
      else x = c \<and> sql_like p s)"

definition sql_ilike :: "string \<Rightarrow> string \<Rightarrow> bool" where
  "sql_ilike p s = sql_like (py_lower p) (py_lower s)"

lemma sql_like_any [simp]: "sql_like ''%'' s"
  by (induction s) auto

text \<open>\<open>column.startswith(prefix)\<close> is \<open>LIKE prefix || '%'\<close>.\<close>

definition sql_startswith :: "string \<Rightarrow> string \<Rightarrow> bool" where
  "sql_startswith prefix s = sql_like (prefix @ ''%'') s"

definition plain_pattern :: "string \<Rightarrow> bool" where
  "plain_pattern p \<longleftrightarrow> set p \<inter> {CHR ''%'', CHR ''_'', CHR 0x5C} = {}"

lemma sql_like_plain: "plain_pattern p \<Longrightarrow> sql_like (p @ ''%'') s \<longleftrightarrow> startswith s p"
proof (induction p arbitrary: s)
  case (Cons c p)
  then have p: "plain_pattern p" and c: "c \<noteq> CHR ''%''" "c \<noteq> CHR ''_''" "c \<noteq> CHR 0x5C"
    by (auto simp: plain_pattern_def)
  with Cons.IH [OF p] show ?case by (cases s) (auto simp: startswith_def)
qed simp

lemma sql_startswith_plain: "plain_pattern p \<Longrightarrow> sql_startswith p s \<longleftrightarrow> startswith s p"
  by (simp add: sql_startswith_def sql_like_plain)

text \<open>\<open>max(1, min(int(limit), most))\<close>.\<close>

definition capped :: "int \<Rightarrow> int \<Rightarrow> int" where
  "capped most n = max 1 (min n most)"

lemma capped_bounds: "1 \<le> most \<Longrightarrow> 1 \<le> capped most n \<and> capped most n \<le> most"
  by (simp add: capped_def)

definition page_of_rows :: "int \<Rightarrow> int \<Rightarrow> 'a list \<Rightarrow> 'a list" where
  "page_of_rows page per_page rows = take (nat per_page) (drop (nat ((page - 1) * per_page)) rows)"

text \<open>The pages, put together, are the rows.\<close>

lemma instance_pages_tile:
  assumes "0 < m" "int (length xs) \<le> k * m" "0 \<le> k"
  shows "concat (map (\<lambda>p. page_of_rows p m xs) [1..k]) = xs"
proof -
  have upto: "[1..k] = map (\<lambda>i. int i + 1) [0..<nat k]"
    using assms(3) by (intro nth_equalityI) auto
  have "concat (map (\<lambda>p. page_of_rows p m xs) [1..k])
      = concat (map (\<lambda>i. take (nat m) (drop (i * nat m) xs)) [0..<nat k])"
    unfolding upto using assms(1) by (intro arg_cong [of _ _ concat]) (simp add: page_of_rows_def nat_mult_distrib)
  also have "\<dots> = take (nat k * nat m) xs"
    by (rule concat_slices) (use assms(1) in simp)
  also have "length xs \<le> nat k * nat m"
    using assms by (simp add: nat_le_iff nat_mult_distrib [symmetric] flip: of_nat_le_iff)
  then have "take (nat k * nat m) xs = xs" by simp
  finally show ?thesis .
qed

end
