(* ===== verification/Instance_Queries.thy ===== *)
theory Instance_Queries
  imports Instance_Store
begin

text \<open>
  The queries behind the home page, the Processes page and the Process Instances page
  (workflow/__init__.py). A tenant of \<open>None\<close> is every tenant; only a super-admin gets there.
\<close>

subsection \<open>Whose instances\<close>

definition INSTANCE_SCOPES :: "string list" where
  "INSTANCE_SCOPES = [''mine'', ''started'', ''assigned'']"

definition started_by :: "int \<Rightarrow> instance_row \<Rightarrow> bool" where
  "started_by user r \<longleftrightarrow> ir_initiator r = user"

definition assigned_to :: "runtime_db \<Rightarrow> int \<Rightarrow> instance_row \<Rightarrow> bool" where
  "assigned_to db user r \<longleftrightarrow>
     list_ex (\<lambda>w. wk_instance w = ir_id r \<and>
       list_ex (\<lambda>c. cr_work_item c = wk_id w \<and> cr_user c = user) (rd_candidates db)) (rd_work db)"

definition instance_scope_clause :: "runtime_db \<Rightarrow> int \<Rightarrow> string option \<Rightarrow> instance_row \<Rightarrow> bool" where
  "instance_scope_clause db user scope r =
     (if scope = Some ''started'' then started_by user r
      else if scope = Some ''assigned'' then assigned_to db user r
      else started_by user r \<or> assigned_to db user r)"

text \<open>Whether the user started the instance, and whether a task in it is assigned to the user.\<close>

definition instance_relation :: "runtime_db \<Rightarrow> int \<Rightarrow> int \<Rightarrow> bool \<times> bool" where
  "instance_relation db pid user =
     (case instance_of db pid of None \<Rightarrow> (False, False) | Some r \<Rightarrow> (started_by user r, assigned_to db user r))"

definition scope_instances :: "runtime_db \<Rightarrow> int option \<Rightarrow> string option \<Rightarrow> instance_row \<Rightarrow> bool" where
  "scope_instances db viewer scope r =
     (case viewer of None \<Rightarrow> True | Some v \<Rightarrow> instance_scope_clause db v scope r)"

definition in_tenant :: "string option \<Rightarrow> string \<Rightarrow> bool" where
  "in_tenant tenant t = (case tenant of None \<Rightarrow> True | Some i \<Rightarrow> t = i)"

definition list_instances_for_super_admin :: "bool \<Rightarrow> runtime_db \<Rightarrow> string option \<Rightarrow> api_error + instance_row list" where
  "list_instances_for_super_admin super_admin db status =
     (if \<not> super_admin then Inl (ApiError ''permission_denied'' ''Super-admin access required'' 403)
      else Inr (filter (\<lambda>r. case status of None \<Rightarrow> True | Some s \<Rightarrow> ir_status r = s) (rd_instances db)))"

subsection \<open>Home statistics\<close>

definition viewed :: "runtime_db \<Rightarrow> string option \<Rightarrow> int option \<Rightarrow> instance_row list" where
  "viewed db tenant viewer =
     filter (\<lambda>r. in_tenant tenant (ir_tenant r) \<and> scope_instances db viewer None r) (rd_instances db)"

definition count_active_process_instances :: "query_env \<Rightarrow> runtime_db \<Rightarrow> string option \<Rightarrow> int option \<Rightarrow> int" where
  "count_active_process_instances env db tenant viewer =
     int (length (filter (\<lambda>r. ir_status r \<in> set (qe_active env)) (viewed db tenant viewer)))"

definition count_error_process_instances :: "runtime_db \<Rightarrow> string option \<Rightarrow> int option \<Rightarrow> int" where
  "count_error_process_instances db tenant viewer =
     int (length (filter (\<lambda>r. ir_status r = ''error'') (viewed db tenant viewer)))"

definition DAY_MICROS :: int where "DAY_MICROS = 24 * 3600 * 1000000"

definition start_of_day :: "int \<Rightarrow> int" where
  "start_of_day now = now div DAY_MICROS * DAY_MICROS"

definition count_process_instances_completed_today :: "query_env \<Rightarrow> runtime_db \<Rightarrow> string option \<Rightarrow> int option \<Rightarrow> int" where
  "count_process_instances_completed_today env db tenant viewer =
     int (length (filter (\<lambda>r. ir_status r = ''complete'' \<and>
       (case ir_ended_at r of None \<Rightarrow> False | Some t \<Rightarrow> start_of_day (qe_now env) \<le> t)) (viewed db tenant viewer)))"

text \<open>\<open>round\<close> to the nearest integer, halves to even. The code averages in floating point, here it is exact.\<close>

definition half_even :: "rat \<Rightarrow> int" where
  "half_even x =
     (let n = \<lfloor>x\<rfloor>; f = x - of_int n in
      if f < 1 / 2 then n else if 1 / 2 < f then n + 1 else if even n then n else n + 1)"

fun duration_of :: "instance_row \<Rightarrow> int option" where
  "duration_of r = (case (ir_started_at r, ir_ended_at r) of (Some s, Some e) \<Rightarrow> Some (max 0 (e - s)) | _ \<Rightarrow> None)"

definition average_completion_minutes :: "runtime_db \<Rightarrow> string option \<Rightarrow> int option \<Rightarrow> rat option" where
  "average_completion_minutes db tenant viewer =
     (let durations = some_values (map duration_of (filter (\<lambda>r. ir_status r = ''complete'') (viewed db tenant viewer))) in
      if durations = [] then None
      else Some (of_int (half_even (10 * (of_int (sum_list durations) / of_int (int (length durations)) / 60000000))) / 10))"

definition list_recent_process_instances :: "runtime_db \<Rightarrow> string option \<Rightarrow> int \<Rightarrow> int option \<Rightarrow> instance_row list" where
  "list_recent_process_instances db tenant limit viewer =
     take (nat (capped 50 limit)) (sort_key (\<lambda>r. - ir_id r) (viewed db tenant viewer))"

subsection \<open>Statistics of a process model\<close>

definition thirty_days :: int where "thirty_days = 30 * DAY_MICROS"

definition recent_run :: "query_env \<Rightarrow> instance_row \<Rightarrow> bool" where
  "recent_run env r = (case ir_started_at r of None \<Rightarrow> False | Some t \<Rightarrow> qe_now env - thirty_days \<le> t)"

definition last_run :: "instance_row list \<Rightarrow> int option" where
  "last_run rows = max_of (some_values (map ir_started_at rows))"

definition run_key :: "instance_row \<Rightarrow> string \<times> string" where
  "run_key r = (ir_tenant r, ir_model r)"

definition process_model_run_stats :: "query_env \<Rightarrow> runtime_db \<Rightarrow> string option \<Rightarrow> ((string \<times> string) \<times> int option \<times> int) list" where
  "process_model_run_stats env db tenant =
     (let rows = filter (\<lambda>r. in_tenant tenant (ir_tenant r)) (rd_instances db) in
      map (\<lambda>k. let group = filter (\<lambda>r. run_key r = k) rows in
             (k, last_run group, int (length (filter (recent_run env) group))))
        (group_keys run_key rows))"

definition of_model :: "string \<Rightarrow> string \<Rightarrow> instance_row \<Rightarrow> bool" where
  "of_model tenant model r \<longleftrightarrow> ir_tenant r = tenant \<and> ir_model r = model"

record model_stats =
  ms_last_run :: "int option"
  ms_running_now :: int
  ms_runs_30d :: int

definition process_model_detail_stats :: "query_env \<Rightarrow> runtime_db \<Rightarrow> string \<Rightarrow> string \<Rightarrow> model_stats" where
  "process_model_detail_stats env db tenant model =
     (let rows = filter (of_model tenant model) (rd_instances db) in
      \<lparr>ms_last_run = last_run rows,
       ms_running_now = int (length (filter (\<lambda>r. ir_status r \<in> set (qe_active env)) rows)),
       ms_runs_30d = int (length (filter (recent_run env) rows))\<rparr>)"

definition count_instances_for_process_model :: "runtime_db \<Rightarrow> string \<Rightarrow> string \<Rightarrow> int" where
  "count_instances_for_process_model db tenant model = int (length (filter (of_model tenant model) (rd_instances db)))"

definition of_group :: "string \<Rightarrow> string \<Rightarrow> instance_row \<Rightarrow> bool" where
  "of_group tenant group_id r \<longleftrightarrow>
     ir_tenant r = tenant \<and>
     (ir_model r = group_id \<or> sql_startswith (rstrip_if (\<lambda>c. c = CHR ''/'') group_id @ ''/'') (ir_model r))"

definition count_instances_for_process_group :: "runtime_db \<Rightarrow> string \<Rightarrow> string \<Rightarrow> int" where
  "count_instances_for_process_group db tenant group_id = int (length (filter (of_group tenant group_id) (rd_instances db)))"

record model_run =
  mr_id :: int
  mr_started_by :: string
  mr_started_at :: "int option"
  mr_seconds :: "int option"
  mr_status :: string

text \<open>\<open>int(seconds)\<close> cuts towards zero.\<close>

definition whole_seconds :: "instance_row \<Rightarrow> int option" where
  "whole_seconds r =
     (case (ir_started_at r, ir_ended_at r) of
        (Some s, Some e) \<Rightarrow> Some (sgn (e - s) * (\<bar>e - s\<bar> div 1000000)) | _ \<Rightarrow> None)"

definition list_recent_instances_for_process_model ::
  "runtime_db \<Rightarrow> string \<Rightarrow> string \<Rightarrow> int \<Rightarrow> int option \<Rightarrow> model_run list" where
  "list_recent_instances_for_process_model db tenant model limit viewer =
     map (\<lambda>r. \<lparr>mr_id = ir_id r, mr_started_by = or_default (username_of db r) [], mr_started_at = ir_started_at r,
               mr_seconds = whole_seconds r, mr_status = ir_status r\<rparr>)
       (take (nat (capped 50 limit))
         (sort_key (\<lambda>r. - ir_id r)
           (filter (\<lambda>r. of_model tenant model r \<and> scope_instances db viewer None r) (rd_instances db))))"

subsection \<open>The Process Instances page\<close>

record instance_query =
  iq_tenant :: "string option"
  iq_status :: "string option"
  iq_search :: "string option"
  iq_started_by :: "string option"
  iq_sort :: "string option"
  iq_page :: int
  iq_per_page :: int
  iq_viewer :: "int option"
  iq_scope :: "string option"
  iq_user :: "int option"

record listed_instance =
  li_id :: int
  li_tenant :: string
  li_model :: string
  li_display :: string
  li_status :: string
  li_started_by :: string
  li_started_at :: "int option"
  li_ended_at :: "int option"
  li_started_by_me :: bool
  li_assigned_to_me :: bool

definition instance_search_hit :: "string \<Rightarrow> instance_row \<Rightarrow> bool" where
  "instance_search_hit search r \<longleftrightarrow>
     (let like = ''%'' @ search @ ''%'' in
      (case ir_display r of None \<Rightarrow> False | Some n \<Rightarrow> sql_ilike like n) \<or> sql_ilike like (ir_model r))"

definition instance_selected :: "runtime_db \<Rightarrow> instance_query \<Rightarrow> instance_row \<Rightarrow> bool" where
  "instance_selected db q r \<longleftrightarrow>
     in_tenant (iq_tenant q) (ir_tenant r) \<and>
     (truthy_str (iq_status q) \<longrightarrow> Some (ir_status r) = iq_status q) \<and>
     (truthy_str (iq_started_by q) \<longrightarrow> username_of db r = iq_started_by q) \<and>
     scope_instances db (iq_viewer q) (iq_scope q) r \<and>
     (truthy_str (iq_search q) \<longrightarrow> instance_search_hit (or_default (iq_search q) []) r)"

text \<open>\<open>_INSTANCE_SORTS\<close>, the newest first where the key is unknown.\<close>

definition instance_order :: "query_env \<Rightarrow> string option \<Rightarrow> instance_row \<Rightarrow> int \<times> int \<times> int" where
  "instance_order env sort_by r =
     (if sort_by = Some ''oldest'' then (0, 0, ir_id r)
      else if sort_by = Some ''recent_start''
      then (case ir_started_at r of None \<Rightarrow> (1, 0, - ir_id r) | Some t \<Rightarrow> (0, - t, - ir_id r))
      else if sort_by = Some ''status'' then (0, qe_rank env (ir_status r), - ir_id r)
      else (0, 0, - ir_id r))"

definition ordered_instances :: "query_env \<Rightarrow> runtime_db \<Rightarrow> instance_query \<Rightarrow> instance_row list" where
  "ordered_instances env db q =
     sort_key (instance_order env (iq_sort q)) (filter (instance_selected db q) (rd_instances db))"

text \<open>The display names of a page are read through one cache.\<close>

fun listed_rows :: "query_env \<Rightarrow> runtime_db \<Rightarrow> int option \<Rightarrow> instance_row list \<Rightarrow> ((string \<times> string) \<times> string) list \<Rightarrow>
    listed_instance list" where
  "listed_rows env db user [] cache = []"
| "listed_rows env db user (r # rs) cache =
     (let (name, cache') = display_name_for_row (qe_catalog env) (qe_disk env) (ir_tenant r) (ir_model r) (ir_display r) cache in
      \<lparr>li_id = ir_id r, li_tenant = ir_tenant r, li_model = ir_model r, li_display = name, li_status = ir_status r,
       li_started_by = or_default (username_of db r) [], li_started_at = ir_started_at r, li_ended_at = ir_ended_at r,
       li_started_by_me = (case user of None \<Rightarrow> False | Some u \<Rightarrow> started_by u r),
       li_assigned_to_me = (case user of None \<Rightarrow> False | Some u \<Rightarrow> assigned_to db u r)\<rparr> # listed_rows env db user rs cache')"

record page_counts =
  pg_count :: int
  pg_total :: int
  pg_pages :: int

definition list_instances_for_designer :: "query_env \<Rightarrow> runtime_db \<Rightarrow> instance_query \<Rightarrow> listed_instance list \<times> page_counts" where
  "list_instances_for_designer env db q =
     (let per_page = capped 100 (iq_per_page q); page = max 1 (iq_page q);
          total_rows = int (length (filter (instance_selected db q) (rd_instances db)));
          rows = listed_rows env db (iq_user q) (page_of_rows page per_page (ordered_instances env db q)) []
      in (rows, \<lparr>pg_count = int (length rows), pg_total = total_rows, pg_pages = (total_rows + per_page - 1) div per_page\<rparr>))"

text \<open>The owners of the filter: the people who started an instance.\<close>

definition instance_owners :: "runtime_db \<Rightarrow> string option \<Rightarrow> person_row list" where
  "instance_owners db tenant =
     filter (\<lambda>p. pr_username p \<noteq> None)
       (some_values (map (\<lambda>r. person_of_id db (ir_initiator r)) (filter (\<lambda>r. in_tenant tenant (ir_tenant r)) (rd_instances db))))"

definition list_instance_owners_for_designer :: "runtime_db \<Rightarrow> string option \<Rightarrow> string list" where
  "list_instance_owners_for_designer db tenant =
     sort_key py_lower
       (filter (\<lambda>n. n \<noteq> []) (dedup_into [] (map (\<lambda>p. or_default (pr_username p) []) (instance_owners db tenant))))"

definition casefold :: "string \<Rightarrow> string" where
  "casefold s = concat (map (\<lambda>c. if c = CHR 0xDF then ''ss'' else [lower_char c]) s)"

definition list_instance_owner_options_for_designer :: "runtime_db \<Rightarrow> string option \<Rightarrow> (int \<times> string) list" where
  "list_instance_owner_options_for_designer db tenant =
     filter (\<lambda>(i, n). n \<noteq> [])
       (sort_key (\<lambda>(i, n). (casefold n, i))
         (dedup_into [] (map (\<lambda>p. (pr_id p, or_default (pr_username p) [])) (instance_owners db tenant))))"

definition list_process_model_keys_for_instance_owner :: "runtime_db \<Rightarrow> string option \<Rightarrow> int \<Rightarrow> (string \<times> string) list" where
  "list_process_model_keys_for_instance_owner db tenant owner =
     dedup_into [] (map run_key (filter (\<lambda>r. ir_initiator r = owner \<and> person_of_id db owner \<noteq> None \<and>
       in_tenant tenant (ir_tenant r)) (rd_instances db)))"

subsection \<open>Tasks that wait\<close>

definition candidate_in :: "runtime_db \<Rightarrow> string option \<Rightarrow> int \<Rightarrow> int \<Rightarrow> bool" where
  "candidate_in db tenant user work_item \<longleftrightarrow>
     list_ex (\<lambda>c. cr_work_item c = work_item \<and> cr_user c = user \<and> in_tenant tenant (cr_tenant c)) (rd_candidates db)"

definition is_task_candidate :: "runtime_db \<Rightarrow> string \<Rightarrow> int \<Rightarrow> int \<Rightarrow> bool" where
  "is_task_candidate db tenant work_item user = candidate_in db (Some tenant) user work_item"

text \<open>The join with the instance: a work item whose instance is suspended, or gone, is not listed.\<close>

definition running :: "runtime_db \<Rightarrow> work_row \<Rightarrow> bool" where
  "running db w \<longleftrightarrow> (case instance_of db (wk_instance w) of None \<Rightarrow> False | Some r \<Rightarrow> ir_status r \<noteq> ''suspended'')"

definition waits_for :: "runtime_db \<Rightarrow> string option \<Rightarrow> int \<Rightarrow> work_row \<Rightarrow> bool" where
  "waits_for db tenant user w \<longleftrightarrow>
     \<not> wk_completed w \<and> running db w \<and> in_tenant tenant (wk_tenant w) \<and> candidate_in db tenant user (wk_id w)"

definition list_pending_tasks :: "runtime_db \<Rightarrow> string \<Rightarrow> int \<Rightarrow> work_row list" where
  "list_pending_tasks db tenant user = sort_key wk_id (filter (waits_for db (Some tenant) user) (rd_work db))"

definition list_pending_tasks_for_super_admin :: "bool \<Rightarrow> runtime_db \<Rightarrow> api_error + work_row list" where
  "list_pending_tasks_for_super_admin super_admin db =
     (if \<not> super_admin then Inl (ApiError ''permission_denied'' ''Super-admin access required'' 403)
      else Inr (filter (\<lambda>w. \<not> wk_completed w \<and> running db w) (rd_work db)))"

definition task_order :: "string option \<Rightarrow> work_row \<Rightarrow> int \<times> int" where
  "task_order sort_by w =
     (if sort_by = Some ''newest'' then (- wk_created_at w, - wk_id w)
      else if sort_by = Some ''oldest'' then (wk_created_at w, wk_id w)
      else (wk_id w, 0))"

definition list_pending_tasks_for_user :: "runtime_db \<Rightarrow> string option \<Rightarrow> int \<Rightarrow> int \<Rightarrow> string option \<Rightarrow> work_row list" where
  "list_pending_tasks_for_user db tenant user limit sort_by =
     take (nat (capped 50 limit)) (sort_key (task_order sort_by) (filter (waits_for db tenant user) (rd_work db)))"

definition count_pending_tasks :: "runtime_db \<Rightarrow> string option \<Rightarrow> int \<Rightarrow> int" where
  "count_pending_tasks db tenant user = int (length (filter (waits_for db tenant user) (rd_work db)))"

subsection \<open>Who a task waits for\<close>

record waiting =
  wt_type :: string
  wt_label :: "string option"
  wt_usernames :: "string option list"

definition null_last :: "query_env \<Rightarrow> string option \<Rightarrow> int \<times> int" where
  "null_last env n = (case n of None \<Rightarrow> (1, 0) | Some s \<Rightarrow> (0, qe_rank env s))"

definition candidate_people :: "runtime_db \<Rightarrow> string \<Rightarrow> int \<Rightarrow> (person_row \<times> string option) list" where
  "candidate_people db tenant work_item =
     some_values (map (\<lambda>c. map_option (\<lambda>p. (p, cr_added_by c)) (person_of_id db (cr_user c)))
       (filter (\<lambda>c. cr_work_item c = work_item \<and> cr_tenant c = tenant) (rd_candidates db)))"

definition candidates_of :: "query_env \<Rightarrow> runtime_db \<Rightarrow> string \<Rightarrow> int \<Rightarrow> (int \<times> string option \<times> string option) list" where
  "candidates_of env db tenant work_item =
     map (\<lambda>(p, added_by). (pr_id p, or_str (pr_display p) (pr_username p), added_by))
       (sort_key (\<lambda>(p, added_by). null_last env (pr_username p)) (candidate_people db tenant work_item))"

definition lane_group_name :: "runtime_db \<Rightarrow> work_row \<Rightarrow> string option" where
  "lane_group_name db w =
     (case wk_lane_group w of None \<Rightarrow> None | Some g \<Rightarrow> if g = 0 then None else map_of (rd_groups db) g)"

definition waiting_for :: "query_env \<Rightarrow> runtime_db \<Rightarrow> string \<Rightarrow> work_row \<Rightarrow> waiting" where
  "waiting_for env db tenant w =
     (let rows = candidates_of env db tenant (wk_id w);
          names = map (\<lambda>(_, n, _). n) rows;
          owner = (case find (\<lambda>(i, _, _). Some i = wk_owner w) rows of None \<Rightarrow> None | Some (_, n, _) \<Rightarrow> n) in
      if wk_owner w \<noteq> None \<and> wk_owner w \<noteq> Some 0 \<and> truthy_str owner
      then \<lparr>wt_type = ''user'', wt_label = owner, wt_usernames = [owner]\<rparr>
      else case lane_group_name db w of
        Some name \<Rightarrow> \<lparr>wt_type = ''group'', wt_label = or_str (wk_lane w) (Some name), wt_usernames = names\<rparr>
      | None \<Rightarrow>
          if rows \<noteq> [] \<and> list_all (\<lambda>(_, _, a). a = Some ''process_initiator'') rows
          then \<lparr>wt_type = ''initiator'', wt_label = hd names, wt_usernames = names\<rparr>
          else if length rows = 1 then \<lparr>wt_type = ''user'', wt_label = hd names, wt_usernames = names\<rparr>
          else if rows \<noteq> []
          then \<lparr>wt_type = ''users'', wt_label = Some (nat_str (length rows) @ '' users''), wt_usernames = names\<rparr>
          else \<lparr>wt_type = ''unassigned'', wt_label = Some ''Unassigned'', wt_usernames = []\<rparr>)"

record open_task =
  ot_id :: int
  ot_title :: "string option"
  ot_name :: "string option"
  ot_lane :: "string option"
  ot_waiting :: waiting

definition open_task_row :: "work_row \<Rightarrow> waiting \<Rightarrow> open_task" where
  "open_task_row w waits =
     \<lparr>ot_id = wk_id w, ot_title = wk_title w, ot_name = wk_name w, ot_lane = wk_lane w, ot_waiting = waits\<rparr>"

definition suspended_here :: "runtime_db \<Rightarrow> string \<Rightarrow> int \<Rightarrow> bool" where
  "suspended_here db tenant pid \<longleftrightarrow>
     (case find (\<lambda>r. ir_id r = pid \<and> ir_tenant r = tenant) (rd_instances db) of
        None \<Rightarrow> False | Some r \<Rightarrow> ir_status r = ''suspended'')"

definition open_work :: "runtime_db \<Rightarrow> string \<Rightarrow> int \<Rightarrow> work_row list" where
  "open_work db tenant pid =
     sort_key (\<lambda>w. (wk_created_at w, wk_id w))
       (filter (\<lambda>w. wk_tenant w = tenant \<and> wk_instance w = pid \<and> \<not> wk_completed w) (rd_work db))"

definition list_completable_tasks_for_designer :: "query_env \<Rightarrow> runtime_db \<Rightarrow> string \<Rightarrow> int \<Rightarrow> int \<Rightarrow> open_task list" where
  "list_completable_tasks_for_designer env db tenant pid user =
     (if suspended_here db tenant pid then []
      else map (\<lambda>w. open_task_row w (waiting_for env db tenant w))
             (filter (\<lambda>w. candidate_in db (Some tenant) user (wk_id w)) (open_work db tenant pid)))"

definition list_pending_tasks_for_designer :: "query_env \<Rightarrow> runtime_db \<Rightarrow> string \<Rightarrow> int \<Rightarrow> int \<Rightarrow> (open_task \<times> bool) list" where
  "list_pending_tasks_for_designer env db tenant pid user =
     (if suspended_here db tenant pid then []
      else map (\<lambda>w. (open_task_row w (waiting_for env db tenant w), candidate_in db (Some tenant) user (wk_id w)))
             (open_work db tenant pid))"

record completed_task =
  cp_id :: int
  cp_title :: "string option"
  cp_name :: "string option"
  cp_completed_by :: "string option"
  cp_updated_at :: int

definition completed_work :: "runtime_db \<Rightarrow> string \<Rightarrow> int \<Rightarrow> work_row list" where
  "completed_work db tenant pid =
     sort_key (\<lambda>w. (wk_updated_at w, wk_id w))
       (filter (\<lambda>w. wk_tenant w = tenant \<and> wk_instance w = pid \<and> wk_completed w) (rd_work db))"

definition completed_row :: "runtime_db \<Rightarrow> work_row \<Rightarrow> completed_task" where
  "completed_row db w =
     \<lparr>cp_id = wk_id w, cp_title = wk_title w, cp_name = wk_name w, cp_completed_by = shown_name db (wk_completer w),
      cp_updated_at = wk_updated_at w\<rparr>"

text \<open>What the user completed, and all that is completed.\<close>

definition list_completed_tasks_for_designer :: "runtime_db \<Rightarrow> string \<Rightarrow> int \<Rightarrow> int \<Rightarrow> completed_task list \<times> completed_task list" where
  "list_completed_tasks_for_designer db tenant pid user =
     (let rows = completed_work db tenant pid in
      (map (completed_row db) (filter (\<lambda>w. wk_completer w = Some user) rows), map (completed_row db) rows))"

record approval =
  ap_name :: "string option"
  ap_status :: string
  ap_completed :: bool
  ap_is_current :: bool
  ap_lane :: "string option"
  ap_completed_at :: "int option"

definition list_human_tasks_for_instance :: "runtime_db \<Rightarrow> string \<Rightarrow> int \<Rightarrow> approval list" where
  "list_human_tasks_for_instance db tenant pid =
     map (\<lambda>w. \<lparr>ap_name = or_str (shown_name db (wk_owner w)) (shown_name db (wk_completer w)), ap_status = wk_status w,
               ap_completed = wk_completed w, ap_is_current = (\<not> wk_completed w), ap_lane = wk_lane w,
               ap_completed_at = (if wk_completed w then Some (wk_updated_at w) else None)\<rparr>)
       (sort_key (\<lambda>w. (wk_created_at w, wk_id w))
         (filter (\<lambda>w. wk_tenant w = tenant \<and> wk_instance w = pid) (rd_work db)))"

end
