(* ===== verification/Instance_Views.thy ===== *)
theory Instance_Views
  imports Instance_Queries
begin

text \<open>
  One instance (workflow/__init__.py): its event log, the state of its tasks for the diagram, the data of a
  task, and the milestones. The route passes pages from one on.
\<close>

subsection \<open>Stamps\<close>

text \<open>\<open>_last_state_change\<close>: seconds as a number; a Boolean is one, too.\<close>

fun number_of :: "(string \<Rightarrow> rat) \<Rightarrow> pyval \<Rightarrow> rat option" where
  "number_of seconds (PBool b) = Some (if b then 1 else 0)"
| "number_of seconds (PInt n) = Some (of_int n)"
| "number_of seconds (PFloat t) = Some (seconds t)"
| "number_of seconds _ = None"

definition last_state_change :: "query_env \<Rightarrow> pyval \<Rightarrow> rat option" where
  "last_state_change env properties = number_of (qe_seconds env) (dget (dict_items properties) ''last_state_change'')"

definition iso_epoch :: "rat option \<Rightarrow> int option" where
  "iso_epoch s = map_option (\<lambda>x. half_even (x * 1000000)) s"

subsection \<open>The event log\<close>

definition event_category :: "query_env \<Rightarrow> event_row \<Rightarrow> string option" where
  "event_category env e = or_else (er_category e) (qe_category env (er_type e))"

definition task_of_event :: "runtime_db \<Rightarrow> string \<Rightarrow> int \<Rightarrow> event_row \<Rightarrow> runtime_task option" where
  "task_of_event db tenant pid e =
     find (\<lambda>t. Some (rt_guid t) = er_guid e \<and> rt_tenant t = tenant \<and> rt_instance t = pid) (rd_tasks db)"

definition spec_of :: "runtime_db \<Rightarrow> runtime_task \<Rightarrow> task_spec_row option" where
  "spec_of db t = find (\<lambda>s. ts_id s = rt_definition t) (rd_specs db)"

definition definition_by_id :: "runtime_db \<Rightarrow> int option \<Rightarrow> definition_row option" where
  "definition_by_id db i = Option.bind i (\<lambda>j. find (\<lambda>d. df_id d = j) (rd_definitions db))"

definition process_of :: "runtime_db \<Rightarrow> runtime_task \<Rightarrow> string option" where
  "process_of db t =
     map_option df_bpmn_identifier
       (definition_by_id db (Option.bind (Option.bind (rt_process t) (map_of (rd_processes db))) id))"

definition events_of :: "runtime_db \<Rightarrow> string \<Rightarrow> int \<Rightarrow> event_row list" where
  "events_of db tenant pid = filter (\<lambda>e. er_instance e = pid \<and> er_tenant e = tenant) (rd_events db)"

record activity =
  ac_type :: string
  ac_category :: "string option"
  ac_actor :: "string option"
  ac_occurred_at :: int
  ac_guid :: "string option"
  ac_title :: "string option"

definition list_instance_events :: "query_env \<Rightarrow> runtime_db \<Rightarrow> string \<Rightarrow> int \<Rightarrow> activity list" where
  "list_instance_events env db tenant pid =
     map (\<lambda>e. \<lparr>ac_type = er_type e, ac_category = event_category env e, ac_actor = shown_name db (er_user e),
               ac_occurred_at = er_occurred_at e, ac_guid = er_guid e,
               ac_title = Option.bind (Option.bind (task_of_event db tenant pid e) (spec_of db)) ts_bpmn_name\<rparr>)
       (sort_key (\<lambda>e. (er_occurred_at e, er_id e)) (events_of db tenant pid))"

text \<open>\<open>(task_guid, message)\<close>, the oldest first.\<close>

definition list_instance_errors :: "runtime_db \<Rightarrow> string \<Rightarrow> int \<Rightarrow> (string option \<times> string) list" where
  "list_instance_errors db tenant pid =
     map (\<lambda>x. (xr_guid x, xr_message x)) (filter (\<lambda>x. xr_tenant x = tenant \<and> xr_instance x = pid) (rd_failures db))"

definition latest_error :: "(string option \<times> string) list \<Rightarrow> string option" where
  "latest_error errs = (if errs = [] then None else Some (snd (last errs)))"

definition SPIFF_INTERNAL_TASK_TYPES :: "string list" where
  "SPIFF_INTERNAL_TASK_TYPES =
     [''BpmnStartTask'', ''SimpleBpmnTask'', ''_EndJoin'', ''BoundaryEventSplit'', ''BoundaryEventJoin'',
      ''StartEventSplit'', ''StartEventJoin'']"

definition TASK_EVENT_BY_STATE :: "(string \<times> string) list" where
  "TASK_EVENT_BY_STATE =
     [(''COMPLETED'', ''task_completed''), (''ERROR'', ''task_failed''), (''CANCELLED'', ''task_cancelled'')]"

record logged_event =
  le_id :: "int option"
  le_guid :: "string option"
  le_process :: "string option"
  le_task_name :: "string option"
  le_task_identifier :: "string option"
  le_task_type :: "string option"
  le_type :: string
  le_category :: "string option"
  le_user :: string
  le_occurred_at :: "int option"
  le_error :: "string option"

definition recorded_event :: "query_env \<Rightarrow> runtime_db \<Rightarrow> string \<Rightarrow> int \<Rightarrow> event_row \<Rightarrow> logged_event" where
  "recorded_event env db tenant pid e =
     (let task = task_of_event db tenant pid e; spec = Option.bind task (spec_of db) in
      \<lparr>le_id = Some (er_id e), le_guid = er_guid e, le_process = Option.bind task (process_of db),
       le_task_name = Option.bind spec ts_bpmn_name, le_task_identifier = map_option ts_bpmn_identifier spec,
       le_task_type = map_option ts_typename spec, le_type = er_type e, le_category = event_category env e,
       le_user = or_default (or_str (shown_name db (er_user e)) (Some ''system'')) [],
       le_occurred_at = Some (er_occurred_at e), le_error = None\<rparr>)"

text \<open>The tasks that leave an event: finished, and not the engine's own.\<close>

definition event_tasks :: "runtime_db \<Rightarrow> string \<Rightarrow> int \<Rightarrow> (runtime_task \<times> task_spec_row \<times> string) list" where
  "event_tasks db tenant pid =
     some_values (map (\<lambda>t.
       case (spec_of db t, map_of TASK_EVENT_BY_STATE (rt_state t)) of
         (Some spec, Some event_type) \<Rightarrow>
           if ts_typename spec \<in> set SPIFF_INTERNAL_TASK_TYPES then None else Some (t, spec, event_type)
       | _ \<Rightarrow> None)
       (filter (\<lambda>t. rt_instance t = pid \<and> rt_tenant t = tenant) (rd_tasks db)))"

definition synthesized_event :: "query_env \<Rightarrow> runtime_db \<Rightarrow> runtime_task \<times> task_spec_row \<times> string \<Rightarrow> logged_event" where
  "synthesized_event env db = (\<lambda>(t, spec, event_type).
     \<lparr>le_id = None, le_guid = Some (rt_guid t), le_process = process_of db t, le_task_name = ts_bpmn_name spec,
      le_task_identifier = Some (ts_bpmn_identifier spec), le_task_type = Some (ts_typename spec),
      le_type = event_type, le_category = qe_category env event_type, le_user = ''system'',
      le_occurred_at = iso_epoch (last_state_change env (rt_properties t)), le_error = None\<rparr>)"

definition with_error :: "(string option \<times> string) list \<Rightarrow> logged_event \<Rightarrow> logged_event" where
  "with_error errs r =
     r\<lparr>le_error := (if le_type r = ''task_failed'' then map_of (rev errs) (le_guid r)
                    else if le_type r = ''process_instance_error'' then latest_error errs else None)\<rparr>"

definition event_key :: "logged_event \<Rightarrow> string option \<times> string" where
  "event_key r = (le_guid r, le_type r)"

definition event_rows :: "query_env \<Rightarrow> runtime_db \<Rightarrow> string \<Rightarrow> int \<Rightarrow> logged_event list" where
  "event_rows env db tenant pid =
     (let recorded = map (recorded_event env db tenant pid) (events_of db tenant pid);
          seen = map event_key recorded;
          synthesized = map (synthesized_event env db)
            (filter (\<lambda>(t, spec, event_type). (Some (rt_guid t), event_type) \<notin> set seen) (event_tasks db tenant pid))
      in map (with_error (list_instance_errors db tenant pid)) (recorded @ synthesized))"

definition event_order :: "logged_event \<Rightarrow> int \<times> int \<times> int \<times> int" where
  "event_order r =
     (let (undated, t) = (case le_occurred_at r of None \<Rightarrow> (1, 0) | Some t \<Rightarrow> (0, t)) in
      case le_id r of None \<Rightarrow> (undated, t, 1, 0) | Some i \<Rightarrow> (undated, t, 0, i))"

record event_page =
  ep_results :: "logged_event list"
  ep_count :: int
  ep_total :: int
  ep_pages :: int
  ep_event_types :: "string list"
  ep_task_types :: "string list"

definition sorted_set :: "string list \<Rightarrow> string list" where
  "sorted_set xs = sort (dedup_into [] xs)"

definition selected_events :: "string option \<Rightarrow> string option \<Rightarrow> logged_event list \<Rightarrow> logged_event list" where
  "selected_events event_type task_type rows =
     filter (\<lambda>r. (truthy_str event_type \<longrightarrow> Some (le_type r) = event_type) \<and>
                 (truthy_str task_type \<longrightarrow> le_task_type r = task_type)) rows"

definition list_instance_events_for_designer ::
  "query_env \<Rightarrow> runtime_db \<Rightarrow> string \<Rightarrow> int \<Rightarrow> string option \<Rightarrow> string option \<Rightarrow> int \<Rightarrow> int \<Rightarrow> event_page" where
  "list_instance_events_for_designer env db tenant pid event_type task_type page per_page =
     (let log = sort_key event_order (event_rows env db tenant pid);
          rows = selected_events event_type task_type log;
          total_rows = int (length rows);
          results = page_of_rows page per_page rows
      in \<lparr>ep_results = results, ep_count = int (length results), ep_total = total_rows,
          ep_pages = - ((- total_rows) div per_page),
          ep_event_types = sorted_set (map le_type log),
          ep_task_types = sorted_set (filter (\<lambda>t. t \<noteq> []) (some_values (map le_task_type log)))\<rparr>)"

definition list_instance_milestones_for_designer :: "runtime_db \<Rightarrow> string \<Rightarrow> int \<Rightarrow> (string \<times> string option \<times> int option) list" where
  "list_instance_milestones_for_designer db tenant pid =
     (case find (\<lambda>r. ir_id r = pid \<and> ir_tenant r = tenant) (rd_instances db) of
        None \<Rightarrow> []
      | Some r \<Rightarrow>
          (let milestone = strip (or_default (ir_milestone r) []) in
           if milestone = [] then []
           else [(milestone,
                  (case definition_by_id db (ir_definition r) of
                     Some d \<Rightarrow> if df_tenant d = tenant then Some (df_bpmn_identifier d) else None
                   | None \<Rightarrow> None),
                  ir_started_at r)]))"

subsection \<open>The diagram\<close>

record task_mark =
  tk_guid :: string
  tk_identifier :: string
  tk_name :: "string option"
  tk_typename :: string
  tk_state :: string
  tk_changed :: "rat option"
  tk_called :: pyval                    \<comment> \<open>\<open>called_process_identifier\<close>\<close>

definition failed_task_guids :: "runtime_db \<Rightarrow> string \<Rightarrow> int \<Rightarrow> string list" where
  "failed_task_guids db tenant pid =
     some_values (map er_guid (filter (\<lambda>e. er_type e = ''task_failed'') (events_of db tenant pid)))"

definition task_marks :: "query_env \<Rightarrow> runtime_db \<Rightarrow> string \<Rightarrow> int \<Rightarrow> task_mark list" where
  "task_marks env db tenant pid =
     some_values (map (\<lambda>t. case spec_of db t of
         None \<Rightarrow> None
       | Some spec \<Rightarrow> Some
           \<lparr>tk_guid = rt_guid t, tk_identifier = ts_bpmn_identifier spec, tk_name = ts_bpmn_name spec,
            tk_typename = ts_typename spec,
            tk_state = (if rt_guid t \<in> set (failed_task_guids db tenant pid) then ''ERROR'' else rt_state t),
            tk_changed = last_state_change env (rt_properties t),
            tk_called = (if ts_typename spec = ''CallActivity'' then dget (dict_items (ts_properties spec)) ''spec'' else PNone)\<rparr>)
       (filter (\<lambda>t. rt_instance t = pid \<and> rt_tenant t = tenant) (rd_tasks db)))"

definition TERMINAL_TASK_STATES :: "string list" where
  "TERMINAL_TASK_STATES = [''COMPLETED'', ''ERROR'', ''CANCELLED'']"

text \<open>Only the tasks that had finished when the given one did.\<close>

definition as_of_task :: "string option \<Rightarrow> task_mark list \<Rightarrow> api_error + task_mark list" where
  "as_of_task to_task_guid tasks =
     (case to_task_guid of
        None \<Rightarrow> Inr tasks
      | Some guid \<Rightarrow>
          (case find (\<lambda>t. tk_guid t = guid) tasks of
             None \<Rightarrow> Inl (ApiError ''not_found'' ''Task not found for this process instance'' 404)
           | Some target \<Rightarrow>
               (case tk_changed target of
                  Some until \<Rightarrow>
                    if tk_state target \<notin> {''COMPLETED'', ''ERROR''}
                    then Inl (ApiError ''task_cannot_be_viewed_at'' ''Only completed or failed tasks can be viewed at a point in time'' 400)
                    else Inr (filter (\<lambda>t. tk_state t \<in> set TERMINAL_TASK_STATES \<and>
                           (case tk_changed t of None \<Rightarrow> False | Some c \<Rightarrow> c \<le> until)) tasks)
                | None \<Rightarrow>
                    Inl (ApiError ''task_cannot_be_viewed_at'' ''Only completed or failed tasks can be viewed at a point in time'' 400))))"

definition within_process :: "string \<Rightarrow> task_mark list \<Rightarrow> task_mark list" where
  "within_process called tasks =
     (let prefix = called @ ''::'' in
      map (\<lambda>t. t\<lparr>tk_identifier := drop (length prefix) (tk_identifier t)\<rparr>)
        (filter (\<lambda>t. startswith (tk_identifier t) prefix) tasks))"

record instance_detail =
  dt_id :: int
  dt_tenant :: string
  dt_model :: string
  dt_display :: string
  dt_status :: string
  dt_started_by :: string
  dt_started_at :: "int option"
  dt_ended_at :: "int option"
  dt_updated_at :: int
  dt_milestone :: "string option"
  dt_bpmn_xml :: "string option"
  dt_tasks :: "task_mark list"
  dt_called_process :: "(string \<times> string option) option"
  dt_error :: "string option"

text \<open>The diagram that is shown with the tasks on it, and the called process, if one was asked for.\<close>

definition shown_process ::
  "query_env \<Rightarrow> nat \<Rightarrow> runtime_db \<Rightarrow> string \<Rightarrow> string option \<Rightarrow> pyval list \<Rightarrow> string option \<Rightarrow> task_mark list \<Rightarrow> index_cache \<Rightarrow>
    (api_error + string option \<times> task_mark list \<times> (string \<times> string option) option) \<times> index_cache" where
  "shown_process env bind db tenant own_xml called_identifiers wanted tasks cache =
     (case wanted of
        None \<Rightarrow> (Inr (own_xml, tasks, None), cache)
      | Some called \<Rightarrow>
          if PStr called \<notin> set called_identifiers
          then (Inl (ApiError ''not_found'' ''Called process not found for this process instance'' 404), cache)
          else
            (case resolve_definition (qe_catalog env) (qe_disk env) bind (rd_definitions db) tenant called cache of
               (Inl e, cache') \<Rightarrow> (Inl (ApiError ''not_found'' ''The called process diagram is not available'' 404), cache')
             | (Inr child, cache') \<Rightarrow>
                 (Inr (df_bpmn_xml child, within_process called tasks, Some (called, df_model child)), cache')))"

definition own_diagram :: "runtime_db \<Rightarrow> string \<Rightarrow> instance_row \<Rightarrow> string option" where
  "own_diagram db tenant r =
     (case definition_by_id db (ir_definition r) of
        Some d \<Rightarrow> if df_tenant d = tenant then df_bpmn_xml d else None
      | None \<Rightarrow> None)"

definition get_instance_detail_for_designer ::
  "query_env \<Rightarrow> nat \<Rightarrow> runtime_db \<Rightarrow> string option \<Rightarrow> int \<Rightarrow> string option \<Rightarrow> string option \<Rightarrow> index_cache \<Rightarrow>
    (api_error + instance_detail option) \<times> index_cache" where
  "get_instance_detail_for_designer env bind db tenant pid to_task_guid wanted cache =
     (case find (\<lambda>r. ir_id r = pid \<and> in_tenant tenant (ir_tenant r)) (rd_instances db) of
        None \<Rightarrow> (Inr None, cache)
      | Some r \<Rightarrow>
          (let here = ir_tenant r; marks = task_marks env db here pid in
           case as_of_task to_task_guid marks of
             Inl e \<Rightarrow> (Inl e, cache)
           | Inr tasks \<Rightarrow>
               (case shown_process env bind db here (own_diagram db here r) (map tk_called marks) wanted tasks cache of
                  (Inl e, cache') \<Rightarrow> (Inl e, cache')
                | (Inr (xml_source, shown, called), cache') \<Rightarrow>
                    (Inr (Some \<lparr>dt_id = ir_id r, dt_tenant = here, dt_model = ir_model r,
                       dt_display = fst (display_name_for_row (qe_catalog env) (qe_disk env) here (ir_model r) (ir_display r) []),
                       dt_status = ir_status r, dt_started_by = or_default (username_of db r) [],
                       dt_started_at = ir_started_at r, dt_ended_at = ir_ended_at r, dt_updated_at = ir_updated_at r,
                       dt_milestone = ir_milestone r, dt_bpmn_xml = xml_source, dt_tasks = shown, dt_called_process = called,
                       dt_error = (if ir_status r = ''error'' then latest_error (list_instance_errors db here pid) else None)\<rparr>),
                     cache'))))"

subsection \<open>The data of a task\<close>

type_synonym task_items = "(string \<times> pyval) list"

text \<open>\<open>while guid in tasks\<close>: a task and its parents, the task first; \<open>None\<close> where the walk is still going
  on when the depth is used up.\<close>

fun parent_chain :: "nat \<Rightarrow> task_items \<Rightarrow> pyval \<Rightarrow> task_items list option" where
  "parent_chain 0 tasks guid = None"
| "parent_chain (Suc n) tasks guid =
     (case Option.bind (str_of guid) (map_of tasks) of
        None \<Rightarrow> Some []
      | Some t \<Rightarrow> map_option (\<lambda>chain. dict_items t # chain) (parent_chain n tasks (dget (dict_items t) ''parent'')))"

definition own_data :: "task_items \<Rightarrow> task_items" where
  "own_data task = dict_items (py_or (dget task ''data'') (PDict []))"

text \<open>A delta, and the step from a task's data to its child's.\<close>

definition apply_delta :: "task_items \<Rightarrow> task_items \<Rightarrow> task_items" where
  "apply_delta delta held =
     filter (\<lambda>(k, v). PStr k \<notin> set (list_items (dget delta ''deletions'')))
       (dmerge held (dict_items (dget delta ''updates'')))"

definition replay_step :: "task_items \<Rightarrow> task_items \<Rightarrow> task_items" where
  "replay_step task held =
     (let delta = dget task ''delta'' in if truthy delta then apply_delta (dict_items delta) held else own_data task)"

definition replay :: "task_items list \<Rightarrow> task_items" where
  "replay chain = fold replay_step (rev (butlast chain)) (own_data (last chain))"

definition workflow_states :: "pyval \<Rightarrow> pyval list" where
  "workflow_states state = state # map snd (dict_items (dget (dict_items state) ''subprocesses''))"

definition tasks_in :: "pyval \<Rightarrow> task_items" where
  "tasks_in state = dict_items (dget (dict_items state) ''tasks'')"

text \<open>The first workflow state that has the task. A parent is a task of the same state, so that a walk
  that is longer than the number of tasks never ends.\<close>

fun data_in_states :: "pyval list \<Rightarrow> string \<Rightarrow> task_items option" where
  "data_in_states [] guid = Some []"
| "data_in_states (state # states) guid =
     (case parent_chain (Suc (length (tasks_in state))) (tasks_in state) (PStr guid) of
        None \<Rightarrow> None
      | Some [] \<Rightarrow> data_in_states states guid
      | Some chain \<Rightarrow> Some (replay chain))"

definition task_data_from_workflow_state :: "pyval option \<Rightarrow> string \<Rightarrow> task_items option" where
  "task_data_from_workflow_state state guid =
     (case state of None \<Rightarrow> Some [] | Some s \<Rightarrow> data_in_states (workflow_states s) guid)"

record task_view_data =
  tv_guid :: string
  tv_identifier :: string
  tv_bpmn_name :: "string option"
  tv_typename :: string
  tv_state :: string
  tv_changed :: "rat option"
  tv_data :: task_items

text \<open>\<open>None\<close> where the request does not return; \<open>Some None\<close> where there is no such task.\<close>

definition get_instance_task_for_designer ::
  "query_env \<Rightarrow> runtime_db \<Rightarrow> string \<Rightarrow> int \<Rightarrow> string \<Rightarrow> task_view_data option option" where
  "get_instance_task_for_designer env db tenant pid guid =
     (case find (\<lambda>t. rt_guid t = guid \<and> rt_instance t = pid \<and> rt_tenant t = tenant \<and> spec_of db t \<noteq> None) (rd_tasks db) of
        None \<Rightarrow> Some None
      | Some t \<Rightarrow>
          (case spec_of db t of
             None \<Rightarrow> Some None
           | Some spec \<Rightarrow>
               map_option (\<lambda>data. Some
                 \<lparr>tv_guid = rt_guid t, tv_identifier = ts_bpmn_identifier spec, tv_bpmn_name = ts_bpmn_name spec,
                  tv_typename = ts_typename spec, tv_state = rt_state t, tv_changed = last_state_change env (rt_properties t),
                  tv_data = data\<rparr>)
                 (if dict_items (rt_data t) \<noteq> [] then Some (dict_items (rt_data t))
                  else task_data_from_workflow_state (Option.bind (instance_of db pid) ir_state) guid)))"

end
