(* ===== verification/Instance_View_Laws.thy ===== *)
theory Instance_View_Laws
  imports Instance_Views "HOL-Library.Multiset"
begin

text \<open>What the instance pages show: whole listings, counts that agree with them, and an event log that is complete.\<close>

subsection \<open>The Process Instances page\<close>

lemma map_listed_rows: "map li_id (listed_rows env db user rs cache) = map ir_id rs"
  by (induction rs arbitrary: cache) (simp_all add: case_prod_unfold Let_def)

lemma in_listed_rows: "row \<in> set (listed_rows env db user rs cache) \<Longrightarrow> \<exists>r \<in> set rs. li_id row = ir_id r \<and> li_tenant row = ir_tenant r"
  by (induction rs arbitrary: cache) (auto simp: case_prod_unfold Let_def)

lemma in_page_of_rows: "x \<in> set (page_of_rows page per_page xs) \<Longrightarrow> x \<in> set xs"
  by (auto simp: page_of_rows_def dest: in_set_takeD in_set_dropD)

lemma set_ordered_instances [simp]: "set (ordered_instances env db q) = {r \<in> set (rd_instances db). instance_selected db q r}"
  by (simp add: ordered_instances_def)

lemma listed_instance_selected:
  "row \<in> set (fst (list_instances_for_designer env db q)) \<Longrightarrow>
   \<exists>r \<in> set (rd_instances db). li_id row = ir_id r \<and> li_tenant row = ir_tenant r \<and> instance_selected db q r"
  by (auto simp: list_instances_for_designer_def Let_def dest!: in_listed_rows in_page_of_rows)

lemma instance_selected_page [simp]: "instance_selected db (q\<lparr>iq_page := p\<rparr>) = instance_selected db q"
  by (simp add: fun_eq_iff instance_selected_def)

lemma ordered_instances_page [simp]: "ordered_instances env db (q\<lparr>iq_page := p\<rparr>) = ordered_instances env db q"
  by (simp add: ordered_instances_def)

lemma pages_cover:
  assumes "1 \<le> m" "0 \<le> n"
  shows "n \<le> (n + m - 1) div m * m" "0 \<le> (n + m - 1) div (m :: int)"
proof -
  have "(n + m - 1) mod m < m" using assms(1) by simp
  moreover have "n + m - 1 = (n + m - 1) div m * m + (n + m - 1) mod m" by simp
  ultimately show "n \<le> (n + m - 1) div m * m" by linarith
  show "0 \<le> (n + m - 1) div m" using assms by (simp add: pos_imp_zdiv_nonneg_iff)
qed

text \<open>The pages of the Process Instances page, put together, are the instances that the filters, the tenant and
  the scope select, each once and in the order asked for, and the total is their number.\<close>

theorem instance_pages_tile_the_listing:
  "concat (map (\<lambda>p. map li_id (fst (list_instances_for_designer env db (q\<lparr>iq_page := p\<rparr>))))
     [1..pg_pages (snd (list_instances_for_designer env db q))]) = map ir_id (ordered_instances env db q) \<and>
   mset (ordered_instances env db q) = mset (filter (instance_selected db q) (rd_instances db)) \<and>
   pg_total (snd (list_instances_for_designer env db q)) = int (length (ordered_instances env db q))"
proof (intro conjI)
  let ?m = "capped 100 (iq_per_page q)" and ?xs = "ordered_instances env db q"
  have m: "1 \<le> ?m" using capped_bounds [of 100] by simp
  have n: "length (filter (instance_selected db q) (rd_instances db)) = length ?xs"
    by (simp add: ordered_instances_def)
  let ?k = "(int (length ?xs) + ?m - 1) div ?m"
  have k: "pg_pages (snd (list_instances_for_designer env db q)) = ?k"
    by (simp add: list_instances_for_designer_def Let_def n)
  have "map li_id (fst (list_instances_for_designer env db (q\<lparr>iq_page := p\<rparr>))) = map ir_id (page_of_rows p ?m ?xs)"
    if "1 \<le> p" for p
    using that by (simp add: list_instances_for_designer_def Let_def map_listed_rows)
  then have "concat (map (\<lambda>p. map li_id (fst (list_instances_for_designer env db (q\<lparr>iq_page := p\<rparr>)))) [1..?k])
      = concat (map (\<lambda>p. map ir_id (page_of_rows p ?m ?xs)) [1..?k])"
    by (intro arg_cong [of _ _ concat] map_cong) auto
  also have "\<dots> = map ir_id (concat (map (\<lambda>p. page_of_rows p ?m ?xs) [1..?k]))" by (simp add: map_concat comp_def)
  also have "\<dots> = map ir_id ?xs"
    using m pages_cover [OF m, of "int (length ?xs)"] by (subst instance_pages_tile) auto
  finally show "concat (map (\<lambda>p. map li_id (fst (list_instances_for_designer env db (q\<lparr>iq_page := p\<rparr>))))
     [1..pg_pages (snd (list_instances_for_designer env db q))]) = map ir_id ?xs" unfolding k .
qed (simp_all add: ordered_instances_def list_instances_for_designer_def Let_def)

subsection \<open>Tasks\<close>

text \<open>The tables as the engine keeps them: keys are unique, and a work item belongs to an instance of its own tenant.\<close>

definition work_consistent :: "runtime_db \<Rightarrow> bool" where
  "work_consistent db \<longleftrightarrow>
     distinct (map ir_id (rd_instances db)) \<and> distinct (map wk_id (rd_work db)) \<and>
     (\<forall>w \<in> set (rd_work db). \<exists>r \<in> set (rd_instances db). ir_id r = wk_instance w \<and> ir_tenant r = wk_tenant w)"

lemma instance_of_work:
  assumes "work_consistent db" "w \<in> set (rd_work db)"
  obtains r where "instance_of db (wk_instance w) = Some r" "ir_tenant r = wk_tenant w"
    "find (\<lambda>r. ir_id r = wk_instance w \<and> ir_tenant r = wk_tenant w) (rd_instances db) = Some r"
proof -
  from assms obtain r where r: "r \<in> set (rd_instances db)" "ir_id r = wk_instance w" "ir_tenant r = wk_tenant w"
    and keys: "distinct (map ir_id (rd_instances db))"
    unfolding work_consistent_def by blast
  then have only: "x = r" if "x \<in> set (rd_instances db)" "ir_id x = wk_instance w" for x
    using that by (auto simp: distinct_map inj_on_def)
  have "instance_of db (wk_instance w) = Some r"
    unfolding instance_of_def by (rule find_the_only [OF r(1)]) (simp_all add: r only)
  moreover have "find (\<lambda>r. ir_id r = wk_instance w \<and> ir_tenant r = wk_tenant w) (rd_instances db) = Some r"
    by (rule find_the_only [OF r(1)]) (simp_all add: r only)
  ultimately show ?thesis using that r(3) by blast
qed

lemma running_not_suspended:
  assumes "work_consistent db" "w \<in> set (rd_work db)"
  shows "running db w \<longleftrightarrow> \<not> suspended_here db (wk_tenant w) (wk_instance w)"
  by (rule instance_of_work [OF assms]) (simp add: running_def suspended_here_def)

lemma work_id_unique:
  "work_consistent db \<Longrightarrow> v \<in> set (rd_work db) \<Longrightarrow> w \<in> set (rd_work db) \<Longrightarrow> wk_id v = wk_id w \<Longrightarrow> v = w"
  by (auto simp: work_consistent_def distinct_map inj_on_def)

lemma open_task_row_id [simp]: "ot_id (open_task_row w waits) = wk_id w"
  by (simp add: open_task_row_def)


subsection \<open>Statistics\<close>

lemma run_stats_group:
  "in_tenant sel tenant \<Longrightarrow>
   filter (\<lambda>r. run_key r = (tenant, model)) (filter (\<lambda>r. in_tenant sel (ir_tenant r)) (rd_instances db))
     = filter (of_model tenant model) (rd_instances db)"
  by (auto simp: run_key_def of_model_def in_tenant_def intro!: filter_cong split: option.splits)

text \<open>The Processes page and the page of a model tell the same: the row of a model has the last run and the runs of
  thirty days of its own page, there is such a row exactly where the guard of its deletion counts an instance,
  and models of the same name in two tenants are kept apart, in the view of all tenants, too.\<close>

theorem run_stats_agree_with_the_model_page:
  assumes "in_tenant sel tenant"
  shows "map_of (process_model_run_stats env db sel) (tenant, model) =
    (if count_instances_for_process_model db tenant model = 0 then None
     else let s = process_model_detail_stats env db tenant model in Some (ms_last_run s, ms_runs_30d s))"
proof -
  let ?rows = "filter (\<lambda>r. in_tenant sel (ir_tenant r)) (rd_instances db)"
  let ?f = "\<lambda>k. let g = filter (\<lambda>r. run_key r = k) ?rows in (last_run g, int (length (filter (recent_run env) g)))"
  have "map_of (process_model_run_stats env db sel) = map_of (map (\<lambda>k. (k, ?f k)) (group_keys run_key ?rows))"
    by (simp add: process_model_run_stats_def Let_def)
  also have "\<dots> = (\<lambda>k. if k \<in> set (group_keys run_key ?rows) then Some (?f k) else None)"
    by (induction "group_keys run_key ?rows") (auto simp: fun_eq_iff map_of_map_restrict restrict_map_def)
  finally have look: "map_of (process_model_run_stats env db sel) (tenant, model) =
    (if (tenant, model) \<in> set (group_keys run_key ?rows) then Some (?f (tenant, model)) else None)" by simp
  have "(tenant, model) \<in> set (group_keys run_key ?rows) \<longleftrightarrow> filter (of_model tenant model) (rd_instances db) \<noteq> []"
    using assms by (auto simp: group_keys_def run_key_def of_model_def filter_empty_conv image_iff)
  moreover have "?f (tenant, model) = (let s = process_model_detail_stats env db tenant model in (ms_last_run s, ms_runs_30d s))"
    unfolding Let_def run_stats_group [OF assms] by (simp add: process_model_detail_stats_def Let_def)
  ultimately show ?thesis unfolding look by (simp add: count_instances_for_process_model_def Let_def)
qed

subsection \<open>The event log\<close>

lemma some_values_set [simp]: "set (some_values xs) = {x. Some x \<in> set xs}"
  by (induction xs rule: some_values.induct) auto

lemma recorded_event_key [simp]: "event_key (recorded_event env db tenant pid e) = (er_guid e, er_type e)"
  by (simp add: recorded_event_def event_key_def Let_def)

lemma synthesized_event_key [simp]: "event_key (synthesized_event env db (t, spec, ty)) = (Some (rt_guid t), ty)"
  by (simp add: synthesized_event_def event_key_def)

lemma with_error_key [simp]: "event_key (with_error errs r) = event_key r" "le_id (with_error errs r) = le_id r"
  by (simp_all add: with_error_def event_key_def)

lemma event_task_fields:
  "(t, spec, ty) \<in> set (event_tasks db tenant pid) \<Longrightarrow>
   t \<in> set (filter (\<lambda>t. rt_instance t = pid \<and> rt_tenant t = tenant) (rd_tasks db)) \<and>
   spec_of db t = Some spec \<and> map_of TASK_EVENT_BY_STATE (rt_state t) = Some ty"
  by (auto simp: event_tasks_def image_iff split: option.splits if_splits)

lemma event_tasks_keys:
  assumes "distinct (map rt_guid (filter (\<lambda>t. rt_instance t = pid \<and> rt_tenant t = tenant) (rd_tasks db)))"
  shows "distinct (map (\<lambda>(t, spec, ty). (Some (rt_guid t), ty)) (event_tasks db tenant pid))"
proof -
  have "distinct (map (\<lambda>(t, spec, ty). rt_guid t) (some_values (map (\<lambda>t.
       case (spec_of db t, map_of TASK_EVENT_BY_STATE (rt_state t)) of
         (Some spec, Some event_type) \<Rightarrow>
           if ts_typename spec \<in> set SPIFF_INTERNAL_TASK_TYPES then None else Some (t, spec, event_type)
       | _ \<Rightarrow> None) ts)))" if "distinct (map rt_guid ts)" for ts
    using that by (induction ts) (auto split: option.splits if_splits)
  from this [OF assms] have "distinct (map (\<lambda>(t, spec, ty). rt_guid t) (event_tasks db tenant pid))"
    by (simp only: event_tasks_def)
  also have "map (\<lambda>(t, spec, ty). rt_guid t) (event_tasks db tenant pid)
      = map (\<lambda>k. the (fst k)) (map (\<lambda>(t, spec, ty). (Some (rt_guid t), ty)) (event_tasks db tenant pid))"
    by (auto simp: comp_def)
  finally show ?thesis by (auto simp: distinct_map dest: inj_on_imageI2)
qed

lemma filter_key_absent: "k \<notin> f ` set xs \<Longrightarrow> filter (\<lambda>y. f y = k) xs = []"
  by (auto simp: filter_empty_conv)

lemma count_distinct_key:
  "distinct (map f xs) \<Longrightarrow> x \<in> set xs \<Longrightarrow> length (filter (\<lambda>y. f y = f x) xs) = 1"
proof (induction xs)
  case (Cons a xs)
  show ?case
  proof (cases "f a = f x")
    case True
    with Cons.prems(1) have "filter (\<lambda>y. f y = f x) xs = []"
      unfolding filter_empty_conv by (metis distinct.simps(2) image_eqI list.set_map list.simps(9))
    with True show ?thesis by simp
  qed (use Cons in auto)
qed simp


subsection \<open>The guard of a group's deletion\<close>

text \<open>No model of the group, or below it, is missed, as long as its name has no backslash.\<close>


lemma sql_like_self: "CHR 0x5C \<notin> set p \<Longrightarrow> sql_like (p @ ''%'') (p @ s)"
proof (induction p)
  case (Cons c p)
  then have "sql_like (p @ ''%'') (p @ s)" by simp
  moreover have "sql_like (c # p @ ''%'') (c # x)" if "c = CHR ''%''" "sql_like (p @ ''%'') x" for x
    using that by (cases x) auto
  ultimately show ?case using Cons.prems by (cases "c = CHR ''%''") auto
qed simp

lemma sql_startswith_if: "CHR 0x5C \<notin> set p \<Longrightarrow> startswith s p \<Longrightarrow> sql_startswith p s"
  by (auto simp: sql_startswith_def startswith_iff sql_like_self)

lemma group_count_zero:
  assumes "count_instances_for_process_group db tenant group_id = 0" "CHR 0x5C \<notin> set group_id"
    "r \<in> set (rd_instances db)" "ir_tenant r = tenant"
  shows "ir_model r \<noteq> group_id \<and> \<not> startswith (ir_model r) (rstrip_if (\<lambda>c. c = CHR ''/'') group_id @ ''/'')"
proof -
  have "set (rstrip_if (\<lambda>c. c = CHR ''/'') group_id) \<subseteq> set group_id"
    unfolding rstrip_if_def by (auto dest!: set_dropWhileD)
  then have "CHR 0x5C \<notin> set (rstrip_if (\<lambda>c. c = CHR ''/'') group_id @ ''/'')" using assms(2) by auto
  then have "startswith (ir_model r) (rstrip_if (\<lambda>c. c = CHR ''/'') group_id @ ''/'') \<Longrightarrow> of_group tenant group_id r"
    using assms(4) by (simp add: of_group_def sql_startswith_if)
  moreover have "\<not> of_group tenant group_id r"
    using assms(1,3) by (auto simp: count_instances_for_process_group_def filter_empty_conv)
  ultimately show ?thesis using assms(4) by (auto simp: of_group_def)
qed

end
