(* ===== verification/Diagram_Only.thy ===== *)
theory Diagram_Only
  imports Py_Text
begin

text \<open>
  The diagram for readers who may not read the model's files (workflow/__init__.py, \<open>diagram_only_bpmn_xml\<close>):
  a document as lxml holds it, with the text between elements as nodes of its own, entity references left as
  they are, and comments and processing instructions dropped by the parser, which is an argument. A name is
  its namespace and its local part.
\<close>

type_synonym qname = "string option \<times> string"

datatype bpmn_node =
    Tag qname "(qname \<times> string) list" "bpmn_node list"
  | Chars string
  | EntityRef string

definition DIAGRAM_NAMESPACES :: "string list" where
  "DIAGRAM_NAMESPACES =
     [''http://www.omg.org/spec/BPMN/20100524/MODEL'', ''http://www.omg.org/spec/BPMN/20100524/DI'',
      ''http://www.omg.org/spec/DD/20100524/DC'', ''http://www.omg.org/spec/DD/20100524/DI'',
      ''http://www.w3.org/2001/XMLSchema-instance'', ''http://bpmn.io/schema/bpmn/biocolor/1.0'',
      ''http://www.omg.org/spec/BPMN/non-normative/color/1.0'']"

definition BPMN_LOGIC_TEXT_TAGS :: "string list" where
  "BPMN_LOGIC_TEXT_TAGS =
     [''script'', ''conditionExpression'', ''completionCondition'', ''loopCardinality'', ''loopCondition'',
      ''activationCondition'', ''condition'', ''timeDate'', ''timeDuration'', ''timeCycle'', ''formalExpression'',
      ''messagePath'', ''dataPath'', ''transformation'', ''from'', ''to'']"

definition in_diagram :: "string option \<Rightarrow> bool" where
  "in_diagram ns \<longleftrightarrow> (case ns of None \<Rightarrow> False | Some n \<Rightarrow> n \<in> set DIAGRAM_NAMESPACES)"

definition foreign_element :: "qname \<Rightarrow> bool" where
  "foreign_element name \<longleftrightarrow> \<not> in_diagram (fst name) \<or> snd name = ''extensionElements''"

definition keep_attribute :: "qname \<times> string \<Rightarrow> bool" where
  "keep_attribute a \<longleftrightarrow> fst (fst a) = None \<or> in_diagram (fst (fst a))"

fun is_chars :: "bpmn_node \<Rightarrow> bool" where
  "is_chars (Chars t) = True"
| "is_chars _ = False"

text \<open>\<open>element.text = None\<close> takes the text before the first child; removing an element takes the text after it.\<close>

definition clear_text :: "string \<Rightarrow> bpmn_node list \<Rightarrow> bpmn_node list" where
  "clear_text local kids = (if local \<in> set BPMN_LOGIC_TEXT_TAGS then dropWhile is_chars kids else kids)"

lemma size_dropWhile: "size_list f (dropWhile P xs) \<le> size_list f xs"
  by (induction xs) auto

lemma size_clear_text: "size_list f (clear_text local kids) \<le> size_list f kids"
  by (simp add: clear_text_def size_dropWhile)

function prune_nodes :: "bpmn_node list \<Rightarrow> bpmn_node list" where
  "prune_nodes [] = []"
| "prune_nodes (Chars t # ns) = Chars t # prune_nodes ns"
| "prune_nodes (EntityRef e # ns) = EntityRef e # prune_nodes ns"
| "prune_nodes (Tag name attrs kids # ns) =
     (if foreign_element name then prune_nodes (dropWhile is_chars ns)
      else Tag name (filter keep_attribute attrs) (prune_nodes (clear_text (snd name) kids)) # prune_nodes ns)"
  by pat_completeness auto
termination
  by (relation "measure (size_list size)")
    (auto simp: less_Suc_eq_le intro: order_trans [OF size_dropWhile] order_trans [OF size_clear_text] trans_le_add1 trans_le_add2)

text \<open>\<open>None\<close> where the document does not parse, or is not BPMN.\<close>

definition diagram_only_bpmn_xml :: "(string \<Rightarrow> bpmn_node option) \<Rightarrow> string \<Rightarrow> bpmn_node option" where
  "diagram_only_bpmn_xml parse source =
     (case parse source of
        Some (Tag name attrs kids) \<Rightarrow>
          if foreign_element name then None else Some (hd (prune_nodes [Tag name attrs kids]))
      | _ \<Rightarrow> None)"

subsection \<open>What is left\<close>

text \<open>An element of a pruned diagram: its name, its attributes, and no text of its own before the first child where its text is logic.\<close>

fun every_element :: "(qname \<Rightarrow> (qname \<times> string) list \<Rightarrow> bpmn_node list \<Rightarrow> bool) \<Rightarrow> bpmn_node \<Rightarrow> bool" where
  "every_element P (Tag name attrs kids) \<longleftrightarrow> P name attrs kids \<and> list_all (every_element P) kids"
| "every_element P (Chars t) = True"
| "every_element P (EntityRef e) = True"

definition only_drawing :: "qname \<Rightarrow> (qname \<times> string) list \<Rightarrow> bpmn_node list \<Rightarrow> bool" where
  "only_drawing name attrs kids \<longleftrightarrow>
     in_diagram (fst name) \<and> snd name \<noteq> ''extensionElements'' \<and>
     (\<forall>a \<in> set attrs. fst (fst a) = None \<or> in_diagram (fst (fst a))) \<and>
     (snd name \<in> set BPMN_LOGIC_TEXT_TAGS \<longrightarrow> kids = [] \<or> \<not> is_chars (hd kids))"

text \<open>The elements that are drawn: those that no foreign element contains, in document order, with the attributes that stay.\<close>

fun drawn :: "bpmn_node \<Rightarrow> (qname \<times> (qname \<times> string) list) list" where
  "drawn (Tag name attrs kids) =
     (if foreign_element name then [] else (name, filter keep_attribute attrs) # concat (map drawn kids))"
| "drawn (Chars t) = []"
| "drawn (EntityRef e) = []"

fun elements :: "bpmn_node \<Rightarrow> (qname \<times> (qname \<times> string) list) list" where
  "elements (Tag name attrs kids) = (name, attrs) # concat (map elements kids)"
| "elements (Chars t) = []"
| "elements (EntityRef e) = []"

lemma drawn_chars: "is_chars n \<Longrightarrow> drawn n = []"
  by (cases n) auto

lemma drawn_dropWhile: "concat (map drawn (dropWhile is_chars ns)) = concat (map drawn ns)"
  by (induction ns) (auto simp: drawn_chars)

lemma drawn_clear_text: "concat (map drawn (clear_text local kids)) = concat (map drawn kids)"
  by (simp add: clear_text_def drawn_dropWhile)

lemma elements_prune: "concat (map elements (prune_nodes ns)) = concat (map drawn ns)"
  by (induction ns rule: prune_nodes.induct) (auto simp: drawn_dropWhile drawn_clear_text)

lemma prune_dropWhile_hd:
  "prune_nodes (dropWhile is_chars ns) = [] \<or> \<not> is_chars (hd (prune_nodes (dropWhile is_chars ns)))"
proof (induction "length ns" arbitrary: ns rule: less_induct)
  case less
  show ?case
  proof (cases "dropWhile is_chars ns")
    case (Cons n rest)
    then have n: "\<not> is_chars n" by (metis dropWhile_eq_Cons_conv)
    have "length rest < length ns" using length_dropWhile_le [of is_chars ns] Cons by simp
    from less.hyps [OF this] n Cons show ?thesis by (cases n) auto
  next
    case Nil
    show ?thesis unfolding Nil by simp
  qed
qed

lemma prune_clear_text:
  "local \<in> set BPMN_LOGIC_TEXT_TAGS \<Longrightarrow>
   prune_nodes (clear_text local kids) = [] \<or> \<not> is_chars (hd (prune_nodes (clear_text local kids)))"
  using prune_dropWhile_hd by (simp add: clear_text_def)

lemma prune_only_drawing: "list_all (every_element only_drawing) (prune_nodes ns)"
proof (induction ns rule: prune_nodes.induct)
  case (4 name attrs kids ns)
  show ?case
  proof (cases "foreign_element name")
    case True
    with 4 show ?thesis by simp
  next
    case False
    with prune_clear_text [of "snd name" kids]
    have "only_drawing name (filter keep_attribute attrs) (prune_nodes (clear_text (snd name) kids))"
      by (auto simp: only_drawing_def foreign_element_def keep_attribute_def)
    with False 4 show ?thesis by simp
  qed
qed auto

lemma prune_one: "\<not> foreign_element name \<Longrightarrow> \<exists>attrs' kids'. prune_nodes [Tag name attrs kids] = [Tag name attrs' kids']"
  by simp

lemma diagram_of: "diagram_only_bpmn_xml parse source = Some diagram \<Longrightarrow>
   \<exists>name attrs kids. parse source = Some (Tag name attrs kids) \<and> prune_nodes [Tag name attrs kids] = [diagram]"
proof (cases "parse source")
  case (Some node)
  assume d: "diagram_only_bpmn_xml parse source = Some diagram"
  with Some obtain name attrs kids where "node = Tag name attrs kids" by (cases node) (auto simp: diagram_only_bpmn_xml_def)
  with Some d show ?thesis by (cases "foreign_element name") (auto simp: diagram_only_bpmn_xml_def)
qed (simp add: diagram_only_bpmn_xml_def)


text \<open>Text after a child of a script is the child's tail, which stays.\<close>

definition BPMN :: string where "BPMN = ''http://www.omg.org/spec/BPMN/20100524/MODEL''"

definition nested_script :: bpmn_node where
  "nested_script = Tag (Some BPMN, ''definitions'') []
     [Tag (Some BPMN, ''script'') [] [Chars ''a = 1'', Tag (Some BPMN, ''documentation'') [] [], Chars ''key = 42'']]"

lemma nested_text_of_a_script_stays:
  "diagram_only_bpmn_xml (\<lambda>_. Some nested_script) [] =
     Some (Tag (Some BPMN, ''definitions'') []
       [Tag (Some BPMN, ''script'') [] [Tag (Some BPMN, ''documentation'') [] [], Chars ''key = 42'']])"
  by code_simp


end
