(* ===== verification/Instance_Routes.thy ===== *)
theory Instance_Routes
  imports Instance_View_Laws Diagram_Only Templates
begin

text \<open>
  The routes of routes/process_instances_controller.py, from the permission check
  (authorization/decorators.py) over the tenant of the request to the query or command behind it. A caller
  without tenant-wide read is kept to instances of their own. \<open>names\<close> is the tenant table's names.
\<close>

subsection \<open>The checks in front of a route\<close>

definition not_authenticated :: call_failure where
  "not_authenticated = api_failure ''not_authenticated'' ''User not authenticated'' 401"

text \<open>\<open>@require_permission\<close>: what a denied caller gets is an error, or \<open>None\<close> where the route answers with an empty page.\<close>

definition require_permission :: "web \<Rightarrow> string \<Rightarrow> string \<Rightarrow> call_failure option \<Rightarrow> call_failure + actor option" where
  "require_permission w verb uri denied =
     (case g_user w of
        None \<Rightarrow> Inl not_authenticated
      | Some u \<Rightarrow>
          if web_allows w (Some u) verb uri then Inr (Some u)
          else case denied of Some e \<Rightarrow> Inl e | None \<Rightarrow> Inr None)"

definition OWN_INSTANCES_URI :: string where
  "OWN_INSTANCES_URI = ''/v1.0/process-instances/for-me''"

definition instance_not_found :: call_failure where
  "instance_not_found = api_failure ''not_found'' ''Process instance not found'' 404"

definition with_tenant :: "(api_error + 't) \<times> request_state \<Rightarrow> web \<Rightarrow> ('t \<Rightarrow> web \<Rightarrow> call_failure + 'a) \<Rightarrow> call_failure + 'a" where
  "with_tenant bound w k =
     (case bound of (Inl e, _) \<Rightarrow> Inl (Refused e) | (Inr t, rs) \<Rightarrow> k t (w\<lparr>wb_rs := rs\<rparr>))"

definition read_tenant :: "web \<Rightarrow> (api_error + string option) \<times> request_state" where
  "read_tenant w = resolve_read_tenant_id (wb_te w) (g_user w) (wb_rs w)"

definition own_tenant :: "web \<Rightarrow> (api_error + string) \<times> request_state" where
  "own_tenant w = require_tenant_id (wb_te w) (g_user w) True (wb_rs w)"

definition initiator_scope :: "web \<Rightarrow> actor \<Rightarrow> int option" where
  "initiator_scope w u = instance_initiator_scope (request_context_of (wb_te w) (wb_rs w)) (wb_grants w) u"

definition instance_or_404 :: "web \<Rightarrow> runtime_db \<Rightarrow> int \<Rightarrow> string option \<Rightarrow> actor \<Rightarrow> bool \<Rightarrow> call_failure + instance_row" where
  "instance_or_404 w db pid tenant u manage =
     (case instance_of db pid of
        None \<Rightarrow> Inl instance_not_found
      | Some r \<Rightarrow>
          if \<not> in_tenant tenant (ir_tenant r) then Inl instance_not_found
          else case initiator_scope w u of
            None \<Rightarrow> Inr r
          | Some viewer \<Rightarrow>
              (let (started, assigned) = instance_relation db (ir_id r) viewer in
               if started \<or> (assigned \<and> \<not> manage) then Inr r else Inl instance_not_found))"

text \<open>\<open>_attach_tenant_names\<close>, on all-tenants reads only.\<close>

definition tenant_name :: "(string \<times> string) list \<Rightarrow> string option \<Rightarrow> string \<Rightarrow> string option" where
  "tenant_name names tenant i =
     (if tenant = None \<and> i \<noteq> [] then Some (or_default (or_str (map_of names i) (Some i)) []) else None)"

subsection \<open>Query arguments\<close>

definition arg_text :: "web \<Rightarrow> string \<Rightarrow> string option" where
  "arg_text w name = (case rs_args (wb_rs w) name of None \<Rightarrow> None | Some t \<Rightarrow> if t = [] then None else Some t)"

definition arg_int :: "web \<Rightarrow> string \<Rightarrow> int \<Rightarrow> int" where
  "arg_int w name otherwise =
     (case rs_args (wb_rs w) name of None \<Rightarrow> otherwise | Some raw \<Rightarrow> or_default (py_int raw) otherwise)"

subsection \<open>Lists\<close>

definition empty_page :: "(listed_instance \<times> string option) list \<times> page_counts" where
  "empty_page = ([], \<lparr>pg_count = 0, pg_total = 0, pg_pages = 0\<rparr>)"

definition instance_query_of :: "web \<Rightarrow> string option \<Rightarrow> actor \<Rightarrow> instance_query" where
  "instance_query_of w tenant u =
     (let scope = arg_text w ''scope'' in
      \<lparr>iq_tenant = tenant, iq_status = arg_text w ''status'', iq_search = arg_text w ''search'',
       iq_started_by = arg_text w ''started_by'', iq_sort = arg_text w ''sort'',
       iq_page = max 1 (arg_int w ''page'' 1), iq_per_page = capped 100 (arg_int w ''per_page'' 25),
       iq_viewer = (if scope \<noteq> None \<or> initiator_scope w u \<noteq> None then Some (ac_id u) else None),
       iq_scope = scope, iq_user = Some (ac_id u)\<rparr>)"

definition list_process_instances ::
  "web \<Rightarrow> query_env \<Rightarrow> runtime_db \<Rightarrow> (string \<times> string) list \<Rightarrow>
    call_failure + (listed_instance \<times> string option) list \<times> page_counts" where
  "list_process_instances w env db names =
     (case require_permission w ''GET'' OWN_INSTANCES_URI None of
        Inl e \<Rightarrow> Inl e
      | Inr None \<Rightarrow> Inr empty_page
      | Inr (Some u) \<Rightarrow>
          with_tenant (read_tenant w) w (\<lambda>tenant w.
            if arg_text w ''scope'' \<noteq> None \<and> arg_text w ''scope'' \<notin> Some ` set INSTANCE_SCOPES
            then Inl (api_failure ''invalid_scope'' (''scope must be one of '' @ join '', '' INSTANCE_SCOPES) 400)
            else (let (rows, counts) = list_instances_for_designer env db (instance_query_of w tenant u) in
                  Inr (map (\<lambda>r. (r, tenant_name names tenant (li_tenant r))) rows, counts))))"

definition list_process_instance_owners :: "web \<Rightarrow> runtime_db \<Rightarrow> call_failure + string list \<times> (int \<times> string) list" where
  "list_process_instance_owners w db =
     (case require_permission w ''GET'' OWN_INSTANCES_URI None of
        Inl e \<Rightarrow> Inl e
      | Inr None \<Rightarrow> Inr ([], [])
      | Inr (Some u) \<Rightarrow>
          with_tenant (read_tenant w) w (\<lambda>tenant w.
            if initiator_scope w u \<noteq> None then Inr ([], [])
            else Inr (list_instance_owners_for_designer db tenant, list_instance_owner_options_for_designer db tenant)))"

subsection \<open>One instance\<close>

datatype shown_diagram = No_diagram | Full_source string | Drawing "bpmn_node option"

record instance_view =
  ip_detail :: instance_detail
  ip_diagram :: shown_diagram
  ip_relation :: "bool \<times> bool"
  ip_tenant_name :: "string option"

definition diagram_model :: "instance_detail \<Rightarrow> string option" where
  "diagram_model dt = (case dt_called_process dt of Some (called, model) \<Rightarrow> model | None \<Rightarrow> Some (dt_model dt))"

text \<open>The path for an f-string; a model without an identifier formats as \<open>None\<close>.\<close>

definition model_files_uri :: "string option \<Rightarrow> string" where
  "model_files_uri model = ''/v1.0/process-model-files/'' @ or_default model ''None''"

definition diagram_for :: "web \<Rightarrow> actor \<Rightarrow> (string \<Rightarrow> bpmn_node option) \<Rightarrow> instance_detail \<Rightarrow> shown_diagram" where
  "diagram_for w u parse dt =
     (case dt_bpmn_xml dt of
        None \<Rightarrow> No_diagram
      | Some source \<Rightarrow>
          if web_allows w (Some u) ''GET'' (model_files_uri (diagram_model dt)) \<or> source = [] then Full_source source
          else Drawing (diagram_only_bpmn_xml parse source))"

text \<open>A read of one instance: permission, tenant, instance.\<close>

definition on_instance :: "web \<Rightarrow> runtime_db \<Rightarrow> int \<Rightarrow> (string option \<Rightarrow> web \<Rightarrow> actor \<Rightarrow> instance_row \<Rightarrow> call_failure + 'a) \<Rightarrow> call_failure + 'a" where
  "on_instance w db pid k =
     (case require_permission w ''GET'' OWN_INSTANCES_URI (Some instance_not_found) of
        Inl e \<Rightarrow> Inl e
      | Inr None \<Rightarrow> Inl instance_not_found
      | Inr (Some u) \<Rightarrow>
          with_tenant (read_tenant w) w (\<lambda>tenant w.
            case instance_or_404 w db pid tenant u False of Inl e \<Rightarrow> Inl e | Inr r \<Rightarrow> k tenant w u r))"

definition get_process_instance ::
  "web \<Rightarrow> query_env \<Rightarrow> nat \<Rightarrow> runtime_db \<Rightarrow> (string \<Rightarrow> bpmn_node option) \<Rightarrow> (string \<times> string) list \<Rightarrow> int \<Rightarrow> index_cache \<Rightarrow>
    (call_failure + instance_view)" where
  "get_process_instance w env bind db parse names pid cache =
     on_instance w db pid (\<lambda>tenant w u r.
       case fst (get_instance_detail_for_designer env bind db tenant pid
                   (arg_text w ''to_task_guid'') (arg_text w ''bpmn_process_identifier'') cache) of
         Inl e \<Rightarrow> Inl (Refused e)
       | Inr None \<Rightarrow> Inl instance_not_found
       | Inr (Some dt) \<Rightarrow>
           Inr \<lparr>ip_detail = dt, ip_diagram = diagram_for w u parse dt,
                ip_relation = instance_relation db pid (ac_id u), ip_tenant_name = tenant_name names tenant (dt_tenant dt)\<rparr>)"

definition get_process_instance_task ::
  "web \<Rightarrow> query_env \<Rightarrow> runtime_db \<Rightarrow> int \<Rightarrow> string \<Rightarrow> (call_failure + task_view_data) option" where
  "get_process_instance_task w env db pid guid =
     (case require_permission w ''GET'' (''/v1.0/task-data/'' @ int_str pid) (Some instance_not_found) of
        Inl e \<Rightarrow> Some (Inl e)
      | Inr _ \<Rightarrow>
          (case on_instance w db pid (\<lambda>tenant w u r. Inr r) of
             Inl e \<Rightarrow> Some (Inl e)
           | Inr r \<Rightarrow>
               map_option (\<lambda>found. case found of None \<Rightarrow> Inl (api_failure ''not_found'' ''Task not found'' 404) | Some t \<Rightarrow> Inr t)
                 (get_instance_task_for_designer env db (ir_tenant r) pid guid)))"

definition list_process_instance_events :: "web \<Rightarrow> query_env \<Rightarrow> runtime_db \<Rightarrow> int \<Rightarrow> call_failure + event_page" where
  "list_process_instance_events w env db pid =
     on_instance w db pid (\<lambda>tenant w u r.
       Inr (list_instance_events_for_designer env db (ir_tenant r) pid (arg_text w ''event_type'') (arg_text w ''task_type'')
              (max 1 (arg_int w ''page'' 1)) (capped 100 (arg_int w ''per_page'' 50))))"

definition list_process_instance_milestones :: "web \<Rightarrow> runtime_db \<Rightarrow> int \<Rightarrow> call_failure + (string \<times> string option \<times> int option) list" where
  "list_process_instance_milestones w db pid =
     on_instance w db pid (\<lambda>tenant w u r. Inr (list_instance_milestones_for_designer db (ir_tenant r) pid))"

definition list_process_instance_completable_tasks :: "web \<Rightarrow> query_env \<Rightarrow> runtime_db \<Rightarrow> int \<Rightarrow> call_failure + open_task list" where
  "list_process_instance_completable_tasks w env db pid =
     on_instance w db pid (\<lambda>tenant w u r. Inr (list_completable_tasks_for_designer env db (ir_tenant r) pid (ac_id u)))"

definition TASK_SUBMIT_URI :: string where
  "TASK_SUBMIT_URI = ''/v1.0/m8flow/task-review-access/{id}/submit''"

definition list_process_instance_pending_tasks :: "web \<Rightarrow> query_env \<Rightarrow> runtime_db \<Rightarrow> int \<Rightarrow> call_failure + (open_task \<times> bool) list" where
  "list_process_instance_pending_tasks w env db pid =
     on_instance w db pid (\<lambda>tenant w u r.
       Inr (map (\<lambda>(row, can_complete). (row, can_complete \<and> web_allows w (Some u) ''POST'' TASK_SUBMIT_URI))
              (list_pending_tasks_for_designer env db (ir_tenant r) pid (ac_id u))))"

definition list_process_instance_completed_tasks :: "web \<Rightarrow> runtime_db \<Rightarrow> int \<Rightarrow> call_failure + completed_task list \<times> completed_task list" where
  "list_process_instance_completed_tasks w db pid =
     on_instance w db pid (\<lambda>tenant w u r. Inr (list_completed_tasks_for_designer db (ir_tenant r) pid (ac_id u)))"

subsection \<open>Writes\<close>

datatype lifecycle_action = Suspend | Resume | Terminate

text \<open>The instance is read in \<open>db\<close>; the command runs on \<open>s\<close>, the tables of the task commands.\<close>

definition instance_uri :: "int \<Rightarrow> string" where
  "instance_uri pid = ''/v1.0/process-instances/'' @ int_str pid"

definition run_lifecycle :: "core \<Rightarrow> env \<Rightarrow> bool \<Rightarrow> lifecycle_action \<Rightarrow> db \<Rightarrow> string \<Rightarrow> int \<Rightarrow> int \<Rightarrow> (host_exn + int) \<times> db" where
  "run_lifecycle core env savepoint_ok act s tenant pid uid =
     (case act of
        Suspend \<Rightarrow> suspend_instance core s tenant pid uid
      | Resume \<Rightarrow> resume_instance core s tenant pid uid
      | Terminate \<Rightarrow> terminate_instance core env savepoint_ok s tenant pid uid)"

text \<open>The caller, the tenant and the instance of a write.\<close>

definition managed_instance :: "web \<Rightarrow> runtime_db \<Rightarrow> string \<Rightarrow> call_failure \<Rightarrow> int \<Rightarrow> call_failure + actor \<times> string" where
  "managed_instance w db verb denied pid =
     (case require_permission w verb (instance_uri pid) (Some denied) of
        Inl e \<Rightarrow> Inl e
      | Inr None \<Rightarrow> Inl denied
      | Inr (Some u) \<Rightarrow>
          with_tenant (own_tenant w) w (\<lambda>tenant w.
            case instance_or_404 w db pid (Some tenant) u True of Inl e \<Rightarrow> Inl e | Inr r \<Rightarrow> Inr (u, tenant)))"

definition instance_write ::
  "web \<Rightarrow> runtime_db \<Rightarrow> core \<Rightarrow> env \<Rightarrow> bool \<Rightarrow> lifecycle_action \<Rightarrow> int \<Rightarrow> db \<Rightarrow> (call_failure + host_exn + int) \<times> db" where
  "instance_write w db core env savepoint_ok act pid s =
     (case managed_instance w db ''execute''
             (api_failure ''permission_denied'' ''Not permitted to change this process instance'' 403) pid of
        Inl e \<Rightarrow> (Inl e, s)
      | Inr (u, tenant) \<Rightarrow>
          (case run_lifecycle core env savepoint_ok act s tenant pid (ac_id u) of (r, s') \<Rightarrow> (Inr r, s')))"

definition delete_process_instance ::
  "web \<Rightarrow> runtime_db \<Rightarrow> (int \<Rightarrow> world \<Rightarrow> world) \<Rightarrow> int \<Rightarrow> run_store \<Rightarrow> (call_failure + int) \<times> run_store" where
  "delete_process_instance w db cascade pid s =
     (case managed_instance w db ''DELETE''
             (api_failure ''permission_denied'' ''Not permitted to delete this process instance'' 403) pid of
        Inl e \<Rightarrow> (Inl e, s)
      | Inr (u, tenant) \<Rightarrow>
          (case delete_instance cascade tenant pid s of
             (Inl e, s') \<Rightarrow> (Inl (Refused e), s')
           | (Inr i, s') \<Rightarrow> (Inr i, s')))"

end
