(* ===== verification/Path_Param.thy ===== *)
theory Path_Param
  imports Py_Text
begin

text \<open>
  The identifier in a path (routes/processes_controller.py, \<open>process_model_identifier_from_path_param\<close>): percent
  decoding until nothing changes, then the colon that stands for a slash. \<open>unquote\<close> is urllib.parse's: each
  run of ASCII characters is decoded to bytes and these are read as UTF-8. What lies outside the code points
  below 256, or is no UTF-8, is one replacement character here.
\<close>

definition hex_value :: "char \<Rightarrow> nat option" where
  "hex_value c =
     (let n = code_point c in
      if 48 \<le> n \<and> n \<le> 57 then Some (n - 48)
      else if 65 \<le> n \<and> n \<le> 70 then Some (n - 55)
      else if 97 \<le> n \<and> n \<le> 102 then Some (n - 87) else None)"

fun unquote_to_bytes :: "string \<Rightarrow> string" where
  "unquote_to_bytes (c # x # y # s) =
     (if c = CHR ''%'' \<and> hex_value x \<noteq> None \<and> hex_value y \<noteq> None
      then char_of (16 * the (hex_value x) + the (hex_value y)) # unquote_to_bytes s
      else c # unquote_to_bytes (x # y # s))"
| "unquote_to_bytes s = s"

definition is_ascii :: "char \<Rightarrow> bool" where
  "is_ascii c \<longleftrightarrow> code_point c < 128"

definition REPLACEMENT :: char where "REPLACEMENT = CHR 0x1A"

fun utf8_lossy :: "string \<Rightarrow> string" where
  "utf8_lossy [] = []"
| "utf8_lossy [c] = [if is_ascii c then c else REPLACEMENT]"
| "utf8_lossy (c # d # s) =
     (if is_ascii c then c # utf8_lossy (d # s)
      else if code_point c \<in> {0xC2, 0xC3} \<and> 0x80 \<le> code_point d \<and> code_point d < 0xC0
      then char_of ((code_point c - 0xC0) * 64 + (code_point d - 0x80)) # utf8_lossy s
      else REPLACEMENT # utf8_lossy (d # s))"

definition decode_run :: "string \<Rightarrow> string" where
  "decode_run s = utf8_lossy (unquote_to_bytes s)"

function unquote_parts :: "string \<Rightarrow> string" where
  "unquote_parts [] = []"
| "unquote_parts (c # s) =
     (if is_ascii c then decode_run (takeWhile is_ascii (c # s)) @ unquote_parts (dropWhile is_ascii (c # s))
      else c # unquote_parts s)"
  by pat_completeness auto
termination
  by (relation "measure length") (auto simp: less_Suc_eq_le length_dropWhile_le)

definition unquote :: "string \<Rightarrow> string" where
  "unquote s = (if CHR ''%'' \<notin> set s then s else unquote_parts s)"

subsection \<open>The loop\<close>

lemma length_unquote_to_bytes: "length (unquote_to_bytes s) \<le> length s"
  by (induction s rule: unquote_to_bytes.induct) (auto intro: le_SucI)

lemma unquote_to_bytes_shorter: "unquote_to_bytes s = s \<or> length (unquote_to_bytes s) < length s"
proof (induction s rule: unquote_to_bytes.induct)
  case (1 c x y s)
  have "length (unquote_to_bytes s) < Suc (Suc (length s))" using length_unquote_to_bytes [of s] by simp
  with 1 show ?case by auto
qed auto

lemma length_utf8_lossy: "length (utf8_lossy s) \<le> length s"
  by (induction s rule: utf8_lossy.induct) auto

lemma utf8_lossy_ascii: "list_all is_ascii s \<Longrightarrow> utf8_lossy s = s"
  by (induction s rule: utf8_lossy.induct) auto

lemma decode_run_shorter: "list_all is_ascii s \<Longrightarrow> decode_run s = s \<or> length (decode_run s) < length s"
  using unquote_to_bytes_shorter [of s] length_utf8_lossy [of "unquote_to_bytes s"] utf8_lossy_ascii [of s]
  unfolding decode_run_def by fastforce

lemma unquote_parts_shorter: "unquote_parts s = s \<or> length (unquote_parts s) < length s"
proof (induction s rule: unquote_parts.induct)
  case (2 c s)
  show ?case
  proof (cases "is_ascii c")
    case True
    let ?a = "takeWhile is_ascii (c # s)" and ?r = "dropWhile is_ascii (c # s)"
    have "length (c # s) = length ?a + length ?r" by (metis length_append takeWhile_dropWhile_id)
    moreover have "list_all is_ascii ?a" by (auto simp: list_all_iff dest: set_takeWhileD)
    then have "decode_run ?a = ?a \<or> length (decode_run ?a) < length ?a" by (rule decode_run_shorter)
    moreover have "unquote_parts (c # s) = decode_run ?a @ unquote_parts ?r" using True by (simp del: takeWhile.simps dropWhile.simps)
    ultimately show ?thesis using 2(1) [OF True]
      by (metis (no_types, lifting) add_less_mono add_less_cancel_left add_less_cancel_right length_append takeWhile_dropWhile_id)
  next
    case False
    with 2(2) show ?thesis by auto
  qed
qed simp

lemma unquote_shorter: "unquote s = s \<or> length (unquote s) < length s"
  unfolding unquote_def using unquote_parts_shorter by auto

text \<open>\<open>while previous != value\<close>.\<close>

function unquote_all :: "string \<Rightarrow> string" where
  "unquote_all v = (let u = unquote v in if u = v then v else unquote_all u)"
  by pat_completeness auto
termination
proof (relation "measure length")
  fix v u assume "u = unquote v" "u \<noteq> v"
  then show "(u, v) \<in> measure length" using unquote_shorter [of v] by simp
qed simp

declare unquote_all.simps [simp del]

definition process_model_identifier_from_path_param :: "string \<Rightarrow> string" where
  "process_model_identifier_from_path_param modified = map (\<lambda>c. if c = CHR '':'' then CHR ''/'' else c) (unquote_all modified)"

lemma unquote_all_fixed: "unquote (unquote_all v) = unquote_all v"
proof (induction v rule: unquote_all.induct)
  case (1 v)
  show ?case
  proof (cases "unquote v = v")
    case True
    then show ?thesis by (simp add: unquote_all.simps [of v])
  next
    case False
    then have "unquote_all v = unquote_all (unquote v)" by (simp add: unquote_all.simps [of v] Let_def)
    with 1 [OF refl False] show ?thesis by simp
  qed
qed

subsection \<open>Nothing is left encoded\<close>

text \<open>A percent sign with two hexadecimal digits.\<close>

fun encoded :: "string \<Rightarrow> bool" where
  "encoded (c # x # y # s) \<longleftrightarrow> (c = CHR ''%'' \<and> hex_value x \<noteq> None \<and> hex_value y \<noteq> None) \<or> encoded (x # y # s)"
| "encoded s = False"

lemma unquote_to_bytes_changes: "unquote_to_bytes s = s \<longleftrightarrow> \<not> encoded s"
proof (induction s rule: unquote_to_bytes.induct)
  case (1 c x y s)
  have "length (char_of (16 * a + b) # unquote_to_bytes s) < length (c # x # y # s)" for a b :: nat
    using length_unquote_to_bytes [of s] by simp
  then have "char_of (16 * a + b) # unquote_to_bytes s \<noteq> c # x # y # s" for a b :: nat by (metis less_irrefl)
  with 1 show ?case by auto
qed auto

lemma encoded_append: "encoded s \<Longrightarrow> encoded (s @ t)"
  by (induction s rule: encoded.induct) auto

lemma hex_is_ascii: "hex_value x \<noteq> None \<Longrightarrow> is_ascii x"
  by (auto simp: hex_value_def is_ascii_def Let_def split: if_splits)

lemma colons_keep_encoded: "encoded (map (\<lambda>c. if c = CHR '':'' then CHR ''/'' else c) s) \<Longrightarrow> encoded s"
proof (induction s rule: encoded.induct)
  case (1 c x y s)
  have "hex_value (CHR ''/'') = None" by code_simp
  with 1 show ?case by (auto split: if_splits)
qed auto

lemma unquote_parts_fixed:
  assumes "unquote_parts s = s"
  shows "\<not> encoded s"
  using assms
proof (induction s rule: unquote_parts.induct)
  case (2 c s)
  show ?case
  proof (cases "is_ascii c")
    case True
    let ?a = "takeWhile is_ascii (c # s)" and ?r = "dropWhile is_ascii (c # s)"
    have ascii: "list_all is_ascii ?a" by (auto simp: list_all_iff dest: set_takeWhileD)
    have e: "decode_run ?a @ unquote_parts ?r = ?a @ ?r"
      using 2(3) True by (simp del: takeWhile.simps dropWhile.simps)
    have la: "length (decode_run ?a) \<le> length ?a" using decode_run_shorter [OF ascii] by auto
    have lr: "length (unquote_parts ?r) \<le> length ?r" using unquote_parts_shorter [of ?r] by auto
    from e have "length (decode_run ?a) + length (unquote_parts ?r) = length ?a + length ?r"
      by (metis length_append)
    with la lr have "length (decode_run ?a) = length ?a" by simp
    with e have parts: "decode_run ?a = ?a" "unquote_parts ?r = ?r" by simp_all
    have "unquote_to_bytes ?a = ?a"
      using unquote_to_bytes_shorter [of ?a] length_utf8_lossy [of "unquote_to_bytes ?a"] parts(1)
      unfolding decode_run_def by fastforce
    then have a: "\<not> encoded ?a" using unquote_to_bytes_changes by blast
    have r: "\<not> encoded ?r" using 2(1) [OF True parts(2)] .
    have hd: "?r = [] \<or> \<not> is_ascii (hd ?r)" by (metis hd_dropWhile)
    have join: "encoded (p @ q) \<Longrightarrow> \<not> encoded p \<Longrightarrow> \<not> encoded q \<Longrightarrow> q = [] \<or> \<not> is_ascii (hd q) \<Longrightarrow> False" for p q
      by (induction p rule: encoded.induct)
        ((cases q rule: encoded.cases; force simp: hex_is_ascii) | (cases q rule: encoded.cases; auto dest: hex_is_ascii))+
    show ?thesis using join [OF _ a r hd] by (metis takeWhile_dropWhile_id)
  next
    case False
    with 2(3) have "unquote_parts s = s" by simp
    with 2(2) [OF False] have "\<not> encoded s" .
    moreover have "c \<noteq> CHR ''%''" using False by (auto simp: is_ascii_def code_point_def)
    ultimately show ?thesis by (cases s rule: encoded.cases) auto
  qed
qed simp

lemma unquote_fixed: "unquote s = s \<Longrightarrow> \<not> encoded s"
proof (cases "CHR ''%'' \<in> set s")
  case False
  have "encoded t \<Longrightarrow> CHR ''%'' \<in> set t" for t by (induction t rule: encoded.induct) auto
  with False show ?thesis by blast
qed (simp add: unquote_def unquote_parts_fixed)

lemma encoded_suffix: "encoded t \<Longrightarrow> encoded (s @ t)"
proof (induction s)
  case (Cons c s)
  then have e: "encoded (s @ t)" by simp
  then obtain x y r where "s @ t = x # y # r" by (cases "s @ t" rule: encoded.cases) auto
  with e show ?case by simp
qed simp

lemma unquote_parts_plain: "\<not> encoded s \<Longrightarrow> unquote_parts s = s"
proof (induction s rule: unquote_parts.induct)
  case (2 c s)
  show ?case
  proof (cases "is_ascii c")
    case True
    let ?a = "takeWhile is_ascii (c # s)" and ?r = "dropWhile is_ascii (c # s)"
    have whole: "?a @ ?r = c # s" by (rule takeWhile_dropWhile_id)
    have "\<not> encoded ?a" "\<not> encoded ?r"
      using 2(3) encoded_append [of ?a ?r] encoded_suffix [of ?r ?a] unfolding whole by blast+
    moreover have "list_all is_ascii ?a" by (auto simp: list_all_iff dest: set_takeWhileD)
    ultimately have "decode_run ?a = ?a" "unquote_parts ?r = ?r"
      using 2(1) [OF True] unquote_to_bytes_changes [of ?a] utf8_lossy_ascii [of ?a] unfolding decode_run_def by auto
    moreover have "unquote_parts (c # s) = decode_run ?a @ unquote_parts ?r" using True by (simp del: takeWhile.simps dropWhile.simps)
    ultimately show ?thesis using whole by simp
  next
    case False
    have "\<not> encoded s" using 2(3) encoded_suffix [of s "[c]"] by auto
    with 2(2) [OF False] False show ?thesis by simp
  qed
qed simp

lemma unquote_all_plain: "\<not> encoded v \<Longrightarrow> unquote_all v = v"
  by (simp add: unquote_all.simps [of v] unquote_def unquote_parts_plain)


end
