(* ===== verification/Process_Routes.thy ===== *)
theory Process_Routes
  imports Instance_Routes Path_Param Catalog_Files
begin

text \<open>
  The routes of routes/processes_controller.py: process groups, process models, their files, the start and the
  two deletions. A write returns its answer with the disk and the engine's tables it leaves. The fields of a
  body that the catalog reads as text are texts here. The unit tests of a model are not modelled.
\<close>

type_synonym body = "(string \<times> pyval) list"

definition body_text :: "body \<Rightarrow> string \<Rightarrow> string option" where
  "body_text b k = str_of (dget b k)"

definition forbidden :: "string \<Rightarrow> call_failure" where
  "forbidden message = api_failure ''permission_denied'' message 403"

definition process_group_permission_uri :: "string \<Rightarrow> string" where
  "process_group_permission_uri modified = ''/v1.0/process-groups/'' @ process_model_identifier_from_path_param modified"

definition model_files_permission_uri :: "string \<Rightarrow> string" where
  "model_files_permission_uri modified = ''/v1.0/process-model-files/'' @ process_model_identifier_from_path_param modified"

text \<open>A write: the permission, the tenant it is bound to, the operation.\<close>

definition write_route ::
  "web \<Rightarrow> string \<Rightarrow> string \<Rightarrow> string \<Rightarrow> string option \<Rightarrow> disk \<Rightarrow> 'd \<Rightarrow>
    (actor \<Rightarrow> string \<Rightarrow> disk \<Rightarrow> 'd \<Rightarrow> ('a, 'd) catalog_result) \<Rightarrow> ('a, 'd) catalog_result" where
  "write_route w verb uri message explicit d x k =
     (case require_permission w verb uri (Some (forbidden message)) of
        Inl e \<Rightarrow> (Inl e, d, x)
      | Inr None \<Rightarrow> (Inl (forbidden message), d, x)
      | Inr (Some u) \<Rightarrow>
          (case fst (require_catalog_write_tenant_id (wb_te w) (g_user w) explicit (wb_rs w)) of
             Inl e \<Rightarrow> (Inl (Refused e), d, x)
           | Inr tenant \<Rightarrow> k u tenant d x))"

subsection \<open>Lists\<close>

record process_row =
  px_model :: model_identity
  px_processes :: "(string \<times> string) list"
  px_process_ids :: "string list"
  px_last_run :: "int option"
  px_runs_30d :: "int option"
  px_tenant_name :: "string option"

definition owner_argument :: "web \<Rightarrow> actor \<Rightarrow> int option" where
  "owner_argument w u =
     (case arg_text w ''started_by_id'' of
        None \<Rightarrow> None
      | Some raw \<Rightarrow> (case initiator_scope w u of Some i \<Rightarrow> Some i | None \<Rightarrow> Some (or_default (py_int raw) (-1))))"

definition list_process_models ::
  "web \<Rightarrow> query_env \<Rightarrow> runtime_db \<Rightarrow> (string \<times> string) list \<Rightarrow> call_failure + process_row list" where
  "list_process_models w env db names =
     (case require_permission w ''GET'' ''/v1.0/process-models'' None of
        Inl e \<Rightarrow> Inl e
      | Inr None \<Rightarrow> Inr []
      | Inr (Some u) \<Rightarrow>
          with_tenant (read_tenant w) w (\<lambda>tenant w.
            let grp = (let g = strip (or_default (arg_text w ''group'') []) in if g = [] then None else Some g);
                own_only = initiator_scope w u \<noteq> None;
                run_stats = process_model_run_stats env db tenant in
            case list_model_rows (qe_catalog env) (qe_disk env) tenant grp of
              Inl e \<Rightarrow> Inl e
            | Inr rows \<Rightarrow>
                Inr (map (\<lambda>r. let i = mr_identity r; key = (mi_tenant i, mi_id i);
                              processes = (if mi_status i = PUBLISHED then mr_processes r else []) in
                       \<lparr>px_model = i, px_processes = processes, px_process_ids = map fst processes,
                        px_last_run = (if own_only then None else Option.bind (map_of run_stats key) fst),
                        px_runs_30d = (if own_only then None
                                       else Some (case map_of run_stats key of None \<Rightarrow> 0 | Some (l, n) \<Rightarrow> n)),
                        px_tenant_name = tenant_name names tenant (mi_tenant i)\<rparr>)
                  (case owner_argument w u of
                     None \<Rightarrow> rows
                   | Some owner \<Rightarrow>
                       filter (\<lambda>r. (mi_tenant (mr_identity r), mi_id (mr_identity r))
                                 \<in> set (list_process_model_keys_for_instance_owner db tenant owner)) rows))))"

definition group_last_run :: "((string \<times> string) \<times> int option \<times> int) list \<Rightarrow> string \<Rightarrow> string list \<Rightarrow> int option" where
  "group_last_run run_stats tenant model_ids =
     max_of (some_values (map (\<lambda>m. Option.bind (map_of run_stats (tenant, m)) fst) model_ids))"

definition list_process_groups ::
  "web \<Rightarrow> query_env \<Rightarrow> runtime_db \<Rightarrow> (string \<times> string) list \<Rightarrow>
    call_failure + (string \<times> group_row \<times> int option \<times> string option) list" where
  "list_process_groups w env db names =
     (case require_permission w ''GET'' ''/v1.0/process-groups'' None of
        Inl e \<Rightarrow> Inl e
      | Inr None \<Rightarrow> Inr []
      | Inr (Some u) \<Rightarrow>
          with_tenant (read_tenant w) w (\<lambda>tenant w.
            let run_stats = process_model_run_stats env db tenant in
            case list_group_rows (qe_catalog env) (qe_disk env) tenant of
              Inl e \<Rightarrow> Inl e
            | Inr rows \<Rightarrow>
                collect (\<lambda>(t, row).
                  case list_models (qe_catalog env) (qe_disk env) t (Some (gr_id row)) of
                    Inl e \<Rightarrow> Inl e
                  | Inr models \<Rightarrow> Inr (t, row, group_last_run run_stats t models, tenant_name names tenant t)) rows))"

subsection \<open>Groups\<close>

definition create_process_group_route :: "web \<Rightarrow> catalog_env \<Rightarrow> body \<Rightarrow> disk \<Rightarrow> 'd \<Rightarrow> (group_row, 'd) catalog_result" where
  "create_process_group_route w ca b d x =
     write_route w ''POST'' ''/v1.0/process-groups'' ''Not permitted to create a process group'' (body_text b ''m8f_tenant_id'') d x
       (\<lambda>u tenant d x. create_process_group ca tenant (or_default (body_text b ''id'') [])
                          (body_text b ''display_name'') (body_text b ''description'') d x)"

definition update_process_group_route ::
  "web \<Rightarrow> query_env \<Rightarrow> runtime_db \<Rightarrow> string \<Rightarrow> body \<Rightarrow> disk \<Rightarrow> 'd \<Rightarrow> (group_row \<times> int option, 'd) catalog_result" where
  "update_process_group_route w env db modified b d x =
     write_route w ''PUT'' (process_group_permission_uri modified) ''Not permitted to update this process group''
       (body_text b ''m8f_tenant_id'') d x
       (\<lambda>u tenant d x.
          and_then (update_process_group (qe_catalog env) tenant (process_model_identifier_from_path_param modified)
                      (body_text b ''display_name'') (body_text b ''description'') d x) (\<lambda>row d x.
          case list_models (qe_catalog env) d tenant (Some (gr_id row)) of
            Inl e \<Rightarrow> (Inl e, d, x)
          | Inr models \<Rightarrow>
              (Inr (row, group_last_run (process_model_run_stats env db (Some tenant)) tenant models), d, x)))"

definition group_has_instances :: "int \<Rightarrow> call_failure" where
  "group_has_instances n = api_failure ''process_group_has_instances''
     (''This process group has '' @ int_str n @ '' process instance(s) and cannot be deleted.'') 409"

definition delete_process_group_route ::
  "web \<Rightarrow> catalog_env \<Rightarrow> runtime_db \<Rightarrow> string \<Rightarrow> disk \<Rightarrow> 'd \<Rightarrow> (string, 'd) catalog_result" where
  "delete_process_group_route w ca db modified d x =
     write_route w ''DELETE'' (process_group_permission_uri modified) ''Not permitted to delete this process group'' None d x
       (\<lambda>u tenant d x.
          let group_id = process_model_identifier_from_path_param modified;
              n = count_instances_for_process_group db tenant group_id in
          if \<not> process_group_exists ca d tenant group_id then (Inl group_not_found, d, x)
          else if n > 0 then (Inl (group_has_instances n), d, x)
          else and_then (delete_process_group ca tenant group_id d x) (\<lambda>_ d x. (Inr group_id, d, x)))"

subsection \<open>Models\<close>

definition create_process_model_route ::
  "web \<Rightarrow> catalog_env \<Rightarrow> 'd importer \<Rightarrow> body \<Rightarrow> disk \<Rightarrow> 'd \<Rightarrow> (model_identity, 'd) catalog_result" where
  "create_process_model_route w ca imp b d x =
     write_route w ''POST'' ''/v1.0/process-models'' ''Not permitted to create a process model'' (body_text b ''m8f_tenant_id'') d x
       (\<lambda>u tenant d x. create_process_model ca imp tenant (or_default (body_text b ''group_id'') []) (or_default (body_text b ''id'') [])
                          (body_text b ''display_name'') (body_text b ''description'') (ac_id u) d x)"

definition update_process_model_route ::
  "web \<Rightarrow> catalog_env \<Rightarrow> string \<Rightarrow> body \<Rightarrow> disk \<Rightarrow> 'd \<Rightarrow> (model_identity, 'd) catalog_result" where
  "update_process_model_route w ca modified b d x =
     write_route w ''PUT'' ''/v1.0/process-models'' ''Not permitted to update this process model'' (body_text b ''m8f_tenant_id'') d x
       (\<lambda>u tenant d x. update_process_model_metadata ca tenant (process_model_identifier_from_path_param modified)
                          (body_text b ''display_name'') (body_text b ''description'') (body_text b ''primary_file_name'')
                          (body_text b ''status'') d x)"

definition copy_process_model_route ::
  "web \<Rightarrow> catalog_env \<Rightarrow> 'd importer \<Rightarrow> string \<Rightarrow> body \<Rightarrow> disk \<Rightarrow> 'd \<Rightarrow> (model_identity, 'd) catalog_result" where
  "copy_process_model_route w ca imp modified b d x =
     write_route w ''POST'' ''/v1.0/process-models'' ''Not permitted to copy this process model'' (body_text b ''m8f_tenant_id'') d x
       (\<lambda>u tenant d x. copy_process_model ca imp tenant (process_model_identifier_from_path_param modified)
                          (or_default (body_text b ''id'') []) (body_text b ''display_name'') (ac_id u) d x)"

definition model_has_instances :: "int \<Rightarrow> call_failure" where
  "model_has_instances n = api_failure ''process_model_has_instances''
     (''This process model has '' @ int_str n @ '' process instance(s) and cannot be deleted.'') 409"

definition delete_process_model_route ::
  "web \<Rightarrow> catalog_env \<Rightarrow> runtime_db \<Rightarrow> string \<Rightarrow> disk \<Rightarrow> 'd \<Rightarrow> (string, 'd) catalog_result" where
  "delete_process_model_route w ca db modified d x =
     write_route w ''DELETE'' ''/v1.0/process-models'' ''Not permitted to delete this process model'' None d x
       (\<lambda>u tenant d x.
          let model = process_model_identifier_from_path_param modified;
              n = count_instances_for_process_model db tenant model in
          if \<not> is_process_model_identifier ca d tenant model then (Inl model_not_found, d, x)
          else if n > 0 then (Inl (model_has_instances n), d, x)
          else and_then (delete_process_model ca tenant model d x) (\<lambda>_ d x. (Inr model, d, x)))"

record model_page =
  mp_identity :: model_identity
  mp_last_run :: "int option"
  mp_running_now :: "int option"
  mp_runs_30d :: "int option"
  mp_recent :: "model_run list"
  mp_files :: "file_row list"

text \<open>The model in the tenants the caller reads from.\<close>

definition readable_model :: "query_env \<Rightarrow> string option \<Rightarrow> string \<Rightarrow> call_failure + model_identity" where
  "readable_model env tenant model =
     (case get_model_identity (qe_catalog env) (qe_disk env) tenant model of
        Inl e \<Rightarrow> Inl e | Inr None \<Rightarrow> Inl model_not_found | Inr (Some i) \<Rightarrow> Inr i)"

definition get_process_model :: "web \<Rightarrow> query_env \<Rightarrow> runtime_db \<Rightarrow> string \<Rightarrow> call_failure + model_page" where
  "get_process_model w env db modified =
     (case require_permission w ''GET'' ''/v1.0/process-models'' (Some model_not_found) of
        Inl e \<Rightarrow> Inl e
      | Inr None \<Rightarrow> Inl model_not_found
      | Inr (Some u) \<Rightarrow>
          with_tenant (read_tenant w) w (\<lambda>tenant w.
            let model = process_model_identifier_from_path_param modified in
            case readable_model env tenant model of
              Inl e \<Rightarrow> Inl e
            | Inr i \<Rightarrow>
                (let scope = initiator_scope w u;
                     stats = process_model_detail_stats env db (mi_tenant i) model in
                 Inr \<lparr>mp_identity = i,
                      mp_last_run = (if scope = None then ms_last_run stats else None),
                      mp_running_now = (if scope = None then Some (ms_running_now stats) else None),
                      mp_runs_30d = (if scope = None then Some (ms_runs_30d stats) else None),
                      mp_recent = list_recent_instances_for_process_model db (mi_tenant i) model (arg_int w ''recent_limit'' 10) scope,
                      mp_files = (if web_allows w (Some u) ''GET'' (model_files_permission_uri modified)
                                  then list_model_files (qe_catalog env) (qe_disk env) (mi_tenant i) model else [])\<rparr>)))"

definition file_not_found :: "string \<Rightarrow> call_failure" where
  "file_not_found name = api_failure ''not_found'' (''File not found: '' @ name) 404"

definition FILE_MIMETYPES :: "(string \<times> string) list" where
  "FILE_MIMETYPES =
     [(''bpmn'', ''application/xml''), (''dmn'', ''application/xml''), (''json'', ''application/json''), (''md'', ''text/markdown'')]"

definition file_mimetype :: "string \<Rightarrow> string" where
  "file_mimetype name =
     or_default (map_of FILE_MIMETYPES (if CHR ''.'' \<in> set name then py_lower (rsplit_last (CHR ''.'') name) else []))
       ''application/octet-stream''"

text \<open>The content of a file and its media type.\<close>

definition get_process_model_file :: "web \<Rightarrow> query_env \<Rightarrow> string \<Rightarrow> string \<Rightarrow> call_failure + string \<times> string" where
  "get_process_model_file w env modified name =
     (case require_permission w ''GET'' (model_files_permission_uri modified) (Some model_not_found) of
        Inl e \<Rightarrow> Inl e
      | Inr None \<Rightarrow> Inl model_not_found
      | Inr (Some u) \<Rightarrow>
          with_tenant (read_tenant w) w (\<lambda>tenant w.
            let model = process_model_identifier_from_path_param modified in
            case readable_model env tenant model of
              Inl e \<Rightarrow> Inl e
            | Inr i \<Rightarrow>
                (case read_model_file (qe_catalog env) (qe_disk env) (mi_tenant i) model name of
                   Inl e \<Rightarrow> Inl e
                 | Inr None \<Rightarrow> Inl (file_not_found name)
                 | Inr (Some content) \<Rightarrow> Inr (content, file_mimetype name))))"

definition put_process_model_file ::
  "web \<Rightarrow> catalog_env \<Rightarrow> 'd importer \<Rightarrow> string \<Rightarrow> string \<Rightarrow> string \<Rightarrow> disk \<Rightarrow> 'd \<Rightarrow> (string \<times> int, 'd) catalog_result" where
  "put_process_model_file w ca imp modified name content d x =
     write_route w ''PUT'' ''/v1.0/process-models'' ''Not permitted to modify this process model'' None d x
       (\<lambda>u tenant d x.
          let model = process_model_identifier_from_path_param modified in
          if \<not> is_process_model_identifier ca d tenant model then (Inl model_not_found, d, x)
          else and_then (checked (validate_leaf_file_name name) d x) (\<lambda>_ d x.
            if content = [] then (Inl (api_failure ''missing_content'' ''Request body is required'' 400), d, x)
            else and_then (update_file ca imp (Some (ac_id u)) tenant model name content d x) (\<lambda>_ d x.
              (Inr (name, int (length content)), d, x))))"

definition create_process_model_file ::
  "web \<Rightarrow> catalog_env \<Rightarrow> 'd importer \<Rightarrow> string \<Rightarrow> body \<Rightarrow> disk \<Rightarrow> 'd \<Rightarrow> (string \<times> int \<times> string, 'd) catalog_result" where
  "create_process_model_file w ca imp modified b d x =
     write_route w ''POST'' ''/v1.0/process-models'' ''Not permitted to modify this process model'' (body_text b ''m8f_tenant_id'') d x
       (\<lambda>u tenant d x.
          if map_of b ''content'' \<noteq> None \<and> body_text b ''content'' = None
          then (Inl (api_failure ''missing_content'' ''content must be a string'' 400), d, x)
          else create_model_file ca imp tenant (process_model_identifier_from_path_param modified)
                 (or_default (body_text b ''file_name'') []) (map_option (ca_encode ca) (body_text b ''content'')) (ac_id u) d x)"

definition delete_process_model_file ::
  "web \<Rightarrow> catalog_env \<Rightarrow> string \<Rightarrow> string \<Rightarrow> disk \<Rightarrow> 'd \<Rightarrow> (unit, 'd) catalog_result" where
  "delete_process_model_file w ca modified name d x =
     write_route w ''DELETE'' ''/v1.0/process-models'' ''Not permitted to modify this process model'' None d x
       (\<lambda>u tenant d x. delete_model_file ca tenant (process_model_identifier_from_path_param modified) name d x)"

definition start_process_instance ::
  "web \<Rightarrow> core \<Rightarrow> env \<Rightarrow> start_env \<Rightarrow> string \<Rightarrow> start_state \<Rightarrow>
    (call_failure + host_exn + int) \<times> notification_event list \<times> start_state" where
  "start_process_instance w core env senv modified s =
     (let model = process_model_identifier_from_path_param modified;
          denied = forbidden ''Not permitted to start this process model'' in
      case require_permission w ''POST'' ''/v1.0/process-instances'' (Some denied) of
        Inl e \<Rightarrow> (Inl e, [], s)
      | Inr None \<Rightarrow> (Inl denied, [], s)
      | Inr (Some u) \<Rightarrow>
          (case fst (own_tenant w) of
             Inl e \<Rightarrow> (Inl (Refused e), [], s)
           | Inr tenant \<Rightarrow>
               if \<not> is_process_model_identifier (st_catalog senv) (st_disk senv) tenant model then (Inl model_not_found, [], s)
               else case start core env senv tenant (ac_id u) model None None s of (r, evs, s') \<Rightarrow> (Inr r, evs, s')))"

end
