(* ===== verification/Instance_Route_Laws.thy ===== *)
theory Instance_Route_Laws
  imports Instance_Routes
begin

text \<open>Who sees and changes an instance through its routes.\<close>

text \<open>The scope of the caller once the tenant of the request is bound.\<close>

definition reads_own_only :: "web \<Rightarrow> actor \<Rightarrow> bool" where
  "reads_own_only w u \<longleftrightarrow> initiator_scope (w\<lparr>wb_rs := snd (read_tenant w)\<rparr>) u \<noteq> None"

definition writes_own_only :: "web \<Rightarrow> actor \<Rightarrow> bool" where
  "writes_own_only w u \<longleftrightarrow> initiator_scope (w\<lparr>wb_rs := snd (own_tenant w)\<rparr>) u \<noteq> None"

lemma initiator_scope_self: "initiator_scope w u \<noteq> None \<Longrightarrow> initiator_scope w u = Some (ac_id u)"
  by (simp add: initiator_scope_def instance_initiator_scope_def split: if_splits)

lemma with_tenant_Inr:
  "with_tenant bound w k = Inr x \<Longrightarrow> \<exists>t rs. bound = (Inr t, rs) \<and> k t (w\<lparr>wb_rs := rs\<rparr>) = Inr x"
  by (auto simp: with_tenant_def split: prod.splits sum.splits)

lemma require_permission_user:
  "require_permission w verb uri denied = Inr (Some u) \<Longrightarrow> g_user w = Some u \<and> web_allows w (Some u) verb uri"
  by (auto simp: require_permission_def split: option.splits if_splits)

lemma instance_of_in: "instance_of db pid = Some r \<Longrightarrow> r \<in> set (rd_instances db) \<and> ir_id r = pid"
  by (auto simp: instance_of_def dest: find_Some_iff_props)

lemma instance_or_404_row:
  assumes "instance_or_404 w db pid tenant u manage = Inr r"
  shows "instance_of db pid = Some r \<and> in_tenant tenant (ir_tenant r) \<and>
    (initiator_scope w u \<noteq> None \<longrightarrow> started_by (ac_id u) r \<or> (assigned_to db (ac_id u) r \<and> \<not> manage))"
proof -
  obtain r' where r': "instance_of db pid = Some r'" "in_tenant tenant (ir_tenant r')" "r' = r"
    using assms by (auto simp: instance_or_404_def Let_def split: option.splits if_splits prod.splits)
  moreover have "started_by (ac_id u) r \<or> (assigned_to db (ac_id u) r \<and> \<not> manage)" if s: "initiator_scope w u \<noteq> None"
    using assms r' initiator_scope_self [OF s] instance_of_in [OF r'(1)]
    by (auto simp: instance_or_404_def instance_relation_def Let_def split: if_splits)
  ultimately show ?thesis by blast
qed

text \<open>What a read of one instance has checked.\<close>

lemma on_instance_checks:
  assumes "on_instance w db pid k = Inr x"
  shows "\<exists>u tenant rs r. g_user w = Some u \<and> read_tenant w = (Inr tenant, rs) \<and>
    instance_or_404 (w\<lparr>wb_rs := rs\<rparr>) db pid tenant u False = Inr r \<and> k tenant (w\<lparr>wb_rs := rs\<rparr>) u r = Inr x"
  using assms
  by (auto simp: on_instance_def split: sum.splits option.splits dest!: with_tenant_Inr require_permission_user)

text \<open>An instance that the caller may see, in the tenant of the request.\<close>

definition may_see :: "web \<Rightarrow> runtime_db \<Rightarrow> instance_row \<Rightarrow> bool" where
  "may_see w db r \<longleftrightarrow>
     r \<in> set (rd_instances db) \<and>
     (\<exists>u tenant. g_user w = Some u \<and> fst (read_tenant w) = Inr tenant \<and> in_tenant tenant (ir_tenant r) \<and>
        (reads_own_only w u \<longrightarrow> started_by (ac_id u) r \<or> assigned_to db (ac_id u) r))"

lemma on_instance_sees:
  assumes "on_instance w db pid k = Inr x"
  shows "\<exists>r. instance_of db pid = Some r \<and> may_see w db r"
proof -
  from on_instance_checks [OF assms] obtain u tenant rs r where
    "g_user w = Some u" "read_tenant w = (Inr tenant, rs)" "instance_or_404 (w\<lparr>wb_rs := rs\<rparr>) db pid tenant u False = Inr r"
    by blast
  with instance_or_404_row [OF this(3)] instance_of_in show ?thesis
    by (auto simp: may_see_def reads_own_only_def intro!: exI [of _ r])
qed

lemma listed_instances_seen:
  assumes "list_process_instances w env db names = Inr (rows, counts)" "(row, name) \<in> set rows"
  shows "\<exists>r. li_id row = ir_id r \<and> li_tenant row = ir_tenant r \<and> may_see w db r"
proof -
  have "\<exists>u. require_permission w ''GET'' OWN_INSTANCES_URI None = Inr (Some u)"
    using assms by (auto simp: list_process_instances_def empty_page_def split: sum.splits option.splits)
  then obtain u where u: "require_permission w ''GET'' OWN_INSTANCES_URI None = Inr (Some u)" by blast
  with assms(1) obtain tenant rs where t: "read_tenant w = (Inr tenant, rs)"
    and k: "rows = map (\<lambda>r. (r, tenant_name names tenant (li_tenant r)))
      (fst (list_instances_for_designer env db (instance_query_of (w\<lparr>wb_rs := rs\<rparr>) tenant u)))"
    by (auto simp: list_process_instances_def split: prod.splits if_splits dest!: with_tenant_Inr)
  from assms(2) k have "row \<in> set (fst (list_instances_for_designer env db (instance_query_of (w\<lparr>wb_rs := rs\<rparr>) tenant u)))"
    by auto
  from listed_instance_selected [OF this] obtain r where r: "r \<in> set (rd_instances db)" "li_id row = ir_id r" "li_tenant row = ir_tenant r"
    and sel: "instance_selected db (instance_query_of (w\<lparr>wb_rs := rs\<rparr>) tenant u) r" by blast
  from sel have "in_tenant tenant (ir_tenant r)" by (simp add: instance_selected_def instance_query_of_def Let_def)
  moreover have "started_by (ac_id u) r \<or> assigned_to db (ac_id u) r" if "reads_own_only w u"
    using sel that t
    by (auto simp: instance_selected_def instance_query_of_def Let_def scope_instances_def reads_own_only_def
        instance_scope_clause_def split: if_splits)
  ultimately show ?thesis using r t require_permission_user [OF u] by (auto simp: may_see_def)
qed


subsection \<open>Writes\<close>

lemma managed_instance_row:
  assumes "managed_instance w db verb denied pid = Inr (u, tenant)"
  shows "g_user w = Some u \<and> web_allows w (Some u) verb (instance_uri pid) \<and> fst (own_tenant w) = Inr tenant \<and>
    (\<exists>r. instance_of db pid = Some r \<and> ir_tenant r = tenant \<and> (writes_own_only w u \<longrightarrow> started_by (ac_id u) r))"
proof -
  obtain u' where perm: "require_permission w verb (instance_uri pid) (Some denied) = Inr (Some u')"
    and k: "with_tenant (own_tenant w) w (\<lambda>tenant w.
            case instance_or_404 w db pid (Some tenant) u' True of Inl e \<Rightarrow> Inl e | Inr r \<Rightarrow> Inr (u', tenant)) = Inr (u, tenant)"
    using assms by (auto simp: managed_instance_def split: sum.splits option.splits)
  from with_tenant_Inr [OF k] obtain t rs where t: "own_tenant w = (Inr t, rs)"
    and at: "(case instance_or_404 (w\<lparr>wb_rs := rs\<rparr>) db pid (Some t) u' True of Inl e \<Rightarrow> Inl e | Inr r \<Rightarrow> Inr (u', t)) = Inr (u, tenant)"
    by blast
  from at obtain r where r: "instance_or_404 (w\<lparr>wb_rs := rs\<rparr>) db pid (Some tenant) u True = Inr r" and rs: "own_tenant w = (Inr tenant, rs)" "u' = u"
    using t by (cases "instance_or_404 (w\<lparr>wb_rs := rs\<rparr>) db pid (Some t) u' True") auto
  from instance_or_404_row [OF r] rs require_permission_user [OF perm] show ?thesis
    by (auto simp: in_tenant_def writes_own_only_def)
qed

text \<open>C31. An instance is suspended, resumed, terminated or deleted only by a caller with the permission for that instance,
  in the tenant of the request, and by a caller without tenant-wide read only if they started it: a task in it
  is not enough. In every other case the request changes nothing.\<close>

theorem lifecycle_writes_need_permission_and_ownership:
  "(\<forall>s. snd (instance_write w db core env savepoint_ok act pid s) \<noteq> s \<longrightarrow>
      (\<exists>u r tenant. g_user w = Some u \<and> web_allows w (Some u) ''execute'' (instance_uri pid) \<and> fst (own_tenant w) = Inr tenant \<and>
         instance_of db pid = Some r \<and> ir_tenant r = tenant \<and> (writes_own_only w u \<longrightarrow> started_by (ac_id u) r))) \<and>
   (\<forall>s. snd (delete_process_instance w db cascade pid s) \<noteq> s \<longrightarrow>
      (\<exists>u r tenant. g_user w = Some u \<and> web_allows w (Some u) ''DELETE'' (instance_uri pid) \<and> fst (own_tenant w) = Inr tenant \<and>
         instance_of db pid = Some r \<and> ir_tenant r = tenant \<and> (writes_own_only w u \<longrightarrow> started_by (ac_id u) r)))"
proof (intro conjI allI impI)
  fix s assume "snd (instance_write w db core env savepoint_ok act pid s) \<noteq> s"
  then obtain u tenant where "managed_instance w db ''execute''
      (api_failure ''permission_denied'' ''Not permitted to change this process instance'' 403) pid = Inr (u, tenant)"
    by (auto simp: instance_write_def split: sum.splits)
  from managed_instance_row [OF this]
  show "\<exists>u r tenant. g_user w = Some u \<and> web_allows w (Some u) ''execute'' (instance_uri pid) \<and> fst (own_tenant w) = Inr tenant \<and>
         instance_of db pid = Some r \<and> ir_tenant r = tenant \<and> (writes_own_only w u \<longrightarrow> started_by (ac_id u) r)" by blast
next
  fix s assume "snd (delete_process_instance w db cascade pid s) \<noteq> s"
  then obtain u tenant where "managed_instance w db ''DELETE''
      (api_failure ''permission_denied'' ''Not permitted to delete this process instance'' 403) pid = Inr (u, tenant)"
    by (auto simp: delete_process_instance_def split: sum.splits)
  from managed_instance_row [OF this]
  show "\<exists>u r tenant. g_user w = Some u \<and> web_allows w (Some u) ''DELETE'' (instance_uri pid) \<and> fst (own_tenant w) = Inr tenant \<and>
         instance_of db pid = Some r \<and> ir_tenant r = tenant \<and> (writes_own_only w u \<longrightarrow> started_by (ac_id u) r)" by blast
qed

text \<open>A reader without access to a model's files is never given its source.\<close>

lemma source_only_with_file_access:
  assumes "get_process_instance w env bind db parse names pid cache = Inr view" "ip_diagram view = Full_source source" "source \<noteq> []"
  shows "\<exists>u rs. g_user w = Some u \<and> web_allows (w\<lparr>wb_rs := rs\<rparr>) (Some u) ''GET'' (model_files_uri (diagram_model (ip_detail view)))"
proof -
  from on_instance_checks [OF assms(1) [unfolded get_process_instance_def]] obtain u tenant rs where u: "g_user w = Some u"
    and k: "(case fst (get_instance_detail_for_designer env bind db tenant pid
                   (arg_text (w\<lparr>wb_rs := rs\<rparr>) ''to_task_guid'') (arg_text (w\<lparr>wb_rs := rs\<rparr>) ''bpmn_process_identifier'') cache) of
         Inl e \<Rightarrow> Inl (Refused e)
       | Inr None \<Rightarrow> Inl instance_not_found
       | Inr (Some dt) \<Rightarrow>
           Inr \<lparr>ip_detail = dt, ip_diagram = diagram_for (w\<lparr>wb_rs := rs\<rparr>) u parse dt,
                ip_relation = instance_relation db pid (ac_id u), ip_tenant_name = tenant_name names tenant (dt_tenant dt)\<rparr>) = Inr view"
    by blast
  from k have "ip_diagram view = diagram_for (w\<lparr>wb_rs := rs\<rparr>) u parse (ip_detail view)"
    by (auto split: sum.split_asm option.split_asm)
  with assms(2,3) u show ?thesis by (auto simp: diagram_for_def split: option.split_asm if_split_asm)
qed

end
