(* ===== verification/Process_Route_Laws.thy ===== *)
theory Process_Route_Laws
  imports Process_Routes Instance_Route_Laws Catalog_Safety
begin

text \<open>
  What the routes of the process model catalog write, delete and show: a write stays with the tenant it is bound
  to, a deletion spares what has instances, and a reader of their own instances sees no figures of others.
\<close>

subsection \<open>Writes\<close>

text \<open>A route either leaves the disk or has run its operation for a caller with the permission, in the tenant bound.\<close>

lemma write_route_ran:
  assumes "disk_of (write_route w verb uri message explicit d x k) \<noteq> d"
  shows "\<exists>u tenant. g_user w = Some u \<and> web_allows w (Some u) verb uri \<and>
    fst (require_catalog_write_tenant_id (wb_te w) (g_user w) explicit (wb_rs w)) = Inr tenant \<and>
    write_route w verb uri message explicit d x k = k u tenant d x"
  using assms
  by (auto simp: write_route_def split: sum.splits option.splits dest!: require_permission_user)

lemma write_route_answered:
  assumes "write_route w verb uri message explicit d x k = (Inr a, d', x')"
  shows "\<exists>u tenant. g_user w = Some u \<and> web_allows w (Some u) verb uri \<and>
    fst (require_catalog_write_tenant_id (wb_te w) (g_user w) explicit (wb_rs w)) = Inr tenant \<and>
    k u tenant d x = (Inr a, d', x')"
  using assms
  by (auto simp: write_route_def split: sum.splits option.splits dest!: require_permission_user)

lemma disk_and_then_answer:
  "(\<And>a e v. disk_of (k a e v) = e) \<Longrightarrow> disk_of (and_then r k) = disk_of r"
  by (auto simp: and_then_def split: prod.splits sum.splits)

text \<open>One write request to the catalog: the permission it needs, the tenant its body names, the disk it leaves.\<close>

inductive catalog_request ::
  "web \<Rightarrow> query_env \<Rightarrow> runtime_db \<Rightarrow> 'd importer \<Rightarrow> disk \<Rightarrow> string \<Rightarrow> string \<Rightarrow> string option \<Rightarrow> disk \<Rightarrow> bool"
  for w env db imp d where
  group_created: "catalog_request w env db imp d ''POST'' ''/v1.0/process-groups'' (body_text b ''m8f_tenant_id'')
    (disk_of (create_process_group_route w (qe_catalog env) b d (x :: 'd)))"
| group_updated: "catalog_request w env db imp d ''PUT'' (process_group_permission_uri i) (body_text b ''m8f_tenant_id'')
    (disk_of (update_process_group_route w env db i b d (x :: 'd)))"
| group_deleted: "catalog_request w env db imp d ''DELETE'' (process_group_permission_uri i) None
    (disk_of (delete_process_group_route w (qe_catalog env) db i d (x :: 'd)))"
| model_created: "catalog_request w env db imp d ''POST'' ''/v1.0/process-models'' (body_text b ''m8f_tenant_id'')
    (disk_of (create_process_model_route w (qe_catalog env) imp b d (x :: 'd)))"
| model_updated: "catalog_request w env db imp d ''PUT'' ''/v1.0/process-models'' (body_text b ''m8f_tenant_id'')
    (disk_of (update_process_model_route w (qe_catalog env) i b d (x :: 'd)))"
| model_copied: "catalog_request w env db imp d ''POST'' ''/v1.0/process-models'' (body_text b ''m8f_tenant_id'')
    (disk_of (copy_process_model_route w (qe_catalog env) imp i b d (x :: 'd)))"
| model_deleted: "catalog_request w env db imp d ''DELETE'' ''/v1.0/process-models'' None
    (disk_of (delete_process_model_route w (qe_catalog env) db i d (x :: 'd)))"
| file_put: "catalog_request w env db imp d ''PUT'' ''/v1.0/process-models'' None
    (disk_of (put_process_model_file w (qe_catalog env) imp i f content d (x :: 'd)))"
| file_created: "catalog_request w env db imp d ''POST'' ''/v1.0/process-models'' (body_text b ''m8f_tenant_id'')
    (disk_of (create_process_model_file w (qe_catalog env) imp i b d (x :: 'd)))"
| file_deleted: "catalog_request w env db imp d ''DELETE'' ''/v1.0/process-models'' None
    (disk_of (delete_process_model_file w (qe_catalog env) i f d (x :: 'd)))"

text \<open>What a write of the catalog has run: nothing, or one of its writing operations.\<close>

definition one_write :: "catalog_env \<Rightarrow> 'd importer \<Rightarrow> string \<Rightarrow> disk \<Rightarrow> disk \<Rightarrow> bool" where
  "one_write ca imp tenant d e \<longleftrightarrow> e = d \<or> catalog_write ca imp tenant d e"

lemma one_write_answer [simp]: "one_write ca imp tenant d (disk_of (a, d, x))"
  by (simp add: one_write_def)

lemma one_write_if:
  "(c \<Longrightarrow> one_write ca imp tenant d (disk_of r)) \<Longrightarrow> (\<not> c \<Longrightarrow> one_write ca imp tenant d (disk_of s)) \<Longrightarrow>
    one_write ca imp tenant d (disk_of (if c then r else s))"
  by simp

lemma one_write_checked:
  "(\<And>a. one_write ca imp tenant d (disk_of (k a d x))) \<Longrightarrow> one_write ca imp tenant d (disk_of (and_then (checked c d x) k))"
  by (cases c) (simp_all add: and_then_def checked_def one_write_def)

lemma one_write_tail:
  "one_write ca imp tenant d (disk_of r) \<Longrightarrow> (\<And>a e v. disk_of (k a e v) = e) \<Longrightarrow> one_write ca imp tenant d (disk_of (and_then r k))"
  by (simp add: disk_and_then_answer)

lemma one_write_run: "catalog_write ca imp tenant d e \<Longrightarrow> one_write ca imp tenant d e"
  by (simp add: one_write_def)

lemma route_ran_a_write:
  assumes "e = disk_of (write_route w verb uri message explicit d x k)" "e \<noteq> d"
    "\<And>u tenant. one_write ca imp tenant d (disk_of (k u tenant d x))"
  shows "\<exists>u tenant. g_user w = Some u \<and> web_allows w (Some u) verb uri \<and>
    fst (require_catalog_write_tenant_id (wb_te w) (g_user w) explicit (wb_rs w)) = Inr tenant \<and> catalog_write ca imp tenant d e"
  using write_route_ran [of w verb uri message explicit d x k] assms unfolding one_write_def by metis

lemma request_runs_a_write:
  assumes "catalog_request w env db imp d verb uri explicit e" "e \<noteq> d"
  shows "\<exists>u tenant. g_user w = Some u \<and> web_allows w (Some u) verb uri \<and>
    fst (require_catalog_write_tenant_id (wb_te w) (g_user w) explicit (wb_rs w)) = Inr tenant \<and>
    catalog_write (qe_catalog env) imp tenant d e"
  using assms(1)
proof cases
  case (group_created b x)
  from group_created(4) [unfolded create_process_group_route_def] assms(2) show ?thesis
    unfolding group_created by (rule route_ran_a_write) (rule one_write_run catalog_write.intros)+
next
  case (group_updated i b x)
  from group_updated(4) [unfolded update_process_group_route_def] assms(2) show ?thesis
    unfolding group_updated
    by (rule route_ran_a_write)
      (rule one_write_tail, rule one_write_run, rule catalog_write.intros, simp split: sum.splits)
next
  case (group_deleted i x)
  from group_deleted(4) [unfolded delete_process_group_route_def Let_def] assms(2) show ?thesis
    unfolding group_deleted
    by (rule route_ran_a_write)
      (intro one_write_if one_write_answer one_write_tail one_write_run catalog_write.intros, simp)
next
  case (model_created b x)
  from model_created(4) [unfolded create_process_model_route_def] assms(2) show ?thesis
    unfolding model_created by (rule route_ran_a_write) (rule one_write_run catalog_write.intros)+
next
  case (model_updated i b x)
  from model_updated(4) [unfolded update_process_model_route_def] assms(2) show ?thesis
    unfolding model_updated by (rule route_ran_a_write) (rule one_write_run catalog_write.intros)+
next
  case (model_copied b i x)
  from model_copied(4) [unfolded copy_process_model_route_def] assms(2) show ?thesis
    unfolding model_copied by (rule route_ran_a_write) (rule one_write_run catalog_write.intros)+
next
  case (model_deleted i x)
  from model_deleted(4) [unfolded delete_process_model_route_def Let_def] assms(2) show ?thesis
    unfolding model_deleted
    by (rule route_ran_a_write)
      (intro one_write_if one_write_answer one_write_tail one_write_run catalog_write.intros, simp)
next
  case (file_put i f content x)
  from file_put(4) [unfolded put_process_model_file_def Let_def] assms(2) show ?thesis
    unfolding file_put
    by (rule route_ran_a_write)
      (intro one_write_if one_write_answer one_write_checked one_write_tail one_write_run catalog_write.intros, simp)
next
  case (file_created b i x)
  from file_created(4) [unfolded create_process_model_file_def] assms(2) show ?thesis
    unfolding file_created
    by (rule route_ran_a_write) (intro one_write_if one_write_answer one_write_run catalog_write.intros)
next
  case (file_deleted i f x)
  from file_deleted(4) [unfolded delete_process_model_file_def] assms(2) show ?thesis
    unfolding file_deleted by (rule route_ran_a_write) (rule one_write_run catalog_write.intros)+
qed


subsection \<open>Deletions\<close>

lemma answered_if: "(if c then (Inl e, d, x) else r) = (Inr a, d', x') \<Longrightarrow> \<not> c \<and> r = (Inr a, d', x')"
  by (simp split: if_splits)

lemma model_deletion_counts:
  assumes "delete_process_model_route w ca db modified d x = (Inr model, d', x')"
  shows "\<exists>tenant. fst (require_catalog_write_tenant_id (wb_te w) (g_user w) None (wb_rs w)) = Inr tenant \<and>
    process_model_identifier_from_path_param modified = model \<and> count_instances_for_process_model db tenant model \<le> 0"
proof -
  from write_route_answered [OF assms [unfolded delete_process_model_route_def Let_def]] obtain u tenant where
    t: "fst (require_catalog_write_tenant_id (wb_te w) (g_user w) None (wb_rs w)) = Inr tenant" and
    k: "(let model = process_model_identifier_from_path_param modified;
            n = count_instances_for_process_model db tenant model in
          if \<not> is_process_model_identifier ca d tenant model then (Inl model_not_found, d, x)
          else if n > 0 then (Inl (model_has_instances n), d, x)
          else and_then (delete_process_model ca tenant model d x) (\<lambda>_ d x. (Inr model, d, x))) = (Inr model, d', x')"
    by (auto simp: Let_def)
  from k show ?thesis
    by (intro exI [of _ tenant])
       (auto simp: t Let_def and_then_def split: if_split_asm prod.split_asm sum.split_asm)
qed

lemma group_deletion_counts:
  assumes "delete_process_group_route w ca db modified d x = (Inr group_id, d', x')"
  shows "\<exists>tenant. fst (require_catalog_write_tenant_id (wb_te w) (g_user w) None (wb_rs w)) = Inr tenant \<and>
    process_model_identifier_from_path_param modified = group_id \<and> count_instances_for_process_group db tenant group_id \<le> 0 \<and>
    process_group_exists ca d tenant group_id"
proof -
  from write_route_answered [OF assms [unfolded delete_process_group_route_def Let_def]] obtain u tenant where
    t: "fst (require_catalog_write_tenant_id (wb_te w) (g_user w) None (wb_rs w)) = Inr tenant" and
    k: "(let group_id' = process_model_identifier_from_path_param modified;
              n = count_instances_for_process_group db tenant group_id' in
          if \<not> process_group_exists ca d tenant group_id' then (Inl group_not_found, d, x)
          else if n > 0 then (Inl (group_has_instances n), d, x)
          else and_then (delete_process_group ca tenant group_id' d x) (\<lambda>_ d x. (Inr group_id', d, x))) = (Inr group_id, d', x')"
    by (auto simp: Let_def)
  from k show ?thesis
    by (intro exI [of _ tenant])
       (auto simp: t Let_def and_then_def split: if_split_asm prod.split_asm sum.split_asm)
qed

lemma valid_group_id:
  assumes "validate_process_group_id g = Inr g"
  shows "CHR 0x5C \<notin> set g" "rstrip_if (\<lambda>c. c = CHR ''/'') g = g"
proof -
  from assms have "g = strip_if (\<lambda>c. c = CHR ''/'') (strip g)" "g \<noteq> []" "CHR 0x5C \<notin> set g"
    by (auto simp: validate_process_group_id_def Let_def split: if_splits)
  then show "CHR 0x5C \<notin> set g" "rstrip_if (\<lambda>c. c = CHR ''/'') g = g"
    using strip_if_last [of "\<lambda>c. c = CHR ''/''" "strip g"] rstrip_if_id [of g "\<lambda>c. c = CHR ''/''"] by auto
qed


subsection \<open>Readers of their own instances\<close>

lemma model_row_of_own_reader:
  assumes "list_process_models w env db names = Inr rows" "row \<in> set rows" "g_user w = Some u" "reads_own_only w u"
  shows "px_last_run row = None \<and> px_runs_30d row = None"
proof -
  have u: "require_permission w ''GET'' ''/v1.0/process-models'' None = Inr (Some u)"
    using assms(1-3) by (auto simp: list_process_models_def require_permission_def split: if_splits)
  from assms(1) u obtain tenant rs where t: "read_tenant w = (Inr tenant, rs)"
    and rows: "initiator_scope (w\<lparr>wb_rs := rs\<rparr>) u \<noteq> None \<Longrightarrow> \<forall>row \<in> set rows. px_last_run row = None \<and> px_runs_30d row = None"
    by (auto simp: list_process_models_def Let_def split: sum.splits dest!: with_tenant_Inr)
  with assms(2,4) show ?thesis by (auto simp: reads_own_only_def split: if_splits)
qed

lemma model_page_of_own_reader:
  assumes "get_process_model w env db modified = Inr page" "g_user w = Some u" "reads_own_only w u"
  shows "mp_last_run page = None \<and> mp_running_now page = None \<and> mp_runs_30d page = None \<and>
    (\<forall>run \<in> set (mp_recent page). \<exists>r \<in> set (rd_instances db). mr_id run = ir_id r \<and>
       (started_by (ac_id u) r \<or> assigned_to db (ac_id u) r))"
proof -
  let ?model = "process_model_identifier_from_path_param modified"
  have u: "require_permission w ''GET'' ''/v1.0/process-models'' (Some model_not_found) = Inr (Some u)"
    using assms(1,2) by (auto simp: get_process_model_def require_permission_def split: if_splits)
  from assms(1) u obtain tenant rs where t: "read_tenant w = (Inr tenant, rs)"
    and p: "mp_last_run page = None \<and> mp_running_now page = None \<and> mp_runs_30d page = None \<or> initiator_scope (w\<lparr>wb_rs := rs\<rparr>) u = None"
      "mp_recent page = list_recent_instances_for_process_model db (mi_tenant (mp_identity page)) ?model (arg_int (w\<lparr>wb_rs := rs\<rparr>) ''recent_limit'' 10)
         (initiator_scope (w\<lparr>wb_rs := rs\<rparr>) u)"
    by (auto simp: get_process_model_def Let_def split: sum.splits dest!: with_tenant_Inr)
  have own: "initiator_scope (w\<lparr>wb_rs := rs\<rparr>) u = Some (ac_id u)"
    using assms(3) t initiator_scope_self by (simp add: reads_own_only_def)
  have "\<exists>r \<in> set (rd_instances db). mr_id run = ir_id r \<and> (started_by (ac_id u) r \<or> assigned_to db (ac_id u) r)"
    if "run \<in> set (mp_recent page)" for run
    using that unfolding p(2) own list_recent_instances_for_process_model_def
    by (auto simp: scope_instances_def instance_scope_clause_def dest!: in_set_takeD split: if_splits)
  with p(1) own show ?thesis by auto
qed

text \<open>C34. A caller who may only read instances of their own learns nothing about the others from the pages of the process
  models: neither the list nor a model's page carries a last run, a number of runs or of running instances,
  and the recent runs on the page are instances they started or have a task in.\<close>

theorem own_readers_get_no_run_metrics:
  assumes "g_user w = Some u" "reads_own_only w u"
  shows "(list_process_models w env db names = Inr rows \<longrightarrow>
      (\<forall>row \<in> set rows. px_last_run row = None \<and> px_runs_30d row = None)) \<and>
    (get_process_model w env db modified = Inr page \<longrightarrow>
      mp_last_run page = None \<and> mp_running_now page = None \<and> mp_runs_30d page = None \<and>
      (\<forall>run \<in> set (mp_recent page). \<exists>r \<in> set (rd_instances db). mr_id run = ir_id r \<and>
         (started_by (ac_id u) r \<or> assigned_to db (ac_id u) r)))"
  using model_row_of_own_reader [OF _ _ assms] model_page_of_own_reader [OF _ assms] by blast

end
