(* ===== verification/Replay_Laws.thy ===== *)
theory Replay_Laws
  imports Instance_Views
begin

text \<open>The data of a task is replayed from the deltas the engine stores, and the walk to the root ends.\<close>

subsection \<open>The walk\<close>

definition parent_of :: "task_items \<Rightarrow> pyval \<Rightarrow> string option" where
  "parent_of tasks t =
     (case str_of (dget (dict_items t) ''parent'') of
        None \<Rightarrow> None | Some p \<Rightarrow> if map_of tasks p = None then None else Some p)"

lemma parent_chain_absent: "map_of tasks g = None \<Longrightarrow> parent_chain (Suc n) tasks (PStr g) = Some []"
  by simp

lemma parent_chain_step:
  assumes "map_of tasks g = Some t"
  shows "parent_chain (Suc n) tasks (PStr g) = map_option ((#) (dict_items t)) (parent_chain n tasks (dget (dict_items t) ''parent''))"
  using assms by (simp add: comp_def)

text \<open>A walk that ends gives the same chain for every greater depth, and visits a task once.\<close>

lemma parent_chain_mono: "parent_chain n tasks guid = Some chain \<Longrightarrow> n \<le> m \<Longrightarrow> parent_chain m tasks guid = Some chain"
proof (induction n tasks guid arbitrary: chain m rule: parent_chain.induct)
  case (2 n tasks guid)
  then obtain k where m: "m = Suc k" "n \<le> k" by (cases m) auto
  show ?case
  proof (cases "Option.bind (str_of guid) (map_of tasks)")
    case None
    with 2 m show ?thesis by simp
  next
    case (Some t)
    with 2(2) obtain c where "parent_chain n tasks (dget (dict_items t) ''parent'') = Some c" "chain = dict_items t # c"
      by (auto split: option.splits)
    with 2(1) [OF Some] Some m show ?thesis by simp
  qed
qed simp

lemma parent_chain_unique: "parent_chain n tasks guid = Some c \<Longrightarrow> parent_chain m tasks guid = Some d \<Longrightarrow> c = d"
  by (metis nle_le option.inject parent_chain_mono)

text \<open>The guids that a walk visits.\<close>

fun guid_chain :: "nat \<Rightarrow> task_items \<Rightarrow> pyval \<Rightarrow> string list" where
  "guid_chain 0 tasks guid = []"
| "guid_chain (Suc n) tasks guid =
     (case Option.bind (str_of guid) (map_of tasks) of
        None \<Rightarrow> []
      | Some t \<Rightarrow> the (str_of guid) # guid_chain n tasks (dget (dict_items t) ''parent''))"

lemma guid_chain_absent: "Option.bind (str_of guid) (map_of tasks) = None \<Longrightarrow> guid_chain n tasks guid = []"
  by (cases n) auto

lemma walk_at:
  assumes "Option.bind (str_of guid) (map_of tasks) = Some t"
  obtains g where "guid = PStr g" "map_of tasks g = Some t"
  using assms by (cases guid) auto

lemma guid_chain_keys: "set (guid_chain n tasks guid) \<subseteq> fst ` set tasks"
proof (induction n tasks guid rule: guid_chain.induct)
  case (2 n tasks guid)
  show ?case
  proof (cases "Option.bind (str_of guid) (map_of tasks)")
    case (Some t)
    then obtain g where g: "guid = PStr g" "map_of tasks g = Some t" by (rule walk_at)
    then have "g \<in> fst ` set tasks" by (metis domI dom_map_of_conv_image_fst)
    with 2 [OF Some] g show ?thesis by simp
  next
    case None
    show ?thesis by (simp only: guid_chain_absent [OF None] set_simps empty_subsetI)
  qed
qed simp

lemma guid_chain_length: "parent_chain n tasks guid = Some chain \<Longrightarrow> length (guid_chain n tasks guid) = length chain"
proof (induction n tasks guid arbitrary: chain rule: parent_chain.induct)
  case (2 n tasks guid)
  then show ?case by (auto split: option.splits)
qed simp

lemma guid_chain_later:
  assumes "parent_chain n tasks guid = Some chain" "g \<in> set (guid_chain n tasks guid)"
  shows "\<exists>m c. parent_chain m tasks (PStr g) = Some c \<and> length c \<le> length chain"
  using assms
proof (induction n tasks guid arbitrary: chain rule: parent_chain.induct)
  case (2 n tasks guid)
  obtain t where at: "Option.bind (str_of guid) (map_of tasks) = Some t"
  proof (cases "Option.bind (str_of guid) (map_of tasks)")
    case None
    with 2(3) guid_chain_absent [OF None] have False by (metis empty_iff empty_set)
    then show ?thesis ..
  qed
  then obtain h where guid: "guid = PStr h" and "map_of tasks h = Some t" by (rule walk_at)
  then have h: "str_of guid = Some h" "map_of tasks h = Some t" by simp_all
  from 2(2) h obtain c where c: "parent_chain n tasks (dget (dict_items t) ''parent'') = Some c" "chain = dict_items t # c"
    by (auto split: option.splits)
  show ?case
  proof (cases "g = h")
    case True
    with 2(2) guid show ?thesis by blast
  next
    case False
    with 2(3) h have "g \<in> set (guid_chain n tasks (dget (dict_items t) ''parent''))" by simp
    with 2(1) [OF at c(1)] obtain m d where "parent_chain m tasks (PStr g) = Some d" "length d \<le> length c" by blast
    with c(2) show ?thesis by (intro exI [of _ m] exI [of _ d]) simp
  qed
qed simp

lemma guid_chain_distinct: "parent_chain n tasks guid = Some chain \<Longrightarrow> distinct (guid_chain n tasks guid)"
proof (induction n tasks guid arbitrary: chain rule: parent_chain.induct)
  case (2 n tasks guid)
  show ?case
  proof (cases "Option.bind (str_of guid) (map_of tasks)")
    case None
    show ?thesis by (simp only: guid_chain_absent [OF None] distinct.simps)
  next
    case (Some t)
    then obtain h where guid: "guid = PStr h" and "map_of tasks h = Some t" by (rule walk_at)
    then have h: "str_of guid = Some h" "map_of tasks h = Some t" by simp_all
    from 2(2) Some obtain c where c: "parent_chain n tasks (dget (dict_items t) ''parent'') = Some c" "chain = dict_items t # c"
      by (auto split: option.splits)
    have "h \<notin> set (guid_chain n tasks (dget (dict_items t) ''parent''))"
    proof
      assume "h \<in> set (guid_chain n tasks (dget (dict_items t) ''parent''))"
      with guid_chain_later [OF c(1)] obtain m d where "parent_chain m tasks (PStr h) = Some d" "length d \<le> length c" by blast
      with parent_chain_unique [of m tasks guid d "Suc n" chain] 2(2) guid c(2) show False by simp
    qed
    with 2(1) [OF Some c(1)] h show ?thesis by simp
  qed
qed simp

lemma parent_chain_short:
  assumes "parent_chain n tasks guid = Some chain"
  shows "length chain \<le> length tasks"
proof -
  have "length chain = card (set (guid_chain n tasks guid))"
    using guid_chain_length [OF assms] guid_chain_distinct [OF assms] by (simp add: distinct_card)
  also have "\<dots> \<le> card (fst ` set tasks)" by (rule card_mono [OF _ guid_chain_keys]) simp
  also have "\<dots> \<le> length tasks" by (meson card_image_le card_length finite_set order_trans)
  finally show ?thesis .
qed

lemma parent_chain_needs: "parent_chain n tasks guid = Some chain \<Longrightarrow> parent_chain (Suc (length chain)) tasks guid = Some chain"
proof (induction n tasks guid arbitrary: chain rule: parent_chain.induct)
  case (2 n tasks guid)
  show ?case
  proof (cases "Option.bind (str_of guid) (map_of tasks)")
    case None
    with 2(2) show ?thesis by simp
  next
    case (Some t)
    with 2(2) obtain c where c: "parent_chain n tasks (dget (dict_items t) ''parent'') = Some c" "chain = dict_items t # c"
      by (auto split: option.splits)
    with 2(1) [OF Some c(1)] Some show ?thesis by simp
  qed
qed simp

text \<open>The number of tasks bounds every walk that ends: a walk still under way after that never ends.\<close>

lemma parent_chain_bound:
  assumes "parent_chain n tasks guid = Some chain"
  shows "parent_chain (Suc (length tasks)) tasks guid = Some chain"
  by (rule parent_chain_mono [OF parent_chain_needs [OF assms]]) (simp add: parent_chain_short [OF assms])

subsection \<open>The replay\<close>

text \<open>What a state of the engine records: \<open>held g\<close> is the data of task \<open>g\<close>. A root, and a task without a delta, has
  it in full; any other task has what it changed of its parent's data.\<close>

definition is_delta :: "task_items \<Rightarrow> (string \<rightharpoonup> pyval) \<Rightarrow> (string \<rightharpoonup> pyval) \<Rightarrow> bool" where
  "is_delta delta old new \<longleftrightarrow>
     distinct (map fst (dict_items (dget delta ''updates''))) \<and>
     new = (old ++ map_of (dict_items (dget delta ''updates''))) |` {k. PStr k \<notin> set (list_items (dget delta ''deletions''))}"

definition records :: "task_items \<Rightarrow> (string \<Rightarrow> string \<rightharpoonup> pyval) \<Rightarrow> bool" where
  "records tasks held \<longleftrightarrow>
     (\<forall>g t. map_of tasks g = Some t \<longrightarrow>
        (let delta = dget (dict_items t) ''delta'' in
         case parent_of tasks t of
           Some p \<Rightarrow> if truthy delta then is_delta (dict_items delta) (held p) (held g)
                     else map_of (own_data (dict_items t)) = held g
         | None \<Rightarrow> map_of (own_data (dict_items t)) = held g))"

lemma records_at:
  "records tasks held \<Longrightarrow> map_of tasks g = Some t \<Longrightarrow>
   (case parent_of tasks t of
      Some p \<Rightarrow> if truthy (dget (dict_items t) ''delta'') then is_delta (dict_items (dget (dict_items t) ''delta'')) (held p) (held g)
                else map_of (own_data (dict_items t)) = held g
    | None \<Rightarrow> map_of (own_data (dict_items t)) = held g)"
  unfolding records_def Let_def by blast

text \<open>No task is its own ancestor.\<close>

definition rooted :: "task_items \<Rightarrow> bool" where
  "rooted tasks \<longleftrightarrow>
     (\<exists>depth :: string \<Rightarrow> nat. \<forall>g t p. map_of tasks g = Some t \<and> parent_of tasks t = Some p \<longrightarrow> depth p < depth g)"

lemma map_of_filter_in: "map_of (filter (\<lambda>(k, v). P k) d) = map_of d |` {k. P k}"
  by (induction d) (auto simp: restrict_map_def fun_eq_iff)

lemma apply_delta_is: "is_delta delta (map_of old) new \<Longrightarrow> map_of (apply_delta delta old) = new"
  by (simp add: apply_delta_def is_delta_def map_of_filter_in map_of_dmerge)

lemma replay_Cons: "chain \<noteq> [] \<Longrightarrow> replay (t # chain) = replay_step t (replay chain)"
  by (simp add: replay_def)

lemma replay_holds:
  assumes "parent_chain n tasks (PStr g) = Some chain" "map_of tasks g = Some t" "records tasks held"
  shows "chain \<noteq> [] \<and> map_of (replay chain) = held g"
  using assms
proof (induction n arbitrary: g t chain)
  case (Suc n)
  from Suc.prems(1,2) obtain c where c: "parent_chain n tasks (dget (dict_items t) ''parent'') = Some c" "chain = dict_items t # c"
    by (auto split: option.splits)
  show ?case
  proof (cases "parent_of tasks t")
    case None
    then have "c = []"
      using c(1) by (cases n) (auto simp: parent_of_def split: option.splits if_splits)
    with c(2) None records_at [OF Suc.prems(3,2)] show ?thesis by (simp add: replay_def)
  next
    case (Some p)
    then obtain u where p: "dget (dict_items t) ''parent'' = PStr p" "map_of tasks p = Some u"
      by (cases "dget (dict_items t) ''parent''") (auto simp: parent_of_def split: if_splits)
    from Suc.IH [OF _ p(2) Suc.prems(3)] c(1) p(1) have c': "c \<noteq> []" "map_of (replay c) = held p" by auto
    show ?thesis
    proof (cases "truthy (dget (dict_items t) ''delta'')")
      case True
      with Some records_at [OF Suc.prems(3,2)] have "is_delta (dict_items (dget (dict_items t) ''delta'')) (map_of (replay c)) (held g)"
        by (simp add: c')
      with True c(2) c' show ?thesis by (simp add: replay_Cons replay_step_def Let_def apply_delta_is)
    next
      case False
      with Some records_at [OF Suc.prems(3,2)] have "map_of (own_data (dict_items t)) = held g" by simp
      with False c(2) c' show ?thesis by (simp add: replay_Cons replay_step_def Let_def)
    qed
  qed
qed simp

lemma rooted_walk_ends:
  assumes "rooted tasks"
  shows "\<exists>n chain. parent_chain n tasks (PStr g) = Some chain"
proof -
  obtain depth :: "string \<Rightarrow> nat" where depth: "\<And>g t p. map_of tasks g = Some t \<Longrightarrow> parent_of tasks t = Some p \<Longrightarrow> depth p < depth g"
    using assms unfolding rooted_def by blast
  show ?thesis
  proof (induction "depth g" arbitrary: g rule: less_induct)
    case less
    show ?case
    proof (cases "map_of tasks g")
      case None
      then show ?thesis using parent_chain_absent [of tasks g 0] by blast
    next
      case (Some t)
      show ?thesis
      proof (cases "parent_of tasks t")
        case None
        then have "parent_chain (Suc 0) tasks (dget (dict_items t) ''parent'') = Some []"
          by (auto simp: parent_of_def split: option.splits if_splits)
        with parent_chain_step [OF Some, of "Suc 0"] show ?thesis by (metis option.simps(9))
      next
        case p: (Some p)
        with depth [OF Some] less obtain n c where "parent_chain n tasks (PStr p) = Some c" by blast
        moreover have "dget (dict_items t) ''parent'' = PStr p"
          using p by (cases "dget (dict_items t) ''parent''") (auto simp: parent_of_def split: if_splits)
        ultimately show ?thesis using parent_chain_step [OF Some, of n] by (metis option.simps(9))
      qed
    qed
  qed
qed

lemma data_in_first_state:
  assumes "\<And>s. s \<in> set before \<Longrightarrow> map_of (tasks_in s) guid = None"
  shows "data_in_states (before @ states) guid = data_in_states states guid"
  using assms by (induction before) auto

text \<open>C35. The data shown for a task is the data the task held: whenever no task is its own ancestor, the walk from the task
  to its root ends, within as many steps as there are tasks, and replaying the deltas on the way back gives
  exactly the data that the engine recorded, whatever later steps did.\<close>

theorem task_data_is_what_the_task_held:
  assumes "workflow_states state = before @ s # later" "\<forall>b \<in> set before. map_of (tasks_in b) guid = None"
    "map_of (tasks_in s) guid \<noteq> None" "rooted (tasks_in s)" "records (tasks_in s) held"
  shows "\<exists>data. task_data_from_workflow_state (Some state) guid = Some data \<and> map_of data = held guid"
proof -
  from rooted_walk_ends [OF assms(4)] obtain chain where
    chain: "parent_chain (Suc (length (tasks_in s))) (tasks_in s) (PStr guid) = Some chain"
    using parent_chain_bound by blast
  obtain t where t: "map_of (tasks_in s) guid = Some t" using assms(3) by blast
  from replay_holds [OF chain t assms(5)] have "chain \<noteq> []" "map_of (replay chain) = held guid" by simp_all
  moreover from this(1) have "data_in_states (s # later) guid = Some (replay chain)"
    using chain by (cases chain) (auto simp del: parent_chain.simps)
  moreover have "data_in_states (before @ s # later) guid = data_in_states (s # later) guid"
    using assms(2) by (intro data_in_first_state) simp
  ultimately show ?thesis using assms(1) by (simp add: task_data_from_workflow_state_def)
qed

text \<open>A task that is its own parent keeps the request busy for ever.\<close>

definition looping_tasks :: task_items where
  "looping_tasks = [(''g'', PDict [(''parent'', PStr ''g'')])]"

lemma looping_walk_never_ends: "parent_chain n looping_tasks (PStr ''g'') = None"
  by (induction n) (simp_all add: looping_tasks_def dget_def)

text \<open>The depth of the walk is no limit of the model: where the walk is still under way after as many steps as there are
  tasks, it never ends, in the code as in the model, and every greater depth gives the same answer.\<close>

theorem walk_to_the_root_needs_no_more_depth:
  "parent_chain (Suc (length tasks) + k) tasks guid = parent_chain (Suc (length tasks)) tasks guid"
proof (cases "parent_chain (Suc (length tasks) + k) tasks guid")
  case None
  then show ?thesis using parent_chain_mono [of "Suc (length tasks)" tasks guid _ "Suc (length tasks) + k"]
    by (metis le_add1 not_None_eq)
next
  case (Some chain)
  show ?thesis unfolding Some parent_chain_bound [OF Some] ..
qed

end
