(* ===== verification/View_Witnesses.thy ===== *)
theory View_Witnesses
  imports Process_Route_Laws Replay_Laws Instance_Witnesses Template_Witnesses
begin

text \<open>
  The properties of the pages on a small tenant: a running instance that Ann, an editor, started, a suspended one
  that somebody else started and in which Ann has a task, and an administrator of the same name elsewhere.
\<close>

definition demo_run :: "string \<Rightarrow> int \<Rightarrow> string \<Rightarrow> int \<Rightarrow> string \<Rightarrow> instance_row" where
  "demo_run tenant i model starter status =
     \<lparr>ir_id = i, ir_tenant = tenant, ir_model = model, ir_display = None, ir_status = status, ir_initiator = starter,
      ir_started_at = Some i, ir_ended_at = None, ir_updated_at = i, ir_definition = None, ir_milestone = None, ir_state = None\<rparr>"

definition demo_work :: "string \<Rightarrow> work_row" where
  "demo_work tenant = \<lparr>wk_id = 1, wk_tenant = tenant, wk_instance = 7, wk_completed = False, wk_title = None, wk_name = None,
     wk_lane = None, wk_lane_group = None, wk_owner = None, wk_completer = None, wk_status = ''READY'',
     wk_created_at = 0, wk_updated_at = 0\<rparr>"

definition demo_task :: "string \<Rightarrow> string \<Rightarrow> runtime_task" where
  "demo_task tenant guid = \<lparr>rt_guid = guid, rt_tenant = tenant, rt_instance = 7, rt_definition = 1, rt_process = None,
     rt_state = ''COMPLETED'', rt_properties = PDict [], rt_data = PDict []\<rparr>"

definition demo_activity :: "string \<Rightarrow> event_row" where
  "demo_activity tenant = \<lparr>er_id = 3, er_tenant = tenant, er_instance = 7, er_type = ''task_completed'', er_guid = Some ''x'',
     er_user = Some 5, er_category = None, er_occurred_at = 1\<rparr>"

definition demo_runtime :: "string \<Rightarrow> runtime_db" where
  "demo_runtime tenant = \<lparr>rd_instances = [demo_run tenant 7 ''h/a'' 5 ''user_input_required'', demo_run tenant 8 ''h/b'' 6 ''suspended''],
     rd_work = [demo_work tenant], rd_candidates = [\<lparr>cr_work_item = 1, cr_user = 5, cr_tenant = tenant, cr_added_by = None\<rparr>],
     rd_people = [\<lparr>pr_id = 5, pr_username = Some ''ann'', pr_display = None\<rparr>], rd_groups = [],
     rd_tasks = [demo_task tenant ''x'', demo_task tenant ''y''],
     rd_specs = [\<lparr>ts_id = 1, ts_bpmn_identifier = ''Approve'', ts_bpmn_name = None, ts_typename = ''UserTask'', ts_properties = PDict []\<rparr>],
     rd_processes = [], rd_events = [demo_activity tenant], rd_failures = [], rd_definitions = []\<rparr>"

definition demo_query_env :: query_env where
  "demo_query_env = \<lparr>qe_now = 0, qe_active = [''user_input_required''], qe_rank = (\<lambda>_. 0), qe_seconds = (\<lambda>_. 0),
     qe_category = (\<lambda>_. None), qe_catalog = demo_catalog, qe_disk = demo_disk\<rparr>"

definition ann :: actor where
  "ann = demo_actor [demo_group 1 (role_of ''t'' ''editor'')]"

definition ann_web :: web where
  "ann_web = demo_web ''t'' ''editor''"

lemma ann_here: "g_user ann_web = Some ann"
  by code_simp

lemma ann_reads_own: "reads_own_only ann_web ann"
  by code_simp

lemma demo_consistent: "work_consistent (demo_runtime tenant)"
  by (simp add: work_consistent_def demo_runtime_def demo_run_def demo_work_def)

subsection \<open>Lists\<close>


lemma run_stats_agree_with_the_model_page_witness:
  "map_of (process_model_run_stats demo_query_env (demo_runtime ''t'') None) (''t'', ''h/a'') = Some (Some 7, 1)"
proof -
  have "in_tenant None ''t''" by (simp add: in_tenant_def)
  moreover have "count_instances_for_process_model (demo_runtime ''t'') ''t'' ''h/a'' \<noteq> 0"
    "ms_last_run (process_model_detail_stats demo_query_env (demo_runtime ''t'') ''t'' ''h/a'') = Some 7"
    "ms_runs_30d (process_model_detail_stats demo_query_env (demo_runtime ''t'') ''t'' ''h/a'') = 1" by code_simp+
  ultimately show ?thesis
    using run_stats_agree_with_the_model_page [of None "''t''" demo_query_env "demo_runtime ''t''" "''h/a''"] by (simp add: Let_def)
qed


subsection \<open>The data of a task\<close>

definition replayed_state :: pyval where
  "replayed_state = PDict [(''tasks'', PDict
     [(''r'', PDict [(''data'', PDict [(''a'', PInt 1), (''b'', PInt 2)])]),
      (''c'', PDict [(''parent'', PStr ''r''),
         (''delta'', PDict [(''updates'', PDict [(''a'', PInt 3)]), (''deletions'', PList [PStr ''b''])])])])]"

definition replayed_data :: "string \<Rightarrow> string \<rightharpoonup> pyval" where
  "replayed_data g = (if g = ''r'' then [''a'' \<mapsto> PInt 1, ''b'' \<mapsto> PInt 2] else [''a'' \<mapsto> PInt 3])"

lemma task_data_is_what_the_task_held_witness:
  "\<exists>data. task_data_from_workflow_state (Some replayed_state) ''c'' = Some data \<and> map_of data = [''a'' \<mapsto> PInt 3]"
proof -
  have s: "workflow_states replayed_state = [] @ replayed_state # []" by code_simp
  have t: "tasks_in replayed_state =
     [(''r'', PDict [(''data'', PDict [(''a'', PInt 1), (''b'', PInt 2)])]),
      (''c'', PDict [(''parent'', PStr ''r''),
         (''delta'', PDict [(''updates'', PDict [(''a'', PInt 3)]), (''deletions'', PList [PStr ''b''])])])]"
    by code_simp
  have at: "map_of (tasks_in replayed_state) ''c'' \<noteq> None" by (simp add: t)
  have rooted: "rooted (tasks_in replayed_state)"
    unfolding rooted_def t
    by (rule exI [of _ "\<lambda>g. if g = ''r'' then 0 else 1"])
       (auto simp: parent_of_def dget_def split: if_splits)
  have records: "records (tasks_in replayed_state) replayed_data"
    unfolding records_def t
    by (auto simp: parent_of_def dget_def Let_def own_data_def py_or_def is_delta_def replayed_data_def fun_eq_iff restrict_map_def
        split: if_splits)
  have "replayed_data ''c'' = [''a'' \<mapsto> PInt 3]" by (simp add: replayed_data_def)
  with task_data_is_what_the_task_held [OF s _ at rooted records] show ?thesis by simp
qed

subsection \<open>Routes\<close>


lemma lifecycle_writes_need_permission_and_ownership_witness:
  "snd (delete_process_instance (demo_web ''t1'' ''editor'') (demo_runtime ''t1'') demo_cascade 7 demo_run_store) \<noteq> demo_run_store \<and>
   (\<exists>r. instance_of (demo_runtime ''t1'') 7 = Some r \<and> ir_tenant r = ''t1'')"
proof -
  let ?w = "demo_web ''t1'' ''editor''"
  have "rs_drafts (snd (delete_process_instance ?w (demo_runtime ''t1'') demo_cascade 7 demo_run_store)) \<noteq> rs_drafts demo_run_store"
    by code_simp
  then have c: "snd (delete_process_instance ?w (demo_runtime ''t1'') demo_cascade 7 demo_run_store) \<noteq> demo_run_store" by metis
  have t: "fst (own_tenant ?w) = Inr ''t1''" by code_simp
  from lifecycle_writes_need_permission_and_ownership [of ?w "demo_runtime ''t1''" _ _ _ _ 7 demo_cascade] c t show ?thesis by fastforce
qed



lemma own_readers_get_no_run_metrics_witness:
  "\<exists>page. get_process_model ann_web demo_query_env (demo_runtime ''t'') ''g:a'' = Inr page \<and> mp_running_now page = None"
proof -
  have "\<not> (case get_process_model ann_web demo_query_env (demo_runtime ''t'') ''g:a'' of Inl _ \<Rightarrow> True | Inr _ \<Rightarrow> False)"
    by code_simp
  then obtain page where page: "get_process_model ann_web demo_query_env (demo_runtime ''t'') ''g:a'' = Inr page"
    by (cases "get_process_model ann_web demo_query_env (demo_runtime ''t'') ''g:a''") auto
  with own_readers_get_no_run_metrics [OF ann_here ann_reads_own, of demo_query_env "demo_runtime ''t''" _ _ "''g:a''" page]
  show ?thesis by blast
qed

subsection \<open>Where the routes fall short\<close>

text \<open>The guard of a deletion counts instances by the identifier as it was sent, the deletion itself cleans it: with a
  colon in front, a group that has instances is deleted.\<close>

definition used_group :: runtime_db where
  "used_group = (demo_runtime ''t'')\<lparr>rd_instances := [demo_run ''t'' 7 ''g/a'' 6 ''waiting'']\<rparr>"

lemma uncleaned_group_id_escapes_the_guard:
  "fst (delete_process_group_route ann_web demo_catalog used_group ''g'' demo_disk ([] :: string list)) = Inl (group_has_instances 1)"
  "fst (delete_process_group_route ann_web demo_catalog used_group '':g'' demo_disk ([] :: string list)) = Inr ''/g''"
  "path_exists (disk_of (delete_process_group_route ann_web demo_catalog used_group '':g'' demo_disk ([] :: string list))) [''m'', ''t'', ''g''] = False"
  by code_simp+

lemma uncleaned_model_id_escapes_the_guard:
  "fst (delete_process_model_route ann_web demo_catalog used_group ''g:a'' demo_disk ([] :: string list)) = Inl (model_has_instances 1)"
  "fst (delete_process_model_route ann_web demo_catalog used_group ''g::a'' demo_disk ([] :: string list)) = Inr ''g//a''"
  "path_exists (disk_of (delete_process_model_route ann_web demo_catalog used_group ''g::a'' demo_disk ([] :: string list))) [''m'', ''t'', ''g'', ''a''] = False"
  by code_simp+

text \<open>An underscore in a group's id stands for any character in the guard's pattern.\<close>

lemma underscore_counts_other_groups:
  "count_instances_for_process_group ((demo_runtime ''t'')\<lparr>rd_instances := [demo_run ''t'' 7 ''axb/m'' 6 ''waiting'']\<rparr>) ''t'' ''a_b'' = 1"
  by code_simp

text \<open>The list of groups tells a reader of their own instances when somebody else's last ran.\<close>

lemma group_list_shows_foreign_runs:
  "map_sum id (map (\<lambda>(tenant, row, last, name). (gr_id row, last))) (list_process_groups ann_web demo_query_env used_group [])
     = Inr [(''g'', Some 7)]"
  by code_simp

end
