(* ===== verification/Spec2Isabelle.thy ===== *)
theory Spec2Isabelle
  imports Link_Witnesses Task_Witnesses Access_Witnesses Template_Witnesses History_Witnesses
    Instance_Witnesses Catalog_Properties View_Witnesses
begin

text \<open>
  A verification library for m8flow, a multi-tenant host around a BPMN engine. The program is
  src/m8flow-backend (the web application) and src/m8flow-nats-consumer (two broker workers).

  The program. Every request is bound to one tenant and authorized, then it runs an operation on
  the shared database: a task command that drives the engine, an operation on the tenant's own
  tables (external-form links, API keys, invitations), or a query. The host hands links to people
  outside: when a task with an \<open>externalFormUrl\<close> becomes ready, the command that made it ready
  writes one row per recipient and publishes an event; the notification worker sends the e-mails,
  from the event or from its sweep over the table; a recipient opens the link, and the submission
  claims and completes the task. The other way in is the broker: the trigger consumer starts
  instances for signed events. Both workers keep an audit trail.

  How the model corresponds to the code. A database table is the list of its rows
  (\<open>Row_Table\<close>), a row a \<open>record\<close> with the columns the code reads or writes; \<open>World\<close> holds the
  tables of the workflow side. A session is what is durable and what is written but not committed,
  so that each \<open>commit\<close> and \<open>rollback\<close> of the code is a step of the model. An operation takes the
  session and returns its result with the session it leaves; an exception is \<open>Inl\<close> of a sum. Python
  values of JSON columns and payloads are \<open>pyval\<close> (\<open>Py_Value\<close>), strings lists of characters with
  the operations of \<open>str\<close> the code uses (\<open>Py_Text\<close>), Python integers \<open>int\<close>.

  Theories, in the order of the code:
  \<^item> \<open>Py_Prelude\<close>, \<open>Py_Text\<close>, \<open>Py_Value\<close>, \<open>Row_Table\<close>: the vocabulary and the shared contracts. Locale
    \<open>compare_and_set\<close> is an \<open>UPDATE ... WHERE\<close> whose guard is false of what it wrote (the claim of
    a send, its record, release, parking, reviving); \<open>row_lifecycle\<close> is a family of operations that
    move rows along a preorder (links, API keys, the audit trail); \<open>step_system\<close> is a step relation
    with an invariant (invitations, the notification worker). Each is interpreted on the model.
  \<^item> \<open>World\<close>, \<open>Form_Producer\<close>, \<open>Form_Service\<close>, \<open>Form_Delivery\<close>: the external-form links
    (models/external_form_request.py, services/external_form_service.py,
    services/external_form_notification_service.py). \<open>Engine_Frame\<close>, \<open>Form_Laws\<close>: what each operation
    keeps; \<open>Form_Properties\<close>: submission, reading, re-issue, delivery.
  \<^item> \<open>Form_Worker\<close>, \<open>Worker_Laws\<close>: m8flow-nats-consumer/notification_worker.py, the sweep and the
    handling of a message. A sweep delivers all it owes, and no history of sweeps and messages
    damages a link.
  \<^item> \<open>Workflow\<close>, \<open>Human_Task\<close>: the task commands of workflow/__init__.py and the forms and outcome
    buttons of human_task/__init__.py; \<open>Workflow_Properties\<close>, \<open>Outcome_Properties\<close>.
  \<^item> \<open>Call_Activities\<close>: the resolution of a called process in workflow/__init__.py, with the
    index of the stored definitions and its bounded cache. \<open>Instances\<close>: the import a start may
    make, the start, drafts and instructions, suspending, resuming and the deletion of an instance.
  \<^item> \<open>Instance_Store\<close>, \<open>Instance_Queries\<close>, \<open>Instance_Views\<close>, \<open>Diagram_Only\<close>: the queries of workflow/__init__.py behind
    the designer pages over the engine's tables, the event log, the replay of task data, the diagram for readers
    without access to a model's files. \<open>Instance_View_Laws\<close>, \<open>Replay_Laws\<close>: pages put together are the listing,
    the lists of tasks agree, the log misses nothing, replayed data is what the task held.
  \<^item> \<open>Instance_Routes\<close>, \<open>Process_Routes\<close>, \<open>Path_Param\<close>: routes/process_instances_controller.py,
    routes/processes_controller.py and authorization/decorators.py, each route from its permission over the tenant
    of the request to the operation. \<open>Instance_Route_Laws\<close>, \<open>Process_Route_Laws\<close>: who sees and who changes what.
  \<^item> \<open>Api_Keys\<close>: services/nats_token_service.py, keys and trigger signatures.
  \<^item> \<open>Event_Audit\<close>: services/nats_event_audit_service.py.
  \<^item> \<open>Claims\<close>, \<open>Trigger_Consumer\<close>, \<open>Consumer_Properties\<close>: auth/claims.py with the role names, and
    m8flow-nats-consumer/trigger_event_consumer.py.
  \<^item> \<open>Authorization\<close>, \<open>Authorization_Laws\<close>: authorization/__init__.py, what a permission
    target covers, what the grants decide, the fallback on role names, the policy of the lifecycle
    commands.
  \<^item> \<open>Active_Tenant\<close>, \<open>Active_Tenant_Laws\<close>: auth/bind.py, auth/canonicalize.py, auth/tenant_context.py,
    auth/resolve.py and integrations/auth/core/membership.py, the tenant a request is bound to.
  \<^item> \<open>Tenant_Access\<close>: services/tenant_management_authorization.py and
    routes/tenant_invitation_controller.py.
  \<^item> \<open>Invitations\<close>, \<open>Invitation_Properties\<close>: services/tenant_invitation_service.py.
  \<^item> \<open>Template_Store\<close>, \<open>Templates\<close>, \<open>Template_Edits\<close>, \<open>Template_Listing\<close>: services/template_service.py,
    services/template_authorization_service.py, services/template_storage_service.py and the routes of
    routes/templates_controller.py. \<open>Template_Laws\<close> refines every request to moves of a table of
    versions; \<open>Template_Properties\<close> and \<open>Template_Safety\<close> hold the properties.
  \<^item> \<open>Catalog_Paths\<close>, \<open>Catalog_Xml\<close>, \<open>Catalog_Read\<close>, \<open>Catalog\<close>, \<open>Catalog_Files\<close>: catalog/__init__.py, the process
    models on disk. The disk is a tree with symbolic links, on which Python's \<open>realpath\<close> is computed; the guard
    and every read and write are steps on it. Locale \<open>framed\<close> (\<open>Catalog_Laws\<close>) is the contract of a step that
    keeps a relation between disks, interpreted on the steps that only write and on all of them; \<open>Catalog_Safety\<close>,
    \<open>Catalog_Drafts\<close> and \<open>Catalog_Properties\<close> hold the properties, the last one also that the depth of
    \<open>realpath\<close> is enough for every disk.
  \<^item> \<open>Redaction\<close>, \<open>Redaction_Laws\<close>: Python's backtracking regular expressions as lists of matches,
    and the redaction of services/nats_monitoring_service.py written with them, expression by expression.
  \<^item> \<open>Task_History\<close>, \<open>Task_Views\<close>, \<open>Task_Control\<close>: services/celery_task_history_service.py (the recorder that
    the task signals call, retention, the queries), services/celery_control_service.py and
    routes/celery_monitoring_controller.py. \<open>Task_Laws\<close> and \<open>Task_Properties\<close>: the two ways of writing a row
    agree, the order of the signals does not matter, and no stored text holds an API key.
  \<^item> \<open>Safe_Redirect\<close>: routes/safe_redirect.py with the part of \<open>urlparse\<close> it uses.
  \<^item> \<open>Demo\<close> and the theories named \<open>Witnesses\<close>: concrete deployments on which each property is
    applied and the definitions are evaluated.

  What the arguments stand for. Code that is not in the repository is an argument: the engine
  (\<open>core\<close>, a command run on the tables; \<open>core_keeps_forms\<close> says that it does not know the host's link
  table), hashes, message authentication codes and random draws, the mail server, the secret store,
  the identity provider's directory, the JSON and XML parsers, the template engine, the catalog's
  files as the task commands read them, the modification times of files and the dedup bucket of the
  broker. Environment records also say which calls raise.
  Concurrency enters as other sessions' writes between a read and the write that follows it
  (\<open>post_meanwhile\<close>) and as arbitrary sequences of operations.

  Bounds and fuel. Recursion is structural or has a measure (\<open>parts_of\<close>, \<open>last_part\<close>,
  \<open>replace_text\<close>, \<open>sub_from\<close>). An unbounded repetition of a regular expression is bounded by the length of what is
  left, since each round consumes. \<open>join_real\<close> enters a link once, so the number of links bounds its depth
  (\<open>realpath_never_runs_out_of_depth\<close>). The walk from a task to its root has a depth, too: the number of tasks, after
  which a walk that is still under way never ends, in the code as in the model (\<open>walk_to_the_root_needs_no_more_depth\<close>).
  The decoding of a path shortens it in every round. The record of a send is retried at most \<open>MARK_SENT_ATTEMPTS\<close> times, as the code
  does; \<open>record_sent_from\<close> counts these attempts down, so its bound is the code's own. Characters are
  the code points below 256; strings beyond that are not covered.

  Not modelled: process models made from templates; script unit tests; token verification and the calls
  of the identity provider; the monitoring pages; connectors; request parsing and serialisation;
  start-up, logging and metrics; the fetch loops and broker connections of the workers; the user
  interface and the separate programs of the repository. They are input and output, calls of third-party
  programs, or generated.
\<close>

end
